(* ===== verification/Prelude.thy ===== *)
theory Prelude
  imports Complex_Main "HOL-Library.AList" "HOL-Library.Sublist" "HOL-Library.Multiset"
begin

text \<open>
  What the components share: the collections of simplification rules, the JavaScript string
  operations the sources call, truthiness and defaulting, decimal rendering of integers, the
  insertion-ordered \<^verbatim>\<open>Map\<close> and \<^verbatim>\<open>Set\<close>, the stable
  \<^verbatim>\<open>Array.prototype.sort\<close>, and the two interfaces (\<open>keyed_store\<close>,
  \<open>normaliser\<close>) on which several components rely.

  A JavaScript string is a \<open>string\<close> holding its UTF-8 bytes. Concatenation, equality, prefix
  tests, and slicing at the position of a found marker agree with the UTF-16 view of the source,
  because UTF-8 is self-synchronising; where the source counts UTF-16 units (\<open>utf16_length\<close>)
  they are counted from the bytes. Case mapping is ASCII: the only other code point whose lower case is
  an ASCII letter is U+212A, so comparisons with the ASCII keywords of the sources are decided
  alike on every string that does not contain it. An optional string (\<^verbatim>\<open>undefined\<close>
  or \<^verbatim>\<open>null\<close>) is a \<open>string option\<close>.
\<close>

named_theorems js_defs "definitions of the JavaScript library operations"
named_theorems zh_defs "the byte strings of the user-interface texts"
named_theorems zh_nonempty "the user-interface texts are non-empty"

section \<open>Truthiness and defaults\<close>

abbreviation str_or :: "string \<Rightarrow> string \<Rightarrow> string" where
  "str_or s d \<equiv> (if s = [] then d else s)" \<comment> \<open>\<^verbatim>\<open>s || d\<close> on strings\<close>

definition ostr :: "string option \<Rightarrow> string" where
  "ostr v = (case v of None \<Rightarrow> [] | Some s \<Rightarrow> s)" \<comment> \<open>\<^verbatim>\<open>String(v || '')\<close>\<close>

definition oint :: "int option \<Rightarrow> int" where
  "oint v = (case v of None \<Rightarrow> 0 | Some n \<Rightarrow> n)" \<comment> \<open>\<^verbatim>\<open>Number(v || 0)\<close>\<close>

definition olist :: "'a list option \<Rightarrow> 'a list" where
  "olist v = (case v of None \<Rightarrow> [] | Some xs \<Rightarrow> xs)" \<comment> \<open>\<^verbatim>\<open>v || []\<close>\<close>

lemma ostr_simps [simp]: "ostr None = []" "ostr (Some s) = s"
  by (simp_all add: ostr_def)

lemma oint_simps [simp]: "oint None = 0" "oint (Some n) = n"
  by (simp_all add: oint_def)

lemma olist_simps [simp]: "olist None = []" "olist (Some xs) = xs"
  by (simp_all add: olist_def)

section \<open>Strings\<close>

definition lower_char :: "char \<Rightarrow> char" where
  "lower_char c = (let n = of_char c :: nat in if 65 \<le> n \<and> n \<le> 90 then char_of (n + 32) else c)"

definition toLowerCase :: "string \<Rightarrow> string" where
  "toLowerCase s = map lower_char s"

definition upper_char :: "char \<Rightarrow> char" where
  "upper_char c = (let n = of_char c :: nat in if 97 \<le> n \<and> n \<le> 122 then char_of (n - 32) else c)"

definition toUpperCase :: "string \<Rightarrow> string" where
  "toUpperCase s = map upper_char s"

lemma lower_char_idem [simp]: "lower_char (lower_char c) = lower_char c"
  by (simp add: lower_char_def Let_def)

lemma toLowerCase_idem [simp]: "toLowerCase (toLowerCase s) = toLowerCase s"
  by (simp add: toLowerCase_def)

lemma toLowerCase_simps [simp]:
  "toLowerCase [] = []" "toLowerCase (c # s) = lower_char c # toLowerCase s"
  "toLowerCase (s @ t) = toLowerCase s @ toLowerCase t"
  by (simp_all add: toLowerCase_def)

lemma length_toLowerCase [simp]: "length (toLowerCase s) = length s"
  by (simp add: toLowerCase_def)

text \<open>The UTF-8 encodings of the code points that \<^verbatim>\<open>trim\<close> and \<open>\<^verbatim>\<open>\s\<close>\<close> treat as white space.\<close>

definition js_ws :: "string list" where
  "js_ws = [[CHR 0x09], [CHR 0x0A], [CHR 0x0B], [CHR 0x0C], [CHR 0x0D], [CHR 0x20],
     [CHR 0xC2, CHR 0xA0], [CHR 0xE1, CHR 0x9A, CHR 0x80],
     [CHR 0xE2, CHR 0x80, CHR 0x80], [CHR 0xE2, CHR 0x80, CHR 0x81], [CHR 0xE2, CHR 0x80, CHR 0x82],
     [CHR 0xE2, CHR 0x80, CHR 0x83], [CHR 0xE2, CHR 0x80, CHR 0x84], [CHR 0xE2, CHR 0x80, CHR 0x85],
     [CHR 0xE2, CHR 0x80, CHR 0x86], [CHR 0xE2, CHR 0x80, CHR 0x87], [CHR 0xE2, CHR 0x80, CHR 0x88],
     [CHR 0xE2, CHR 0x80, CHR 0x89], [CHR 0xE2, CHR 0x80, CHR 0x8A], [CHR 0xE2, CHR 0x80, CHR 0xA8],
     [CHR 0xE2, CHR 0x80, CHR 0xA9], [CHR 0xE2, CHR 0x80, CHR 0xAF], [CHR 0xE2, CHR 0x81, CHR 0x9F],
     [CHR 0xE3, CHR 0x80, CHR 0x80], [CHR 0xEF, CHR 0xBB, CHR 0xBF]]"

definition head_ws :: "string list \<Rightarrow> string \<Rightarrow> string option" where
  "head_ws ws s = find (\<lambda>w. w \<noteq> [] \<and> prefix w s) ws"

lemma head_ws_Some: "head_ws ws s = Some w \<Longrightarrow> w \<noteq> [] \<and> prefix w s"
  by (auto simp: head_ws_def find_Some_iff)

function strip_ws :: "string list \<Rightarrow> string \<Rightarrow> string" where
  "strip_ws ws s = (case head_ws ws s of None \<Rightarrow> s | Some w \<Rightarrow> strip_ws ws (drop (length w) s))"
  by pat_completeness auto
termination
proof (relation "measure (\<lambda>(ws, s). length s)")
  fix ws s w assume "head_ws ws s = Some w"
  then have "w \<noteq> []" "prefix w s" by (auto dest: head_ws_Some)
  then have "0 < length w" "length w \<le> length s" by (auto dest: prefix_length_le)
  then have "length s - length w < length s" by linarith
  then show "((ws, drop (length w) s), (ws, s)) \<in> measure (\<lambda>(ws, s). length s)" by simp
qed simp

declare strip_ws.simps [simp del]

lemma strip_ws_head: "head_ws ws (strip_ws ws s) = None"
proof (induction ws s rule: strip_ws.induct)
  case (1 ws s)
  then show ?case by (subst strip_ws.simps) (auto split: option.splits)
qed

lemma strip_ws_fix: "head_ws ws s = None \<Longrightarrow> strip_ws ws s = s"
  by (subst strip_ws.simps) simp

lemma strip_ws_suffix: "suffix (strip_ws ws s) s"
proof (induction ws s rule: strip_ws.induct)
  case (1 ws s)
  show ?case
  proof (cases "head_ws ws s")
    case None
    then show ?thesis by (simp add: strip_ws_fix)
  next
    case (Some w)
    have "suffix (strip_ws ws (drop (length w) s)) (drop (length w) s)"
      using 1 [OF Some] .
    then have "suffix (strip_ws ws (drop (length w) s)) s"
      by (meson suffix_drop suffix_order.trans)
    then show ?thesis using Some by (subst strip_ws.simps) simp
  qed
qed

text \<open>\<^verbatim>\<open>String.prototype.trim\<close>: white space is removed at the front, then at the back.\<close>

definition trim :: "string \<Rightarrow> string" where
  "trim s = rev (strip_ws (map rev js_ws) (rev (strip_ws js_ws s)))"

lemma head_ws_prefix_None:
  assumes "head_ws ws s = None" and "prefix t s"
  shows "head_ws ws t = None"
  using assms by (auto simp: head_ws_def find_None_iff dest: prefix_order.trans)

lemma trim_front: "head_ws js_ws (trim s) = None"
proof -
  have "suffix (strip_ws (map rev js_ws) (rev (strip_ws js_ws s))) (rev (strip_ws js_ws s))"
    by (rule strip_ws_suffix)
  then have "prefix (trim s) (strip_ws js_ws s)"
    by (simp add: trim_def suffix_to_prefix)
  then show ?thesis by (rule head_ws_prefix_None [OF strip_ws_head])
qed

lemma trim_back: "head_ws (map rev js_ws) (rev (trim s)) = None"
  by (simp add: trim_def strip_ws_head)

lemma trim_idem [simp]: "trim (trim s) = trim s"
  using strip_ws_fix [OF trim_front, of s] strip_ws_fix [OF trim_back, of s]
  by (simp add: trim_def [of "trim s"])

lemma trim_Nil [simp]: "trim [] = []"
  by (simp add: trim_def strip_ws_fix head_ws_def js_ws_def)

definition startsWith :: "string \<Rightarrow> string \<Rightarrow> bool" where
  "startsWith s p = prefix p s"

definition endsWith :: "string \<Rightarrow> string \<Rightarrow> bool" where
  "endsWith s p = suffix p s"

primrec indexOf :: "string \<Rightarrow> string \<Rightarrow> nat option" where
  "indexOf [] p = (if p = [] then Some 0 else None)"
| "indexOf (c # s) p = (if prefix p (c # s) then Some 0 else map_option Suc (indexOf s p))"

definition str_includes :: "string \<Rightarrow> string \<Rightarrow> bool" where
  "str_includes s p = (indexOf s p \<noteq> None)"

lemma indexOf_Some:
  "indexOf s p = Some i \<Longrightarrow> \<exists>t. s = take i s @ p @ t \<and> i + length p \<le> length s"
proof (induction s arbitrary: i)
  case Nil
  then show ?case by (simp split: if_splits)
next
  case (Cons c s)
  show ?case
  proof (cases "prefix p (c # s)")
    case True
    with Cons.prems have "i = 0" by simp
    moreover have "length p \<le> length (c # s)" using True by (rule prefix_length_le)
    ultimately show ?thesis using True by (auto simp: prefix_def)
  next
    case False
    with Cons.prems obtain j where j: "indexOf s p = Some j" "i = Suc j" by auto
    from Cons.IH [OF j(1)] j(2) show ?thesis by auto
  qed
qed

primrec join :: "string \<Rightarrow> string list \<Rightarrow> string" where
  "join sep [] = []"
| "join sep (x # xs) = (case xs of [] \<Rightarrow> x | _ # _ \<Rightarrow> x @ sep @ join sep xs)"

primrec split_char :: "char \<Rightarrow> string \<Rightarrow> string list" where
  "split_char d [] = [[]]"
| "split_char d (c # s) =
     (if c = d then [] # split_char d s
      else (c # hd (split_char d s)) # tl (split_char d s))"

lemma split_char_nonempty [simp]: "split_char d s \<noteq> []"
  by (cases s) auto

lemma join_Cons: "xs \<noteq> [] \<Longrightarrow> join sep (x # xs) = x @ sep @ join sep xs"
  by (cases xs) auto

lemma join_split_char: "join [d] (split_char d s) = s"
proof (induction s)
  case Nil
  then show ?case by simp
next
  case (Cons c s)
  obtain w ws where w: "split_char d s = w # ws" by (cases "split_char d s") auto
  with Cons show ?case by (cases ws) (auto simp: join_Cons)
qed

text \<open>\<^verbatim>\<open>s.length\<close>: one unit for each leading byte, two for code points beyond U+FFFF.\<close>

definition utf16_units :: "char \<Rightarrow> nat" where
  "utf16_units c = (let n = of_char c :: nat in
     if n < 0x80 then 1 else if n < 0xC0 then 0 else if n < 0xF0 then 1 else 2)"

definition utf16_length :: "string \<Rightarrow> nat" where
  "utf16_length s = sum_list (map utf16_units s)"

section \<open>Searching\<close>

lemma find_Some_set: "find P xs = Some x \<Longrightarrow> x \<in> set xs \<and> P x"
  by (auto simp: find_Some_iff)

lemma find_None_all: "find P xs = None \<longleftrightarrow> (\<forall>x \<in> set xs. \<not> P x)"
  by (auto simp: find_None_iff)

lemma hd_filter_nonempty: "\<exists>s \<in> set xs. s \<noteq> [] \<Longrightarrow> hd (filter (\<lambda>s. s \<noteq> []) xs) \<noteq> []"
  by (induction xs) auto

section \<open>Numbers as strings\<close>

definition digit_char :: "nat \<Rightarrow> char" where
  "digit_char n = ''0123456789'' ! n"

definition digit_val :: "char \<Rightarrow> int" where
  "digit_val c = int (of_char c) - 48"

definition is_digit :: "char \<Rightarrow> bool" where
  "is_digit c = (c \<in> set ''0123456789'')"

fun nat_str :: "nat \<Rightarrow> string" where
  "nat_str n = (if n < 10 then [digit_char n] else nat_str (n div 10) @ [digit_char (n mod 10)])"

declare nat_str.simps [simp del]

lemma nat_str_small [simp]: "n < 10 \<Longrightarrow> nat_str n = [digit_char n]"
  by (subst nat_str.simps) simp

lemma nat_str_large [simp]: "10 \<le> n \<Longrightarrow> nat_str n = nat_str (n div 10) @ [digit_char (n mod 10)]"
  by (subst nat_str.simps) simp

definition int_str :: "int \<Rightarrow> string" where \<comment> \<open>\<^verbatim>\<open>String(n)\<close> on an integer\<close>
  "int_str i = (if i < 0 then ''-'' @ nat_str (nat (- i)) else nat_str (nat i))"

definition dec_val :: "string \<Rightarrow> int" where
  "dec_val s = foldl (\<lambda>a c. 10 * a + digit_val c) 0 s"

lemma below_10_cases: "(n :: nat) < 10 \<Longrightarrow> n \<in> {0, 1, 2, 3, 4, 5, 6, 7, 8, 9}"
  unfolding insert_iff empty_iff by arith

lemma digit_val_char: "n < 10 \<Longrightarrow> digit_val (digit_char n) = int n"
  by (drule below_10_cases) (auto simp: digit_char_def digit_val_def)

lemma is_digit_char [simp]: "n < 10 \<Longrightarrow> is_digit (digit_char n)"
  by (drule below_10_cases) (auto simp: digit_char_def is_digit_def)

lemma nat_str_digits: "\<forall>c \<in> set (nat_str n). is_digit c"
proof (induction n rule: nat_str.induct)
  case (1 n)
  then show ?case by (cases "n < 10") auto
qed

lemma nat_str_nonempty [simp]: "nat_str n \<noteq> []"
  by (cases "n < 10") auto

lemma dec_val_snoc [simp]: "dec_val (s @ [c]) = 10 * dec_val s + digit_val c"
  by (simp add: dec_val_def)

lemma dec_val_nat_str [simp]: "dec_val (nat_str n) = int n"
proof (induction n rule: nat_str.induct)
  case (1 n)
  show ?case
  proof (cases "n < 10")
    case True
    then show ?thesis by (simp add: dec_val_def digit_val_char)
  next
    case False
    then have "dec_val (nat_str n) = 10 * int (n div 10) + int (n mod 10)"
      using 1 by (simp add: digit_val_char)
    also have "\<dots> = int n" by presburger
    finally show ?thesis .
  qed
qed

lemma nat_str_inj [simp]: "nat_str m = nat_str n \<longleftrightarrow> m = n"
  by (metis dec_val_nat_str of_nat_eq_iff)

lemma digit_not_minus: "\<not> is_digit (CHR ''-'')"
  by (simp add: is_digit_def)

lemma nat_str_no_minus: "nat_str m \<noteq> CHR ''-'' # s"
  using nat_str_digits [of m] digit_not_minus by (metis list.set_intros(1))

lemma int_str_inj [simp]: "int_str i = int_str j \<longleftrightarrow> i = j"
proof -
  have no: "nat_str m \<noteq> CHR ''-'' # nat_str n" "CHR ''-'' # nat_str n \<noteq> nat_str m" for m n
    using nat_str_no_minus by (auto dest: sym)
  show ?thesis by (auto simp: int_str_def no)
qed

lemma int_str_nonempty [simp]: "int_str i \<noteq> []"
  by (simp add: int_str_def)

text \<open>
  \<^verbatim>\<open>(p / q).toFixed(d)\<close> for \<open>0 \<le> p\<close>, \<open>0 < q\<close>: the nearest
  multiple of \<open>10\<^sup>-\<^sup>d\<close>, the larger one at a tie, as ECMA-262 prescribes for the exact value.
\<close>

definition round_div :: "int \<Rightarrow> int \<Rightarrow> int" where
  "round_div p q = (2 * p + q) div (2 * q)"

definition pad_zeros :: "nat \<Rightarrow> string \<Rightarrow> string" where \<comment> \<open>\<^verbatim>\<open>padStart(d, '0')\<close>\<close>
  "pad_zeros d s = replicate (d - length s) (CHR ''0'') @ s"

definition to_fixed :: "nat \<Rightarrow> int \<Rightarrow> int \<Rightarrow> string" where
  "to_fixed d p q =
     (let n = nat (round_div (p * 10 ^ d) q)
      in if d = 0 then nat_str n
         else nat_str (n div 10 ^ d) @ ''.'' @ pad_zeros d (nat_str (n mod 10 ^ d)))"

lemma round_div_bounds:
  assumes "0 < q"
  shows "2 * q * round_div p q \<le> 2 * p + q" and "2 * p + q < 2 * q * round_div p q + 2 * q"
proof -
  have "2 * q * ((2 * p + q) div (2 * q)) + (2 * p + q) mod (2 * q) = 2 * p + q" by simp
  moreover have "0 \<le> (2 * p + q) mod (2 * q)" "(2 * p + q) mod (2 * q) < 2 * q"
    using assms by simp_all
  ultimately show "2 * q * round_div p q \<le> 2 * p + q" "2 * p + q < 2 * q * round_div p q + 2 * q"
    unfolding round_div_def by linarith+
qed

definition ceil_div :: "int \<Rightarrow> int \<Rightarrow> int" where \<comment> \<open>\<^verbatim>\<open>Math.ceil(a / b)\<close>\<close>
  "ceil_div a b = - ((- a) div b)"

lemma ceil_div_bounds:
  assumes b: "0 < b"
  shows "a \<le> b * ceil_div a b" and "b * ceil_div a b < a + b"
proof -
  obtain q r where q: "q = (- a) div b" and r: "r = (- a) mod b" by blast
  have "b * q + r = - a" unfolding q r by (rule mult_div_mod_eq)
  moreover have "0 \<le> r" "r < b" unfolding r using b by simp_all
  moreover have "b * ceil_div a b = - (b * q)" by (simp add: ceil_div_def q)
  ultimately show "a \<le> b * ceil_div a b" and "b * ceil_div a b < a + b" by linarith+
qed

end
