(* ===== verification/Collections.thy ===== *)
theory Collections
  imports Prelude
begin

text \<open>
  The collections of the sources: a \<^verbatim>\<open>Map\<close> is an association list in insertion
  order (\<open>AList.update\<close> keeps the position of a key that is already there, as
  \<^verbatim>\<open>Map.prototype.set\<close> does), \<^verbatim>\<open>Array.from(new Set(xs))\<close> is \<open>uniq\<close>,
  and \<^verbatim>\<open>sort\<close> is the stable \<open>sort_by\<close>. The interfaces: \<open>keyed_store\<close> and
  \<open>ordered_store\<close> state what a client of a map may rely on, \<open>total_preorder\<close> what a comparator
  must satisfy for the sorted result to be ordered, and \<open>normaliser\<close> what it means that a routine
  brings every input to a normal form and leaves normal forms alone.
\<close>

section \<open>Keyed stores\<close>

locale keyed_store =
  fixes put :: "'k \<Rightarrow> 'v \<Rightarrow> 'm \<Rightarrow> 'm"
    and remove_key :: "'k \<Rightarrow> 'm \<Rightarrow> 'm"
    and get :: "'m \<Rightarrow> 'k \<Rightarrow> 'v option"
  assumes get_put: "get (put k v m) = (get m)(k \<mapsto> v)"
    and get_remove: "get (remove_key k m) = (get m)(k := None)"
begin

lemma get_put_same: "get (put k v m) k = Some v"
  by (simp add: get_put)

lemma get_put_other: "k \<noteq> k' \<Longrightarrow> get (put k v m) k' = get m k'"
  by (simp add: get_put)

lemma get_put_all:
  "get (fold (\<lambda>x. put (key x) (val x)) xs m) = get m ++ map_of (rev (map (\<lambda>x. (key x, val x)) xs))"
  by (induction xs arbitrary: m) (auto simp: get_put map_add_def fun_eq_iff split: option.splits)

lemma put_all_Some_iff:
  "get (fold (\<lambda>x. put (key x) (val x)) xs m) k \<noteq> None \<longleftrightarrow> get m k \<noteq> None \<or> k \<in> key ` set xs"
  by (induction xs arbitrary: m) (auto simp: get_put)

lemma put_all_Some:
  assumes "get (fold (\<lambda>x. put (key x) (val x)) xs m) k = Some v" and "get m k = None"
  shows "\<exists>x \<in> set xs. key x = k \<and> val x = v"
  using assms by (auto simp: get_put_all map_add_Some_iff dest!: map_of_SomeD)

end

locale ordered_store = keyed_store put remove_key get
  for put :: "'k \<Rightarrow> 'v \<Rightarrow> 'm \<Rightarrow> 'm" and remove_key :: "'k \<Rightarrow> 'm \<Rightarrow> 'm" and get :: "'m \<Rightarrow> 'k \<Rightarrow> 'v option" +
  fixes keys :: "'m \<Rightarrow> 'k list"
  assumes keys_get: "set (keys m) = dom (get m)"
    and keys_put: "keys (put k v m) = (if k \<in> set (keys m) then keys m else keys m @ [k])"
    and keys_remove: "keys (remove_key k m) = filter (\<lambda>k'. k' \<noteq> k) (keys m)"
begin

lemma distinct_put: "distinct (keys m) \<Longrightarrow> distinct (keys (put k v m))"
  by (simp add: keys_put)

lemma distinct_remove: "distinct (keys m) \<Longrightarrow> distinct (keys (remove_key k m))"
  by (simp add: keys_remove)

lemma distinct_put_all:
  "distinct (keys m) \<Longrightarrow> distinct (keys (fold (\<lambda>x. put (key x) (val x)) xs m))"
  by (induction xs arbitrary: m) (auto simp: distinct_put)

end

interpretation js_map: ordered_store AList.update AList.delete map_of "map fst"
proof
  fix k v and m :: "('a \<times> 'b) list"
  show "map_of (AList.update k v m) = (map_of m)(k \<mapsto> v)" by (rule update_conv')
  show "map_of (AList.delete k m) = (map_of m)(k := None)" by (rule delete_conv')
  show "set (map fst m) = dom (map_of m)" by (simp add: dom_map_of_conv_image_fst)
  show "map fst (AList.update k v m) = (if k \<in> set (map fst m) then map fst m else map fst m @ [k])"
    by (simp add: update_keys)
  show "map fst (AList.delete k m) = filter (\<lambda>k'. k' \<noteq> k) (map fst m)"
    by (simp add: delete_keys removeAll_filter_not_eq eq_commute)
qed

abbreviation map_has :: "('k \<times> 'v) list \<Rightarrow> 'k \<Rightarrow> bool" where \<comment> \<open>\<^verbatim>\<open>Map.prototype.has\<close>\<close>
  "map_has m k \<equiv> map_of m k \<noteq> None"

section \<open>Sets and sorting\<close>

primrec uniq :: "'a list \<Rightarrow> 'a list" where
  "uniq [] = []"
| "uniq (x # xs) = x # filter (\<lambda>y. y \<noteq> x) (uniq xs)"

lemma set_uniq [simp]: "set (uniq xs) = set xs"
  by (induction xs) auto

lemma distinct_uniq [simp]: "distinct (uniq xs)"
  by (induction xs) auto

lemma uniq_id: "distinct xs \<Longrightarrow> uniq xs = xs"
  by (induction xs) (auto simp: filter_id_conv)

lemma uniq_idem [simp]: "uniq (uniq xs) = uniq xs"
  by (simp add: uniq_id)

primrec insert_by :: "('a \<Rightarrow> 'a \<Rightarrow> bool) \<Rightarrow> 'a \<Rightarrow> 'a list \<Rightarrow> 'a list" where
  "insert_by le x [] = [x]"
| "insert_by le x (y # ys) = (if le x y then x # y # ys else y # insert_by le x ys)"

primrec sort_by :: "('a \<Rightarrow> 'a \<Rightarrow> bool) \<Rightarrow> 'a list \<Rightarrow> 'a list" where
  "sort_by le [] = []"
| "sort_by le (x # xs) = insert_by le x (sort_by le xs)"

lemma mset_insert_by [simp]: "mset (insert_by le x xs) = add_mset x (mset xs)"
  by (induction xs) auto

lemma mset_sort_by [simp]: "mset (sort_by le xs) = mset xs"
  by (induction xs) auto

lemma set_sort_by [simp]: "set (sort_by le xs) = set xs"
  by (metis mset_sort_by set_mset_mset)

lemma length_sort_by [simp]: "length (sort_by le xs) = length xs"
  by (metis mset_sort_by size_mset)

lemma distinct_sort_by [simp]: "distinct (sort_by le xs) = distinct xs"
  by (metis mset_sort_by mset_eq_imp_distinct_iff)

locale total_preorder =
  fixes le :: "'a \<Rightarrow> 'a \<Rightarrow> bool"
  assumes le_total: "le x y \<or> le y x"
    and le_trans: "le x y \<Longrightarrow> le y z \<Longrightarrow> le x z"
begin

lemma sorted_insert_by: "sorted_wrt le xs \<Longrightarrow> sorted_wrt le (insert_by le x xs)"
proof (induction xs)
  case Nil
  then show ?case by simp
next
  case (Cons y ys)
  have set_ins: "set (insert_by le x ys) = insert x (set ys)"
    by (metis mset_insert_by set_mset_add_mset_insert set_mset_mset)
  show ?case
  proof (cases "le x y")
    case True
    then show ?thesis using Cons.prems le_trans by auto
  next
    case False
    then have "le y x" using le_total by blast
    then show ?thesis using False Cons set_ins by auto
  qed
qed

lemma sorted_sort_by: "sorted_wrt le (sort_by le xs)"
  by (induction xs) (simp_all add: sorted_insert_by)

end

section \<open>Normal forms\<close>

locale normaliser =
  fixes nf :: "'a \<Rightarrow> 'a" and normal :: "'a \<Rightarrow> bool"
  assumes normal_nf: "normal (nf x)"
    and nf_normal: "normal x \<Longrightarrow> nf x = x"
begin

lemma nf_idem: "nf (nf x) = nf x"
  by (rule nf_normal [OF normal_nf])

lemma nf_fixpoint: "nf x = x \<longleftrightarrow> normal x"
  by (metis nf_normal normal_nf)

lemma range_nf: "range nf = {x. normal x}"
  using normal_nf nf_normal by (auto intro!: rangeI image_eqI [OF sym])

end

interpretation trim_nf: normaliser trim "\<lambda>s. trim s = s"
  by unfold_locales simp_all

interpretation lower_nf: normaliser toLowerCase "\<lambda>s. toLowerCase s = s"
  by unfold_locales simp_all

end
