(* ===== verification/JSValue.thy ===== *)
theory JSValue
  imports Collections
begin

text \<open>
  Values of unknown type: JSON payloads, the index signature \<^verbatim>\<open>[key: string]: unknown\<close>
  of the API types, and raw form inputs. A number is the rational it denotes; conversions that may
  give \<^verbatim>\<open>NaN\<close> or an infinity return \<open>None\<close>, which every caller in the sources
  tests for with \<^verbatim>\<open>Number.isFinite\<close> or replaces. Printing covers the decimals below
  \<open>10\<^sup>2\<^sup>1\<close> with at most twenty fractional digits, which JavaScript writes without an exponent.
\<close>

datatype jsval =
    JUndef
  | JNull
  | JBool bool
  | JNum rat
  | JStr string
  | JArr "jsval list"
  | JObj "(string \<times> jsval) list"

definition truthy :: "jsval \<Rightarrow> bool" where
  "truthy v = (case v of
      JUndef \<Rightarrow> False | JNull \<Rightarrow> False | JBool b \<Rightarrow> b | JNum n \<Rightarrow> n \<noteq> 0
    | JStr s \<Rightarrow> s \<noteq> [] | JArr _ \<Rightarrow> True | JObj _ \<Rightarrow> True)"

lemma truthy_simps [simp]:
  "\<not> truthy JUndef" "\<not> truthy JNull" "truthy (JBool b) = b" "truthy (JNum n) = (n \<noteq> 0)"
  "truthy (JStr s) = (s \<noteq> [])" "truthy (JArr xs)" "truthy (JObj kvs)"
  by (simp_all add: truthy_def)

definition js_nullish :: "jsval \<Rightarrow> bool" where \<comment> \<open>\<^verbatim>\<open>v == null\<close>\<close>
  "js_nullish v = (v = JUndef \<or> v = JNull)"

definition is_object :: "jsval \<Rightarrow> bool" where \<comment> \<open>\<^verbatim>\<open>v && typeof v === 'object'\<close>\<close>
  "is_object v = (case v of JArr _ \<Rightarrow> True | JObj _ \<Rightarrow> True | _ \<Rightarrow> False)"

definition js_field :: "jsval \<Rightarrow> string \<Rightarrow> jsval" where \<comment> \<open>own property, \<^verbatim>\<open>undefined\<close> when absent\<close>
  "js_field v k = (case v of JObj kvs \<Rightarrow> (case map_of kvs k of None \<Rightarrow> JUndef | Some w \<Rightarrow> w) | _ \<Rightarrow> JUndef)"

definition js_has_field :: "jsval \<Rightarrow> string \<Rightarrow> bool" where \<comment> \<open>\<^verbatim>\<open>k in v\<close>\<close>
  "js_has_field v k = (case v of JObj kvs \<Rightarrow> map_of kvs k \<noteq> None | _ \<Rightarrow> False)"

section \<open>Number to string\<close>

fun frac_digits :: "nat \<Rightarrow> rat \<Rightarrow> string" where
  "frac_digits 0 r = []"
| "frac_digits (Suc fuel) r =
     (if r = 0 then [] else digit_char (nat \<lfloor>10 * r\<rfloor>) # frac_digits fuel (10 * r - of_int \<lfloor>10 * r\<rfloor>))"

definition num_str :: "rat \<Rightarrow> string" where \<comment> \<open>\<^verbatim>\<open>String(n)\<close>\<close>
  "num_str r =
     (if r = of_int \<lfloor>r\<rfloor> then int_str \<lfloor>r\<rfloor>
      else (if r < 0 then ''-'' else []) @ nat_str (nat \<lfloor>\<bar>r\<bar>\<rfloor>) @ ''.''
             @ frac_digits 20 (\<bar>r\<bar> - of_int \<lfloor>\<bar>r\<bar>\<rfloor>))"

lemma num_str_int [simp]: "num_str (of_int i) = int_str i"
  by (simp add: num_str_def)

text \<open>\<^verbatim>\<open>String(v)\<close>: arrays join their elements with commas, \<^verbatim>\<open>null\<close> and
  \<^verbatim>\<open>undefined\<close> elements being empty.\<close>

fun js_string :: "jsval \<Rightarrow> string" where
  "js_string JUndef = ''undefined''"
| "js_string JNull = ''null''"
| "js_string (JBool b) = (if b then ''true'' else ''false'')"
| "js_string (JNum n) = num_str n"
| "js_string (JStr s) = s"
| "js_string (JArr xs) = join '','' (map (\<lambda>x. if js_nullish x then [] else js_string x) xs)"
| "js_string (JObj kvs) = ''[object Object]''"

section \<open>String to number\<close>

definition parse_exponent :: "string \<Rightarrow> int option" where
  "parse_exponent s =
     (if s = [] then Some 0
      else if hd s = CHR ''e'' \<or> hd s = CHR ''E'' then
        (let t = tl s;
             neg = (t \<noteq> [] \<and> hd t = CHR ''-'');
             ds = (if t \<noteq> [] \<and> (hd t = CHR ''-'' \<or> hd t = CHR ''+'') then tl t else t)
         in if ds \<noteq> [] \<and> list_all is_digit ds then Some (if neg then - dec_val ds else dec_val ds) else None)
      else None)"

definition scale10 :: "rat \<Rightarrow> int \<Rightarrow> rat" where
  "scale10 r e = (if 0 \<le> e then r * 10 ^ nat e else r / 10 ^ nat (- e))"

definition parse_unsigned :: "string \<Rightarrow> rat option" where
  "parse_unsigned s =
     (let ip = takeWhile is_digit s; r = dropWhile is_digit s;
          dot = (r \<noteq> [] \<and> hd r = CHR ''.'');
          fp = (if dot then takeWhile is_digit (tl r) else []);
          rest = (if dot then dropWhile is_digit (tl r) else r)
      in if ip = [] \<and> fp = [] then None
         else map_option (scale10 (of_int (dec_val (ip @ fp)) / 10 ^ length fp)) (parse_exponent rest))"

definition radix_digit :: "char \<Rightarrow> int option" where
  "radix_digit c =
     (if is_digit c then Some (digit_val c)
      else case indexOf ''abcdef'' [lower_char c] of None \<Rightarrow> None | Some i \<Rightarrow> Some (10 + int i))"

definition parse_radix :: "int \<Rightarrow> string \<Rightarrow> rat option" where
  "parse_radix b ds =
     (if ds \<noteq> [] \<and> list_all (\<lambda>c. case radix_digit c of None \<Rightarrow> False | Some d \<Rightarrow> d < b) ds
      then Some (of_int (foldl (\<lambda>a c. b * a + (case radix_digit c of None \<Rightarrow> 0 | Some d \<Rightarrow> d)) 0 ds))
      else None)"

definition string_to_number :: "string \<Rightarrow> rat option" where
  "string_to_number s0 =
     (let s = trim s0; p = toLowerCase (take 2 s) in
      if s = [] then Some 0
      else if p = ''0x'' then parse_radix 16 (drop 2 s)
      else if p = ''0o'' then parse_radix 8 (drop 2 s)
      else if p = ''0b'' then parse_radix 2 (drop 2 s)
      else if hd s = CHR ''-'' then map_option uminus (parse_unsigned (tl s))
      else if hd s = CHR ''+'' then parse_unsigned (tl s)
      else parse_unsigned s)"

text \<open>\<^verbatim>\<open>Number(v)\<close>, \<open>None\<close> for \<^verbatim>\<open>NaN\<close> and the infinities.\<close>

definition js_number :: "jsval \<Rightarrow> rat option" where
  "js_number v = (case v of
      JUndef \<Rightarrow> None | JNull \<Rightarrow> Some 0 | JBool b \<Rightarrow> Some (if b then 1 else 0) | JNum n \<Rightarrow> Some n
    | JStr s \<Rightarrow> string_to_number s | JArr _ \<Rightarrow> string_to_number (js_string v)
    | JObj _ \<Rightarrow> None)"

lemma digits_takeWhile [simp]:
  "\<forall>c \<in> set s. is_digit c \<Longrightarrow> takeWhile is_digit s = s"
  "\<forall>c \<in> set s. is_digit c \<Longrightarrow> dropWhile is_digit s = []"
  by (induction s) auto

lemma parse_unsigned_nat_str [simp]: "parse_unsigned (nat_str n) = Some (of_nat n)"
  using nat_str_digits [of n]
  by (simp add: parse_unsigned_def Let_def parse_exponent_def scale10_def)

end
