(* ===== verification/ApiTypes.thy ===== *)
theory ApiTypes
  imports JSValue
begin

text \<open>
  The records of \<^verbatim>\<open>src/web/src/api/types.ts\<close>. A field that is optional in the source is
  an \<open>option\<close>. The \<^verbatim>\<open>enabled\<close> flags are \<open>bool option\<close> although the source types
  them as booleans, because the code itself provides for their absence (it tests
  \<^verbatim>\<open>enabled !== false\<close> in some places and truthiness in others). Identifiers, ports and
  byte counts are integers; rates and window lengths are rationals. The index signature of
  \<^verbatim>\<open>Inbound\<close> is the list \<open>ib_extra\<close>.
\<close>

definition not_false :: "bool option \<Rightarrow> bool" where \<comment> \<open>\<^verbatim>\<open>v !== false\<close>\<close>
  "not_false v = (v \<noteq> Some False)"

definition is_on :: "bool option \<Rightarrow> bool" where \<comment> \<open>truthiness of \<^verbatim>\<open>v\<close>\<close>
  "is_on v = (v = Some True)"

lemma flag_simps [simp]:
  "not_false None" "not_false (Some b) = b" "\<not> is_on None" "is_on (Some b) = b"
  by (simp_all add: not_false_def is_on_def)

section \<open>Nodes, clients, outbounds and routing rules\<close>

record client =
  cl_id :: int
  cl_inbound_id :: int
  cl_email :: string
  cl_uuid :: string
  cl_credential_id :: "string option"
  cl_stats_key :: "string option"
  cl_password :: "string option"
  cl_subscription_token :: "string option"
  cl_enabled :: "bool option"
  cl_traffic_limit :: "int option"
  cl_expiry_at :: "int option"

record inbound =
  ib_id :: int
  ib_remark :: string
  ib_protocol :: string
  ib_core :: "string option"
  ib_port :: int
  ib_network :: string
  ib_security :: string
  ib_enabled :: "bool option"
  ib_uuid :: "string option"
  ib_clients :: "client list option"
  ib_extra :: "(string \<times> jsval) list"

record outbound =
  ob_id :: int
  ob_tag :: string
  ob_remark :: "string option"
  ob_protocol :: string
  ob_address :: "string option"
  ob_port :: "int option"
  ob_username :: "string option"
  ob_password :: "string option"
  ob_supported_cores :: "string list option"
  ob_enabled :: "bool option"
  ob_sort :: "int option"
  ob_source :: "string option"
  ob_subscription_id :: "int option"
  ob_extra :: "(string \<times> jsval) list" \<comment> \<open>\<^verbatim>\<open>raw_link\<close>, \<^verbatim>\<open>settings_json\<close> and the index signature\<close>

record routing_rule =
  rr_id :: int
  rr_remark :: "string option"
  rr_inbound_id :: "int option"
  rr_inbound_tag :: "string option"
  rr_client_id :: "int option"
  rr_client_email :: "string option"
  rr_client_label :: "string option"
  rr_domain :: "string option"
  rr_ip :: "string option"
  rr_rule_set :: "string option"
  rr_protocol :: "string option"
  rr_outbound_id :: "int option"
  rr_outbound_tag :: string
  rr_enabled :: "bool option"
  rr_sort_order :: "int option"

record outbound_subscription =
  os_id :: int
  os_remark :: string
  os_url :: string
  os_tag_prefix :: string
  os_update_interval_seconds :: int
  os_enabled :: "bool option"
  os_allow_private :: "bool option"
  os_prepend :: "bool option"
  os_priority :: int
  os_last_fetched_at :: "string option"
  os_last_attempt_at :: "string option"
  os_last_error :: "string option"
  os_outbound_count :: "int option"

record pool_proxy =
  pp_protocol :: "string option"
  pp_address :: string
  pp_port :: int
  pp_username :: "string option"
  pp_password :: "string option"
  pp_country_code :: string
  pp_country :: string
  pp_city :: string
  pp_asn :: string
  pp_organization :: string

record ping_result =
  pg_latency :: rat
  pg_method :: "string option"
  pg_error :: "string option"

section \<open>Results of writing to the cores\<close>

record singbox_summary =
  ss_applied :: "bool option"
  ss_error :: "string option"
  ss_reason :: "string option"
  ss_detail :: "string option"
  ss_output :: "string option"
  ss_commands_executed :: "string list option"
  ss_warnings :: "string list option"
  ss_post_apply_warnings :: "string list option"
  ss_non_fatal_warnings :: "string list option"

record xray_summary =
  xs_applied :: "bool option"
  xs_status :: "string option"
  xs_error :: "string option"
  xs_detail :: "string option"
  xs_commands_executed :: "string list option"
  xs_warnings :: "string list option"
  xs_post_apply_warnings :: "string list option"
  xs_error_output :: "string option"

record apply_job =
  aj_id :: string
  aj_core :: string
  aj_status :: string
  aj_error :: "string option"
  aj_detail :: "string option"
  aj_message :: "string option"
  aj_accepted :: "bool option"
  aj_retry_count :: "int option"
  aj_max_retries :: "int option"

section \<open>Traffic\<close>

record traffic_metric =
  tm_up :: int
  tm_down :: int
  tm_total :: int
  tm_status :: string
  tm_source :: string
  tm_message :: string

record traffic_realtime =
  tr_delta_up :: int
  tr_delta_down :: int
  tr_delta_total :: int
  tr_rate_up :: rat
  tr_rate_down :: rat
  tr_rate_total :: rat
  tr_observed_at :: string
  tr_window_seconds :: rat
  tr_status :: string
  tr_source :: string
  tr_message :: string

record traffic_total =
  tt_cumulative :: traffic_metric
  tt_realtime :: traffic_realtime

record traffic_inbound =
  ti_id :: int
  ti_remark :: string
  ti_protocol :: string
  ti_port :: int
  ti_enabled :: bool
  ti_cumulative :: traffic_metric
  ti_realtime :: traffic_realtime

record traffic_client =
  tc_id :: int
  tc_inbound_id :: int
  tc_email :: string
  tc_enabled :: bool
  tc_traffic_limit :: int
  tc_expiry_at :: int
  tc_cumulative :: traffic_metric
  tc_realtime :: traffic_realtime

record traffic_coverage =
  tv_overall :: string
  tv_engines :: "(string \<times> string) list"
  tv_ok :: int
  tv_waiting :: int
  tv_stale :: int
  tv_unavailable :: int
  tv_unsupported :: int
  tv_partial :: int
  tv_not_configured :: "int option"

record traffic_snapshot =
  sn_generated_at :: string
  sn_observed_at :: string
  sn_window_seconds :: rat
  sn_total :: traffic_total
  sn_inbounds :: "traffic_inbound list"
  sn_clients :: "traffic_client list"
  sn_coverage :: traffic_coverage

text \<open>A patch frame is parsed JSON: the fields typed as present are read with \<^verbatim>\<open>??\<close>.\<close>

record traffic_patch =
  pt_generated_at :: "string option"
  pt_observed_at :: "string option"
  pt_window_seconds :: "rat option"
  pt_total :: "traffic_total option"
  pt_inbounds :: "traffic_inbound list option"
  pt_removed_inbound_ids :: "int list option"
  pt_clients :: "traffic_client list option"
  pt_removed_client_ids :: "int list option"
  pt_coverage :: "traffic_coverage option"

end
