(* ===== verification/Cores.thy ===== *)
theory Cores
  imports ApiTypes
begin

text \<open>
  \<^verbatim>\<open>src/web/src/lib/cores.ts\<close> and \<^verbatim>\<open>lib/routing.ts\<close>: which of the two
  proxy cores serves an inbound, which cores can carry an outbound, and the tag the core configuration
  generates for an inbound. The protocol sets of the source are lists of names.
\<close>

section \<open>Texts\<close>

text \<open>The non-ASCII texts of this part of the user interface, as UTF-8 bytes.\<close>

definition zh_builtin :: string where
  "zh_builtin = [CHR 0xE5, CHR 0x86, CHR 0x85, CHR 0xE7, CHR 0xBD, CHR 0xAE]"

definition zh_level_full :: string where
  "zh_level_full = [CHR 0xE5, CHR 0xAE, CHR 0x8C, CHR 0xE6, CHR 0x95, CHR 0xB4]"

definition zh_level_basic :: string where
  "zh_level_basic = [CHR 0xE5, CHR 0x9F, CHR 0xBA, CHR 0xE7, CHR 0xA1, CHR 0x80]"

lemmas texts_Cores =
  zh_builtin_def zh_level_full_def zh_level_basic_def

lemma texts_nonempty_Cores [simp]:
  "zh_builtin \<noteq> []" "zh_level_full \<noteq> []" "zh_level_basic \<noteq> []"
  by (simp_all add: texts_Cores)

datatype core_name = Xray | SingBox

datatype support_level = Builtin | Full | Basic | NoSupport

instantiation core_name :: linorder
begin

definition less_eq_core_name :: "core_name \<Rightarrow> core_name \<Rightarrow> bool" where
  "less_eq_core_name a b \<longleftrightarrow> a = b \<or> a = Xray"

definition less_core_name :: "core_name \<Rightarrow> core_name \<Rightarrow> bool" where
  "less_core_name a b \<longleftrightarrow> a \<noteq> b \<and> a = Xray"

instance
  by intro_classes (auto simp: less_eq_core_name_def less_core_name_def intro: core_name.exhaust)

end

definition singboxInboundProtocols :: "string list" where
  "singboxInboundProtocols = [''hysteria2'', ''tuic'', ''shadowtls'']"

definition sharedOutboundProtocols :: "string list" where
  "sharedOutboundProtocols = [''socks'', ''socks5'', ''http'', ''https'', ''vless'', ''trojan'',
     ''shadowsocks'', ''freedom'', ''blackhole'', ''direct'', ''block'', ''dns'']"

definition singboxOnlyOutboundProtocols :: "string list" where
  "singboxOnlyOutboundProtocols = [''hysteria2'', ''tuic'', ''shadowtls'']"

definition builtinOutboundProtocols :: "string list" where
  "builtinOutboundProtocols = [''freedom'', ''blackhole'', ''direct'', ''block'', ''dns'']"

definition fullOutboundProtocols :: "string list" where
  "fullOutboundProtocols = [''socks'', ''socks5'', ''http'', ''https'']"

definition basicOutboundProtocols :: "string list" where
  "basicOutboundProtocols = [''vless'', ''trojan'', ''shadowsocks'', ''hysteria2'', ''tuic'', ''shadowtls'']"

lemmas protocol_sets =
  singboxInboundProtocols_def sharedOutboundProtocols_def singboxOnlyOutboundProtocols_def
  builtinOutboundProtocols_def fullOutboundProtocols_def basicOutboundProtocols_def

definition normalizeCore :: "string \<Rightarrow> core_name" where
  "normalizeCore value =
     (let raw = toLowerCase (trim value)
      in if raw = ''singbox'' \<or> raw = ''sing-box'' then SingBox else Xray)"

definition inboundCore :: "inbound \<Rightarrow> core_name" where
  "inboundCore inb =
     (if ostr (ib_core inb) \<noteq> [] then normalizeCore (ostr (ib_core inb))
      else if toLowerCase (trim (ib_protocol inb)) \<in> set singboxInboundProtocols then SingBox else Xray)"

definition outboundSupportedCores :: "string \<Rightarrow> core_name list" where
  "outboundSupportedCores protocol0 =
     (let protocol = toLowerCase (trim protocol0)
      in if protocol \<in> set singboxOnlyOutboundProtocols then [SingBox]
         else if protocol \<in> set sharedOutboundProtocols then [Xray, SingBox]
         else [])"

definition outboundSupportsCore :: "outbound option \<Rightarrow> core_name \<Rightarrow> bool" where
  "outboundSupportsCore out core =
     (case out of None \<Rightarrow> False | Some ob \<Rightarrow> core \<in> set (outboundSupportedCores (ob_protocol ob)))"

definition outboundSupportLevel :: "outbound option \<Rightarrow> support_level" where
  "outboundSupportLevel out =
     (let protocol = toLowerCase (trim (case out of None \<Rightarrow> [] | Some ob \<Rightarrow> ob_protocol ob))
      in if protocol \<in> set builtinOutboundProtocols then Builtin
         else if protocol \<in> set fullOutboundProtocols then Full
         else if protocol \<in> set basicOutboundProtocols then Basic
         else NoSupport)"

definition outboundSupportLevelLabel :: "support_level \<Rightarrow> string" where
  "outboundSupportLevelLabel level =
     (case level of Builtin \<Rightarrow> zh_builtin | Full \<Rightarrow> zh_level_full | Basic \<Rightarrow> zh_level_basic | NoSupport \<Rightarrow> [])"

definition coreLabel :: "core_name \<Rightarrow> string" where
  "coreLabel core = (if core = SingBox then ''sing-box'' else ''xray'')"

definition generatedInboundTag :: "inbound \<Rightarrow> string" where
  "generatedInboundTag inb =
     ''inbound-'' @ int_str (ib_id inb) @ ''-'' @ toLowerCase (trim (ib_protocol inb))"

section \<open>Facts about the classification\<close>

lemma coreLabel_inj [simp]: "coreLabel a = coreLabel b \<longleftrightarrow> a = b"
  by (cases a; cases b) (simp_all add: coreLabel_def)

lemma normalizeCore_cong: "toLowerCase (trim s) = toLowerCase (trim t) \<Longrightarrow> normalizeCore s = normalizeCore t"
  by (simp add: normalizeCore_def)

lemma strip_ws_ascii_front:
  assumes "s \<noteq> []" and "head_ws js_ws s = None"
  shows "strip_ws js_ws s = s"
  using assms by (simp add: strip_ws_fix)

lemma trim_fix: "head_ws js_ws s = None \<Longrightarrow> head_ws (map rev js_ws) (rev s) = None \<Longrightarrow> trim s = s"
  by (simp add: trim_def strip_ws_fix)

lemma trim_coreLabel [simp]: "trim (coreLabel c) = coreLabel c"
  by (rule trim_fix; cases c; simp add: coreLabel_def head_ws_def js_ws_def)

lemma normalizeCore_coreLabel [simp]: "normalizeCore (coreLabel c) = c"
  by (cases c) (simp_all add: normalizeCore_def Let_def coreLabel_def lower_char_def
      trim_coreLabel [of Xray, unfolded coreLabel_def, simplified]
      trim_coreLabel [of SingBox, unfolded coreLabel_def, simplified])

interpretation core_nf: normaliser "\<lambda>s. coreLabel (normalizeCore s)" "\<lambda>s. s = ''xray'' \<or> s = ''sing-box''"
proof
  fix s
  show "coreLabel (normalizeCore s) = ''xray'' \<or> coreLabel (normalizeCore s) = ''sing-box''"
    by (simp add: coreLabel_def)
next
  fix s
  assume "s = ''xray'' \<or> s = ''sing-box''"
  then have "s = coreLabel Xray \<or> s = coreLabel SingBox" by (simp add: coreLabel_def)
  then show "coreLabel (normalizeCore s) = s" by auto
qed

lemma outboundSupportedCores_distinct [simp]: "distinct (outboundSupportedCores p)"
  by (simp add: outboundSupportedCores_def Let_def)

lemma outboundSupportedCores_sorted: "sorted (outboundSupportedCores p)"
  by (simp add: outboundSupportedCores_def Let_def less_eq_core_name_def)

lemma xray_support_implies_singbox:
  "Xray \<in> set (outboundSupportedCores p) \<Longrightarrow> SingBox \<in> set (outboundSupportedCores p)"
  by (auto simp: outboundSupportedCores_def Let_def split: if_splits)

lemma support_level_none_iff:
  "outboundSupportLevel (Some ob) = NoSupport \<longleftrightarrow> outboundSupportedCores (ob_protocol ob) = []"
  by (auto simp: outboundSupportLevel_def outboundSupportedCores_def Let_def protocol_sets)

text \<open>
  
  The support level shown for an outbound agrees with the cores that can carry it: the level is
  \<open>none\<close> exactly when no core supports the protocol, a level of \<open>builtin\<close> or \<open>full\<close> means both cores
  do, and a protocol that Xray carries is carried by sing-box as well (never the other way round for
  hysteria2, tuic and shadowtls).
\<close>

theorem support_level_matches_cores:
  "(outboundSupportLevel (Some ob) = NoSupport \<longleftrightarrow> (\<forall>c. \<not> outboundSupportsCore (Some ob) c))
   \<and> (outboundSupportLevel (Some ob) \<in> {Builtin, Full} \<longrightarrow> (\<forall>c. outboundSupportsCore (Some ob) c))
   \<and> (outboundSupportsCore (Some ob) Xray \<longrightarrow> outboundSupportsCore (Some ob) SingBox)"
proof (intro conjI impI allI)
  show "outboundSupportLevel (Some ob) = NoSupport \<longleftrightarrow> (\<forall>c. \<not> outboundSupportsCore (Some ob) c)"
    by (auto simp: support_level_none_iff outboundSupportsCore_def neq_Nil_conv)
next
  fix c
  assume "outboundSupportLevel (Some ob) \<in> {Builtin, Full}"
  then have "outboundSupportedCores (ob_protocol ob) = [Xray, SingBox]"
    by (auto simp: outboundSupportLevel_def outboundSupportedCores_def Let_def protocol_sets split: if_splits)
  then show "outboundSupportsCore (Some ob) c"
    by (cases c) (simp_all add: outboundSupportsCore_def)
next
  assume "outboundSupportsCore (Some ob) Xray"
  then show "outboundSupportsCore (Some ob) SingBox"
    by (simp add: outboundSupportsCore_def xray_support_implies_singbox)
qed

definition sample_outbound :: outbound where \<comment> \<open>a concrete SOCKS outbound for the witnesses\<close>
  "sample_outbound = \<lparr>ob_id = 3, ob_tag = ''out'', ob_remark = None, ob_protocol = ''socks'', ob_address = None,
     ob_port = None, ob_username = None, ob_password = None, ob_supported_cores = None,
     ob_enabled = Some True, ob_sort = None, ob_source = None, ob_subscription_id = None, ob_extra = []\<rparr>"

lemma trim_socks: "trim ''socks'' = ''socks''"
  by (rule trim_fix) (simp_all add: head_ws_def js_ws_def)

theorem support_level_matches_cores_witness:
  "outboundSupportLevel (Some sample_outbound) = Full \<and> outboundSupportsCore (Some sample_outbound) Xray
   \<and> outboundSupportsCore (Some sample_outbound) SingBox"
proof -
  have "outboundSupportLevel (Some sample_outbound) = Full"
    by (simp add: outboundSupportLevel_def sample_outbound_def Let_def trim_socks protocol_sets lower_char_def)
  then show ?thesis using support_level_matches_cores [of sample_outbound] by simp
qed

end
