(* ===== verification/Format.thy ===== *)
theory Format
  imports Cores
begin

text \<open>
  \<^verbatim>\<open>src/web/src/lib/format.ts\<close>: how byte counts, percentages, durations, service states
  and versions are shown, and the UUID generator with its fallback. \<^verbatim>\<open>compactNumber\<close> hands its
  argument to \<^verbatim>\<open>Intl.NumberFormat\<close> and is left out. The unit index
  \<^verbatim>\<open>floor(log n / log 1024)\<close> is computed by comparison with the powers of 1024;
  \<open>unit_index_log\<close> shows that this is the formula of the source over the reals.
\<close>

section \<open>Texts\<close>

text \<open>The non-ASCII texts of this part of the user interface, as UTF-8 bytes.\<close>

definition zh_running :: string where
  "zh_running = [CHR 0xE8, CHR 0xBF, CHR 0x90, CHR 0xE8, CHR 0xA1, CHR 0x8C, CHR 0xE4, CHR 0xB8, CHR 0xAD]"

definition zh_stopped :: string where
  "zh_stopped = [CHR 0xE5, CHR 0xB7, CHR 0xB2, CHR 0xE5, CHR 0x81, CHR 0x9C, CHR 0xE6, CHR 0xAD, CHR 0xA2]"

definition zh_failure :: string where
  "zh_failure = [CHR 0xE5, CHR 0xA4, CHR 0xB1, CHR 0xE8, CHR 0xB4, CHR 0xA5]"

definition zh_unmanaged :: string where
  "zh_unmanaged = [CHR 0xE6, CHR 0x9C, CHR 0xAA, CHR 0xE6, CHR 0x89, CHR 0x98, CHR 0xE7, CHR 0xAE, CHR 0xA1]"

definition zh_not_installed :: string where
  "zh_not_installed = [CHR 0xE6, CHR 0x9C, CHR 0xAA, CHR 0xE5, CHR 0xAE, CHR 0x89, CHR 0xE8, CHR 0xA3, CHR 0x85]"

definition zh_unknown :: string where
  "zh_unknown = [CHR 0xE6, CHR 0x9C, CHR 0xAA, CHR 0xE7, CHR 0x9F, CHR 0xA5]"

lemmas texts_Format =
  zh_running_def zh_stopped_def zh_failure_def zh_unmanaged_def zh_not_installed_def
  zh_unknown_def

lemma texts_nonempty_Format [simp]:
  "zh_running \<noteq> []" "zh_stopped \<noteq> []" "zh_failure \<noteq> []" "zh_unmanaged \<noteq> []"
  "zh_not_installed \<noteq> []" "zh_unknown \<noteq> []"
  by (simp_all add: texts_Format)

section \<open>Floors of rational numerals\<close>

lemma floor_rat_numeral [simp]:
  "\<lfloor>numeral a / numeral b :: rat\<rfloor> = numeral a div numeral b"
  "\<lfloor>1 / numeral b :: rat\<rfloor> = 1 div numeral b"
  using floor_divide_of_int_eq [of "numeral a" "numeral b", where 'a = rat]
    floor_divide_of_int_eq [of 1 "numeral b", where 'a = rat]
  by simp_all

definition orat :: "rat option \<Rightarrow> rat" where \<comment> \<open>\<^verbatim>\<open>Number(v || 0)\<close>\<close>
  "orat v = (case v of None \<Rightarrow> 0 | Some r \<Rightarrow> r)"

lemma orat_simps [simp]: "orat None = 0" "orat (Some r) = r"
  by (simp_all add: orat_def)

definition fixed_rat :: "nat \<Rightarrow> rat \<Rightarrow> string" where \<comment> \<open>\<^verbatim>\<open>r.toFixed(d)\<close> for \<open>0 \<le> r\<close>\<close>
  "fixed_rat d r =
     (let n = nat \<lfloor>r * 10 ^ d + 1 / 2\<rfloor>
      in if d = 0 then nat_str n
         else nat_str (n div 10 ^ d) @ ''.'' @ pad_zeros d (nat_str (n mod 10 ^ d)))"

section \<open>Byte counts\<close>

definition byte_units :: "string list" where
  "byte_units = [''B'', ''KB'', ''MB'', ''GB'', ''TB'']"

definition unit_index :: "rat \<Rightarrow> nat" where
  "unit_index n =
     (if n < 1024 then 0 else if n < 1024 ^ 2 then 1 else if n < 1024 ^ 3 then 2
      else if n < 1024 ^ 4 then 3 else 4)"

definition formatBytes :: "rat option \<Rightarrow> string" where
  "formatBytes value =
     (let n = orat value in
      if n \<le> 0 then ''0 B''
      else (let i = unit_index n
            in fixed_rat (if i = 0 then 0 else 1) (n / 1024 ^ i) @ '' '' @ byte_units ! i))"

lemma unit_index_le: "unit_index n \<le> 4"
  by (simp add: unit_index_def)

lemma unit_index_bounds:
  assumes "0 < n"
  shows "1 \<le> n \<Longrightarrow> 1024 ^ unit_index n \<le> n" and "unit_index n < 4 \<Longrightarrow> n < 1024 ^ (unit_index n + 1)"
  using assms by (auto simp: unit_index_def split: if_splits)

lemma unit_index_unique:
  assumes "0 < n" and "1024 ^ k \<le> n" and "n < 1024 ^ (k + 1)" and "k \<le> 4"
  shows "unit_index n = k"
proof -
  have "k = 0 \<or> k = 1 \<or> k = 2 \<or> k = 3 \<or> k = 4" using assms(4) by arith
  then show ?thesis using assms(2,3) by (auto simp: unit_index_def)
qed

text \<open>The formula of the source, over the reals.\<close>

definition log_index :: "real \<Rightarrow> int" where
  "log_index x = max 0 (min \<lfloor>ln x / ln 1024\<rfloor> 4)"

lemma log_1024_floor:
  assumes "1024 ^ k \<le> x" and "x < 1024 ^ (k + 1)"
  shows "\<lfloor>ln x / ln (1024 :: real)\<rfloor> = int k"
proof -
  have pos: "0 < x" using assms(1) by (meson less_le_trans zero_less_numeral zero_less_power)
  have "ln (1024 ^ k) \<le> ln x" "ln x < ln (1024 ^ (k + 1))"
    using assms pos by (simp_all add: ln_less_cancel_iff del: power_Suc)
  then have "real k * ln 1024 \<le> ln x" "ln x < (real k + 1) * ln 1024"
    by (simp_all add: ln_realpow algebra_simps del: power_Suc)
  then show ?thesis by (simp add: floor_eq_iff field_simps)
qed

lemma unit_index_log:
  assumes "0 < n"
  shows "int (unit_index n) = log_index (of_rat n)"
proof -
  let ?x = "of_rat n :: real"
  have cmp: "?x < 1024 ^ k \<longleftrightarrow> n < 1024 ^ k" for k
    using of_rat_less [of n "1024 ^ k", where 'a = real] by (simp add: of_rat_power)
  have pos: "0 < ?x" using assms by simp
  consider (small) "n < 1024" | (mid) k where "1 \<le> k" "k \<le> 3" "1024 ^ k \<le> n" "n < 1024 ^ (k + 1)"
    | (big) "1024 ^ 4 \<le> n"
    using that(2) [of 1] that(2) [of 2] that(2) [of 3] by (fastforce simp: not_less)
  then show ?thesis
  proof cases
    case small
    then have "ln ?x / ln 1024 < 1"
      using cmp [of 1] pos by simp
    then have "\<lfloor>ln ?x / ln 1024\<rfloor> \<le> 0" by (simp add: floor_le_iff)
    then have "log_index ?x = 0" unfolding log_index_def by linarith
    then show ?thesis using small by (simp add: unit_index_def)
  next
    case mid
    have "\<lfloor>ln ?x / ln 1024\<rfloor> = int k"
      by (rule log_1024_floor) (use mid cmp [of k] cmp [of "k + 1"] in auto)
    moreover have "unit_index n = k" using unit_index_unique [OF assms mid(3,4)] mid(2) by simp
    ultimately show ?thesis using mid by (simp add: log_index_def)
  next
    case big
    have "4 * ln 1024 \<le> ln ?x"
    proof -
      have e: "ln ((1024 :: real) ^ 4) = 4 * ln 1024" by (subst ln_realpow) simp_all
      have "(1024 :: real) ^ 4 \<le> ?x" using big cmp [of 4] by linarith
      then have "ln ((1024 :: real) ^ 4) \<le> ln ?x" using pos by (subst ln_le_cancel_iff) simp_all
      then show ?thesis unfolding e .
    qed
    then have "4 \<le> \<lfloor>ln ?x / ln 1024\<rfloor>" by (simp add: le_floor_iff field_simps)
    then have "log_index ?x = 4" unfolding log_index_def by linarith
    then show ?thesis using big by (simp add: unit_index_def)
  qed
qed

lemma fixed_rat_percent: "fixed_rat 0 r = nat_str (nat \<lfloor>r + 1 / 2\<rfloor>)"
  by (simp add: fixed_rat_def)

lemma round_nearest:
  fixes r :: rat
  assumes "0 \<le> r" and "r \<le> of_nat m"
  shows "nat \<lfloor>r + 1 / 2\<rfloor> \<le> m" and "\<bar>of_nat (nat \<lfloor>r + 1 / 2\<rfloor>) - r\<bar> \<le> 1 / 2"
proof -
  obtain f where f: "f = \<lfloor>r + 1 / 2\<rfloor>" by simp
  then have b: "of_int f \<le> r + 1 / 2" "r + 1 / 2 < of_int f + 1"
    using floor_correct [of "r + 1 / 2"] by auto
  have f0: "0 \<le> f" unfolding f using assms(1) by (simp add: le_floor_iff)
  have "of_int f \<le> (of_nat m + 1 / 2 :: rat)" using b(1) assms(2) by linarith
  also have "\<dots> < of_int (int m + 1)" by simp
  finally have "f < int m + 1" by (simp only: of_int_less_iff)
  then show "nat \<lfloor>r + 1 / 2\<rfloor> \<le> m" using f by simp
  have "\<bar>of_int f - r\<bar> \<le> 1 / 2" using b by linarith
  then show "\<bar>of_nat (nat \<lfloor>r + 1 / 2\<rfloor>) - r\<bar> \<le> 1 / 2" using f0 f by simp
qed

lemma fixed_rat_one:
  "fixed_rat (Suc 0) r = nat_str (nat \<lfloor>10 * r + 1 / 2\<rfloor> div 10) @ ''.'' @ nat_str (nat \<lfloor>10 * r + 1 / 2\<rfloor> mod 10)"
  by (simp add: fixed_rat_def Let_def pad_zeros_def mult.commute)

text \<open>
  
  A byte count of at least one is shown in the unit that the logarithmic formula of the source selects,
  with a mantissa of at least 1 and, below the largest unit, less than 1024; the digits shown differ from the
  exact mantissa by at most half a unit of the last digit (one decimal, none for plain bytes).
\<close>

theorem formatBytes_accuracy:
  assumes "1 \<le> n"
  shows "\<exists>m. let i = unit_index n; x = n / 1024 ^ i in
     int i = log_index (of_rat n) \<and> 1 \<le> x \<and> (i < 4 \<longrightarrow> x < 1024)
     \<and> formatBytes (Some n) = (if i = 0 then nat_str m else nat_str (m div 10) @ ''.'' @ nat_str (m mod 10))
                               @ '' '' @ byte_units ! i
     \<and> \<bar>of_nat m - (if i = 0 then 1 else 10) * x\<bar> \<le> 1 / 2"
proof -
  define i where "i = unit_index n"
  define x where "x = n / 1024 ^ i"
  define k :: rat where "k = (if i = 0 then 1 else 10)"
  define m where "m = nat \<lfloor>k * x + 1 / 2\<rfloor>"
  have n0: "0 < n" using assms by simp
  have lo: "1 \<le> x" using unit_index_bounds(1) [OF n0 assms] by (simp add: x_def i_def)
  have hi: "x < 1024" if "i < 4"
    using unit_index_bounds(2) [OF n0] that by (simp add: x_def i_def field_simps)
  have "0 \<le> k * x" using lo by (simp add: k_def)
  then have acc: "\<bar>of_nat m - k * x\<bar> \<le> 1 / 2"
    unfolding m_def using round_nearest(2) [of "k * x" "nat \<lceil>k * x\<rceil>"] by (simp add: of_nat_ceiling)
  have "formatBytes (Some n) = fixed_rat (if i = 0 then 0 else 1) x @ '' '' @ byte_units ! i"
    using n0 by (simp add: formatBytes_def Let_def i_def x_def)
  then have "formatBytes (Some n) =
      (if i = 0 then nat_str m else nat_str (m div 10) @ ''.'' @ nat_str (m mod 10)) @ '' '' @ byte_units ! i"
    by (simp add: fixed_rat_percent fixed_rat_one m_def k_def)
  with lo hi acc unit_index_log [OF n0] show ?thesis
    unfolding Let_def i_def [symmetric] x_def [symmetric] k_def [symmetric] by blast
qed

theorem formatBytes_accuracy_witness:
  "(1 :: rat) \<le> 1536 \<and> formatBytes (Some 1536) = ''1.5 KB''
   \<and> (\<exists>m. \<bar>of_nat m - 10 * (1536 / 1024 ^ unit_index 1536 :: rat)\<bar> \<le> 1 / 2)"
proof -
  have i: "unit_index 1536 = 1" by (simp add: unit_index_def)
  have "formatBytes (Some 1536) = ''1.5 KB''"
    by (simp add: formatBytes_def Let_def i fixed_rat_one byte_units_def digit_char_def)
  moreover have "\<exists>m. \<bar>of_nat m - 10 * (1536 / 1024 ^ unit_index 1536 :: rat)\<bar> \<le> 1 / 2"
    using formatBytes_accuracy [of 1536] by (auto simp: i Let_def)
  ultimately show ?thesis by simp
qed

section \<open>Percentages and durations\<close>

definition formatPercent :: "rat option \<Rightarrow> string" where
  "formatPercent value = fixed_rat 0 (max 0 (min 100 (orat value))) @ ''%''"

definition formatDuration :: "rat option \<Rightarrow> string" where
  "formatDuration seconds =
     (let total = max 0 \<lfloor>orat seconds\<rfloor>;
          days = total div 86400;
          hours = (total mod 86400) div 3600;
          minutes = (total mod 3600) div 60
      in if days > 0 then int_str days @ ''d '' @ int_str hours @ ''h''
         else if hours > 0 then int_str hours @ ''h '' @ int_str minutes @ ''m''
         else int_str minutes @ ''m'')"

lemma formatPercent_range:
  "\<exists>k \<le> 100. formatPercent v = nat_str k @ ''%'' \<and> \<bar>of_nat k - max 0 (min 100 (orat v))\<bar> \<le> 1 / 2"
proof -
  obtain r where r: "r = max 0 (min 100 (orat v))" by simp
  have "0 \<le> r" "r \<le> of_nat 100" by (simp_all add: r)
  note b = round_nearest [OF this]
  show ?thesis
    unfolding formatPercent_def fixed_rat_percent r [symmetric] using b by blast
qed

section \<open>Service states and versions\<close>

definition serviceLabel :: "string option \<Rightarrow> string" where
  "serviceLabel status =
     (let normalized = toLowerCase (trim (ostr status)) in
      if normalized = ''running'' \<or> normalized = ''active'' then zh_running
      else if normalized = ''stopped'' \<or> normalized = ''inactive'' then zh_stopped
      else if normalized = ''failed'' then zh_failure
      else if normalized = ''not_managed'' \<or> normalized = ''unmanaged'' then zh_unmanaged
      else if normalized = ''not_installed'' then zh_not_installed
      else if normalized = ''unknown'' \<or> normalized = [] then zh_unknown
      else str_or (ostr status) zh_unknown)"

text \<open>The two regular expressions of \<^verbatim>\<open>versionLabel\<close> are matched by hand: a keyword
  compared without case, white space, and the run of non-space bytes that follows.\<close>

definition skip_spaces :: "string \<Rightarrow> string option" where \<comment> \<open>\<^verbatim>\<open>\s+\<close>\<close>
  "skip_spaces s = (if head_ws js_ws s = None then None else Some (strip_ws js_ws s))"

primrec non_space :: "string \<Rightarrow> string" where \<comment> \<open>\<^verbatim>\<open>[^\s]*\<close>\<close>
  "non_space [] = []"
| "non_space (c # s) = (if head_ws js_ws (c # s) \<noteq> None then [] else c # non_space s)"

definition skip_word :: "string \<Rightarrow> string \<Rightarrow> string option" where
  "skip_word w s = (if toLowerCase (take (length w) s) = w then Some (drop (length w) s) else None)"

definition spaced_token :: "string \<Rightarrow> string option" where \<comment> \<open>\<^verbatim>\<open>\s+([^\s]+)\<close>\<close>
  "spaced_token s = (case skip_spaces s of None \<Rightarrow> None
     | Some r \<Rightarrow> if non_space r = [] then None else Some (non_space r))"

definition match_xray :: "string \<Rightarrow> string option" where
  "match_xray s = (case skip_word ''xray'' s of None \<Rightarrow> None | Some r \<Rightarrow> spaced_token r)"

definition match_singbox :: "string \<Rightarrow> string option" where
  "match_singbox s =
     (case skip_word ''sing-box'' s of
        None \<Rightarrow> None
      | Some r \<Rightarrow>
          (let with_version =
             (case skip_spaces r of None \<Rightarrow> None
              | Some r1 \<Rightarrow> (case skip_word ''version'' r1 of None \<Rightarrow> None | Some r2 \<Rightarrow> spaced_token r2))
           in case with_version of Some v \<Rightarrow> Some v | None \<Rightarrow> spaced_token r))"

definition versionLabel :: "string option \<Rightarrow> string" where
  "versionLabel version =
     (let raw = trim (ostr version);
          firstLine = (case find (\<lambda>line. line \<noteq> [] \<and> \<not> startsWith line ''Tags:'')
                              (map trim (split_char (CHR 0x0A) raw)) of
                         None \<Rightarrow> raw | Some line \<Rightarrow> line);
          normalized = toLowerCase firstLine
      in if normalized = ''not_installed'' then zh_not_installed
         else if normalized = ''unknown'' then zh_unknown
         else (case match_xray firstLine of
                 Some v \<Rightarrow> ''Xray '' @ v
               | None \<Rightarrow> (case match_singbox firstLine of
                            Some v \<Rightarrow> ''sing-box '' @ v
                          | None \<Rightarrow> str_or firstLine ''-'')))"

lemma serviceLabel_nonempty: "serviceLabel s \<noteq> []"
  by (simp add: serviceLabel_def Let_def)

lemma str_or_nonempty: "b \<noteq> [] \<Longrightarrow> str_or a b \<noteq> []"
  by simp

lemma nonempty_cases:
  "a \<noteq> [] \<Longrightarrow> b \<noteq> [] \<Longrightarrow> (if c then a else b) \<noteq> []"
  "a \<noteq> [] \<Longrightarrow> (\<And>x. f x \<noteq> []) \<Longrightarrow> (case v of None \<Rightarrow> a | Some x \<Rightarrow> f x) \<noteq> []"
  by (auto split: option.split)

lemma versionLabel_nonempty: "versionLabel v \<noteq> []"
  unfolding versionLabel_def Let_def by (intro str_or_nonempty nonempty_cases) simp_all

section \<open>Random identifiers\<close>

definition hex_char :: "nat \<Rightarrow> char" where
  "hex_char n = ''0123456789abcdef'' ! (n mod 16)"

definition uuid_pattern :: string where
  "uuid_pattern = ''xxxxxxxx-xxxx-4xxx-yxxx-xxxxxxxxxxxx''"

text \<open>The replacement callback draws one number below 16 for each \<open>x\<close> or \<open>y\<close>; the draws are the
  list \<open>rs\<close> (a missing draw counts as 0).\<close>

fun fill_pattern :: "string \<Rightarrow> nat list \<Rightarrow> string" where
  "fill_pattern [] rs = []"
| "fill_pattern (c # s) rs =
     (let r = (case rs of [] \<Rightarrow> 0 | r # _ \<Rightarrow> r mod 16) in
      if c = CHR ''x'' then hex_char r # fill_pattern s (tl rs)
      else if c = CHR ''y'' then hex_char (r mod 4 + 8) # fill_pattern s (tl rs)
      else c # fill_pattern s rs)"

definition randomUUID :: "string option \<Rightarrow> nat list \<Rightarrow> string" where
  "randomUUID native rs = (case native of Some u \<Rightarrow> u | None \<Rightarrow> fill_pattern uuid_pattern rs)"

end
