(* ===== verification/Urls.thy ===== *)
theory Urls
  imports Format
begin

text \<open>
  Percent encoding: \<^verbatim>\<open>encodeURIComponent\<close>, the serialiser and the parser of
  \<^verbatim>\<open>URLSearchParams\<close>, and the JSON text of a request body. Strings are UTF-8 bytes, so every
  byte outside the encoder's safe set becomes one escape. The interface \<open>escape\<close> says what makes
  an encoder invertible and free of separators; both encoders interpret it.
\<close>

section \<open>Escaping\<close>

locale escape =
  fixes esc :: "char \<Rightarrow> string" and unesc :: "string \<Rightarrow> string" and separators :: "char set"
  assumes unesc_esc: "unesc (esc c @ t) = c # unesc t"
    and unesc_Nil: "unesc [] = []"
    and esc_safe: "set (esc c) \<inter> separators = {}"
begin

definition enc :: "string \<Rightarrow> string" where
  "enc s = concat (map esc s)"

lemma unesc_append: "unesc (concat (map esc s) @ t) = s @ unesc t"
  by (induction s) (simp_all add: unesc_esc)

lemma unesc_concat: "unesc (concat (map esc s)) = s"
  using unesc_append [of s "[]"] by (simp add: unesc_Nil)

lemma concat_safe: "set (concat (map esc s)) \<inter> separators = {}"
  using esc_safe by (induction s) auto

end

definition hex_upper :: "nat \<Rightarrow> char" where
  "hex_upper n = ''0123456789ABCDEF'' ! n"

definition hex_value :: "char \<Rightarrow> nat option" where
  "hex_value c = indexOf ''0123456789ABCDEF'' [upper_char c]"

definition percent_byte :: "char \<Rightarrow> string" where
  "percent_byte c = (let n = of_char c :: nat in [CHR ''%'', hex_upper (n div 16), hex_upper (n mod 16)])"

definition is_letter :: "char \<Rightarrow> bool" where
  "is_letter c = (c \<in> set ''ABCDEFGHIJKLMNOPQRSTUVWXYZabcdefghijklmnopqrstuvwxyz'')"

definition uri_escape :: "char \<Rightarrow> string" where
  "uri_escape c = (if is_digit c \<or> is_letter c \<or> c \<in> set ''-_.!~*()'' \<or> c = CHR 0x27 then [c] else percent_byte c)"

definition form_escape :: "char \<Rightarrow> string" where
  "form_escape c = (if c = CHR '' '' then ''+''
     else if is_digit c \<or> is_letter c \<or> c \<in> set ''*-._'' then [c] else percent_byte c)"

definition encodeURIComponent :: "string \<Rightarrow> string" where
  "encodeURIComponent s = concat (map uri_escape s)"

definition form_encode :: "string \<Rightarrow> string" where
  "form_encode s = concat (map form_escape s)"

text \<open>Decoding of a query component: a plus is a space, and a malformed escape stands for itself.\<close>

fun form_decode :: "string \<Rightarrow> string" where
  "form_decode [] = []"
| "form_decode (c # s) =
     (if c = CHR ''+'' then CHR '' '' # form_decode s
      else if c = CHR ''%'' then
        (case s of a # b # r \<Rightarrow>
           (case (hex_value a, hex_value b) of
              (Some x, Some y) \<Rightarrow> char_of (16 * x + y) # form_decode r
            | _ \<Rightarrow> c # form_decode s)
         | _ \<Rightarrow> c # form_decode s)
      else c # form_decode s)"

lemma below_16_cases:
  "(n :: nat) < 16 \<Longrightarrow> n \<in> {0, 1, 2, 3, 4, 5, 6, 7, 8, 9, 10, 11, 12, 13, 14, 15}"
  unfolding insert_iff empty_iff by arith

lemma hex_value_upper [simp]: "n < 16 \<Longrightarrow> hex_value (hex_upper n) = Some n"
  by (drule below_16_cases) (elim insertE emptyE; simp add: hex_value_def hex_upper_def upper_char_def)

lemma hex_upper_safe: "n < 16 \<Longrightarrow> hex_upper n \<notin> set ''/?#&=+% ''"
  by (drule below_16_cases) (auto simp: hex_upper_def)

lemma of_char_nibbles: "(of_char c :: nat) div 16 < 16" "(of_char c :: nat) mod 16 < 16"
proof -
  have "(of_char c :: nat) < 256" by simp
  then show "(of_char c :: nat) div 16 < 16" by linarith
qed simp

lemma form_decode_percent: "form_decode (percent_byte c @ t) = c # form_decode t"
proof -
  have "16 * (of_char c div 16 :: nat) + of_char c mod 16 = of_char c" by simp
  then have "char_of (16 * (of_char c div 16 :: nat) + of_char c mod 16) = c" by (simp only: char_of_char)
  then show ?thesis by (simp add: percent_byte_def Let_def of_char_nibbles)
qed

lemma percent_byte_safe: "set (percent_byte c) \<inter> set ''/?#&=+ '' = {}"
  using hex_upper_safe [OF of_char_nibbles(1)] hex_upper_safe [OF of_char_nibbles(2)]
  by (auto simp: percent_byte_def Let_def)

interpretation uri: escape uri_escape form_decode "set ''/?#&=+ ''"
proof
  fix c t
  show "form_decode (uri_escape c @ t) = c # form_decode t"
    by (auto simp: uri_escape_def form_decode_percent is_digit_def is_letter_def)
  show "set (uri_escape c) \<inter> set ''/?#&=+ '' = {}"
    using percent_byte_safe by (auto simp: uri_escape_def is_digit_def is_letter_def)
qed simp

interpretation form: escape form_escape form_decode "set ''/?#&= ''"
proof
  fix c t
  show "form_decode (form_escape c @ t) = c # form_decode t"
    by (auto simp: form_escape_def form_decode_percent is_digit_def is_letter_def)
  show "set (form_escape c) \<inter> set ''/?#&= '' = {}"
    using percent_byte_safe [of c] by (auto simp: form_escape_def is_digit_def is_letter_def)
qed simp

lemma decode_encodeURIComponent [simp]: "form_decode (encodeURIComponent s) = s"
  by (simp add: encodeURIComponent_def uri.unesc_concat)

lemma encodeURIComponent_safe: "c \<in> set (encodeURIComponent s) \<Longrightarrow> c \<notin> set ''/?#&=+ ''"
  using uri.concat_safe [of s] by (auto simp: encodeURIComponent_def)

lemma encodeURIComponent_inj [simp]: "encodeURIComponent s = encodeURIComponent t \<longleftrightarrow> s = t"
  by (metis decode_encodeURIComponent)

lemma decode_form_encode [simp]: "form_decode (form_encode s) = s"
  by (simp add: form_encode_def form.unesc_concat)

lemma form_encode_safe: "c \<in> set (form_encode s) \<Longrightarrow> c \<notin> set ''/?#&= ''"
  using form.concat_safe [of s] by (auto simp: form_encode_def)

section \<open>URLSearchParams\<close>

definition query_pair :: "string \<Rightarrow> string \<times> string" where
  "query_pair seg = (form_decode (takeWhile (\<lambda>c. c \<noteq> CHR ''='') seg),
     form_decode (drop 1 (dropWhile (\<lambda>c. c \<noteq> CHR ''='') seg)))"

definition query_pairs :: "string \<Rightarrow> (string \<times> string) list" where
  "query_pairs search =
     map query_pair (filter (\<lambda>seg. seg \<noteq> []) (split_char (CHR ''&'')
       (if startsWith search ''?'' then drop 1 search else search)))"

definition search_get :: "string \<Rightarrow> string \<Rightarrow> string option" where \<comment> \<open>\<^verbatim>\<open>new URLSearchParams(s).get(k)\<close>\<close>
  "search_get search k = map_of (query_pairs search) k"

definition params_string :: "(string \<times> string) list \<Rightarrow> string" where \<comment> \<open>\<^verbatim>\<open>params.toString()\<close>\<close>
  "params_string kvs = join ''&'' (map (\<lambda>(k, v). form_encode k @ ''='' @ form_encode v) kvs)"

lemma split_char_none: "d \<notin> set a \<Longrightarrow> split_char d a = [a]"
  by (induction a) auto

lemma split_char_append: "d \<notin> set a \<Longrightarrow> split_char d (a @ d # b) = a # split_char d b"
  by (induction a) auto

lemma split_char_join:
  "xs \<noteq> [] \<Longrightarrow> \<forall>x \<in> set xs. d \<notin> set x \<Longrightarrow> split_char d (join [d] xs) = xs"
proof (induction xs)
  case Nil
  then show ?case by simp
next
  case (Cons x xs)
  then show ?case by (cases xs) (auto simp: split_char_none split_char_append)
qed

lemma takeWhile_sep: "d \<notin> set a \<Longrightarrow> takeWhile (\<lambda>c. c \<noteq> d) (a @ d # b) = a"
  "d \<notin> set a \<Longrightarrow> dropWhile (\<lambda>c. c \<noteq> d) (a @ d # b) = d # b"
  by (induction a) auto

lemma query_pair_enc: "query_pair (form_encode k @ ''='' @ form_encode v) = (k, v)"
proof -
  have "CHR ''='' \<notin> set (form_encode k)" using form_encode_safe by fastforce
  then show ?thesis by (simp add: query_pair_def takeWhile_sep)
qed

lemma query_pairs_params: "query_pairs (''?'' @ params_string kvs) = kvs"
proof (cases "kvs = []")
  case True
  then show ?thesis by (simp add: query_pairs_def params_string_def startsWith_def)
next
  case False
  define segs where "segs = map (\<lambda>(k, v). form_encode k @ ''='' @ form_encode v) kvs"
  have noamp: "CHR ''&'' \<notin> set (form_encode s)" for s using form_encode_safe by fastforce
  have "\<forall>x \<in> set segs. CHR ''&'' \<notin> set x" by (auto simp: segs_def noamp)
  then have sp: "split_char (CHR ''&'') (params_string kvs) = segs"
    using False split_char_join [of segs "CHR ''&''"] by (simp add: segs_def params_string_def)
  have "filter (\<lambda>seg. seg \<noteq> []) segs = segs" by (auto simp: segs_def filter_id_conv)
  moreover have "map query_pair segs = kvs"
    by (auto simp: segs_def query_pair_enc [simplified] intro!: map_idI)
  ultimately show ?thesis by (simp add: query_pairs_def sp startsWith_def)
qed

lemma search_get_params: "search_get (''?'' @ params_string kvs) k = map_of kvs k"
  by (simp only: search_get_def query_pairs_params)

lemma search_get_single:
  assumes "k \<noteq> []" and "set k \<inter> set ''=&%+'' = {}"
  shows "search_get (CHR ''?'' # k @ CHR ''='' # encodeURIComponent v) k = Some v"
proof -
  have plain: "form_decode t = t" if "set t \<inter> set ''=&%+'' = {}" for t
    using that by (induction t) auto
  have na: "CHR ''&'' \<notin> set (k @ CHR ''='' # encodeURIComponent v)"
    using assms(2) encodeURIComponent_safe [of "CHR ''&''" v] by auto
  have ne: "CHR ''='' \<notin> set k" using assms(2) by auto
  show ?thesis
    using split_char_none [OF na] ne plain [OF assms(2)]
    by (simp add: search_get_def query_pairs_def startsWith_def query_pair_def takeWhile_sep)
qed

section \<open>JSON text\<close>

definition hex_lower :: "nat \<Rightarrow> char" where
  "hex_lower n = ''0123456789abcdef'' ! n"

definition json_escape :: "char \<Rightarrow> string" where
  "json_escape c = (let n = of_char c :: nat in
     if n = 34 then [CHR 0x5C, CHR 0x22] else if n = 92 then [CHR 0x5C, CHR 0x5C]
     else if n = 8 then [CHR 0x5C, CHR ''b''] else if n = 9 then [CHR 0x5C, CHR ''t'']
     else if n = 10 then [CHR 0x5C, CHR ''n''] else if n = 12 then [CHR 0x5C, CHR ''f'']
     else if n = 13 then [CHR 0x5C, CHR ''r'']
     else if n < 32 then [CHR 0x5C, CHR ''u'', CHR ''0'', CHR ''0'', hex_lower (n div 16), hex_lower (n mod 16)]
     else [c])"

definition json_quote :: "string \<Rightarrow> string" where
  "json_quote s = CHR 0x22 # concat (map json_escape s) @ [CHR 0x22]"

text \<open>\<^verbatim>\<open>JSON.stringify(v)\<close>: undefined fields are left out, undefined elements are null.\<close>

fun json_text :: "jsval \<Rightarrow> string" where
  "json_text JUndef = ''null''"
| "json_text JNull = ''null''"
| "json_text (JBool b) = (if b then ''true'' else ''false'')"
| "json_text (JNum n) = num_str n"
| "json_text (JStr s) = json_quote s"
| "json_text (JArr xs) = ''['' @ join '','' (map json_text xs) @ '']''"
| "json_text (JObj kvs) =
     ''{'' @ join '','' (map (\<lambda>(k, v). json_quote k @ '':'' @ json_text v) (filter (\<lambda>(k, v). v \<noteq> JUndef) kvs)) @ ''}''"

end
