(* ===== verification/ApiClient.thy ===== *)
theory ApiClient
  imports Urls
begin

text \<open>
  \<^verbatim>\<open>src/web/src/api/client.ts\<close>: the mount prefix of the panel, the one function
  through which every request goes, and the error it throws. The browser is the record \<open>location\<close>
  (\<^verbatim>\<open>window.__MIGATE_BASE_PATH__\<close> and \<^verbatim>\<open>window.location\<close>); the network is the
  response that \<^verbatim>\<open>fetch\<close> resolves to, or \<open>None\<close> when it rejects. \<open>apiFetch_request\<close> is
  what is sent, \<open>apiFetch_response\<close> what is made of the answer: a value, an \<open>api_error\<close>, and the
  redirect to the login page.
\<close>

section \<open>Where the panel is mounted\<close>

record location =
  lo_base_override :: string \<comment> \<open>\<^verbatim>\<open>window.__MIGATE_BASE_PATH__\<close>, empty when unset\<close>
  lo_pathname :: string
  lo_search :: string
  lo_hash :: string

definition known_markers :: "string list" where
  "known_markers = [''/login'', ''/assets/'', ''/api/'', ''/sub/'']"

definition spa_routes :: "string list" where
  "spa_routes = [''/inbounds'', ''/outbounds'', ''/routing'', ''/topology'', ''/core'', ''/xray'', ''/singbox'', ''/settings'']"

primrec before_marker :: "string list \<Rightarrow> string \<Rightarrow> string option" where
  "before_marker [] path = None"
| "before_marker (m # ms) path =
     (case indexOf path m of
        Some index \<Rightarrow> if index > 0 then Some (take index path) else before_marker ms path
      | None \<Rightarrow> before_marker ms path)"

primrec before_route :: "string list \<Rightarrow> string \<Rightarrow> string option" where
  "before_route [] path = None"
| "before_route (r # rs) path =
     (if path = r then Some []
      else if endsWith path r then Some (take (length path - length r) path)
      else (case indexOf path (r @ ''/'') of
              Some index \<Rightarrow> if index > 0 then Some (take index path) else before_route rs path
            | None \<Rightarrow> before_route rs path))"

definition first_segment :: "string \<Rightarrow> string" where
  "first_segment path =
     (if path \<noteq> [] \<and> hd path = CHR ''/'' \<and> takeWhile (\<lambda>c. c \<noteq> CHR ''/'') (tl path) \<noteq> []
      then CHR ''/'' # takeWhile (\<lambda>c. c \<noteq> CHR ''/'') (tl path) else [])"

definition basePath :: "location \<Rightarrow> string" where
  "basePath w =
     (let path = lo_pathname w in
      if lo_base_override w \<noteq> [] then lo_base_override w
      else case before_marker known_markers path of Some b \<Rightarrow> b | None \<Rightarrow>
        (if path = ''/'' \<or> path = ''/login'' then []
         else if path = ''/panel'' then ''/panel''
         else if endsWith path ''/login'' then take (length path - length ''/login'') path
         else case before_route spa_routes path of Some b \<Rightarrow> b | None \<Rightarrow>
           (if first_segment path = path then [] else first_segment path)))"

definition appPath :: "location \<Rightarrow> string \<Rightarrow> string" where
  "appPath w path =
     (let clean = (if startsWith path ''/'' then path else ''/'' @ path)
      in str_or (basePath w @ clean) ''/'')"

subsection \<open>The mount prefix is recovered from every page address\<close>

lemma slash_positions:
  assumes "path = CHR ''/'' # seg @ CHR ''/'' # r" and "CHR ''/'' \<notin> set seg" and "CHR ''/'' \<notin> set r"
    and "path = take i path @ (CHR ''/'' # m) @ t" and "0 < i" and "i < length path"
  shows "i = Suc (length seg) \<and> prefix (CHR ''/'' # m) (CHR ''/'' # r)"
proof -
  have "path ! i = CHR ''/''" using assms(4,6)
    by (metis append_Cons length_take less_or_eq_imp_le min.absorb2 nth_append_length)
  moreover obtain j where j: "i = Suc j" using assms(5) gr0_conv_Suc by blast
  ultimately have sj: "(seg @ CHR ''/'' # r) ! j = CHR ''/''" using assms(1) by simp
  have "j = length seg"
  proof (rule ccontr)
    assume "j \<noteq> length seg"
    then consider "j < length seg" | k where "j = Suc (length seg + k)"
      by (metis add_Suc_right less_imp_Suc_add linorder_neqE_nat)
    then show False
    proof cases
      case 1
      then have "CHR ''/'' \<in> set seg" using sj by (metis nth_append nth_mem)
      then show False using assms(2) by simp
    next
      case 2
      then have "k < length r" "r ! k = CHR ''/''" using sj assms(1,6) j by (auto simp: nth_append)
      then have "CHR ''/'' \<in> set r" by (metis nth_mem)
      then show False using assms(3) by simp
    qed
  qed
  then have i: "i = Suc (length seg)" by (simp add: j)
  have "drop i path = (CHR ''/'' # m) @ t" using assms(4,6)
    by (metis append_eq_conv_conj length_take less_or_eq_imp_le min.absorb2)
  then show ?thesis using i assms(1) by (simp add: prefix_def)
qed

lemma marker_hit:
  assumes "path = CHR ''/'' # seg @ CHR ''/'' # r" and "CHR ''/'' \<notin> set seg" and "CHR ''/'' \<notin> set r"
    and "indexOf path (CHR ''/'' # m) = Some i" and "0 < i"
  shows "i = Suc (length seg) \<and> prefix (CHR ''/'' # m) (CHR ''/'' # r)"
proof -
  obtain t where t: "path = take i path @ (CHR ''/'' # m) @ t" "i + length (CHR ''/'' # m) \<le> length path"
    using indexOf_Some [OF assms(4)] by blast
  show ?thesis by (rule slash_positions [OF assms(1-3) t(1) assms(5)]) (use t(2) in simp)
qed

lemma before_marker_mount:
  assumes "path = CHR ''/'' # seg @ CHR ''/'' # r" and "CHR ''/'' \<notin> set seg" and "CHR ''/'' \<notin> set r"
    and "\<forall>m \<in> set ms. \<exists>m'. m = CHR ''/'' # m'"
  shows "before_marker ms path \<in> {None, Some (CHR ''/'' # seg)}"
  using assms(4)
proof (induction ms)
  case Nil
  then show ?case by simp
next
  case (Cons m ms)
  then obtain m' where m: "m = CHR ''/'' # m'" by auto
  have IH: "before_marker ms path \<in> {None, Some (CHR ''/'' # seg)}" using Cons by simp
  show ?case
  proof (cases "indexOf path m")
    case (Some i)
    have "i = Suc (length seg)" if "0 < i"
      using marker_hit [OF assms(1-3)] Some m that by blast
    then show ?thesis using IH Some assms(1) by auto
  qed (use IH in simp)
qed

lemma suffix_slash:
  assumes "suffix (CHR ''/'' # q) (CHR ''/'' # seg @ CHR ''/'' # r)"
    and "CHR ''/'' \<notin> set q" and "CHR ''/'' \<notin> set r"
  shows "q = r"
proof -
  from assms(1) obtain z where z: "CHR ''/'' # seg @ CHR ''/'' # r = z @ CHR ''/'' # q"
    by (auto simp: suffix_def)
  have "rev (CHR ''/'' # seg @ CHR ''/'' # r) = rev r @ CHR ''/'' # rev seg @ [CHR ''/'']" by simp
  moreover have "rev (z @ CHR ''/'' # q) = rev q @ CHR ''/'' # rev z" by simp
  ultimately have e: "rev r @ CHR ''/'' # rev seg @ [CHR ''/''] = rev q @ CHR ''/'' # rev z" using z by simp
  have "takeWhile (\<lambda>c. c \<noteq> CHR ''/'') (rev r @ CHR ''/'' # x) = rev r" for x
    using assms(3) by (subst takeWhile_append2) auto
  moreover have "takeWhile (\<lambda>c. c \<noteq> CHR ''/'') (rev q @ CHR ''/'' # x) = rev q" for x
    using assms(2) by (subst takeWhile_append2) auto
  ultimately have "rev r = rev q" by (metis e)
  then show ?thesis by simp
qed

lemma before_route_mount:
  assumes "path = CHR ''/'' # seg @ CHR ''/'' # r" and "CHR ''/'' \<notin> set seg" and "CHR ''/'' \<notin> set r"
    and "\<forall>q \<in> set rs. \<exists>q'. q = CHR ''/'' # q' \<and> CHR ''/'' \<notin> set q'" and "CHR ''/'' # r \<in> set rs"
  shows "before_route rs path = Some (CHR ''/'' # seg)"
  using assms(4,5)
proof (induction rs)
  case Nil
  then show ?case by simp
next
  case (Cons q rs)
  then obtain q' where q: "q = CHR ''/'' # q'" "CHR ''/'' \<notin> set q'" by auto
  have ne: "path \<noteq> q" using assms(1) q by auto
  show ?case
  proof (cases "endsWith path q")
    case True
    then have "q' = r"
      using suffix_slash [of q' seg r] assms(1,3) q by (simp add: endsWith_def)
    then show ?thesis using True ne q assms(1) by simp
  next
    case False
    have "suffix (CHR ''/'' # r) path" using assms(1) by (simp add: suffix_def)
    then have "q \<noteq> CHR ''/'' # r" using False by (auto simp: endsWith_def)
    then have IH: "before_route rs path = Some (CHR ''/'' # seg)" using Cons by auto
    have "\<not> prefix (CHR ''/'' # q' @ ''/'') (CHR ''/'' # r)"
      using assms(3) by (auto simp: prefix_def)
    then have "indexOf path (q @ ''/'') = Some i \<Longrightarrow> i = 0" for i
      using marker_hit [OF assms(1-3), of "q' @ ''/''" i] q by auto
    then show ?thesis using IH ne False by (auto split: option.splits)
  qed
qed

definition mounted_at :: "string \<Rightarrow> location \<Rightarrow> bool" where
  \<comment> \<open>the page address is a page of the application below the mount segment (or below no segment)\<close>
  "mounted_at base w =
     (lo_base_override w = [] \<and> (base = [] \<or> (\<exists>seg. base = CHR ''/'' # seg \<and> CHR ''/'' \<notin> set seg)) \<and>
      (\<exists>route \<in> set (''/login'' # spa_routes). lo_pathname w = base @ route))"

lemma basePath_mounted:
  assumes "mounted_at base w"
  shows "basePath w = base"
proof -
  from assms obtain route where route: "route \<in> set (''/login'' # spa_routes)" "lo_pathname w = base @ route"
    by (auto simp: mounted_at_def)
  obtain r where r: "route = CHR ''/'' # r" "CHR ''/'' \<notin> set r"
    using route(1) by (auto simp: spa_routes_def)
  show ?thesis
  proof (cases "base = []")
    case True
    then show ?thesis
      using assms route
      by (auto simp: mounted_at_def basePath_def Let_def spa_routes_def known_markers_def endsWith_def suffix_def)
  next
    case False
    then obtain seg where seg: "base = CHR ''/'' # seg" "CHR ''/'' \<notin> set seg"
      using assms by (auto simp: mounted_at_def)
    have p: "lo_pathname w = CHR ''/'' # seg @ CHR ''/'' # r" using r seg route by simp
    have mk: "before_marker known_markers (lo_pathname w) \<in> {None, Some (CHR ''/'' # seg)}"
      by (rule before_marker_mount [OF p seg(2) r(2)]) (simp add: known_markers_def)
    have rt: "route \<in> set spa_routes \<Longrightarrow> before_route spa_routes (lo_pathname w) = Some (CHR ''/'' # seg)"
      by (rule before_route_mount [OF p seg(2) r(2)]) (use r in \<open>simp_all add: spa_routes_def\<close>)
    have ends: "endsWith (lo_pathname w) ''/login'' \<longleftrightarrow> route = ''/login''"
      using suffix_slash [of "''login''" seg r] p r(1) r(2) by (auto simp: endsWith_def suffix_def)
    have not_short: "lo_pathname w \<noteq> ''/''" "lo_pathname w \<noteq> ''/login''" "lo_pathname w \<noteq> ''/panel''"
      using p by (auto simp: Cons_eq_append_conv append_eq_Cons_conv)
    show ?thesis
      using mk rt ends not_short assms route p r seg by (auto simp: basePath_def Let_def mounted_at_def)
  qed
qed

text \<open>
  
  When the panel is mounted under any single path segment, or under none, the prefix is recovered from the
  address of the login page and of every page of the application, so that an application path given to
  \<^verbatim>\<open>appPath\<close> with or without its leading slash is rebuilt under the same mount.
\<close>

theorem basePath_recovers_mount:
  assumes "mounted_at base w"
  shows "appPath w (CHR ''/'' # p) = base @ CHR ''/'' # p
    \<and> (\<not> startsWith p ''/'' \<longrightarrow> appPath w p = base @ CHR ''/'' # p)"
  using basePath_mounted [OF assms] by (simp add: appPath_def startsWith_def)

definition sample_settings_page :: location where
  "sample_settings_page = \<lparr>lo_base_override = [], lo_pathname = ''/panel/settings'', lo_search = ''?tab=cert'', lo_hash = []\<rparr>"

lemma sample_settings_mounted: "mounted_at ''/panel'' sample_settings_page"
  by (simp add: mounted_at_def sample_settings_page_def spa_routes_def)

theorem basePath_recovers_mount_witness:
  "appPath sample_settings_page ''/api/version'' = ''/panel/api/version''"
  using basePath_recovers_mount [OF sample_settings_mounted, of "''api/version''"] by simp

section \<open>Requests and responses\<close>

datatype body = TextBody string | FormBody \<comment> \<open>a string, or a \<^verbatim>\<open>FormData\<close> object\<close>

record request_init =
  ri_method :: "string option"
  ri_headers :: "(string \<times> string) list" \<comment> \<open>keyed by lower-case name, as \<^verbatim>\<open>Headers\<close> is\<close>
  ri_body :: "body option"
  ri_credentials :: "string option"

record request =
  rq_url :: string
  rq_method :: "string option"
  rq_headers :: "(string \<times> string) list"
  rq_body :: "body option"
  rq_credentials :: string

record response =
  rs_status :: int
  rs_status_text :: string
  rs_content_type :: "string option"
  rs_json :: "jsval option" \<comment> \<open>the body parsed as JSON, \<open>None\<close> when it does not parse\<close>
  rs_text :: "string option" \<comment> \<open>the body as text, \<open>None\<close> when reading it fails\<close>

definition rs_ok :: "response \<Rightarrow> bool" where \<comment> \<open>\<^verbatim>\<open>response.ok\<close>\<close>
  "rs_ok r = (200 \<le> rs_status r \<and> rs_status r \<le> 299)"

record api_error =
  ae_status :: int
  ae_message :: string
  ae_payload :: jsval
  ae_code :: "string option"
  ae_detail :: "string option"
  ae_fields :: "jsval option"
  ae_details :: "jsval option"

datatype failure = NetworkFailure | ApiFailure api_error

definition new_api_error :: "int \<Rightarrow> string \<Rightarrow> jsval \<Rightarrow> string option \<Rightarrow> string option \<Rightarrow> jsval option \<Rightarrow> api_error" where
  "new_api_error status message payload code detail flds =
     \<lparr>ae_status = status, ae_message = message, ae_payload = payload, ae_code = code, ae_detail = detail,
      ae_fields = flds,
      ae_details = (case flds of Some f \<Rightarrow> Some f | None \<Rightarrow> map_option JStr detail)\<rparr>"

definition parseResponse :: "response \<Rightarrow> jsval option" where
  "parseResponse r =
     (if str_includes (ostr (rs_content_type r)) ''application/json'' then rs_json r
      else map_option JStr (rs_text r))"

record standard_error =
  se_message :: "string option"
  se_code :: "string option"
  se_detail :: "string option"
  se_fields :: "jsval option"

definition truthy_string :: "jsval \<Rightarrow> string option" where
  "truthy_string v = (if truthy v then Some (js_string v) else None)"

definition readStandardError :: "jsval \<Rightarrow> standard_error" where
  "readStandardError payload =
     (let errorObject = (if is_object payload \<and> is_object (js_field payload ''error'')
                         then Some (js_field payload ''error'') else None)
      in case errorObject of
           None \<Rightarrow> \<lparr>se_message = None, se_code = None, se_detail = None, se_fields = None\<rparr>
         | Some e \<Rightarrow>
             \<lparr>se_message = truthy_string (js_field e ''message''),
              se_code = truthy_string (js_field e ''code''),
              se_detail = truthy_string (js_field e ''detail''),
              se_fields = (if is_object (js_field e ''fields'') then Some (js_field e ''fields'') else None)\<rparr>)"

definition normalizeAPIPath :: "string \<Rightarrow> string" where
  "normalizeAPIPath path =
     (let withoutHash = takeWhile (\<lambda>c. c \<noteq> CHR ''#'') path;
          withoutQuery = takeWhile (\<lambda>c. c \<noteq> CHR ''?'') withoutHash
      in if length withoutQuery > 1 then rev (dropWhile (\<lambda>c. c = CHR ''/'') (rev withoutQuery))
         else str_or withoutQuery ''/'')"

definition shouldRedirectOnUnauthorized :: "string \<Rightarrow> bool" where
  "shouldRedirectOnUnauthorized path =
     (let endpoint = normalizeAPIPath path in endpoint \<noteq> ''/api/session'' \<and> endpoint \<noteq> ''/api/login'')"

definition apiFetch_request :: "location \<Rightarrow> string \<Rightarrow> request_init \<Rightarrow> request" where
  "apiFetch_request w path ini =
     (let headers0 = ri_headers ini;
          headers1 = (if ri_body ini \<noteq> None \<and> \<not> map_has headers0 ''content-type'' \<and> ri_body ini \<noteq> Some FormBody
                      then AList.update ''content-type'' ''application/json'' headers0 else headers0);
          headers2 = (if \<not> map_has headers1 ''accept'' then AList.update ''accept'' ''application/json'' headers1
                      else headers1)
      in \<lparr>rq_url = appPath w path, rq_method = ri_method ini, rq_headers = headers2, rq_body = ri_body ini,
          rq_credentials = (case ri_credentials ini of Some c \<Rightarrow> c | None \<Rightarrow> ''same-origin'')\<rparr>)"

definition login_redirect :: "location \<Rightarrow> string" where
  "login_redirect w =
     (let current = lo_pathname w @ lo_search w @ lo_hash w
      in appPath w ''/login'' @ ''?next='' @ encodeURIComponent current)"

definition apiFetch_response :: "location \<Rightarrow> string \<Rightarrow> response option \<Rightarrow> (failure + jsval) \<times> string option" where
  "apiFetch_response w path answer =
     (case answer of
        None \<Rightarrow> (Inl NetworkFailure, None)
      | Some r \<Rightarrow>
          (let payload = (case parseResponse r of Some v \<Rightarrow> v | None \<Rightarrow> JNull);
               redirect = (if rs_status r = 401 \<and> shouldRedirectOnUnauthorized path then Some (login_redirect w) else None)
           in if \<not> rs_ok r then
                (let e = readStandardError payload;
                     message = str_or (ostr (se_message e)) (str_or (ostr (se_code e)) (str_or (rs_status_text r) ''request_failed''))
                 in (Inl (ApiFailure (new_api_error (rs_status r) message payload (se_code e) (se_detail e) (se_fields e))), redirect))
              else (Inr payload, redirect)))"

definition apiText_response :: "location \<Rightarrow> string \<Rightarrow> response option \<Rightarrow> string \<Rightarrow> (failure + string) \<times> string option" where
  "apiText_response w path answer fallbackErrorCode =
     (case apiFetch_response w path answer of
        (Inr v, red) \<Rightarrow> (Inr (if truthy v then js_string v else []), red)
      | (Inl (ApiFailure e), red) \<Rightarrow>
          (if ostr (ae_code e) = []
           then (Inl (ApiFailure (new_api_error (ae_status e) fallbackErrorCode (ae_payload e) (Some fallbackErrorCode) None None)), red)
           else (Inl (ApiFailure e), red))
      | (Inl NetworkFailure, red) \<Rightarrow> (Inl NetworkFailure, red))"

definition apiText_init :: "request_init \<Rightarrow> request_init" where
  "apiText_init ini = ini\<lparr>ri_headers := (if \<not> map_has (ri_headers ini) ''accept''
     then AList.update ''accept'' ''text/plain'' (ri_headers ini) else ri_headers ini)\<rparr>"

definition getAPIErrorMessage :: "failure \<Rightarrow> string \<Rightarrow> string" where
  "getAPIErrorMessage err fallback =
     (case err of ApiFailure e \<Rightarrow> str_or (ae_message e) (str_or (ostr (ae_code e)) fallback)
      | NetworkFailure \<Rightarrow> fallback)"

section \<open>The request verbs\<close>

definition plain_init :: request_init where
  "plain_init = \<lparr>ri_method = None, ri_headers = [], ri_body = None, ri_credentials = None\<rparr>"

definition json_body :: "jsval option \<Rightarrow> body option" where
  "json_body v = map_option (\<lambda>x. TextBody (json_text x)) v"

type_synonym call = "string \<times> request_init"

definition get_call :: "string \<Rightarrow> call" where
  "get_call path = (path, plain_init)"

definition post_call :: "string \<Rightarrow> jsval option \<Rightarrow> call" where
  "post_call path b = (path, plain_init\<lparr>ri_method := Some ''POST'', ri_body := json_body b\<rparr>)"

definition patch_call :: "string \<Rightarrow> jsval \<Rightarrow> call" where
  "patch_call path b = (path, plain_init\<lparr>ri_method := Some ''PATCH'', ri_body := json_body (Some b)\<rparr>)"

definition put_call :: "string \<Rightarrow> jsval \<Rightarrow> call" where
  "put_call path b = (path, plain_init\<lparr>ri_method := Some ''PUT'', ri_body := json_body (Some b)\<rparr>)"

definition del_call :: "string \<Rightarrow> call" where
  "del_call path = (path, plain_init\<lparr>ri_method := Some ''DELETE''\<rparr>)"

lemmas call_defs = get_call_def post_call_def patch_call_def put_call_def del_call_def

text \<open>A body is announced as JSON, and JSON is asked for.\<close>

lemma apiFetch_request_defaults:
  assumes "ri_headers ini = []" and "ri_body ini \<noteq> Some FormBody"
  shows "map_of (rq_headers (apiFetch_request w path ini)) ''accept'' = Some ''application/json''
    \<and> (ri_body ini \<noteq> None \<longrightarrow>
        map_of (rq_headers (apiFetch_request w path ini)) ''content-type'' = Some ''application/json'')"
  using assms by (cases "ri_body ini") (simp_all add: apiFetch_request_def Let_def)

lemma verb_init:
  "ri_headers (snd (get_call p)) = []" "ri_headers (snd (post_call p b)) = []" "ri_headers (snd (patch_call p v)) = []"
  "ri_headers (snd (put_call p v)) = []" "ri_headers (snd (del_call p)) = []"
  "ri_body (snd (post_call p b)) \<noteq> Some FormBody" "ri_body (snd (put_call p v)) \<noteq> Some FormBody"
  "ri_body (snd (patch_call p v)) \<noteq> Some FormBody"
  by (simp_all add: call_defs plain_init_def json_body_def)

section \<open>Outcomes\<close>

text \<open>The standard error reader is a sum type in disguise: it finds fields only under an error object.\<close>

lemma truthy_string_nonempty_JStr: "truthy_string (JStr s) = (if s = [] then None else Some s)"
  by (simp add: truthy_string_def)

lemma normalizeAPIPath_session:
  "shouldRedirectOnUnauthorized (''/api/session'' @ replicate n (CHR ''/'') @ q) = False"
  if "q = [] \<or> hd q = CHR ''?'' \<or> hd q = CHR ''#''"
proof -
  have hash: "takeWhile (\<lambda>c. c \<noteq> CHR ''?'') (takeWhile (\<lambda>c. c \<noteq> CHR ''#'') q) = []"
    using that by (cases q) auto
  have rep: "takeWhile P (replicate n (CHR ''/'') @ z) = replicate n (CHR ''/'') @ takeWhile P z"
    if "P (CHR ''/'')" for P z
    using that by (induction n) auto
  have drp: "dropWhile (\<lambda>c. c = CHR ''/'') (replicate n (CHR ''/'') @ z) = dropWhile (\<lambda>c. c = CHR ''/'') z" for z
    by (induction n) auto
  show ?thesis
    by (simp add: shouldRedirectOnUnauthorized_def normalizeAPIPath_def Let_def rep hash drp)
qed

text \<open>
  The outcome of a request is decided by the response alone: a success status yields the payload (null
  when the body cannot be parsed), any other status raises an ApiError with that status, the same payload
  and a message that is the server's message, else its code, else the status text, and the user is sent to
  the login page exactly on a 401 answer from an endpoint other than session and login.
\<close>

theorem apiFetch_outcome:
  "fst (apiFetch_response w path (Some r)) =
     (let payload = case_option JNull id (parseResponse r); e = readStandardError payload in
      if rs_ok r then Inr payload
      else Inl (ApiFailure (new_api_error (rs_status r)
             (hd (filter (\<lambda>m. m \<noteq> []) [ostr (se_message e), ostr (se_code e), rs_status_text r, ''request_failed'']))
             payload (se_code e) (se_detail e) (se_fields e))))
   \<and> (snd (apiFetch_response w path (Some r)) =
       (if rs_status r = 401 \<and> normalizeAPIPath path \<notin> {''/api/session'', ''/api/login''}
        then Some (appPath w ''/login'' @ ''?next='' @ encodeURIComponent (lo_pathname w @ lo_search w @ lo_hash w))
        else None))
   \<and> apiFetch_response w path None = (Inl NetworkFailure, None)"
  by (simp add: apiFetch_response_def Let_def login_redirect_def shouldRedirectOnUnauthorized_def
      id_def split: option.splits)

text \<open>Errors always carry a message to show, whatever the server sent.\<close>

lemma apiFetch_message_nonempty:
  assumes "fst (apiFetch_response w path answer) = Inl f" and "fallback \<noteq> []"
  shows "getAPIErrorMessage f fallback \<noteq> []"
  using assms by (cases f) (auto simp: getAPIErrorMessage_def)

lemma apiText_code:
  assumes "fst (apiText_response w path answer fb) = Inl (ApiFailure e)" and "fb \<noteq> []"
  shows "ostr (ae_code e) \<noteq> []"
  using assms
  by (auto simp: apiText_response_def new_api_error_def split: prod.splits sum.splits failure.splits if_splits)

end
