(* ===== verification/Login.thy ===== *)
theory Login
  imports ApiClient
begin

text \<open>
  \<^verbatim>\<open>src/web/src/routes/LoginPage.tsx\<close>: where the user is taken after signing in, and the session
  guard of \<^verbatim>\<open>App.tsx\<close>. \<open>redirectTarget\<close> reads the \<^verbatim>\<open>next\<close> parameter that
  \<open>login_redirect\<close> wrote, or the location the router kept in its state.
\<close>

record from_state = \<comment> \<open>\<^verbatim>\<open>location.state.from\<close>\<close>
  fs_pathname :: "string option"
  fs_search :: "string option"

definition stripRuntimeBasePath :: "location \<Rightarrow> string \<Rightarrow> string" where
  "stripRuntimeBasePath w path =
     (let base = basePath w in
      if base \<noteq> [] \<and> path = base then ''/''
      else if base \<noteq> [] \<and> startsWith path (base @ ''/'') then str_or (drop (length base) path) ''/''
      else path)"

definition isLoginPath :: "string \<Rightarrow> bool" where
  "isLoginPath path = (path = ''/login'' \<or> startsWith path ''/login/'')"

definition isSafeAppPath :: "string \<Rightarrow> bool" where
  "isSafeAppPath path = (startsWith path ''/'' \<and> \<not> startsWith path ''//'')"

definition redirect_from :: "from_state option \<Rightarrow> string" where
  "redirect_from state =
     (let path = (case state of None \<Rightarrow> ''/'' | Some f \<Rightarrow> str_or (ostr (fs_pathname f)) ''/'');
          search = (case state of None \<Rightarrow> [] | Some f \<Rightarrow> ostr (fs_search f))
      in if isLoginPath path then ''/'' else path @ search)"

definition redirectTarget :: "location \<Rightarrow> from_state option \<Rightarrow> string" where
  "redirectTarget w state =
     (case search_get (lo_search w) ''next'' of
        Some nxt \<Rightarrow>
          (if nxt \<noteq> [] \<and> isSafeAppPath nxt \<and> isSafeAppPath (stripRuntimeBasePath w nxt)
              \<and> \<not> isLoginPath (stripRuntimeBasePath w nxt)
           then stripRuntimeBasePath w nxt
           else redirect_from state)
      | None \<Rightarrow> redirect_from state)"

section \<open>The session guard\<close>

record session = \<comment> \<open>the fields of \<^verbatim>\<open>Session\<close> the guard reads\<close>
  se_auth_enabled :: "bool option"
  se_authenticated :: "bool option"

datatype guard = GLoading | GLogin | GApp

definition requireSession :: "bool \<Rightarrow> session option \<Rightarrow> guard" where
  "requireSession isLoading data =
     (if isLoading then GLoading
      else case data of
        Some s \<Rightarrow> if is_on (se_auth_enabled s) \<and> \<not> is_on (se_authenticated s) then GLogin else GApp
      | None \<Rightarrow> GApp)"

definition login_leaves :: "session option \<Rightarrow> bool" where
  "login_leaves data = (case data of None \<Rightarrow> False
     | Some s \<Rightarrow> is_on (se_authenticated s) \<or> se_auth_enabled s = Some False)"

text \<open>The guard and the login page never send a known session back and forth.\<close>

lemma guard_and_login_agree: "\<not> (login_leaves data \<and> requireSession False data = GLogin)"
  by (auto simp: login_leaves_def requireSession_def split: option.splits)

section \<open>The way back\<close>

lemma spa_route_shape:
  assumes "route \<in> set spa_routes"
  shows "isSafeAppPath (route @ t)" and "\<not> isLoginPath (route @ t)"
  using assms
  by (auto simp: spa_routes_def isSafeAppPath_def isLoginPath_def startsWith_def)

lemma strip_mounted:
  assumes "mounted_at base w" and "route \<in> set spa_routes"
  shows "stripRuntimeBasePath w (base @ route @ t) = route @ t"
proof -
  obtain r where "route = CHR ''/'' # r" "r \<noteq> []" using assms(2) by (auto simp: spa_routes_def)
  then show ?thesis
    by (auto simp: stripRuntimeBasePath_def Let_def basePath_mounted [OF assms(1)] startsWith_def)
qed

lemma next_param: "search_get (''?next='' @ encodeURIComponent v) ''next'' = Some v"
  using search_get_single [of "''next''" v] by simp


definition sample_login_page :: location where
  "sample_login_page = \<lparr>lo_base_override = [], lo_pathname = ''/panel/login'',
     lo_search = ''?next='' @ encodeURIComponent ''/panel/settings?tab=cert'', lo_hash = []\<rparr>"

definition sample_401 :: response where
  "sample_401 = \<lparr>rs_status = 401, rs_status_text = ''Unauthorized'', rs_content_type = None, rs_json = None, rs_text = None\<rparr>"


text \<open>The login page does not recognise its own address when it carries a query.\<close>

lemma login_path_with_query: "redirectTarget
    \<lparr>lo_base_override = [], lo_pathname = ''/login'', lo_search = ''?next='' @ encodeURIComponent ''/login?a'', lo_hash = []\<rparr> state
   = ''/login?a''"
  by (simp add: redirectTarget_def next_param [simplified] isSafeAppPath_def isLoginPath_def startsWith_def
      stripRuntimeBasePath_def basePath_def known_markers_def)

end
