(* ===== verification/CoreApply.thy ===== *)
theory CoreApply
  imports ApiClient Cores
begin

text \<open>
  \<^verbatim>\<open>src/web/src/lib/coreApply.ts\<close>: what the panel tells the user after a write that changes the
  configuration of a proxy core. \<open>core_write\<close> is the part of a write response this module reads;
  \<open>read_core_write\<close> takes it from the JSON payload (a field of another type than the declared one is
  absent). \<open>coreApplyWarning\<close> and \<open>coreApplyWarningTone\<close> are the report; \<open>write_outcome\<close> is the
  abstract outcome both of them implement. Jobs that are still running are polled by the machine of theory
  \<^verbatim>\<open>JobTracker\<close>.
\<close>

section \<open>Texts\<close>

text \<open>The non-ASCII texts of this part of the user interface, as UTF-8 bytes.\<close>

definition zh_but :: string where
  "zh_but = [CHR 0xEF, CHR 0xBC, CHR 0x8C, CHR 0xE4, CHR 0xBD, CHR 0x86]"

definition zh_saved :: string where
  "zh_saved = [CHR 0xE5, CHR 0xB7, CHR 0xB2, CHR 0xE4, CHR 0xBF, CHR 0x9D, CHR 0xE5, CHR 0xAD, CHR 0x98]"

definition zh_unknown_error :: string where
  "zh_unknown_error = [CHR 0xE6, CHR 0x9C, CHR 0xAA, CHR 0xE7, CHR 0x9F, CHR 0xA5, CHR 0xE9, CHR 0x94, CHR 0x99, CHR 0xE8,
    CHR 0xAF, CHR 0xAF]"

definition zh_colon :: string where
  "zh_colon = [CHR 0xEF, CHR 0xBC, CHR 0x9A]"

definition zh_comma :: string where
  "zh_comma = [CHR 0xE3, CHR 0x80, CHR 0x81]"

definition zh_pending_named :: string where
  "zh_pending_named = [CHR 0x20, CHR 0xE6, CHR 0x9C, CHR 0x89, CHR 0xE6, CHR 0x9B, CHR 0xB4, CHR 0xE6, CHR 0x94, CHR 0xB9,
    CHR 0xEF, CHR 0xBC, CHR 0x8C, CHR 0xE9, CHR 0x9C, CHR 0x80, CHR 0xE7, CHR 0x82, CHR 0xB9, CHR 0xE5,
    CHR 0x87, CHR 0xBB, CHR 0xE6, CHR 0xA0, CHR 0xB8, CHR 0xE5, CHR 0xBF, CHR 0x83, CHR 0xE9, CHR 0xA1,
    CHR 0xB5, CHR 0xE2, CHR 0x80, CHR 0x9C, CHR 0xE5, CHR 0xBA, CHR 0x94, CHR 0xE7, CHR 0x94, CHR 0xA8,
    CHR 0xE9, CHR 0x85, CHR 0x8D, CHR 0xE7, CHR 0xBD, CHR 0xAE, CHR 0xE2, CHR 0x80, CHR 0x9D, CHR 0xE5,
    CHR 0x90, CHR 0x8E, CHR 0xE7, CHR 0x94, CHR 0x9F, CHR 0xE6, CHR 0x95, CHR 0x88]"

definition zh_pending_any :: string where
  "zh_pending_any = [CHR 0xEF, CHR 0xBC, CHR 0x9A, CHR 0xE6, CHR 0x9C, CHR 0x89, CHR 0xE6, CHR 0x9B, CHR 0xB4, CHR 0xE6,
    CHR 0x94, CHR 0xB9, CHR 0xEF, CHR 0xBC, CHR 0x8C, CHR 0xE9, CHR 0x9C, CHR 0x80, CHR 0xE7, CHR 0x82,
    CHR 0xB9, CHR 0xE5, CHR 0x87, CHR 0xBB, CHR 0xE6, CHR 0xA0, CHR 0xB8, CHR 0xE5, CHR 0xBF, CHR 0x83,
    CHR 0xE9, CHR 0xA1, CHR 0xB5, CHR 0xE2, CHR 0x80, CHR 0x9C, CHR 0xE5, CHR 0xBA, CHR 0x94, CHR 0xE7,
    CHR 0x94, CHR 0xA8, CHR 0xE9, CHR 0x85, CHR 0x8D, CHR 0xE7, CHR 0xBD, CHR 0xAE, CHR 0xE2, CHR 0x80,
    CHR 0x9D, CHR 0xE5, CHR 0x90, CHR 0x8E, CHR 0xE7, CHR 0x94, CHR 0x9F, CHR 0xE6, CHR 0x95, CHR 0x88]"

definition zh_not_listening :: string where
  "zh_not_listening = [CHR 0xE9, CHR 0x85, CHR 0x8D, CHR 0xE7, CHR 0xBD, CHR 0xAE, CHR 0xE5, CHR 0xB7, CHR 0xB2, CHR 0xE5,
    CHR 0xBA, CHR 0x94, CHR 0xE7, CHR 0x94, CHR 0xA8, CHR 0xEF, CHR 0xBC, CHR 0x8C, CHR 0xE4, CHR 0xBD,
    CHR 0x86, CHR 0xE7, CHR 0xAB, CHR 0xAF, CHR 0xE5, CHR 0x8F, CHR 0xA3, CHR 0xE6, CHR 0x9C, CHR 0xAA,
    CHR 0xE7, CHR 0x9B, CHR 0x91, CHR 0xE5, CHR 0x90, CHR 0xAC]"

definition zh_ws_path :: string where
  "zh_ws_path = [CHR 0xE8, CHR 0x8A, CHR 0x82, CHR 0xE7, CHR 0x82, CHR 0xB9, CHR 0xE5, CHR 0xB7, CHR 0xB2, CHR 0xE4,
    CHR 0xBF, CHR 0x9D, CHR 0xE5, CHR 0xAD, CHR 0x98, CHR 0xEF, CHR 0xBC, CHR 0x8C, CHR 0x58, CHR 0x72,
    CHR 0x61, CHR 0x79, CHR 0x20, CHR 0x57, CHR 0x53, CHR 0x2F, CHR 0x48, CHR 0x32, CHR 0x20, CHR 0x70,
    CHR 0x61, CHR 0x74, CHR 0x68, CHR 0x20, CHR 0xE9, CHR 0x85, CHR 0x8D, CHR 0xE7, CHR 0xBD, CHR 0xAE,
    CHR 0xE9, CHR 0x9C, CHR 0x80, CHR 0xE8, CHR 0xA6, CHR 0x81, CHR 0xE6, CHR 0xA3, CHR 0x80, CHR 0xE6,
    CHR 0x9F, CHR 0xA5]"

definition zh_grpc_name :: string where
  "zh_grpc_name = [CHR 0xE8, CHR 0x8A, CHR 0x82, CHR 0xE7, CHR 0x82, CHR 0xB9, CHR 0xE5, CHR 0xB7, CHR 0xB2, CHR 0xE4,
    CHR 0xBF, CHR 0x9D, CHR 0xE5, CHR 0xAD, CHR 0x98, CHR 0xEF, CHR 0xBC, CHR 0x8C, CHR 0x58, CHR 0x72,
    CHR 0x61, CHR 0x79, CHR 0x20, CHR 0x67, CHR 0x52, CHR 0x50, CHR 0x43, CHR 0x20, CHR 0x73, CHR 0x65,
    CHR 0x72, CHR 0x76, CHR 0x69, CHR 0x63, CHR 0x65, CHR 0x4E, CHR 0x61, CHR 0x6D, CHR 0x65, CHR 0x20,
    CHR 0xE9, CHR 0x85, CHR 0x8D, CHR 0xE7, CHR 0xBD, CHR 0xAE, CHR 0xE9, CHR 0x9C, CHR 0x80, CHR 0xE8,
    CHR 0xA6, CHR 0x81, CHR 0xE6, CHR 0xA3, CHR 0x80, CHR 0xE6, CHR 0x9F, CHR 0xA5]"

definition zh_xhttp_path :: string where
  "zh_xhttp_path = [CHR 0xE8, CHR 0x8A, CHR 0x82, CHR 0xE7, CHR 0x82, CHR 0xB9, CHR 0xE5, CHR 0xB7, CHR 0xB2, CHR 0xE4,
    CHR 0xBF, CHR 0x9D, CHR 0xE5, CHR 0xAD, CHR 0x98, CHR 0xEF, CHR 0xBC, CHR 0x8C, CHR 0x58, CHR 0x72,
    CHR 0x61, CHR 0x79, CHR 0x20, CHR 0x58, CHR 0x48, CHR 0x54, CHR 0x54, CHR 0x50, CHR 0x20, CHR 0x70,
    CHR 0x61, CHR 0x74, CHR 0x68, CHR 0x20, CHR 0xE9, CHR 0x85, CHR 0x8D, CHR 0xE7, CHR 0xBD, CHR 0xAE,
    CHR 0xE9, CHR 0x9C, CHR 0x80, CHR 0xE8, CHR 0xA6, CHR 0x81, CHR 0xE6, CHR 0xA3, CHR 0x80, CHR 0xE6,
    CHR 0x9F, CHR 0xA5]"

definition zh_reality_incomplete :: string where
  "zh_reality_incomplete = [CHR 0xE8, CHR 0x8A, CHR 0x82, CHR 0xE7, CHR 0x82, CHR 0xB9, CHR 0xE5, CHR 0xB7, CHR 0xB2, CHR 0xE4,
    CHR 0xBF, CHR 0x9D, CHR 0xE5, CHR 0xAD, CHR 0x98, CHR 0xEF, CHR 0xBC, CHR 0x8C, CHR 0x58, CHR 0x72,
    CHR 0x61, CHR 0x79, CHR 0x20, CHR 0x52, CHR 0x45, CHR 0x41, CHR 0x4C, CHR 0x49, CHR 0x54, CHR 0x59,
    CHR 0x20, CHR 0xE9, CHR 0x85, CHR 0x8D, CHR 0xE7, CHR 0xBD, CHR 0xAE, CHR 0xE4, CHR 0xB8, CHR 0x8D,
    CHR 0xE5, CHR 0xAE, CHR 0x8C, CHR 0xE6, CHR 0x95, CHR 0xB4]"

definition zh_tls_missing :: string where
  "zh_tls_missing = [CHR 0xE8, CHR 0x8A, CHR 0x82, CHR 0xE7, CHR 0x82, CHR 0xB9, CHR 0xE5, CHR 0xB7, CHR 0xB2, CHR 0xE4,
    CHR 0xBF, CHR 0x9D, CHR 0xE5, CHR 0xAD, CHR 0x98, CHR 0xEF, CHR 0xBC, CHR 0x8C, CHR 0x58, CHR 0x72,
    CHR 0x61, CHR 0x79, CHR 0x20, CHR 0x54, CHR 0x4C, CHR 0x53, CHR 0x20, CHR 0xE8, CHR 0xAF, CHR 0x81,
    CHR 0xE4, CHR 0xB9, CHR 0xA6, CHR 0xE9, CHR 0x85, CHR 0x8D, CHR 0xE7, CHR 0xBD, CHR 0xAE, CHR 0xE7,
    CHR 0xBC, CHR 0xBA, CHR 0xE5, CHR 0xA4, CHR 0xB1]"

definition zh_ss_missing :: string where
  "zh_ss_missing = [CHR 0xE8, CHR 0x8A, CHR 0x82, CHR 0xE7, CHR 0x82, CHR 0xB9, CHR 0xE5, CHR 0xB7, CHR 0xB2, CHR 0xE4,
    CHR 0xBF, CHR 0x9D, CHR 0xE5, CHR 0xAD, CHR 0x98, CHR 0xEF, CHR 0xBC, CHR 0x8C, CHR 0x58, CHR 0x72,
    CHR 0x61, CHR 0x79, CHR 0x20, CHR 0x53, CHR 0x68, CHR 0x61, CHR 0x64, CHR 0x6F, CHR 0x77, CHR 0x73,
    CHR 0x6F, CHR 0x63, CHR 0x6B, CHR 0x73, CHR 0x20, CHR 0x32, CHR 0x30, CHR 0x32, CHR 0x32, CHR 0x20,
    CHR 0xE7, CHR 0xBC, CHR 0xBA, CHR 0xE5, CHR 0xB0, CHR 0x91, CHR 0xE5, CHR 0x8F, CHR 0xAF, CHR 0xE7,
    CHR 0x94, CHR 0xA8, CHR 0xE5, CHR 0x87, CHR 0xAD, CHR 0xE6, CHR 0x8D, CHR 0xAE]"

definition zh_sync_failed :: string where
  "zh_sync_failed = [CHR 0xEF, CHR 0xBC, CHR 0x8C, CHR 0xE4, CHR 0xBD, CHR 0x86, CHR 0xE6, CHR 0xA0, CHR 0xB8, CHR 0xE5,
    CHR 0xBF, CHR 0x83, CHR 0xE9, CHR 0x85, CHR 0x8D, CHR 0xE7, CHR 0xBD, CHR 0xAE, CHR 0xE8, CHR 0x87,
    CHR 0xAA, CHR 0xE5, CHR 0x8A, CHR 0xA8, CHR 0xE5, CHR 0x90, CHR 0x8C, CHR 0xE6, CHR 0xAD, CHR 0xA5,
    CHR 0xE5, CHR 0xA4, CHR 0xB1, CHR 0xE8, CHR 0xB4, CHR 0xA5, CHR 0xEF, CHR 0xBC, CHR 0x9A]"

definition zh_syncing :: string where
  "zh_syncing = [CHR 0xEF, CHR 0xBC, CHR 0x8C, CHR 0xE6, CHR 0xAD, CHR 0xA3, CHR 0xE5, CHR 0x9C, CHR 0xA8, CHR 0xE5,
    CHR 0x90, CHR 0x8C, CHR 0xE6, CHR 0xAD, CHR 0xA5, CHR 0xE6, CHR 0xA0, CHR 0xB8, CHR 0xE5, CHR 0xBF,
    CHR 0x83, CHR 0xE9, CHR 0x85, CHR 0x8D, CHR 0xE7, CHR 0xBD, CHR 0xAE]"

definition zh_view_core :: string where
  "zh_view_core = [CHR 0xE6, CHR 0x9F, CHR 0xA5, CHR 0xE7, CHR 0x9C, CHR 0x8B, CHR 0xE6, CHR 0xA0, CHR 0xB8, CHR 0xE5,
    CHR 0xBF, CHR 0x83, CHR 0xE9, CHR 0xA1, CHR 0xB5]"

lemmas texts_CoreApply =
  zh_but_def zh_saved_def zh_unknown_error_def zh_colon_def zh_comma_def
  zh_pending_named_def zh_pending_any_def zh_not_listening_def zh_ws_path_def zh_grpc_name_def
  zh_xhttp_path_def zh_reality_incomplete_def zh_tls_missing_def zh_ss_missing_def zh_sync_failed_def
  zh_syncing_def zh_view_core_def

lemma texts_nonempty_CoreApply [simp]:
  "zh_but \<noteq> []" "zh_saved \<noteq> []" "zh_unknown_error \<noteq> []" "zh_colon \<noteq> []"
  "zh_comma \<noteq> []" "zh_pending_named \<noteq> []" "zh_pending_any \<noteq> []" "zh_not_listening \<noteq> []"
  "zh_ws_path \<noteq> []" "zh_grpc_name \<noteq> []" "zh_xhttp_path \<noteq> []" "zh_reality_incomplete \<noteq> []"
  "zh_tls_missing \<noteq> []" "zh_ss_missing \<noteq> []" "zh_sync_failed \<noteq> []" "zh_syncing \<noteq> []"
  "zh_view_core \<noteq> []"
  by (simp_all add: texts_CoreApply)

section \<open>Write responses\<close>

record core_write =
  cw_applied :: "bool option"
  cw_config_changed :: "bool option"
  cw_pending_apply :: "bool option"
  cw_pending_cores :: "string list option"
  cw_auto_apply :: "(string \<times> apply_job option) list"
  cw_auto_apply_error :: "(string \<times> (string option \<times> string option) option) list" \<comment> \<open>core, then error and detail\<close>
  cw_detail :: "string option"
  cw_error :: "string option"
  cw_error_output :: "string option"
  cw_status :: "string option"
  cw_warnings :: "string list option"
  cw_post_apply_warnings :: "string list option"
  cw_singbox :: "singbox_summary option"
  cw_xray :: "xray_summary option"

definition no_core_write :: core_write where
  "no_core_write = \<lparr>cw_applied = None, cw_config_changed = None, cw_pending_apply = None, cw_pending_cores = None,
     cw_auto_apply = [], cw_auto_apply_error = [], cw_detail = None, cw_error = None, cw_error_output = None,
     cw_status = None, cw_warnings = None, cw_post_apply_warnings = None, cw_singbox = None, cw_xray = None\<rparr>"

subsection \<open>Reading a response\<close>

definition bool_field :: "jsval \<Rightarrow> string \<Rightarrow> bool option" where
  "bool_field v k = (case js_field v k of JBool b \<Rightarrow> Some b | _ \<Rightarrow> None)"

definition string_field :: "jsval \<Rightarrow> string \<Rightarrow> string option" where
  "string_field v k = (case js_field v k of JStr s \<Rightarrow> Some s | _ \<Rightarrow> None)"

definition strings_field :: "jsval \<Rightarrow> string \<Rightarrow> string list option" where
  "strings_field v k = (case js_field v k of
     JArr xs \<Rightarrow> Some (map js_string xs) | _ \<Rightarrow> None)"

definition entries_field :: "jsval \<Rightarrow> string \<Rightarrow> (string \<times> jsval) list" where
  "entries_field v k = (case js_field v k of JObj kvs \<Rightarrow> kvs | _ \<Rightarrow> [])"

definition read_job :: "jsval \<Rightarrow> apply_job option" where
  "read_job v = (if truthy v then Some \<lparr>aj_id = ostr (string_field v ''id''), aj_core = ostr (string_field v ''core''),
       aj_status = ostr (string_field v ''status''), aj_error = string_field v ''error'',
       aj_detail = string_field v ''detail'', aj_message = string_field v ''message'',
       aj_accepted = bool_field v ''accepted'', aj_retry_count = None, aj_max_retries = None\<rparr> else None)"

definition read_failure :: "jsval \<Rightarrow> (string option \<times> string option) option" where
  "read_failure v = (if truthy v then Some (string_field v ''error'', string_field v ''detail'') else None)"

definition read_singbox :: "jsval \<Rightarrow> singbox_summary" where
  "read_singbox v = \<lparr>ss_applied = bool_field v ''applied'', ss_error = string_field v ''error'',
     ss_reason = string_field v ''reason'', ss_detail = string_field v ''detail'', ss_output = string_field v ''output'',
     ss_commands_executed = strings_field v ''commands_executed'', ss_warnings = strings_field v ''warnings'',
     ss_post_apply_warnings = strings_field v ''post_apply_warnings'',
     ss_non_fatal_warnings = strings_field v ''non_fatal_warnings''\<rparr>"

definition read_xray :: "jsval \<Rightarrow> xray_summary" where
  "read_xray v = \<lparr>xs_applied = bool_field v ''applied'', xs_status = string_field v ''status'',
     xs_error = string_field v ''error'', xs_detail = string_field v ''detail'',
     xs_commands_executed = strings_field v ''commands_executed'', xs_warnings = strings_field v ''warnings'',
     xs_post_apply_warnings = strings_field v ''post_apply_warnings'', xs_error_output = string_field v ''error_output''\<rparr>"

definition read_core_write :: "jsval \<Rightarrow> core_write option" where
  "read_core_write v =
     (if is_object v then
        Some \<lparr>cw_applied = bool_field v ''applied'', cw_config_changed = bool_field v ''config_changed'',
          cw_pending_apply = bool_field v ''pending_apply'', cw_pending_cores = strings_field v ''pending_cores'',
          cw_auto_apply = map (\<lambda>(k, j). (k, read_job j)) (entries_field v ''auto_apply''),
          cw_auto_apply_error = map (\<lambda>(k, f). (k, read_failure f)) (entries_field v ''auto_apply_error''),
          cw_detail = string_field v ''detail'', cw_error = string_field v ''error'',
          cw_error_output = string_field v ''error_output'', cw_status = string_field v ''status'',
          cw_warnings = strings_field v ''warnings'', cw_post_apply_warnings = strings_field v ''post_apply_warnings'',
          cw_singbox = (if is_object (js_field v ''singbox'') then Some (read_singbox (js_field v ''singbox'')) else None),
          cw_xray = (if is_object (js_field v ''xray'') then Some (read_xray (js_field v ''xray'')) else None)\<rparr>
      else None)"

section \<open>The report\<close>

definition savedPrefix :: "string \<Rightarrow> string" where
  "savedPrefix pre =
     (case indexOf pre zh_but of
        Some index \<Rightarrow> if index > 0 then take index pre else str_or pre zh_saved
      | None \<Rightarrow> str_or pre zh_saved)"

definition coreApplyJobActive :: "apply_job option \<Rightarrow> bool" where
  "coreApplyJobActive job =
     (toLowerCase (case job of None \<Rightarrow> [] | Some j \<Rightarrow> aj_status j) \<in> {''queued'', ''running'', ''retrying''})"

definition autoApplyQueuedOrRunning :: "core_write \<Rightarrow> bool" where
  "autoApplyQueuedOrRunning data = list_ex (\<lambda>(k, job). coreApplyJobActive job) (cw_auto_apply data)"

definition job_failed :: "apply_job option \<Rightarrow> bool" where
  "job_failed job = (case job of None \<Rightarrow> False
     | Some j \<Rightarrow> toLowerCase (aj_status j) = ''failed'' \<or> ostr (aj_error j) \<noteq> [])"

definition autoApplyFailureDetail :: "core_write \<Rightarrow> string" where
  "autoApplyFailureDetail data =
     (case find (\<lambda>(k, f). f \<noteq> None) (cw_auto_apply_error data) of
        Some (_, Some (err, detail)) \<Rightarrow> str_or (ostr detail) (str_or (ostr err) zh_unknown_error)
      | _ \<Rightarrow> (case find (\<lambda>(k, job). job_failed job) (cw_auto_apply data) of
                Some (_, Some j) \<Rightarrow> str_or (ostr (aj_detail j)) (ostr (aj_error j))
              | _ \<Rightarrow> []))"

definition coreApplyLabel :: "string \<Rightarrow> string" where
  "coreApplyLabel core =
     (let normalized = toLowerCase (trim core) in
      if normalized = ''xray'' then ''Xray''
      else if normalized = ''sing-box'' \<or> normalized = ''singbox'' then ''sing-box''
      else core)"

definition pendingApplyMessage :: "core_write \<Rightarrow> string \<Rightarrow> string" where
  "pendingApplyMessage data pre =
     (let cores = filter (\<lambda>c. c \<noteq> []) (map coreApplyLabel (olist (cw_pending_cores data))) in
      pre @ (if cores \<noteq> [] then zh_colon @ join zh_comma cores @ zh_pending_named
                else zh_pending_any))"

datatype failed_core = FailedXray xray_summary | FailedSingbox singbox_summary | FailedWrite core_write

definition failedCoreResult :: "core_write \<Rightarrow> failed_core option" where
  "failedCoreResult data =
     (case (cw_xray data, cw_singbox data) of
        (xr, sb) \<Rightarrow>
          if (\<exists>x \<in> set_option xr. xs_applied x = Some False) then map_option FailedXray xr
          else if (\<exists>s \<in> set_option sb. ss_applied s = Some False \<and> ss_reason s \<noteq> Some ''not_needed'')
               then map_option FailedSingbox sb
          else if cw_applied data = Some False then Some (FailedWrite data)
          else None)"

definition xrayFailureOutput :: "failed_core \<Rightarrow> string" where
  "xrayFailureOutput result = (case result of
      FailedXray x \<Rightarrow> str_or (ostr (xs_error_output x)) (ostr (xs_status x))
    | FailedSingbox s \<Rightarrow> []
    | FailedWrite d \<Rightarrow> str_or (ostr (cw_error_output d)) (ostr (cw_status d)))"

definition failed_detail :: "failed_core \<Rightarrow> string" where
  "failed_detail result = (case result of
      FailedXray x \<Rightarrow> str_or (ostr (xs_detail x)) (ostr (xs_error x))
    | FailedSingbox s \<Rightarrow> str_or (ostr (ss_detail s)) (ostr (ss_error s))
    | FailedWrite d \<Rightarrow> str_or (ostr (cw_detail d)) (ostr (cw_error d)))"

definition firstNonEmptyWarnings :: "string list option list \<Rightarrow> string list" where
  "firstNonEmptyWarnings groups = olist (case find (\<lambda>g. olist g \<noteq> []) groups of Some g \<Rightarrow> g | None \<Rightarrow> None)"

definition firstListenerWarning :: "string list \<Rightarrow> string" where
  "firstListenerWarning warnings =
     ostr (find (\<lambda>s. startsWith s zh_not_listening) warnings)"

definition semantic_labels :: "(string \<times> string) list" where
  "semantic_labels =
     [(''xray_ws_path_invalid'', zh_ws_path),
      (''xray_grpc_service_name_invalid'', zh_grpc_name),
      (''xray_xhttp_path_invalid'', zh_xhttp_path),
      (''xray_reality_settings_incomplete'', zh_reality_incomplete),
      (''xray_tls_certificate_missing'', zh_tls_missing),
      (''xray_shadowsocks_credentials_missing'', zh_ss_missing)]"

definition isXraySemanticWarning :: "string \<Rightarrow> bool" where
  "isXraySemanticWarning warning =
     (warning \<in> {''xray_ws_path_invalid'', ''xray_grpc_service_name_invalid'', ''xray_xhttp_path_invalid'',
        ''xray_reality_settings_incomplete'', ''xray_tls_certificate_missing'',
        ''xray_shadowsocks_credentials_missing''})"

definition firstXraySemanticWarning :: "string list \<Rightarrow> string" where
  "firstXraySemanticWarning warnings = ostr (find isXraySemanticWarning warnings)"

definition xraySemanticWarningLabel :: "string \<Rightarrow> string" where
  "xraySemanticWarningLabel warning = str_or (ostr (map_of semantic_labels warning)) warning"

definition listener_warning :: "core_write \<Rightarrow> string" where
  "listener_warning data =
     (let xw = Option.bind (cw_xray data) xs_warnings; sw = Option.bind (cw_singbox data) ss_warnings;
          postApply = firstNonEmptyWarnings [cw_post_apply_warnings data,
             Option.bind (cw_xray data) xs_post_apply_warnings, Option.bind (cw_singbox data) ss_post_apply_warnings]
      in str_or (firstListenerWarning postApply)
                (firstListenerWarning (firstNonEmptyWarnings [cw_warnings data, xw, sw])))"

definition semantic_warning :: "core_write \<Rightarrow> string" where
  "semantic_warning data =
     firstXraySemanticWarning (firstNonEmptyWarnings [Option.bind (cw_xray data) xs_warnings, cw_warnings data])"

definition coreApplyWarning :: "core_write option \<Rightarrow> string \<Rightarrow> string" where
  "coreApplyWarning response pre =
     (case response of None \<Rightarrow> [] | Some data \<Rightarrow>
       (let autoApplyFailure = autoApplyFailureDetail data in
        if autoApplyFailure \<noteq> [] then savedPrefix pre @ zh_sync_failed @ autoApplyFailure
        else if cw_config_changed data = Some True \<and> autoApplyQueuedOrRunning data
             then savedPrefix pre @ zh_syncing
        else if cw_config_changed data = Some False then []
        else if is_on (cw_pending_apply data) then pendingApplyMessage data pre
        else (case failedCoreResult data of
            Some failedCore \<Rightarrow>
              pre @ zh_colon @ str_or (failed_detail failedCore) (str_or (xrayFailureOutput failedCore)
                 (str_or (ostr (cw_detail data)) (str_or (ostr (cw_error data)) zh_unknown_error)))
          | None \<Rightarrow>
              if listener_warning data \<noteq> [] then listener_warning data
              else if semantic_warning data \<noteq> [] then xraySemanticWarningLabel (semantic_warning data)
              else [])))"

datatype tone = ToneSuccess | ToneError | ToneInfo

definition coreApplyWarningTone :: "core_write option \<Rightarrow> tone" where
  "coreApplyWarningTone response =
     (case response of None \<Rightarrow> ToneError | Some data \<Rightarrow>
        if autoApplyFailureDetail data \<noteq> [] then ToneError
        else if cw_config_changed data = Some True \<and> autoApplyQueuedOrRunning data then ToneInfo
        else if cw_config_changed data = Some False then ToneInfo
        else if is_on (cw_pending_apply data) then ToneInfo
        else if failedCoreResult data \<noteq> None then ToneError else ToneInfo)"

definition coreApplyFailureWarning :: "core_write option \<Rightarrow> string \<Rightarrow> string" where
  "coreApplyFailureWarning response pre =
     (case response of None \<Rightarrow> [] | Some data \<Rightarrow>
       (case failedCoreResult data of None \<Rightarrow> []
        | Some failedCore \<Rightarrow> pre @ zh_colon @
            str_or (failed_detail failedCore) (str_or (xrayFailureOutput failedCore) zh_unknown_error)))"

definition coreApplyCorePath :: "string \<Rightarrow> string" where
  "coreApplyCorePath core =
     (let normalized = toLowerCase (trim core)
      in if normalized = ''sing-box'' \<or> normalized = ''singbox'' then ''/singbox'' else ''/xray'')"

record toast_action =
  ta_label :: string
  ta_target :: string \<comment> \<open>the address \<^verbatim>\<open>onClick\<close> goes to\<close>

definition coreApplyCoreAction :: "location \<Rightarrow> string \<Rightarrow> toast_action" where
  "coreApplyCoreAction w core =
     \<lparr>ta_label = zh_view_core, ta_target = appPath w (coreApplyCorePath core)\<rparr>"

definition autoApplyFailureAction :: "location \<Rightarrow> core_write option \<Rightarrow> toast_action option" where
  "autoApplyFailureAction w response =
     (case response of None \<Rightarrow> None | Some data \<Rightarrow>
       (case find (\<lambda>(k, f). f \<noteq> None) (cw_auto_apply_error data) of
          Some (k, _) \<Rightarrow> Some (coreApplyCoreAction w k)
        | None \<Rightarrow>
            (case find (\<lambda>(k, job). job_failed job) (cw_auto_apply data) of
               Some (k, job) \<Rightarrow>
                 Some (coreApplyCoreAction w (str_or (case job of None \<Rightarrow> [] | Some j \<Rightarrow> aj_core j) k))
             | None \<Rightarrow> None)))"

record toast =
  to_title :: string
  to_tone :: tone
  to_action :: "toast_action option"

definition write_toast :: "location \<Rightarrow> (string \<Rightarrow> string) \<Rightarrow> core_write option \<Rightarrow> string \<Rightarrow> toast option" where
  "write_toast w tr response pre =
     (let warning = coreApplyWarning response pre in
      if warning = [] then None
      else Some \<lparr>to_title = tr warning, to_tone = coreApplyWarningTone response,
             to_action = autoApplyFailureAction w response\<rparr>)"

section \<open>The outcome of a write\<close>

datatype write_outcome =
    SyncFailed string   \<comment> \<open>the automatic apply failed, with the detail to show\<close>
  | Syncing             \<comment> \<open>the configuration changed and a job is applying it\<close>
  | Unchanged
  | Pending "string list" \<comment> \<open>changes of these cores wait to be applied by hand\<close>
  | CoreFailed string
  | NotListening string
  | Suspicious string
  | Clean

definition classify_write :: "core_write \<Rightarrow> write_outcome" where
  "classify_write data =
     (if autoApplyFailureDetail data \<noteq> [] then SyncFailed (autoApplyFailureDetail data)
      else if cw_config_changed data = Some True \<and> autoApplyQueuedOrRunning data then Syncing
      else if cw_config_changed data = Some False then Unchanged
      else if is_on (cw_pending_apply data) then Pending (olist (cw_pending_cores data))
      else case failedCoreResult data of
        Some f \<Rightarrow> CoreFailed (hd (filter (\<lambda>s. s \<noteq> [])
           [failed_detail f, xrayFailureOutput f, ostr (cw_detail data), ostr (cw_error data), zh_unknown_error]))
      | None \<Rightarrow> if listener_warning data \<noteq> [] then NotListening (listener_warning data)
                else if semantic_warning data \<noteq> [] then Suspicious (semantic_warning data) else Clean)"

definition is_failure :: "write_outcome \<Rightarrow> bool" where
  "is_failure out = (case out of SyncFailed _ \<Rightarrow> True | CoreFailed _ \<Rightarrow> True | _ \<Rightarrow> False)"

definition is_silent :: "write_outcome \<Rightarrow> bool" where
  "is_silent out = (out = Unchanged \<or> out = Clean)"

definition report :: "string \<Rightarrow> core_write \<Rightarrow> write_outcome \<Rightarrow> string" where
  "report pre data out = (case out of
      SyncFailed d \<Rightarrow> savedPrefix pre @ zh_sync_failed @ d
    | Syncing \<Rightarrow> savedPrefix pre @ zh_syncing
    | Unchanged \<Rightarrow> []
    | Pending cores \<Rightarrow> pendingApplyMessage data pre
    | CoreFailed d \<Rightarrow> pre @ zh_colon @ d
    | NotListening s \<Rightarrow> s
    | Suspicious s \<Rightarrow> xraySemanticWarningLabel s
    | Clean \<Rightarrow> [])"

lemma warning_report: "coreApplyWarning (Some data) pre = report pre data (classify_write data)"
  by (auto simp: coreApplyWarning_def report_def classify_write_def Let_def split: option.splits)

lemma tone_report:
  "coreApplyWarningTone (Some data) = (if is_failure (classify_write data) then ToneError else ToneInfo)"
  by (auto simp: coreApplyWarningTone_def classify_write_def is_failure_def split: option.splits)

lemma savedPrefix_nonempty [simp]: "savedPrefix pre \<noteq> []"
  by (auto simp: savedPrefix_def split: option.splits)

lemma semantic_label_nonempty: "s \<noteq> [] \<Longrightarrow> xraySemanticWarningLabel s \<noteq> []"
  by (simp add: xraySemanticWarningLabel_def)

lemma pendingApplyMessage_nonempty: "pendingApplyMessage data pre \<noteq> []"
  by (simp add: pendingApplyMessage_def Let_def)

definition outcome_ok :: "write_outcome \<Rightarrow> bool" where
  "outcome_ok out = (case out of SyncFailed d \<Rightarrow> d \<noteq> [] | CoreFailed d \<Rightarrow> d \<noteq> []
     | NotListening s \<Rightarrow> s \<noteq> [] | Suspicious s \<Rightarrow> s \<noteq> [] | _ \<Rightarrow> True)"

lemma outcome_ok_classify: "outcome_ok (classify_write data)"
proof -
  have d: "hd (filter (\<lambda>s. s \<noteq> []) [a, b, c, e, zh_unknown_error]) \<noteq> []" for a b c e
    by (rule hd_filter_nonempty) simp
  show ?thesis
    by (cases "failedCoreResult data") (simp_all add: classify_write_def outcome_ok_def d del: filter.simps)
qed

lemma report_silent: "report pre data (classify_write data) = [] \<longleftrightarrow> is_silent (classify_write data)"
  using outcome_ok_classify [of data]
  by (cases "classify_write data")
    (simp_all add: report_def is_silent_def outcome_ok_def semantic_label_nonempty pendingApplyMessage_nonempty)

lemma report_failure:
  assumes "is_failure (classify_write data)"
  shows "\<exists>d. d \<noteq> [] \<and> suffix d (report pre data (classify_write data))"
  using assms outcome_ok_classify [of data]
  by (cases "classify_write data") (auto simp: is_failure_def outcome_ok_def report_def intro!: exI suffixI)

text \<open>Every outcome except the last two is announced, and the tone is that of the message.\<close>

lemma silent_means_no_failure: "is_silent out \<Longrightarrow> \<not> is_failure out"
  by (auto simp: is_silent_def is_failure_def)

text \<open>The semantic warning shown has a label of its own, never the bare code.\<close>

lemma semantic_labelled:
  assumes "isXraySemanticWarning s"
  shows "xraySemanticWarningLabel s \<in> snd ` set semantic_labels"
  using assms
  by (auto simp: isXraySemanticWarning_def xraySemanticWarningLabel_def semantic_labels_def)

lemma semantic_warning_is_code: "semantic_warning data = [] \<or> isXraySemanticWarning (semantic_warning data)"
  by (auto simp: semantic_warning_def firstXraySemanticWarning_def dest: find_Some_set split: option.splits
      simp: ostr_def)


definition sample_write :: core_write where
  "sample_write = no_core_write\<lparr>cw_config_changed := Some True,
     cw_auto_apply_error := [(''xray'', None), (''sing-box'', Some (Some ''apply_failed'', Some ''exit status 1''))]\<rparr>"



section \<open>Automatic apply failures\<close>

text \<open>An error the server recorded for the automatic apply is always reported, and its action leads to the
  page of a core.\<close>

lemma explicit_error_reported:
  assumes "(k, Some f) \<in> set (cw_auto_apply_error data)"
  shows "is_failure (classify_write data)"
proof -
  have "find (\<lambda>(k, f). f \<noteq> None) (cw_auto_apply_error data) \<noteq> None"
    unfolding find_None_all using assms by (cases f) (force intro!: bexI [OF _ assms])
  then obtain k' f' where f: "find (\<lambda>(k, f). f \<noteq> None) (cw_auto_apply_error data) = Some (k', f')" by auto
  then have "f' \<noteq> None" by (auto dest: find_Some_set)
  with f obtain e d where "find (\<lambda>(k, f). f \<noteq> None) (cw_auto_apply_error data) = Some (k', Some (e, d))" by auto
  then have "autoApplyFailureDetail data \<noteq> []" by (simp add: autoApplyFailureDetail_def)
  then show ?thesis by (simp add: classify_write_def is_failure_def)
qed

text \<open>A job that already failed when the response was written, with neither a detail nor an error text, is not
  reported at all.\<close>

definition failed_without_reason :: core_write where
  "failed_without_reason = no_core_write\<lparr>cw_config_changed := Some True, cw_auto_apply := [(''xray'',
     Some \<lparr>aj_id = ''7'', aj_core = ''xray'', aj_status = ''failed'', aj_error = None, aj_detail = None,
       aj_message = None, aj_accepted = None, aj_retry_count = None, aj_max_retries = None\<rparr>)]\<rparr>"

lemma failed_job_without_reason_is_silent:
  "coreApplyWarning (Some failed_without_reason) pre = [] \<and> autoApplyFailureAction w (Some failed_without_reason) \<noteq> None"
  by (simp add: coreApplyWarning_def failed_without_reason_def no_core_write_def autoApplyFailureDetail_def
      autoApplyQueuedOrRunning_def coreApplyJobActive_def job_failed_def lower_char_def Let_def failedCoreResult_def
      listener_warning_def semantic_warning_def firstNonEmptyWarnings_def firstListenerWarning_def
      firstXraySemanticWarning_def autoApplyFailureAction_def)

end
