(* ===== verification/JobTracker.thy ===== *)
theory JobTracker
  imports CoreApply
begin

text \<open>
  The background polling of \<^verbatim>\<open>src/web/src/lib/coreApply.ts\<close>. The module state (the map of tracked
  jobs, the fetcher, the timer, the poll token) is the record \<open>tracker\<close>; a poll that has sent its requests
  and awaits the answers is an element of \<open>tk_inflight\<close>, the snapshot of the jobs it asked for; toasts
  are appended to \<open>tk_toasts\<close>. \<open>tracker_step\<close> is the step relation of the event loop: a write
  response is tracked, the timer fires, the answers of some poll in flight arrive. Setting the fetcher happens
  once, at start-up (\<^verbatim>\<open>App.tsx\<close>), so the reachable states start from \<open>tracker_start\<close>.
\<close>

section \<open>Texts\<close>

text \<open>The non-ASCII texts of this part of the user interface, as UTF-8 bytes.\<close>

definition zh_core_synced :: string where
  "zh_core_synced = [CHR 0x20, CHR 0xE9, CHR 0x85, CHR 0x8D, CHR 0xE7, CHR 0xBD, CHR 0xAE, CHR 0xE5, CHR 0xB7, CHR 0xB2,
    CHR 0xE5, CHR 0x90, CHR 0x8C, CHR 0xE6, CHR 0xAD, CHR 0xA5]"

definition zh_cores_synced :: string where
  "zh_cores_synced = [CHR 0xE6, CHR 0xA0, CHR 0xB8, CHR 0xE5, CHR 0xBF, CHR 0x83, CHR 0xE9, CHR 0x85, CHR 0x8D, CHR 0xE7,
    CHR 0xBD, CHR 0xAE, CHR 0xE5, CHR 0xB7, CHR 0xB2, CHR 0xE5, CHR 0x90, CHR 0x8C, CHR 0xE6, CHR 0xAD,
    CHR 0xA5]"

definition zh_auto_sync_failed :: string where
  "zh_auto_sync_failed = [CHR 0x20, CHR 0xE8, CHR 0x87, CHR 0xAA, CHR 0xE5, CHR 0x8A, CHR 0xA8, CHR 0xE5, CHR 0x90, CHR 0x8C,
    CHR 0xE6, CHR 0xAD, CHR 0xA5, CHR 0xE5, CHR 0xA4, CHR 0xB1, CHR 0xE8, CHR 0xB4, CHR 0xA5]"

lemmas texts_JobTracker =
  zh_core_synced_def zh_cores_synced_def zh_auto_sync_failed_def

lemma texts_nonempty_JobTracker [simp]:
  "zh_core_synced \<noteq> []" "zh_cores_synced \<noteq> []" "zh_auto_sync_failed \<noteq> []"
  by (simp_all add: texts_JobTracker)

section \<open>State\<close>

record tracker =
  tk_jobs :: "(string \<times> apply_job) list"
  tk_fetcher :: bool
  tk_timer :: "nat option" \<comment> \<open>the token the pending timer was given\<close>
  tk_token :: nat
  tk_inflight :: "apply_job list list"
  tk_toasts :: "toast list"

definition tracker_idle :: tracker where
  "tracker_idle = \<lparr>tk_jobs = [], tk_fetcher = False, tk_timer = None, tk_token = 0, tk_inflight = [], tk_toasts = []\<rparr>"

definition configureCoreApplyJobTracking :: "bool \<Rightarrow> tracker \<Rightarrow> tracker" where
  "configureCoreApplyJobTracking fetcher s = s\<lparr>tk_fetcher := fetcher\<rparr>"

definition tracker_start :: tracker where
  "tracker_start = configureCoreApplyJobTracking True tracker_idle"

definition resetCoreApplyJobTracking :: "tracker \<Rightarrow> tracker" where
  "resetCoreApplyJobTracking s = s\<lparr>tk_jobs := [], tk_fetcher := False, tk_token := Suc (tk_token s), tk_timer := None\<rparr>"

section \<open>Operations\<close>

definition scheduleCoreApplyJobPoll :: "tracker \<Rightarrow> tracker" where
  "scheduleCoreApplyJobPoll s =
     (if \<not> tk_fetcher s \<or> tk_jobs s = [] then s
      else s\<lparr>tk_token := Suc (tk_token s), tk_timer := Some (Suc (tk_token s))\<rparr>)"

definition trackable :: "apply_job option \<Rightarrow> apply_job option" where
  "trackable job = (case job of None \<Rightarrow> None | Some j \<Rightarrow> if aj_id j \<noteq> [] \<and> coreApplyJobActive job then Some j else None)"

definition put_job :: "apply_job \<Rightarrow> (string \<times> apply_job) list \<Rightarrow> (string \<times> apply_job) list" where
  "put_job j jobs = AList.update (aj_id j) j jobs" \<comment> \<open>\<^verbatim>\<open>activeTrackedJobs.set(job.id, job)\<close>\<close>

definition trackCoreApplyJobsFromResponse :: "core_write option \<Rightarrow> tracker \<Rightarrow> tracker" where
  "trackCoreApplyJobsFromResponse response s =
     (case response of None \<Rightarrow> s | Some data \<Rightarrow>
       (if \<not> tk_fetcher s \<or> cw_config_changed data \<noteq> Some True then s
        else (let jobs = List.map_filter (\<lambda>(k, job). trackable job) (cw_auto_apply data) in
          if jobs = [] then s
          else scheduleCoreApplyJobPoll (s\<lparr>tk_jobs := fold put_job jobs (tk_jobs s)\<rparr>))))"

definition showCoreApplyWarning ::
    "location \<Rightarrow> (string \<Rightarrow> string) \<Rightarrow> core_write option \<Rightarrow> string \<Rightarrow> tracker \<Rightarrow> bool \<times> tracker" where
  "showCoreApplyWarning w tr response pre s =
     (case write_toast w tr response pre of
        None \<Rightarrow> (False, s)
      | Some t \<Rightarrow> (True, (trackCoreApplyJobsFromResponse response s)\<lparr>tk_toasts := tk_toasts s @ [t]\<rparr>))"

definition fireTimer :: "tracker \<Rightarrow> tracker" where
  "fireTimer s =
     (case tk_timer s of None \<Rightarrow> s | Some token \<Rightarrow>
       (let s1 = s\<lparr>tk_timer := None\<rparr> in
        if \<not> tk_fetcher s1 \<or> token \<noteq> tk_token s1 then s1
        else s1\<lparr>tk_inflight := tk_inflight s1 @ [map snd (tk_jobs s1)]\<rparr>))"

text \<open>The answer to one job: \<open>None\<close> when the request fails (the job itself is the result), otherwise what
  the server returned, which may be null.\<close>

type_synonym answer = "apply_job option option"

definition poll_results :: "apply_job list \<Rightarrow> answer list \<Rightarrow> apply_job option list" where
  "poll_results jobs answers =
     map2 (\<lambda>job a. case a of None \<Rightarrow> Some job | Some r \<Rightarrow> r) jobs answers"

primrec sort_results :: "apply_job option list \<Rightarrow> (string \<times> apply_job) list
    \<Rightarrow> (string \<times> apply_job) list \<times> apply_job list \<times> apply_job list" where
  "sort_results [] jobs = (jobs, [], [])"
| "sort_results (r # rs) jobs =
     (case r of
        None \<Rightarrow> sort_results rs jobs
      | Some job \<Rightarrow>
          if aj_id job = [] then sort_results rs jobs
          else if toLowerCase (aj_status job) = ''succeeded'' then
            (case sort_results rs (AList.delete (aj_id job) jobs) of (m, ok, bad) \<Rightarrow> (m, job # ok, bad))
          else if toLowerCase (aj_status job) = ''failed'' then
            (case sort_results rs (AList.delete (aj_id job) jobs) of (m, ok, bad) \<Rightarrow> (m, ok, job # bad))
          else sort_results rs (put_job job jobs))"

definition coreApplySucceededMessage :: "apply_job list \<Rightarrow> string" where
  "coreApplySucceededMessage jobs =
     (let cores = uniq (filter (\<lambda>c. c \<noteq> []) (map (\<lambda>j. coreApplyLabel (aj_core j)) jobs)) in
      case cores of [c] \<Rightarrow> c @ zh_core_synced | _ \<Rightarrow> zh_cores_synced)"

definition failed_toast :: "location \<Rightarrow> (string \<Rightarrow> string) \<Rightarrow> apply_job \<Rightarrow> toast" where
  "failed_toast w tr job =
     (let why = str_or (ostr (aj_detail job)) (ostr (aj_error job)) in
      \<lparr>to_title = tr (coreApplyLabel (aj_core job) @ zh_auto_sync_failed @ (if why \<noteq> [] then zh_colon @ why else [])),
       to_tone = ToneError, to_action = Some (coreApplyCoreAction w (aj_core job))\<rparr>)"

definition poll_toasts :: "location \<Rightarrow> (string \<Rightarrow> string) \<Rightarrow> apply_job list \<Rightarrow> apply_job list \<Rightarrow> toast list" where
  "poll_toasts w tr succeeded failed =
     (if succeeded \<noteq> [] then [\<lparr>to_title = tr (coreApplySucceededMessage succeeded), to_tone = ToneSuccess, to_action = None\<rparr>]
      else []) @ map (failed_toast w tr) failed"

definition completePoll :: "location \<Rightarrow> (string \<Rightarrow> string) \<Rightarrow> nat \<Rightarrow> answer list \<Rightarrow> tracker \<Rightarrow> tracker" where
  "completePoll w tr i answers s =
     (case sort_results (poll_results (tk_inflight s ! i) answers) (tk_jobs s) of
        (jobs, succeeded, failed) \<Rightarrow>
          scheduleCoreApplyJobPoll (s\<lparr>tk_jobs := jobs, tk_inflight := take i (tk_inflight s) @ drop (Suc i) (tk_inflight s),
             tk_toasts := tk_toasts s @ poll_toasts w tr succeeded failed\<rparr>))"

section \<open>The event loop\<close>

inductive tracker_step :: "location \<Rightarrow> (string \<Rightarrow> string) \<Rightarrow> tracker \<Rightarrow> tracker \<Rightarrow> bool"
  for w :: location and tr :: "string \<Rightarrow> string" where
  track: "tracker_step w tr s (trackCoreApplyJobsFromResponse response s)"
| warn: "tracker_step w tr s (snd (showCoreApplyWarning w tr response pre s))"
| fire: "tk_timer s \<noteq> None \<Longrightarrow> tracker_step w tr s (fireTimer s)"
| answer: "i < length (tk_inflight s) \<Longrightarrow> length answers = length (tk_inflight s ! i)
    \<Longrightarrow> tracker_step w tr s (completePoll w tr i answers s)"

inductive reachable :: "location \<Rightarrow> (string \<Rightarrow> string) \<Rightarrow> tracker \<Rightarrow> bool" for w :: location and tr :: "string \<Rightarrow> string" where
  start: "reachable w tr tracker_start"
| step: "reachable w tr s \<Longrightarrow> tracker_step w tr s s' \<Longrightarrow> reachable w tr s'"

inductive_cases tracker_stepE: "tracker_step w tr s s'"

section \<open>The invariant\<close>

definition unfinished :: "apply_job \<Rightarrow> bool" where
  "unfinished j = (toLowerCase (aj_status j) \<notin> {''succeeded'', ''failed''})"

definition jobs_ok :: "(string \<times> apply_job) list \<Rightarrow> bool" where
  "jobs_ok m = (distinct (map fst m) \<and> (\<forall>(k, j) \<in> set m. k = aj_id j \<and> k \<noteq> [] \<and> unfinished j))"

definition tracker_inv :: "tracker \<Rightarrow> bool" where
  "tracker_inv s = (tk_fetcher s \<and> jobs_ok (tk_jobs s)
     \<and> (tk_timer s = None \<or> tk_timer s = Some (tk_token s))
     \<and> (tk_jobs s \<noteq> [] \<longrightarrow> tk_timer s \<noteq> None \<or> tk_inflight s \<noteq> [])
     \<and> (\<forall>js \<in> set (tk_inflight s). \<forall>j \<in> set js. aj_id j \<noteq> [] \<and> unfinished j))"

lemma active_unfinished: "coreApplyJobActive (Some j) \<Longrightarrow> unfinished j"
  by (auto simp: coreApplyJobActive_def unfinished_def)

lemma update_set: "set (AList.update k v m) \<subseteq> insert (k, v) (set m)"
  by (induction m) auto

lemma delete_set: "set (AList.delete k m) \<subseteq> set m"
  by (auto simp: AList.delete_eq)

lemma jobs_ok_put: "jobs_ok m \<Longrightarrow> aj_id j \<noteq> [] \<Longrightarrow> unfinished j \<Longrightarrow> jobs_ok (put_job j m)"
  using update_set [of "aj_id j" j m] js_map.distinct_put [of m "aj_id j" j]
  by (auto simp: jobs_ok_def put_job_def)

lemma jobs_ok_delete: "jobs_ok m \<Longrightarrow> jobs_ok (AList.delete k m)"
  using delete_set [of k m] js_map.distinct_remove [of m k] by (auto simp: jobs_ok_def)

lemma jobs_ok_put_all:
  "jobs_ok m \<Longrightarrow> \<forall>j \<in> set js. aj_id j \<noteq> [] \<and> unfinished j \<Longrightarrow> jobs_ok (fold put_job js m)"
  by (induction js arbitrary: m) (simp_all add: jobs_ok_put)

lemma jobs_ok_sort_results: "jobs_ok m \<Longrightarrow> jobs_ok (fst (sort_results rs m))"
proof (induction rs arbitrary: m)
  case Nil
  then show ?case by simp
next
  case (Cons r rs)
  show ?case
  proof (cases r)
    case None
    then show ?thesis using Cons by simp
  next
    case (Some j)
    have *: "jobs_ok (fst (sort_results rs (AList.delete (aj_id j) m)))"
      using Cons by (simp add: jobs_ok_delete)
    have **: "aj_id j \<noteq> [] \<Longrightarrow> unfinished j \<Longrightarrow> jobs_ok (fst (sort_results rs (put_job j m)))"
      using Cons by (simp add: jobs_ok_put)
    show ?thesis using Some Cons * ** by (simp add: unfinished_def case_prod_unfold)
  qed
qed

lemma schedule_inv:
  assumes "tk_fetcher s" and "jobs_ok (tk_jobs s)" and "tk_timer s = None \<or> tk_timer s = Some (tk_token s)"
    and "\<forall>js \<in> set (tk_inflight s). \<forall>j \<in> set js. aj_id j \<noteq> [] \<and> unfinished j"
  shows "tracker_inv (scheduleCoreApplyJobPoll s)"
  using assms by (auto simp: tracker_inv_def scheduleCoreApplyJobPoll_def)

lemma start_inv: "tracker_inv tracker_start"
  by (simp add: tracker_inv_def tracker_start_def tracker_idle_def configureCoreApplyJobTracking_def jobs_ok_def)

lemma trackable_ok: "trackable job = Some j \<Longrightarrow> aj_id j \<noteq> [] \<and> unfinished j"
  by (auto simp: trackable_def active_unfinished split: option.splits if_splits)

lemma track_inv:
  assumes "tracker_inv s"
  shows "tracker_inv (trackCoreApplyJobsFromResponse response s)"
proof (cases response)
  case None
  then show ?thesis using assms by (simp add: trackCoreApplyJobsFromResponse_def)
next
  case (Some data)
  define js where "js = List.map_filter (\<lambda>(k, job). trackable job) (cw_auto_apply data)"
  have "\<forall>j \<in> set js. aj_id j \<noteq> [] \<and> unfinished j"
    by (auto simp: js_def List.map_filter_def trackable_ok)
  then have "jobs_ok (fold put_job js (tk_jobs s))"
    using assms by (simp add: tracker_inv_def jobs_ok_put_all)
  then have "tracker_inv (scheduleCoreApplyJobPoll (s\<lparr>tk_jobs := fold put_job js (tk_jobs s)\<rparr>))"
    by (intro schedule_inv) (use assms in \<open>auto simp: tracker_inv_def\<close>)
  then show ?thesis using assms
    by (simp add: trackCoreApplyJobsFromResponse_def Some Let_def js_def)
qed

lemma toasts_inv: "tracker_inv (s\<lparr>tk_toasts := ts\<rparr>) = tracker_inv s"
  by (simp add: tracker_inv_def)

lemma warn_inv: "tracker_inv s \<Longrightarrow> tracker_inv (snd (showCoreApplyWarning w tr response pre s))"
  by (simp add: showCoreApplyWarning_def track_inv toasts_inv split: option.split)

lemma fire_inv: "tracker_inv s \<Longrightarrow> tracker_inv (fireTimer s)"
  by (auto simp: fireTimer_def tracker_inv_def jobs_ok_def Let_def split: option.splits)

lemma complete_inv:
  assumes "tracker_inv s"
  shows "tracker_inv (completePoll w tr i answers s)"
proof -
  obtain m ok bad where r: "sort_results (poll_results (tk_inflight s ! i) answers) (tk_jobs s) = (m, ok, bad)"
    by (cases "sort_results (poll_results (tk_inflight s ! i) answers) (tk_jobs s)") auto
  have "jobs_ok m"
    using jobs_ok_sort_results [of "tk_jobs s" "poll_results (tk_inflight s ! i) answers"] assms r
    by (simp add: tracker_inv_def)
  moreover have "\<forall>js \<in> set (take i (tk_inflight s) @ drop (Suc i) (tk_inflight s)). \<forall>j \<in> set js. aj_id j \<noteq> [] \<and> unfinished j"
    using assms by (auto simp: tracker_inv_def dest: in_set_takeD in_set_dropD)
  ultimately show ?thesis using assms
    unfolding completePoll_def r by (simp, intro schedule_inv) (auto simp: tracker_inv_def)
qed

lemma step_inv: "tracker_step w tr s s' \<Longrightarrow> tracker_inv s \<Longrightarrow> tracker_inv s'"
  by (erule tracker_stepE) (simp_all add: track_inv warn_inv fire_inv complete_inv)

lemma reachable_inv: "reachable w tr s \<Longrightarrow> tracker_inv s"
  by (induction rule: reachable.induct) (auto simp: start_inv intro: step_inv)

text \<open>
  C3.
  In every reachable state of the poller: the map is keyed by the jobs' own, non-empty ids, without
  duplicates; a job that has succeeded or failed is no longer tracked; and as long as a job is tracked, the
  poller is going to ask again, because a timer is pending with the current token (so firing it does start a
  poll) or the answers of a poll are still to come.
\<close>

theorem tracker_never_stalls:
  assumes "reachable w tr s"
  shows "distinct (map fst (tk_jobs s))
    \<and> (\<forall>(k, j) \<in> set (tk_jobs s). k = aj_id j \<and> k \<noteq> [] \<and> toLowerCase (aj_status j) \<notin> {''succeeded'', ''failed''})
    \<and> (tk_jobs s \<noteq> [] \<longrightarrow> tk_inflight s \<noteq> []
        \<or> (tk_timer s \<noteq> None \<and> tk_inflight (fireTimer s) = tk_inflight s @ [map snd (tk_jobs s)]))"
  using reachable_inv [OF assms]
  by (auto simp: tracker_inv_def jobs_ok_def unfinished_def fireTimer_def Let_def)


definition sample_job :: "string \<Rightarrow> apply_job" where
  "sample_job status = \<lparr>aj_id = ''41'', aj_core = ''xray'', aj_status = status, aj_error = None, aj_detail = None,
     aj_message = None, aj_accepted = None, aj_retry_count = None, aj_max_retries = None\<rparr>"

definition queued_write :: core_write where
  "queued_write = no_core_write\<lparr>cw_config_changed := Some True, cw_auto_apply := [(''xray'', Some (sample_job ''queued''))]\<rparr>"

lemma track_queued:
  "trackCoreApplyJobsFromResponse (Some queued_write) s =
     (if tk_fetcher s then s\<lparr>tk_jobs := AList.update ''41'' (sample_job ''queued'') (tk_jobs s),
        tk_token := Suc (tk_token s), tk_timer := Some (Suc (tk_token s))\<rparr> else s)"
proof -
  have "AList.update k v m \<noteq> []" for k v and m :: "(string \<times> apply_job) list" by (cases m) auto
  then show ?thesis
    by (simp add: trackCoreApplyJobsFromResponse_def queued_write_def no_core_write_def List.map_filter_def
        trackable_def coreApplyJobActive_def sample_job_def lower_char_def put_job_def scheduleCoreApplyJobPoll_def)
qed

theorem tracker_never_stalls_witness:
  "\<exists>s. reachable sample_settings_page (\<lambda>s. s) s \<and> tk_jobs s = [(''41'', sample_job ''queued'')]
     \<and> (tk_inflight s \<noteq> [] \<or> tk_inflight (fireTimer s) = tk_inflight s @ [map snd (tk_jobs s)])"
proof -
  let ?s = "trackCoreApplyJobsFromResponse (Some queued_write) tracker_start"
  have r: "reachable sample_settings_page (\<lambda>s. s) ?s" by (rule reachable.step [OF reachable.start tracker_step.track])
  moreover have "tk_jobs ?s = [(''41'', sample_job ''queued'')]"
    by (simp add: track_queued tracker_start_def tracker_idle_def configureCoreApplyJobTracking_def)
  ultimately show ?thesis using tracker_never_stalls [OF r] by (intro exI [of _ ?s]) auto
qed

section \<open>What one poll does\<close>

definition job_key :: "apply_job option \<Rightarrow> string" where
  "job_key r = (case r of None \<Rightarrow> [] | Some j \<Rightarrow> aj_id j)"

definition named_jobs :: "apply_job option list \<Rightarrow> apply_job list" where
  "named_jobs rs = filter (\<lambda>j. aj_id j \<noteq> []) (List.map_filter (\<lambda>r. r) rs)"

lemma named_jobs_simps [simp]:
  "named_jobs [] = []" "named_jobs (None # rs) = named_jobs rs"
  "named_jobs (Some j # rs) = (if aj_id j \<noteq> [] then j # named_jobs rs else named_jobs rs)"
  by (simp_all add: named_jobs_def List.map_filter_def)

lemma sort_results_lists:
  "snd (sort_results rs m) = (filter (\<lambda>j. toLowerCase (aj_status j) = ''succeeded'') (named_jobs rs),
     filter (\<lambda>j. toLowerCase (aj_status j) = ''failed'') (named_jobs rs))"
proof (induction rs arbitrary: m)
  case Nil
  then show ?case by simp
next
  case (Cons r rs)
  have split: "(case sort_results rs x of (m, ok, bad) \<Rightarrow> (m, f ok, g bad)) =
     (fst (sort_results rs x), f (fst (snd (sort_results rs x))), g (snd (snd (sort_results rs x))))" for x f g
    by (simp split: prod.splits)
  show ?case using Cons by (cases r) (simp_all add: split)
qed

lemma sort_results_map:
  "distinct (map aj_id (named_jobs rs)) \<Longrightarrow>
   map_of (fst (sort_results rs m)) k =
     (case find (\<lambda>j. aj_id j = k) (named_jobs rs) of
        Some j \<Rightarrow> if unfinished j then Some j else None
      | None \<Rightarrow> map_of m k)"
proof (induction rs arbitrary: m)
  case Nil
  then show ?case by simp
next
  case (Cons r rs)
  show ?case
  proof (cases "\<exists>j. r = Some j \<and> aj_id j \<noteq> []")
    case False
    then show ?thesis using Cons by (cases r) auto
  next
    case True
    then obtain j where j: "r = Some j" "aj_id j \<noteq> []" by blast
    have d: "distinct (map aj_id (named_jobs rs))" "aj_id j \<notin> aj_id ` set (named_jobs rs)"
      using Cons.prems j by auto
    have split: "fst (case sort_results rs x of (m, ok, bad) \<Rightarrow> (m, f ok, g bad)) = fst (sort_results rs x)" for x f g
      by (simp split: prod.splits)
    have nofind: "find (\<lambda>i. aj_id i = aj_id j) (named_jobs rs) = None"
      using d(2) unfolding find_None_all by (metis image_eqI)
    have eq: "fst (sort_results (r # rs) m) =
       fst (sort_results rs (if unfinished j then put_job j m else AList.delete (aj_id j) m))"
      using j by (simp add: split unfinished_def)
    show ?thesis unfolding eq Cons.IH [OF d(1)]
      using j nofind
      by (auto simp: put_job_def js_map.get_put js_map.get_remove split: option.split)
  qed
qed

text \<open>
  C2.
  When the answers of a poll arrive and no two of them name the same job, every answered job is settled by
  its own answer: a job reported as succeeded or failed is no longer tracked, and exactly those are announced
  (the succeeded ones in one toast, each failed one in its own error toast leading to its core's page, in the
  order they were asked for); a job reported in any other state is tracked with the new state; a job whose
  request failed stays tracked; and a job that was added while the answers were on their way is untouched.
\<close>

theorem poll_settles_jobs:
  assumes "named = named_jobs (poll_results (tk_inflight s ! i) answers)" and "distinct (map aj_id named)"
  shows "map_of (tk_jobs (completePoll w tr i answers s)) k =
      (case find (\<lambda>j. aj_id j = k) named of
         Some j \<Rightarrow> if toLowerCase (aj_status j) \<in> {''succeeded'', ''failed''} then None else Some j
       | None \<Rightarrow> map_of (tk_jobs s) k)
    \<and> tk_toasts (completePoll w tr i answers s) = tk_toasts s @
        (let ok = filter (\<lambda>j. toLowerCase (aj_status j) = ''succeeded'') named in
         if ok = [] then [] else [\<lparr>to_title = tr (coreApplySucceededMessage ok), to_tone = ToneSuccess, to_action = None\<rparr>])
        @ map (failed_toast w tr) (filter (\<lambda>j. toLowerCase (aj_status j) = ''failed'') named)"
proof -
  let ?rs = "poll_results (tk_inflight s ! i) answers"
  obtain m ok bad where r: "sort_results ?rs (tk_jobs s) = (m, ok, bad)"
    by (cases "sort_results ?rs (tk_jobs s)") auto
  have m: "map_of m k = (case find (\<lambda>j. aj_id j = k) named of
         Some j \<Rightarrow> if unfinished j then Some j else None | None \<Rightarrow> map_of (tk_jobs s) k)"
    using sort_results_map [of ?rs "tk_jobs s" k] assms r by simp
  have l: "ok = filter (\<lambda>j. toLowerCase (aj_status j) = ''succeeded'') named"
      "bad = filter (\<lambda>j. toLowerCase (aj_status j) = ''failed'') named"
    using sort_results_lists [of ?rs "tk_jobs s"] assms(1) r by simp_all
  have "tk_jobs (completePoll w tr i answers s) = m"
    "tk_toasts (completePoll w tr i answers s) = tk_toasts s @ poll_toasts w tr ok bad"
    by (simp_all add: completePoll_def r scheduleCoreApplyJobPoll_def)
  then show ?thesis using m l
    by (simp add: poll_toasts_def unfinished_def Let_def split: option.split)
qed

definition polling_state :: tracker where
  "polling_state = fireTimer (trackCoreApplyJobsFromResponse (Some queued_write) tracker_start)"

lemma polling_state: "polling_state = \<lparr>tk_jobs = [(''41'', sample_job ''queued'')], tk_fetcher = True, tk_timer = None,
   tk_token = 1, tk_inflight = [[sample_job ''queued'']], tk_toasts = []\<rparr>"
  by (simp add: polling_state_def track_queued fireTimer_def tracker_start_def tracker_idle_def
      configureCoreApplyJobTracking_def Let_def)

theorem poll_settles_jobs_witness:
  "map_of (tk_jobs (completePoll sample_settings_page (\<lambda>s. s) 0 [Some (Some (sample_job ''succeeded''))] polling_state)) ''41'' = None
   \<and> length (tk_toasts (completePoll sample_settings_page (\<lambda>s. s) 0 [Some (Some (sample_job ''succeeded''))] polling_state)) = 1"
  using poll_settles_jobs [OF refl, of polling_state 0 "[Some (Some (sample_job ''succeeded''))]" sample_settings_page "\<lambda>s. s" "''41''"]
  by (simp add: polling_state poll_results_def sample_job_def lower_char_def)

section \<open>Overlapping polls\<close>

text \<open>
  The answers are processed without looking at the poll token again. A write that comes while a poll is in
  flight starts a second poll over the same jobs, and the answers of both are announced: the user is told
  twice that the same job has succeeded.
\<close>

lemma reachable_polling: "reachable w tr polling_state"
  unfolding polling_state_def
  by (intro reachable.step [OF reachable.step [OF reachable.start tracker_step.track] tracker_step.fire])
    (simp add: track_queued tracker_start_def tracker_idle_def configureCoreApplyJobTracking_def)

definition overlapping_state :: tracker where
  "overlapping_state = fireTimer (trackCoreApplyJobsFromResponse (Some queued_write) polling_state)"

lemma overlapping_state: "overlapping_state = \<lparr>tk_jobs = [(''41'', sample_job ''queued'')], tk_fetcher = True, tk_timer = None,
   tk_token = 2, tk_inflight = [[sample_job ''queued''], [sample_job ''queued'']], tk_toasts = []\<rparr>"
  by (simp add: overlapping_state_def track_queued polling_state fireTimer_def Let_def)

lemma reachable_overlapping: "reachable w tr overlapping_state"
  unfolding overlapping_state_def
  by (intro reachable.step [OF reachable.step [OF reachable_polling tracker_step.track] tracker_step.fire])
    (simp add: track_queued polling_state)

definition synced_toast :: "(string \<Rightarrow> string) \<Rightarrow> toast" where
  "synced_toast tr = \<lparr>to_title = tr (coreApplySucceededMessage [sample_job ''succeeded'']),
     to_tone = ToneSuccess, to_action = None\<rparr>"

lemma complete_succeeded:
  assumes "i < length (tk_inflight s)" and "tk_inflight s ! i = [sample_job ''queued'']" and "tk_jobs s \<in> {[], [(''41'', sample_job ''queued'')]}"
  shows "completePoll w tr i [Some (Some (sample_job ''succeeded''))] s =
     s\<lparr>tk_jobs := [], tk_inflight := take i (tk_inflight s) @ drop (Suc i) (tk_inflight s),
       tk_toasts := tk_toasts s @ [synced_toast tr]\<rparr>"
  using assms
  by (auto simp: completePoll_def poll_results_def sample_job_def lower_char_def scheduleCoreApplyJobPoll_def
      poll_toasts_def synced_toast_def)

text \<open>
  
  The poller does not guarantee a single announcement: there is a run in which one job is tracked by two
  writes, succeeds once, and the user sees the same success toast twice.
\<close>

theorem overlapping_polls_announce_twice:
  "\<exists>s. reachable w tr s \<and> tk_jobs s = [] \<and> tk_inflight s = [] \<and> tk_toasts s = [synced_toast tr, synced_toast tr]"
proof -
  let ?a = "[Some (Some (sample_job ''succeeded''))]"
  let ?s1 = "completePoll w tr 0 ?a overlapping_state"
  let ?s2 = "completePoll w tr 0 ?a ?s1"
  have s1: "?s1 = overlapping_state\<lparr>tk_jobs := [], tk_inflight := [[sample_job ''queued'']], tk_toasts := [synced_toast tr]\<rparr>"
    by (subst complete_succeeded) (simp_all add: overlapping_state)
  have s2: "?s2 = overlapping_state\<lparr>tk_jobs := [], tk_inflight := [], tk_toasts := [synced_toast tr, synced_toast tr]\<rparr>"
    unfolding s1 by (subst complete_succeeded) (simp_all add: overlapping_state)
  have "reachable w tr ?s1"
    by (rule reachable.step [OF reachable_overlapping tracker_step.answer]) (simp_all add: overlapping_state)
  then have "reachable w tr ?s2"
    by (rule reachable.step [OF _ tracker_step.answer]) (simp_all add: s1)
  then show ?thesis using s2 by (intro exI [of _ ?s2]) simp
qed

end
