(* ===== verification/Endpoints.thy ===== *)
theory Endpoints
  imports CoreApply
begin

text \<open>
  The endpoint tables of \<^verbatim>\<open>src/web/src/api/\<close>: one datatype per file, with a constructor for
  each function the file exports, and the request that function makes (path, method, body). Request bodies
  that a page assembles are JSON values. Where a function transforms the answer, the transformation is a
  definition of its own: \<open>unwrapRoutingRule\<close>, \<open>inbounds_result\<close>, \<open>capabilities_result\<close>.
\<close>

definition jint :: "int \<Rightarrow> jsval" where "jint n = JNum (of_int n)"

definition jobj :: "(string \<times> jsval) list \<Rightarrow> jsval" where "jobj kvs = JObj kvs"

definition confirmedSystemAction :: "(string \<times> jsval) list" where
  "confirmedSystemAction = [(''confirm'', JBool True), (''allow_system_changes'', JBool True)]"

definition with_id :: "string \<Rightarrow> int \<Rightarrow> string \<Rightarrow> string" where
  "with_id front n back = front @ int_str n @ back"

section \<open>Session\<close>

datatype session_op = Login string string | Logout | Session | Sessions | RevokeSession int
  | RevokeOtherSessions | Health | PanelVersion

fun session_call :: "session_op \<Rightarrow> call" where
  "session_call (Login username password) =
     post_call ''/api/login'' (Some (jobj [(''username'', JStr username), (''password'', JStr password)]))"
| "session_call Logout = post_call ''/api/logout'' None"
| "session_call Session = get_call ''/api/session''"
| "session_call Sessions = get_call ''/api/sessions''"
| "session_call (RevokeSession n) = del_call (with_id ''/api/sessions/'' n [])"
| "session_call RevokeOtherSessions = del_call ''/api/sessions/others''"
| "session_call Health = get_call ''/api/health''"
| "session_call PanelVersion = get_call ''/api/version''"

section \<open>Cores\<close>

datatype core_op = CoreStatusOf | CoreDiagnostics | CoreVersion | CoreConfig | CoreConfigPreview | CoreValidate
  | CoreApply | CoreInstall | CoreUninstall | CoreDelete | CoreRestart | CoreStop | CoreLogs

definition core_prefix :: "core_name \<Rightarrow> string" where
  "core_prefix core = (case core of Xray \<Rightarrow> ''/api/xray/'' | SingBox \<Rightarrow> ''/api/singbox/'')"

definition core_action :: "core_op \<Rightarrow> string" where
  "core_action op = (case op of CoreStatusOf \<Rightarrow> ''status'' | CoreDiagnostics \<Rightarrow> ''diagnostics''
     | CoreVersion \<Rightarrow> ''version'' | CoreConfig \<Rightarrow> ''config'' | CoreConfigPreview \<Rightarrow> ''config/preview''
     | CoreValidate \<Rightarrow> ''validate'' | CoreApply \<Rightarrow> ''apply'' | CoreInstall \<Rightarrow> ''install''
     | CoreUninstall \<Rightarrow> ''uninstall'' | CoreDelete \<Rightarrow> ''delete'' | CoreRestart \<Rightarrow> ''restart''
     | CoreStop \<Rightarrow> ''stop'' | CoreLogs \<Rightarrow> ''logs'')"

definition changes_system :: "core_op \<Rightarrow> bool" where
  "changes_system op = (op \<in> {CoreApply, CoreInstall, CoreUninstall, CoreDelete, CoreRestart, CoreStop})"

definition core_call :: "core_name \<Rightarrow> core_op \<Rightarrow> call" where
  "core_call core op =
     (let path = core_prefix core @ core_action op
      in if changes_system op then post_call path (Some (jobj confirmedSystemAction)) else get_call path)"

definition core_job_call :: "string \<Rightarrow> call" where
  "core_job_call n = get_call (''/api/core/apply-jobs/'' @ encodeURIComponent n)"

section \<open>Inbounds and clients\<close>

datatype inbounds_op = Inbounds | InboundCapabilities | GenerateRealityKeypair | CreateInbound jsval
  | UpdateInbound int jsval | DeleteInbound int | ToggleInbound int bool | CreateClient int jsval
  | UpdateClient int int jsval | DeleteClient int int | ToggleClient int int bool | ResetClientTraffic int int

definition client_path :: "int \<Rightarrow> int \<Rightarrow> string \<Rightarrow> string" where
  "client_path inboundId n back = with_id (with_id ''/api/inbounds/'' inboundId ''/clients/'') n back"

fun inbounds_call :: "inbounds_op \<Rightarrow> call" where
  "inbounds_call Inbounds = get_call ''/api/inbounds''"
| "inbounds_call InboundCapabilities = get_call ''/api/inbound-capabilities''"
| "inbounds_call GenerateRealityKeypair = post_call ''/api/reality/keypair'' (Some (jobj []))"
| "inbounds_call (CreateInbound b) = post_call ''/api/inbounds'' (Some b)"
| "inbounds_call (UpdateInbound n b) = put_call (with_id ''/api/inbounds/'' n []) b"
| "inbounds_call (DeleteInbound n) = del_call (with_id ''/api/inbounds/'' n [])"
| "inbounds_call (ToggleInbound n enabled) =
     patch_call (with_id ''/api/inbounds/'' n ''/enabled'') (jobj [(''enabled'', JBool enabled)])"
| "inbounds_call (CreateClient inboundId b) = post_call (with_id ''/api/inbounds/'' inboundId ''/clients'') (Some b)"
| "inbounds_call (UpdateClient inboundId n b) = put_call (client_path inboundId n []) b"
| "inbounds_call (DeleteClient inboundId n) = del_call (client_path inboundId n [])"
| "inbounds_call (ToggleClient inboundId n enabled) =
     patch_call (client_path inboundId n ''/enabled'') (jobj [(''enabled'', JBool enabled)])"
| "inbounds_call (ResetClientTraffic inboundId n) = post_call (client_path inboundId n ''/reset-traffic'') None"

definition inbounds_result :: "jsval \<Rightarrow> jsval" where
  "inbounds_result response = (case response of JArr xs \<Rightarrow> response
     | _ \<Rightarrow> if truthy (js_field response ''inbounds'') then js_field response ''inbounds'' else JArr [])"

definition capabilities_result :: "jsval \<Rightarrow> jsval" where
  "capabilities_result response =
     (if truthy (js_field response ''capabilities'') then js_field response ''capabilities'' else JArr [])"

definition subscription_path :: "string \<Rightarrow> string" where
  "subscription_path token = ''/sub/'' @ encodeURIComponent token"

definition subscriptionLink :: "location \<Rightarrow> response option \<Rightarrow> string \<Rightarrow> (failure + string) \<times> string option" where
  "subscriptionLink w answer token =
     (case apiText_response w (subscription_path token) answer ''share_link_unavailable'' of
        (Inr t, red) \<Rightarrow> (Inr (trim t), red)
      | other \<Rightarrow> other)"

section \<open>Outbounds\<close>

record proxy_pool_query =
  pq_country :: "string option"
  pq_summary :: bool
  pq_page :: "int option"
  pq_per_page :: "int option"

definition pool_params :: "proxy_pool_query \<Rightarrow> (string \<times> string) list" where
  "pool_params q =
     (if ostr (pq_country q) \<noteq> [] then [(''country'', ostr (pq_country q))] else [])
     @ (if pq_summary q then [(''summary'', ''1'')] else [])
     @ (if oint (pq_page q) \<noteq> 0 then [(''page'', int_str (oint (pq_page q)))] else [])
     @ (if oint (pq_per_page q) \<noteq> 0 then [(''per_page'', int_str (oint (pq_per_page q)))] else [])"

definition with_query :: "string \<Rightarrow> (string \<times> string) list \<Rightarrow> string" where
  "with_query path params = (let suffix = params_string params in path @ (if suffix \<noteq> [] then ''?'' @ suffix else []))"

definition proxyPoolURL :: "string \<Rightarrow> string + proxy_pool_query \<Rightarrow> string" where
  "proxyPoolURL kind query =
     (let path = ''/api/outbounds/'' @ kind @ ''-pool'' in
      case query of
        Inl country \<Rightarrow> path @ (if country \<noteq> [] then ''?country='' @ encodeURIComponent country else [])
      | Inr q \<Rightarrow> with_query path (pool_params q))"

text \<open>The body a typed outbound is sent as: a field that is not there is \<^verbatim>\<open>undefined\<close>.\<close>

definition jopt :: "('a \<Rightarrow> jsval) \<Rightarrow> 'a option \<Rightarrow> jsval" where
  "jopt f x = (case x of None \<Rightarrow> JUndef | Some v \<Rightarrow> f v)"

definition outbound_json :: "outbound \<Rightarrow> (string \<times> jsval) list" where
  "outbound_json ob =
     [(''id'', jint (ob_id ob)), (''tag'', JStr (ob_tag ob)), (''remark'', jopt JStr (ob_remark ob)),
      (''protocol'', JStr (ob_protocol ob)), (''address'', jopt JStr (ob_address ob)), (''port'', jopt jint (ob_port ob)),
      (''username'', jopt JStr (ob_username ob)), (''password'', jopt JStr (ob_password ob)),
      (''supported_cores'', jopt (\<lambda>cs. JArr (map JStr cs)) (ob_supported_cores ob)),
      (''enabled'', jopt JBool (ob_enabled ob)), (''sort'', jopt jint (ob_sort ob)),
      (''source'', jopt JStr (ob_source ob)), (''subscription_id'', jopt jint (ob_subscription_id ob))] @ ob_extra ob"

datatype outbounds_op = Outbounds | CreateOutbound jsval | UpdateOutbound int jsval | DeleteOutbound int
  | ToggleOutbound outbound bool
  | PingOutbound int | SpeedtestAll | ReorderOutbounds "int list" | ProxyPool string "string + proxy_pool_query"
  | PingProxyPool string jsval | ImportProxyPool string jsval | OutboundSubscriptions
  | CreateOutboundSubscription jsval | UpdateOutboundSubscription int jsval | DeleteOutboundSubscription int
  | RefreshOutboundSubscription int | RefreshOutboundSubscriptions | PreviewOutboundSubscription jsval
  | ReorderOutboundSubscriptions "int list"

definition ids_body :: "int list \<Rightarrow> jsval" where
  "ids_body ids = jobj [(''ids'', JArr (map jint ids))]"

fun outbounds_call :: "outbounds_op \<Rightarrow> call" where
  "outbounds_call Outbounds = get_call ''/api/outbounds''"
| "outbounds_call (CreateOutbound b) = post_call ''/api/outbounds'' (Some b)"
| "outbounds_call (UpdateOutbound n b) = put_call (with_id ''/api/outbounds/'' n []) b"
| "outbounds_call (DeleteOutbound n) = del_call (with_id ''/api/outbounds/'' n [])"
| "outbounds_call (ToggleOutbound item enabled) =
     put_call (with_id ''/api/outbounds/'' (ob_id item) []) (jobj (outbound_json (item\<lparr>ob_enabled := Some enabled\<rparr>)))"
| "outbounds_call (PingOutbound n) = get_call (with_id ''/api/outbounds/'' n ''/ping'')"
| "outbounds_call SpeedtestAll = post_call ''/api/outbounds/speedtest-all'' None"
| "outbounds_call (ReorderOutbounds ids) = post_call ''/api/outbounds/reorder'' (Some (ids_body ids))"
| "outbounds_call (ProxyPool kind query) = get_call (proxyPoolURL kind query)"
| "outbounds_call (PingProxyPool kind proxy) = post_call (''/api/outbounds/'' @ kind @ ''-pool/ping'') (Some proxy)"
| "outbounds_call (ImportProxyPool kind proxy) = post_call (''/api/outbounds/'' @ kind @ ''-pool/import'') (Some proxy)"
| "outbounds_call OutboundSubscriptions = get_call ''/api/outbound-subscriptions''"
| "outbounds_call (CreateOutboundSubscription b) = post_call ''/api/outbound-subscriptions'' (Some b)"
| "outbounds_call (UpdateOutboundSubscription n b) = put_call (with_id ''/api/outbound-subscriptions/'' n []) b"
| "outbounds_call (DeleteOutboundSubscription n) = del_call (with_id ''/api/outbound-subscriptions/'' n [])"
| "outbounds_call (RefreshOutboundSubscription n) = post_call (with_id ''/api/outbound-subscriptions/'' n ''/refresh'') None"
| "outbounds_call RefreshOutboundSubscriptions = post_call ''/api/outbound-subscriptions/refresh'' None"
| "outbounds_call (PreviewOutboundSubscription b) = post_call ''/api/outbound-subscriptions/preview'' (Some b)"
| "outbounds_call (ReorderOutboundSubscriptions ids) = post_call ''/api/outbound-subscriptions/reorder'' (Some (ids_body ids))"

section \<open>Routing rules\<close>

datatype routing_op = RoutingRules | CreateRoutingRule jsval | UpdateRoutingRule int jsval | DeleteRoutingRule int
  | ReorderRoutingRules "int list"

fun routing_call :: "routing_op \<Rightarrow> call" where
  "routing_call RoutingRules = get_call ''/api/routing-rules''"
| "routing_call (CreateRoutingRule b) = post_call ''/api/routing-rules'' (Some b)"
| "routing_call (UpdateRoutingRule n b) = put_call (with_id ''/api/routing-rules/'' n []) b"
| "routing_call (DeleteRoutingRule n) = del_call (with_id ''/api/routing-rules/'' n [])"
| "routing_call (ReorderRoutingRules ids) = post_call ''/api/routing-rules/reorder'' (Some (ids_body ids))"

definition kept_fields :: "string list" where
  "kept_fields = [''applied'', ''error'', ''detail'', ''warnings'', ''post_apply_warnings'', ''non_fatal_warnings'',
     ''singbox'', ''xray'']"

definition unwrapRoutingRule :: "jsval \<Rightarrow> jsval" where
  "unwrapRoutingRule response =
     (if js_has_field response ''rule'' \<and> truthy (js_field response ''rule'') then
        JObj (fold (\<lambda>k. AList.update k (js_field response k)) kept_fields
          (case js_field response ''rule'' of JObj kvs \<Rightarrow> kvs | _ \<Rightarrow> []))
      else response)"

section \<open>Traffic\<close>

record analytics_params =
  ap_range :: "string option"
  ap_metric :: "string option"
  ap_scope_type :: "string option"
  ap_top :: "int option"

definition analytics_query :: "analytics_params \<Rightarrow> (string \<times> string) list" where
  "analytics_query p =
     (if ostr (ap_range p) \<noteq> [] then [(''range'', ostr (ap_range p))] else [])
     @ (if ostr (ap_metric p) \<noteq> [] then [(''metric'', ostr (ap_metric p))] else [])
     @ (if ostr (ap_scope_type p) \<noteq> [] then [(''scope_type'', ostr (ap_scope_type p))] else [])
     @ (if oint (ap_top p) \<noteq> 0 then [(''top'', int_str (oint (ap_top p)))] else [])"

datatype traffic_op = DashboardSummary | TrafficSnapshot | TrafficAnalytics analytics_params | Resources

fun traffic_call :: "traffic_op \<Rightarrow> call" where
  "traffic_call DashboardSummary = get_call ''/api/dashboard/summary''"
| "traffic_call TrafficSnapshot = get_call ''/api/traffic/v2/snapshot''"
| "traffic_call (TrafficAnalytics p) = get_call (with_query ''/api/traffic/v2/analytics'' (analytics_query p))"
| "traffic_call Resources = get_call ''/api/system/resources''"

section \<open>Settings, certificates and updates\<close>

datatype settings_op = Settings | SaveSettings jsval | CertStatus | IssueCert string string | Certificates
  | CertificatePreflight "string list" string | CreateCertificate "string list" string
  | ImportCertificate "(string \<times> jsval) list" | RenewDueCertificates int | DeleteCertificate int
  | CertificateOperations int | CertificateInboundTargets | ApplyCertificate int "int list" | Restart
  | ServiceStatus | Version | UpdateCheck | UpdateStatus | UpdateLogs | Update

definition jstrs :: "string list \<Rightarrow> jsval" where "jstrs xs = JArr (map JStr xs)"

definition confirmed_post :: "string \<Rightarrow> (string \<times> jsval) list \<Rightarrow> call" where
  "confirmed_post path kvs = post_call path (Some (jobj (fold (\<lambda>(k, v). AList.update k v) confirmedSystemAction kvs)))"

fun settings_call :: "settings_op \<Rightarrow> call" where
  "settings_call Settings = get_call ''/api/settings''"
| "settings_call (SaveSettings b) = put_call ''/api/settings'' b"
| "settings_call CertStatus = get_call ''/api/cert/status''"
| "settings_call (IssueCert domain email) =
     confirmed_post ''/api/cert/issue'' [(''domain'', JStr domain), (''email'', JStr email)]"
| "settings_call Certificates = get_call ''/api/certificates''"
| "settings_call (CertificatePreflight domains email) =
     post_call ''/api/certificates/preflight'' (Some (jobj [(''domains'', jstrs domains), (''email'', JStr email)]))"
| "settings_call (CreateCertificate domains email) =
     confirmed_post ''/api/certificates'' [(''domains'', jstrs domains), (''email'', JStr email)]"
| "settings_call (ImportCertificate b) = confirmed_post ''/api/certificates/import'' b"
| "settings_call (RenewDueCertificates days) = confirmed_post ''/api/certificates/renew-due'' [(''days'', jint days)]"
| "settings_call (DeleteCertificate n) = confirmed_post (with_id ''/api/certificates/'' n ''/delete'') []"
| "settings_call (CertificateOperations n) = get_call (with_id ''/api/certificates/'' n ''/operations?limit=20'')"
| "settings_call CertificateInboundTargets = get_call ''/api/certificates/inbounds''"
| "settings_call (ApplyCertificate n inboundIds) =
     confirmed_post (with_id ''/api/certificates/'' n ''/apply'') [(''inbound_ids'', JArr (map jint inboundIds))]"
| "settings_call Restart = confirmed_post ''/api/restart'' []"
| "settings_call ServiceStatus = get_call ''/api/service/status''"
| "settings_call Version = get_call ''/api/version''"
| "settings_call UpdateCheck = get_call ''/api/update/check''"
| "settings_call UpdateStatus = get_call ''/api/update/status''"
| "settings_call UpdateLogs = get_call ''/api/update/logs?lines=160''"
| "settings_call Update = confirmed_post ''/api/update'' []"

section \<open>Filters reach the server\<close>

definition query_of :: "string \<Rightarrow> string" where \<comment> \<open>the part of an address from its question mark on\<close>
  "query_of url = dropWhile (\<lambda>c. c \<noteq> CHR ''?'') url"

lemma query_of_append: "CHR ''?'' \<notin> set path \<Longrightarrow> query_of (path @ x) = query_of x"
  by (induction path) (auto simp: query_of_def)

lemma query_of_mark [simp]: "query_of (CHR ''?'' # x) = CHR ''?'' # x" "query_of [] = []"
  by (simp_all add: query_of_def)

lemma search_get_Nil [simp]: "search_get [] k = None"
  by (simp add: search_get_def query_pairs_def startsWith_def)

lemma query_of_url:
  assumes "CHR ''?'' \<notin> set path"
  shows "search_get (query_of (with_query path params)) k = map_of params k"
proof (cases "params_string params = []")
  case True
  then have "params = []"
    using query_pairs_params [of params] by (simp add: query_pairs_def startsWith_def)
  then show ?thesis using query_of_append [OF assms, of "[]"]
    by (simp add: with_query_def params_string_def)
next
  case False
  then show ?thesis
    using query_of_append [OF assms, of "''?'' @ params_string params"] search_get_params [of params k]
    by (simp add: with_query_def Let_def)
qed

lemma query_of_country:
  assumes "CHR ''?'' \<notin> set path"
  shows "search_get (query_of (path @ (if country \<noteq> [] then ''?country='' @ encodeURIComponent country else []))) ''country''
    = (if country = [] then None else Some country)"
  using query_of_append [OF assms] search_get_single [of "''country''" country] by simp

lemma pool_params_lookup:
  "map_of (pool_params q) ''country'' = (if ostr (pq_country q) = [] then None else pq_country q)"
  "map_of (pool_params q) ''summary'' = (if pq_summary q then Some ''1'' else None)"
  "map_of (pool_params q) ''page'' = (if oint (pq_page q) = 0 then None else Some (int_str (oint (pq_page q))))"
  "map_of (pool_params q) ''per_page'' = (if oint (pq_per_page q) = 0 then None else Some (int_str (oint (pq_per_page q))))"
  by (cases "pq_country q"; simp add: pool_params_def map_of_append map_add_def)+

text \<open>
  
  The filters of the proxy pool reach the server as they were chosen: parsing the query of the address gives
  back the country, whatever characters it has (also when it is passed as a bare string), the page and page
  size as decimal numbers, the summary flag as 1, and no entry for a filter that is unset, empty or zero.
\<close>

theorem proxy_pool_filters_arrive:
  assumes "CHR ''?'' \<notin> set kind"
  shows "search_get (query_of (proxyPoolURL kind (Inr q))) ''country'' = (if ostr (pq_country q) = [] then None else pq_country q)
    \<and> search_get (query_of (proxyPoolURL kind (Inr q))) ''summary'' = (if pq_summary q then Some ''1'' else None)
    \<and> search_get (query_of (proxyPoolURL kind (Inr q))) ''page'' =
        (if oint (pq_page q) = 0 then None else Some (int_str (oint (pq_page q))))
    \<and> search_get (query_of (proxyPoolURL kind (Inr q))) ''per_page'' =
        (if oint (pq_per_page q) = 0 then None else Some (int_str (oint (pq_per_page q))))
    \<and> search_get (query_of (proxyPoolURL kind (Inl country))) ''country'' = (if country = [] then None else Some country)"
proof -
  define path where "path = ''/api/outbounds/'' @ kind @ ''-pool''"
  have path: "CHR ''?'' \<notin> set path" using assms by (simp add: path_def)
  have url: "proxyPoolURL kind (Inr q) = with_query path (pool_params q)"
    "proxyPoolURL kind (Inl country) = path @ (if country \<noteq> [] then ''?country='' @ encodeURIComponent country else [])"
    by (simp_all add: proxyPoolURL_def path_def Let_def)
  show ?thesis unfolding url query_of_url [OF path] pool_params_lookup query_of_country [OF path] by simp
qed

theorem proxy_pool_filters_arrive_witness:
  "search_get (query_of (proxyPoolURL ''socks5'' (Inl ''A&B''))) ''country'' = Some ''A&B''"
  using proxy_pool_filters_arrive [of "''socks5''" undefined "''A&B''"] by simp

section \<open>Routing writes lose the apply report\<close>

text \<open>
  
  Unwrapping the answer to a created or updated routing rule keeps eight fields of the write result. The
  others, among them the configuration change flag, the automatic apply jobs and their errors, are replaced
  by fields of the rule, which has none of them: whatever the server reported about the automatic apply, the
  page shows no failure, tracks no job, and is silent unless one of the eight fields speaks.
\<close>

theorem unwrapped_rule_hides_apply_report:
  assumes "js_field response ''rule'' = JObj rule" and "js_has_field response ''rule''"
    and "\<forall>k \<in> {''config_changed'', ''pending_apply'', ''auto_apply'', ''auto_apply_error''}. map_of rule k = None"
    and "read_core_write (unwrapRoutingRule response) = Some data"
  shows "cw_config_changed data = None \<and> cw_auto_apply data = [] \<and> cw_auto_apply_error data = []
    \<and> (\<forall>d. classify_write data \<noteq> SyncFailed d) \<and> classify_write data \<noteq> Syncing
    \<and> (\<forall>cs. classify_write data \<noteq> Pending cs)"
proof -
  define kvs where "kvs = fold (\<lambda>k. AList.update k (js_field response k)) kept_fields rule"
  have un: "unwrapRoutingRule response = JObj kvs"
    using assms(1,2) by (simp add: unwrapRoutingRule_def kvs_def)
  have other: "map_of kvs k = map_of rule k" if "k \<notin> set kept_fields" for k
    using that by (simp add: kvs_def kept_fields_def js_map.get_put)
  have none: "map_of kvs ''config_changed'' = None" "map_of kvs ''pending_apply'' = None"
     "map_of kvs ''auto_apply'' = None" "map_of kvs ''auto_apply_error'' = None"
    using other assms(3) by (auto simp: kept_fields_def)
  have d: "cw_config_changed data = None" "cw_pending_apply data = None" "cw_auto_apply data = []"
     "cw_auto_apply_error data = []"
    using assms(4) none
    by (auto simp: un read_core_write_def is_object_def bool_field_def entries_field_def js_field_def)
  have "autoApplyFailureDetail data = []" by (simp add: autoApplyFailureDetail_def d)
  then show ?thesis using d
    by (simp add: classify_write_def is_on_def split: option.splits)
qed

definition sample_rule_response :: jsval where
  "sample_rule_response = JObj [(''rule'', JObj [(''id'', jint 5), (''outbound_tag'', JStr ''proxy'')]),
     (''config_changed'', JBool True),
     (''auto_apply_error'', JObj [(''xray'', JObj [(''error'', JStr ''enqueue_failed'')])])]"

lemma sample_rule_response_reports:
  "\<exists>data. read_core_write sample_rule_response = Some data \<and> is_failure (classify_write data)"
  by (simp add: sample_rule_response_def read_core_write_def is_object_def entries_field_def js_field_def
      read_failure_def string_field_def explicit_error_reported [of "''xray''" "(Some ''enqueue_failed'', None)"])

theorem unwrapped_rule_hides_apply_report_witness:
  "\<exists>data. read_core_write (unwrapRoutingRule sample_rule_response) = Some data \<and> cw_auto_apply_error data = []"
proof -
  obtain data where data: "read_core_write (unwrapRoutingRule sample_rule_response) = Some data"
    by (simp add: sample_rule_response_def unwrapRoutingRule_def js_has_field_def js_field_def read_core_write_def is_object_def)
  have "js_field sample_rule_response ''rule'' = JObj [(''id'', jint 5), (''outbound_tag'', JStr ''proxy'')]"
     "js_has_field sample_rule_response ''rule''"
    by (simp_all add: sample_rule_response_def js_field_def js_has_field_def)
  then show ?thesis using unwrapped_rule_hides_apply_report [OF _ _ _ data] data by auto
qed

section \<open>System actions are confirmed\<close>

lemma confirmed_body:
  assumes "distinct (map fst kvs)"
  shows "map_of (fold (\<lambda>(k, v). AList.update k v) confirmedSystemAction kvs) ''confirm'' = Some (JBool True)
    \<and> map_of (fold (\<lambda>(k, v). AList.update k v) confirmedSystemAction kvs) ''allow_system_changes'' = Some (JBool True)"
  by (simp add: confirmedSystemAction_def js_map.get_put)

end
