(* ===== verification/Topology.thy ===== *)
theory Topology
  imports Cores Format
begin

text \<open>
  \<^verbatim>\<open>src/web/src/routes/topologyGraph.ts\<close>: the graph of inbounds, clients, outbounds and routing rules
  that the topology page draws. \<open>buildTopologyGraph\<close> composes the steps of the source function: the
  inbound blocks, the outbound column, one pass over the rules that draws their edges and collects the
  missing targets (\<open>rule_state\<close>), the default edges to \<^verbatim>\<open>direct\<close>, and the nodes of the missing
  targets. \<^verbatim>\<open>localeCompare\<close> is the parameter \<open>lc\<close>, the order of the browser's collation.
  The constant attributes \<^verbatim>\<open>type: 'topologyNode'\<close> and \<^verbatim>\<open>type: 'smoothstep'\<close> are left out.
\<close>

section \<open>Texts\<close>

text \<open>The non-ASCII texts of this part of the user interface, as UTF-8 bytes.\<close>

definition zh_protocol :: string where
  "zh_protocol = [CHR 0xE5, CHR 0x8D, CHR 0x8F, CHR 0xE8, CHR 0xAE, CHR 0xAE]"

definition zh_core :: string where
  "zh_core = [CHR 0xE5, CHR 0x86, CHR 0x85, CHR 0xE6, CHR 0xA0, CHR 0xB8]"

definition zh_port :: string where
  "zh_port = [CHR 0xE7, CHR 0xAB, CHR 0xAF, CHR 0xE5, CHR 0x8F, CHR 0xA3]"

definition zh_transport :: string where
  "zh_transport = [CHR 0xE4, CHR 0xBC, CHR 0xA0, CHR 0xE8, CHR 0xBE, CHR 0x93]"

definition zh_security :: string where
  "zh_security = [CHR 0xE5, CHR 0xAE, CHR 0x89, CHR 0xE5, CHR 0x85, CHR 0xA8]"

definition zh_client :: string where
  "zh_client = [CHR 0xE5, CHR 0xAE, CHR 0xA2, CHR 0xE6, CHR 0x88, CHR 0xB7, CHR 0xE7, CHR 0xAB, CHR 0xAF]"

definition zh_up :: string where
  "zh_up = [CHR 0xE4, CHR 0xB8, CHR 0x8A, CHR 0xE8, CHR 0xA1, CHR 0x8C]"

definition zh_down :: string where
  "zh_down = [CHR 0xE4, CHR 0xB8, CHR 0x8B, CHR 0xE8, CHR 0xA1, CHR 0x8C]"

definition zh_quota :: string where
  "zh_quota = [CHR 0xE9, CHR 0x99, CHR 0x90, CHR 0xE9, CHR 0xA2, CHR 0x9D]"

definition zh_unlimited :: string where
  "zh_unlimited = [CHR 0xE4, CHR 0xB8, CHR 0x8D, CHR 0xE9, CHR 0x99, CHR 0x90, CHR 0xE5, CHR 0x88, CHR 0xB6]"

definition zh_address :: string where
  "zh_address = [CHR 0xE5, CHR 0x9C, CHR 0xB0, CHR 0xE5, CHR 0x9D, CHR 0x80]"

definition zh_unknown_inbound :: string where
  "zh_unknown_inbound = [CHR 0xE6, CHR 0x9C, CHR 0xAA, CHR 0xE7, CHR 0x9F, CHR 0xA5, CHR 0xE5, CHR 0x85, CHR 0xA5, CHR 0xE7,
    CHR 0xAB, CHR 0x99]"

definition zh_no_inbound_dot :: string where
  "zh_no_inbound_dot = [CHR 0xE8, CHR 0xB7, CHR 0xAF, CHR 0xE7, CHR 0x94, CHR 0xB1, CHR 0xE5, CHR 0xBC, CHR 0x95, CHR 0xE7,
    CHR 0x94, CHR 0xA8, CHR 0xE7, CHR 0x9A, CHR 0x84, CHR 0xE5, CHR 0x85, CHR 0xA5, CHR 0xE7, CHR 0xAB,
    CHR 0x99, CHR 0xE4, CHR 0xB8, CHR 0x8D, CHR 0xE5, CHR 0xAD, CHR 0x98, CHR 0xE5, CHR 0x9C, CHR 0xA8,
    CHR 0x20, CHR 0xC2, CHR 0xB7, CHR 0x20]"

definition zh_no_inbound :: string where
  "zh_no_inbound = [CHR 0xE8, CHR 0xB7, CHR 0xAF, CHR 0xE7, CHR 0x94, CHR 0xB1, CHR 0xE5, CHR 0xBC, CHR 0x95, CHR 0xE7,
    CHR 0x94, CHR 0xA8, CHR 0xE7, CHR 0x9A, CHR 0x84, CHR 0xE5, CHR 0x85, CHR 0xA5, CHR 0xE7, CHR 0xAB,
    CHR 0x99, CHR 0xE4, CHR 0xB8, CHR 0x8D, CHR 0xE5, CHR 0xAD, CHR 0x98, CHR 0xE5, CHR 0x9C, CHR 0xA8]"

definition zh_not_found :: string where
  "zh_not_found = [CHR 0xE6, CHR 0x9C, CHR 0xAA, CHR 0xE6, CHR 0x89, CHR 0xBE, CHR 0xE5, CHR 0x88, CHR 0xB0]"

definition zh_no_client :: string where
  "zh_no_client = [CHR 0xE8, CHR 0xB7, CHR 0xAF, CHR 0xE7, CHR 0x94, CHR 0xB1, CHR 0xE5, CHR 0xBC, CHR 0x95, CHR 0xE7,
    CHR 0x94, CHR 0xA8, CHR 0xE7, CHR 0x9A, CHR 0x84, CHR 0xE5, CHR 0xAE, CHR 0xA2, CHR 0xE6, CHR 0x88,
    CHR 0xB7, CHR 0xE7, CHR 0xAB, CHR 0xAF, CHR 0xE4, CHR 0xB8, CHR 0x8D, CHR 0xE5, CHR 0xAD, CHR 0x98,
    CHR 0xE5, CHR 0x9C, CHR 0xA8]"

definition zh_client_id :: string where
  "zh_client_id = [CHR 0xE5, CHR 0xAE, CHR 0xA2, CHR 0xE6, CHR 0x88, CHR 0xB7, CHR 0xE7, CHR 0xAB, CHR 0xAF, CHR 0x20,
    CHR 0x49, CHR 0x44]"

definition zh_inbound :: string where
  "zh_inbound = [CHR 0xE5, CHR 0x85, CHR 0xA5, CHR 0xE7, CHR 0xAB, CHR 0x99]"

definition zh_state :: string where
  "zh_state = [CHR 0xE7, CHR 0x8A, CHR 0xB6, CHR 0xE6, CHR 0x80, CHR 0x81]"

definition zh_unknown_outbound :: string where
  "zh_unknown_outbound = [CHR 0xE6, CHR 0x9C, CHR 0xAA, CHR 0xE7, CHR 0x9F, CHR 0xA5, CHR 0xE5, CHR 0x87, CHR 0xBA, CHR 0xE7,
    CHR 0xAB, CHR 0x99]"

definition zh_no_outbound_dot :: string where
  "zh_no_outbound_dot = [CHR 0xE8, CHR 0xB7, CHR 0xAF, CHR 0xE7, CHR 0x94, CHR 0xB1, CHR 0xE5, CHR 0xBC, CHR 0x95, CHR 0xE7,
    CHR 0x94, CHR 0xA8, CHR 0xE7, CHR 0x9A, CHR 0x84, CHR 0xE5, CHR 0x87, CHR 0xBA, CHR 0xE7, CHR 0xAB,
    CHR 0x99, CHR 0xE4, CHR 0xB8, CHR 0x8D, CHR 0xE5, CHR 0xAD, CHR 0x98, CHR 0xE5, CHR 0x9C, CHR 0xA8,
    CHR 0x20, CHR 0xC2, CHR 0xB7, CHR 0x20]"

definition zh_no_outbound :: string where
  "zh_no_outbound = [CHR 0xE8, CHR 0xB7, CHR 0xAF, CHR 0xE7, CHR 0x94, CHR 0xB1, CHR 0xE5, CHR 0xBC, CHR 0x95, CHR 0xE7,
    CHR 0x94, CHR 0xA8, CHR 0xE7, CHR 0x9A, CHR 0x84, CHR 0xE5, CHR 0x87, CHR 0xBA, CHR 0xE7, CHR 0xAB,
    CHR 0x99, CHR 0xE4, CHR 0xB8, CHR 0x8D, CHR 0xE5, CHR 0xAD, CHR 0x98, CHR 0xE5, CHR 0x9C, CHR 0xA8]"

definition zh_attached :: string where
  "zh_attached = [CHR 0xE9, CHR 0x99, CHR 0x84, CHR 0xE5, CHR 0xB1, CHR 0x9E, CHR 0xE5, CHR 0xAE, CHR 0xA2, CHR 0xE6,
    CHR 0x88, CHR 0xB7, CHR 0xE7, CHR 0xAB, CHR 0xAF]"

definition zh_default_outbound :: string where
  "zh_default_outbound = [CHR 0xE9, CHR 0xBB, CHR 0x98, CHR 0xE8, CHR 0xAE, CHR 0xA4, CHR 0xE5, CHR 0x87, CHR 0xBA, CHR 0xE7,
    CHR 0xAB, CHR 0x99]"

definition zh_inherit_default :: string where
  "zh_inherit_default = [CHR 0xE7, CHR 0xBB, CHR 0xA7, CHR 0xE6, CHR 0x89, CHR 0xBF, CHR 0xE9, CHR 0xBB, CHR 0x98, CHR 0xE8,
    CHR 0xAE, CHR 0xA4, CHR 0xE5, CHR 0x87, CHR 0xBA, CHR 0xE7, CHR 0xAB, CHR 0x99]"

definition zh_sp_client :: string where
  "zh_sp_client = [CHR 0x20, CHR 0xE5, CHR 0xAE, CHR 0xA2, CHR 0xE6, CHR 0x88, CHR 0xB7, CHR 0xE7, CHR 0xAB, CHR 0xAF]"

definition zh_sp_all_inbounds :: string where
  "zh_sp_all_inbounds = [CHR 0x20, CHR 0xE5, CHR 0x85, CHR 0xA8, CHR 0xE9, CHR 0x83, CHR 0xA8, CHR 0xE5, CHR 0x85, CHR 0xA5,
    CHR 0xE7, CHR 0xAB, CHR 0x99]"

definition zh_sp_disabled :: string where
  "zh_sp_disabled = [CHR 0x20, CHR 0xE7, CHR 0xA6, CHR 0x81, CHR 0xE7, CHR 0x94, CHR 0xA8]"

definition zh_no_outbound_id :: string where
  "zh_no_outbound_id = [CHR 0xE7, CHR 0xBC, CHR 0xBA, CHR 0xE5, CHR 0xB0, CHR 0x91, CHR 0x20, CHR 0x6F, CHR 0x75, CHR 0x74,
    CHR 0x62, CHR 0x6F, CHR 0x75, CHR 0x6E, CHR 0x64, CHR 0x5F, CHR 0x69, CHR 0x64]"

lemmas texts_Topology =
  zh_protocol_def zh_core_def zh_port_def zh_transport_def zh_security_def
  zh_client_def zh_up_def zh_down_def zh_quota_def zh_unlimited_def
  zh_address_def zh_unknown_inbound_def zh_no_inbound_dot_def zh_no_inbound_def zh_not_found_def
  zh_no_client_def zh_client_id_def zh_inbound_def zh_state_def zh_unknown_outbound_def
  zh_no_outbound_dot_def zh_no_outbound_def zh_attached_def zh_default_outbound_def zh_inherit_default_def
  zh_sp_client_def zh_sp_all_inbounds_def zh_sp_disabled_def zh_no_outbound_id_def

lemma texts_nonempty_Topology [simp]:
  "zh_protocol \<noteq> []" "zh_core \<noteq> []" "zh_port \<noteq> []" "zh_transport \<noteq> []"
  "zh_security \<noteq> []" "zh_client \<noteq> []" "zh_up \<noteq> []" "zh_down \<noteq> []"
  "zh_quota \<noteq> []" "zh_unlimited \<noteq> []" "zh_address \<noteq> []" "zh_unknown_inbound \<noteq> []"
  "zh_no_inbound_dot \<noteq> []" "zh_no_inbound \<noteq> []" "zh_not_found \<noteq> []" "zh_no_client \<noteq> []"
  "zh_client_id \<noteq> []" "zh_inbound \<noteq> []" "zh_state \<noteq> []" "zh_unknown_outbound \<noteq> []"
  "zh_no_outbound_dot \<noteq> []" "zh_no_outbound \<noteq> []" "zh_attached \<noteq> []" "zh_default_outbound \<noteq> []"
  "zh_inherit_default \<noteq> []" "zh_sp_client \<noteq> []" "zh_sp_all_inbounds \<noteq> []" "zh_sp_disabled \<noteq> []"
  "zh_no_outbound_id \<noteq> []"
  by (simp_all add: texts_Topology)

section \<open>Nodes and edges\<close>

datatype node_kind = NInbound | NClient | NOutbound | NMissingInbound | NMissingClient | NMissingOutbound

datatype edge_kind = ERouting | EAllInbounds | EClientRouting | EClientInherits | EDefaultDirect

record topo_node =
  tn_id :: string
  tn_x :: int
  tn_y :: rat
  tn_kind :: node_kind
  tn_title :: string
  tn_subtitle :: "string option"
  tn_enabled :: bool
  tn_missing :: bool
  tn_meta :: "(string \<times> string) list"

record topo_edge =
  te_id :: string
  te_source :: string
  te_target :: string
  te_animated :: bool
  te_label :: "string option"
  te_kind :: edge_kind
  te_text :: string
  te_enabled :: bool
  te_rule :: "int option"
  te_missingTarget :: "bool option"
  te_invalidTarget :: "bool option"
  te_stroke :: string
  te_dash :: "string option"
  te_opacity :: rat

record topo_graph =
  tg_nodes :: "topo_node list"
  tg_edges :: "topo_edge list"

record routing_source =
  rs_node :: string
  rs_key :: string
  rs_enabled :: bool
  rs_inbound :: "int option"
  rs_client :: "int option"
  rs_missing :: bool

record topo_lookup =
  tl_inboundById :: "(int \<times> inbound) list"
  tl_inboundByTag :: "(string \<times> inbound) list"
  tl_outboundById :: "(int \<times> outbound) list"
  tl_clientsByInbound :: "(int \<times> (int \<times> client) list) list"
  tl_clientInbound :: "(int \<times> inbound) list"
  tl_traffic :: "(int \<times> (int \<times> int)) list"

definition inboundX :: int where "inboundX = 0"
definition clientX :: int where "clientX = 360"
definition outboundX :: int where "outboundX = 760"
definition rowGap :: int where "rowGap = 154"
definition clientGap :: int where "clientGap = 96"
definition outboundGap :: int where "outboundGap = 132"
definition systemDirectOutboundTag :: string where "systemDirectOutboundTag = ''migate-system-direct''"

subsection \<open>Identifiers\<close>

definition inboundNodeId :: "int \<Rightarrow> string" where
  "inboundNodeId n = ''inbound:'' @ int_str n"

definition missingInboundNodeId :: "string \<Rightarrow> string" where
  "missingInboundNodeId tag = ''inbound-missing:'' @ str_or tag ''unknown''"

definition missingClientNodeId :: "routing_rule \<Rightarrow> string" where
  "missingClientNodeId r = ''client-missing:'' @ int_str (rr_id r)"

definition clientNodeId :: "int \<Rightarrow> string" where
  "clientNodeId n = ''client:'' @ int_str n"

definition outboundNodeId :: "string \<Rightarrow> string" where
  "outboundNodeId tag = ''outbound:'' @ str_or tag ''unknown''"

section \<open>Lookups\<close>

definition isSystemDirectOutbound :: "outbound \<Rightarrow> bool" where
  "isSystemDirectOutbound ob = (ob_tag ob = systemDirectOutboundTag)"

definition isSystemDirectRoutingRule :: "routing_rule \<Rightarrow> int list \<Rightarrow> bool" where
  "isSystemDirectRoutingRule r systemDirectOutboundIds =
     (rr_outbound_tag r = systemDirectOutboundTag \<or> oint (rr_outbound_id r) \<in> set systemDirectOutboundIds)"

definition put_all :: "('a \<Rightarrow> 'k) \<Rightarrow> ('a \<Rightarrow> 'v) \<Rightarrow> 'a list \<Rightarrow> ('k \<times> 'v) list \<Rightarrow> ('k \<times> 'v) list" where
  "put_all key val xs m = fold (\<lambda>x. AList.update (key x) (val x)) xs m" \<comment> \<open>\<^verbatim>\<open>m.set\<close> for each element\<close>

definition inbound_clients :: "inbound \<Rightarrow> client list" where
  "inbound_clients inb = olist (ib_clients inb)" \<comment> \<open>\<^verbatim>\<open>inbound.clients || []\<close>\<close>

definition buildInboundTagLookup :: "inbound list \<Rightarrow> (string \<times> inbound) list" where
  "buildInboundTagLookup inbounds =
     fold (\<lambda>inb lookup.
       let generated = generatedInboundTag inb; remark = trim (ib_remark inb);
           lookup1 = AList.update generated inb lookup
       in if remark \<noteq> [] then AList.update remark inb lookup1 else lookup1) inbounds []"

definition buildOutboundIdLookup :: "outbound list \<Rightarrow> (int \<times> outbound) list" where
  "buildOutboundIdLookup outbounds = put_all ob_id (\<lambda>ob. ob) (filter (\<lambda>ob. ob_id ob \<noteq> 0) outbounds) []"

definition buildTopologyLookup :: "inbound list \<Rightarrow> outbound list \<Rightarrow> traffic_snapshot option \<Rightarrow> topo_lookup" where
  "buildTopologyLookup inbounds outbounds trafficSnapshot =
     \<lparr>tl_inboundById = put_all ib_id (\<lambda>inb. inb) inbounds [],
      tl_inboundByTag = buildInboundTagLookup inbounds,
      tl_outboundById = buildOutboundIdLookup outbounds,
      tl_clientsByInbound = put_all ib_id (\<lambda>inb. put_all cl_id (\<lambda>c. c) (inbound_clients inb) []) inbounds [],
      tl_clientInbound = fold (\<lambda>inb m. put_all cl_id (\<lambda>c. inb) (inbound_clients inb) m) inbounds [],
      tl_traffic = put_all tc_id (\<lambda>c. (tm_up (tc_cumulative c), tm_down (tc_cumulative c)))
        (case trafficSnapshot of None \<Rightarrow> [] | Some s \<Rightarrow> sn_clients s) []\<rparr>"

definition resolveRuleOutbound :: "routing_rule \<Rightarrow> (int \<times> outbound) list \<Rightarrow> outbound option" where
  "resolveRuleOutbound r outboundById =
     (let outboundID = oint (rr_outbound_id r) in if outboundID > 0 then map_of outboundById outboundID else None)"

definition missingOutboundTargetKey :: "routing_rule \<Rightarrow> string" where
  "missingOutboundTargetKey r =
     (let outboundID = oint (rr_outbound_id r) in
      if outboundID > 0 then ''id:'' @ int_str outboundID else ''missing-outbound-id'')"

definition normalizedInboundTag :: "routing_rule \<Rightarrow> string" where
  "normalizedInboundTag r = trim (ostr (rr_inbound_tag r))"

definition ruleHasSpecificInbound :: "routing_rule \<Rightarrow> bool" where
  "ruleHasSpecificInbound r = (oint (rr_inbound_id r) > 0 \<or> normalizedInboundTag r \<noteq> [])"

section \<open>The sources of a rule\<close>

definition inbound_source :: "inbound \<Rightarrow> routing_source" where
  "inbound_source inb = \<lparr>rs_node = inboundNodeId (ib_id inb), rs_key = int_str (ib_id inb),
     rs_enabled = not_false (ib_enabled inb), rs_inbound = Some (ib_id inb), rs_client = None, rs_missing = False\<rparr>"

definition missing_source :: "string \<Rightarrow> string \<Rightarrow> routing_source" where
  "missing_source key edgeKey = \<lparr>rs_node = missingInboundNodeId key, rs_key = edgeKey, rs_enabled = False,
     rs_inbound = None, rs_client = None, rs_missing = False\<rparr>"

definition inboundSourcesForRule :: "routing_rule \<Rightarrow> inbound list \<Rightarrow> topo_lookup \<Rightarrow> routing_source list" where
  "inboundSourcesForRule r inbounds lookup =
     (let inboundID = oint (rr_inbound_id r) in
      if inboundID > 0 then
        (case map_of (tl_inboundById lookup) inboundID of
           Some inb \<Rightarrow> [inbound_source inb]
         | None \<Rightarrow> [missing_source (''id:'' @ int_str inboundID) (''missing-id-'' @ int_str inboundID)])
      else (let inboundTag = normalizedInboundTag r in
        if inboundTag = [] then map inbound_source inbounds
        else (case map_of (tl_inboundByTag lookup) inboundTag of
           Some inb \<Rightarrow> [inbound_source inb]
         | None \<Rightarrow> [missing_source inboundTag (''missing-'' @ inboundTag)])))"

definition client_source :: "inbound \<Rightarrow> client \<Rightarrow> routing_source" where
  "client_source inb c = \<lparr>rs_node = clientNodeId (cl_id c), rs_key = ''client-'' @ int_str (cl_id c),
     rs_enabled = (not_false (ib_enabled inb) \<and> not_false (cl_enabled c)), rs_inbound = Some (ib_id inb),
     rs_client = Some (cl_id c), rs_missing = False\<rparr>"

definition missing_client_source :: "routing_rule \<Rightarrow> int option \<Rightarrow> routing_source" where
  "missing_client_source r inboundId = \<lparr>rs_node = missingClientNodeId r,
     rs_key = ''missing-client-'' @ int_str (oint (rr_client_id r)), rs_enabled = False, rs_inbound = inboundId,
     rs_client = Some (oint (rr_client_id r)), rs_missing = True\<rparr>"

definition client_of :: "topo_lookup \<Rightarrow> inbound \<Rightarrow> int \<Rightarrow> client option" where
  \<comment> \<open>\<^verbatim>\<open>lookup.clientsByInboundId.get(inbound.id)?.get(clientID)\<close>\<close>
  "client_of lookup inb clientID =
     Option.bind (map_of (tl_clientsByInbound lookup) (ib_id inb)) (\<lambda>m. map_of m clientID)"

definition routingSourcesForRule :: "routing_rule \<Rightarrow> inbound list \<Rightarrow> topo_lookup \<Rightarrow> routing_source list" where
  "routingSourcesForRule r inbounds lookup =
     (let clientID = oint (rr_client_id r); inboundID = oint (rr_inbound_id r); inboundTag = normalizedInboundTag r in
      if clientID = 0 then inboundSourcesForRule r inbounds lookup
      else if inboundID > 0 then
        (case map_of (tl_inboundById lookup) inboundID of
           Some inb \<Rightarrow> (case client_of lookup inb clientID of
               Some c \<Rightarrow> [client_source inb c] | None \<Rightarrow> [missing_client_source r (Some (ib_id inb))])
         | None \<Rightarrow> [missing_client_source r None])
      else
        (case (if inboundTag = [] then map_of (tl_clientInbound lookup) clientID
               else map_of (tl_inboundByTag lookup) inboundTag) of
           Some inb \<Rightarrow> (case client_of lookup inb clientID of
               Some c \<Rightarrow> [client_source inb c] | None \<Rightarrow> [missing_client_source r None])
         | None \<Rightarrow> [missing_client_source r None]))"

definition sourcesForCoreCheck :: "routing_rule \<Rightarrow> inbound list \<Rightarrow> topo_lookup \<Rightarrow> routing_source list" where
  "sourcesForCoreCheck r inbounds lookup = filter (\<lambda>s. rs_inbound s \<noteq> None) (routingSourcesForRule r inbounds lookup)"

definition isActiveRoutingSource :: "routing_rule \<Rightarrow> routing_source \<Rightarrow> bool \<Rightarrow> bool \<Rightarrow> bool \<Rightarrow> bool" where
  "isActiveRoutingSource r source missingTarget outboundEnabled invalidTarget =
     (not_false (rr_enabled r) \<and> rs_enabled source \<and> outboundEnabled \<and> \<not> missingTarget \<and> \<not> invalidTarget)"

section \<open>Building nodes\<close>

definition buildInboundNode :: "inbound \<Rightarrow> rat \<Rightarrow> topo_node" where
  "buildInboundNode inb y =
     (let generated = generatedInboundTag inb in
      \<lparr>tn_id = inboundNodeId (ib_id inb), tn_x = inboundX, tn_y = y, tn_kind = NInbound,
       tn_title = str_or (ib_remark inb) generated, tn_subtitle = Some generated,
       tn_enabled = not_false (ib_enabled inb), tn_missing = False,
       tn_meta = [(zh_protocol, str_or (ib_protocol inb) ''-''),
         (zh_core, coreLabel (inboundCore inb)),
         (zh_port, if ib_port inb \<noteq> 0 then int_str (ib_port inb) else ''-''),
         (zh_transport, str_or (ib_network inb) ''tcp''),
         (zh_security, str_or (ib_security inb) ''none''),
         (zh_client, nat_str (length (inbound_clients inb)))]\<rparr>)"

definition buildClientNode :: "client \<Rightarrow> inbound \<Rightarrow> rat \<Rightarrow> (int \<times> int) option \<Rightarrow> topo_node" where
  "buildClientNode c inb y traffic =
     \<lparr>tn_id = clientNodeId (cl_id c), tn_x = clientX, tn_y = y, tn_kind = NClient,
      tn_title = str_or (cl_email c) (''client-'' @ int_str (cl_id c)),
      tn_subtitle = Some (str_or (ib_remark inb) (generatedInboundTag inb)),
      tn_enabled = not_false (cl_enabled c), tn_missing = False,
      tn_meta = [(zh_up, formatBytes (Some (of_int (case traffic of None \<Rightarrow> 0 | Some (u, d) \<Rightarrow> u)))),
        (zh_down, formatBytes (Some (of_int (case traffic of None \<Rightarrow> 0 | Some (u, d) \<Rightarrow> d)))),
        (zh_quota, if oint (cl_traffic_limit c) \<noteq> 0 then formatBytes (Some (of_int (oint (cl_traffic_limit c))))
                       else zh_unlimited)]\<rparr>"

definition buildOutboundNode :: "outbound \<Rightarrow> rat \<Rightarrow> topo_node" where
  "buildOutboundNode ob y =
     \<lparr>tn_id = outboundNodeId (ob_tag ob), tn_x = outboundX, tn_y = y, tn_kind = NOutbound, tn_title = ob_tag ob,
      tn_subtitle = (if ostr (ob_remark ob) = [] then None else ob_remark ob),
      tn_enabled = not_false (ob_enabled ob), tn_missing = False,
      tn_meta = [(zh_protocol, str_or (ob_protocol ob) ''-''),
        (zh_core, str_or (join '' / '' (map coreLabel (outboundSupportedCores (ob_protocol ob)))) ''-''),
        (zh_address, str_or (ostr (ob_address ob)) ''-''),
        (zh_port, if oint (ob_port ob) \<noteq> 0 then int_str (oint (ob_port ob)) else ''-'')]\<rparr>"

definition buildMissingInboundNode :: "string \<Rightarrow> string \<Rightarrow> rat \<Rightarrow> string option \<Rightarrow> topo_node" where
  "buildMissingInboundNode key title y subtitle =
     \<lparr>tn_id = missingInboundNodeId key, tn_x = inboundX, tn_y = y, tn_kind = NMissingInbound,
      tn_title = str_or title zh_unknown_inbound,
      tn_subtitle = Some (if ostr subtitle \<noteq> [] then zh_no_inbound_dot @ ostr subtitle else zh_no_inbound),
      tn_enabled = False, tn_missing = True,
      tn_meta = [(zh_protocol, ''-''), (zh_port, ''-''), (zh_transport, zh_not_found),
        (zh_security, ''-''), (zh_client, ''-'')]\<rparr>"

definition buildMissingClientNode :: "routing_rule \<Rightarrow> routing_source \<Rightarrow> rat \<Rightarrow> topo_node" where
  "buildMissingClientNode r source y =
     (let clientID = (if oint (rr_client_id r) \<noteq> 0 then oint (rr_client_id r) else oint (rs_client source)) in
      \<lparr>tn_id = missingClientNodeId r, tn_x = clientX, tn_y = y, tn_kind = NMissingClient,
       tn_title = str_or (ostr (rr_client_email r)) (''client-'' @ int_str clientID),
       tn_subtitle = Some zh_no_client, tn_enabled = False, tn_missing = True,
       tn_meta = [(zh_client_id, if clientID \<noteq> 0 then int_str clientID else ''-''),
         (zh_inbound, str_or (ostr (rr_inbound_tag r)) ''-''), (zh_state, zh_not_found)]\<rparr>)"

definition buildMissingOutboundNode :: "string \<Rightarrow> rat \<Rightarrow> string option \<Rightarrow> topo_node" where
  "buildMissingOutboundNode tag y subtitle =
     \<lparr>tn_id = outboundNodeId tag, tn_x = outboundX, tn_y = y, tn_kind = NMissingOutbound,
      tn_title = str_or tag zh_unknown_outbound,
      tn_subtitle = Some (if ostr subtitle \<noteq> [] then zh_no_outbound_dot @ ostr subtitle else zh_no_outbound),
      tn_enabled = False, tn_missing = True,
      tn_meta = [(zh_protocol, ''-''), (zh_address, zh_not_found), (zh_port, ''-'')]\<rparr>"

section \<open>Building edges\<close>

definition buildClientEdge :: "inbound \<Rightarrow> client \<Rightarrow> topo_edge" where
  "buildClientEdge inb c =
     (let enabled = (not_false (ib_enabled inb) \<and> not_false (cl_enabled c)) in
      \<lparr>te_id = ''client-'' @ int_str (ib_id inb) @ ''-'' @ int_str (cl_id c), te_source = inboundNodeId (ib_id inb),
       te_target = clientNodeId (cl_id c), te_animated = False, te_label = None, te_kind = EClientInherits,
       te_text = zh_attached, te_enabled = enabled, te_rule = None, te_missingTarget = None,
       te_invalidTarget = None, te_stroke = ''#94a3b8'', te_dash = Some ''4 4'',
       te_opacity = (if enabled then 46 / 100 else 22 / 100)\<rparr>)"

definition buildDefaultDirectEdge :: "inbound \<Rightarrow> bool \<Rightarrow> topo_edge" where
  "buildDefaultDirectEdge inb directEnabled =
     (let enabled = (not_false (ib_enabled inb) \<and> directEnabled) in
      \<lparr>te_id = ''default-direct-'' @ int_str (ib_id inb), te_source = inboundNodeId (ib_id inb),
       te_target = outboundNodeId ''direct'', te_animated = False, te_label = Some zh_default_outbound,
       te_kind = EDefaultDirect, te_text = zh_default_outbound, te_enabled = enabled, te_rule = None,
       te_missingTarget = None, te_invalidTarget = None, te_stroke = ''#64748b'', te_dash = Some ''8 6'',
       te_opacity = (if enabled then 58 / 100 else 32 / 100)\<rparr>)"

definition buildClientDefaultDirectEdge :: "client \<Rightarrow> bool \<Rightarrow> topo_edge" where
  "buildClientDefaultDirectEdge c directEnabled =
     (let enabled = (not_false (cl_enabled c) \<and> directEnabled) in
      \<lparr>te_id = ''default-direct-client-'' @ int_str (cl_id c), te_source = clientNodeId (cl_id c),
       te_target = outboundNodeId ''direct'', te_animated = False, te_label = Some zh_inherit_default,
       te_kind = EDefaultDirect, te_text = zh_inherit_default, te_enabled = enabled, te_rule = None,
       te_missingTarget = None, te_invalidTarget = None, te_stroke = ''#64748b'', te_dash = Some ''8 6'',
       te_opacity = (if enabled then 42 / 100 else 24 / 100)\<rparr>)"

definition routeEdgeLabel :: "routing_rule \<Rightarrow> bool \<Rightarrow> string" where
  "routeEdgeLabel r explicitInbound =
     (let front = ''#'' @ int_str (rr_id r) @
            (if oint (rr_client_id r) > 0 then zh_sp_client else if explicitInbound then [] else zh_sp_all_inbounds)
      in if rr_enabled r = Some False then front @ zh_sp_disabled else front)"

definition buildRoutingEdge ::
    "routing_rule \<Rightarrow> routing_source \<Rightarrow> string \<Rightarrow> nat \<Rightarrow> bool \<Rightarrow> bool \<Rightarrow> bool \<Rightarrow> bool \<Rightarrow> topo_edge" where
  "buildRoutingEdge r source targetId index missingTarget outboundEnabled explicitInbound invalidTarget =
     (let enabled = isActiveRoutingSource r source missingTarget outboundEnabled invalidTarget in
      \<lparr>te_id = ''rule-'' @ int_str (rr_id r) @ ''-'' @ rs_key source @ ''-'' @ nat_str index, te_source = rs_node source,
       te_target = targetId, te_animated = enabled, te_label = Some (routeEdgeLabel r explicitInbound),
       te_kind = (if rs_client source \<noteq> None then EClientRouting else if explicitInbound then ERouting else EAllInbounds),
       te_text = routeEdgeLabel r explicitInbound, te_enabled = enabled, te_rule = Some (rr_id r),
       te_missingTarget = Some missingTarget, te_invalidTarget = Some invalidTarget,
       te_stroke = (if missingTarget \<or> invalidTarget then ''#dc2626'' else if enabled then ''#0f766e'' else ''#94a3b8''),
       te_dash = (if enabled then None else Some ''6 5''),
       te_opacity = (if enabled then 82 / 100 else 36 / 100)\<rparr>)"

section \<open>Building the graph\<close>

subsection \<open>The inbound column\<close>

definition client_nodes :: "topo_lookup \<Rightarrow> inbound \<Rightarrow> int \<Rightarrow> topo_node list" where
  "client_nodes lookup inb y =
     map (\<lambda>(index, c). buildClientNode c inb (of_int (y + 18 + int index * clientGap)) (map_of (tl_traffic lookup) (cl_id c)))
       (enumerate 0 (inbound_clients inb))"

definition groupHeight :: "inbound \<Rightarrow> int" where
  "groupHeight inb = max rowGap (int (length (inbound_clients inb)) * clientGap)"

primrec inbound_column :: "topo_lookup \<Rightarrow> int \<Rightarrow> inbound list \<Rightarrow> topo_node list \<times> topo_edge list \<times> int" where
  "inbound_column lookup y [] = ([], [], y)"
| "inbound_column lookup y (inb # inbs) =
     (let centerY = of_int y + of_int (groupHeight inb) / 2;
          ns = buildInboundNode inb centerY # client_nodes lookup inb y;
          es = map (buildClientEdge inb) (inbound_clients inb)
      in case inbound_column lookup (y + groupHeight inb + 34) inbs of (ns', es', y') \<Rightarrow> (ns @ ns', es @ es', y'))"

subsection \<open>The pass over the rules\<close>

record rule_state =
  ru_missingInbounds :: "(string \<times> (string \<times> string option)) list"
  ru_missingClients :: "(routing_rule \<times> routing_source) list"
  ru_missingOutbounds :: "(string \<times> string option) list"
  ru_routed :: "int list"
  ru_clients :: "int list"
  ru_edges :: "topo_edge list"

definition rule_state0 :: rule_state where
  "rule_state0 = \<lparr>ru_missingInbounds = [], ru_missingClients = [], ru_missingOutbounds = [], ru_routed = [],
     ru_clients = [], ru_edges = []\<rparr>"

definition source_inbound :: "topo_lookup \<Rightarrow> routing_source \<Rightarrow> inbound option" where
  "source_inbound lookup source = Option.bind (rs_inbound source) (map_of (tl_inboundById lookup))"

definition invalidTarget :: "routing_rule \<Rightarrow> inbound list \<Rightarrow> topo_lookup \<Rightarrow> outbound option \<Rightarrow> bool" where
  "invalidTarget r inbounds lookup out =
     (out \<noteq> None \<and> list_ex (\<lambda>source. case source_inbound lookup source of
          Some inb \<Rightarrow> \<not> outboundSupportsCore out (inboundCore inb) | None \<Rightarrow> False)
        (sourcesForCoreCheck r inbounds lookup))"

definition sourceInvalidTarget :: "topo_lookup \<Rightarrow> outbound option \<Rightarrow> bool \<Rightarrow> routing_source \<Rightarrow> bool" where
  "sourceInvalidTarget lookup out invalid source =
     (case source_inbound lookup source of
        Some inb \<Rightarrow> out \<noteq> None \<and> \<not> outboundSupportsCore out (inboundCore inb)
      | None \<Rightarrow> invalid)"

definition outbound_enabled :: "outbound option \<Rightarrow> bool" where \<comment> \<open>\<^verbatim>\<open>outbound?.enabled !== false\<close>\<close>
  "outbound_enabled out = (case out of None \<Rightarrow> True | Some ob \<Rightarrow> not_false (ob_enabled ob))"

definition targetTag :: "routing_rule \<Rightarrow> outbound option \<Rightarrow> string" where
  "targetTag r out = str_or (case out of None \<Rightarrow> [] | Some ob \<Rightarrow> ob_tag ob) (missingOutboundTargetKey r)"

definition source_step :: "routing_rule \<Rightarrow> topo_lookup \<Rightarrow> outbound option \<Rightarrow> bool \<Rightarrow> nat \<times> routing_source
    \<Rightarrow> rule_state \<Rightarrow> rule_state" where
  "source_step r lookup out invalid = (\<lambda>(index, source) s.
     (let missing = (out = None); on = outbound_enabled out;
          bad = sourceInvalidTarget lookup out invalid source;
          active = isActiveRoutingSource r source missing on bad;
          s1 = (if rs_missing source then s\<lparr>ru_missingClients := ru_missingClients s @ [(r, source)]\<rparr> else s);
          s2 = (case rs_client source of
                  Some c \<Rightarrow> if active then s1\<lparr>ru_clients := ru_clients s1 @ [c]\<rparr> else s1
                | None \<Rightarrow> s1);
          s3 = (case (rs_inbound source, rs_client source) of
                  (Some i, None) \<Rightarrow> if active then s2\<lparr>ru_routed := ru_routed s2 @ [i]\<rparr> else s2
                | _ \<Rightarrow> s2)
      in s3\<lparr>ru_edges := ru_edges s3 @
           [buildRoutingEdge r source (outboundNodeId (targetTag r out)) index missing on (ruleHasSpecificInbound r) bad]\<rparr>))"

definition missing_inbound :: "routing_rule \<Rightarrow> topo_lookup \<Rightarrow> (string \<times> (string \<times> string option)) option" where
  "missing_inbound r lookup =
     (let inboundTag = normalizedInboundTag r; inboundID = oint (rr_inbound_id r) in
      if inboundID > 0 \<and> \<not> map_has (tl_inboundById lookup) inboundID then
        Some (''id:'' @ int_str inboundID, (''id:'' @ int_str inboundID,
          if normalizedInboundTag r = [] then None else Some (normalizedInboundTag r)))
      else if inboundID \<le> 0 \<and> inboundTag \<noteq> [] \<and> \<not> map_has (tl_inboundByTag lookup) inboundTag then
        Some (inboundTag, (inboundTag, None))
      else None)"

definition missing_outbound_subtitle :: "routing_rule \<Rightarrow> string option" where
  "missing_outbound_subtitle r =
     (if oint (rr_outbound_id r) \<noteq> 0 then
        (if trim (rr_outbound_tag r) = [] then None else Some (trim (rr_outbound_tag r)))
      else Some zh_no_outbound_id)"

definition rule_step :: "inbound list \<Rightarrow> topo_lookup \<Rightarrow> routing_rule \<Rightarrow> rule_state \<Rightarrow> rule_state" where
  "rule_step inbounds lookup r s =
     (let out = resolveRuleOutbound r (tl_outboundById lookup);
          invalid = invalidTarget r inbounds lookup out;
          s1 = (if out = None then
                  s\<lparr>ru_missingOutbounds := AList.update (targetTag r out) (missing_outbound_subtitle r) (ru_missingOutbounds s)\<rparr>
                else s);
          s2 = (case missing_inbound r lookup of
                  Some (key, v) \<Rightarrow> s1\<lparr>ru_missingInbounds := AList.update key v (ru_missingInbounds s1)\<rparr>
                | None \<Rightarrow> s1)
      in fold (source_step r lookup out invalid) (enumerate 0 (routingSourcesForRule r inbounds lookup)) s2)"

subsection \<open>Default edges and the whole graph\<close>

definition default_edges :: "inbound list \<Rightarrow> outbound list \<Rightarrow> int list \<Rightarrow> int list \<Rightarrow> topo_edge list" where
  "default_edges inbounds visible routed explicit =
     (case find (\<lambda>ob. ob_tag ob = ''direct'') visible of
        None \<Rightarrow> []
      | Some direct \<Rightarrow>
          concat (map (\<lambda>inb. buildDefaultDirectEdge inb (not_false (ob_enabled direct))
              # map (\<lambda>c. buildClientDefaultDirectEdge c (not_false (ob_enabled direct)))
                  (filter (\<lambda>c. cl_id c \<notin> set explicit) (inbound_clients inb)))
            (filter (\<lambda>inb. ib_id inb \<notin> set routed) inbounds)))"

definition visible_outbounds :: "outbound list \<Rightarrow> outbound list" where
  "visible_outbounds outbounds = filter (\<lambda>ob. \<not> isSystemDirectOutbound ob) outbounds"

definition visible_rules :: "outbound list \<Rightarrow> routing_rule list \<Rightarrow> routing_rule list" where
  "visible_rules outbounds rules =
     filter (\<lambda>r. \<not> isSystemDirectRoutingRule r (map ob_id (filter isSystemDirectOutbound outbounds))) rules"

definition sort_entries :: "(string \<Rightarrow> string \<Rightarrow> bool) \<Rightarrow> (string \<times> 'v) list \<Rightarrow> (string \<times> 'v) list" where
  "sort_entries lc entries = sort_by (\<lambda>a b. lc (fst a) (fst b)) entries"

definition rule_pass :: "inbound list \<Rightarrow> outbound list \<Rightarrow> routing_rule list \<Rightarrow> topo_lookup \<Rightarrow> rule_state" where
  "rule_pass inbounds outbounds rules lookup =
     fold (rule_step inbounds lookup) (visible_rules outbounds rules) rule_state0"

definition buildTopologyGraph :: "(string \<Rightarrow> string \<Rightarrow> bool) \<Rightarrow> inbound list \<Rightarrow> outbound list \<Rightarrow> routing_rule list
    \<Rightarrow> traffic_snapshot option \<Rightarrow> topo_graph" where
  "buildTopologyGraph lc inbounds outbounds rules trafficSnapshot =
     (let visible = visible_outbounds outbounds;
          lookup = buildTopologyLookup inbounds visible trafficSnapshot;
          (columnNodes, clientEdges, missingInboundStartY) = inbound_column lookup 0 inbounds;
          outboundNodes = map (\<lambda>(index, ob). buildOutboundNode ob (of_int (int index * outboundGap))) (enumerate 0 visible);
          s = rule_pass inbounds outbounds rules lookup;
          missingInboundNodes = map (\<lambda>(index, (key, (title, subtitle))).
              buildMissingInboundNode key title (of_int (missingInboundStartY + int index * rowGap)) subtitle)
            (enumerate 0 (sort_entries lc (ru_missingInbounds s)));
          missingClientNodes = map (\<lambda>(index, (r, source)). buildMissingClientNode r source
              (of_int (missingInboundStartY + (int (length (ru_missingInbounds s)) + int index) * rowGap)))
            (enumerate 0 (ru_missingClients s));
          missingOutboundNodes = map (\<lambda>(index, (tag, subtitle)). buildMissingOutboundNode tag
              (of_int ((int (length visible) + int index) * outboundGap)) subtitle)
            (enumerate 0 (sort_entries lc (ru_missingOutbounds s)))
      in \<lparr>tg_nodes = columnNodes @ outboundNodes @ missingInboundNodes @ missingClientNodes @ missingOutboundNodes,
          tg_edges = clientEdges @ ru_edges s @ default_edges inbounds visible (ru_routed s) (ru_clients s)\<rparr>)"

end
