(* ===== verification/TopologyFacts.thy ===== *)
theory TopologyFacts
  imports Topology
begin

text \<open>
  What holds of every graph \<open>buildTopologyGraph\<close> builds: closed forms of its loops, then the
  anchoring of edges, the meaning of enabled lines, and the default lines to \<^verbatim>\<open>direct\<close>.
\<close>

section \<open>Lookups\<close>

lemma put_all_entry: "map_of (put_all key val xs []) k = Some v \<Longrightarrow> \<exists>x \<in> set xs. key x = k \<and> val x = v"
  using js_map.put_all_Some [of key val xs "[]" k v] by (simp add: put_all_def)

lemma put_all_range:
  "map_of (put_all key val xs m) k = Some v \<Longrightarrow> (\<exists>x \<in> set xs. key x = k \<and> val x = v) \<or> map_of m k = Some v"
proof (induction xs arbitrary: m)
  case Nil
  then show ?case by (simp add: put_all_def)
next
  case (Cons x xs)
  then have "map_of (put_all key val xs (AList.update (key x) (val x) m)) k = Some v" by (simp add: put_all_def)
  from Cons.IH [OF this] show ?case by (auto simp: js_map.get_put split: if_splits)
qed

lemma put_all_keys: "map_of (put_all key val xs m) k \<noteq> None \<longleftrightarrow> map_of m k \<noteq> None \<or> k \<in> key ` set xs"
  unfolding put_all_def by (rule js_map.put_all_Some_iff)

abbreviation "lookup_of inbounds visible traffic \<equiv> buildTopologyLookup inbounds visible traffic"

lemma inboundById_Some:
  "map_of (tl_inboundById (lookup_of inbounds visible traffic)) n = Some inb \<Longrightarrow> inb \<in> set inbounds \<and> ib_id inb = n"
  by (auto simp: buildTopologyLookup_def dest: put_all_entry)

lemma inboundById_known:
  "inb \<in> set inbounds \<Longrightarrow> map_of (tl_inboundById (lookup_of inbounds visible traffic)) (ib_id inb) \<noteq> None"
  unfolding buildTopologyLookup_def topo_lookup.simps put_all_keys by simp

lemma tag_lookup_range:
  assumes "map_of (fold (\<lambda>inb lookup.
       let generated = generatedInboundTag inb; remark = trim (ib_remark inb);
           lookup1 = AList.update generated inb lookup
       in if remark \<noteq> [] then AList.update remark inb lookup1 else lookup1) xs m) t = Some inb"
  shows "inb \<in> set xs \<or> map_of m t = Some inb"
proof -
  define add where "add inb lookup = (let generated = generatedInboundTag inb; remark = trim (ib_remark inb);
     lookup1 = AList.update generated inb lookup in if remark \<noteq> [] then AList.update remark inb lookup1 else lookup1)"
    for inb :: inbound and lookup
  have step: "map_of (add x m) t = Some inb \<Longrightarrow> inb = x \<or> map_of m t = Some inb" for x m
    by (simp add: add_def Let_def js_map.get_put split: if_splits)
  have "map_of (fold add xs m) t = Some inb \<Longrightarrow> inb \<in> set xs \<or> map_of m t = Some inb"
    by (induction xs arbitrary: m) (use step in fastforce)+
  then show ?thesis using assms by (simp add: add_def [abs_def])
qed

lemma inboundByTag_Some:
  "map_of (tl_inboundByTag (lookup_of inbounds visible traffic)) t = Some inb \<Longrightarrow> inb \<in> set inbounds"
  using tag_lookup_range [of inbounds "[]" t inb]
  by (simp add: buildTopologyLookup_def buildInboundTagLookup_def)

lemma outboundById_Some:
  "map_of (tl_outboundById (lookup_of inbounds visible traffic)) n = Some ob \<Longrightarrow> ob \<in> set visible \<and> ob_id ob = n"
  by (auto simp: buildTopologyLookup_def buildOutboundIdLookup_def dest: put_all_entry)

lemma clientInbound_range:
  "map_of (fold (\<lambda>inb m. put_all cl_id (\<lambda>c. inb) (inbound_clients inb) m) xs m) k = Some inb
   \<Longrightarrow> inb \<in> set xs \<or> map_of m k = Some inb"
proof (induction xs arbitrary: m)
  case Nil
  then show ?case by simp
next
  case (Cons x xs)
  then show ?case using put_all_range [of cl_id "\<lambda>c. x" "inbound_clients x" m k inb] by auto
qed

lemma clientInbound_Some:
  "map_of (tl_clientInbound (lookup_of inbounds visible traffic)) k = Some inb \<Longrightarrow> inb \<in> set inbounds"
  using clientInbound_range [of inbounds "[]" k inb] by (simp add: buildTopologyLookup_def)

lemma client_of_Some:
  assumes "client_of (lookup_of inbounds visible traffic) inb n = Some c"
  shows "\<exists>inb' \<in> set inbounds. ib_id inb' = ib_id inb \<and> c \<in> set (inbound_clients inb') \<and> cl_id c = n"
proof -
  obtain m where m: "map_of (tl_clientsByInbound (lookup_of inbounds visible traffic)) (ib_id inb) = Some m"
    "map_of m n = Some c"
    using assms by (auto simp: client_of_def bind_eq_Some_conv)
  from put_all_entry [OF m(1) [unfolded buildTopologyLookup_def topo_lookup.simps]]
  obtain inb' where "inb' \<in> set inbounds" "ib_id inb' = ib_id inb"
    "put_all cl_id (\<lambda>c. c) (inbound_clients inb') [] = m" by blast
  then show ?thesis using m(2) put_all_entry [of cl_id "\<lambda>c. c"] by blast
qed

lemma resolve_Some:
  "resolveRuleOutbound r (tl_outboundById (lookup_of inbounds visible traffic)) = Some ob
   \<Longrightarrow> ob \<in> set visible \<and> ob_id ob = oint (rr_outbound_id r)"
  by (auto simp: resolveRuleOutbound_def Let_def dest: outboundById_Some split: if_splits)

section \<open>The sources of a rule\<close>

text \<open>A source is a known inbound, a known client, a missing inbound that \<open>missing_inbound\<close> records, or a
  missing client.\<close>

lemma missing_inbound_by_id:
  "oint (rr_inbound_id r) > 0 \<Longrightarrow> map_of (tl_inboundById lookup) (oint (rr_inbound_id r)) = None \<Longrightarrow>
   \<exists>v. missing_inbound r lookup = Some (''id:'' @ int_str (oint (rr_inbound_id r)), v)"
  by (simp add: missing_inbound_def Let_def)

lemma missing_inbound_by_tag:
  "\<not> oint (rr_inbound_id r) > 0 \<Longrightarrow> normalizedInboundTag r \<noteq> [] \<Longrightarrow>
   map_of (tl_inboundByTag lookup) (normalizedInboundTag r) = None \<Longrightarrow>
   \<exists>v. missing_inbound r lookup = Some (normalizedInboundTag r, v)"
  by (simp add: missing_inbound_def Let_def)

lemma inbound_source_cases:
  assumes "s \<in> set (inboundSourcesForRule r inbounds (lookup_of inbounds visible traffic))"
  obtains (known) inb where "inb \<in> set inbounds" "s = inbound_source inb"
  | (missing) key ek v where "s = missing_source key ek"
      "missing_inbound r (lookup_of inbounds visible traffic) = Some (key, v)"
proof -
  let ?l = "lookup_of inbounds visible traffic"
  consider (a) "oint (rr_inbound_id r) > 0" | (b) "\<not> oint (rr_inbound_id r) > 0" "normalizedInboundTag r = []"
    | (c) "\<not> oint (rr_inbound_id r) > 0" "normalizedInboundTag r \<noteq> []" by blast
  then show thesis
  proof cases
    case a
    show thesis
    proof (cases "map_of (tl_inboundById ?l) (oint (rr_inbound_id r))")
      case None
      then show thesis using assms a missing missing_inbound_by_id [OF a None]
        by (auto simp: inboundSourcesForRule_def Let_def)
    next
      case (Some inb)
      then show thesis using assms a known inboundById_Some [OF Some] by (auto simp: inboundSourcesForRule_def Let_def)
    qed
  next
    case b
    then show thesis using assms known by (auto simp: inboundSourcesForRule_def Let_def)
  next
    case c
    show thesis
    proof (cases "map_of (tl_inboundByTag ?l) (normalizedInboundTag r)")
      case None
      then show thesis using assms c missing missing_inbound_by_tag [OF c None]
        by (auto simp: inboundSourcesForRule_def Let_def)
    next
      case (Some inb)
      then show thesis using assms c known inboundByTag_Some [OF Some] by (auto simp: inboundSourcesForRule_def Let_def)
    qed
  qed
qed

definition rule_host :: "routing_rule \<Rightarrow> topo_lookup \<Rightarrow> inbound option" where
  \<comment> \<open>the inbound in which a client rule looks for its client\<close>
  "rule_host r lookup =
     (if oint (rr_inbound_id r) > 0 then map_of (tl_inboundById lookup) (oint (rr_inbound_id r))
      else if normalizedInboundTag r = [] then map_of (tl_clientInbound lookup) (oint (rr_client_id r))
      else map_of (tl_inboundByTag lookup) (normalizedInboundTag r))"

lemma rule_host_known: "rule_host r (lookup_of inbounds visible traffic) = Some inb \<Longrightarrow> inb \<in> set inbounds"
  by (auto simp: rule_host_def dest: inboundById_Some clientInbound_Some inboundByTag_Some split: if_splits)

lemma client_rule_sources:
  assumes "oint (rr_client_id r) \<noteq> 0"
  shows "\<exists>x. routingSourcesForRule r inbounds lookup =
    (case Option.bind (rule_host r lookup) (\<lambda>inb. map_option (Pair inb) (client_of lookup inb (oint (rr_client_id r)))) of
       Some (inb, c) \<Rightarrow> [client_source inb c]
     | None \<Rightarrow> [missing_client_source r x])"
proof (cases "rule_host r lookup")
  case None
  then have "routingSourcesForRule r inbounds lookup = [missing_client_source r None]"
    using assms by (auto simp: routingSourcesForRule_def rule_host_def Let_def)
  then show ?thesis using None by auto
next
  case (Some inb)
  show ?thesis
  proof (cases "client_of lookup inb (oint (rr_client_id r))")
    case None
    then have "\<exists>x. routingSourcesForRule r inbounds lookup = [missing_client_source r x]"
      using assms Some by (auto simp: routingSourcesForRule_def rule_host_def Let_def)
    then show ?thesis using None Some by auto
  next
    case (Some c)
    then have "routingSourcesForRule r inbounds lookup = [client_source inb c]"
      using assms \<open>rule_host r lookup = Some inb\<close>
      by (auto simp: routingSourcesForRule_def rule_host_def Let_def)
    then show ?thesis using Some \<open>rule_host r lookup = Some inb\<close> by auto
  qed
qed

lemma routing_source_cases:
  assumes "s \<in> set (routingSourcesForRule r inbounds (lookup_of inbounds visible traffic))"
  obtains (inbound) inb where "inb \<in> set inbounds" "s = inbound_source inb" "oint (rr_client_id r) = 0"
  | (missing_inbound) key ek v where "s = missing_source key ek"
      "missing_inbound r (lookup_of inbounds visible traffic) = Some (key, v)"
  | (client) inb inb' c where "s = client_source inb c" "inb \<in> set inbounds" "inb' \<in> set inbounds"
      "ib_id inb' = ib_id inb" "c \<in> set (inbound_clients inb')"
  | (missing_client) x where "s = missing_client_source r x"
proof (cases "oint (rr_client_id r) = 0")
  case True
  then have "s \<in> set (inboundSourcesForRule r inbounds (lookup_of inbounds visible traffic))"
    using assms by (simp add: routingSourcesForRule_def Let_def)
  then show thesis
    by (cases rule: inbound_source_cases) (use True inbound missing_inbound in blast)+
next
  case False
  let ?l = "lookup_of inbounds visible traffic"
  obtain x where x: "routingSourcesForRule r inbounds ?l =
    (case Option.bind (rule_host r ?l) (\<lambda>inb. map_option (Pair inb) (client_of ?l inb (oint (rr_client_id r)))) of
       Some (inb, c) \<Rightarrow> [client_source inb c]
     | None \<Rightarrow> [missing_client_source r x])"
    using client_rule_sources [OF False] by blast
  show thesis
  proof (cases "Option.bind (rule_host r ?l) (\<lambda>inb. map_option (Pair inb) (client_of ?l inb (oint (rr_client_id r))))")
    case None
    then show thesis using x assms missing_client by simp
  next
    case (Some p)
    then obtain inb c where p: "p = (inb, c)" "rule_host r ?l = Some inb" "client_of ?l inb (oint (rr_client_id r)) = Some c"
      by (auto simp: bind_eq_Some_conv)
    then have "s = client_source inb c" using Some x assms by simp
    then show thesis using client rule_host_known [OF p(2)] client_of_Some [OF p(3)] by blast
  qed
qed


section \<open>Closed forms of the loops\<close>

definition rule_outbound :: "topo_lookup \<Rightarrow> routing_rule \<Rightarrow> outbound option" where
  "rule_outbound lookup r = resolveRuleOutbound r (tl_outboundById lookup)"

definition rule_invalid :: "inbound list \<Rightarrow> topo_lookup \<Rightarrow> routing_rule \<Rightarrow> routing_source \<Rightarrow> bool" where
  "rule_invalid inbounds lookup r source =
     sourceInvalidTarget lookup (rule_outbound lookup r) (invalidTarget r inbounds lookup (rule_outbound lookup r)) source"

definition rule_active :: "inbound list \<Rightarrow> topo_lookup \<Rightarrow> routing_rule \<Rightarrow> routing_source \<Rightarrow> bool" where
  "rule_active inbounds lookup r source =
     isActiveRoutingSource r source (rule_outbound lookup r = None) (outbound_enabled (rule_outbound lookup r))
       (rule_invalid inbounds lookup r source)"

definition rule_edge :: "inbound list \<Rightarrow> topo_lookup \<Rightarrow> routing_rule \<Rightarrow> nat \<times> routing_source \<Rightarrow> topo_edge" where
  "rule_edge inbounds lookup r = (\<lambda>(index, source).
     buildRoutingEdge r source (outboundNodeId (targetTag r (rule_outbound lookup r))) index
       (rule_outbound lookup r = None) (outbound_enabled (rule_outbound lookup r)) (ruleHasSpecificInbound r)
       (rule_invalid inbounds lookup r source))"

definition rule_sources :: "inbound list \<Rightarrow> topo_lookup \<Rightarrow> routing_rule \<Rightarrow> (nat \<times> routing_source) list" where
  "rule_sources inbounds lookup r = enumerate 0 (routingSourcesForRule r inbounds lookup)"

definition routed_by :: "inbound list \<Rightarrow> topo_lookup \<Rightarrow> routing_rule \<Rightarrow> int set" where
  "routed_by inbounds lookup r =
     {i. \<exists>source \<in> snd ` set (rule_sources inbounds lookup r).
       rs_inbound source = Some i \<and> rs_client source = None \<and> rule_active inbounds lookup r source}"

definition clients_by :: "inbound list \<Rightarrow> topo_lookup \<Rightarrow> routing_rule \<Rightarrow> int set" where
  "clients_by inbounds lookup r =
     {c. \<exists>source \<in> snd ` set (rule_sources inbounds lookup r).
       rs_client source = Some c \<and> rule_active inbounds lookup r source}"

lemma source_step_fields:
  fixes s :: rule_state and lookup :: topo_lookup and r :: routing_rule and inbounds :: "inbound list"
  defines "out \<equiv> rule_outbound lookup r"
  fixes p :: "nat \<times> routing_source"
  defines "s' \<equiv> source_step r lookup out (invalidTarget r inbounds lookup out) p s"
  shows "ru_edges s' = ru_edges s @ [rule_edge inbounds lookup r p]"
    and "ru_missingClients s' = ru_missingClients s @ (if rs_missing (snd p) then [(r, snd p)] else [])"
    and "ru_missingInbounds s' = ru_missingInbounds s" and "ru_missingOutbounds s' = ru_missingOutbounds s"
    and "set (ru_routed s') = set (ru_routed s) \<union>
       {i. rs_inbound (snd p) = Some i \<and> rs_client (snd p) = None \<and> rule_active inbounds lookup r (snd p)}"
    and "set (ru_clients s') = set (ru_clients s) \<union>
       {c. rs_client (snd p) = Some c \<and> rule_active inbounds lookup r (snd p)}"
proof -
  obtain i source where p: "p = (i, source)" by (cases p)
  note d = s'_def out_def p source_step_def Let_def rule_edge_def rule_invalid_def rule_active_def
  show "ru_edges s' = ru_edges s @ [rule_edge inbounds lookup r p]"
    by (cases "rs_inbound source"; cases "rs_client source") (simp_all add: d)
  show "ru_missingClients s' = ru_missingClients s @ (if rs_missing (snd p) then [(r, snd p)] else [])"
    by (cases "rs_inbound source"; cases "rs_client source") (simp_all add: d)
  show "ru_missingInbounds s' = ru_missingInbounds s" "ru_missingOutbounds s' = ru_missingOutbounds s"
    by (cases "rs_inbound source"; cases "rs_client source"; simp add: d)+
  show "set (ru_routed s') = set (ru_routed s) \<union>
       {i. rs_inbound (snd p) = Some i \<and> rs_client (snd p) = None \<and> rule_active inbounds lookup r (snd p)}"
    by (cases "rs_inbound source"; cases "rs_client source") (auto simp: d)
  show "set (ru_clients s') = set (ru_clients s) \<union>
       {c. rs_client (snd p) = Some c \<and> rule_active inbounds lookup r (snd p)}"
    by (cases "rs_inbound source"; cases "rs_client source") (auto simp: d)
qed

lemma source_fold_fields:
  fixes s :: rule_state and lookup :: topo_lookup and r :: routing_rule and inbounds :: "inbound list"
  defines "out \<equiv> rule_outbound lookup r"
  defines "f \<equiv> fold (source_step r lookup out (invalidTarget r inbounds lookup out))"
  shows "ru_edges (f ps s) = ru_edges s @ map (rule_edge inbounds lookup r) ps
    \<and> ru_missingClients (f ps s) = ru_missingClients s @ map (\<lambda>p. (r, snd p)) (filter (\<lambda>p. rs_missing (snd p)) ps)
    \<and> ru_missingInbounds (f ps s) = ru_missingInbounds s \<and> ru_missingOutbounds (f ps s) = ru_missingOutbounds s
    \<and> set (ru_routed (f ps s)) = set (ru_routed s) \<union> {i. \<exists>source \<in> snd ` set ps.
        rs_inbound source = Some i \<and> rs_client source = None \<and> rule_active inbounds lookup r source}
    \<and> set (ru_clients (f ps s)) = set (ru_clients s) \<union> {c. \<exists>source \<in> snd ` set ps.
        rs_client source = Some c \<and> rule_active inbounds lookup r source}"
proof (induction ps arbitrary: s)
  case Nil
  then show ?case by (simp add: f_def)
next
  case (Cons p ps)
  have step: "f (p # ps) s = f ps (source_step r lookup out (invalidTarget r inbounds lookup out) p s)"
    by (simp add: f_def)
  note fs = source_step_fields [of r lookup inbounds p s, folded out_def]
  show ?case unfolding step using Cons.IH [of "source_step r lookup out (invalidTarget r inbounds lookup out) p s"]
    by (auto simp: fs)
qed

lemma rule_step_fields:
  "ru_edges (rule_step inbounds lookup r s) = ru_edges s @ map (rule_edge inbounds lookup r) (rule_sources inbounds lookup r)"
  "ru_missingClients (rule_step inbounds lookup r s) = ru_missingClients s @
     map (\<lambda>p. (r, snd p)) (filter (\<lambda>p. rs_missing (snd p)) (rule_sources inbounds lookup r))"
  "ru_missingInbounds (rule_step inbounds lookup r s) =
     (case missing_inbound r lookup of None \<Rightarrow> ru_missingInbounds s
      | Some (key, v) \<Rightarrow> AList.update key v (ru_missingInbounds s))"
  "ru_missingOutbounds (rule_step inbounds lookup r s) =
     (if rule_outbound lookup r = None
      then AList.update (targetTag r None) (missing_outbound_subtitle r) (ru_missingOutbounds s)
      else ru_missingOutbounds s)"
  "set (ru_routed (rule_step inbounds lookup r s)) = set (ru_routed s) \<union> routed_by inbounds lookup r"
  "set (ru_clients (rule_step inbounds lookup r s)) = set (ru_clients s) \<union> clients_by inbounds lookup r"
proof -
  have step: "\<exists>s2. rule_step inbounds lookup r s = fold (source_step r lookup (rule_outbound lookup r)
        (invalidTarget r inbounds lookup (rule_outbound lookup r))) (rule_sources inbounds lookup r) s2
     \<and> ru_edges s2 = ru_edges s \<and> ru_missingClients s2 = ru_missingClients s \<and> ru_routed s2 = ru_routed s
     \<and> ru_clients s2 = ru_clients s
     \<and> ru_missingInbounds s2 = (case missing_inbound r lookup of None \<Rightarrow> ru_missingInbounds s
      | Some (key, v) \<Rightarrow> AList.update key v (ru_missingInbounds s))
     \<and> ru_missingOutbounds s2 = (if rule_outbound lookup r = None
      then AList.update (targetTag r None) (missing_outbound_subtitle r) (ru_missingOutbounds s)
      else ru_missingOutbounds s)"
    unfolding rule_step_def Let_def rule_outbound_def [symmetric] rule_sources_def
    by (intro exI conjI, rule refl; cases "missing_inbound r lookup"; cases "rule_outbound lookup r"; auto)
  then obtain s2 where s2: "rule_step inbounds lookup r s = fold (source_step r lookup (rule_outbound lookup r)
        (invalidTarget r inbounds lookup (rule_outbound lookup r))) (rule_sources inbounds lookup r) s2"
    and fields: "ru_edges s2 = ru_edges s" "ru_missingClients s2 = ru_missingClients s" "ru_routed s2 = ru_routed s"
      "ru_clients s2 = ru_clients s"
      "ru_missingInbounds s2 = (case missing_inbound r lookup of None \<Rightarrow> ru_missingInbounds s
      | Some (key, v) \<Rightarrow> AList.update key v (ru_missingInbounds s))"
     "ru_missingOutbounds s2 = (if rule_outbound lookup r = None
      then AList.update (targetTag r None) (missing_outbound_subtitle r) (ru_missingOutbounds s)
      else ru_missingOutbounds s)" by blast
  note all = source_fold_fields [of r lookup inbounds "rule_sources inbounds lookup r" s2, folded s2]
  show "ru_edges (rule_step inbounds lookup r s) = ru_edges s @ map (rule_edge inbounds lookup r) (rule_sources inbounds lookup r)"
    "ru_missingClients (rule_step inbounds lookup r s) = ru_missingClients s @
     map (\<lambda>p. (r, snd p)) (filter (\<lambda>p. rs_missing (snd p)) (rule_sources inbounds lookup r))"
    using all fields by auto
  show "ru_missingInbounds (rule_step inbounds lookup r s) =
     (case missing_inbound r lookup of None \<Rightarrow> ru_missingInbounds s
      | Some (key, v) \<Rightarrow> AList.update key v (ru_missingInbounds s))"
    using all fields by simp
  show "ru_missingOutbounds (rule_step inbounds lookup r s) =
     (if rule_outbound lookup r = None
      then AList.update (targetTag r None) (missing_outbound_subtitle r) (ru_missingOutbounds s)
      else ru_missingOutbounds s)"
    using all fields by simp
  show "set (ru_routed (rule_step inbounds lookup r s)) = set (ru_routed s) \<union> routed_by inbounds lookup r"
    "set (ru_clients (rule_step inbounds lookup r s)) = set (ru_clients s) \<union> clients_by inbounds lookup r"
    unfolding routed_by_def clients_by_def using all fields by simp_all
qed

lemma update_keys_set: "fst ` set (AList.update k v m) = insert k (fst ` set m)"
  by (induction m) auto

lemma rule_pass_edges:
  "ru_edges (fold (rule_step inbounds lookup) rs s) =
     ru_edges s @ concat (map (\<lambda>r. map (rule_edge inbounds lookup r) (rule_sources inbounds lookup r)) rs)"
  by (induction rs arbitrary: s) (simp_all add: rule_step_fields)

lemma rule_pass_routed:
  "set (ru_routed (fold (rule_step inbounds lookup) rs s)) =
     set (ru_routed s) \<union> (\<Union>r \<in> set rs. routed_by inbounds lookup r)"
  by (induction rs arbitrary: s) (auto simp: rule_step_fields)

lemma rule_pass_clients:
  "set (ru_clients (fold (rule_step inbounds lookup) rs s)) =
     set (ru_clients s) \<union> (\<Union>r \<in> set rs. clients_by inbounds lookup r)"
  by (induction rs arbitrary: s) (auto simp: rule_step_fields)

lemma rule_pass_missing_clients:
  "ru_missingClients (fold (rule_step inbounds lookup) rs s) = ru_missingClients s @
     concat (map (\<lambda>r. map (\<lambda>p. (r, snd p)) (filter (\<lambda>p. rs_missing (snd p)) (rule_sources inbounds lookup r))) rs)"
  by (induction rs arbitrary: s) (simp_all add: rule_step_fields)

lemma rule_pass_missing_inbounds:
  "fst ` set (ru_missingInbounds (fold (rule_step inbounds lookup) rs s)) =
     fst ` set (ru_missingInbounds s) \<union> {key. \<exists>r \<in> set rs. \<exists>v. missing_inbound r lookup = Some (key, v)}"
proof (induction rs arbitrary: s)
  case Nil
  then show ?case by simp
next
  case (Cons r rs)
  have "fst ` set (ru_missingInbounds (rule_step inbounds lookup r s)) =
      fst ` set (ru_missingInbounds s) \<union> {key. \<exists>v. missing_inbound r lookup = Some (key, v)}"
  proof (cases "missing_inbound r lookup")
    case None
    then show ?thesis by (simp add: rule_step_fields)
  next
    case (Some p)
    obtain key v where "p = (key, v)" by (cases p)
    then show ?thesis using Some by (simp add: rule_step_fields update_keys_set)
  qed
  then show ?case using Cons.IH [of "rule_step inbounds lookup r s"] by auto
qed

lemma rule_pass_missing_outbounds:
  "fst ` set (ru_missingOutbounds (fold (rule_step inbounds lookup) rs s)) =
     fst ` set (ru_missingOutbounds s) \<union> {targetTag r None | r. r \<in> set rs \<and> rule_outbound lookup r = None}"
proof (induction rs arbitrary: s)
  case Nil
  then show ?case by simp
next
  case (Cons r rs)
  have "fst ` set (ru_missingOutbounds (rule_step inbounds lookup r s)) =
      fst ` set (ru_missingOutbounds s) \<union> (if rule_outbound lookup r = None then {targetTag r None} else {})"
    by (simp add: rule_step_fields update_keys_set)
  then show ?case using Cons.IH [of "rule_step inbounds lookup r s"] by auto
qed

lemma column_edges:
  "fst (snd (inbound_column lookup y inbs)) = concat (map (\<lambda>inb. map (buildClientEdge inb) (inbound_clients inb)) inbs)"
proof (induction inbs arbitrary: y)
  case Nil
  then show ?case by simp
next
  case (Cons inb inbs)
  have "fst (snd (inbound_column lookup y (inb # inbs))) = map (buildClientEdge inb) (inbound_clients inb)
      @ fst (snd (inbound_column lookup (y + groupHeight inb + 34) inbs))"
    by (simp add: Let_def split: prod.splits)
  then show ?case by (simp add: Cons.IH)
qed

lemma client_nodes_ids: "tn_id ` set (client_nodes lookup inb y) = clientNodeId ` cl_id ` set (inbound_clients inb)"
proof -
  have "tn_id ` set (client_nodes lookup inb y) = (\<lambda>p. clientNodeId (cl_id (snd p))) ` set (enumerate 0 (inbound_clients inb))"
    by (force simp: client_nodes_def buildClientNode_def)
  also have "\<dots> = clientNodeId ` cl_id ` snd ` set (enumerate 0 (inbound_clients inb))" by (simp add: image_image)
  also have "snd ` set (enumerate 0 (inbound_clients inb)) = set (inbound_clients inb)"
    by (metis list.set_map map_snd_enumerate)
  finally show ?thesis .
qed

lemma column_ids:
  "tn_id ` set (fst (inbound_column lookup y inbs)) =
     inboundNodeId ` ib_id ` set inbs \<union> (\<Union>inb \<in> set inbs. clientNodeId ` cl_id ` set (inbound_clients inb))"
proof (induction inbs arbitrary: y)
  case Nil
  then show ?case by simp
next
  case (Cons inb inbs)
  have *: "fst (inbound_column lookup y (inb # inbs)) =
     buildInboundNode inb (of_int y + of_int (groupHeight inb) / 2) # client_nodes lookup inb y
       @ fst (inbound_column lookup (y + groupHeight inb + 34) inbs)"
    by (simp add: Let_def split: prod.splits)
  have "tn_id (buildInboundNode inb q) = inboundNodeId (ib_id inb)" for q
    by (simp add: buildInboundNode_def Let_def)
  then show ?case unfolding * by (auto simp: image_Un Cons.IH client_nodes_ids)
qed

lemma enumerate_image: "(\<lambda>(i, x). f i x) ` set (enumerate n xs) = (\<lambda>p. f (fst p) (snd p)) ` set (enumerate n xs)"
  by (simp add: case_prod_unfold)

lemma enumerate_ids:
  assumes "\<And>i x. g (f i x) = h x"
  shows "g ` set (map (\<lambda>(i, x). f i x) (enumerate n xs)) = h ` set xs"
proof -
  have "g ` set (map (\<lambda>(i, x). f i x) (enumerate n xs)) = h ` snd ` set (enumerate n xs)"
    by (force simp: assms)
  also have "snd ` set (enumerate n xs) = set xs" by (metis list.set_map map_snd_enumerate)
  finally show ?thesis .
qed

end
