(* ===== verification/TopologyProps.thy ===== *)
theory TopologyProps
  imports TopologyFacts
begin

text \<open>
  The properties of the topology graph as the user sees it, over the whole of \<open>buildTopologyGraph\<close>:
  anchored edges, effective enabled lines, default lines exactly where no rule applies, the internal direct
  outbound never shown.
\<close>

section \<open>The graph in closed form\<close>

definition graph_lookup :: "inbound list \<Rightarrow> outbound list \<Rightarrow> traffic_snapshot option \<Rightarrow> topo_lookup" where
  "graph_lookup inbounds outbounds traffic = buildTopologyLookup inbounds (visible_outbounds outbounds) traffic"

definition routing_edges :: "inbound list \<Rightarrow> outbound list \<Rightarrow> routing_rule list \<Rightarrow> traffic_snapshot option \<Rightarrow> topo_edge list" where
  "routing_edges inbounds outbounds rules traffic =
     concat (map (\<lambda>r. map (rule_edge inbounds (graph_lookup inbounds outbounds traffic) r)
       (rule_sources inbounds (graph_lookup inbounds outbounds traffic) r)) (visible_rules outbounds rules))"

lemma graph_edges:
  "tg_edges (buildTopologyGraph lc inbounds outbounds rules traffic) =
     concat (map (\<lambda>inb. map (buildClientEdge inb) (inbound_clients inb)) inbounds)
     @ routing_edges inbounds outbounds rules traffic
     @ default_edges inbounds (visible_outbounds outbounds)
         (ru_routed (rule_pass inbounds outbounds rules (graph_lookup inbounds outbounds traffic)))
         (ru_clients (rule_pass inbounds outbounds rules (graph_lookup inbounds outbounds traffic)))"
proof -
  obtain ns es y where col: "inbound_column (graph_lookup inbounds outbounds traffic) 0 inbounds = (ns, es, y)"
    by (cases "inbound_column (graph_lookup inbounds outbounds traffic) 0 inbounds") auto
  then have "es = concat (map (\<lambda>inb. map (buildClientEdge inb) (inbound_clients inb)) inbounds)"
    using column_edges [of "graph_lookup inbounds outbounds traffic" 0 inbounds] by simp
  then show ?thesis
    unfolding buildTopologyGraph_def Let_def graph_lookup_def [symmetric] col
    by (simp add: rule_pass_def rule_pass_edges rule_state0_def routing_edges_def)
qed

lemma graph_node_ids:
  fixes inbounds :: "inbound list" and outbounds :: "outbound list" and rules :: "routing_rule list"
    and traffic :: "traffic_snapshot option" and lc :: "string \<Rightarrow> string \<Rightarrow> bool"
  defines "l \<equiv> graph_lookup inbounds outbounds traffic"
  shows "tn_id ` set (tg_nodes (buildTopologyGraph lc inbounds outbounds rules traffic)) =
     tn_id ` set (fst (inbound_column l 0 inbounds))
     \<union> (\<lambda>ob. outboundNodeId (ob_tag ob)) ` set (visible_outbounds outbounds)
     \<union> (\<lambda>x. missingInboundNodeId (fst x)) ` set (ru_missingInbounds (rule_pass inbounds outbounds rules l))
     \<union> (\<lambda>x. missingClientNodeId (fst x)) ` set (ru_missingClients (rule_pass inbounds outbounds rules l))
     \<union> (\<lambda>x. outboundNodeId (fst x)) ` set (ru_missingOutbounds (rule_pass inbounds outbounds rules l))"
proof -
  obtain ns es y where col: "inbound_column l 0 inbounds = (ns, es, y)" by (cases "inbound_column l 0 inbounds") auto
  have a: "tn_id ` set (map (\<lambda>(index, ob). buildOutboundNode ob (g index)) (enumerate 0 xs)) =
      (\<lambda>ob. outboundNodeId (ob_tag ob)) ` set xs" for g xs
    by (rule enumerate_ids) (simp add: buildOutboundNode_def)
  have b: "tn_id ` set (map (\<lambda>(index, (key, (title, subtitle))). buildMissingInboundNode key title (g index) subtitle) (enumerate 0 xs)) =
      (\<lambda>x. missingInboundNodeId (fst x)) ` set xs" for g and xs :: "(string \<times> (string \<times> string option)) list"
    by (rule enumerate_ids) (simp add: buildMissingInboundNode_def split: prod.split)
  have c: "tn_id ` set (map (\<lambda>(index, (r, source)). buildMissingClientNode r source (g index)) (enumerate 0 xs)) =
      (\<lambda>x. missingClientNodeId (fst x)) ` set xs" for g and xs :: "(routing_rule \<times> routing_source) list"
    by (rule enumerate_ids) (simp add: buildMissingClientNode_def Let_def split: prod.split)
  have d: "tn_id ` set (map (\<lambda>(index, (tag, subtitle)). buildMissingOutboundNode tag (g index) subtitle) (enumerate 0 xs)) =
      (\<lambda>x. outboundNodeId (fst x)) ` set xs" for g and xs :: "(string \<times> string option) list"
    by (rule enumerate_ids) (simp add: buildMissingOutboundNode_def split: prod.split)
  show ?thesis
    unfolding buildTopologyGraph_def Let_def l_def [unfolded graph_lookup_def, symmetric] col
    by (simp only: prod.case topo_graph.simps set_append image_Un a b c d) (simp add: sort_entries_def Un_assoc)
qed

lemma rule_pass_0:
  "set (ru_routed (rule_pass inbounds outbounds rules l)) = (\<Union>r \<in> set (visible_rules outbounds rules). routed_by inbounds l r)"
  "fst ` set (ru_missingInbounds (rule_pass inbounds outbounds rules l)) =
     {key. \<exists>r \<in> set (visible_rules outbounds rules). \<exists>v. missing_inbound r l = Some (key, v)}"
  "fst ` set (ru_missingOutbounds (rule_pass inbounds outbounds rules l)) =
     {targetTag r None | r. r \<in> set (visible_rules outbounds rules) \<and> rule_outbound l r = None}"
  "ru_missingClients (rule_pass inbounds outbounds rules l) =
     concat (map (\<lambda>r. map (\<lambda>p. (r, snd p)) (filter (\<lambda>p. rs_missing (snd p)) (rule_sources inbounds l r)))
       (visible_rules outbounds rules))"
  by (simp_all add: rule_pass_def rule_pass_routed rule_pass_missing_inbounds rule_pass_missing_outbounds
      rule_pass_missing_clients rule_state0_def)

lemma sources_enumerated: "p \<in> set (rule_sources inbounds l r) \<Longrightarrow> snd p \<in> set (routingSourcesForRule r inbounds l)"
proof -
  have "set (map snd (enumerate 0 xs)) = set xs" for xs :: "routing_source list" by simp
  then show "p \<in> set (rule_sources inbounds l r) \<Longrightarrow> snd p \<in> set (routingSourcesForRule r inbounds l)"
    by (metis rule_sources_def image_eqI list.set_map)
qed

lemma source_enumerated:
  assumes "s \<in> set (routingSourcesForRule r inbounds l)"
  shows "\<exists>i. (i, s) \<in> set (rule_sources inbounds l r)"
proof -
  have "s \<in> set (map snd (enumerate 0 (routingSourcesForRule r inbounds l)))" using assms by simp
  then show ?thesis unfolding rule_sources_def set_map by (metis imageE prod.collapse)
qed

section \<open>Anchored edges\<close>

lemma node_ids_of:
  fixes inbounds :: "inbound list" and outbounds :: "outbound list" and rules :: "routing_rule list"
    and traffic :: "traffic_snapshot option" and lc :: "string \<Rightarrow> string \<Rightarrow> bool"
  defines "ids \<equiv> tn_id ` set (tg_nodes (buildTopologyGraph lc inbounds outbounds rules traffic))"
  shows "inb \<in> set inbounds \<Longrightarrow> inboundNodeId (ib_id inb) \<in> ids"
    and "inb \<in> set inbounds \<Longrightarrow> c \<in> set (inbound_clients inb) \<Longrightarrow> clientNodeId (cl_id c) \<in> ids"
    and "ob \<in> set (visible_outbounds outbounds) \<Longrightarrow> outboundNodeId (ob_tag ob) \<in> ids"
  unfolding ids_def graph_node_ids column_ids by blast+

lemma missing_node_ids_of:
  fixes inbounds :: "inbound list" and outbounds :: "outbound list" and rules :: "routing_rule list"
    and traffic :: "traffic_snapshot option" and lc :: "string \<Rightarrow> string \<Rightarrow> bool"
  defines "ids \<equiv> tn_id ` set (tg_nodes (buildTopologyGraph lc inbounds outbounds rules traffic))"
  defines "l \<equiv> graph_lookup inbounds outbounds traffic"
  assumes "r \<in> set (visible_rules outbounds rules)"
  shows "missing_inbound r l = Some (key, v) \<Longrightarrow> missingInboundNodeId key \<in> ids"
    and "rule_outbound l r = None \<Longrightarrow> outboundNodeId (targetTag r None) \<in> ids"
    and "missing_client_source r x \<in> set (routingSourcesForRule r inbounds l) \<Longrightarrow> missingClientNodeId r \<in> ids"
proof -
  have img: "(\<lambda>x. f (fst x)) ` A = f ` fst ` A" for f :: "'x \<Rightarrow> string" and A :: "('x \<times> 'y) set" by (auto simp: image_image)
  show "missing_inbound r l = Some (key, v) \<Longrightarrow> missingInboundNodeId key \<in> ids"
    unfolding ids_def graph_node_ids l_def [symmetric] img rule_pass_0 using assms(3) by blast
  show "rule_outbound l r = None \<Longrightarrow> outboundNodeId (targetTag r None) \<in> ids"
    unfolding ids_def graph_node_ids l_def [symmetric] img rule_pass_0 using assms(3) by blast
  assume "missing_client_source r x \<in> set (routingSourcesForRule r inbounds l)"
  then obtain i where "(i, missing_client_source r x) \<in> set (rule_sources inbounds l r)"
    using source_enumerated by blast
  then have "(r, missing_client_source r x) \<in> set (ru_missingClients (rule_pass inbounds outbounds rules l))"
    unfolding rule_pass_0 using assms(3) by (force simp: missing_client_source_def)
  then show "missingClientNodeId r \<in> ids"
    unfolding ids_def graph_node_ids l_def [symmetric] by force
qed

lemma routing_source_anchored:
  assumes "r \<in> set (visible_rules outbounds rules)"
    and "s \<in> set (routingSourcesForRule r inbounds (graph_lookup inbounds outbounds traffic))"
  shows "rs_node s \<in> tn_id ` set (tg_nodes (buildTopologyGraph lc inbounds outbounds rules traffic))"
proof (cases rule: routing_source_cases [OF assms(2) [unfolded graph_lookup_def]])
  case (1 inb)
  then show ?thesis using node_ids_of(1) by (simp add: inbound_source_def)
next
  case (2 key ek v)
  then show ?thesis using missing_node_ids_of(1) [OF assms(1)] by (simp add: missing_source_def graph_lookup_def)
next
  case (3 inb inb' c)
  then show ?thesis using node_ids_of(2) by (simp add: client_source_def)
next
  case (4 x)
  then show ?thesis using missing_node_ids_of(3) [OF assms(1)] assms(2) by (simp add: missing_client_source_def)
qed

lemma rule_target_anchored:
  assumes "r \<in> set (visible_rules outbounds rules)" and "\<forall>ob \<in> set outbounds. ob_tag ob \<noteq> []"
  shows "outboundNodeId (targetTag r (rule_outbound (graph_lookup inbounds outbounds traffic) r))
    \<in> tn_id ` set (tg_nodes (buildTopologyGraph lc inbounds outbounds rules traffic))"
proof (cases "rule_outbound (graph_lookup inbounds outbounds traffic) r")
  case None
  then show ?thesis using missing_node_ids_of(2) [OF assms(1) None] by simp
next
  case (Some ob)
  then have "ob \<in> set (visible_outbounds outbounds)"
    using resolve_Some by (auto simp: rule_outbound_def graph_lookup_def)
  moreover from this have "ob_tag ob \<noteq> []" using assms(2) by (simp add: visible_outbounds_def)
  ultimately show ?thesis using Some node_ids_of(3) by (simp add: targetTag_def)
qed

lemma default_edge_cases:
  assumes "e \<in> set (default_edges inbounds visible routed explicit)"
  obtains (inbound) direct inb where "direct \<in> set visible" "ob_tag direct = ''direct''" "inb \<in> set inbounds"
      "ib_id inb \<notin> set routed" "e = buildDefaultDirectEdge inb (not_false (ob_enabled direct))"
  | (client) direct inb c where "direct \<in> set visible" "ob_tag direct = ''direct''" "inb \<in> set inbounds"
      "c \<in> set (inbound_clients inb)" "e = buildClientDefaultDirectEdge c (not_false (ob_enabled direct))"
proof (cases "find (\<lambda>ob. ob_tag ob = ''direct'') visible")
  case None
  then show ?thesis using assms by (simp add: default_edges_def)
next
  case (Some direct)
  then have d: "direct \<in> set visible" "ob_tag direct = ''direct''" by (auto dest: find_Some_set)
  from assms Some obtain inb where "inb \<in> set inbounds" "ib_id inb \<notin> set routed"
    "e = buildDefaultDirectEdge inb (not_false (ob_enabled direct))
     \<or> (\<exists>c \<in> set (inbound_clients inb). e = buildClientDefaultDirectEdge c (not_false (ob_enabled direct)))"
    by (auto simp: default_edges_def)
  then show ?thesis using that d by blast
qed

lemma edge_cases:
  assumes "e \<in> set (tg_edges (buildTopologyGraph lc inbounds outbounds rules traffic))"
  obtains (client) inb c where "inb \<in> set inbounds" "c \<in> set (inbound_clients inb)" "e = buildClientEdge inb c"
  | (routing) r i s where "r \<in> set (visible_rules outbounds rules)"
      "s \<in> set (routingSourcesForRule r inbounds (graph_lookup inbounds outbounds traffic))"
      "e = rule_edge inbounds (graph_lookup inbounds outbounds traffic) r (i, s)"
  | (default) "e \<in> set (default_edges inbounds (visible_outbounds outbounds)
         (ru_routed (rule_pass inbounds outbounds rules (graph_lookup inbounds outbounds traffic)))
         (ru_clients (rule_pass inbounds outbounds rules (graph_lookup inbounds outbounds traffic))))"
  using assms unfolding graph_edges
  by (auto simp: routing_edges_def dest!: sources_enumerated)

lemma rule_edge_fields:
  "te_source (rule_edge inbounds l r (i, s)) = rs_node s"
  "te_target (rule_edge inbounds l r (i, s)) = outboundNodeId (targetTag r (rule_outbound l r))"
  "te_enabled (rule_edge inbounds l r (i, s)) = rule_active inbounds l r s"
  "te_rule (rule_edge inbounds l r (i, s)) = Some (rr_id r)"
  "te_kind (rule_edge inbounds l r (i, s)) =
     (if rs_client s \<noteq> None then EClientRouting else if ruleHasSpecificInbound r then ERouting else EAllInbounds)"
  by (simp_all add: rule_edge_def buildRoutingEdge_def rule_active_def Let_def)

text \<open>
  C7.
  No line of the topology graph ends in nothing: when every outbound has a tag, the source and the target of
  every edge are nodes of the graph, including the rules that name an inbound, a client or an outbound that no
  longer exists.
\<close>

theorem topology_edges_anchored:
  assumes "\<forall>ob \<in> set outbounds. ob_tag ob \<noteq> []"
  shows "\<forall>e \<in> set (tg_edges (buildTopologyGraph lc inbounds outbounds rules traffic)).
    {te_source e, te_target e} \<subseteq> tn_id ` set (tg_nodes (buildTopologyGraph lc inbounds outbounds rules traffic))"
proof
  fix e
  assume "e \<in> set (tg_edges (buildTopologyGraph lc inbounds outbounds rules traffic))"
  then show "{te_source e, te_target e} \<subseteq> tn_id ` set (tg_nodes (buildTopologyGraph lc inbounds outbounds rules traffic))"
  proof (cases rule: edge_cases)
    case (client inb c)
    then show ?thesis using node_ids_of(1) [OF client(1)] node_ids_of(2) [OF client(1,2)]
      by (simp add: buildClientEdge_def Let_def)
  next
    case (routing r i s)
    then show ?thesis using routing_source_anchored [OF routing(1,2)] rule_target_anchored [OF routing(1) assms]
      by (simp add: rule_edge_fields)
  next
    case default
    then show ?thesis
    proof (cases rule: default_edge_cases)
      case (inbound direct inb)
      then show ?thesis using node_ids_of(1) [OF inbound(3)] node_ids_of(3) [OF inbound(1)]
        by (simp add: buildDefaultDirectEdge_def Let_def)
    next
      case (client direct inb c)
      then show ?thesis using node_ids_of(2) [OF client(3,4)] node_ids_of(3) [OF client(1)]
        by (simp add: buildClientDefaultDirectEdge_def Let_def)
    qed
  qed
qed


definition sample_inbound :: "int \<Rightarrow> inbound" where
  "sample_inbound n = \<lparr>ib_id = n, ib_remark = ''in'', ib_protocol = ''vless'', ib_core = None, ib_port = 443, ib_network = ''tcp'',
     ib_security = ''none'', ib_enabled = Some True, ib_uuid = None, ib_clients = None, ib_extra = []\<rparr>"

definition direct_outbound :: outbound where
  "direct_outbound = sample_outbound\<lparr>ob_id := 1, ob_tag := ''direct'', ob_protocol := ''freedom''\<rparr>"

definition sample_rule :: "int \<Rightarrow> int \<Rightarrow> routing_rule" where
  "sample_rule inboundId outboundId = \<lparr>rr_id = 9, rr_remark = None, rr_inbound_id = Some inboundId, rr_inbound_tag = None,
     rr_client_id = None, rr_client_email = None, rr_client_label = None, rr_domain = None, rr_ip = None,
     rr_rule_set = None, rr_protocol = None, rr_outbound_id = Some outboundId, rr_outbound_tag = ''out'',
     rr_enabled = Some True, rr_sort_order = None\<rparr>"

section \<open>Enabled lines are effective\<close>

lemma inboundById_distinct:
  assumes "distinct (map ib_id inbounds)" and "inb \<in> set inbounds"
  shows "map_of (tl_inboundById (lookup_of inbounds visible traffic)) (ib_id inb) = Some inb"
proof -
  obtain inb' where i: "map_of (tl_inboundById (lookup_of inbounds visible traffic)) (ib_id inb) = Some inb'"
    using inboundById_known [OF assms(2)] by blast
  then have "inb' \<in> set inbounds" "ib_id inb' = ib_id inb" using inboundById_Some by blast+
  then have "inb' = inb" using assms by (metis distinct_map inj_on_eq_iff)
  then show ?thesis using i by simp
qed

lemma rule_active_meaning:
  assumes "rule_active inbounds l r s"
  shows "not_false (rr_enabled r) \<and> rs_enabled s \<and> (\<exists>ob. rule_outbound l r = Some ob \<and> not_false (ob_enabled ob))
    \<and> \<not> rule_invalid inbounds l r s"
  using assms by (cases "rule_outbound l r")
    (auto simp: rule_active_def isActiveRoutingSource_def outbound_enabled_def)


section \<open>Default lines\<close>

lemma routed_iff:
  assumes "inb \<in> set inbounds"
  shows "(\<exists>e \<in> set (routing_edges inbounds outbounds rules traffic). te_kind e \<in> {ERouting, EAllInbounds} \<and> te_enabled e
      \<and> te_source e = inboundNodeId (ib_id inb)) \<longleftrightarrow>
    ib_id inb \<in> (\<Union>r \<in> set (visible_rules outbounds rules). routed_by inbounds (graph_lookup inbounds outbounds traffic) r)"
    (is "?edge \<longleftrightarrow> ?routed")
proof
  let ?l = "graph_lookup inbounds outbounds traffic"
  assume ?edge
  then obtain r i s where r: "r \<in> set (visible_rules outbounds rules)" "(i, s) \<in> set (rule_sources inbounds ?l r)"
    and e: "rs_client s = None" "rule_active inbounds ?l r s" "rs_node s = inboundNodeId (ib_id inb)"
    by (auto simp: routing_edges_def rule_edge_fields split: if_splits)
  have "s \<in> set (routingSourcesForRule r inbounds ?l)" using sources_enumerated [OF r(2)] by simp
  then have "rs_inbound s = Some (ib_id inb)"
    unfolding graph_lookup_def
    by (cases rule: routing_source_cases)
      (use e in \<open>auto simp: inbound_source_def missing_source_def client_source_def missing_client_source_def
        inboundNodeId_def missingInboundNodeId_def\<close>)
  then show ?routed using r e by (force simp: routed_by_def)
next
  let ?l = "graph_lookup inbounds outbounds traffic"
  assume ?routed
  then obtain r i s where r: "r \<in> set (visible_rules outbounds rules)" "(i, s) \<in> set (rule_sources inbounds ?l r)"
    and s: "rs_inbound s = Some (ib_id inb)" "rs_client s = None" "rule_active inbounds ?l r s"
    by (auto simp: routed_by_def)
  have "s \<in> set (routingSourcesForRule r inbounds ?l)" using sources_enumerated [OF r(2)] by simp
  then have "rs_node s = inboundNodeId (ib_id inb)"
    unfolding graph_lookup_def
    by (cases rule: routing_source_cases)
      (use s in \<open>auto simp: inbound_source_def missing_source_def client_source_def missing_client_source_def\<close>)
  moreover have "rule_edge inbounds ?l r (i, s) \<in> set (routing_edges inbounds outbounds rules traffic)"
    using r by (auto simp: routing_edges_def)
  ultimately show ?edge using s
    by (intro bexI [of _ "rule_edge inbounds ?l r (i, s)"]) (simp_all add: rule_edge_fields)
qed

lemma default_edge_from_inbound:
  assumes "inb \<in> set inbounds"
  shows "(\<exists>e \<in> set (default_edges inbounds visible routed explicit). te_source e = inboundNodeId (ib_id inb)) \<longleftrightarrow>
    (\<exists>ob \<in> set visible. ob_tag ob = ''direct'') \<and> ib_id inb \<notin> set routed" (is "?edge \<longleftrightarrow> ?cond")
proof
  assume ?edge
  then obtain e where e: "e \<in> set (default_edges inbounds visible routed explicit)" "te_source e = inboundNodeId (ib_id inb)"
    by blast
  from e(1) show ?cond
  proof (cases rule: default_edge_cases)
    case (inbound direct inb')
    then show ?thesis using e(2) by (auto simp: buildDefaultDirectEdge_def Let_def inboundNodeId_def)
  next
    case (client direct inb' c)
    then show ?thesis using e(2)
      by (simp add: buildClientDefaultDirectEdge_def Let_def inboundNodeId_def clientNodeId_def)
  qed
next
  assume c: ?cond
  then have "find (\<lambda>ob. ob_tag ob = ''direct'') visible \<noteq> None"
    using find_None_all [of "\<lambda>ob. ob_tag ob = ''direct''" visible] by blast
  then obtain direct where "find (\<lambda>ob. ob_tag ob = ''direct'') visible = Some direct" by blast
  then have "buildDefaultDirectEdge inb (not_false (ob_enabled direct)) \<in> set (default_edges inbounds visible routed explicit)"
    using c assms by (auto simp: default_edges_def)
  then show ?edge by (rule bexI [rotated]) (simp add: buildDefaultDirectEdge_def Let_def)
qed

lemma client_edge_kind: "te_kind (buildClientEdge inb c) = EClientInherits" "\<not> te_kind (buildClientEdge inb c) = EDefaultDirect"
  by (simp_all add: buildClientEdge_def Let_def)

lemma routing_edges_not_default:
  "e \<in> set (routing_edges inbounds outbounds rules traffic) \<Longrightarrow> te_kind e \<noteq> EDefaultDirect"
  by (auto simp: routing_edges_def rule_edge_fields split: if_splits)

lemma default_edges_kind: "e \<in> set (default_edges inbounds visible routed explicit) \<Longrightarrow> te_kind e = EDefaultDirect"
  by (erule default_edge_cases) (simp_all add: buildDefaultDirectEdge_def buildClientDefaultDirectEdge_def Let_def)

text \<open>
  C10.
  The fallback is drawn exactly where it applies: an inbound has a default line to the direct outbound if and
  only if there is an outbound with the tag \<^verbatim>\<open>direct\<close> and no enabled line of a rule for the whole
  inbound leaves the inbound's node. Disabled rules, rules with a missing or incompatible outbound, and rules
  for single clients leave the default line in place.
\<close>

theorem default_line_iff_unrouted:
  assumes "inb \<in> set inbounds" and "edges = tg_edges (buildTopologyGraph lc inbounds outbounds rules traffic)"
  shows "(\<exists>e \<in> set edges. te_kind e = EDefaultDirect \<and> te_source e = inboundNodeId (ib_id inb)) \<longleftrightarrow>
    (\<exists>ob \<in> set outbounds. ob_tag ob = ''direct'') \<and>
    \<not> (\<exists>e \<in> set edges. te_kind e \<in> {ERouting, EAllInbounds} \<and> te_enabled e \<and> te_source e = inboundNodeId (ib_id inb))"
proof -
  let ?l = "graph_lookup inbounds outbounds traffic"
  let ?s = "rule_pass inbounds outbounds rules ?l"
  let ?D = "set (default_edges inbounds (visible_outbounds outbounds) (ru_routed ?s) (ru_clients ?s))"
  let ?R = "set (routing_edges inbounds outbounds rules traffic)"
  define C where "C = set (concat (map (\<lambda>inb. map (buildClientEdge inb) (inbound_clients inb)) inbounds))"
  have split: "set edges = C \<union> ?R \<union> ?D" unfolding assms(2) graph_edges C_def by auto
  have kc: "te_kind e = EClientInherits" if "e \<in> C" for e using that client_edge_kind(1) by (auto simp: C_def)
  have kr: "te_kind e \<noteq> EDefaultDirect" if "e \<in> ?R" for e using that by (rule routing_edges_not_default)
  have kd: "te_kind e = EDefaultDirect" if "e \<in> ?D" for e using that by (rule default_edges_kind)
  have "(\<exists>e \<in> set edges. te_kind e = EDefaultDirect \<and> te_source e = inboundNodeId (ib_id inb)) \<longleftrightarrow>
      (\<exists>e \<in> ?D. te_source e = inboundNodeId (ib_id inb))"
    unfolding split bex_Un using kc kr kd by (metis edge_kind.distinct(19))
  also have "\<dots> \<longleftrightarrow> (\<exists>ob \<in> set (visible_outbounds outbounds). ob_tag ob = ''direct'') \<and> ib_id inb \<notin> set (ru_routed ?s)"
    by (rule default_edge_from_inbound [OF assms(1)])
  also have "(\<exists>ob \<in> set (visible_outbounds outbounds). ob_tag ob = ''direct'') \<longleftrightarrow> (\<exists>ob \<in> set outbounds. ob_tag ob = ''direct'')"
    by (auto simp: visible_outbounds_def isSystemDirectOutbound_def systemDirectOutboundTag_def)
  also have "ib_id inb \<notin> set (ru_routed ?s) \<longleftrightarrow> \<not> (\<exists>e \<in> ?R. te_kind e \<in> {ERouting, EAllInbounds} \<and> te_enabled e
      \<and> te_source e = inboundNodeId (ib_id inb))"
    unfolding routed_iff [OF assms(1)] rule_pass_0(1) ..
  also have "(\<exists>e \<in> ?R. te_kind e \<in> {ERouting, EAllInbounds} \<and> te_enabled e \<and> te_source e = inboundNodeId (ib_id inb)) \<longleftrightarrow>
      (\<exists>e \<in> set edges. te_kind e \<in> {ERouting, EAllInbounds} \<and> te_enabled e \<and> te_source e = inboundNodeId (ib_id inb))"
  proof -
    have nC: "\<not> (\<exists>e \<in> C. te_kind e \<in> {ERouting, EAllInbounds} \<and> te_enabled e \<and> te_source e = inboundNodeId (ib_id inb))"
      by (auto dest: kc)
    have nD: "\<not> (\<exists>e \<in> ?D. te_kind e \<in> {ERouting, EAllInbounds} \<and> te_enabled e \<and> te_source e = inboundNodeId (ib_id inb))"
      by (auto dest: kd)
    show ?thesis unfolding split bex_Un using nC nD by blast
  qed
  finally show ?thesis .
qed


section \<open>Concrete graphs\<close>

lemma visible_samples [simp]:
  "visible_outbounds [direct_outbound, sample_outbound] = [direct_outbound, sample_outbound]"
  "visible_rules [direct_outbound, sample_outbound] [sample_rule a b] = [sample_rule a b]"
  by (simp_all add: visible_outbounds_def visible_rules_def isSystemDirectOutbound_def isSystemDirectRoutingRule_def
      direct_outbound_def sample_outbound_def sample_rule_def systemDirectOutboundTag_def)

definition sample_lookup :: topo_lookup where
  "sample_lookup = graph_lookup [sample_inbound 1] [direct_outbound, sample_outbound] None"

lemma sample_lookup:
  "map_of (tl_inboundById sample_lookup) 1 = Some (sample_inbound 1)"
  "map_of (tl_outboundById sample_lookup) 3 = Some sample_outbound"
  unfolding sample_lookup_def graph_lookup_def visible_samples
  by (simp_all add: buildTopologyLookup_def put_all_def buildOutboundIdLookup_def
      sample_inbound_def direct_outbound_def sample_outbound_def)

lemma sample_sources:
  "routingSourcesForRule (sample_rule 1 3) [sample_inbound 1] sample_lookup = [inbound_source (sample_inbound 1)]"
  by (simp add: routingSourcesForRule_def inboundSourcesForRule_def sample_rule_def sample_lookup Let_def)

lemma sample_edge:
  defines "e \<equiv> rule_edge [sample_inbound 1] sample_lookup (sample_rule 1 3) (0, inbound_source (sample_inbound 1))"
  shows "e \<in> set (tg_edges (buildTopologyGraph lc [sample_inbound 1] [direct_outbound, sample_outbound] [sample_rule 1 3] None))
    \<and> te_rule e = Some 9 \<and> te_enabled e"
proof -
  have out: "rule_outbound sample_lookup (sample_rule 1 3) = Some sample_outbound"
    by (simp add: rule_outbound_def resolveRuleOutbound_def sample_rule_def sample_lookup Let_def)
  have core: "outboundSupportsCore (Some sample_outbound) c" for c
    by (cases c) (simp_all add: outboundSupportsCore_def outboundSupportedCores_def sample_outbound_def trim_socks
        protocol_sets lower_char_def)
  have src: "source_inbound sample_lookup (inbound_source (sample_inbound 1)) = Some (sample_inbound 1)"
    using sample_lookup(1) by (simp add: source_inbound_def inbound_source_def) (simp add: sample_inbound_def)
  have "te_enabled e"
    by (simp add: e_def rule_edge_fields rule_active_def isActiveRoutingSource_def out rule_invalid_def
        sourceInvalidTarget_def src core outbound_enabled_def)
      (simp add: sample_outbound_def sample_rule_def inbound_source_def sample_inbound_def)
  moreover have "te_rule e = Some 9" by (simp add: e_def rule_edge_fields sample_rule_def)
  moreover have "e \<in> set (routing_edges [sample_inbound 1] [direct_outbound, sample_outbound] [sample_rule 1 3] None)"
    by (simp add: routing_edges_def e_def rule_sources_def sample_lookup_def [symmetric] sample_sources)
  ultimately show ?thesis unfolding graph_edges by simp
qed

theorem topology_edges_anchored_witness:
  "\<exists>e \<in> set (tg_edges (buildTopologyGraph (\<lambda>a b. True) [sample_inbound 1] [direct_outbound, sample_outbound] [sample_rule 1 3] None)).
    te_enabled e \<and> {te_source e, te_target e} \<subseteq> tn_id ` set (tg_nodes (buildTopologyGraph (\<lambda>a b. True) [sample_inbound 1] [direct_outbound, sample_outbound] [sample_rule 1 3] None))"
proof -
  have "\<forall>ob \<in> set [direct_outbound, sample_outbound]. ob_tag ob \<noteq> []"
    by (simp add: direct_outbound_def sample_outbound_def)
  note anchored = topology_edges_anchored [OF this, of "\<lambda>a b. True" "[sample_inbound 1]" "[sample_rule 1 3]" None]
  show ?thesis using sample_edge [of "\<lambda>a b. True"] anchored by blast
qed


theorem default_line_iff_unrouted_witness:
  "\<exists>e \<in> set (tg_edges (buildTopologyGraph (\<lambda>a b. True) [sample_inbound 1] [direct_outbound] [] None)).
    te_kind e = EDefaultDirect \<and> te_source e = inboundNodeId 1"
proof -
  have i: "sample_inbound 1 \<in> set [sample_inbound 1]" by simp
  have "ib_id (sample_inbound 1) = 1" by (simp add: sample_inbound_def)
  moreover have "\<not> (\<exists>e \<in> set (tg_edges (buildTopologyGraph (\<lambda>a b. True) [sample_inbound 1] [direct_outbound] [] None)).
      te_kind e \<in> {ERouting, EAllInbounds} \<and> te_enabled e \<and> te_source e = inboundNodeId (ib_id (sample_inbound 1)))"
    unfolding graph_edges
    by (auto simp: routing_edges_def visible_rules_def inbound_clients_def sample_inbound_def dest: default_edges_kind)
  ultimately show ?thesis
    using default_line_iff_unrouted [OF i refl, of "\<lambda>a b. True" "[direct_outbound]" "[]" None]
    by (simp add: direct_outbound_def)
qed

section \<open>The internal direct outbound\<close>

lemma missing_tag_shape:
  "(\<exists>n. targetTag r None = ''id:'' @ int_str n) \<or> targetTag r None = ''missing-outbound-id''"
  by (auto simp: targetTag_def missingOutboundTargetKey_def Let_def)

text \<open>
  
  The outbound the panel manages for itself is never drawn: no node of the graph has its identifier, and no
  line stands for a rule that points to it, whether by its tag or by the id of any outbound carrying that tag.
\<close>

theorem internal_outbound_hidden:
  "outboundNodeId ''migate-system-direct'' \<notin> tn_id ` set (tg_nodes (buildTopologyGraph lc inbounds outbounds rules traffic))
   \<and> (\<forall>e \<in> set (tg_edges (buildTopologyGraph lc inbounds outbounds rules traffic)). \<forall>n. te_rule e = Some n \<longrightarrow>
       (\<exists>r \<in> set rules. rr_id r = n \<and> rr_outbound_tag r \<noteq> ''migate-system-direct''
         \<and> (\<forall>ob \<in> set outbounds. ob_tag ob = ''migate-system-direct'' \<longrightarrow> ob_id ob \<noteq> oint (rr_outbound_id r))))"
proof (intro conjI ballI allI impI)
  let ?l = "graph_lookup inbounds outbounds traffic"
  have img: "(\<lambda>x. f (fst x)) ` A = f ` fst ` A" for f :: "'x \<Rightarrow> string" and A :: "('x \<times> 'y) set" by (auto simp: image_image)
  have "outboundNodeId ''migate-system-direct'' \<noteq> outboundNodeId (targetTag r None)" for r
    using missing_tag_shape [of r] by (auto simp: outboundNodeId_def)
  moreover have "outboundNodeId ''migate-system-direct'' \<noteq> outboundNodeId (ob_tag ob)"
    if "ob \<in> set (visible_outbounds outbounds)" for ob
    using that by (auto simp: outboundNodeId_def visible_outbounds_def isSystemDirectOutbound_def systemDirectOutboundTag_def)
  ultimately show "outboundNodeId ''migate-system-direct'' \<notin> tn_id ` set (tg_nodes (buildTopologyGraph lc inbounds outbounds rules traffic))"
    unfolding graph_node_ids column_ids img rule_pass_0
    by (auto simp: outboundNodeId_def inboundNodeId_def clientNodeId_def missingInboundNodeId_def missingClientNodeId_def)
next
  fix e n
  assume e: "e \<in> set (tg_edges (buildTopologyGraph lc inbounds outbounds rules traffic))" "te_rule e = Some n"
  from e(1) show "\<exists>r \<in> set rules. rr_id r = n \<and> rr_outbound_tag r \<noteq> ''migate-system-direct''
         \<and> (\<forall>ob \<in> set outbounds. ob_tag ob = ''migate-system-direct'' \<longrightarrow> ob_id ob \<noteq> oint (rr_outbound_id r))"
  proof (cases rule: edge_cases)
    case (client inb c)
    then show ?thesis using e(2) by (simp add: buildClientEdge_def Let_def)
  next
    case (routing r i s)
    then show ?thesis using e(2)
      by (intro bexI [of _ r])
        (auto simp: rule_edge_fields visible_rules_def isSystemDirectRoutingRule_def isSystemDirectOutbound_def systemDirectOutboundTag_def image_iff)
  next
    case default
    then show ?thesis
      by (cases rule: default_edge_cases)
        (use e(2) in \<open>simp_all add: buildDefaultDirectEdge_def buildClientDefaultDirectEdge_def Let_def\<close>)
  qed
qed

theorem internal_outbound_hidden_witness:
  "\<exists>e \<in> set (tg_edges (buildTopologyGraph (\<lambda>a b. True) [sample_inbound 1] [direct_outbound, sample_outbound] [sample_rule 1 3] None)).
     te_rule e = Some 9 \<and> rr_outbound_tag (sample_rule 1 3) \<noteq> ''migate-system-direct''"
proof -
  obtain e where e: "e \<in> set (tg_edges (buildTopologyGraph (\<lambda>a b. True) [sample_inbound 1] [direct_outbound, sample_outbound] [sample_rule 1 3] None))"
    "te_rule e = Some 9" using sample_edge by blast
  then have "\<exists>r \<in> set [sample_rule 1 3]. rr_id r = 9 \<and> rr_outbound_tag r \<noteq> ''migate-system-direct''"
    using internal_outbound_hidden [of "\<lambda>a b. True" "[sample_inbound 1]" "[direct_outbound, sample_outbound]" "[sample_rule 1 3]" None] by blast
  then show ?thesis using e by auto
qed

lemma outbound_node_cases:
  fixes inbounds :: "inbound list" and outbounds :: "outbound list" and traffic :: "traffic_snapshot option"
  defines "l \<equiv> graph_lookup inbounds outbounds traffic"
  assumes "outboundNodeId x \<in> tn_id ` set (tg_nodes (buildTopologyGraph lc inbounds outbounds rules traffic))"
  shows "(\<exists>ob \<in> set (visible_outbounds outbounds). outboundNodeId x = outboundNodeId (ob_tag ob))
    \<or> (\<exists>r \<in> set (visible_rules outbounds rules). rule_outbound l r = None \<and> outboundNodeId x = outboundNodeId (targetTag r None))"
proof -
  let ?s = "rule_pass inbounds outbounds rules l"
  have a: "outboundNodeId x \<notin> tn_id ` set (fst (inbound_column l 0 inbounds))"
    unfolding column_ids by (auto simp: outboundNodeId_def inboundNodeId_def clientNodeId_def)
  have c: "outboundNodeId x \<notin> (\<lambda>x. missingInboundNodeId (fst x)) ` A" for A :: "(string \<times> (string \<times> string option)) set"
    by (auto simp: outboundNodeId_def missingInboundNodeId_def)
  have d: "outboundNodeId x \<notin> (\<lambda>x. missingClientNodeId (fst x)) ` A" for A :: "(routing_rule \<times> routing_source) set"
    by (auto simp: outboundNodeId_def missingClientNodeId_def)
  have "outboundNodeId x \<in> (\<lambda>ob. outboundNodeId (ob_tag ob)) ` set (visible_outbounds outbounds)
      \<or> outboundNodeId x \<in> (\<lambda>x. outboundNodeId (fst x)) ` set (ru_missingOutbounds ?s)"
    using assms(2) a c d unfolding graph_node_ids l_def [symmetric] Un_iff by metis
  then show ?thesis
  proof
    assume "outboundNodeId x \<in> (\<lambda>x. outboundNodeId (fst x)) ` set (ru_missingOutbounds ?s)"
    then obtain key where "key \<in> fst ` set (ru_missingOutbounds ?s)" "outboundNodeId x = outboundNodeId key" by auto
    then show ?thesis unfolding rule_pass_0 by blast
  qed auto
qed

section \<open>An outbound without a tag\<close>

text \<open>
  
  The tag is needed: a rule whose outbound exists but has an empty tag is drawn towards the placeholder of a
  missing outbound, for which no node is made, so the line ends in nothing.
\<close>

theorem untagged_outbound_dangles:
  assumes "r \<in> set (visible_rules outbounds rules)"
    and "s \<in> set (routingSourcesForRule r inbounds (buildTopologyLookup inbounds (visible_outbounds outbounds) traffic))"
    and "resolveRuleOutbound r (buildOutboundIdLookup (visible_outbounds outbounds)) = Some ob" and "ob_tag ob = []"
    and "\<forall>ob' \<in> set outbounds. ob_tag ob' \<noteq> ''id:'' @ int_str (oint (rr_outbound_id r))"
  shows "\<exists>e \<in> set (tg_edges (buildTopologyGraph lc inbounds outbounds rules traffic)).
     te_rule e = Some (rr_id r) \<and> te_missingTarget e = Some False
     \<and> te_target e \<notin> tn_id ` set (tg_nodes (buildTopologyGraph lc inbounds outbounds rules traffic))"
proof -
  let ?l = "graph_lookup inbounds outbounds traffic"
  let ?n = "oint (rr_outbound_id r)"
  have out: "rule_outbound ?l r = Some ob"
    using assms(3) by (simp add: rule_outbound_def graph_lookup_def buildTopologyLookup_def)
  then have pos: "0 < ?n" by (auto simp: rule_outbound_def resolveRuleOutbound_def Let_def split: if_splits)
  obtain i where i: "(i, s) \<in> set (rule_sources inbounds ?l r)"
    using source_enumerated assms(2) by (fastforce simp: graph_lookup_def)
  let ?e = "rule_edge inbounds ?l r (i, s)"
  have mem: "?e \<in> set (tg_edges (buildTopologyGraph lc inbounds outbounds rules traffic))"
    unfolding graph_edges using assms(1) i by (auto simp: routing_edges_def)
  have tgt: "te_target ?e = outboundNodeId (''id:'' @ int_str ?n)"
    using out assms(4) pos by (simp add: rule_edge_fields targetTag_def missingOutboundTargetKey_def Let_def)
  have miss: "targetTag r' None \<noteq> ''id:'' @ int_str ?n" if "rule_outbound ?l r' = None" for r'
  proof
    assume "targetTag r' None = ''id:'' @ int_str ?n"
    then have "oint (rr_outbound_id r') = ?n"
      by (auto simp: targetTag_def missingOutboundTargetKey_def Let_def split: if_splits)
    then have "rule_outbound ?l r' = rule_outbound ?l r" by (simp add: rule_outbound_def resolveRuleOutbound_def)
    then show False using that out by simp
  qed
  have img: "(\<lambda>x. f (fst x)) ` A = f ` fst ` A" for f :: "'x \<Rightarrow> string" and A :: "('x \<times> 'y) set" by (auto simp: image_image)
  have inj: "outboundNodeId (''id:'' @ int_str ?n) = outboundNodeId t \<longleftrightarrow> t = ''id:'' @ int_str ?n" for t
    by (auto simp: outboundNodeId_def)
  have vis: "ob_tag ob' \<noteq> ''id:'' @ int_str ?n" if "ob' \<in> set (visible_outbounds outbounds)" for ob'
    using that assms(5) by (simp add: visible_outbounds_def)
  have "outboundNodeId (''id:'' @ int_str ?n) \<notin> tn_id ` set (tg_nodes (buildTopologyGraph lc inbounds outbounds rules traffic))"
  proof
    assume "outboundNodeId (''id:'' @ int_str ?n) \<in> tn_id ` set (tg_nodes (buildTopologyGraph lc inbounds outbounds rules traffic))"
    from outbound_node_cases [OF this] show False unfolding inj using vis miss by blast
  qed
  then show ?thesis using mem tgt out
    by (intro bexI [OF _ mem]) (simp add: rule_edge_def buildRoutingEdge_def Let_def)
qed

definition untagged_outbound :: outbound where "untagged_outbound = sample_outbound\<lparr>ob_tag := []\<rparr>"

theorem untagged_outbound_dangles_witness:
  "\<exists>e \<in> set (tg_edges (buildTopologyGraph (\<lambda>a b. True) [sample_inbound 1] [untagged_outbound] [sample_rule 1 3] None)).
     te_target e \<notin> tn_id ` set (tg_nodes (buildTopologyGraph (\<lambda>a b. True) [sample_inbound 1] [untagged_outbound] [sample_rule 1 3] None))"
proof -
  have v: "visible_outbounds [untagged_outbound] = [untagged_outbound]" "visible_rules [untagged_outbound] [sample_rule 1 3] = [sample_rule 1 3]"
    by (simp_all add: visible_outbounds_def visible_rules_def isSystemDirectOutbound_def isSystemDirectRoutingRule_def
      untagged_outbound_def sample_outbound_def sample_rule_def systemDirectOutboundTag_def)
  have by_id: "map_of (tl_inboundById (buildTopologyLookup [sample_inbound 1] [untagged_outbound] None)) 1 = Some (sample_inbound 1)"
    by (simp add: buildTopologyLookup_def put_all_def sample_inbound_def)
  have "inbound_source (sample_inbound 1) \<in>
      set (routingSourcesForRule (sample_rule 1 3) [sample_inbound 1] (buildTopologyLookup [sample_inbound 1] [untagged_outbound] None))"
    by (simp add: routingSourcesForRule_def inboundSourcesForRule_def by_id sample_rule_def)
  moreover have "resolveRuleOutbound (sample_rule 1 3) (buildOutboundIdLookup [untagged_outbound]) = Some untagged_outbound"
    by (simp add: resolveRuleOutbound_def buildOutboundIdLookup_def put_all_def untagged_outbound_def sample_outbound_def sample_rule_def)
  moreover have "ob_tag untagged_outbound = []" by (simp add: untagged_outbound_def)
  ultimately show ?thesis
    using untagged_outbound_dangles [of "sample_rule 1 3" "[untagged_outbound]" "[sample_rule 1 3]" "inbound_source (sample_inbound 1)"
        "[sample_inbound 1]" None untagged_outbound "\<lambda>a b. True"]
    by (auto simp: v)
qed

end
