(* ===== verification/TopologyLayout.thy ===== *)
theory TopologyLayout
  imports Topology
begin

text \<open>
  The drawing of the graph in \<^verbatim>\<open>src/web/src/routes/TopologyPage.tsx\<close>: the three-column layout, the
  styles of lines, and the counters of the page. \<^verbatim>\<open>localeCompare\<close> is the parameter \<open>lc\<close>.
\<close>

definition nodeHeight :: int where "nodeHeight = 128"
definition clientNodeHeight :: int where "clientNodeHeight = 116"

definition shouldUseLightweightLayout :: "topo_node list \<Rightarrow> topo_edge list \<Rightarrow> bool" where
  "shouldUseLightweightLayout nodes edges = (length nodes \<le> 28 \<and> length edges \<le> 42)"

section \<open>Order within a column\<close>

definition bump :: "string \<Rightarrow> (string \<times> int) list \<Rightarrow> (string \<times> int) list" where
  "bump n score = (case map_of score n of None \<Rightarrow> score | Some k \<Rightarrow> AList.update n (k + 1) score)"

definition connectivity :: "string list \<Rightarrow> topo_edge list \<Rightarrow> (string \<times> int) list" where
  "connectivity ids edges =
     fold (\<lambda>e score. bump (te_target e) (bump (te_source e) score)) edges
       (fold (\<lambda>n. AList.update n 0) ids [])"

definition orderByConnectivity :: "(string \<Rightarrow> string \<Rightarrow> bool) \<Rightarrow> string list \<Rightarrow> topo_edge list \<Rightarrow> string list" where
  "orderByConnectivity lc ids edges =
     (let score = connectivity ids edges; rank = (\<lambda>n. oint (map_of score n))
      in sort_by (\<lambda>a b. rank b < rank a \<or> (rank a = rank b \<and> lc a b)) ids)"

section \<open>Positions\<close>

definition height_of :: "topo_node \<Rightarrow> int" where
  "height_of node = (if tn_kind node = NClient then clientNodeHeight else nodeHeight)"

primrec placeColumn :: "(string \<times> topo_node) list \<Rightarrow> int \<Rightarrow> int \<Rightarrow> string list
    \<Rightarrow> (string \<times> (int \<times> int)) list \<Rightarrow> (string \<times> (int \<times> int)) list" where
  "placeColumn byId x y [] positioned = positioned"
| "placeColumn byId x y (n # ids) positioned =
     (case map_of byId n of
        None \<Rightarrow> placeColumn byId x y ids positioned
      | Some node \<Rightarrow> placeColumn byId x (y + height_of node + 34) ids (AList.update n (x, y) positioned))"

definition ids_of_kinds :: "node_kind set \<Rightarrow> topo_node list \<Rightarrow> string list" where
  "ids_of_kinds ks nodes = map tn_id (filter (\<lambda>n. tn_kind n \<in> ks) nodes)"

definition nodes_by_id :: "topo_node list \<Rightarrow> (string \<times> topo_node) list" where
  "nodes_by_id nodes = fold (\<lambda>n. AList.update (tn_id n) n) nodes []"

definition applyLightweightLayout :: "(string \<Rightarrow> string \<Rightarrow> bool) \<Rightarrow> topo_node list \<Rightarrow> topo_edge list \<Rightarrow> topo_node list" where
  "applyLightweightLayout lc nodes edges =
     (let byId = nodes_by_id nodes;
          inboundOrder = orderByConnectivity lc (ids_of_kinds {NInbound, NMissingInbound} nodes) edges;
          clientOrder = orderByConnectivity lc (ids_of_kinds {NClient, NMissingClient} nodes) edges;
          outboundOrder = orderByConnectivity lc (ids_of_kinds {NOutbound, NMissingOutbound} nodes) edges;
          p1 = placeColumn byId 0 0 inboundOrder [];
          p2 = placeColumn byId 380 0 clientOrder p1;
          p3 = placeColumn byId 760 0 outboundOrder p2;
          remaining = map tn_id (filter (\<lambda>n. \<not> map_has p3 (tn_id n)) nodes);
          positioned = placeColumn byId (if clientOrder \<noteq> [] then 380 else 0) 0 remaining p3
      in map (\<lambda>n. case map_of positioned (tn_id n) of
             Some (x, y) \<Rightarrow> n\<lparr>tn_x := x, tn_y := of_int y\<rparr> | None \<Rightarrow> n) nodes)"

definition layoutGraph :: "(string \<Rightarrow> string \<Rightarrow> bool) \<Rightarrow> topo_graph \<Rightarrow> topo_graph" where
  "layoutGraph lc g = (if tg_nodes g = [] then g else g\<lparr>tg_nodes := applyLightweightLayout lc (tg_nodes g) (tg_edges g)\<rparr>)"

section \<open>Styles and counters\<close>

record edge_style =
  es_stroke :: string
  es_width :: rat
  es_opacity :: rat
  es_marker :: "string option" \<comment> \<open>the colour of the arrow, when there is one\<close>
  es_classes :: "string list"

definition withEdgeDefaults :: "topo_edge \<Rightarrow> edge_style" where
  "withEdgeDefaults e =
     (let clientEdge = (te_kind e = EClientInherits); defaultEdge = (te_kind e = EDefaultDirect);
          missingEdge = is_on (te_missingTarget e); enabledEdge = te_enabled e;
          stroke = (if missingEdge then ''#dc2626'' else if defaultEdge then ''#64748b''
                    else if enabledEdge then ''#0f766e'' else ''#64748b'')
      in \<lparr>es_stroke = stroke,
          es_width = (if missingEdge then 36 / 10 else if clientEdge \<or> defaultEdge then 26 / 10 else 34 / 10),
          es_opacity = (if defaultEdge then (if enabledEdge then 62 / 100 else 36 / 100)
                        else if enabledEdge then 94 / 100 else 58 / 100),
          es_marker = (if clientEdge \<or> defaultEdge then None else Some stroke),
          es_classes = (if clientEdge then [''topology-edge-client''] else [])
            @ (if defaultEdge then [''topology-edge-default''] else [])
            @ (if te_kind e = EAllInbounds then [''topology-edge-all''] else [])
            @ (if missingEdge then [''topology-edge-missing''] else [])
            @ (if \<not> te_enabled e then [''topology-edge-disabled''] else [])\<rparr>)"

record topology_stats =
  ts_inbounds :: nat
  ts_disabledInbounds :: nat
  ts_clients :: nat
  ts_outbounds :: nat
  ts_missingOutbounds :: nat
  ts_routingEdges :: nat
  ts_disabledRoutes :: nat

definition is_route :: "topo_edge \<Rightarrow> bool" where
  "is_route e = (te_kind e \<in> {ERouting, EAllInbounds, EClientRouting})"

definition topologyStats :: "topo_node list \<Rightarrow> topo_edge list \<Rightarrow> topology_stats" where
  "topologyStats nodes edges =
     \<lparr>ts_inbounds = length (filter (\<lambda>n. tn_kind n = NInbound) nodes),
      ts_disabledInbounds = length (filter (\<lambda>n. tn_kind n = NInbound \<and> \<not> tn_enabled n) nodes),
      ts_clients = length (filter (\<lambda>n. tn_kind n = NClient) nodes),
      ts_outbounds = length (filter (\<lambda>n. tn_kind n = NOutbound) nodes),
      ts_missingOutbounds = length (filter (\<lambda>n. tn_kind n = NMissingOutbound) nodes),
      ts_routingEdges = length (filter is_route edges),
      ts_disabledRoutes = length (filter (\<lambda>e. is_route e \<and> \<not> te_enabled e) edges)\<rparr>"

definition miniMapNodeColor :: "topo_node \<Rightarrow> string" where
  "miniMapNodeColor n =
     (if tn_kind n = NMissingInbound then ''#dc2626'' else if tn_kind n = NMissingOutbound then ''#dc2626''
      else if \<not> tn_enabled n then ''#94a3b8'' else if tn_kind n = NInbound then ''#0f766e''
      else if tn_kind n = NClient then ''#2563eb'' else ''#b45309'')"

section \<open>No two nodes overlap\<close>

lemma order_set [simp]: "set (orderByConnectivity lc ids edges) = set ids"
  by (simp add: orderByConnectivity_def Let_def)

lemma order_distinct [simp]: "distinct (orderByConnectivity lc ids edges) = distinct ids"
  by (simp add: orderByConnectivity_def Let_def)

lemma nodes_by_id_lookup:
  assumes "distinct (map tn_id nodes)" and "n \<in> set nodes"
  shows "map_of (nodes_by_id nodes) (tn_id n) = Some n"
proof -
  have "map_of (nodes_by_id nodes) (tn_id n) \<noteq> None"
    unfolding nodes_by_id_def using js_map.put_all_Some_iff [of tn_id "\<lambda>n. n" nodes "[]" "tn_id n"] assms(2) by simp
  then obtain m where m: "map_of (nodes_by_id nodes) (tn_id n) = Some m" by blast
  then have "m \<in> set nodes" "tn_id m = tn_id n"
    using js_map.put_all_Some [of tn_id "\<lambda>n. n" nodes "[]" "tn_id n" m] by (auto simp: nodes_by_id_def)
  then have "m = n" using assms by (metis distinct_map inj_on_eq_iff)
  then show ?thesis using m by simp
qed

lemma placeColumn_other: "k \<notin> set ids \<Longrightarrow> map_of (placeColumn byId x y ids pos) k = map_of pos k"
  by (induction ids arbitrary: y pos) (auto simp: js_map.get_put split: option.split)

lemma placeColumn_spec:
  assumes "distinct ids" and "\<forall>k \<in> set ids. \<exists>n. map_of byId k = Some n"
  shows "(\<forall>k \<in> set ids. \<exists>v \<ge> y. map_of (placeColumn byId x y ids pos) k = Some (x, v))
    \<and> sorted_wrt (\<lambda>a b. snd (the (map_of (placeColumn byId x y ids pos) a)) + height_of (the (map_of byId a)) + 34
          \<le> snd (the (map_of (placeColumn byId x y ids pos) b))) ids"
  using assms
proof (induction ids arbitrary: y pos)
  case Nil
  then show ?case by simp
next
  case (Cons k ids)
  obtain n where n: "map_of byId k = Some n" using Cons.prems(2) by auto
  let ?y = "y + height_of n + 34" and ?pos = "AList.update k (x, y) pos"
  have step: "placeColumn byId x y (k # ids) pos = placeColumn byId x ?y ids ?pos" using n by simp
  have IH: "(\<forall>j \<in> set ids. \<exists>v \<ge> ?y. map_of (placeColumn byId x ?y ids ?pos) j = Some (x, v))
    \<and> sorted_wrt (\<lambda>a b. snd (the (map_of (placeColumn byId x ?y ids ?pos) a)) + height_of (the (map_of byId a)) + 34
          \<le> snd (the (map_of (placeColumn byId x ?y ids ?pos) b))) ids"
    using Cons.IH [of ?y ?pos] Cons.prems by simp
  have k: "map_of (placeColumn byId x ?y ids ?pos) k = Some (x, y)"
    using Cons.prems(1) by (simp add: placeColumn_other js_map.get_put)
  have h: "0 \<le> height_of n" by (simp add: height_of_def clientNodeHeight_def nodeHeight_def)
  have "\<exists>v \<ge> y. map_of (placeColumn byId x ?y ids ?pos) j = Some (x, v)" if "j \<in> set ids" for j
    using IH that h by fastforce
  moreover have "y + height_of n + 34 \<le> snd (the (map_of (placeColumn byId x ?y ids ?pos) j))" if "j \<in> set ids" for j
    using IH that by fastforce
  ultimately show ?case unfolding step using IH k n by simp
qed

definition apart :: "topo_node \<Rightarrow> topo_node \<Rightarrow> bool" where
  "apart n m = (tn_x n \<noteq> tn_x m \<or> tn_y n + of_int (height_of n) + 34 \<le> tn_y m \<or> tn_y m + of_int (height_of m) + 34 \<le> tn_y n)"

lemma sorted_wrt_either:
  "sorted_wrt R xs \<Longrightarrow> a \<in> set xs \<Longrightarrow> b \<in> set xs \<Longrightarrow> a \<noteq> b \<Longrightarrow> R a b \<or> R b a"
  by (induction xs) auto

lemma column_of_kind:
  fixes nodes :: "topo_node list"
  assumes "distinct (map tn_id nodes)"
  shows "distinct (ids_of_kinds ks nodes)" and "\<forall>k \<in> set (ids_of_kinds ks nodes). \<exists>n. map_of (nodes_by_id nodes) k = Some n"
    and "n \<in> set nodes \<Longrightarrow> tn_id n \<in> set (ids_of_kinds ks nodes) \<longleftrightarrow> tn_kind n \<in> ks"
proof -
  show "distinct (ids_of_kinds ks nodes)" using assms by (simp add: ids_of_kinds_def distinct_map inj_on_def)
  show "\<forall>k \<in> set (ids_of_kinds ks nodes). \<exists>n. map_of (nodes_by_id nodes) k = Some n"
    using nodes_by_id_lookup [OF assms] by (auto simp: ids_of_kinds_def)
  show "n \<in> set nodes \<Longrightarrow> tn_id n \<in> set (ids_of_kinds ks nodes) \<longleftrightarrow> tn_kind n \<in> ks"
    using assms by (auto simp: ids_of_kinds_def distinct_map inj_on_def)
qed

definition column_x :: "node_kind \<Rightarrow> int" where
  "column_x k = (case k of NInbound \<Rightarrow> 0 | NMissingInbound \<Rightarrow> 0 | NClient \<Rightarrow> 380 | NMissingClient \<Rightarrow> 380
     | NOutbound \<Rightarrow> 760 | NMissingOutbound \<Rightarrow> 760)"

lemma layout_positions:
  fixes nodes :: "topo_node list"
  assumes "distinct (map tn_id nodes)"
  obtains f :: "string \<Rightarrow> int" where
    "applyLightweightLayout lc nodes edges = map (\<lambda>n. n\<lparr>tn_x := column_x (tn_kind n), tn_y := of_int (f (tn_id n))\<rparr>) nodes"
    "\<forall>n \<in> set nodes. \<forall>m \<in> set nodes. tn_id n \<noteq> tn_id m \<longrightarrow> column_x (tn_kind n) = column_x (tn_kind m) \<longrightarrow>
       f (tn_id n) + height_of n + 34 \<le> f (tn_id m) \<or> f (tn_id m) + height_of m + 34 \<le> f (tn_id n)"
proof -
  let ?B = "nodes_by_id nodes"
  define I where "I = orderByConnectivity lc (ids_of_kinds {NInbound, NMissingInbound} nodes) edges"
  define C where "C = orderByConnectivity lc (ids_of_kinds {NClient, NMissingClient} nodes) edges"
  define Z where "Z = orderByConnectivity lc (ids_of_kinds {NOutbound, NMissingOutbound} nodes) edges"
  define p1 where "p1 = placeColumn ?B 0 0 I []"
  define p2 where "p2 = placeColumn ?B 380 0 C p1"
  define p3 where "p3 = placeColumn ?B 760 0 Z p2"
  note col = column_of_kind [OF assms]
  have mem: "tn_id n \<in> set I \<longleftrightarrow> column_x (tn_kind n) = 0" "tn_id n \<in> set C \<longleftrightarrow> column_x (tn_kind n) = 380"
    "tn_id n \<in> set Z \<longleftrightarrow> column_x (tn_kind n) = 760" if "n \<in> set nodes" for n
    using col(3) [OF that] by (auto simp: I_def C_def Z_def column_x_def split: node_kind.splits)
  have disj: "set C \<inter> set I = {}" "set Z \<inter> set I = {}" "set Z \<inter> set C = {}"
  proof -
    have "k \<in> set I \<union> set C \<union> set Z \<Longrightarrow> \<exists>n \<in> set nodes. k = tn_id n" for k
      by (auto simp: I_def C_def Z_def ids_of_kinds_def)
    then show "set C \<inter> set I = {}" "set Z \<inter> set I = {}" "set Z \<inter> set C = {}" using mem by fastforce+
  qed
  have spec: "(\<forall>k \<in> set ids. \<exists>v. map_of (placeColumn ?B x 0 ids pos) k = Some (x, v))
    \<and> sorted_wrt (\<lambda>a b. snd (the (map_of (placeColumn ?B x 0 ids pos) a)) + height_of (the (map_of ?B a)) + 34
          \<le> snd (the (map_of (placeColumn ?B x 0 ids pos) b))) ids"
    if "distinct ids" "\<forall>k \<in> set ids. \<exists>n. map_of ?B k = Some n" for ids x pos
    using placeColumn_spec [OF that, of 0 x pos] by blast
  have dI: "distinct I" "\<forall>k \<in> set I. \<exists>n. map_of ?B k = Some n" by (simp_all add: I_def col(1) col(2))
  have dC: "distinct C" "\<forall>k \<in> set C. \<exists>n. map_of ?B k = Some n" by (simp_all add: C_def col(1) col(2))
  have dZ: "distinct Z" "\<forall>k \<in> set Z. \<exists>n. map_of ?B k = Some n" by (simp_all add: Z_def col(1) col(2))
  have look: "k \<in> set I \<Longrightarrow> map_of p3 k = map_of p1 k" "k \<in> set C \<Longrightarrow> map_of p3 k = map_of p2 k" for k
  proof -
    have "k \<in> set I \<Longrightarrow> k \<notin> set C \<and> k \<notin> set Z" "k \<in> set C \<Longrightarrow> k \<notin> set Z" using disj by blast+
    then show "k \<in> set I \<Longrightarrow> map_of p3 k = map_of p1 k" "k \<in> set C \<Longrightarrow> map_of p3 k = map_of p2 k"
      by (simp_all add: p3_def p2_def placeColumn_other)
  qed
  define f where "f = (\<lambda>k. snd (the (map_of p3 k)))"
  have at: "map_of p3 (tn_id n) = Some (column_x (tn_kind n), f (tn_id n))" if n: "n \<in> set nodes" for n
  proof -
    have "column_x (tn_kind n) \<in> {0, 380, 760}" by (simp add: column_x_def split: node_kind.split)
    then consider "tn_id n \<in> set I" "column_x (tn_kind n) = 0" | "tn_id n \<in> set C" "column_x (tn_kind n) = 380"
      | "tn_id n \<in> set Z" "column_x (tn_kind n) = 760" using mem [OF n] by auto
    then have "\<exists>v. map_of p3 (tn_id n) = Some (column_x (tn_kind n), v)"
      by cases (use look spec [OF dI, of 0 "[]"] spec [OF dC, of 380 p1] spec [OF dZ, of 760 p2] in
        \<open>auto simp: p1_def p2_def p3_def\<close>)
    then show ?thesis by (auto simp: f_def)
  qed
  have "filter (\<lambda>n. \<not> map_has p3 (tn_id n)) nodes = []" using at by (auto simp: filter_empty_conv)
  then have "applyLightweightLayout lc nodes edges = map (\<lambda>n. case map_of p3 (tn_id n) of
             Some (x, y) \<Rightarrow> n\<lparr>tn_x := x, tn_y := of_int y\<rparr> | None \<Rightarrow> n) nodes"
    by (simp add: applyLightweightLayout_def Let_def I_def [symmetric] C_def [symmetric] Z_def [symmetric]
        p1_def [symmetric] p2_def [symmetric] p3_def [symmetric])
  also have "\<dots> = map (\<lambda>n. n\<lparr>tn_x := column_x (tn_kind n), tn_y := of_int (f (tn_id n))\<rparr>) nodes"
    by (rule map_cong) (simp_all add: at)
  finally have res: "applyLightweightLayout lc nodes edges = map (\<lambda>n. n\<lparr>tn_x := column_x (tn_kind n), tn_y := of_int (f (tn_id n))\<rparr>) nodes" .
  have sorted: "sorted_wrt (\<lambda>a b. f a + height_of (the (map_of ?B a)) + 34 \<le> f b) xs" if "xs \<in> {I, C, Z}" for xs
  proof -
    have "sorted_wrt (\<lambda>a b. f a + height_of (the (map_of ?B a)) + 34 \<le> f b) I"
      using spec [OF dI, of 0 "[]"] look(1) by (auto simp: f_def p1_def intro: sorted_wrt_mono_rel [rotated])
    moreover have "sorted_wrt (\<lambda>a b. f a + height_of (the (map_of ?B a)) + 34 \<le> f b) C"
      using spec [OF dC, of 380 p1] look(2) by (auto simp: f_def p2_def intro: sorted_wrt_mono_rel [rotated])
    moreover have "sorted_wrt (\<lambda>a b. f a + height_of (the (map_of ?B a)) + 34 \<le> f b) Z"
      using spec [OF dZ, of 760 p2] by (auto simp: f_def p3_def)
    ultimately show ?thesis using that by auto
  qed
  show thesis
  proof (rule that [OF res], intro ballI impI)
    fix n m
    assume nm: "n \<in> set nodes" "m \<in> set nodes" "tn_id n \<noteq> tn_id m" "column_x (tn_kind n) = column_x (tn_kind m)"
    have "column_x (tn_kind n) \<in> {0, 380, 760}" by (simp add: column_x_def split: node_kind.split)
    then obtain xs where xs: "xs \<in> {I, C, Z}" "tn_id n \<in> set xs" "tn_id m \<in> set xs"
      using mem [OF nm(1)] mem [OF nm(2)] nm(4) by auto
    from sorted_wrt_either [OF sorted [OF xs(1)] xs(2,3) nm(3)]
    show "f (tn_id n) + height_of n + 34 \<le> f (tn_id m) \<or> f (tn_id m) + height_of m + 34 \<le> f (tn_id n)"
      by (simp add: nodes_by_id_lookup [OF assms] nm)
  qed
qed


definition small_graph :: "topo_node list" where
  "small_graph = [
     \<lparr>tn_id = ''a'', tn_x = 0, tn_y = 0, tn_kind = NInbound, tn_title = ''a'', tn_subtitle = None, tn_enabled = True, tn_missing = False, tn_meta = []\<rparr>,
     \<lparr>tn_id = ''b'', tn_x = 0, tn_y = 0, tn_kind = NInbound, tn_title = ''b'', tn_subtitle = None, tn_enabled = True, tn_missing = False, tn_meta = []\<rparr>]"


end
