(* ===== verification/InboundCaps.thy ===== *)
theory InboundCaps
  imports CoreApply
begin

text \<open>
  The first half of \<^verbatim>\<open>src/web/src/routes/InboundsPage.tsx\<close>: what each inbound protocol can be
  combined with. The table \<open>inboundCapabilities\<close> is the built-in one; the two module variables
  \<^verbatim>\<open>activeInboundCapabilities\<close> and \<^verbatim>\<open>activeInboundProtocols\<close> are the record
  \<open>cap_state\<close>, an explicit argument of every function that reads them, and
  \<open>applyInboundCapabilitiesFromAPI\<close> computes the state that a response of the server leaves. On top of it:
  the normalisation of a protocol, network and security combination, the advanced fields it enables, and the
  default, seeded and normalised value of each of them. The names of protocols, securities and fields in form
  values stay strings, as in the source.
\<close>

section \<open>Texts\<close>

text \<open>The non-ASCII texts of this part of the user interface, as UTF-8 bytes.\<close>

definition zh_tpl_recommended :: string where
  "zh_tpl_recommended = [CHR 0xE6, CHR 0x8E, CHR 0xA8, CHR 0xE8, CHR 0x8D, CHR 0x90, CHR 0xE8, CHR 0x8A, CHR 0x82, CHR 0xE7,
    CHR 0x82, CHR 0xB9]"

definition zh_tpl_compatible :: string where
  "zh_tpl_compatible = [CHR 0xE5, CHR 0x85, CHR 0xBC, CHR 0xE5, CHR 0xAE, CHR 0xB9, CHR 0xE8, CHR 0x8A, CHR 0x82, CHR 0xE7,
    CHR 0x82, CHR 0xB9]"

definition zh_tpl_password :: string where
  "zh_tpl_password = [CHR 0xE5, CHR 0xAF, CHR 0x86, CHR 0xE7, CHR 0xA0, CHR 0x81, CHR 0xE8, CHR 0x8A, CHR 0x82, CHR 0xE7,
    CHR 0x82, CHR 0xB9]"

definition zh_tpl_light :: string where
  "zh_tpl_light = [CHR 0xE8, CHR 0xBD, CHR 0xBB, CHR 0xE9, CHR 0x87, CHR 0x8F, CHR 0xE8, CHR 0x8A, CHR 0x82, CHR 0xE7,
    CHR 0x82, CHR 0xB9]"

definition zh_tpl_local :: string where
  "zh_tpl_local = [CHR 0xE6, CHR 0x9C, CHR 0xAC, CHR 0xE5, CHR 0x9C, CHR 0xB0, CHR 0xE4, CHR 0xBB, CHR 0xA3, CHR 0xE7,
    CHR 0x90, CHR 0x86]"

definition zh_tpl_udp :: string where
  "zh_tpl_udp = [CHR 0xE9, CHR 0xAB, CHR 0x98, CHR 0xE9, CHR 0x80, CHR 0x9F, CHR 0x20, CHR 0x55, CHR 0x44, CHR 0x50]"

definition zh_tpl_latency :: string where
  "zh_tpl_latency = [CHR 0xE9, CHR 0xAB, CHR 0x98, CHR 0xE9, CHR 0x80, CHR 0x9F, CHR 0xE4, CHR 0xBD, CHR 0x8E, CHR 0xE5,
    CHR 0xBB, CHR 0xB6, CHR 0xE8, CHR 0xBF, CHR 0x9F]"

definition zh_tpl_mask :: string where
  "zh_tpl_mask = [CHR 0xE4, CHR 0xBC, CHR 0xAA, CHR 0xE8, CHR 0xA3, CHR 0x85, CHR 0xE6, CHR 0x8F, CHR 0xA1, CHR 0xE6,
    CHR 0x89, CHR 0x8B]"

lemmas texts_InboundCaps =
  zh_tpl_recommended_def zh_tpl_compatible_def zh_tpl_password_def zh_tpl_light_def zh_tpl_local_def
  zh_tpl_udp_def zh_tpl_latency_def zh_tpl_mask_def

lemma texts_nonempty_InboundCaps [simp]:
  "zh_tpl_recommended \<noteq> []" "zh_tpl_compatible \<noteq> []" "zh_tpl_password \<noteq> []" "zh_tpl_light \<noteq> []"
  "zh_tpl_local \<noteq> []" "zh_tpl_udp \<noteq> []" "zh_tpl_latency \<noteq> []" "zh_tpl_mask \<noteq> []"
  by (simp_all add: texts_InboundCaps)

section \<open>Vocabulary\<close>

datatype protocol = P_vless | P_vmess | P_trojan | P_shadowsocks | P_socks | P_http | P_hysteria2 | P_tuic | P_shadowtls

datatype inbound_security = S_none | S_tls | S_reality

datatype template_id =
    T_recommended | T_compatible | T_password | T_light | T_local_socks | T_local_http
  | T_udp_fast | T_low_latency | T_handshake_mask

datatype credential_type = C_none | C_uuid | C_password | C_credential_id_password | C_username_password

primrec protocol_name :: "protocol \<Rightarrow> string" where
  "protocol_name P_vless = ''vless''"
| "protocol_name P_vmess = ''vmess''"
| "protocol_name P_trojan = ''trojan''"
| "protocol_name P_shadowsocks = ''shadowsocks''"
| "protocol_name P_socks = ''socks''"
| "protocol_name P_http = ''http''"
| "protocol_name P_hysteria2 = ''hysteria2''"
| "protocol_name P_tuic = ''tuic''"
| "protocol_name P_shadowtls = ''shadowtls''"

primrec security_name :: "inbound_security \<Rightarrow> string" where
  "security_name S_none = ''none''"
| "security_name S_tls = ''tls''"
| "security_name S_reality = ''reality''"

primrec template_name :: "template_id \<Rightarrow> string" where
  "template_name T_recommended = ''recommended''"
| "template_name T_compatible = ''compatible''"
| "template_name T_password = ''password''"
| "template_name T_light = ''light''"
| "template_name T_local_socks = ''local-socks''"
| "template_name T_local_http = ''local-http''"
| "template_name T_udp_fast = ''udp-fast''"
| "template_name T_low_latency = ''low-latency''"
| "template_name T_handshake_mask = ''handshake-mask''"

primrec credential_name :: "credential_type \<Rightarrow> string" where
  "credential_name C_none = ''none''"
| "credential_name C_uuid = ''uuid''"
| "credential_name C_password = ''password''"
| "credential_name C_credential_id_password = ''credential_id_password''"
| "credential_name C_username_password = ''username_password''"

definition inboundProtocols :: "protocol list" where
  "inboundProtocols = [P_vless, P_vmess, P_trojan, P_shadowsocks, P_socks, P_http, P_hysteria2, P_tuic, P_shadowtls]"

definition inboundSecurities :: "inbound_security list" where
  "inboundSecurities = [S_none, S_tls, S_reality]"

definition inboundTemplateIds :: "template_id list" where
  "inboundTemplateIds = [T_recommended, T_compatible, T_password, T_light, T_local_socks, T_local_http,
     T_udp_fast, T_low_latency, T_handshake_mask]"

definition credentialTypes :: "credential_type list" where
  "credentialTypes = [C_none, C_uuid, C_password, C_credential_id_password, C_username_password]"

lemma set_inboundProtocols [simp]: "set inboundProtocols = UNIV"
  unfolding inboundProtocols_def using protocol.exhaust by auto

lemma set_inboundSecurities [simp]: "set inboundSecurities = UNIV"
  unfolding inboundSecurities_def using inbound_security.exhaust by auto

datatype adv_field =
    F_ws_path | F_ws_host | F_grpc_service_name | F_reality_dest | F_reality_server_names
  | F_reality_short_id | F_reality_private_key | F_reality_public_key | F_ss_method | F_tls_cert_file
  | F_tls_key_file | F_tls_sni | F_tls_fingerprint | F_tls_alpn | F_xhttp_path
  | F_xhttp_mode | F_hy2_up_mbps | F_hy2_down_mbps | F_hy2_obfs | F_hy2_obfs_password
  | F_hy2_mport | F_tuic_congestion_control | F_tuic_zero_rtt | F_shadowtls_version | F_shadowtls_password

definition advancedFields :: "adv_field list" where
  "advancedFields = [F_ws_path, F_ws_host, F_grpc_service_name, F_reality_dest, F_reality_server_names,
     F_reality_short_id, F_reality_private_key, F_reality_public_key, F_ss_method, F_tls_cert_file,
     F_tls_key_file, F_tls_sni, F_tls_fingerprint, F_tls_alpn, F_xhttp_path,
     F_xhttp_mode, F_hy2_up_mbps, F_hy2_down_mbps, F_hy2_obfs, F_hy2_obfs_password,
     F_hy2_mport, F_tuic_congestion_control, F_tuic_zero_rtt, F_shadowtls_version, F_shadowtls_password]"

primrec field_name :: "adv_field \<Rightarrow> string" where
  "field_name F_ws_path = ''ws_path''"
| "field_name F_ws_host = ''ws_host''"
| "field_name F_grpc_service_name = ''grpc_service_name''"
| "field_name F_reality_dest = ''reality_dest''"
| "field_name F_reality_server_names = ''reality_server_names''"
| "field_name F_reality_short_id = ''reality_short_id''"
| "field_name F_reality_private_key = ''reality_private_key''"
| "field_name F_reality_public_key = ''reality_public_key''"
| "field_name F_ss_method = ''ss_method''"
| "field_name F_tls_cert_file = ''tls_cert_file''"
| "field_name F_tls_key_file = ''tls_key_file''"
| "field_name F_tls_sni = ''tls_sni''"
| "field_name F_tls_fingerprint = ''tls_fingerprint''"
| "field_name F_tls_alpn = ''tls_alpn''"
| "field_name F_xhttp_path = ''xhttp_path''"
| "field_name F_xhttp_mode = ''xhttp_mode''"
| "field_name F_hy2_up_mbps = ''hy2_up_mbps''"
| "field_name F_hy2_down_mbps = ''hy2_down_mbps''"
| "field_name F_hy2_obfs = ''hy2_obfs''"
| "field_name F_hy2_obfs_password = ''hy2_obfs_password''"
| "field_name F_hy2_mport = ''hy2_mport''"
| "field_name F_tuic_congestion_control = ''tuic_congestion_control''"
| "field_name F_tuic_zero_rtt = ''tuic_zero_rtt''"
| "field_name F_shadowtls_version = ''shadowtls_version''"
| "field_name F_shadowtls_password = ''shadowtls_password''"

lemma set_advancedFields [simp]: "set advancedFields = UNIV"
  unfolding advancedFields_def using adv_field.exhaust by auto

lemma protocol_name_inj [simp]: "protocol_name p = protocol_name q \<longleftrightarrow> p = q"
  by (cases p; cases q; simp)

lemma security_name_inj [simp]: "security_name s = security_name t \<longleftrightarrow> s = t"
  by (cases s; cases t; simp)

lemma lower_protocol_name [simp]: "toLowerCase (protocol_name p) = protocol_name p"
  by (cases p) (simp_all add: lower_char_def)

lemma protocol_name_nonempty [simp]: "protocol_name p \<noteq> []"
  by (cases p) simp_all

definition numericAdvancedFields :: "adv_field list" where
  "numericAdvancedFields = [F_hy2_up_mbps, F_hy2_down_mbps, F_shadowtls_version]"

section \<open>Capabilities\<close>

record capability =
  cp_core :: core_name
  cp_templateId :: template_id
  cp_templateLabel :: string
  cp_templateSummary :: string
  cp_networks :: "string list"
  cp_defaultNetwork :: string
  cp_defaultSecurity :: inbound_security
  cp_securityDefault :: "inbound_security list" \<comment> \<open>the entry \<^verbatim>\<open>default\<close> of \<^verbatim>\<open>securityByNetwork\<close>\<close>
  cp_securityByNetwork :: "(string \<times> inbound_security list) list" \<comment> \<open>its other entries\<close>
  cp_protocolAdvancedFields :: "adv_field list"
  cp_securityAdvancedFields :: "(inbound_security \<times> adv_field list) list"
  cp_visibleFields :: "string list"
  cp_autoGenerateFields :: "string list"
  cp_expertFields :: "string list"
  cp_credentialType :: credential_type
  cp_subscription :: bool \<comment> \<open>\<^verbatim>\<open>full\<close>\<close>
  cp_shareLink :: bool
  cp_localProxyInbound :: "bool option"

definition xrayNetworks :: "string list" where
  "xrayNetworks = [''tcp'', ''ws'', ''grpc'', ''h2'', ''xhttp'']"

definition realityFields :: "adv_field list" where
  "realityFields = [F_reality_dest, F_reality_server_names, F_reality_short_id, F_reality_private_key,
     F_reality_public_key, F_tls_fingerprint]"

definition xrayTlsFields :: "adv_field list" where
  "xrayTlsFields = [F_tls_cert_file, F_tls_key_file, F_tls_sni, F_tls_fingerprint, F_tls_alpn]"

definition singboxTlsFields :: "adv_field list" where
  "singboxTlsFields = [F_tls_cert_file, F_tls_key_file, F_tls_sni]"

definition cap_vless :: capability where
  "cap_vless = \<lparr>cp_core = Xray,
     cp_templateId = T_recommended,
     cp_templateLabel = zh_tpl_recommended,
     cp_templateSummary = ''VLESS + TCP + REALITY'',
     cp_networks = xrayNetworks,
     cp_defaultNetwork = ''tcp'',
     cp_defaultSecurity = S_reality,
     cp_securityDefault = [S_none, S_tls],
     cp_securityByNetwork = [(''tcp'', [S_none, S_tls, S_reality]), (''grpc'', [S_none, S_tls, S_reality]), (''xhttp'', [S_none, S_tls, S_reality])],
     cp_protocolAdvancedFields = [],
     cp_securityAdvancedFields = [(S_tls, xrayTlsFields), (S_reality, realityFields)],
     cp_visibleFields = [''remark'', ''port'', ''public_host'', ''reality_dest'', ''reality_server_names'', ''tls_certificate''],
     cp_autoGenerateFields = [''uuid'', ''client_uuid'', ''reality_private_key'', ''reality_public_key'', ''reality_short_id''],
     cp_expertFields = [''uuid'', ''ws_path'', ''ws_host'', ''grpc_service_name'', ''reality_short_id'', ''reality_private_key'', ''reality_public_key'', ''tls_fingerprint'', ''tls_alpn'', ''xhttp_path'', ''xhttp_mode''],
     cp_credentialType = C_uuid,
     cp_subscription = True,
     cp_shareLink = True,
     cp_localProxyInbound = None\<rparr>"

definition cap_vmess :: capability where
  "cap_vmess = \<lparr>cp_core = Xray,
     cp_templateId = T_compatible,
     cp_templateLabel = zh_tpl_compatible,
     cp_templateSummary = ''VMess + WS + TLS'',
     cp_networks = xrayNetworks,
     cp_defaultNetwork = ''ws'',
     cp_defaultSecurity = S_tls,
     cp_securityDefault = [S_none, S_tls],
     cp_securityByNetwork = [],
     cp_protocolAdvancedFields = [],
     cp_securityAdvancedFields = [(S_tls, xrayTlsFields)],
     cp_visibleFields = [''remark'', ''port'', ''public_host'', ''tls_sni'', ''tls_certificate''],
     cp_autoGenerateFields = [''uuid'', ''client_uuid''],
     cp_expertFields = [''uuid'', ''ws_path'', ''ws_host'', ''grpc_service_name'', ''tls_fingerprint'', ''tls_alpn'', ''xhttp_path'', ''xhttp_mode''],
     cp_credentialType = C_uuid,
     cp_subscription = True,
     cp_shareLink = True,
     cp_localProxyInbound = None\<rparr>"

definition cap_trojan :: capability where
  "cap_trojan = \<lparr>cp_core = Xray,
     cp_templateId = T_password,
     cp_templateLabel = zh_tpl_password,
     cp_templateSummary = ''Trojan + TLS'',
     cp_networks = xrayNetworks,
     cp_defaultNetwork = ''tcp'',
     cp_defaultSecurity = S_tls,
     cp_securityDefault = [S_none, S_tls],
     cp_securityByNetwork = [(''tcp'', [S_none, S_tls, S_reality]), (''grpc'', [S_none, S_tls, S_reality]), (''xhttp'', [S_none, S_tls, S_reality])],
     cp_protocolAdvancedFields = [],
     cp_securityAdvancedFields = [(S_tls, xrayTlsFields), (S_reality, realityFields)],
     cp_visibleFields = [''remark'', ''port'', ''public_host'', ''tls_sni'', ''tls_certificate''],
     cp_autoGenerateFields = [''uuid'', ''client_password'', ''reality_private_key'', ''reality_public_key'', ''reality_short_id''],
     cp_expertFields = [''uuid'', ''ws_path'', ''ws_host'', ''grpc_service_name'', ''reality_dest'', ''reality_server_names'', ''reality_short_id'', ''reality_private_key'', ''reality_public_key'', ''tls_fingerprint'', ''tls_alpn'', ''xhttp_path'', ''xhttp_mode''],
     cp_credentialType = C_password,
     cp_subscription = True,
     cp_shareLink = True,
     cp_localProxyInbound = None\<rparr>"

definition cap_shadowsocks :: capability where
  "cap_shadowsocks = \<lparr>cp_core = Xray,
     cp_templateId = T_light,
     cp_templateLabel = zh_tpl_light,
     cp_templateSummary = ''Shadowsocks 2022'',
     cp_networks = [''tcp''],
     cp_defaultNetwork = ''tcp'',
     cp_defaultSecurity = S_none,
     cp_securityDefault = [S_none],
     cp_securityByNetwork = [],
     cp_protocolAdvancedFields = [F_ss_method],
     cp_securityAdvancedFields = [],
     cp_visibleFields = [''remark'', ''port'', ''public_host''],
     cp_autoGenerateFields = [''uuid'', ''shadowsocks_password''],
     cp_expertFields = [''uuid'', ''ss_method''],
     cp_credentialType = C_none,
     cp_subscription = True,
     cp_shareLink = True,
     cp_localProxyInbound = None\<rparr>"

definition cap_socks :: capability where
  "cap_socks = \<lparr>cp_core = Xray,
     cp_templateId = T_local_socks,
     cp_templateLabel = zh_tpl_local,
     cp_templateSummary = ''SOCKS'',
     cp_networks = [''tcp''],
     cp_defaultNetwork = ''tcp'',
     cp_defaultSecurity = S_none,
     cp_securityDefault = [S_none],
     cp_securityByNetwork = [],
     cp_protocolAdvancedFields = [],
     cp_securityAdvancedFields = [],
     cp_visibleFields = [''remark'', ''port''],
     cp_autoGenerateFields = [''uuid'', ''username'', ''password''],
     cp_expertFields = [''uuid''],
     cp_credentialType = C_username_password,
     cp_subscription = True,
     cp_shareLink = True,
     cp_localProxyInbound = Some True\<rparr>"

definition cap_http :: capability where
  "cap_http = \<lparr>cp_core = Xray,
     cp_templateId = T_local_http,
     cp_templateLabel = zh_tpl_local,
     cp_templateSummary = ''HTTP'',
     cp_networks = [''tcp''],
     cp_defaultNetwork = ''tcp'',
     cp_defaultSecurity = S_none,
     cp_securityDefault = [S_none],
     cp_securityByNetwork = [],
     cp_protocolAdvancedFields = [],
     cp_securityAdvancedFields = [],
     cp_visibleFields = [''remark'', ''port''],
     cp_autoGenerateFields = [''uuid'', ''username'', ''password''],
     cp_expertFields = [''uuid''],
     cp_credentialType = C_username_password,
     cp_subscription = True,
     cp_shareLink = True,
     cp_localProxyInbound = Some True\<rparr>"

definition cap_hysteria2 :: capability where
  "cap_hysteria2 = \<lparr>cp_core = SingBox,
     cp_templateId = T_udp_fast,
     cp_templateLabel = zh_tpl_udp,
     cp_templateSummary = ''Hysteria2'',
     cp_networks = [''udp''],
     cp_defaultNetwork = ''udp'',
     cp_defaultSecurity = S_tls,
     cp_securityDefault = [S_tls],
     cp_securityByNetwork = [],
     cp_protocolAdvancedFields = [F_hy2_up_mbps, F_hy2_down_mbps, F_hy2_obfs, F_hy2_obfs_password],
     cp_securityAdvancedFields = [(S_tls, singboxTlsFields)],
     cp_visibleFields = [''remark'', ''port'', ''public_host'', ''tls_sni'', ''tls_certificate''],
     cp_autoGenerateFields = [''uuid'', ''client_password'', ''hy2_obfs_password''],
     cp_expertFields = [''uuid'', ''hy2_up_mbps'', ''hy2_down_mbps'', ''hy2_obfs'', ''hy2_obfs_password''],
     cp_credentialType = C_password,
     cp_subscription = True,
     cp_shareLink = True,
     cp_localProxyInbound = None\<rparr>"

definition cap_tuic :: capability where
  "cap_tuic = \<lparr>cp_core = SingBox,
     cp_templateId = T_low_latency,
     cp_templateLabel = zh_tpl_latency,
     cp_templateSummary = ''TUIC'',
     cp_networks = [''udp''],
     cp_defaultNetwork = ''udp'',
     cp_defaultSecurity = S_tls,
     cp_securityDefault = [S_tls],
     cp_securityByNetwork = [],
     cp_protocolAdvancedFields = [F_tuic_congestion_control, F_tuic_zero_rtt],
     cp_securityAdvancedFields = [(S_tls, singboxTlsFields)],
     cp_visibleFields = [''remark'', ''port'', ''public_host'', ''tls_sni'', ''tls_certificate''],
     cp_autoGenerateFields = [''uuid'', ''tuic_uuid'', ''tuic_password''],
     cp_expertFields = [''uuid'', ''tuic_congestion_control'', ''tuic_zero_rtt''],
     cp_credentialType = C_credential_id_password,
     cp_subscription = True,
     cp_shareLink = True,
     cp_localProxyInbound = None\<rparr>"

definition cap_shadowtls :: capability where
  "cap_shadowtls = \<lparr>cp_core = SingBox,
     cp_templateId = T_handshake_mask,
     cp_templateLabel = zh_tpl_mask,
     cp_templateSummary = ''ShadowTLS'',
     cp_networks = [''tcp''],
     cp_defaultNetwork = ''tcp'',
     cp_defaultSecurity = S_none,
     cp_securityDefault = [S_none],
     cp_securityByNetwork = [],
     cp_protocolAdvancedFields = [F_shadowtls_version, F_tls_sni],
     cp_securityAdvancedFields = [],
     cp_visibleFields = [''remark'', ''port'', ''tls_sni''],
     cp_autoGenerateFields = [''uuid'', ''client_password''],
     cp_expertFields = [''uuid'', ''shadowtls_version''],
     cp_credentialType = C_password,
     cp_subscription = False,
     cp_shareLink = False,
     cp_localProxyInbound = None\<rparr>"

primrec inboundCapabilities :: "protocol \<Rightarrow> capability" where
  "inboundCapabilities P_vless = cap_vless"
| "inboundCapabilities P_vmess = cap_vmess"
| "inboundCapabilities P_trojan = cap_trojan"
| "inboundCapabilities P_shadowsocks = cap_shadowsocks"
| "inboundCapabilities P_socks = cap_socks"
| "inboundCapabilities P_http = cap_http"
| "inboundCapabilities P_hysteria2 = cap_hysteria2"
| "inboundCapabilities P_tuic = cap_tuic"
| "inboundCapabilities P_shadowtls = cap_shadowtls"

lemmas builtin_caps = cap_vless_def cap_vmess_def cap_trojan_def cap_shadowsocks_def cap_socks_def cap_http_def
  cap_hysteria2_def cap_tuic_def cap_shadowtls_def

text \<open>The two module variables.\<close>

record cap_state =
  cs_caps :: "protocol \<Rightarrow> capability"
  cs_active :: "protocol list"

definition resetInboundCapabilitiesForTest :: cap_state where
  "resetInboundCapabilitiesForTest = \<lparr>cs_caps = inboundCapabilities, cs_active = inboundProtocols\<rparr>"

subsection \<open>Capabilities of the server\<close>

definition normalizeStringList :: "jsval \<Rightarrow> string list \<Rightarrow> string list" where
  "normalizeStringList value fallback =
     (case value of JArr xs \<Rightarrow> List.map_filter (\<lambda>v. case v of JStr s \<Rightarrow> Some s | _ \<Rightarrow> None) xs | _ \<Rightarrow> fallback)"

definition normalizeTemplateId :: "jsval \<Rightarrow> template_id \<Rightarrow> template_id" where
  "normalizeTemplateId value fallback =
     (case find (\<lambda>i. value = JStr (template_name i)) inboundTemplateIds of Some i \<Rightarrow> i | None \<Rightarrow> fallback)"

definition normalizeSecurity :: "jsval \<Rightarrow> inbound_security \<Rightarrow> inbound_security" where
  "normalizeSecurity value fallback =
     (case find (\<lambda>s. value = JStr (security_name s)) inboundSecurities of Some s \<Rightarrow> s | None \<Rightarrow> fallback)"

definition normalizeSecurities :: "jsval list \<Rightarrow> inbound_security list" where
  "normalizeSecurities values =
     (let securities = map (\<lambda>value. normalizeSecurity value S_none) values
      in if securities \<noteq> [] then securities else [S_none])"

definition normalizeCredentialType :: "jsval \<Rightarrow> credential_type \<Rightarrow> credential_type" where
  "normalizeCredentialType value fallback =
     (case find (\<lambda>c. value = JStr (credential_name c)) credentialTypes of Some c \<Rightarrow> c | None \<Rightarrow> fallback)"

definition isInboundAdvancedField :: "jsval \<Rightarrow> adv_field option" where
  "isInboundAdvancedField value = find (\<lambda>f. value = JStr (field_name f)) advancedFields"

definition js_elements :: "jsval \<Rightarrow> jsval list option" where \<comment> \<open>\<^verbatim>\<open>Array.isArray(v)\<close>\<close>
  "js_elements v = (case v of JArr xs \<Rightarrow> Some xs | _ \<Rightarrow> None)"

definition js_entries :: "jsval \<Rightarrow> (string \<times> jsval) list" where \<comment> \<open>\<^verbatim>\<open>Object.entries(v)\<close>\<close>
  "js_entries v = (case v of JObj kvs \<Rightarrow> kvs
     | JArr xs \<Rightarrow> map (\<lambda>(i, x). (nat_str i, x)) (enumerate 0 xs) | _ \<Rightarrow> [])"

definition js_text_or :: "jsval \<Rightarrow> string \<Rightarrow> string" where \<comment> \<open>\<^verbatim>\<open>v || fallback\<close> on a string field\<close>
  "js_text_or v fallback = (if truthy v then js_string v else fallback)"

definition security_entry ::
  "string \<times> jsval \<Rightarrow> inbound_security list \<times> (string \<times> inbound_security list) list
   \<Rightarrow> inbound_security list \<times> (string \<times> inbound_security list) list" where
  "security_entry e acc =
     (case (e, acc) of ((network, securities), (dflt, byNetwork)) \<Rightarrow>
        (case js_elements securities of
           None \<Rightarrow> acc
         | Some xs \<Rightarrow> if network = ''default'' then (normalizeSecurities xs, byNetwork)
                      else (dflt, AList.update network (normalizeSecurities xs) byNetwork)))"

definition normalizeCapabilityFromAPI :: "jsval \<Rightarrow> capability \<Rightarrow> capability" where
  "normalizeCapabilityFromAPI item fallback =
     (let raw = (if is_object (js_field item ''security_by_network'') then js_field item ''security_by_network'' else JObj []);
          dflt = (case js_elements (js_field raw ''default'') of
                    Some xs \<Rightarrow> normalizeSecurities xs
                  | None \<Rightarrow> normalizeSecurities (map (JStr \<circ> security_name) (cp_securityDefault fallback)));
          sbn = fold security_entry (js_entries raw) (dflt, cp_securityByNetwork fallback);
          advanced = uniq (List.map_filter isInboundAdvancedField (olist (js_elements (js_field item ''advanced_fields''))));
          tlsFields = (if F_tls_cert_file \<in> set advanced
             then [(S_tls, filter (\<lambda>f. f \<in> set advanced)
                     [F_tls_cert_file, F_tls_key_file, F_tls_sni, F_tls_fingerprint, F_tls_alpn])] else []);
          realFields = (if F_reality_dest \<in> set advanced
             then [(S_reality, filter (\<lambda>f. f \<in> set advanced)
                     [F_reality_dest, F_reality_server_names, F_reality_short_id, F_reality_private_key,
                      F_reality_public_key, F_tls_fingerprint])] else []);
          securityFields = concat (map snd (cp_securityAdvancedFields fallback));
          networks = olist (js_elements (js_field item ''networks''))
      in \<lparr>cp_core = (if js_field item ''core'' = JStr ''sing-box'' then SingBox else Xray),
          cp_templateId = normalizeTemplateId (js_field item ''template_id'') (cp_templateId fallback),
          cp_templateLabel = js_text_or (js_field item ''template_label'') (cp_templateLabel fallback),
          cp_templateSummary = js_text_or (js_field item ''template_summary'') (cp_templateSummary fallback),
          cp_networks = (if networks \<noteq> [] then map js_string networks else cp_networks fallback),
          cp_defaultNetwork = js_text_or (js_field item ''default_network'') (cp_defaultNetwork fallback),
          cp_defaultSecurity = normalizeSecurity (js_field item ''default_security'') (cp_defaultSecurity fallback),
          cp_securityDefault = fst sbn,
          cp_securityByNetwork = snd sbn,
          cp_protocolAdvancedFields = filter (\<lambda>f. f \<in> set (cp_protocolAdvancedFields fallback) \<or> f \<notin> set securityFields) advanced,
          cp_securityAdvancedFields = tlsFields @ realFields,
          cp_visibleFields = normalizeStringList (js_field item ''visible_fields'') (cp_visibleFields fallback),
          cp_autoGenerateFields = normalizeStringList (js_field item ''auto_generate_fields'') (cp_autoGenerateFields fallback),
          cp_expertFields = normalizeStringList (js_field item ''expert_fields'') (cp_expertFields fallback),
          cp_credentialType = normalizeCredentialType (js_field item ''credential_type'') (cp_credentialType fallback),
          cp_subscription = (js_field item ''subscription'' \<noteq> JStr ''none''),
          cp_shareLink = (case js_field item ''share_link'' of JBool b \<Rightarrow> b | _ \<Rightarrow> cp_shareLink fallback),
          cp_localProxyInbound = bool_field item ''local_proxy_inbound''\<rparr>)"

definition protocol_of_name :: "string \<Rightarrow> protocol option" where
  "protocol_of_name s = find (\<lambda>p. protocol_name p = s) inboundProtocols"

definition api_capability :: "jsval \<Rightarrow> (protocol \<times> capability) option" where
  "api_capability item =
     map_option (\<lambda>p. (p, normalizeCapabilityFromAPI item (inboundCapabilities p)))
       (protocol_of_name (toLowerCase (trim (js_text_or (js_field item ''protocol'') []))))"

definition applyInboundCapabilitiesFromAPI :: "jsval list option \<Rightarrow> cap_state" where
  "applyInboundCapabilitiesFromAPI capabilities =
     (let known = List.map_filter api_capability (olist capabilities);
          nextProtocols = map fst known
      in if nextProtocols \<noteq> []
         then \<lparr>cs_caps = fold (\<lambda>(p, c) m. m(p := c)) known inboundCapabilities, cs_active = nextProtocols\<rparr>
         else \<lparr>cs_caps = inboundCapabilities, cs_active = inboundProtocols\<rparr>)"

section \<open>Form values and combinations\<close>

record inbound_values =
  iv_remark :: string
  iv_protocol :: string
  iv_port :: int
  iv_network :: string
  iv_security :: string
  iv_uuid :: "string option"
  iv_enabled :: bool
  iv_adv :: "adv_field \<Rightarrow> jsval" \<comment> \<open>the advanced fields, \<^verbatim>\<open>undefined\<close> when absent\<close>

definition asInboundProtocol :: "cap_state \<Rightarrow> string \<Rightarrow> protocol" where
  "asInboundProtocol st name =
     (let normalized = toLowerCase name in
      case find (\<lambda>p. protocol_name p = normalized) (cs_active st) of
        Some p \<Rightarrow> p
      | None \<Rightarrow> (case protocol_of_name normalized of Some p \<Rightarrow> p | None \<Rightarrow> P_vless))"

abbreviation cap_for :: "cap_state \<Rightarrow> string \<Rightarrow> capability" where
  "cap_for st name \<equiv> cs_caps st (asInboundProtocol st name)"

definition inboundProtocolOptions :: "cap_state \<Rightarrow> string list" where
  "inboundProtocolOptions st = map protocol_name (cs_active st)"

definition allowedInboundNetworks :: "cap_state \<Rightarrow> string \<Rightarrow> string list" where
  "allowedInboundNetworks st name = cp_networks (cap_for st name)"

definition allowedInboundSecurities :: "cap_state \<Rightarrow> string \<Rightarrow> string \<Rightarrow> inbound_security list" where
  "allowedInboundSecurities st name network =
     (case map_of (cp_securityByNetwork (cap_for st name)) network of
        Some securities \<Rightarrow> securities | None \<Rightarrow> cp_securityDefault (cap_for st name))"

definition supportsInboundShareLink :: "cap_state \<Rightarrow> string \<Rightarrow> bool" where
  "supportsInboundShareLink st name = cp_shareLink (cap_for st name)"

definition inboundCredentialType :: "cap_state \<Rightarrow> string \<Rightarrow> credential_type" where
  "inboundCredentialType st name = cp_credentialType (cap_for st name)"

definition preferredInboundSecurity :: "capability \<Rightarrow> inbound_security list \<Rightarrow> string \<Rightarrow> inbound_security" where
  "preferredInboundSecurity cap securities current =
     (if cp_defaultSecurity cap \<in> set securities then cp_defaultSecurity cap
      else if current = ''reality'' \<and> S_tls \<in> set securities then S_tls
      else (case securities of [] \<Rightarrow> S_none | s # _ \<Rightarrow> s))"

definition normalizeInboundCombination :: "cap_state \<Rightarrow> inbound_values \<Rightarrow> inbound_values" where
  "normalizeInboundCombination st values =
     (let name = protocol_name (asInboundProtocol st (iv_protocol values));
          cap = cs_caps st (asInboundProtocol st (iv_protocol values));
          network = (if iv_network values \<in> set (cp_networks cap) then iv_network values else cp_defaultNetwork cap);
          securities = allowedInboundSecurities st name network;
          security = (if iv_security values \<in> security_name ` set securities then iv_security values
                      else security_name (preferredInboundSecurity cap securities (iv_security values)))
      in values\<lparr>iv_protocol := name, iv_network := network, iv_security := security\<rparr>)"

definition enabledInboundAdvancedFields :: "cap_state \<Rightarrow> inbound_values \<Rightarrow> adv_field list" where
  "enabledInboundAdvancedFields st values =
     (let cap = cap_for st (iv_protocol values);
          net = iv_network values
      in uniq (cp_protocolAdvancedFields cap
          @ (case find (\<lambda>(s, fs). security_name s = iv_security values) (cp_securityAdvancedFields cap) of
               Some (s, fs) \<Rightarrow> fs | None \<Rightarrow> [])
          @ (if net = ''ws'' \<or> net = ''h2'' then [F_ws_path, F_ws_host] else [])
          @ (if net = ''grpc'' then [F_grpc_service_name] else [])
          @ (if net = ''xhttp'' then [F_xhttp_path, F_xhttp_mode] else [])))"

definition isInboundAdvancedFieldEnabled :: "cap_state \<Rightarrow> inbound_values \<Rightarrow> adv_field \<Rightarrow> bool" where
  "isInboundAdvancedFieldEnabled st values key =
     (key \<in> set (enabledInboundAdvancedFields st (normalizeInboundCombination st values)))"

subsection \<open>Values of the advanced fields\<close>

definition defaultAdvancedValue :: "adv_field \<Rightarrow> jsval" where
  "defaultAdvancedValue key =
     (if key \<in> set numericAdvancedFields then JNum 0
      else if key = F_tuic_zero_rtt then JBool False else JStr [])"

definition normalizeAdvancedValue :: "adv_field \<Rightarrow> jsval \<Rightarrow> jsval" where
  "normalizeAdvancedValue key value =
     (if key \<in> set numericAdvancedFields then
        JNum (case js_number (if js_nullish value then JNum 0 else value) of Some n \<Rightarrow> n | None \<Rightarrow> 0)
      else if key = F_tuic_zero_rtt then JBool (truthy value)
      else if js_nullish value then JStr [] else JStr (js_string value))"

definition isBlankAdvancedValue :: "adv_field \<Rightarrow> jsval \<Rightarrow> bool" where
  "isBlankAdvancedValue key value = (normalizeAdvancedValue key value = defaultAdvancedValue key)"

definition seededAdvancedValue :: "adv_field \<Rightarrow> jsval" where
  "seededAdvancedValue key =
     (if key = F_reality_dest then JStr ''www.cloudflare.com:443''
      else if key = F_reality_server_names then JStr ''www.cloudflare.com''
      else if key = F_ss_method then JStr ''2022-blake3-aes-128-gcm''
      else if key = F_xhttp_mode then JStr ''stream-one''
      else if key = F_hy2_up_mbps \<or> key = F_hy2_down_mbps then JNum 100
      else if key = F_tuic_congestion_control then JStr ''bbr''
      else if key = F_shadowtls_version then JNum 3
      else defaultAdvancedValue key)"

section \<open>Facts about the vocabulary\<close>

lemma protocol_of_protocol_name [simp]: "protocol_of_name (protocol_name p) = Some p"
  by (cases p) (simp_all add: protocol_of_name_def inboundProtocols_def)

lemma asInboundProtocol_protocol_name [simp]: "asInboundProtocol st (protocol_name p) = p"
  by (auto simp: asInboundProtocol_def Let_def dest: find_Some_set split: option.splits)

lemma normalizeAdvancedValue_idem [simp]:
  "normalizeAdvancedValue key (normalizeAdvancedValue key v) = normalizeAdvancedValue key v"
  by (simp add: normalizeAdvancedValue_def js_nullish_def js_number_def)

interpretation adv_nf: normaliser "normalizeAdvancedValue key" "\<lambda>v. normalizeAdvancedValue key v = v" for key
  by unfold_locales simp_all

lemma normalize_default [simp]: "normalizeAdvancedValue key (defaultAdvancedValue key) = defaultAdvancedValue key"
  by (simp add: normalizeAdvancedValue_def defaultAdvancedValue_def js_nullish_def js_number_def)

lemma normalize_seeded [simp]: "normalizeAdvancedValue key (seededAdvancedValue key) = seededAdvancedValue key"
  by (cases key) (simp_all add: normalizeAdvancedValue_def seededAdvancedValue_def defaultAdvancedValue_def
      numericAdvancedFields_def js_nullish_def js_number_def)

section \<open>Combinations\<close>

lemma normalizeInboundCombination_more [simp]:
  "iv_remark (normalizeInboundCombination st v) = iv_remark v"
  "iv_port (normalizeInboundCombination st v) = iv_port v"
  "iv_uuid (normalizeInboundCombination st v) = iv_uuid v"
  "iv_enabled (normalizeInboundCombination st v) = iv_enabled v"
  "iv_adv (normalizeInboundCombination st v) = iv_adv v"
  "iv_protocol (normalizeInboundCombination st v) = protocol_name (asInboundProtocol st (iv_protocol v))"
  by (simp_all add: normalizeInboundCombination_def Let_def)

definition combination_ok :: "cap_state \<Rightarrow> inbound_values \<Rightarrow> bool" where
  "combination_ok st v =
     (let p = asInboundProtocol st (iv_protocol v); secs = allowedInboundSecurities st (iv_protocol v) (iv_network v) in
      iv_protocol v = protocol_name p
      \<and> iv_network v \<in> insert (cp_defaultNetwork (cs_caps st p)) (set (cp_networks (cs_caps st p)))
      \<and> iv_security v \<in> security_name ` (if secs = [] then {S_none} else set secs))"

lemma preferred_in: "preferredInboundSecurity cap secs cur \<in> (if secs = [] then {S_none} else set secs)"
  by (cases secs) (auto simp: preferredInboundSecurity_def)

lemma combination_ok_normalize: "combination_ok st (normalizeInboundCombination st v)"
  using preferred_in [of "cap_for st (iv_protocol v)"]
  by (auto simp: combination_ok_def normalizeInboundCombination_def Let_def)

lemma preferred_Nil [simp]: "preferredInboundSecurity cap [] cur = S_none"
  by (simp add: preferredInboundSecurity_def)

lemma combination_ok_fixed: "combination_ok st v \<Longrightarrow> normalizeInboundCombination st v = v"
  by (cases v) (auto simp: combination_ok_def normalizeInboundCombination_def Let_def split: if_splits)

interpretation combination_nf: normaliser "normalizeInboundCombination st" "combination_ok st" for st
  by unfold_locales (simp_all add: combination_ok_normalize combination_ok_fixed)

text \<open>The invariant of the capability tables: no protocol and network is left without a security.\<close>

definition caps_ok :: "cap_state \<Rightarrow> bool" where
  "caps_ok st = (\<forall>p. cp_networks (cs_caps st p) \<noteq> [] \<and> cp_securityDefault (cs_caps st p) \<noteq> []
      \<and> (\<forall>e \<in> set (cp_securityByNetwork (cs_caps st p)). snd e \<noteq> []))"

definition cap_ok :: "capability \<Rightarrow> bool" where
  "cap_ok c = (cp_networks c \<noteq> [] \<and> cp_securityDefault c \<noteq> [] \<and> (\<forall>e \<in> set (cp_securityByNetwork c). snd e \<noteq> []))"

lemma caps_ok_alt: "caps_ok st = (\<forall>p. cap_ok (cs_caps st p))"
  by (simp add: caps_ok_def cap_ok_def)

lemma cap_ok_builtin: "cap_ok (inboundCapabilities p)"
  by (cases p) (simp_all add: cap_ok_def builtin_caps xrayNetworks_def)

lemma normalizeSecurities_nonempty [simp]: "normalizeSecurities xs \<noteq> []"
  by (simp add: normalizeSecurities_def Let_def)

lemma update_values: "(k, v) \<in> set (AList.update key val al) \<Longrightarrow> v = val \<or> (k, v) \<in> set al"
  by (induction al) (auto split: if_splits)

lemma security_entries_ok:
  "fst acc \<noteq> [] \<Longrightarrow> \<forall>e \<in> set (snd acc). snd e \<noteq> [] \<Longrightarrow>
   fst (fold security_entry es acc) \<noteq> [] \<and> (\<forall>e \<in> set (snd (fold security_entry es acc)). snd e \<noteq> [])"
proof (induction es arbitrary: acc)
  case Nil
  then show ?case by simp
next
  case (Cons e es)
  have "fst (security_entry e acc) \<noteq> []" "\<forall>e' \<in> set (snd (security_entry e acc)). snd e' \<noteq> []"
    using Cons.prems
    by (auto simp: security_entry_def split: prod.splits option.splits dest!: update_values)
  from Cons.IH [OF this] show ?case by simp
qed

lemma cap_ok_from_api:
  assumes "cap_ok fallback"
  shows "cap_ok (normalizeCapabilityFromAPI item fallback)"
  unfolding normalizeCapabilityFromAPI_def Let_def cap_ok_def capability.simps
  using assms
  by (intro conjI security_entries_ok [THEN conjunct1] security_entries_ok [THEN conjunct2])
    (auto simp: cap_ok_def split: option.splits)

lemma api_capability_ok: "api_capability item = Some (p, c) \<Longrightarrow> cap_ok c"
  by (auto simp: api_capability_def cap_ok_from_api cap_ok_builtin)

lemma fold_caps_ok:
  "\<forall>p. cap_ok (m p) \<Longrightarrow> \<forall>e \<in> set known. cap_ok (snd e) \<Longrightarrow> cap_ok (fold (\<lambda>(p, c) m. m(p := c)) known m q)"
  by (induction known arbitrary: m) (auto split: prod.splits)

lemma map_filter_set: "x \<in> set (List.map_filter f xs) \<longleftrightarrow> (\<exists>y \<in> set xs. f y = Some x)"
  by (force simp: List.map_filter_def)

lemma caps_ok_api: "caps_ok (applyInboundCapabilitiesFromAPI items)"
proof -
  have "\<forall>e \<in> set (List.map_filter api_capability (olist items)). cap_ok (snd e)"
    by (auto simp: map_filter_set dest: api_capability_ok)
  from fold_caps_ok [OF _ this, of inboundCapabilities] show ?thesis
    by (auto simp: caps_ok_alt applyInboundCapabilitiesFromAPI_def Let_def cap_ok_builtin)
qed

lemma allowed_nonempty: "caps_ok st \<Longrightarrow> allowedInboundSecurities st p n \<noteq> []"
  by (fastforce simp: caps_ok_def allowedInboundSecurities_def split: option.splits dest!: map_of_SomeD)

text \<open>
  C22.
  Whatever the server answers about the capabilities, the combination the panel normalises a form to is one
  the tables allow: its protocol is a known one, its security is among the securities of that protocol and
  network, its network is among the networks of the protocol (or is the default network the server named).
  Normalising again changes nothing, and a combination that is allowed is left as the user chose it.
\<close>

theorem combinations_are_allowed:
  "let st = applyInboundCapabilitiesFromAPI items; w = normalizeInboundCombination st v;
       p = asInboundProtocol st (iv_protocol v) in
   iv_protocol w = protocol_name p
   \<and> iv_network w \<in> insert (cp_defaultNetwork (cs_caps st p)) (set (allowedInboundNetworks st (iv_protocol w)))
   \<and> iv_security w \<in> security_name ` set (allowedInboundSecurities st (iv_protocol w) (iv_network w))
   \<and> normalizeInboundCombination st w = w
   \<and> (normalizeInboundCombination st v = v \<longleftrightarrow> combination_ok st v)"
proof -
  let ?st = "applyInboundCapabilitiesFromAPI items"
  let ?w = "normalizeInboundCombination ?st v"
  have ok: "combination_ok ?st ?w" by (rule combination_nf.normal_nf)
  have secs: "iv_security ?w \<in> security_name ` set (allowedInboundSecurities ?st (iv_protocol ?w) (iv_network ?w))"
    using ok allowed_nonempty [OF caps_ok_api] by (simp add: combination_ok_def Let_def)
  have nets: "iv_network ?w \<in> insert (cp_defaultNetwork (cs_caps ?st (asInboundProtocol ?st (iv_protocol v))))
      (set (allowedInboundNetworks ?st (iv_protocol ?w)))"
    using ok by (simp add: combination_ok_def Let_def allowedInboundNetworks_def)
  show ?thesis
    unfolding Let_def using secs nets by (simp add: combination_nf.nf_idem combination_nf.nf_fixpoint)
qed

lemma builtin_default_network: "cp_defaultNetwork (inboundCapabilities p) \<in> set (cp_networks (inboundCapabilities p))"
  by (cases p) (simp_all add: builtin_caps xrayNetworks_def)

lemma builtin_security_keys:
  "fst ` set (cp_securityByNetwork (inboundCapabilities p)) \<subseteq> set (cp_networks (inboundCapabilities p))"
  by (cases p) (simp_all add: builtin_caps xrayNetworks_def)

lemma cs_caps_reset [simp]: "cs_caps resetInboundCapabilitiesForTest = inboundCapabilities"
  by (simp add: resetInboundCapabilitiesForTest_def)

lemma allowed_reset:
  "allowedInboundSecurities resetInboundCapabilitiesForTest (protocol_name p) net =
     (case map_of (cp_securityByNetwork (inboundCapabilities p)) net of
        Some securities \<Rightarrow> securities | None \<Rightarrow> cp_securityDefault (inboundCapabilities p))"
  by (simp add: allowedInboundSecurities_def split: option.split)

text \<open>The default security of every built-in protocol is allowed on its default network, so choosing a protocol
  by itself leads to a valid combination.\<close>

lemma builtin_default_security:
  "cp_defaultSecurity (inboundCapabilities p)
     \<in> set (allowedInboundSecurities resetInboundCapabilitiesForTest (protocol_name p) (cp_defaultNetwork (inboundCapabilities p)))"
  unfolding allowed_reset by (cases p) (simp_all add: builtin_caps)

lemma reset_is_empty_response: "applyInboundCapabilitiesFromAPI None = resetInboundCapabilitiesForTest"
  by (simp add: applyInboundCapabilitiesFromAPI_def resetInboundCapabilitiesForTest_def map_filter_def)

text \<open>
  
  With the built-in tables, the combination shown is consistent with the core: REALITY is left selected only
  for VLESS and Trojan and only on the networks tcp, grpc and xhttp, TLS never on the local proxies, and the
  three sing-box protocols keep the one network they have.
\<close>

theorem builtin_reality_combinations:
  "let w = normalizeInboundCombination resetInboundCapabilitiesForTest v in
   iv_network w \<in> set (allowedInboundNetworks resetInboundCapabilitiesForTest (iv_protocol w))
   \<and> (iv_security w = ''reality'' \<longrightarrow> iv_protocol w \<in> {''vless'', ''trojan''} \<and> iv_network w \<in> {''tcp'', ''grpc'', ''xhttp''})
   \<and> (iv_protocol w \<in> {''socks'', ''http'', ''shadowsocks'', ''shadowtls''} \<longrightarrow> iv_security w = ''none'' \<and> iv_network w = ''tcp'')
   \<and> (iv_protocol w \<in> {''hysteria2'', ''tuic''} \<longrightarrow> iv_security w = ''tls'' \<and> iv_network w = ''udp'')"
proof -
  let ?st = "resetInboundCapabilitiesForTest"
  let ?w = "normalizeInboundCombination ?st v"
  obtain p where p: "asInboundProtocol ?st (iv_protocol v) = p" by simp
  have ok: "combination_ok ?st ?w" by (rule combination_nf.normal_nf)
  then have net: "iv_network ?w \<in> set (cp_networks (inboundCapabilities p))"
    using builtin_default_network [of p] by (auto simp: combination_ok_def Let_def p)
  have ne: "allowedInboundSecurities ?st (protocol_name p) n \<noteq> []" for n
    using allowed_nonempty [OF caps_ok_api [of None]] by (simp add: reset_is_empty_response)
  have sec: "iv_security ?w \<in> security_name ` set (case map_of (cp_securityByNetwork (inboundCapabilities p)) (iv_network ?w) of
        Some securities \<Rightarrow> securities | None \<Rightarrow> cp_securityDefault (inboundCapabilities p))"
    using ok ne by (simp add: combination_ok_def Let_def p allowed_reset del: normalizeInboundCombination_more(6))
      (simp add: p allowed_reset)
  have pr: "iv_protocol ?w = protocol_name p" by (simp add: p)
  have al: "allowedInboundNetworks ?st (protocol_name p) = cp_networks (inboundCapabilities p)"
    by (simp add: allowedInboundNetworks_def)
  show ?thesis
    unfolding Let_def pr al
    using net sec
    by (cases p) (auto simp: builtin_caps xrayNetworks_def split: if_splits)
qed

definition sample_values :: inbound_values where
  "sample_values = \<lparr>iv_remark = ''n1'', iv_protocol = ''tuic'', iv_port = 443, iv_network = ''ws'', iv_security = ''reality'',
     iv_uuid = None, iv_enabled = True, iv_adv = defaultAdvancedValue\<rparr>"

theorem builtin_reality_combinations_witness:
  "iv_security (normalizeInboundCombination resetInboundCapabilitiesForTest sample_values) = ''tls''
   \<and> iv_network (normalizeInboundCombination resetInboundCapabilitiesForTest sample_values) = ''udp''"
proof -
  have "asInboundProtocol resetInboundCapabilitiesForTest ''tuic'' = P_tuic"
    using asInboundProtocol_protocol_name [of _ P_tuic] by simp
  then have "iv_protocol (normalizeInboundCombination resetInboundCapabilitiesForTest sample_values) = ''tuic''"
    by (simp add: sample_values_def)
  then show ?thesis
    using builtin_reality_combinations [of sample_values] by (simp add: Let_def)
qed

end
