(* ===== verification/Credentials.thy ===== *)
theory Credentials
  imports InboundCaps Format
begin

text \<open>
  The credentials of inbounds and clients (\<^verbatim>\<open>src/web/src/routes/InboundsPage.tsx\<close>): which style
  a protocol expects, whether a string has it, and the generated values. A function that calls
  \<^verbatim>\<open>randomUUID()\<close> takes the drawn value as its last argument; where the source draws twice, two
  arguments. \<open>is_uuid\<close> is what \<^verbatim>\<open>crypto.randomUUID\<close> documents, and
  \<open>fallback_is_uuid\<close> shows it for the generator the panel falls back to.
\<close>

section \<open>Hexadecimal patterns\<close>

definition is_hex :: "char \<Rightarrow> bool" where \<comment> \<open>\<^verbatim>\<open>[0-9a-f]\<close> under the flag \<^verbatim>\<open>i\<close>\<close>
  "is_hex c = (lower_char c \<in> set ''0123456789abcdef'')"

definition hex_string :: "nat \<Rightarrow> string \<Rightarrow> bool" where
  "hex_string n s = (length s = n \<and> list_all is_hex s)"

fun matches :: "string \<Rightarrow> string \<Rightarrow> bool" where \<comment> \<open>\<open>x\<close> a hex digit, \<open>v\<close> one of 1 to 5, \<open>y\<close> one of 8, 9, a, b\<close>
  "matches [] [] = True"
| "matches (p # ps) (c # s) =
     ((if p = CHR ''x'' then is_hex c
       else if p = CHR ''v'' then c \<in> set ''12345''
       else if p = CHR ''y'' then lower_char c \<in> set ''89ab''
       else c = p) \<and> matches ps s)"
| "matches _ _ = False"

definition uuid_regex :: string where
  "uuid_regex = ''xxxxxxxx-xxxx-vxxx-yxxx-xxxxxxxxxxxx''"

definition is_uuid :: "string \<Rightarrow> bool" where
  "is_uuid s = matches uuid_regex s"

lemma matches_length: "matches ps s \<Longrightarrow> length s = length ps"
  by (induction ps s rule: matches.induct) auto

lemma hex_char_is_hex: "r < 16 \<Longrightarrow> is_hex (hex_char r)"
proof -
  assume r: "r < 16"
  have "\<forall>r \<in> set [0..<16]. is_hex (hex_char r)"
    by (simp add: hex_char_def is_hex_def lower_char_def upt_conv_Cons)
  then show ?thesis using r by simp
qed

lemma variant_char: "lower_char (hex_char (r mod 4 + 8)) \<in> set ''89ab''"
proof -
  have "r mod 4 \<in> set [0..<4]" by simp
  then show ?thesis by (auto simp: hex_char_def lower_char_def upt_conv_Cons)
qed

definition pattern_rel :: "char \<Rightarrow> char \<Rightarrow> bool" where
  "pattern_rel p q = (if p = CHR ''x'' then q = CHR ''x'' else if p = CHR ''y'' then q = CHR ''y''
     else q = p \<and> q \<noteq> CHR ''v'' \<or> q = CHR ''v'' \<and> p \<in> set ''12345'')"

lemma fill_pattern_matches: "list_all2 pattern_rel ps qs \<Longrightarrow> matches qs (fill_pattern ps rs)"
proof (induction ps qs arbitrary: rs rule: list_all2_induct)
  case Nil
  then show ?case by simp
next
  case (Cons p ps q qs)
  have h: "is_hex (hex_char (case rs of [] \<Rightarrow> 0 | r # _ \<Rightarrow> r mod 16))"
    by (rule hex_char_is_hex) (simp split: list.split)
  show ?case
    using Cons h variant_char
    by (auto simp: pattern_rel_def Let_def split: if_splits)
qed

lemma fallback_is_uuid: "is_uuid (randomUUID None rs)"
  unfolding is_uuid_def randomUUID_def option.case
  by (rule fill_pattern_matches) (simp add: uuid_pattern_def uuid_regex_def pattern_rel_def)

text \<open>Without its dashes a UUID is 32 hexadecimal digits.\<close>

lemma hex_not_dash: "is_hex c \<Longrightarrow> c \<noteq> CHR ''-''"
  by (auto simp: is_hex_def lower_char_def)

lemma matches_undash:
  "matches ps s \<Longrightarrow> list_all is_hex (filter (\<lambda>c. c \<noteq> CHR ''-'') s) \<and>
     length (filter (\<lambda>c. c \<noteq> CHR ''-'') s) = length (filter (\<lambda>p. p \<noteq> CHR ''-'') ps)"
  if "set ps \<subseteq> set ''xvy-''"
  using that
proof (induction ps s rule: matches.induct)
  case (2 p ps c s)
  have y: "lower_char c \<in> set ''89ab'' \<Longrightarrow> is_hex c" by (auto simp: is_hex_def)
  have v: "c \<in> set ''12345'' \<Longrightarrow> is_hex c" by (auto simp: is_hex_def lower_char_def)
  show ?case using 2 y v hex_not_dash by (auto split: if_splits)
qed auto

lemma uuid_undash: "is_uuid u \<Longrightarrow> hex_string 32 (filter (\<lambda>c. c \<noteq> CHR ''-'') u)"
  using matches_undash [of uuid_regex u] by (simp add: is_uuid_def hex_string_def uuid_regex_def)

lemma hex_string_take: "hex_string n s \<Longrightarrow> m \<le> n \<Longrightarrow> hex_string m (take m s)"
  by (auto simp: hex_string_def list_all_iff dest: in_set_takeD)

section \<open>Credentials of an inbound\<close>

datatype cred_style = StyleUuid | StyleHex32 | StyleSecret

definition protocolCredentialStyle :: "string \<Rightarrow> cred_style" where
  "protocolCredentialStyle name =
     (let normalized = toLowerCase name in
      if normalized = ''hysteria2'' \<or> normalized = ''tuic'' \<or> normalized = ''shadowtls'' then StyleHex32
      else if normalized = ''shadowsocks'' \<or> normalized = ''socks'' \<or> normalized = ''http'' then StyleSecret
      else StyleUuid)"

definition protocolCredentialMatches :: "string \<Rightarrow> string \<Rightarrow> bool" where
  "protocolCredentialMatches value name =
     (if value = [] then False
      else case protocolCredentialStyle name of
        StyleUuid \<Rightarrow> matches uuid_regex value
      | StyleHex32 \<Rightarrow> hex_string 32 value
      | StyleSecret \<Rightarrow> hex_string 24 value)"

definition randomSecret :: "nat \<Rightarrow> string \<Rightarrow> string" where
  "randomSecret n fresh = take n (filter (\<lambda>c. c \<noteq> CHR ''-'') fresh)"

definition randomHex :: "nat list \<Rightarrow> string" where \<comment> \<open>of the bytes drawn by \<^verbatim>\<open>crypto.getRandomValues\<close>\<close>
  "randomHex bytes = concat (map (\<lambda>b. [hex_char (b div 16), hex_char (b mod 16)]) bytes)"

definition generatedProtocolCredential :: "string \<Rightarrow> string \<Rightarrow> string" where
  "generatedProtocolCredential name fresh =
     (case protocolCredentialStyle name of
        StyleSecret \<Rightarrow> randomSecret 24 fresh
      | StyleHex32 \<Rightarrow> filter (\<lambda>c. c \<noteq> CHR ''-'') fresh
      | StyleUuid \<Rightarrow> fresh)"

definition normalizedProtocolCredential :: "string option \<Rightarrow> string \<Rightarrow> string \<Rightarrow> string" where
  "normalizedProtocolCredential value name fresh =
     (let current = trim (ostr value)
      in if protocolCredentialMatches current name then current else generatedProtocolCredential name fresh)"

lemma randomSecret_hex: "is_uuid u \<Longrightarrow> n \<le> 32 \<Longrightarrow> hex_string n (randomSecret n u)"
  unfolding randomSecret_def by (rule hex_string_take [OF uuid_undash])

lemma hex_string_nonempty: "hex_string n s \<Longrightarrow> 0 < n \<Longrightarrow> s \<noteq> []"
  by (auto simp: hex_string_def)

lemma generated_matches: "is_uuid u \<Longrightarrow> protocolCredentialMatches (generatedProtocolCredential name u) name"
  using uuid_undash [of u] randomSecret_hex [of u 24] matches_length [of uuid_regex u]
  by (auto simp: protocolCredentialMatches_def generatedProtocolCredential_def is_uuid_def
      dest: hex_string_nonempty simp: uuid_regex_def split: cred_style.split)

text \<open>A credential has no white space in it, so trimming leaves it alone.\<close>

definition non_hex_head :: "string \<Rightarrow> bool" where
  "non_hex_head w = (case w of [] \<Rightarrow> False | c # _ \<Rightarrow> \<not> is_hex c)"

lemma ws_heads: "list_all non_hex_head js_ws" "list_all non_hex_head (map rev js_ws)"
  by (simp_all add: js_ws_def non_hex_head_def is_hex_def lower_char_def)

lemma head_ws_hex_gen: "list_all non_hex_head ws \<Longrightarrow> is_hex c \<Longrightarrow> head_ws ws (c # s) = None"
  by (induction ws) (auto simp: head_ws_def non_hex_head_def split: list.splits)

lemmas head_ws_hex = head_ws_hex_gen [OF ws_heads(1)] head_ws_hex_gen [OF ws_heads(2)]

lemma trim_hex_ends:
  assumes "s \<noteq> []" and "is_hex (hd s)" and "is_hex (last s)"
  shows "trim s = s"
proof (rule trim_fix)
  show "head_ws js_ws s = None" using assms head_ws_hex(1) by (cases s) auto
  have "rev s = last s # rev (butlast s)" using assms(1) by (cases s rule: rev_cases) auto
  then show "head_ws (map rev js_ws) (rev s) = None" using assms(3) head_ws_hex(2) by metis
qed

lemma matches_ends:
  assumes "is_uuid s"
  shows "s \<noteq> []" and "is_hex (hd s)" and "is_hex (last s)"
proof -
  have l: "length s = 36" using matches_length assms by (fastforce simp: is_uuid_def uuid_regex_def)
  then show "s \<noteq> []" by auto
  then show "is_hex (hd s)" using assms by (cases s) (auto simp: is_uuid_def uuid_regex_def)
  have nth: "matches ps s \<Longrightarrow> i < length ps \<Longrightarrow> ps ! i = CHR ''x'' \<Longrightarrow> is_hex (s ! i)" for ps s i
    by (induction ps s arbitrary: i rule: matches.induct) (auto simp: nth_Cons split: nat.splits)
  have "is_hex (s ! 35)" by (rule nth [of uuid_regex]) (use assms in \<open>simp_all add: is_uuid_def uuid_regex_def\<close>)
  then show "is_hex (last s)" using l \<open>s \<noteq> []\<close> by (simp add: last_conv_nth)
qed

lemma hex_string_ends: "hex_string n s \<Longrightarrow> 0 < n \<Longrightarrow> s \<noteq> [] \<and> is_hex (hd s) \<and> is_hex (last s)"
  by (cases s) (auto simp: hex_string_def list_all_iff)

lemma trim_credential: "protocolCredentialMatches s name \<Longrightarrow> trim s = s"
  using matches_ends [of s] hex_string_ends [of 32 s] hex_string_ends [of 24 s]
  by (auto simp: protocolCredentialMatches_def is_uuid_def intro!: trim_hex_ends split: if_splits cred_style.splits)

text \<open>
  
  The credential a form ends up with always has the style its protocol expects (UUID, 32 hexadecimal digits,
  or a 24-digit secret): one that already has it is kept, up to surrounding white space, any other is replaced
  by a fresh one; doing it again keeps it whatever is drawn then.
\<close>

theorem credential_has_style:
  assumes "is_uuid fresh"
  shows "let c = normalizedProtocolCredential value name fresh in
    protocolCredentialMatches c name
    \<and> (protocolCredentialMatches (trim (ostr value)) name \<longrightarrow> c = trim (ostr value))
    \<and> normalizedProtocolCredential (Some c) name fresh' = c"
proof -
  let ?c = "normalizedProtocolCredential value name fresh"
  have m: "protocolCredentialMatches ?c name"
    using generated_matches [OF assms, of name] by (simp add: normalizedProtocolCredential_def Let_def)
  then have "normalizedProtocolCredential (Some ?c) name fresh' = ?c"
    by (simp add: normalizedProtocolCredential_def [of "Some ?c"] Let_def trim_credential)
  with m show ?thesis by (simp add: Let_def normalizedProtocolCredential_def)
qed

theorem credential_has_style_witness:
  "protocolCredentialMatches (normalizedProtocolCredential (Some ''old'') ''tuic'' (randomUUID None [3, 1, 4])) ''tuic''"
  using credential_has_style [OF fallback_is_uuid [of "[3, 1, 4]"], of "Some ''old''" "''tuic''"]
  by (simp add: Let_def)

section \<open>Credentials of a client\<close>

record client_credential =
  cc_uuid :: string
  cc_credential_id :: string
  cc_password :: string

definition emptyClientCredentialValues :: client_credential where
  "emptyClientCredentialValues = \<lparr>cc_uuid = [], cc_credential_id = [], cc_password = []\<rparr>"

definition generatedClientCredentialValues :: "cap_state \<Rightarrow> string \<Rightarrow> string \<Rightarrow> string \<Rightarrow> string \<Rightarrow> client_credential" where
  "generatedClientCredentialValues st name u1 u2 u3 =
     (case inboundCredentialType st (str_or name ''vless'') of
        C_credential_id_password \<Rightarrow> \<lparr>cc_uuid = u1, cc_credential_id = u2, cc_password = randomSecret 24 u3\<rparr>
      | C_username_password \<Rightarrow>
          (let username = ''user-'' @ randomSecret 8 u1
           in \<lparr>cc_uuid = username, cc_credential_id = username, cc_password = randomSecret 24 u2\<rparr>)
      | C_password \<Rightarrow>
          (let password = randomSecret 24 u1 in \<lparr>cc_uuid = password, cc_credential_id = [], cc_password = password\<rparr>)
      | C_none \<Rightarrow> \<lparr>cc_uuid = randomSecret 24 u1, cc_credential_id = [], cc_password = []\<rparr>
      | C_uuid \<Rightarrow> \<lparr>cc_uuid = u1, cc_credential_id = u1, cc_password = []\<rparr>)"

end
