(* ===== verification/Clients.thy ===== *)
theory Clients
  imports Credentials
begin

text \<open>
  The client form of \<^verbatim>\<open>src/web/src/routes/InboundsPage.tsx\<close>: the name proposed for a new
  client, the conversion of traffic limits between gigabytes and bytes, the expiry date, the values a form
  opens with and the payload it is saved as. The local calendar is a parameter: \<open>cal_day\<close> gives year,
  month and day of an instant in milliseconds (\<^verbatim>\<open>getFullYear\<close> and its siblings),
  \<open>cal_parse\<close> is \<^verbatim>\<open>Date.parse\<close> on a local date-time string, and \<open>now\<close> is
  \<^verbatim>\<open>Date.now()\<close>. A string field of the form that is \<^verbatim>\<open>undefined\<close> is read by
  every use as the empty string, and is one here.
\<close>

section \<open>Texts\<close>

text \<open>The non-ASCII texts of this part of the user interface, as UTF-8 bytes.\<close>

definition zh_first_client :: string where
  "zh_first_client = [CHR 0xE9, CHR 0xA6, CHR 0x96, CHR 0xE4, CHR 0xB8, CHR 0xAA, CHR 0xE5, CHR 0xAE, CHR 0xA2, CHR 0xE6,
    CHR 0x88, CHR 0xB7, CHR 0xE7, CHR 0xAB, CHR 0xAF]"

definition zh_client_word :: string where
  "zh_client_word = [CHR 0xE5, CHR 0xAE, CHR 0xA2, CHR 0xE6, CHR 0x88, CHR 0xB7, CHR 0xE7, CHR 0xAB, CHR 0xAF]"

lemmas texts_Clients =
  zh_first_client_def zh_client_word_def

lemma texts_nonempty_Clients [simp]:
  "zh_first_client \<noteq> []" "zh_client_word \<noteq> []"
  by (simp_all add: texts_Clients)

section \<open>The name of the next client\<close>

definition defaultClientName :: "string option \<Rightarrow> string" where
  "defaultClientName inboundRemark =
     (let remark = trim (ostr inboundRemark)
      in if remark \<noteq> [] then remark @ '' '' @ zh_first_client else zh_first_client)"

definition client_number :: "string \<Rightarrow> int option" where
  "client_number name =
     (if startsWith name zh_client_word then
        (let rest = drop (length zh_client_word) name; ds = strip_ws js_ws rest in
         if head_ws js_ws rest \<noteq> None \<and> ds \<noteq> [] \<and> list_all is_digit ds then Some (dec_val ds) else None)
      else None)"

definition usedIndexes :: "inbound \<Rightarrow> int list" where
  "usedIndexes inb =
     (let remark = trim (ib_remark inb);
          firstClientNames = zh_first_client # (if remark \<noteq> [] then [remark @ '' '' @ zh_first_client] else [])
      in concat (map (\<lambda>cl. let name = trim (cl_email cl) in
            (if name \<in> set firstClientNames then [1] else [])
            @ (case client_number name of Some n \<Rightarrow> [n] | None \<Rightarrow> []))
          (olist (ib_clients inb))))"

lemma next_index_measure:
  assumes "index \<in> set used"
  shows "length (filter (\<lambda>i. index + 1 \<le> i) used) < length (filter (\<lambda>i. (index :: int) \<le> i) used)"
  using assms
proof (induction used)
  case Nil
  then show ?case by simp
next
  case (Cons i used)
  have le: "length (filter (\<lambda>i. index + 1 \<le> i) xs) \<le> length (filter (\<lambda>i. index \<le> i) xs)" for xs
    by (induction xs) auto
  show ?case using Cons le [of used] by (cases "i = index") auto
qed

function next_index :: "int list \<Rightarrow> int \<Rightarrow> int" where
  "next_index used index = (if index \<in> set used then next_index used (index + 1) else index)"
  by pat_completeness auto
termination
  by (relation "measure (\<lambda>(used, index). length (filter (\<lambda>i. index \<le> i) used))") (auto intro: next_index_measure)

declare next_index.simps [simp del]

lemma next_index_spec:
  "next_index used index \<notin> set used \<and> index \<le> next_index used index
   \<and> (\<forall>k. index \<le> k \<and> k < next_index used index \<longrightarrow> k \<in> set used)"
proof (induction used index rule: next_index.induct)
  case (1 used index)
  show ?case
  proof (cases "index \<in> set used")
    case True
    have e: "next_index used index = next_index used (index + 1)" using True by (subst next_index.simps) simp
    show ?thesis using 1 [OF True] True unfolding e by (metis add.commute linorder_not_le nle_le zle_add1_eq_le
          order_le_less add1_zle_eq)
  next
    case False
    then have "next_index used index = index" by (subst next_index.simps) simp
    with False show ?thesis by auto
  qed
qed

definition nextClientName :: "inbound \<Rightarrow> string" where
  "nextClientName inb =
     (if olist (ib_clients inb) = [] then defaultClientName (Some (ib_remark inb))
      else zh_client_word @ '' '' @ int_str (next_index (usedIndexes inb) 2))"

text \<open>The proposed name parses back to its number, so no existing client can have it.\<close>

lemma digit_not_ws: "list_all (\<lambda>w. w \<noteq> [] \<and> \<not> is_digit (hd w)) js_ws"
  by (simp add: js_ws_def is_digit_def)

lemma head_ws_digit: "is_digit c \<Longrightarrow> head_ws js_ws (c # s) = None"
  using digit_not_ws by (auto simp: head_ws_def find_None_iff list_all_iff neq_Nil_conv)

lemma head_ws_space: "head_ws js_ws ('' '' @ s) = Some '' ''"
  by (simp add: head_ws_def js_ws_def)

lemma strip_ws_digits: "ds \<noteq> [] \<Longrightarrow> list_all is_digit ds \<Longrightarrow> strip_ws js_ws ('' '' @ ds) = ds"
  using head_ws_space [of ds] by (subst strip_ws.simps) (auto simp: neq_Nil_conv head_ws_digit strip_ws_fix)

lemma int_str_digits: "0 \<le> i \<Longrightarrow> list_all is_digit (int_str i) \<and> dec_val (int_str i) = i"
  by (simp add: int_str_def list_all_iff nat_str_digits)

lemma client_number_roundtrip: "0 \<le> i \<Longrightarrow> client_number (zh_client_word @ '' '' @ int_str i) = Some i"
  using strip_ws_digits [of "int_str i"] int_str_digits [of i] head_ws_space [of "int_str i"]
  by (simp add: client_number_def Let_def startsWith_def)

lemma usedIndexes_number:
  "cl \<in> set (olist (ib_clients inb)) \<Longrightarrow> client_number (trim (cl_email cl)) = Some n \<Longrightarrow> n \<in> set (usedIndexes inb)"
  by (force simp: usedIndexes_def Let_def)

text \<open>
  C37.
  The name proposed for a further client of an inbound is new: no client of the inbound has it, whatever white
  space surrounds the stored names; it carries the smallest number from 2 on that no client name uses, and the
  search for it ends.
\<close>

theorem next_client_name_fresh:
  assumes "olist (ib_clients inb) \<noteq> []"
  shows "nextClientName inb \<notin> (\<lambda>cl. trim (cl_email cl)) ` set (olist (ib_clients inb))
    \<and> (\<exists>k \<ge> 2. nextClientName inb = zh_client_word @ '' '' @ int_str k \<and> k \<notin> set (usedIndexes inb)
          \<and> (\<forall>j. 2 \<le> j \<and> j < k \<longrightarrow> j \<in> set (usedIndexes inb)))"
proof (intro conjI notI)
  let ?k = "next_index (usedIndexes inb) 2"
  have name: "nextClientName inb = zh_client_word @ '' '' @ int_str ?k"
    using assms by (simp add: nextClientName_def)
  note spec = next_index_spec [of "usedIndexes inb" 2]
  then show "\<exists>k \<ge> 2. nextClientName inb = zh_client_word @ '' '' @ int_str k \<and> k \<notin> set (usedIndexes inb)
          \<and> (\<forall>j. 2 \<le> j \<and> j < k \<longrightarrow> j \<in> set (usedIndexes inb))"
    using name by blast
  assume "nextClientName inb \<in> (\<lambda>cl. trim (cl_email cl)) ` set (olist (ib_clients inb))"
  then obtain cl where cl: "cl \<in> set (olist (ib_clients inb))" "trim (cl_email cl) = nextClientName inb" by auto
  then have "client_number (trim (cl_email cl)) = Some ?k"
    using client_number_roundtrip [of ?k] spec by (simp add: name)
  then have "?k \<in> set (usedIndexes inb)" using cl(1) by (rule usedIndexes_number [rotated])
  with spec show False by blast
qed

definition sample_client :: "string \<Rightarrow> client" where
  "sample_client name = \<lparr>cl_id = 1, cl_inbound_id = 1, cl_email = name, cl_uuid = [], cl_credential_id = None,
     cl_stats_key = None, cl_password = None, cl_subscription_token = None, cl_enabled = Some True,
     cl_traffic_limit = Some 1000000, cl_expiry_at = None\<rparr>"

definition sample_inbound :: inbound where
  "sample_inbound = \<lparr>ib_id = 1, ib_remark = ''n1'', ib_protocol = ''vless'', ib_core = None, ib_port = 443,
     ib_network = ''tcp'', ib_security = ''reality'', ib_enabled = Some True, ib_uuid = None,
     ib_clients = Some [sample_client (zh_client_word @ '' 2''), sample_client ''bob''], ib_extra = []\<rparr>"

theorem next_client_name_fresh_witness:
  "nextClientName sample_inbound \<notin> (\<lambda>cl. trim (cl_email cl)) ` {sample_client (zh_client_word @ '' 2''), sample_client ''bob''}"
  using next_client_name_fresh [of sample_inbound] by (simp add: sample_inbound_def)

section \<open>Traffic limits\<close>

definition gbToBytes :: "rat \<Rightarrow> int" where
  "gbToBytes gb = (if gb \<le> 0 then 0 else \<lfloor>gb * 1024 ^ 3 + 1 / 2\<rfloor>)"

definition bytesToGB :: "int \<Rightarrow> rat" where
  "bytesToGB bytes = (if bytes \<le> 0 then 0 else of_int (round_div (bytes * 100) (1024 ^ 3)) / 100)"

lemma div_100: "100 * (x div 100) \<le> (x :: int)" "(x :: int) < 100 * (x div 100) + 100"
  by presburger+

definition gb_cents :: "int \<Rightarrow> int" where \<comment> \<open>the hundredths of a gigabyte a limit is shown as\<close>
  "gb_cents b = round_div (b * 100) (1024 ^ 3)"

lemma gb_cents_bounds:
  "2 * 1073741824 * gb_cents b \<le> 200 * b + 1073741824" "200 * b + 1073741824 < 2 * 1073741824 * gb_cents b + 2 * 1073741824"
  using round_div_bounds [of "1024 ^ 3" "b * 100"] by (simp_all add: gb_cents_def)

lemma gbToBytes_cents: "0 < k \<Longrightarrow> gbToBytes (of_int k / 100) = (k * 1073741824 + 50) div 100"
proof -
  assume k: "0 < k"
  have "of_int k / 100 * 1024 ^ 3 + 1 / 2 = (of_int (k * 1073741824 + 50) / of_int 100 :: rat)"
    by (simp add: field_simps)
  then have "\<lfloor>of_int k / 100 * 1024 ^ 3 + 1 / 2 :: rat\<rfloor> = (k * 1073741824 + 50) div 100"
    by (simp only: floor_divide_of_int_eq)
  then show ?thesis using k unfolding gbToBytes_def by (simp del: power_numeral)
qed

lemma bytesToGB_cents: "0 < b \<Longrightarrow> bytesToGB b = of_int (gb_cents b) / 100"
  by (simp add: bytesToGB_def gb_cents_def)

lemma saved_limit: "0 < b \<Longrightarrow> gbToBytes (bytesToGB b) = (gb_cents b * 1073741824 + 50) div 100"
proof -
  assume b: "0 < b"
  have "0 \<le> gb_cents b" using gb_cents_bounds(2) [of b] b by linarith
  then show ?thesis
    using gbToBytes_cents [of "gb_cents b"] by (cases "gb_cents b = 0") (simp_all add: bytesToGB_cents [OF b] gbToBytes_def)
qed

text \<open>
  
  Saving the client form without touching the traffic limit changes the limit by at most half a hundredth of a
  gigabyte (5368710 bytes), but a limit smaller than that is shown as 0 and saved as 0, which means
  no limit at all; every limit from there on stays a limit.
\<close>

theorem small_limit_is_removed:
  "\<bar>gbToBytes (bytesToGB b) - max 0 b\<bar> \<le> 5368710
   \<and> (gbToBytes (bytesToGB b) = 0 \<longleftrightarrow> b < 5368710)"
proof (cases "0 < b")
  case False
  then show ?thesis by (simp add: gbToBytes_def bytesToGB_def)
next
  case True
  let ?g = "gb_cents b"
  note g = gb_cents_bounds [of b]
  have s: "gbToBytes (bytesToGB b) = (?g * 1073741824 + 50) div 100" by (rule saved_limit [OF True])
  define r where "r = (?g * 1073741824 + 50) div 100"
  have r: "100 * r \<le> ?g * 1073741824 + 50" "?g * 1073741824 + 50 < 100 * r + 100"
    unfolding r_def by (rule div_100)+
  have "\<bar>r - b\<bar> \<le> 5368710" using g r by arith
  moreover have "r = 0 \<longleftrightarrow> ?g = 0" using r g True by arith
  moreover have "?g = 0 \<longleftrightarrow> b < 5368710" using g True by arith
  ultimately show ?thesis using True by (simp add: s r_def [symmetric])
qed

text \<open>A limit that was entered in the form, in hundredths of a gigabyte, is shown and saved unchanged.\<close>

lemma round_div_unique:
  assumes "0 < q" and "2 * q * m \<le> 2 * p + q" and "2 * p + q < 2 * q * m + 2 * q"
  shows "round_div p q = m"
proof -
  have "2 * q * m \<le> 2 * p + q" "2 * p + q < 2 * q * (m + 1)" using assms by (simp_all add: algebra_simps)
  then show ?thesis unfolding round_div_def using assms(1)
    by (intro int_div_pos_eq [where r = "2 * p + q - 2 * q * m"]) (auto simp: algebra_simps)
qed

lemma entered_limit_stable: "0 \<le> k \<Longrightarrow> bytesToGB (gbToBytes (of_int k / 100)) = of_int k / 100"
proof -
  assume k: "0 \<le> k"
  show ?thesis
  proof (cases "k = 0")
    case True
    then show ?thesis by (simp add: gbToBytes_def bytesToGB_def)
  next
    case False
    with k have k0: "0 < k" by simp
    define b where "b = (k * 1073741824 + 50) div 100"
    have gb: "gbToBytes (of_int k / 100) = b" by (simp add: gbToBytes_cents [OF k0] b_def)
    have r: "100 * b \<le> k * 1073741824 + 50" "k * 1073741824 + 50 < 100 * b + 100"
      unfolding b_def by (rule div_100)+
    have "gb_cents b = k"
      unfolding gb_cents_def by (rule round_div_unique) (use r in \<open>simp_all\<close>)
    moreover have "0 < b" using r k0 by arith
    ultimately show ?thesis by (simp add: gb bytesToGB_cents)
  qed
qed

section \<open>Expiry dates\<close>

datatype expiry_mode = E_unlimited | E_30d | E_90d | E_custom

type_synonym cal_day = "int \<Rightarrow> int \<times> int \<times> int" \<comment> \<open>instant to year, month from 0, day of the month\<close>
type_synonym cal_parse = "string \<Rightarrow> int option"

definition formatLocalDate :: "int \<times> int \<times> int \<Rightarrow> string" where
  "formatLocalDate date =
     (case date of (y, m, d) \<Rightarrow>
        int_str y @ ''-'' @ pad_zeros 2 (int_str (m + 1)) @ ''-'' @ pad_zeros 2 (int_str d))"

definition expiryToForm :: "cal_day \<Rightarrow> int \<Rightarrow> expiry_mode \<times> string" where
  "expiryToForm cal expiryAt =
     (if expiryAt = 0 then (E_unlimited, []) else (E_custom, formatLocalDate (cal (expiryAt * 1000))))"

definition relativeExpiryUnix :: "int \<Rightarrow> int \<Rightarrow> int" where
  "relativeExpiryUnix now days = now div 1000 + days * 86400"

definition formExpiryToUnix :: "int \<Rightarrow> cal_parse \<Rightarrow> expiry_mode \<Rightarrow> string \<Rightarrow> int" where
  "formExpiryToUnix now parse mode date =
     (case mode of
        E_unlimited \<Rightarrow> 0
      | E_30d \<Rightarrow> relativeExpiryUnix now 30
      | E_90d \<Rightarrow> relativeExpiryUnix now 90
      | E_custom \<Rightarrow>
          if date = [] then 0
          else (case parse (date @ ''T23:59:59'') of Some timestamp \<Rightarrow> timestamp div 1000 | None \<Rightarrow> 0))"

section \<open>Form values and payload\<close>

record client_values =
  cv_email :: string
  cv_uuid :: string
  cv_credential_id :: string
  cv_password :: string
  cv_enabled :: bool
  cv_traffic_limit_gb :: rat
  cv_expiry_mode :: expiry_mode
  cv_expiry_date :: string

record client_payload =
  py_email :: string
  py_uuid :: string
  py_credential_id :: string
  py_password :: string
  py_enabled :: bool
  py_traffic_limit :: int
  py_expiry_at :: int

definition client_text :: "(client \<Rightarrow> string) \<Rightarrow> client option \<Rightarrow> string" where \<comment> \<open>\<^verbatim>\<open>client?.field\<close> under \<^verbatim>\<open>||\<close>\<close>
  "client_text f c = (case c of None \<Rightarrow> [] | Some cl \<Rightarrow> f cl)"

lemma client_text_simps [simp]: "client_text f None = []" "client_text f (Some cl) = f cl"
  by (simp_all add: client_text_def)

definition form_credential ::
  "credential_type \<Rightarrow> client option \<Rightarrow> client_credential \<Rightarrow> client_credential" where
  "form_credential credentialType cl generated =
     (let uuid0 = client_text cl_uuid cl; cid0 = client_text (ostr \<circ> cl_credential_id) cl;
          pw0 = client_text (ostr \<circ> cl_password) cl
      in case credentialType of
           C_uuid \<Rightarrow> (let cid = str_or cid0 (str_or uuid0 (cc_credential_id generated))
             in \<lparr>cc_uuid = cid, cc_credential_id = cid, cc_password = str_or pw0 (cc_password generated)\<rparr>)
         | C_password \<Rightarrow> (let pw = str_or pw0 (str_or uuid0 (cc_password generated))
             in \<lparr>cc_uuid = pw, cc_credential_id = cid0, cc_password = pw\<rparr>)
         | C_none \<Rightarrow> \<lparr>cc_uuid = str_or uuid0 (cc_uuid generated), cc_credential_id = [], cc_password = []\<rparr>
         | _ \<Rightarrow> (let cid = str_or cid0 (str_or uuid0 (cc_credential_id generated))
             in \<lparr>cc_uuid = cid, cc_credential_id = cid, cc_password = str_or pw0 (cc_password generated)\<rparr>))"

definition clientFormValues ::
  "cap_state \<Rightarrow> cal_day \<Rightarrow> string \<Rightarrow> string \<Rightarrow> string \<Rightarrow> inbound \<Rightarrow> client option \<Rightarrow> client_values" where
  "clientFormValues st cal u1 u2 u3 inb cl =
     (let generated = (if cl \<noteq> None then emptyClientCredentialValues
                       else generatedClientCredentialValues st (ib_protocol inb) u1 u2 u3);
          cred = form_credential (inboundCredentialType st (ib_protocol inb)) cl generated;
          expiry = expiryToForm cal (case cl of None \<Rightarrow> 0 | Some c \<Rightarrow> oint (cl_expiry_at c))
      in \<lparr>cv_email = str_or (client_text cl_email cl) (nextClientName inb),
          cv_uuid = cc_uuid cred, cv_credential_id = cc_credential_id cred, cv_password = cc_password cred,
          cv_enabled = (case cl of None \<Rightarrow> True | Some c \<Rightarrow> (case cl_enabled c of None \<Rightarrow> True | Some b \<Rightarrow> b)),
          cv_traffic_limit_gb = bytesToGB (case cl of None \<Rightarrow> 0 | Some c \<Rightarrow> oint (cl_traffic_limit c)),
          cv_expiry_mode = fst expiry, cv_expiry_date = snd expiry\<rparr>)"

definition payload_credential :: "credential_type \<Rightarrow> client_values \<Rightarrow> client_credential" where
  "payload_credential type values =
     (let password = cv_password values;
          credentialID = str_or (cv_credential_id values) (cv_uuid values)
      in case type of
           C_password \<Rightarrow> \<lparr>cc_uuid = str_or password (cv_uuid values), cc_credential_id = cv_credential_id values, cc_password = password\<rparr>
         | C_none \<Rightarrow> \<lparr>cc_uuid = cv_uuid values, cc_credential_id = [], cc_password = password\<rparr>
         | C_uuid \<Rightarrow> \<lparr>cc_uuid = str_or credentialID password, cc_credential_id = credentialID, cc_password = password\<rparr>
         | _ \<Rightarrow> \<lparr>cc_uuid = credentialID, cc_credential_id = credentialID, cc_password = password\<rparr>)"

definition buildClientPayload :: "cap_state \<Rightarrow> int \<Rightarrow> cal_parse \<Rightarrow> client_values \<Rightarrow> string \<Rightarrow> client_payload" where
  "buildClientPayload st now parse values name =
     (let cred = payload_credential (inboundCredentialType st name) values
      in \<lparr>py_email = cv_email values, py_uuid = cc_uuid cred, py_credential_id = cc_credential_id cred,
          py_password = cc_password cred, py_enabled = cv_enabled values,
          py_traffic_limit = gbToBytes (cv_traffic_limit_gb values),
          py_expiry_at = formExpiryToUnix now parse (cv_expiry_mode values) (cv_expiry_date values)\<rparr>)"

definition shareToken :: "client \<Rightarrow> string" where
  "shareToken cl = str_or (ostr (cl_subscription_token cl)) (cl_uuid cl)"

subsection \<open>Saving an unchanged client\<close>

definition saved_client :: "client \<Rightarrow> client_payload \<Rightarrow> client" where \<comment> \<open>the client after the server stored the payload\<close>
  "saved_client cl p = cl\<lparr>cl_email := py_email p, cl_uuid := py_uuid p, cl_credential_id := Some (py_credential_id p),
     cl_password := Some (py_password p), cl_enabled := Some (py_enabled p),
     cl_traffic_limit := Some (py_traffic_limit p), cl_expiry_at := Some (py_expiry_at p)\<rparr>"

definition stored_credential :: "credential_type \<Rightarrow> client \<Rightarrow> client_credential" where
  "stored_credential type cl =
     payload_credential type (let c = form_credential type (Some cl) emptyClientCredentialValues in
       \<lparr>cv_email = [], cv_uuid = cc_uuid c, cv_credential_id = cc_credential_id c, cv_password = cc_password c,
        cv_enabled = True, cv_traffic_limit_gb = 0, cv_expiry_mode = E_unlimited, cv_expiry_date = []\<rparr>)"

definition set_credential :: "client \<Rightarrow> client_credential \<Rightarrow> client" where
  "set_credential cl c = cl\<lparr>cl_uuid := cc_uuid c, cl_credential_id := Some (cc_credential_id c), cl_password := Some (cc_password c)\<rparr>"

lemma stored_credential_idem:
  "cl_uuid cl \<noteq> [] \<Longrightarrow>
   stored_credential type (set_credential cl (stored_credential type cl)) = stored_credential type cl"
  by (cases type)
    (simp_all add: stored_credential_def set_credential_def payload_credential_def form_credential_def
      emptyClientCredentialValues_def Let_def)

lemma stored_uuid: "cl_uuid cl \<noteq> [] \<Longrightarrow> cc_uuid (stored_credential type cl) \<noteq> []"
  by (cases type)
    (simp_all add: stored_credential_def payload_credential_def form_credential_def
      emptyClientCredentialValues_def Let_def)

lemma payload_credential_cong:
  "cv_uuid v = cv_uuid w \<Longrightarrow> cv_credential_id v = cv_credential_id w \<Longrightarrow> cv_password v = cv_password w \<Longrightarrow>
   payload_credential type v = payload_credential type w"
  by (cases type) (simp_all add: payload_credential_def Let_def)

lemma stored_credential_form:
  "payload_credential (inboundCredentialType st (ib_protocol inb)) (clientFormValues st cal u1 u2 u3 inb (Some cl)) =
     stored_credential (inboundCredentialType st (ib_protocol inb)) cl"
  unfolding stored_credential_def by (rule payload_credential_cong) (simp_all add: clientFormValues_def Let_def)

lemma form_payload:
  "buildClientPayload st now parse (clientFormValues st cal u1 u2 u3 inb (Some cl)) (ib_protocol inb) =
     (let c = stored_credential (inboundCredentialType st (ib_protocol inb)) cl;
          e = expiryToForm cal (oint (cl_expiry_at cl))
      in \<lparr>py_email = str_or (cl_email cl) (nextClientName inb), py_uuid = cc_uuid c, py_credential_id = cc_credential_id c,
          py_password = cc_password c, py_enabled = not_false (cl_enabled cl),
          py_traffic_limit = gbToBytes (bytesToGB (oint (cl_traffic_limit cl))),
          py_expiry_at = formExpiryToUnix now parse (fst e) (snd e)\<rparr>)"
  unfolding buildClientPayload_def stored_credential_form Let_def
  by (simp add: clientFormValues_def Let_def split: option.split)

lemma saved_limit_stable: "gbToBytes (bytesToGB (gbToBytes (bytesToGB b))) = gbToBytes (bytesToGB b)"
proof (cases "0 < b")
  case True
  then have nn: "0 \<le> gb_cents b" using gb_cents_bounds(2) [of b] by linarith
  show ?thesis
    unfolding bytesToGB_cents [OF True] entered_limit_stable [OF nn] by (rule refl)
qed (simp add: gbToBytes_def bytesToGB_def)

lemma set_credential_saved:
  "stored_credential type (saved_client cl p) =
     stored_credential type (set_credential cl \<lparr>cc_uuid = py_uuid p, cc_credential_id = py_credential_id p, cc_password = py_password p\<rparr>)"
  by (simp add: stored_credential_def set_credential_def saved_client_def form_credential_def split: credential_type.split)

text \<open>
  C30.
  Opening the form of a client and saving it unchanged is stable: name and state are those of the client, and
  doing it a second time sends the very payload of the first time, for every credential type. Of the local
  calendar this uses that the end of the day shown parses, is not the epoch and lies on the same day.
\<close>

theorem client_edit_is_stable:
  assumes "cl_uuid cl \<noteq> []" and "cl_email cl \<noteq> []"
    and "oint (cl_expiry_at cl) = 0 \<or>
      (\<exists>ms. parse (formatLocalDate (cal (oint (cl_expiry_at cl) * 1000)) @ ''T23:59:59'') = Some ms
         \<and> ms div 1000 \<noteq> 0 \<and> cal (ms div 1000 * 1000) = cal (oint (cl_expiry_at cl) * 1000))"
  shows "let save = (\<lambda>now c. buildClientPayload st now parse (clientFormValues st cal u1 u2 u3 inb (Some c)) (ib_protocol inb));
             p = save now cl
         in save now' (saved_client cl p) = p \<and> py_email p = cl_email cl \<and> py_enabled p = not_false (cl_enabled cl)
            \<and> py_uuid p \<noteq> []"
proof -
  let ?t = "inboundCredentialType st (ib_protocol inb)"
  let ?p = "buildClientPayload st now parse (clientFormValues st cal u1 u2 u3 inb (Some cl)) (ib_protocol inb)"
  let ?e = "expiryToForm cal (oint (cl_expiry_at cl))"
  let ?x = "formExpiryToUnix now parse (fst ?e) (snd ?e)"
  have fields: "py_email ?p = cl_email cl" "py_enabled ?p = not_false (cl_enabled cl)"
    "py_uuid ?p = cc_uuid (stored_credential ?t cl)" "py_credential_id ?p = cc_credential_id (stored_credential ?t cl)"
    "py_password ?p = cc_password (stored_credential ?t cl)"
    "py_traffic_limit ?p = gbToBytes (bytesToGB (oint (cl_traffic_limit cl)))" "py_expiry_at ?p = ?x"
    unfolding form_payload Let_def using assms(2) by simp_all
  have cred: "stored_credential ?t (saved_client cl ?p) = stored_credential ?t cl"
    unfolding set_credential_saved fields using stored_credential_idem [OF assms(1)] by (simp add: set_credential_def)
  have "formExpiryToUnix now' parse (fst (expiryToForm cal ?x)) (snd (expiryToForm cal ?x)) = ?x"
    using assms(3) by (auto simp: expiryToForm_def formExpiryToUnix_def split: prod.split)
  then have "buildClientPayload st now' parse (clientFormValues st cal u1 u2 u3 inb (Some (saved_client cl ?p))) (ib_protocol inb) = ?p"
    unfolding form_payload [where cl = "saved_client cl ?p"] Let_def cred
    using assms(2) fields saved_limit_stable
    by (cases ?p) (simp add: saved_client_def)
  then show ?thesis unfolding Let_def using fields stored_uuid [OF assms(1)] by simp
qed

definition expiring_client :: client where
  "expiring_client = (sample_client ''alice'')\<lparr>cl_uuid := ''u-1'', cl_expiry_at := Some 1735800000\<rparr>"

theorem client_edit_is_stable_witness:
  "py_email (buildClientPayload resetInboundCapabilitiesForTest 0 (\<lambda>s. Some 1735862399000)
     (clientFormValues resetInboundCapabilitiesForTest (\<lambda>t. (2025, 0, 2)) [] [] [] sample_inbound (Some expiring_client))
     ''vless'') = ''alice''"
  using client_edit_is_stable [of expiring_client "\<lambda>s. Some 1735862399000" "\<lambda>t. (2025, 0, 2)"
      resetInboundCapabilitiesForTest "[]" "[]" "[]" sample_inbound 0 0]
  by (simp add: expiring_client_def sample_client_def sample_inbound_def Let_def)

text \<open>
  
  For a protocol whose clients are identified by a UUID, the form offers the field \<^verbatim>\<open>uuid\<close> for
  manual change, but the payload prefers the hidden \<^verbatim>\<open>credential_id\<close>, which the form fills
  with the old UUID: whatever is typed into the field, the same payload is sent.
\<close>

theorem edited_uuid_is_ignored:
  assumes "inboundCredentialType st (ib_protocol inb) = C_uuid" and "cl_uuid cl \<noteq> []"
  shows "buildClientPayload st now parse ((clientFormValues st cal u1 u2 u3 inb (Some cl))\<lparr>cv_uuid := typed\<rparr>) (ib_protocol inb)
    = buildClientPayload st now parse (clientFormValues st cal u1 u2 u3 inb (Some cl)) (ib_protocol inb)"
proof -
  have "cv_credential_id (clientFormValues st cal u1 u2 u3 inb (Some cl)) \<noteq> []"
    using assms by (simp add: clientFormValues_def form_credential_def Let_def)
  then have "payload_credential C_uuid ((clientFormValues st cal u1 u2 u3 inb (Some cl))\<lparr>cv_uuid := typed\<rparr>)
    = payload_credential C_uuid (clientFormValues st cal u1 u2 u3 inb (Some cl))"
    by (simp add: payload_credential_def Let_def)
  then show ?thesis unfolding buildClientPayload_def assms(1) by simp
qed

lemma asInboundProtocol_vless [simp]: "asInboundProtocol resetInboundCapabilitiesForTest ''vless'' = P_vless"
  using asInboundProtocol_protocol_name [of _ P_vless] by simp

theorem edited_uuid_is_ignored_witness:
  "py_uuid (buildClientPayload resetInboundCapabilitiesForTest 0 (\<lambda>s. None)
     ((clientFormValues resetInboundCapabilitiesForTest (\<lambda>t. (2025, 0, 2)) [] [] [] sample_inbound (Some expiring_client))
        \<lparr>cv_uuid := ''new-uuid''\<rparr>) ''vless'') = ''u-1''"
proof -
  have t: "inboundCredentialType resetInboundCapabilitiesForTest (ib_protocol sample_inbound) = C_uuid"
    by (simp add: inboundCredentialType_def sample_inbound_def cap_vless_def)
  have c: "cl_uuid expiring_client = ''u-1''" "cl_credential_id expiring_client = None"
    by (simp_all add: expiring_client_def sample_client_def)
  have "py_uuid (buildClientPayload resetInboundCapabilitiesForTest 0 (\<lambda>s. None)
     (clientFormValues resetInboundCapabilitiesForTest (\<lambda>t. (2025, 0, 2)) [] [] [] sample_inbound (Some expiring_client))
     (ib_protocol sample_inbound)) = ''u-1''"
    unfolding form_payload t Let_def
    by (simp add: stored_credential_def form_credential_def payload_credential_def c Let_def)
  then show ?thesis
    using edited_uuid_is_ignored [OF t, of expiring_client 0 "\<lambda>s. None" "''new-uuid''" "\<lambda>t. (2025, 0, 2)" "[]" "[]" "[]"] c
    by (simp add: sample_inbound_def)
qed

end
