(* ===== verification/InboundForms.thy ===== *)
theory InboundForms
  imports Clients
begin

text \<open>
  The inbound form of \<^verbatim>\<open>src/web/src/routes/InboundsPage.tsx\<close> and its dialog in
  \<^verbatim>\<open>InboundsPageForms.tsx\<close>: the values a form opens with, the templates, the clean-up after a
  change of protocol, network or security, and the payload a form is saved as. A form value handed to a
  function that takes an inbound (the casts \<^verbatim>\<open>as Inbound\<close>) goes through \<open>as_inbound\<close>.
  A payload is the object sent, an association list from keys to values in insertion order.
\<close>

section \<open>Texts\<close>

text \<open>The non-ASCII texts of this part of the user interface, as UTF-8 bytes.\<close>

definition zh_tl_recommended :: string where
  "zh_tl_recommended = [CHR 0xE6, CHR 0x8E, CHR 0xA8, CHR 0xE8, CHR 0x8D, CHR 0x90, CHR 0xE8, CHR 0x8A, CHR 0x82, CHR 0xE7,
    CHR 0x82, CHR 0xB9, CHR 0xEF, CHR 0xBC, CHR 0x9A, CHR 0x56, CHR 0x4C, CHR 0x45, CHR 0x53, CHR 0x53,
    CHR 0x20, CHR 0x2B, CHR 0x20, CHR 0x54, CHR 0x43, CHR 0x50, CHR 0x20, CHR 0x2B, CHR 0x20, CHR 0x52,
    CHR 0x45, CHR 0x41, CHR 0x4C, CHR 0x49, CHR 0x54, CHR 0x59]"

definition zh_td_recommended :: string where
  "zh_td_recommended = [CHR 0xE9, CHR 0xBB, CHR 0x98, CHR 0xE8, CHR 0xAE, CHR 0xA4, CHR 0xE6, CHR 0x8E, CHR 0xA8, CHR 0xE8,
    CHR 0x8D, CHR 0x90, CHR 0xEF, CHR 0xBC, CHR 0x8C, CHR 0xE8, CHR 0x87, CHR 0xAA, CHR 0xE5, CHR 0x8A,
    CHR 0xA8, CHR 0xE7, CHR 0x94, CHR 0x9F, CHR 0xE6, CHR 0x88, CHR 0x90, CHR 0x20, CHR 0x52, CHR 0x45,
    CHR 0x41, CHR 0x4C, CHR 0x49, CHR 0x54, CHR 0x59, CHR 0x20, CHR 0xE5, CHR 0xAF, CHR 0x86, CHR 0xE9,
    CHR 0x92, CHR 0xA5, CHR 0xE5, CHR 0x92, CHR 0x8C, CHR 0x20, CHR 0x53, CHR 0x68, CHR 0x6F, CHR 0x72,
    CHR 0x74, CHR 0x20, CHR 0x49, CHR 0x44, CHR 0xE3, CHR 0x80, CHR 0x82]"

definition zh_tl_compatible :: string where
  "zh_tl_compatible = [CHR 0xE5, CHR 0x85, CHR 0xBC, CHR 0xE5, CHR 0xAE, CHR 0xB9, CHR 0xE8, CHR 0x8A, CHR 0x82, CHR 0xE7,
    CHR 0x82, CHR 0xB9, CHR 0xEF, CHR 0xBC, CHR 0x9A, CHR 0x56, CHR 0x4D, CHR 0x65, CHR 0x73, CHR 0x73,
    CHR 0x20, CHR 0x2B, CHR 0x20, CHR 0x57, CHR 0x53, CHR 0x20, CHR 0x2B, CHR 0x20, CHR 0x54, CHR 0x4C,
    CHR 0x53]"

definition zh_td_compatible :: string where
  "zh_td_compatible = [CHR 0xE9, CHR 0x80, CHR 0x82, CHR 0xE5, CHR 0x90, CHR 0x88, CHR 0xE6, CHR 0x97, CHR 0xA7, CHR 0xE5,
    CHR 0xAE, CHR 0xA2, CHR 0xE6, CHR 0x88, CHR 0xB7, CHR 0xE7, CHR 0xAB, CHR 0xAF, CHR 0xE6, CHR 0x88,
    CHR 0x96, CHR 0x20, CHR 0x57, CHR 0x65, CHR 0x62, CHR 0x53, CHR 0x6F, CHR 0x63, CHR 0x6B, CHR 0x65,
    CHR 0x74, CHR 0x20, CHR 0xE4, CHR 0xB8, CHR 0xAD, CHR 0xE8, CHR 0xBD, CHR 0xAC, CHR 0xE5, CHR 0x9C,
    CHR 0xBA, CHR 0xE6, CHR 0x99, CHR 0xAF, CHR 0xE3, CHR 0x80, CHR 0x82]"

definition zh_tl_password :: string where
  "zh_tl_password = [CHR 0xE5, CHR 0xAF, CHR 0x86, CHR 0xE7, CHR 0xA0, CHR 0x81, CHR 0xE8, CHR 0x8A, CHR 0x82, CHR 0xE7,
    CHR 0x82, CHR 0xB9, CHR 0xEF, CHR 0xBC, CHR 0x9A, CHR 0x54, CHR 0x72, CHR 0x6F, CHR 0x6A, CHR 0x61,
    CHR 0x6E, CHR 0x20, CHR 0x2B, CHR 0x20, CHR 0x54, CHR 0x4C, CHR 0x53]"

definition zh_td_password :: string where
  "zh_td_password = [CHR 0xE7, CHR 0x94, CHR 0xA8, CHR 0xE5, CHR 0xAF, CHR 0x86, CHR 0xE7, CHR 0xA0, CHR 0x81, CHR 0xE8,
    CHR 0xBF, CHR 0x9E, CHR 0xE6, CHR 0x8E, CHR 0xA5, CHR 0xEF, CHR 0xBC, CHR 0x8C, CHR 0xE9, CHR 0x85,
    CHR 0x8D, CHR 0xE7, CHR 0xBD, CHR 0xAE, CHR 0xE7, CHR 0xAE, CHR 0x80, CHR 0xE5, CHR 0x8D, CHR 0x95,
    CHR 0xEF, CHR 0xBC, CHR 0x8C, CHR 0xE4, CHR 0xBE, CHR 0x9D, CHR 0xE8, CHR 0xB5, CHR 0x96, CHR 0x20,
    CHR 0x54, CHR 0x4C, CHR 0x53, CHR 0x20, CHR 0xE8, CHR 0xAF, CHR 0x81, CHR 0xE4, CHR 0xB9, CHR 0xA6,
    CHR 0xE3, CHR 0x80, CHR 0x82]"

definition zh_tl_light :: string where
  "zh_tl_light = [CHR 0xE8, CHR 0xBD, CHR 0xBB, CHR 0xE9, CHR 0x87, CHR 0x8F, CHR 0xE8, CHR 0x8A, CHR 0x82, CHR 0xE7,
    CHR 0x82, CHR 0xB9, CHR 0xEF, CHR 0xBC, CHR 0x9A, CHR 0x53, CHR 0x68, CHR 0x61, CHR 0x64, CHR 0x6F,
    CHR 0x77, CHR 0x73, CHR 0x6F, CHR 0x63, CHR 0x6B, CHR 0x73, CHR 0x20, CHR 0x32, CHR 0x30, CHR 0x32,
    CHR 0x32]"

definition zh_td_light :: string where
  "zh_td_light = [CHR 0xE8, CHR 0xBD, CHR 0xBB, CHR 0xE9, CHR 0x87, CHR 0x8F, CHR 0xE5, CHR 0x8A, CHR 0xA0, CHR 0xE5,
    CHR 0xAF, CHR 0x86, CHR 0xEF, CHR 0xBC, CHR 0x8C, CHR 0xE4, CHR 0xBD, CHR 0xBF, CHR 0xE7, CHR 0x94,
    CHR 0xA8, CHR 0xE8, CHR 0x8A, CHR 0x82, CHR 0xE7, CHR 0x82, CHR 0xB9, CHR 0xE7, CHR 0xBA, CHR 0xA7,
    CHR 0xE5, CHR 0xAF, CHR 0x86, CHR 0xE9, CHR 0x92, CHR 0xA5, CHR 0xE3, CHR 0x80, CHR 0x82]"

definition zh_tl_local_socks :: string where
  "zh_tl_local_socks = [CHR 0xE6, CHR 0x9C, CHR 0xAC, CHR 0xE5, CHR 0x9C, CHR 0xB0, CHR 0xE4, CHR 0xBB, CHR 0xA3, CHR 0xE7,
    CHR 0x90, CHR 0x86, CHR 0xEF, CHR 0xBC, CHR 0x9A, CHR 0x53, CHR 0x4F, CHR 0x43, CHR 0x4B, CHR 0x53]"

definition zh_td_local_socks :: string where
  "zh_td_local_socks = [CHR 0xE6, CHR 0x9C, CHR 0xAC, CHR 0xE6, CHR 0x9C, CHR 0xBA, CHR 0xE6, CHR 0x88, CHR 0x96, CHR 0xE5,
    CHR 0x86, CHR 0x85, CHR 0xE7, CHR 0xBD, CHR 0x91, CHR 0xE4, CHR 0xBD, CHR 0xBF, CHR 0xE7, CHR 0x94,
    CHR 0xA8, CHR 0xEF, CHR 0xBC, CHR 0x8C, CHR 0xE4, CHR 0xB8, CHR 0x8D, CHR 0xE7, CHR 0x94, CHR 0x9F,
    CHR 0xE6, CHR 0x88, CHR 0x90, CHR 0xE5, CHR 0x88, CHR 0x86, CHR 0xE4, CHR 0xBA, CHR 0xAB, CHR 0xE9,
    CHR 0x93, CHR 0xBE, CHR 0xE6, CHR 0x8E, CHR 0xA5, CHR 0xE3, CHR 0x80, CHR 0x82]"

definition zh_tl_local_http :: string where
  "zh_tl_local_http = [CHR 0xE6, CHR 0x9C, CHR 0xAC, CHR 0xE5, CHR 0x9C, CHR 0xB0, CHR 0xE4, CHR 0xBB, CHR 0xA3, CHR 0xE7,
    CHR 0x90, CHR 0x86, CHR 0xEF, CHR 0xBC, CHR 0x9A, CHR 0x48, CHR 0x54, CHR 0x54, CHR 0x50]"

definition zh_tl_udp_fast :: string where
  "zh_tl_udp_fast = [CHR 0xE9, CHR 0xAB, CHR 0x98, CHR 0xE9, CHR 0x80, CHR 0x9F, CHR 0x20, CHR 0x55, CHR 0x44, CHR 0x50,
    CHR 0xEF, CHR 0xBC, CHR 0x9A, CHR 0x48, CHR 0x79, CHR 0x73, CHR 0x74, CHR 0x65, CHR 0x72, CHR 0x69,
    CHR 0x61, CHR 0x32]"

definition zh_td_udp_fast :: string where
  "zh_td_udp_fast = [CHR 0xE9, CHR 0x9D, CHR 0xA2, CHR 0xE5, CHR 0x90, CHR 0x91, CHR 0x20, CHR 0x55, CHR 0x44, CHR 0x50,
    CHR 0x20, CHR 0xE5, CHR 0x92, CHR 0x8C, CHR 0xE5, CHR 0xBC, CHR 0xB1, CHR 0xE7, CHR 0xBD, CHR 0x91,
    CHR 0xE5, CHR 0x90, CHR 0x9E, CHR 0xE5, CHR 0x90, CHR 0x90, CHR 0xEF, CHR 0xBC, CHR 0x8C, CHR 0xE4,
    CHR 0xBD, CHR 0xBF, CHR 0xE7, CHR 0x94, CHR 0xA8, CHR 0x20, CHR 0x73, CHR 0x69, CHR 0x6E, CHR 0x67,
    CHR 0x2D, CHR 0x62, CHR 0x6F, CHR 0x78, CHR 0xE3, CHR 0x80, CHR 0x82]"

definition zh_tl_low_latency :: string where
  "zh_tl_low_latency = [CHR 0xE9, CHR 0xAB, CHR 0x98, CHR 0xE9, CHR 0x80, CHR 0x9F, CHR 0xE4, CHR 0xBD, CHR 0x8E, CHR 0xE5,
    CHR 0xBB, CHR 0xB6, CHR 0xE8, CHR 0xBF, CHR 0x9F, CHR 0xEF, CHR 0xBC, CHR 0x9A, CHR 0x54, CHR 0x55,
    CHR 0x49, CHR 0x43]"

definition zh_td_low_latency :: string where
  "zh_td_low_latency = [CHR 0xE4, CHR 0xBD, CHR 0x8E, CHR 0xE5, CHR 0xBB, CHR 0xB6, CHR 0xE8, CHR 0xBF, CHR 0x9F, CHR 0x20,
    CHR 0x55, CHR 0x44, CHR 0x50, CHR 0x20, CHR 0xE8, CHR 0x8A, CHR 0x82, CHR 0xE7, CHR 0x82, CHR 0xB9,
    CHR 0xEF, CHR 0xBC, CHR 0x8C, CHR 0xE8, CHR 0x87, CHR 0xAA, CHR 0xE5, CHR 0x8A, CHR 0xA8, CHR 0xE7,
    CHR 0x94, CHR 0x9F, CHR 0xE6, CHR 0x88, CHR 0x90, CHR 0x20, CHR 0x55, CHR 0x55, CHR 0x49, CHR 0x44,
    CHR 0x20, CHR 0xE5, CHR 0x92, CHR 0x8C, CHR 0xE5, CHR 0xAF, CHR 0x86, CHR 0xE7, CHR 0xA0, CHR 0x81,
    CHR 0xE3, CHR 0x80, CHR 0x82]"

definition zh_tl_handshake_mask :: string where
  "zh_tl_handshake_mask = [CHR 0xE4, CHR 0xBC, CHR 0xAA, CHR 0xE8, CHR 0xA3, CHR 0x85, CHR 0xE6, CHR 0x8F, CHR 0xA1, CHR 0xE6,
    CHR 0x89, CHR 0x8B, CHR 0xEF, CHR 0xBC, CHR 0x9A, CHR 0x53, CHR 0x68, CHR 0x61, CHR 0x64, CHR 0x6F,
    CHR 0x77, CHR 0x54, CHR 0x4C, CHR 0x53]"

definition zh_td_handshake_mask :: string where
  "zh_td_handshake_mask = [CHR 0xE4, CHR 0xBC, CHR 0xAA, CHR 0xE8, CHR 0xA3, CHR 0x85, CHR 0xE6, CHR 0x8F, CHR 0xA1, CHR 0xE6,
    CHR 0x89, CHR 0x8B, CHR 0xE5, CHR 0x8D, CHR 0x8F, CHR 0xE8, CHR 0xAE, CHR 0xAE, CHR 0xEF, CHR 0xBC,
    CHR 0x8C, CHR 0xE6, CHR 0x9A, CHR 0x82, CHR 0xE4, CHR 0xB8, CHR 0x8D, CHR 0xE6, CHR 0x98, CHR 0xBE,
    CHR 0xE7, CHR 0xA4, CHR 0xBA, CHR 0xE5, CHR 0x88, CHR 0x86, CHR 0xE4, CHR 0xBA, CHR 0xAB, CHR 0xE9,
    CHR 0x93, CHR 0xBE, CHR 0xE6, CHR 0x8E, CHR 0xA5, CHR 0xE3, CHR 0x80, CHR 0x82]"

lemmas texts_InboundForms =
  zh_tl_recommended_def zh_td_recommended_def zh_tl_compatible_def zh_td_compatible_def zh_tl_password_def
  zh_td_password_def zh_tl_light_def zh_td_light_def zh_tl_local_socks_def zh_td_local_socks_def
  zh_tl_local_http_def zh_tl_udp_fast_def zh_td_udp_fast_def zh_tl_low_latency_def zh_td_low_latency_def
  zh_tl_handshake_mask_def zh_td_handshake_mask_def

lemma texts_nonempty_InboundForms [simp]:
  "zh_tl_recommended \<noteq> []" "zh_td_recommended \<noteq> []" "zh_tl_compatible \<noteq> []" "zh_td_compatible \<noteq> []"
  "zh_tl_password \<noteq> []" "zh_td_password \<noteq> []" "zh_tl_light \<noteq> []" "zh_td_light \<noteq> []"
  "zh_tl_local_socks \<noteq> []" "zh_td_local_socks \<noteq> []" "zh_tl_local_http \<noteq> []" "zh_tl_udp_fast \<noteq> []"
  "zh_td_udp_fast \<noteq> []" "zh_tl_low_latency \<noteq> []" "zh_td_low_latency \<noteq> []" "zh_tl_handshake_mask \<noteq> []"
  "zh_td_handshake_mask \<noteq> []"
  by (simp_all add: texts_InboundForms)

section \<open>Values a form opens with\<close>

definition inbound_field :: "inbound \<Rightarrow> adv_field \<Rightarrow> jsval" where \<comment> \<open>\<^verbatim>\<open>inbound[key]\<close>\<close>
  "inbound_field inb key = (case map_of (ib_extra inb) (field_name key) of Some v \<Rightarrow> v | None \<Rightarrow> JUndef)"

definition or_default :: "jsval \<Rightarrow> adv_field \<Rightarrow> jsval" where \<comment> \<open>\<^verbatim>\<open>v ?? defaultAdvancedValue(key)\<close>\<close>
  "or_default v key = (if js_nullish v then defaultAdvancedValue key else v)"

definition inboundFormValues :: "cap_state \<Rightarrow> inbound \<Rightarrow> inbound_values" where
  "inboundFormValues st inb = normalizeInboundCombination st
     \<lparr>iv_remark = ib_remark inb, iv_protocol = ib_protocol inb, iv_port = ib_port inb,
      iv_network = str_or (ib_network inb) ''tcp'', iv_security = str_or (ib_security inb) ''none'',
      iv_uuid = Some (ostr (ib_uuid inb)), iv_enabled = not_false (ib_enabled inb),
      iv_adv = (\<lambda>key. or_default (inbound_field inb key) key)\<rparr>"

definition as_inbound :: "inbound_values \<Rightarrow> inbound" where \<comment> \<open>the cast \<^verbatim>\<open>values as Inbound\<close>\<close>
  "as_inbound v = \<lparr>ib_id = 0, ib_remark = iv_remark v, ib_protocol = iv_protocol v, ib_core = None,
     ib_port = iv_port v, ib_network = iv_network v, ib_security = iv_security v, ib_enabled = Some (iv_enabled v),
     ib_uuid = iv_uuid v, ib_clients = None,
     ib_extra = map (\<lambda>key. (field_name key, iv_adv v key)) advancedFields\<rparr>"

section \<open>Templates\<close>

record template =
  tp_id :: template_id
  tp_label :: string
  tp_description :: string
  tp_protocol :: string
  tp_port :: int
  tp_network :: string
  tp_security :: string
  tp_adv :: "(adv_field \<times> jsval) list"

definition tpl_recommended :: template where
  "tpl_recommended = \<lparr>tp_id = T_recommended, tp_label = zh_tl_recommended,
     tp_description = zh_td_recommended,
     tp_protocol = ''vless'', tp_port = 0, tp_network = ''tcp'', tp_security = ''reality'',
     tp_adv = [(F_reality_dest, JStr ''www.cloudflare.com:443''), (F_reality_server_names, JStr ''www.cloudflare.com''), (F_tls_fingerprint, JStr ''chrome'')]\<rparr>"

definition tpl_compatible :: template where
  "tpl_compatible = \<lparr>tp_id = T_compatible, tp_label = zh_tl_compatible,
     tp_description = zh_td_compatible,
     tp_protocol = ''vmess'', tp_port = 0, tp_network = ''ws'', tp_security = ''tls'',
     tp_adv = [(F_ws_path, JStr ''/migate''), (F_ws_host, JStr ''example.com''), (F_tls_sni, JStr ''example.com''), (F_tls_alpn, JStr ''http/1.1'')]\<rparr>"

definition tpl_password :: template where
  "tpl_password = \<lparr>tp_id = T_password, tp_label = zh_tl_password,
     tp_description = zh_td_password,
     tp_protocol = ''trojan'', tp_port = 0, tp_network = ''tcp'', tp_security = ''tls'',
     tp_adv = [(F_tls_sni, JStr ''example.com''), (F_tls_alpn, JStr ''http/1.1'')]\<rparr>"

definition tpl_light :: template where
  "tpl_light = \<lparr>tp_id = T_light, tp_label = zh_tl_light,
     tp_description = zh_td_light,
     tp_protocol = ''shadowsocks'', tp_port = 0, tp_network = ''tcp'', tp_security = ''none'',
     tp_adv = [(F_ss_method, JStr ''2022-blake3-aes-128-gcm'')]\<rparr>"

definition tpl_local_socks :: template where
  "tpl_local_socks = \<lparr>tp_id = T_local_socks, tp_label = zh_tl_local_socks,
     tp_description = zh_td_local_socks,
     tp_protocol = ''socks'', tp_port = 0, tp_network = ''tcp'', tp_security = ''none'',
     tp_adv = []\<rparr>"

definition tpl_local_http :: template where
  "tpl_local_http = \<lparr>tp_id = T_local_http, tp_label = zh_tl_local_http,
     tp_description = zh_td_local_socks,
     tp_protocol = ''http'', tp_port = 0, tp_network = ''tcp'', tp_security = ''none'',
     tp_adv = []\<rparr>"

definition tpl_udp_fast :: template where
  "tpl_udp_fast = \<lparr>tp_id = T_udp_fast, tp_label = zh_tl_udp_fast,
     tp_description = zh_td_udp_fast,
     tp_protocol = ''hysteria2'', tp_port = 0, tp_network = ''udp'', tp_security = ''tls'',
     tp_adv = [(F_tls_sni, JStr ''example.com''), (F_hy2_up_mbps, JNum 100), (F_hy2_down_mbps, JNum 100), (F_hy2_obfs, JStr ''salamander'')]\<rparr>"

definition tpl_low_latency :: template where
  "tpl_low_latency = \<lparr>tp_id = T_low_latency, tp_label = zh_tl_low_latency,
     tp_description = zh_td_low_latency,
     tp_protocol = ''tuic'', tp_port = 0, tp_network = ''udp'', tp_security = ''tls'',
     tp_adv = [(F_tls_sni, JStr ''example.com''), (F_tuic_congestion_control, JStr ''bbr''), (F_tuic_zero_rtt, JBool False)]\<rparr>"

definition tpl_handshake_mask :: template where
  "tpl_handshake_mask = \<lparr>tp_id = T_handshake_mask, tp_label = zh_tl_handshake_mask,
     tp_description = zh_td_handshake_mask,
     tp_protocol = ''shadowtls'', tp_port = 0, tp_network = ''tcp'', tp_security = ''none'',
     tp_adv = [(F_tls_sni, JStr ''www.cloudflare.com''), (F_shadowtls_version, JNum 3)]\<rparr>"

definition inboundTemplates :: "template list" where
  "inboundTemplates = [tpl_recommended, tpl_compatible, tpl_password, tpl_light, tpl_local_socks, tpl_local_http, tpl_udp_fast, tpl_low_latency, tpl_handshake_mask]"

lemmas templates = tpl_recommended_def tpl_compatible_def tpl_password_def tpl_light_def tpl_local_socks_def tpl_local_http_def tpl_udp_fast_def tpl_low_latency_def tpl_handshake_mask_def

definition inboundTemplateOptions :: "(template_id \<times> string \<times> string) list" where
  "inboundTemplateOptions = map (\<lambda>t. (tp_id t, tp_label t, tp_description t)) inboundTemplates"

primrec templateAdvancedFields :: "template_id \<Rightarrow> adv_field list" where
  "templateAdvancedFields T_recommended = [F_reality_dest, F_reality_server_names, F_reality_short_id,
     F_reality_private_key, F_reality_public_key, F_tls_fingerprint]"
| "templateAdvancedFields T_compatible = [F_ws_path, F_ws_host, F_tls_cert_file, F_tls_key_file, F_tls_sni,
     F_tls_fingerprint, F_tls_alpn]"
| "templateAdvancedFields T_password = [F_tls_cert_file, F_tls_key_file, F_tls_sni, F_tls_fingerprint, F_tls_alpn]"
| "templateAdvancedFields T_light = [F_ss_method]"
| "templateAdvancedFields T_local_socks = []"
| "templateAdvancedFields T_local_http = []"
| "templateAdvancedFields T_udp_fast = [F_tls_cert_file, F_tls_key_file, F_tls_sni, F_hy2_up_mbps, F_hy2_down_mbps,
     F_hy2_obfs, F_hy2_obfs_password]"
| "templateAdvancedFields T_low_latency = [F_tls_cert_file, F_tls_key_file, F_tls_sni, F_tuic_congestion_control,
     F_tuic_zero_rtt]"
| "templateAdvancedFields T_handshake_mask = [F_tls_sni, F_shadowtls_version]"

definition clearTemplateAdvancedFields :: "cap_state \<Rightarrow> inbound \<Rightarrow> template_id \<Rightarrow> inbound_values" where
  "clearTemplateAdvancedFields st current tid =
     (let form = inboundFormValues st current; keep = templateAdvancedFields tid
      in form\<lparr>iv_adv := (\<lambda>key. if key \<in> set keep then iv_adv form key else defaultAdvancedValue key)\<rparr>)"

text \<open>The arguments of the draws: a UUID for the node credential, the bytes of the REALITY short id, a UUID
  for the obfuscation password.\<close>

record draws =
  dr_uuid :: string
  dr_bytes :: "nat list"
  dr_secret :: string

definition template_inbound :: "cap_state \<Rightarrow> inbound \<Rightarrow> template \<Rightarrow> template_id \<Rightarrow> draws \<Rightarrow> inbound" where
  "template_inbound st current t tid d =
     (let nextProtocol = str_or (tp_protocol t) (str_or (ib_protocol current) ''vless'');
          cleared = clearTemplateAdvancedFields st current tid
      in (as_inbound (cleared\<lparr>iv_protocol := tp_protocol t, iv_port := tp_port t, iv_network := tp_network t,
             iv_security := tp_security t,
             iv_uuid := Some (normalizedProtocolCredential (ib_uuid current) nextProtocol (dr_uuid d)),
             iv_enabled := not_false (ib_enabled current),
             iv_adv := (\<lambda>key. case map_of (tp_adv t) key of Some v \<Rightarrow> v | None \<Rightarrow> iv_adv cleared key)\<rparr>))
           \<lparr>ib_id := ib_id current\<rparr>)"

definition applyInboundTemplate :: "cap_state \<Rightarrow> inbound \<Rightarrow> template_id \<Rightarrow> draws \<Rightarrow> inbound_values" where
  "applyInboundTemplate st current tid d =
     (let t = (case find (\<lambda>t. tp_id t = tid) inboundTemplates of Some t \<Rightarrow> t | None \<Rightarrow> tpl_recommended);
          form = normalizeInboundCombination st (inboundFormValues st (template_inbound st current t tid d))
      in if tp_id t = T_recommended
         then form\<lparr>iv_adv := (iv_adv form)(F_reality_short_id := JStr (randomHex (dr_bytes d)))\<rparr>
         else if tp_id t = T_udp_fast
         then form\<lparr>iv_adv := (iv_adv form)(F_hy2_obfs_password := JStr (randomSecret 18 (dr_secret d)))\<rparr>
         else form)"

definition seed_inbound :: "string \<Rightarrow> inbound" where
  "seed_inbound fresh = \<lparr>ib_id = 0, ib_remark = [], ib_protocol = ''vless'', ib_core = None, ib_port = 0,
     ib_network = ''tcp'', ib_security = ''reality'', ib_enabled = Some True,
     ib_uuid = Some (generatedProtocolCredential ''vless'' fresh), ib_clients = Some [],
     ib_extra = [(''reality_dest'', JStr ''www.cloudflare.com:443''), (''reality_server_names'', JStr ''www.cloudflare.com''),
       (''ss_method'', JStr ''2022-blake3-aes-128-gcm''), (''xhttp_mode'', JStr ''stream-one''), (''hy2_up_mbps'', JNum 100),
       (''hy2_down_mbps'', JNum 100), (''tuic_congestion_control'', JStr ''bbr''), (''shadowtls_version'', JNum 3)]\<rparr>"

definition createDefaultInbound :: "cap_state \<Rightarrow> string \<Rightarrow> draws \<Rightarrow> inbound" where
  "createDefaultInbound st fresh d =
     (as_inbound (applyInboundTemplate st (seed_inbound fresh) T_recommended d))\<lparr>ib_id := 0, ib_clients := Some []\<rparr>"

section \<open>Changes of protocol, network and security\<close>

record combination_change =
  ch_protocol :: "string option"
  ch_network :: "string option"
  ch_security :: "string option"

definition change_or :: "string option \<Rightarrow> string option \<Rightarrow> string \<Rightarrow> string" where \<comment> \<open>\<^verbatim>\<open>a ?? b ?? c\<close>\<close>
  "change_or a b c = (case a of Some s \<Rightarrow> s | None \<Rightarrow> (case b of Some s \<Rightarrow> s | None \<Rightarrow> c))"

definition changed_values :: "cap_state \<Rightarrow> inbound_values \<Rightarrow> combination_change \<Rightarrow> string \<Rightarrow> inbound_values" where
  "changed_values st values changes fresh =
     (let changedProtocol = (if ostr (ch_protocol changes) \<noteq> [] then Some (asInboundProtocol st (ostr (ch_protocol changes))) else None);
          protocolDefaults = map_option (cs_caps st) changedProtocol
      in normalizeInboundCombination st (values\<lparr>
           iv_protocol := (case ch_protocol changes of Some p \<Rightarrow> p | None \<Rightarrow> iv_protocol values),
           iv_uuid := (case changedProtocol of
               Some p \<Rightarrow> Some (normalizedProtocolCredential (iv_uuid values) (protocol_name p) fresh)
             | None \<Rightarrow> iv_uuid values),
           iv_network := change_or (ch_network changes) (map_option cp_defaultNetwork protocolDefaults) (iv_network values),
           iv_security := change_or (ch_security changes)
              (map_option (security_name \<circ> cp_defaultSecurity) protocolDefaults) (iv_security values)\<rparr>))"

definition sanitizeInboundFormValues ::
  "cap_state \<Rightarrow> inbound_values \<Rightarrow> combination_change \<Rightarrow> string \<Rightarrow> inbound_values" where
  "sanitizeInboundFormValues st values changes fresh =
     (let form = changed_values st values changes fresh;
          enabled = enabledInboundAdvancedFields st form
      in form\<lparr>iv_adv := (\<lambda>key.
           if key \<notin> set enabled then defaultAdvancedValue key
           else if isBlankAdvancedValue key (iv_adv form key) then seededAdvancedValue key
           else iv_adv form key)\<rparr>)"

definition no_change :: combination_change where
  "no_change = \<lparr>ch_protocol = None, ch_network = None, ch_security = None\<rparr>"

lemma enabled_cong:
  "iv_protocol v = iv_protocol w \<Longrightarrow> iv_network v = iv_network w \<Longrightarrow> iv_security v = iv_security w \<Longrightarrow>
   enabledInboundAdvancedFields st v = enabledInboundAdvancedFields st w"
  by (simp add: enabledInboundAdvancedFields_def)

lemma combination_ok_cong:
  "iv_protocol v = iv_protocol w \<Longrightarrow> iv_network v = iv_network w \<Longrightarrow> iv_security v = iv_security w \<Longrightarrow>
   combination_ok st v = combination_ok st w"
  by (simp add: combination_ok_def)

lemma combination_ok_adv [simp]: "combination_ok st (v\<lparr>iv_adv := a\<rparr>) = combination_ok st v"
  by (rule combination_ok_cong) simp_all

lemma enabled_adv [simp]: "enabledInboundAdvancedFields st (v\<lparr>iv_adv := a\<rparr>) = enabledInboundAdvancedFields st v"
  by (rule enabled_cong) simp_all

lemma combination_ok_changed [simp]: "combination_ok st (changed_values st v ch fresh)"
  by (simp add: changed_values_def Let_def combination_nf.normal_nf)

lemma combination_ok_sanitize [simp]: "combination_ok st (sanitizeInboundFormValues st v ch fresh)"
  by (simp add: sanitizeInboundFormValues_def Let_def)

lemma changed_no_change: "combination_ok st v \<Longrightarrow> changed_values st v no_change fresh = v"
  by (simp add: changed_values_def no_change_def change_or_def combination_nf.nf_normal)

lemma blank_default [simp]: "isBlankAdvancedValue key (defaultAdvancedValue key)"
  by (simp add: isBlankAdvancedValue_def)

text \<open>
  C23.
  After a change of protocol, network or security the form shows only what belongs to the new combination:
  the combination is an allowed one, every advanced field it does not use is reset, a field it uses is blank
  only when it has no suggested value, and values the user typed into fields that stay enabled are kept.
  Cleaning up once more changes nothing.
\<close>

theorem sanitize_cleans_form:
  "let w = sanitizeInboundFormValues st v ch fresh in
   combination_ok st w
   \<and> (\<forall>key. key \<notin> set (enabledInboundAdvancedFields st w) \<longrightarrow> iv_adv w key = defaultAdvancedValue key)
   \<and> (\<forall>key. key \<in> set (enabledInboundAdvancedFields st w) \<and> isBlankAdvancedValue key (iv_adv w key) \<longrightarrow>
        seededAdvancedValue key = defaultAdvancedValue key)
   \<and> (\<forall>key. key \<in> set (enabledInboundAdvancedFields st w) \<and> \<not> isBlankAdvancedValue key (iv_adv v key) \<longrightarrow>
        iv_adv w key = iv_adv v key)
   \<and> sanitizeInboundFormValues st w no_change fresh' = w"
proof -
  let ?w = "sanitizeInboundFormValues st v ch fresh"
  let ?f = "changed_values st v ch fresh"
  have en: "enabledInboundAdvancedFields st ?w = enabledInboundAdvancedFields st ?f"
    by (simp add: sanitizeInboundFormValues_def Let_def)
  have adv: "iv_adv ?w key = (if key \<notin> set (enabledInboundAdvancedFields st ?f) then defaultAdvancedValue key
           else if isBlankAdvancedValue key (iv_adv v key) then seededAdvancedValue key else iv_adv v key)" for key
    by (simp add: sanitizeInboundFormValues_def changed_values_def Let_def)
  have seed: "isBlankAdvancedValue key (seededAdvancedValue key) \<longleftrightarrow> seededAdvancedValue key = defaultAdvancedValue key" for key
    by (simp add: isBlankAdvancedValue_def)
  have "sanitizeInboundFormValues st ?w no_change fresh' = ?w\<lparr>iv_adv := iv_adv ?w\<rparr>"
    unfolding sanitizeInboundFormValues_def [of st ?w] Let_def changed_no_change [OF combination_ok_sanitize] en
    by (intro arg_cong [where f = "\<lambda>a. ?w\<lparr>iv_adv := a\<rparr>"] ext) (auto simp: adv seed)
  then show ?thesis unfolding Let_def en by (auto simp: adv seed split: if_splits)
qed

definition tuic_change :: combination_change where
  "tuic_change = \<lparr>ch_protocol = Some ''tuic'', ch_network = None, ch_security = None\<rparr>"

lemma asInboundProtocol_tuic [simp]: "asInboundProtocol resetInboundCapabilitiesForTest ''tuic'' = P_tuic"
  using asInboundProtocol_protocol_name [of _ P_tuic] by simp

theorem sanitize_cleans_form_witness:
  "iv_adv (sanitizeInboundFormValues resetInboundCapabilitiesForTest
      (sample_values\<lparr>iv_adv := (iv_adv sample_values)(F_ws_path := JStr ''/x'')\<rparr>) tuic_change []) F_ws_path = JStr []
   \<and> iv_adv (sanitizeInboundFormValues resetInboundCapabilitiesForTest
      (sample_values\<lparr>iv_adv := (iv_adv sample_values)(F_tls_sni := JStr ''a.example'')\<rparr>) tuic_change []) F_tls_sni = JStr ''a.example''"
proof -
  let ?st = resetInboundCapabilitiesForTest
  have e: "enabledInboundAdvancedFields ?st (sanitizeInboundFormValues ?st (sample_values\<lparr>iv_adv := a\<rparr>) tuic_change []) =
      [F_tuic_congestion_control, F_tuic_zero_rtt, F_tls_cert_file, F_tls_key_file, F_tls_sni]" for a
    by (simp add: sanitizeInboundFormValues_def Let_def changed_values_def tuic_change_def change_or_def
        normalizeInboundCombination_def allowedInboundSecurities_def enabledInboundAdvancedFields_def
        sample_values_def cap_tuic_def singboxTlsFields_def)
  have b: "\<not> isBlankAdvancedValue F_tls_sni (JStr ''a.example'')"
    by (simp add: isBlankAdvancedValue_def normalizeAdvancedValue_def defaultAdvancedValue_def numericAdvancedFields_def
        js_nullish_def)
  show ?thesis
    using sanitize_cleans_form [of ?st "sample_values\<lparr>iv_adv := (iv_adv sample_values)(F_ws_path := JStr ''/x'')\<rparr>" tuic_change "[]"]
      sanitize_cleans_form [of ?st "sample_values\<lparr>iv_adv := (iv_adv sample_values)(F_tls_sni := JStr ''a.example'')\<rparr>" tuic_change "[]"] b
    unfolding Let_def e by (simp add: defaultAdvancedValue_def numericAdvancedFields_def)
qed

section \<open>Templates lead to allowed combinations\<close>

lemma inboundFormValues_ok [simp]: "combination_ok st (inboundFormValues st inb)"
  by (simp add: inboundFormValues_def combination_nf.normal_nf)

lemma applyInboundTemplate_ok [simp]: "combination_ok st (applyInboundTemplate st current tid d)"
  by (simp add: applyInboundTemplate_def Let_def combination_nf.normal_nf)

lemma template_of_id: "\<exists>t. find (\<lambda>t. tp_id t = tid) inboundTemplates = Some t \<and> tp_id t = tid"
  by (cases tid) (simp_all add: inboundTemplates_def templates)

text \<open>A template sets the port to 0, so that the server picks a free one, also when the node already has a port.\<close>

lemma template_resets_port: "iv_port (applyInboundTemplate st current tid d) = 0"
proof -
  obtain t where t: "find (\<lambda>t. tp_id t = tid) inboundTemplates = Some t" "tp_id t = tid" using template_of_id by blast
  have "list_all (\<lambda>t. tp_port t = 0) inboundTemplates" by (simp add: inboundTemplates_def templates)
  then have "tp_port t = 0" using t(1) by (auto simp: list_all_iff dest: find_Some_set)
  with t show ?thesis
    by (simp add: applyInboundTemplate_def Let_def inboundFormValues_def template_inbound_def as_inbound_def)
qed

definition template_valid :: "template \<Rightarrow> protocol \<Rightarrow> bool" where \<comment> \<open>its combination is one the built-in tables allow\<close>
  "template_valid t p = (tp_protocol t = protocol_name p \<and> tp_network t \<noteq> [] \<and> tp_security t \<noteq> []
     \<and> tp_network t \<in> set (cp_networks (inboundCapabilities p))
     \<and> tp_security t \<in> security_name ` set (case map_of (cp_securityByNetwork (inboundCapabilities p)) (tp_network t) of
          Some securities \<Rightarrow> securities | None \<Rightarrow> cp_securityDefault (inboundCapabilities p)))"

text \<open>The templates are in the order of the protocols.\<close>

lemma templates_valid_all: "list_all2 template_valid inboundTemplates inboundProtocols"
  by (simp add: inboundTemplates_def inboundProtocols_def template_valid_def templates builtin_caps xrayNetworks_def)

lemma templates_valid: "t \<in> set inboundTemplates \<Longrightarrow> \<exists>p. template_valid t p"
  using templates_valid_all by (auto simp: in_set_conv_nth list_all2_conv_all_nth)

lemma template_form:
  "\<exists>t f. t \<in> set inboundTemplates \<and> tp_id t = tid \<and> iv_protocol f = tp_protocol t \<and> iv_network f = tp_network t
     \<and> iv_security f = tp_security t
     \<and> iv_uuid f = Some (normalizedProtocolCredential (ib_uuid current) (tp_protocol t) (dr_uuid d))
     \<and> iv_enabled f = not_false (ib_enabled current)
     \<and> (\<exists>a. applyInboundTemplate resetInboundCapabilitiesForTest current tid d = f\<lparr>iv_adv := a\<rparr>)"
proof -
  let ?st = resetInboundCapabilitiesForTest
  obtain t where t: "find (\<lambda>t. tp_id t = tid) inboundTemplates = Some t" "tp_id t = tid" using template_of_id by blast
  then have mem: "t \<in> set inboundTemplates" by (auto dest: find_Some_set)
  then obtain p where p: "tp_protocol t = protocol_name p"
     "tp_network t \<in> set (cp_networks (inboundCapabilities p))" "tp_network t \<noteq> []"
     "tp_security t \<in> security_name ` set (allowedInboundSecurities ?st (protocol_name p) (tp_network t))"
     "tp_security t \<noteq> []"
    using templates_valid [OF mem] unfolding template_valid_def allowed_reset [symmetric] by blast
  define f where "f = inboundFormValues ?st (template_inbound ?st current t tid d)"
  have f: "iv_protocol f = tp_protocol t" "iv_network f = tp_network t" "iv_security f = tp_security t"
    "iv_uuid f = Some (normalizedProtocolCredential (ib_uuid current) (tp_protocol t) (dr_uuid d))"
    "iv_enabled f = not_false (ib_enabled current)"
    using p by (auto simp: f_def inboundFormValues_def normalizeInboundCombination_def Let_def template_inbound_def
        as_inbound_def image_iff)
  have ok: "combination_ok ?st f" by (simp add: f_def)
  have "\<exists>a. applyInboundTemplate ?st current tid d = f\<lparr>iv_adv := a\<rparr>"
    unfolding applyInboundTemplate_def t(1) option.case Let_def f_def [symmetric] combination_nf.nf_normal [OF ok]
    by (auto intro: exI [of _ "iv_adv f"])
  with mem t(2) f show ?thesis by blast
qed

lemma template_combination:
  "\<exists>t \<in> set inboundTemplates. tp_id t = tid
     \<and> iv_protocol (applyInboundTemplate resetInboundCapabilitiesForTest current tid d) = tp_protocol t
     \<and> iv_network (applyInboundTemplate resetInboundCapabilitiesForTest current tid d) = tp_network t
     \<and> iv_security (applyInboundTemplate resetInboundCapabilitiesForTest current tid d) = tp_security t"
  using template_form [of tid current d] by force

text \<open>
  
  With the built-in tables, choosing a node type turns any form into exactly the combination the template names
  (normalisation changes none of its protocol, network and security), with a credential of the style that
  protocol expects and an automatic port; the state of the node is kept.
\<close>

theorem template_gives_its_combination:
  assumes "is_uuid (dr_uuid d)"
  shows "let w = applyInboundTemplate resetInboundCapabilitiesForTest current tid d in
    (\<exists>t \<in> set inboundTemplates. tp_id t = tid \<and> iv_protocol w = tp_protocol t \<and> iv_network w = tp_network t
       \<and> iv_security w = tp_security t)
    \<and> protocolCredentialMatches (ostr (iv_uuid w)) (iv_protocol w)
    \<and> iv_port w = 0 \<and> iv_enabled w = not_false (ib_enabled current)"
proof -
  obtain t f a where f: "t \<in> set inboundTemplates" "tp_id t = tid" "iv_protocol f = tp_protocol t"
    "iv_network f = tp_network t" "iv_security f = tp_security t"
    "iv_uuid f = Some (normalizedProtocolCredential (ib_uuid current) (tp_protocol t) (dr_uuid d))"
    "iv_enabled f = not_false (ib_enabled current)"
    and w: "applyInboundTemplate resetInboundCapabilitiesForTest current tid d = f\<lparr>iv_adv := a\<rparr>"
    using template_form [of tid current d] by metis
  have "protocolCredentialMatches (normalizedProtocolCredential (ib_uuid current) (tp_protocol t) (dr_uuid d)) (tp_protocol t)"
    using generated_matches [OF assms, of "tp_protocol t"] by (simp add: normalizedProtocolCredential_def Let_def)
  moreover have "iv_port f = 0" using template_resets_port [of resetInboundCapabilitiesForTest current tid d] by (simp add: w)
  ultimately show ?thesis unfolding Let_def w using f by auto
qed

definition sample_draws :: draws where
  "sample_draws = \<lparr>dr_uuid = randomUUID None [7, 7], dr_bytes = [1, 2, 3, 4], dr_secret = randomUUID None []\<rparr>"

theorem template_gives_its_combination_witness:
  "protocolCredentialMatches
     (ostr (iv_uuid (applyInboundTemplate resetInboundCapabilitiesForTest sample_inbound T_udp_fast sample_draws)))
     (iv_protocol (applyInboundTemplate resetInboundCapabilitiesForTest sample_inbound T_udp_fast sample_draws))"
  using template_gives_its_combination [of sample_draws sample_inbound T_udp_fast] fallback_is_uuid
  by (simp add: sample_draws_def Let_def)

end
