(* ===== verification/InboundPayload.thy ===== *)
theory InboundPayload
  imports InboundForms
begin

text \<open>
  Saving the inbound form (\<^verbatim>\<open>buildFullInboundPayload\<close> of
  \<^verbatim>\<open>src/web/src/routes/InboundsPage.tsx\<close>). The object sent is an association list;
  \<open>payload_fields_map\<close> says what each of its keys holds.
\<close>

section \<open>The payload\<close>

definition text_json :: "string option \<Rightarrow> jsval" where
  "text_json v = (case v of None \<Rightarrow> JUndef | Some s \<Rightarrow> JStr s)"

text \<open>The own properties of an inbound; \<^verbatim>\<open>clients\<close>, which every payload drops at once, is left out.\<close>

definition inbound_entries :: "inbound \<Rightarrow> (string \<times> jsval) list" where
  "inbound_entries inb =
     [(''id'', JNum (of_int (ib_id inb))), (''remark'', JStr (ib_remark inb)), (''protocol'', JStr (ib_protocol inb)),
      (''core'', text_json (ib_core inb)), (''port'', JNum (of_int (ib_port inb))), (''network'', JStr (ib_network inb)),
      (''security'', JStr (ib_security inb)), (''enabled'', JBool (not_false (ib_enabled inb))), (''uuid'', text_json (ib_uuid inb))]
     @ ib_extra inb"

definition payload_json :: "client_payload \<Rightarrow> jsval" where
  "payload_json p = JObj [(''email'', JStr (py_email p)), (''uuid'', JStr (py_uuid p)),
     (''credential_id'', JStr (py_credential_id p)), (''password'', JStr (py_password p)), (''enabled'', JBool (py_enabled p)),
     (''traffic_limit'', JNum (of_int (py_traffic_limit p))), (''expiry_at'', JNum (of_int (py_expiry_at p)))]"

definition assign_values :: "inbound_values \<Rightarrow> (string \<times> jsval) list \<Rightarrow> (string \<times> jsval) list" where \<comment> \<open>\<^verbatim>\<open>Object.assign\<close>\<close>
  "assign_values v payload =
     fold (\<lambda>key. AList.update (field_name key) (iv_adv v key)) advancedFields
       (AList.update ''enabled'' (JBool (iv_enabled v)) (AList.update ''uuid'' (text_json (iv_uuid v))
        (AList.update ''security'' (JStr (iv_security v)) (AList.update ''network'' (JStr (iv_network v))
         (AList.update ''port'' (JNum (of_int (iv_port v))) (AList.update ''protocol'' (JStr (iv_protocol v))
          (AList.update ''remark'' (JStr (iv_remark v)) payload)))))))"

definition save_field :: "cap_state \<Rightarrow> inbound_values \<Rightarrow> adv_field \<Rightarrow> (string \<times> jsval) list \<Rightarrow> (string \<times> jsval) list" where
  "save_field st normalized key payload = AList.update (field_name key)
     (if isInboundAdvancedFieldEnabled st normalized key
      then normalizeAdvancedValue key (js_field (JObj payload) (field_name key))
      else defaultAdvancedValue key) payload"

definition buildFullInboundPayload ::
  "cap_state \<Rightarrow> inbound option \<Rightarrow> inbound_values \<Rightarrow> client_payload option \<Rightarrow> (string \<times> jsval) list" where
  "buildFullInboundPayload st inb values initialClient =
     (let payload0 = AList.delete ''clients'' (AList.delete ''id'' (case inb of None \<Rightarrow> [] | Some i \<Rightarrow> inbound_entries i));
          normalized = normalizeInboundCombination st values;
          payload1 = AList.update ''port'' (JNum (of_int (iv_port normalized))) (assign_values normalized payload0);
          payload2 = fold (save_field st normalized) advancedFields payload1;
          isNew = (case inb of None \<Rightarrow> True | Some i \<Rightarrow> ib_id i = 0)
      in case initialClient of
           Some c \<Rightarrow> if isNew then AList.update ''initial_client'' (payload_json c) payload2
                     else AList.delete ''initial_client'' payload2
         | None \<Rightarrow> AList.delete ''initial_client'' payload2)"

subsection \<open>What a payload holds\<close>

lemma field_name_inj [simp]: "field_name a = field_name b \<longleftrightarrow> a = b"
proof
  assume e: "field_name a = field_name b"
  have "distinct (map field_name advancedFields)" by (simp add: advancedFields_def)
  then have "inj_on field_name UNIV" by (metis distinct_map set_advancedFields)
  then show "a = b" using e by (auto dest: inj_onD)
qed simp

definition base_keys :: "string list" where
  "base_keys = [''id'', ''clients'', ''remark'', ''protocol'', ''port'', ''network'', ''security'', ''uuid'', ''enabled'',
     ''initial_client'']"

lemma field_name_base: "field_name f \<notin> set base_keys"
  by (cases f) (simp_all add: base_keys_def)

lemma field_name_neq [simp]:
  "field_name f \<noteq> ''id''" "field_name f \<noteq> ''clients''" "field_name f \<noteq> ''remark''" "field_name f \<noteq> ''protocol''"
  "field_name f \<noteq> ''port''" "field_name f \<noteq> ''network''" "field_name f \<noteq> ''security''" "field_name f \<noteq> ''uuid''"
  "field_name f \<noteq> ''enabled''" "field_name f \<noteq> ''initial_client''"
  using field_name_base [of f] unfolding base_keys_def list.set insert_iff by simp_all

lemma fold_assign_other:
  "\<forall>f. k \<noteq> field_name f \<Longrightarrow> map_of (fold (\<lambda>key. AList.update (field_name key) (h key)) ks al) k = map_of al k"
  by (induction ks arbitrary: al) (simp_all add: AList.update_conv')

lemma fold_assign_same:
  "map_of (fold (\<lambda>key. AList.update (field_name key) (h key)) ks al) (field_name f) =
     (if f \<in> set ks then Some (h f) else map_of al (field_name f))"
  by (induction ks arbitrary: al) (auto simp: AList.update_conv')

lemma js_field_JObj: "js_field (JObj al) k = (case map_of al k of None \<Rightarrow> JUndef | Some v \<Rightarrow> v)"
  by (simp add: js_field_def)

lemma save_field_map:
  "map_of (save_field st v key al) k =
     (if k = field_name key then Some (if isInboundAdvancedFieldEnabled st v key
        then normalizeAdvancedValue key (js_field (JObj al) k) else defaultAdvancedValue key)
      else map_of al k)"
  by (simp add: save_field_def AList.update_conv')

lemma save_fields_other: "\<forall>f \<in> set ks. k \<noteq> field_name f \<Longrightarrow> map_of (fold (save_field st v) ks al) k = map_of al k"
  by (induction ks arbitrary: al) (simp_all add: save_field_map)

lemma save_fields_same:
  "distinct ks \<Longrightarrow> f \<in> set ks \<Longrightarrow> map_of (fold (save_field st v) ks al) (field_name f) =
     Some (if isInboundAdvancedFieldEnabled st v f then normalizeAdvancedValue f (js_field (JObj al) (field_name f))
           else defaultAdvancedValue f)"
proof (induction ks arbitrary: al)
  case Nil
  then show ?case by simp
next
  case (Cons k ks)
  show ?case
  proof (cases "f = k")
    case True
    then have "\<forall>g \<in> set ks. field_name f \<noteq> field_name g" using Cons.prems(1) by auto
    then show ?thesis using True by (simp add: save_fields_other save_field_map)
  next
    case False
    then show ?thesis
      using Cons.IH [of "save_field st v k al"] Cons.prems by (simp add: js_field_JObj save_field_map)
  qed
qed

lemma distinct_advancedFields [simp]: "distinct advancedFields"
  by (simp add: advancedFields_def)

lemma base_key_simps:
  "\<forall>f. ''id'' \<noteq> field_name f" "\<forall>f. ''clients'' \<noteq> field_name f" "\<forall>f. ''remark'' \<noteq> field_name f"
  "\<forall>f. ''protocol'' \<noteq> field_name f" "\<forall>f. ''port'' \<noteq> field_name f" "\<forall>f. ''network'' \<noteq> field_name f"
  "\<forall>f. ''security'' \<noteq> field_name f" "\<forall>f. ''uuid'' \<noteq> field_name f" "\<forall>f. ''enabled'' \<noteq> field_name f"
  "\<forall>f. ''initial_client'' \<noteq> field_name f"
  using field_name_neq by metis+

lemmas assign_base = base_key_simps [THEN fold_assign_other]

lemma assign_values_map:
  "map_of (assign_values v al) (field_name f) = Some (iv_adv v f)"
  "map_of (assign_values v al) ''network'' = Some (JStr (iv_network v))"
  "map_of (assign_values v al) ''security'' = Some (JStr (iv_security v))"
  "map_of (assign_values v al) ''protocol'' = Some (JStr (iv_protocol v))"
  "map_of (assign_values v al) ''remark'' = Some (JStr (iv_remark v))"
  "map_of (assign_values v al) ''enabled'' = Some (JBool (iv_enabled v))"
  "map_of (assign_values v al) ''uuid'' = Some (text_json (iv_uuid v))"
  "map_of (assign_values v al) ''id'' = map_of al ''id''"
  "map_of (assign_values v al) ''clients'' = map_of al ''clients''"
  unfolding assign_values_def fold_assign_same assign_base by (simp_all add: AList.update_conv')

definition saved_value :: "cap_state \<Rightarrow> inbound_values \<Rightarrow> adv_field \<Rightarrow> jsval" where
  "saved_value st v key =
     (if isInboundAdvancedFieldEnabled st v key then normalizeAdvancedValue key (iv_adv v key) else defaultAdvancedValue key)"

lemma enabled_normalized [simp]:
  "isInboundAdvancedFieldEnabled st (normalizeInboundCombination st v) key = isInboundAdvancedFieldEnabled st v key"
  by (simp add: isInboundAdvancedFieldEnabled_def combination_nf.nf_idem)

lemma save_other: "\<forall>f. k \<noteq> field_name f \<Longrightarrow> map_of (fold (save_field st v) ks al) k = map_of al k"
  by (simp add: save_fields_other)

lemmas save_base = base_key_simps [THEN save_other]

lemma saved_fields: "map_of (fold (save_field st v) advancedFields al) (field_name f) =
     Some (if isInboundAdvancedFieldEnabled st v f then normalizeAdvancedValue f (js_field (JObj al) (field_name f))
           else defaultAdvancedValue f)"
  by (rule save_fields_same) simp_all

definition payload_fields :: "cap_state \<Rightarrow> inbound option \<Rightarrow> inbound_values \<Rightarrow> (string \<times> jsval) list" where
  "payload_fields st inb v =
     (let w = normalizeInboundCombination st v in
      fold (save_field st w) advancedFields (AList.update ''port'' (JNum (of_int (iv_port w)))
        (assign_values w (AList.delete ''clients'' (AList.delete ''id'' (case inb of None \<Rightarrow> [] | Some i \<Rightarrow> inbound_entries i))))))"

lemma payload_initial:
  "buildFullInboundPayload st inb v ic =
     (case ic of Some c \<Rightarrow> if inb = None \<or> ib_id (the inb) = 0
         then AList.update ''initial_client'' (payload_json c) (payload_fields st inb v)
         else AList.delete ''initial_client'' (payload_fields st inb v)
      | None \<Rightarrow> AList.delete ''initial_client'' (payload_fields st inb v))"
  by (simp add: buildFullInboundPayload_def payload_fields_def Let_def split: option.split)

lemma payload_fields_map:
  "map_of (payload_fields st inb v) (field_name key) = Some (saved_value st v key)"
  "map_of (payload_fields st inb v) ''protocol'' = Some (JStr (iv_protocol (normalizeInboundCombination st v)))"
  "map_of (payload_fields st inb v) ''network'' = Some (JStr (iv_network (normalizeInboundCombination st v)))"
  "map_of (payload_fields st inb v) ''security'' = Some (JStr (iv_security (normalizeInboundCombination st v)))"
  "map_of (payload_fields st inb v) ''port'' = Some (JNum (of_int (iv_port v)))"
  "map_of (payload_fields st inb v) ''remark'' = Some (JStr (iv_remark v))"
  "map_of (payload_fields st inb v) ''enabled'' = Some (JBool (iv_enabled v))"
  "map_of (payload_fields st inb v) ''uuid'' = Some (text_json (iv_uuid v))"
  "map_of (payload_fields st inb v) ''id'' = None"
  "map_of (payload_fields st inb v) ''clients'' = None"
  unfolding payload_fields_def Let_def saved_fields save_base
  by (simp_all add: AList.update_conv' AList.delete_conv' restrict_map_def js_field_JObj assign_values_map saved_value_def)

lemma payload_map_other:
  "k \<noteq> ''initial_client'' \<Longrightarrow>
   map_of (buildFullInboundPayload st inb v ic) k = map_of (payload_fields st inb v) k"
  by (simp add: payload_initial AList.update_conv' AList.delete_conv' restrict_map_def split: option.split)

lemma payload_initial_client:
  "map_of (buildFullInboundPayload st inb v ic) ''initial_client'' =
      (if inb = None \<or> ib_id (the inb) = 0 then map_option payload_json ic else None)"
  by (simp add: payload_initial AList.update_conv' AList.delete_conv' restrict_map_def split: option.split)

lemma payload_map_simps:
  "map_of (buildFullInboundPayload st inb v ic) (field_name key) = map_of (payload_fields st inb v) (field_name key)"
  "map_of (buildFullInboundPayload st inb v ic) ''protocol'' = map_of (payload_fields st inb v) ''protocol''"
  "map_of (buildFullInboundPayload st inb v ic) ''network'' = map_of (payload_fields st inb v) ''network''"
  "map_of (buildFullInboundPayload st inb v ic) ''security'' = map_of (payload_fields st inb v) ''security''"
  "map_of (buildFullInboundPayload st inb v ic) ''port'' = map_of (payload_fields st inb v) ''port''"
  "map_of (buildFullInboundPayload st inb v ic) ''remark'' = map_of (payload_fields st inb v) ''remark''"
  "map_of (buildFullInboundPayload st inb v ic) ''enabled'' = map_of (payload_fields st inb v) ''enabled''"
  "map_of (buildFullInboundPayload st inb v ic) ''uuid'' = map_of (payload_fields st inb v) ''uuid''"
  "map_of (buildFullInboundPayload st inb v ic) ''id'' = map_of (payload_fields st inb v) ''id''"
  "map_of (buildFullInboundPayload st inb v ic) ''clients'' = map_of (payload_fields st inb v) ''clients''"
  by (simp_all add: payload_map_other)

text \<open>
  C26.
  What is sent when the form is saved: the normalised combination with remark, port, credential and state of the
  form; every advanced field, normalised when the combination uses it and reset to its default otherwise, whatever
  the stored node had there; no id and no clients; and the first client exactly when the node is new and one was
  given.
\<close>

theorem payload_carries_the_form:
  "let P = map_of (buildFullInboundPayload st inb v ic); w = normalizeInboundCombination st v in
   (\<forall>key. P (field_name key) = Some (saved_value st v key))
   \<and> P ''protocol'' = Some (JStr (iv_protocol w)) \<and> P ''network'' = Some (JStr (iv_network w))
   \<and> P ''security'' = Some (JStr (iv_security w)) \<and> P ''port'' = Some (JNum (of_int (iv_port v)))
   \<and> P ''remark'' = Some (JStr (iv_remark v)) \<and> P ''enabled'' = Some (JBool (iv_enabled v))
   \<and> P ''uuid'' = Some (text_json (iv_uuid v)) \<and> P ''id'' = None \<and> P ''clients'' = None
   \<and> P ''initial_client'' = (if inb = None \<or> ib_id (the inb) = 0 then map_option payload_json ic else None)"
  unfolding Let_def by (simp add: payload_map_simps payload_fields_map payload_initial_client)

end
