(* ===== verification/InboundDialog.thy ===== *)
theory InboundDialog
  imports InboundPayload Endpoints
begin

text \<open>
  The dialog \<^verbatim>\<open>InboundModal\<close> of \<^verbatim>\<open>src/web/src/routes/InboundsPageForms.tsx\<close>
  as a state machine: \<open>dialog\<close> holds the values of its two forms and its switches, \<open>dialog_step\<close> is one user
  action, and \<open>dialog_reachable\<close> are the states a dialog can be in. The schema validation of
  \<^verbatim>\<open>zod\<close> and the certificate query are outside; what they deliver is an argument of the
  event, as are the values drawn at random. \<open>submit\<close> is the request a validated form is saved with.
\<close>

section \<open>State\<close>

record cert_status =
  crt_domain :: string
  crt_email :: string
  crt_issued :: bool
  crt_cert_path :: string
  crt_key_path :: string

record dialog =
  dg_inbound :: inbound
  dg_form :: inbound_values
  dg_client :: client_values
  dg_advancedOpen :: bool
  dg_templateId :: "template_id option" \<comment> \<open>\<open>None\<close> is \<^verbatim>\<open>'keep'\<close>\<close>
  dg_createClient :: bool
  dg_credentialOpen :: bool

definition open_dialog :: "cap_state \<Rightarrow> cal_day \<Rightarrow> string \<Rightarrow> string \<Rightarrow> string \<Rightarrow> inbound \<Rightarrow> dialog" where
  "open_dialog st cal u1 u2 u3 inb =
     \<lparr>dg_inbound = inb, dg_form = inboundFormValues st inb, dg_client = clientFormValues st cal u1 u2 u3 inb None,
      dg_advancedOpen = False, dg_templateId = (if ib_id inb \<noteq> 0 then None else Some T_recommended),
      dg_createClient = (ib_id inb = 0), dg_credentialOpen = False\<rparr>"

section \<open>Actions\<close>

definition set_adv :: "adv_field \<Rightarrow> string \<Rightarrow> dialog \<Rightarrow> dialog" where \<comment> \<open>\<^verbatim>\<open>form.setValue(key, text)\<close>\<close>
  "set_adv key val m = m\<lparr>dg_form := (dg_form m)\<lparr>iv_adv := (iv_adv (dg_form m))(key := JStr val)\<rparr>\<rparr>"

definition form_text :: "dialog \<Rightarrow> adv_field \<Rightarrow> string option" where \<comment> \<open>\<^verbatim>\<open>form.getValues(key)\<close> of a text field\<close>
  "form_text m key = (case iv_adv (dg_form m) key of JStr s \<Rightarrow> Some s | _ \<Rightarrow> None)"

definition set_client_credential :: "client_credential \<Rightarrow> dialog \<Rightarrow> dialog" where
  "set_client_credential c m = m\<lparr>dg_client := (dg_client m)\<lparr>cv_uuid := cc_uuid c, cv_credential_id := cc_credential_id c,
     cv_password := cc_password c\<rparr>\<rparr>"

definition resetInitialClientForProtocol :: "cap_state \<Rightarrow> string \<Rightarrow> string \<Rightarrow> string \<Rightarrow> string \<Rightarrow> dialog \<Rightarrow> dialog" where
  "resetInitialClientForProtocol st nextProtocol u1 u2 u3 m =
     (let generated = generatedClientCredentialValues st nextProtocol u1 u2 u3;
          currentName = str_or (cv_email (dg_client m)) (defaultClientName (Some (iv_remark (dg_form m))))
      in set_client_credential generated (m\<lparr>dg_client := (dg_client m)\<lparr>cv_email := currentName\<rparr>\<rparr>))"

definition regenerateCredential :: "string \<Rightarrow> dialog \<Rightarrow> dialog" where
  "regenerateCredential fresh m =
     m\<lparr>dg_form := (dg_form m)\<lparr>iv_uuid := Some (generatedProtocolCredential (iv_protocol (dg_form m)) fresh)\<rparr>\<rparr>"

definition regenerateInitialClientCredential :: "cap_state \<Rightarrow> string \<Rightarrow> string \<Rightarrow> string \<Rightarrow> dialog \<Rightarrow> dialog" where
  "regenerateInitialClientCredential st u1 u2 u3 m =
     set_client_credential (generatedClientCredentialValues st (iv_protocol (dg_form m)) u1 u2 u3) m"

definition regenerateRealityShortID :: "nat list \<Rightarrow> dialog \<Rightarrow> dialog" where
  "regenerateRealityShortID bytes m = set_adv F_reality_short_id (randomHex bytes) m"

definition applyTemplate ::
  "cap_state \<Rightarrow> template_id \<Rightarrow> draws \<Rightarrow> string \<Rightarrow> string \<Rightarrow> string \<Rightarrow> dialog \<Rightarrow> dialog" where
  "applyTemplate st tid d u1 u2 u3 m =
     (let previousProtocol = iv_protocol (dg_form m);
          next = applyInboundTemplate st (as_inbound (dg_form m)) tid d;
          m' = m\<lparr>dg_templateId := Some tid, dg_form := next\<rparr>
      in if ib_id (dg_inbound m) = 0 \<and> iv_protocol next \<noteq> previousProtocol
         then resetInitialClientForProtocol st (iv_protocol next) u1 u2 u3 m' else m')"

definition requestApplyTemplate ::
  "cap_state \<Rightarrow> template_id \<Rightarrow> draws \<Rightarrow> string \<Rightarrow> string \<Rightarrow> string \<Rightarrow> bool \<Rightarrow> dialog \<Rightarrow> dialog" where
  "requestApplyTemplate st tid d u1 u2 u3 accepted m =
     (if ib_id (dg_inbound m) \<noteq> 0 \<and> \<not> accepted then m else applyTemplate st tid d u1 u2 u3 m)"

definition hasAttachableSettingCert :: "cert_status option \<Rightarrow> bool" where
  "hasAttachableSettingCert cert = (case cert of None \<Rightarrow> False
     | Some c \<Rightarrow> crt_issued c \<and> trim (crt_cert_path c) \<noteq> [] \<and> trim (crt_key_path c) \<noteq> [])"

definition shouldSyncInboundWSHost :: "string \<Rightarrow> string option \<Rightarrow> string option \<Rightarrow> bool" where
  "shouldSyncInboundWSHost network wsHost previousTLSSNI =
     (if network \<noteq> ''ws'' \<and> network \<noteq> ''h2'' then False
      else let currentHost = trim (ostr wsHost) in
        if currentHost = [] \<or> currentHost = ''example.com'' then True
        else let oldSNI = trim (ostr previousTLSSNI) in oldSNI \<noteq> [] \<and> currentHost = oldSNI)"

definition attachSettingCert :: "cert_status option \<Rightarrow> dialog \<Rightarrow> dialog" where
  "attachSettingCert cert m =
     (case cert of None \<Rightarrow> m | Some c \<Rightarrow>
       if \<not> hasAttachableSettingCert cert then m
       else (let previousTLSSNI = form_text m F_tls_sni;
                 m1 = set_adv F_tls_key_file (trim (crt_key_path c)) (set_adv F_tls_cert_file (trim (crt_cert_path c)) m);
                 domain = trim (crt_domain c)
             in if domain = [] then m1
                else (let m2 = set_adv F_tls_sni domain m1
                      in if shouldSyncInboundWSHost (iv_network (dg_form m2)) (form_text m2 F_ws_host) previousTLSSNI
                         then set_adv F_ws_host domain m2 else m2)))"

definition clearTLSCert :: "dialog \<Rightarrow> dialog" where
  "clearTLSCert m = set_adv F_tls_key_file [] (set_adv F_tls_cert_file [] m)"

definition generateRealityKeys :: "(string \<times> string) option \<Rightarrow> dialog \<Rightarrow> dialog" where \<comment> \<open>\<open>None\<close>: the request failed\<close>
  "generateRealityKeys keypair m = (case keypair of None \<Rightarrow> m
     | Some (priv, pub) \<Rightarrow> set_adv F_reality_public_key pub (set_adv F_reality_private_key priv m))"

definition applyRealityTarget :: "string \<Rightarrow> dialog \<Rightarrow> dialog" where
  "applyRealityTarget serverName m =
     set_adv F_reality_server_names serverName (set_adv F_reality_dest (serverName @ '':443'') m)"

definition clearRealitySettings :: "dialog \<Rightarrow> dialog" where
  "clearRealitySettings m = fold (\<lambda>key. set_adv key [])
     [F_reality_dest, F_reality_server_names, F_reality_short_id, F_reality_private_key, F_reality_public_key] m"

definition chooseProtocol :: "cap_state \<Rightarrow> string \<Rightarrow> string \<Rightarrow> string \<Rightarrow> string \<Rightarrow> string \<Rightarrow> dialog \<Rightarrow> dialog" where
  "chooseProtocol st nextProtocol fresh u1 u2 u3 m =
     (let previousProtocol = iv_protocol (dg_form m);
          m' = m\<lparr>dg_templateId := None,
                 dg_form := sanitizeInboundFormValues st (dg_form m) (no_change\<lparr>ch_protocol := Some nextProtocol\<rparr>) fresh\<rparr>
      in if ib_id (dg_inbound m) = 0 \<and> nextProtocol \<noteq> previousProtocol
         then resetInitialClientForProtocol st nextProtocol u1 u2 u3 m' else m')"

definition chooseNetwork :: "cap_state \<Rightarrow> string \<Rightarrow> string \<Rightarrow> dialog \<Rightarrow> dialog" where
  "chooseNetwork st network fresh m = m\<lparr>dg_templateId := None,
     dg_form := sanitizeInboundFormValues st (dg_form m) (no_change\<lparr>ch_network := Some network\<rparr>) fresh\<rparr>"

definition chooseSecurity :: "cap_state \<Rightarrow> string \<Rightarrow> string \<Rightarrow> dialog \<Rightarrow> dialog" where
  "chooseSecurity st security fresh m = m\<lparr>dg_templateId := None,
     dg_form := sanitizeInboundFormValues st (dg_form m) (no_change\<lparr>ch_security := Some security\<rparr>) fresh\<rparr>"

datatype dialog_event =
    ApplyTemplateE template_id draws string string string bool
  | ChooseProtocolE string string string string string
  | ChooseNetworkE string string
  | ChooseSecurityE string string
  | AttachCertE "cert_status option"
  | ClearCertE
  | RealityKeysE "(string \<times> string) option"
  | RealityTargetE string
  | ClearRealityE
  | NewCredentialE string
  | NewClientCredentialE string string string
  | NewShortIdE "nat list"
  | EditTextE adv_field string      \<comment> \<open>a registered input of an advanced field\<close>
  | EditBaseE string int "string option" bool \<comment> \<open>remark, port, credential and state\<close>
  | EditClientE client_values
  | ToggleCreateE bool
  | ToggleAdvancedE
  | ToggleCredentialE

fun dialog_step :: "cap_state \<Rightarrow> dialog_event \<Rightarrow> dialog \<Rightarrow> dialog" where
  "dialog_step st (ApplyTemplateE tid d u1 u2 u3 accepted) m = requestApplyTemplate st tid d u1 u2 u3 accepted m"
| "dialog_step st (ChooseProtocolE p fresh u1 u2 u3) m = chooseProtocol st p fresh u1 u2 u3 m"
| "dialog_step st (ChooseNetworkE n fresh) m = chooseNetwork st n fresh m"
| "dialog_step st (ChooseSecurityE s fresh) m = chooseSecurity st s fresh m"
| "dialog_step st (AttachCertE cert) m = attachSettingCert cert m"
| "dialog_step st ClearCertE m = clearTLSCert m"
| "dialog_step st (RealityKeysE keypair) m = generateRealityKeys keypair m"
| "dialog_step st (RealityTargetE s) m = applyRealityTarget s m"
| "dialog_step st ClearRealityE m = clearRealitySettings m"
| "dialog_step st (NewCredentialE fresh) m = regenerateCredential fresh m"
| "dialog_step st (NewClientCredentialE u1 u2 u3) m = regenerateInitialClientCredential st u1 u2 u3 m"
| "dialog_step st (NewShortIdE bytes) m = regenerateRealityShortID bytes m"
| "dialog_step st (EditTextE key val) m = set_adv key val m"
| "dialog_step st (EditBaseE remark port uuid enabled) m =
     m\<lparr>dg_form := (dg_form m)\<lparr>iv_remark := remark, iv_port := port, iv_uuid := uuid, iv_enabled := enabled\<rparr>\<rparr>"
| "dialog_step st (EditClientE v) m = m\<lparr>dg_client := v\<rparr>"
| "dialog_step st (ToggleCreateE b) m = m\<lparr>dg_createClient := b\<rparr>"
| "dialog_step st ToggleAdvancedE m = m\<lparr>dg_advancedOpen := \<not> dg_advancedOpen m\<rparr>"
| "dialog_step st ToggleCredentialE m = m\<lparr>dg_credentialOpen := \<not> dg_credentialOpen m\<rparr>"

text \<open>The request of a validated form: \<^verbatim>\<open>submitInbound\<close> and the mutation it starts.\<close>

definition submit :: "cap_state \<Rightarrow> int \<Rightarrow> cal_parse \<Rightarrow> dialog \<Rightarrow> inbounds_op" where
  "submit st now parse m =
     (let initialClient = (if ib_id (dg_inbound m) = 0 \<and> dg_createClient m
            then Some (buildClientPayload st now parse (dg_client m) (iv_protocol (dg_form m))) else None)
      in if ib_id (dg_inbound m) \<noteq> 0
         then UpdateInbound (ib_id (dg_inbound m)) (JObj (buildFullInboundPayload st (Some (dg_inbound m)) (dg_form m) None))
         else CreateInbound (JObj (buildFullInboundPayload st (Some (dg_inbound m)) (dg_form m) initialClient)))"

inductive dialog_reachable :: "cap_state \<Rightarrow> inbound \<Rightarrow> dialog \<Rightarrow> bool" for st inb where
  opened: "dialog_reachable st inb (open_dialog st cal u1 u2 u3 inb)"
| stepped: "dialog_reachable st inb m \<Longrightarrow> dialog_reachable st inb (dialog_step st e m)"

section \<open>Invariants\<close>

definition keeps_combination :: "dialog \<Rightarrow> dialog \<Rightarrow> bool" where \<comment> \<open>a step that leaves the combination alone\<close>
  "keeps_combination m m' = (iv_protocol (dg_form m') = iv_protocol (dg_form m)
     \<and> iv_network (dg_form m') = iv_network (dg_form m) \<and> iv_security (dg_form m') = iv_security (dg_form m)
     \<and> dg_templateId m' = dg_templateId m \<and> dg_inbound m' = dg_inbound m)"

lemma keeps_refl: "keeps_combination m m"
  by (simp add: keeps_combination_def)

lemma keeps_set_adv: "keeps_combination m m' \<Longrightarrow> keeps_combination m (set_adv key val m')"
  by (simp add: keeps_combination_def set_adv_def)

lemma keeps_credential: "keeps_combination m m' \<Longrightarrow> keeps_combination m (set_client_credential c m')"
  by (simp add: keeps_combination_def set_client_credential_def)

lemma keeps_reset: "keeps_combination m m' \<Longrightarrow> keeps_combination m (resetInitialClientForProtocol st p u1 u2 u3 m')"
  by (auto simp: resetInitialClientForProtocol_def Let_def keeps_combination_def set_client_credential_def)

lemma keeps_ok: "keeps_combination m m' \<Longrightarrow> combination_ok st (dg_form m') = combination_ok st (dg_form m)"
  unfolding keeps_combination_def by (elim conjE) (rule combination_ok_cong)

lemma keeps_attach: "keeps_combination m (attachSettingCert cert m)"
  by (auto simp: attachSettingCert_def Let_def keeps_refl intro!: keeps_set_adv split: option.split)

lemma keeps_reality: "keeps_combination m (clearRealitySettings m)"
  by (simp add: clearRealitySettings_def keeps_refl keeps_set_adv)

lemma keeps_keys: "keeps_combination m (generateRealityKeys keypair m)"
  by (auto simp: generateRealityKeys_def keeps_refl intro!: keeps_set_adv split: option.split)

lemmas keeps_rules = keeps_refl keeps_set_adv keeps_credential keeps_attach keeps_reality keeps_keys

text \<open>Every event either leaves the combination and the highlighted template alone, applies a template, or
  changes the combination by hand and un-highlights the template.\<close>

lemma dialog_step_cases:
  "keeps_combination m (dialog_step st e m)
   \<or> (\<exists>tid d u1 u2 u3. dialog_step st e m = applyTemplate st tid d u1 u2 u3 m)
   \<or> (dg_templateId (dialog_step st e m) = None \<and> combination_ok st (dg_form (dialog_step st e m))
       \<and> dg_inbound (dialog_step st e m) = dg_inbound m)"
proof (cases e)
  case (ApplyTemplateE tid d u1 u2 u3 accepted)
  then have "dialog_step st e m = m \<or> dialog_step st e m = applyTemplate st tid d u1 u2 u3 m"
    by (simp add: requestApplyTemplate_def)
  then show ?thesis using keeps_refl by metis
next
  case (ChooseProtocolE p fresh u1 u2 u3)
  then show ?thesis
    by (simp add: chooseProtocol_def Let_def resetInitialClientForProtocol_def set_client_credential_def)
next
  case (EditBaseE remark port uuid enabled)
  then show ?thesis by (simp add: keeps_combination_def)
qed (auto simp: chooseNetwork_def chooseSecurity_def clearTLSCert_def applyRealityTarget_def
      regenerateInitialClientCredential_def regenerateRealityShortID_def regenerateCredential_def
      intro: keeps_rules simp: keeps_combination_def [of _ "_\<lparr>dg_form := _\<rparr>"] keeps_combination_def [of _ "_\<lparr>dg_client := _\<rparr>"]
      keeps_combination_def [of _ "_\<lparr>dg_createClient := _\<rparr>"] keeps_combination_def [of _ "_\<lparr>dg_advancedOpen := _\<rparr>"]
      keeps_combination_def [of _ "_\<lparr>dg_credentialOpen := _\<rparr>"])

lemma applyTemplate_fields:
  "iv_protocol (dg_form (applyTemplate st tid d u1 u2 u3 m)) = iv_protocol (applyInboundTemplate st (as_inbound (dg_form m)) tid d)"
  "iv_network (dg_form (applyTemplate st tid d u1 u2 u3 m)) = iv_network (applyInboundTemplate st (as_inbound (dg_form m)) tid d)"
  "iv_security (dg_form (applyTemplate st tid d u1 u2 u3 m)) = iv_security (applyInboundTemplate st (as_inbound (dg_form m)) tid d)"
  "dg_templateId (applyTemplate st tid d u1 u2 u3 m) = Some tid"
  "dg_inbound (applyTemplate st tid d u1 u2 u3 m) = dg_inbound m"
  by (simp_all add: applyTemplate_def Let_def resetInitialClientForProtocol_def set_client_credential_def)

lemma combination_ok_applyTemplate: "combination_ok st (dg_form (applyTemplate st tid d u1 u2 u3 m))"
  using combination_ok_cong [OF applyTemplate_fields(1-3)] by simp

lemma dialog_combination_ok: "dialog_reachable st inb m \<Longrightarrow> combination_ok st (dg_form m) \<and> dg_inbound m = inb"
proof (induction rule: dialog_reachable.induct)
  case (opened cal u1 u2 u3)
  then show ?case by (simp add: open_dialog_def)
next
  case (stepped m e)
  then show ?case
    using dialog_step_cases [of m st e]
  proof (elim disjE exE)
    assume kept: "keeps_combination m (dialog_step st e m)"
    then have "dg_inbound (dialog_step st e m) = dg_inbound m" by (simp add: keeps_combination_def)
    then show ?thesis using stepped.IH keeps_ok [OF kept] by simp
  next
    fix tid d u1 u2 u3
    assume e: "dialog_step st e m = applyTemplate st tid d u1 u2 u3 m"
    show ?thesis unfolding e using combination_ok_applyTemplate applyTemplate_fields(5) stepped.IH by simp
  qed (use stepped.IH in simp)
qed

text \<open>The template shown as selected is the one the form holds.\<close>

definition template_matches :: "inbound_values \<Rightarrow> template_id \<Rightarrow> bool" where
  "template_matches v tid = (\<exists>t \<in> set inboundTemplates. tp_id t = tid \<and> iv_protocol v = tp_protocol t
     \<and> iv_network v = tp_network t \<and> iv_security v = tp_security t)"

lemma template_matches_cong:
  "iv_protocol v = iv_protocol w \<Longrightarrow> iv_network v = iv_network w \<Longrightarrow> iv_security v = iv_security w \<Longrightarrow>
   template_matches v tid = template_matches w tid"
  by (simp add: template_matches_def)

lemma template_matches_applied:
  "template_matches (dg_form (applyTemplate resetInboundCapabilitiesForTest tid d u1 u2 u3 m)) tid"
  unfolding template_matches_cong [OF applyTemplate_fields(1-3)] unfolding template_matches_def
  by (rule template_combination)

lemma createDefault_matches:
  "template_matches (inboundFormValues resetInboundCapabilitiesForTest
     (createDefaultInbound resetInboundCapabilitiesForTest fresh d)) T_recommended"
proof -
  let ?st = resetInboundCapabilitiesForTest
  let ?w = "applyInboundTemplate ?st (seed_inbound fresh) T_recommended d"
  have m: "template_matches ?w T_recommended"
    unfolding template_matches_def by (rule template_combination)
  then have ne: "iv_network ?w \<noteq> []" "iv_security ?w \<noteq> []"
    by (auto simp: template_matches_def inboundTemplates_def templates)
  let ?v = "\<lparr>iv_remark = iv_remark ?w, iv_protocol = iv_protocol ?w, iv_port = iv_port ?w,
      iv_network = iv_network ?w, iv_security = iv_security ?w, iv_uuid = Some (ostr (iv_uuid ?w)), iv_enabled = iv_enabled ?w,
      iv_adv = (\<lambda>key. or_default (inbound_field (createDefaultInbound ?st fresh d) key) key)\<rparr>"
  have "combination_ok ?st ?v" using applyInboundTemplate_ok by (subst combination_ok_cong [of _ ?w]) simp_all
  then have "inboundFormValues ?st (createDefaultInbound ?st fresh d) = ?v"
    using ne by (simp add: inboundFormValues_def createDefaultInbound_def as_inbound_def combination_nf.nf_normal)
  then show ?thesis using m by (simp add: template_matches_cong [of ?v ?w])
qed

lemma dialog_template_matches:
  assumes "dialog_reachable resetInboundCapabilitiesForTest inb m"
    and "ib_id inb \<noteq> 0 \<or> (\<exists>fresh d. inb = createDefaultInbound resetInboundCapabilitiesForTest fresh d)"
    and "dg_templateId m = Some tid"
  shows "template_matches (dg_form m) tid"
  using assms(1,3)
proof (induction arbitrary: tid rule: dialog_reachable.induct)
  case (opened cal u1 u2 u3)
  then show ?case using assms(2) createDefault_matches by (auto simp: open_dialog_def split: if_splits)
next
  case (stepped m e)
  let ?m = "dialog_step resetInboundCapabilitiesForTest e m"
  consider (keep) "keeps_combination m ?m"
    | (template) tid' d u1 u2 u3 where "?m = applyTemplate resetInboundCapabilitiesForTest tid' d u1 u2 u3 m"
    | (manual) "dg_templateId ?m = None"
    using dialog_step_cases [of m resetInboundCapabilitiesForTest e] by (elim disjE exE conjE) metis+
  then show ?case
  proof cases
    case keep
    then have "template_matches (dg_form ?m) tid = template_matches (dg_form m) tid" "dg_templateId m = Some tid"
      using stepped.prems by (simp_all add: keeps_combination_def template_matches_def)
    then show ?thesis using stepped.IH by simp
  next
    case template
    then show ?thesis using stepped.prems template_matches_applied applyTemplate_fields(4) by simp
  next
    case manual
    then show ?thesis using stepped.prems by simp
  qed
qed

text \<open>
  C4.
  Whatever the user does in the dialog, the combination of protocol, network and security it shows is one the
  tables allow, and it is the combination that is saved: no save silently changes it. An existing node is
  updated under its own id, a new one is created, and a first client is sent only with a new node and only
  when the user asked for it.
\<close>

theorem dialog_saves_what_it_shows:
  assumes "dialog_reachable st inb m"
  shows "combination_ok st (dg_form m)
    \<and> (\<exists>payload. submit st now parse m =
          (if ib_id inb \<noteq> 0 then UpdateInbound (ib_id inb) (JObj payload) else CreateInbound (JObj payload))
        \<and> map_of payload ''protocol'' = Some (JStr (iv_protocol (dg_form m)))
        \<and> map_of payload ''network'' = Some (JStr (iv_network (dg_form m)))
        \<and> map_of payload ''security'' = Some (JStr (iv_security (dg_form m)))
        \<and> (map_of payload ''initial_client'' \<noteq> None \<longleftrightarrow> ib_id inb = 0 \<and> dg_createClient m))"
proof -
  have ok: "combination_ok st (dg_form m)" and inb: "dg_inbound m = inb"
    using dialog_combination_ok [OF assms] by auto
  define ic where "ic = (if ib_id inb = 0 \<and> dg_createClient m
     then Some (buildClientPayload st now parse (dg_client m) (iv_protocol (dg_form m))) else None)"
  let ?p = "buildFullInboundPayload st (Some inb) (dg_form m) ic"
  have "submit st now parse m = (if ib_id inb \<noteq> 0 then UpdateInbound (ib_id inb) (JObj ?p) else CreateInbound (JObj ?p))"
    by (simp add: submit_def inb ic_def)
  moreover have "map_of ?p ''protocol'' = Some (JStr (iv_protocol (dg_form m)))"
    "map_of ?p ''network'' = Some (JStr (iv_network (dg_form m)))"
    "map_of ?p ''security'' = Some (JStr (iv_security (dg_form m)))"
    unfolding payload_map_simps by (simp_all add: payload_fields_map combination_nf.nf_normal [OF ok])
  moreover have "map_of ?p ''initial_client'' \<noteq> None \<longleftrightarrow> ib_id inb = 0 \<and> dg_createClient m"
    by (simp add: payload_initial_client ic_def)
  ultimately show ?thesis using ok by blast
qed

definition tuic_dialog :: dialog where
  "tuic_dialog = dialog_step resetInboundCapabilitiesForTest (ChooseProtocolE ''tuic'' [] [] [] [])
     (open_dialog resetInboundCapabilitiesForTest (\<lambda>t. (2025, 0, 2)) [] [] [] sample_inbound)"

lemma tuic_dialog_reachable: "dialog_reachable resetInboundCapabilitiesForTest sample_inbound tuic_dialog"
  unfolding tuic_dialog_def by (rule dialog_reachable.stepped [OF dialog_reachable.opened])

theorem dialog_saves_what_it_shows_witness:
  "\<exists>payload. submit resetInboundCapabilitiesForTest 0 (\<lambda>s. None) tuic_dialog = UpdateInbound 1 (JObj payload)
     \<and> map_of payload ''network'' = Some (JStr (iv_network (dg_form tuic_dialog)))
     \<and> map_of payload ''initial_client'' = None"
  using dialog_saves_what_it_shows [OF tuic_dialog_reachable, of 0 "\<lambda>s. None"]
  by (auto simp: sample_inbound_def)

text \<open>
  
  With the built-in tables, the node type highlighted in the dialog is always the one in force: in every state of
  a dialog opened on an existing node or on the default new node, the protocol, network and security of the form
  are those of the highlighted template, and a manual change of any of them removes the highlight.
\<close>

theorem selected_template_is_in_force:
  assumes "dialog_reachable resetInboundCapabilitiesForTest inb m"
    and "ib_id inb \<noteq> 0 \<or> (\<exists>fresh d. inb = createDefaultInbound resetInboundCapabilitiesForTest fresh d)"
    and "dg_templateId m = Some tid"
  shows "\<exists>t \<in> set inboundTemplates. tp_id t = tid \<and> iv_protocol (dg_form m) = tp_protocol t
     \<and> iv_network (dg_form m) = tp_network t \<and> iv_security (dg_form m) = tp_security t"
  using dialog_template_matches [OF assms] unfolding template_matches_def .

definition udp_dialog :: dialog where
  "udp_dialog = dialog_step resetInboundCapabilitiesForTest (ApplyTemplateE T_udp_fast sample_draws [] [] [] True) tuic_dialog"

theorem selected_template_is_in_force_witness:
  "\<exists>t \<in> set inboundTemplates. tp_id t = T_udp_fast \<and> iv_protocol (dg_form udp_dialog) = tp_protocol t"
proof -
  have "dialog_reachable resetInboundCapabilitiesForTest sample_inbound udp_dialog"
    unfolding udp_dialog_def by (rule dialog_reachable.stepped [OF tuic_dialog_reachable])
  moreover have "dg_templateId udp_dialog = Some T_udp_fast"
    by (simp add: udp_dialog_def requestApplyTemplate_def applyTemplate_fields)
  ultimately show ?thesis
    using selected_template_is_in_force [of sample_inbound udp_dialog T_udp_fast] by (auto simp: sample_inbound_def)
qed

end
