(* ===== verification/Routing.thy ===== *)
theory Routing
  imports Cores Format
begin

text \<open>
  \<^verbatim>\<open>src/web/src/routes/RoutingPage.tsx\<close>, the data of the page: how a rule is described, which
  inbounds, clients and outbounds its form offers, which cores its source needs, and the diagnostics. The
  lookups follow the source: by id when there is one, by tag otherwise, the first match in list order.
\<close>

section \<open>Texts\<close>

text \<open>The non-ASCII texts of this part of the user interface, as UTF-8 bytes.\<close>

definition zh_all_traffic :: string where
  "zh_all_traffic = [CHR 0xE5, CHR 0x85, CHR 0xA8, CHR 0xE9, CHR 0x83, CHR 0xA8, CHR 0xE6, CHR 0xB5, CHR 0x81, CHR 0xE9,
    CHR 0x87, CHR 0x8F]"

definition zh_any_traffic :: string where
  "zh_any_traffic = [CHR 0xE6, CHR 0x89, CHR 0x80, CHR 0xE6, CHR 0x9C, CHR 0x89, CHR 0xE6, CHR 0xB5, CHR 0x81, CHR 0xE9,
    CHR 0x87, CHR 0x8F]"

definition zh_hits :: string where
  "zh_hits = [CHR 0xE5, CHR 0x91, CHR 0xBD, CHR 0xE4, CHR 0xB8, CHR 0xAD]"

definition zh_hits_when :: string where
  "zh_hits_when = [CHR 0xE6, CHR 0x97, CHR 0xB6]"

definition zh_unnamed_inbound :: string where
  "zh_unnamed_inbound = [CHR 0xE6, CHR 0x9C, CHR 0xAA, CHR 0xE5, CHR 0x91, CHR 0xBD, CHR 0xE5, CHR 0x90, CHR 0x8D, CHR 0xE5,
    CHR 0x85, CHR 0xA5, CHR 0xE7, CHR 0xAB, CHR 0x99]"

definition zh_rt_client :: string where
  "zh_rt_client = [CHR 0xE5, CHR 0xAE, CHR 0xA2, CHR 0xE6, CHR 0x88, CHR 0xB7, CHR 0xE7, CHR 0xAB, CHR 0xAF]"

definition zh_all_inbounds :: string where
  "zh_all_inbounds = [CHR 0xE5, CHR 0x85, CHR 0xA8, CHR 0xE9, CHR 0x83, CHR 0xA8, CHR 0xE5, CHR 0x85, CHR 0xA5, CHR 0xE7,
    CHR 0xAB, CHR 0x99]"

definition zh_protocol_word :: string where
  "zh_protocol_word = [CHR 0xE5, CHR 0x8D, CHR 0x8F, CHR 0xE8, CHR 0xAE, CHR 0xAE]"

definition zh_inbound_word :: string where
  "zh_inbound_word = [CHR 0xE5, CHR 0x85, CHR 0xA5, CHR 0xE7, CHR 0xAB, CHR 0x99]"

definition zh_no_outbound_chosen :: string where
  "zh_no_outbound_chosen = [CHR 0xE6, CHR 0x9C, CHR 0xAA, CHR 0xE9, CHR 0x80, CHR 0x89, CHR 0xE6, CHR 0x8B, CHR 0xA9, CHR 0xE5,
    CHR 0x87, CHR 0xBA, CHR 0xE7, CHR 0xAB, CHR 0x99]"

definition zh_coming_from :: string where
  "zh_coming_from = [CHR 0xE6, CHR 0x9D, CHR 0xA5, CHR 0xE8, CHR 0x87, CHR 0xAA]"

definition zh_its_client :: string where
  "zh_its_client = [CHR 0xE7, CHR 0x9A, CHR 0x84, CHR 0xE5, CHR 0xAE, CHR 0xA2, CHR 0xE6, CHR 0x88, CHR 0xB7, CHR 0xE7,
    CHR 0xAB, CHR 0xAF]"

definition zh_wide_comma :: string where
  "zh_wide_comma = [CHR 0xEF, CHR 0xBC, CHR 0x8C]"

definition zh_goes :: string where
  "zh_goes = [CHR 0xE8, CHR 0xB5, CHR 0xB0]"

definition zh_client_level :: string where
  "zh_client_level = [CHR 0xE5, CHR 0xAE, CHR 0xA2, CHR 0xE6, CHR 0x88, CHR 0xB7, CHR 0xE7, CHR 0xAB, CHR 0xAF, CHR 0xE7,
    CHR 0xBA, CHR 0xA7]"

definition zh_inbound_level :: string where
  "zh_inbound_level = [CHR 0xE5, CHR 0x85, CHR 0xA5, CHR 0xE7, CHR 0xAB, CHR 0x99, CHR 0xE7, CHR 0xBA, CHR 0xA7]"

definition zh_not_all_cores :: string where
  "zh_not_all_cores = [CHR 0xE5, CHR 0xBD, CHR 0x93, CHR 0xE5, CHR 0x89, CHR 0x8D, CHR 0xE6, CHR 0x9D, CHR 0xA5, CHR 0xE6,
    CHR 0xBA, CHR 0x90, CHR 0xE5, CHR 0x8C, CHR 0x85, CHR 0xE5, CHR 0x90, CHR 0xAB, CHR 0xE5, CHR 0xA4,
    CHR 0x9A, CHR 0xE4, CHR 0xB8, CHR 0xAA, CHR 0xE6, CHR 0xA0, CHR 0xB8, CHR 0xE5, CHR 0xBF, CHR 0x83,
    CHR 0xEF, CHR 0xBC, CHR 0x8C, CHR 0xE7, CHR 0x9B, CHR 0xAE, CHR 0xE6, CHR 0xA0, CHR 0x87, CHR 0xE5,
    CHR 0x87, CHR 0xBA, CHR 0xE7, CHR 0xAB, CHR 0x99, CHR 0xE4, CHR 0xB8, CHR 0x8D, CHR 0xE6, CHR 0x94,
    CHR 0xAF, CHR 0xE6, CHR 0x8C, CHR 0x81, CHR 0xE5, CHR 0x85, CHR 0xA8, CHR 0xE9, CHR 0x83, CHR 0xA8,
    CHR 0xE6, CHR 0xA0, CHR 0xB8, CHR 0xE5, CHR 0xBF, CHR 0x83]"

definition zh_only_singbox :: string where
  "zh_only_singbox = [CHR 0xE4, CHR 0xBB, CHR 0x85, CHR 0xE6, CHR 0x94, CHR 0xAF, CHR 0xE6, CHR 0x8C, CHR 0x81, CHR 0x20,
    CHR 0x73, CHR 0x69, CHR 0x6E, CHR 0x67, CHR 0x2D, CHR 0x62, CHR 0x6F, CHR 0x78, CHR 0xEF, CHR 0xBC,
    CHR 0x8C, CHR 0xE5, CHR 0xBD, CHR 0x93, CHR 0xE5, CHR 0x89, CHR 0x8D, CHR 0xE6, CHR 0x9D, CHR 0xA5,
    CHR 0xE6, CHR 0xBA, CHR 0x90, CHR 0xE5, CHR 0xB1, CHR 0x9E, CHR 0xE4, CHR 0xBA, CHR 0x8E, CHR 0x20,
    CHR 0x58, CHR 0x72, CHR 0x61, CHR 0x79]"

definition zh_only_xray :: string where
  "zh_only_xray = [CHR 0xE4, CHR 0xBB, CHR 0x85, CHR 0xE6, CHR 0x94, CHR 0xAF, CHR 0xE6, CHR 0x8C, CHR 0x81, CHR 0x20,
    CHR 0x58, CHR 0x72, CHR 0x61, CHR 0x79, CHR 0xEF, CHR 0xBC, CHR 0x8C, CHR 0xE5, CHR 0xBD, CHR 0x93,
    CHR 0xE5, CHR 0x89, CHR 0x8D, CHR 0xE6, CHR 0x9D, CHR 0xA5, CHR 0xE6, CHR 0xBA, CHR 0x90, CHR 0xE5,
    CHR 0xB1, CHR 0x9E, CHR 0xE4, CHR 0xBA, CHR 0x8E, CHR 0x20, CHR 0x73, CHR 0x69, CHR 0x6E, CHR 0x67,
    CHR 0x2D, CHR 0x62, CHR 0x6F, CHR 0x78]"

definition zh_core_unsupported :: string where
  "zh_core_unsupported = [CHR 0xE5, CHR 0xBD, CHR 0x93, CHR 0xE5, CHR 0x89, CHR 0x8D, CHR 0xE6, CHR 0x9D, CHR 0xA5, CHR 0xE6,
    CHR 0xBA, CHR 0x90, CHR 0xE5, CHR 0x86, CHR 0x85, CHR 0xE6, CHR 0xA0, CHR 0xB8, CHR 0xE4, CHR 0xB8,
    CHR 0x8D, CHR 0xE6, CHR 0x94, CHR 0xAF, CHR 0xE6, CHR 0x8C, CHR 0x81]"

definition zh_outbound_disabled :: string where
  "zh_outbound_disabled = [CHR 0xE5, CHR 0x87, CHR 0xBA, CHR 0xE7, CHR 0xAB, CHR 0x99, CHR 0xE5, CHR 0xB7, CHR 0xB2, CHR 0xE7,
    CHR 0xA6, CHR 0x81, CHR 0xE7, CHR 0x94, CHR 0xA8]"

definition zh_dg_no_outbound :: string where
  "zh_dg_no_outbound = [CHR 0xE6, CHR 0x9C, CHR 0xAA, CHR 0xE9, CHR 0x80, CHR 0x89, CHR 0xE6, CHR 0x8B, CHR 0xA9, CHR 0xE7,
    CHR 0x9B, CHR 0xAE, CHR 0xE6, CHR 0xA0, CHR 0x87, CHR 0xE5, CHR 0x87, CHR 0xBA, CHR 0xE7, CHR 0xAB,
    CHR 0x99, CHR 0xEF, CHR 0xBC, CHR 0x8C, CHR 0xE8, CHR 0xA7, CHR 0x84, CHR 0xE5, CHR 0x88, CHR 0x99,
    CHR 0xE4, CHR 0xB8, CHR 0x8D, CHR 0xE5, CHR 0xAE, CHR 0x8C, CHR 0xE6, CHR 0x95, CHR 0xB4, CHR 0xE3,
    CHR 0x80, CHR 0x82]"

definition zh_dg_disabled :: string where
  "zh_dg_disabled = [CHR 0xE5, CHR 0x87, CHR 0xBA, CHR 0xE7, CHR 0xAB, CHR 0x99, CHR 0xE5, CHR 0xB7, CHR 0xB2, CHR 0xE7,
    CHR 0xA6, CHR 0x81, CHR 0xE7, CHR 0x94, CHR 0xA8, CHR 0xEF, CHR 0xBC, CHR 0x8C, CHR 0xE4, CHR 0xBF,
    CHR 0x9D, CHR 0xE5, CHR 0xAD, CHR 0x98, CHR 0xE5, CHR 0x90, CHR 0x8E, CHR 0xE4, CHR 0xB8, CHR 0x8D,
    CHR 0xE4, CHR 0xBC, CHR 0x9A, CHR 0xE7, CHR 0x94, CHR 0x9F, CHR 0xE6, CHR 0x88, CHR 0x90, CHR 0xE5,
    CHR 0x8F, CHR 0xAF, CHR 0xE7, CHR 0x94, CHR 0xA8, CHR 0xE9, CHR 0x93, CHR 0xBE, CHR 0xE8, CHR 0xB7,
    CHR 0xAF, CHR 0xE3, CHR 0x80, CHR 0x82]"

definition zh_dg_client_missing :: string where
  "zh_dg_client_missing = [CHR 0xE5, CHR 0xAE, CHR 0xA2, CHR 0xE6, CHR 0x88, CHR 0xB7, CHR 0xE7, CHR 0xAB, CHR 0xAF, CHR 0xE5,
    CHR 0xB7, CHR 0xB2, CHR 0xE7, CHR 0xBC, CHR 0xBA, CHR 0xE5, CHR 0xA4, CHR 0xB1, CHR 0xEF, CHR 0xBC,
    CHR 0x8C, CHR 0xE6, CHR 0xA0, CHR 0xB8, CHR 0xE5, CHR 0xBF, CHR 0x83, CHR 0xE9, CHR 0x85, CHR 0x8D,
    CHR 0xE7, CHR 0xBD, CHR 0xAE, CHR 0xE7, CHR 0x94, CHR 0x9F, CHR 0xE6, CHR 0x88, CHR 0x90, CHR 0xE6,
    CHR 0x97, CHR 0xB6, CHR 0xE4, CHR 0xBC, CHR 0x9A, CHR 0xE8, CHR 0xB7, CHR 0xB3, CHR 0xE8, CHR 0xBF,
    CHR 0x87, CHR 0xE3, CHR 0x80, CHR 0x82]"

definition zh_dg_no_condition :: string where
  "zh_dg_no_condition = [CHR 0xE6, CHR 0x9C, CHR 0xAA, CHR 0xE8, CHR 0xAE, CHR 0xBE, CHR 0xE7, CHR 0xBD, CHR 0xAE, CHR 0xE4,
    CHR 0xBB, CHR 0xBB, CHR 0xE4, CHR 0xBD, CHR 0x95, CHR 0xE5, CHR 0x8C, CHR 0xB9, CHR 0xE9, CHR 0x85,
    CHR 0x8D, CHR 0xE6, CHR 0x9D, CHR 0xA1, CHR 0xE4, CHR 0xBB, CHR 0xB6, CHR 0xEF, CHR 0xBC, CHR 0x8C,
    CHR 0xE5, CHR 0xB0, CHR 0x86, CHR 0xE5, CHR 0x8C, CHR 0xB9, CHR 0xE9, CHR 0x85, CHR 0x8D, CHR 0xE6,
    CHR 0x89, CHR 0x80, CHR 0xE9, CHR 0x80, CHR 0x89, CHR 0xE6, CHR 0x9D, CHR 0xA5, CHR 0xE6, CHR 0xBA,
    CHR 0x90, CHR 0xE7, CHR 0x9A, CHR 0x84, CHR 0xE5, CHR 0x85, CHR 0xA8, CHR 0xE9, CHR 0x83, CHR 0xA8,
    CHR 0xE6, CHR 0xB5, CHR 0x81, CHR 0xE9, CHR 0x87, CHR 0x8F, CHR 0xE3, CHR 0x80, CHR 0x82]"

definition zh_dg_ok :: string where
  "zh_dg_ok = [CHR 0xE5, CHR 0xBD, CHR 0x93, CHR 0xE5, CHR 0x89, CHR 0x8D, CHR 0xE8, CHR 0xA7, CHR 0x84, CHR 0xE5,
    CHR 0x88, CHR 0x99, CHR 0xE5, CHR 0x8F, CHR 0xAF, CHR 0xE4, CHR 0xBF, CHR 0x9D, CHR 0xE5, CHR 0xAD,
    CHR 0x98, CHR 0xE3, CHR 0x80, CHR 0x82]"

definition zh_sy_incomplete :: string where
  "zh_sy_incomplete = [CHR 0xE4, CHR 0xB8, CHR 0x8D, CHR 0xE5, CHR 0xAE, CHR 0x8C, CHR 0xE6, CHR 0x95, CHR 0xB4]"

definition zh_sy_risky :: string where
  "zh_sy_risky = [CHR 0xE6, CHR 0x9C, CHR 0x89, CHR 0xE9, CHR 0xA3, CHR 0x8E, CHR 0xE9, CHR 0x99, CHR 0xA9]"

definition zh_sy_ok :: string where
  "zh_sy_ok = [CHR 0xE5, CHR 0x8F, CHR 0xAF, CHR 0xE4, CHR 0xBF, CHR 0x9D, CHR 0xE5, CHR 0xAD, CHR 0x98]"

definition zh_tm_inbound_id :: string where
  "zh_tm_inbound_id = [CHR 0x69, CHR 0x6E, CHR 0x62, CHR 0x6F, CHR 0x75, CHR 0x6E, CHR 0x64, CHR 0x5F, CHR 0x69, CHR 0x64,
    CHR 0xEF, CHR 0xBC, CHR 0x9A]"

definition zh_tm_client_id :: string where
  "zh_tm_client_id = [CHR 0x63, CHR 0x6C, CHR 0x69, CHR 0x65, CHR 0x6E, CHR 0x74, CHR 0x5F, CHR 0x69, CHR 0x64, CHR 0xEF,
    CHR 0xBC, CHR 0x9A]"

definition zh_tm_outbound_id :: string where
  "zh_tm_outbound_id = [CHR 0x6F, CHR 0x75, CHR 0x74, CHR 0x62, CHR 0x6F, CHR 0x75, CHR 0x6E, CHR 0x64, CHR 0x5F, CHR 0x69,
    CHR 0x64, CHR 0xEF, CHR 0xBC, CHR 0x9A]"

definition zh_tm_core :: string where
  "zh_tm_core = [CHR 0xE5, CHR 0x86, CHR 0x85, CHR 0xE6, CHR 0xA0, CHR 0xB8, CHR 0xEF, CHR 0xBC, CHR 0x9A]"

definition zh_tm_inbound_tag :: string where
  "zh_tm_inbound_tag = [CHR 0x69, CHR 0x6E, CHR 0x62, CHR 0x6F, CHR 0x75, CHR 0x6E, CHR 0x64, CHR 0x5F, CHR 0x74, CHR 0x61,
    CHR 0x67, CHR 0xEF, CHR 0xBC, CHR 0x9A]"

definition zh_tm_outbound_tag :: string where
  "zh_tm_outbound_tag = [CHR 0x6F, CHR 0x75, CHR 0x74, CHR 0x62, CHR 0x6F, CHR 0x75, CHR 0x6E, CHR 0x64, CHR 0x5F, CHR 0x74,
    CHR 0x61, CHR 0x67, CHR 0xEF, CHR 0xBC, CHR 0x9A]"

lemmas texts_Routing =
  zh_all_traffic_def zh_any_traffic_def zh_hits_def zh_hits_when_def zh_unnamed_inbound_def
  zh_rt_client_def zh_all_inbounds_def zh_protocol_word_def zh_inbound_word_def zh_no_outbound_chosen_def
  zh_coming_from_def zh_its_client_def zh_wide_comma_def zh_goes_def zh_client_level_def
  zh_inbound_level_def zh_not_all_cores_def zh_only_singbox_def zh_only_xray_def zh_core_unsupported_def
  zh_outbound_disabled_def zh_dg_no_outbound_def zh_dg_disabled_def zh_dg_client_missing_def zh_dg_no_condition_def
  zh_dg_ok_def zh_sy_incomplete_def zh_sy_risky_def zh_sy_ok_def zh_tm_inbound_id_def
  zh_tm_client_id_def zh_tm_outbound_id_def zh_tm_core_def zh_tm_inbound_tag_def zh_tm_outbound_tag_def

lemma texts_nonempty_Routing [simp]:
  "zh_all_traffic \<noteq> []" "zh_any_traffic \<noteq> []" "zh_hits \<noteq> []" "zh_hits_when \<noteq> []"
  "zh_unnamed_inbound \<noteq> []" "zh_rt_client \<noteq> []" "zh_all_inbounds \<noteq> []" "zh_protocol_word \<noteq> []"
  "zh_inbound_word \<noteq> []" "zh_no_outbound_chosen \<noteq> []" "zh_coming_from \<noteq> []" "zh_its_client \<noteq> []"
  "zh_wide_comma \<noteq> []" "zh_goes \<noteq> []" "zh_client_level \<noteq> []" "zh_inbound_level \<noteq> []"
  "zh_not_all_cores \<noteq> []" "zh_only_singbox \<noteq> []" "zh_only_xray \<noteq> []" "zh_core_unsupported \<noteq> []"
  "zh_outbound_disabled \<noteq> []" "zh_dg_no_outbound \<noteq> []" "zh_dg_disabled \<noteq> []" "zh_dg_client_missing \<noteq> []"
  "zh_dg_no_condition \<noteq> []" "zh_dg_ok \<noteq> []" "zh_sy_incomplete \<noteq> []" "zh_sy_risky \<noteq> []"
  "zh_sy_ok \<noteq> []" "zh_tm_inbound_id \<noteq> []" "zh_tm_client_id \<noteq> []" "zh_tm_outbound_id \<noteq> []"
  "zh_tm_core \<noteq> []" "zh_tm_inbound_tag \<noteq> []" "zh_tm_outbound_tag \<noteq> []"
  by (simp_all add: texts_Routing)

section \<open>Text helpers\<close>

definition rr_num :: "int option \<Rightarrow> int" where "rr_num v = oint v" \<comment> \<open>\<^verbatim>\<open>Number(v || 0)\<close>\<close>

primrec utf16_take :: "nat \<Rightarrow> string \<Rightarrow> string" where \<comment> \<open>\<^verbatim>\<open>s.slice(0, n)\<close>, a pair at the cut being dropped\<close>
  "utf16_take n [] = []"
| "utf16_take n (c # s) = (if utf16_units c \<le> n then c # utf16_take (n - utf16_units c) s else [])"

definition split_values :: "string \<Rightarrow> string list" where \<comment> \<open>\<^verbatim>\<open>value.split(/[\n,]/)\<close>\<close>
  "split_values s = concat (map (split_char (CHR '','')) (split_char (CHR 0x0A) s))"

definition compactRuleValue :: "string \<Rightarrow> string" where
  "compactRuleValue value =
     (let first = (case find (\<lambda>s. s \<noteq> []) (map trim (split_values value)) of Some s \<Rightarrow> s | None \<Rightarrow> trim value)
      in if utf16_length first > 64 then utf16_take 61 first @ ''...'' else first)"

definition js_joined :: "string list \<Rightarrow> string" where \<comment> \<open>\<^verbatim>\<open>parts.filter(Boolean).join(' ').toLowerCase()\<close>\<close>
  "js_joined parts = toLowerCase (join '' '' (filter (\<lambda>s. s \<noteq> []) parts))"

definition num_text :: "int \<Rightarrow> string" where \<comment> \<open>a number under \<^verbatim>\<open>filter(Boolean)\<close>: 0 is dropped\<close>
  "num_text n = (if n = 0 then [] else int_str n)"

definition hasRuleValue :: "string option \<Rightarrow> bool" where
  "hasRuleValue v = (trim (ostr v) \<noteq> [])"

definition hasMatchConditions :: "routing_rule \<Rightarrow> bool" where
  "hasMatchConditions rule = (hasRuleValue (rr_domain rule) \<or> hasRuleValue (rr_ip rule)
     \<or> hasRuleValue (rr_protocol rule) \<or> hasRuleValue (rr_rule_set rule))"

datatype condition_tag = DomainTag string | IpTag string | ProtocolTag string | RuleSetTag string | CatchAll

definition conditionTags :: "routing_rule \<Rightarrow> condition_tag list" where
  "conditionTags rule =
     (let tags = (if hasRuleValue (rr_domain rule) then [DomainTag (compactRuleValue (ostr (rr_domain rule)))] else [])
            @ (if hasRuleValue (rr_ip rule) then [IpTag (compactRuleValue (ostr (rr_ip rule)))] else [])
            @ (if hasRuleValue (rr_protocol rule) then [ProtocolTag (compactRuleValue (ostr (rr_protocol rule)))] else [])
            @ (if hasRuleValue (rr_rule_set rule) then [RuleSetTag (compactRuleValue (ostr (rr_rule_set rule)))] else [])
      in if tags \<noteq> [] then tags else [CatchAll])"

definition tag_value :: "condition_tag \<Rightarrow> string" where
  "tag_value t = (case t of DomainTag v \<Rightarrow> v | IpTag v \<Rightarrow> v | ProtocolTag v \<Rightarrow> v | RuleSetTag v \<Rightarrow> v
     | CatchAll \<Rightarrow> zh_all_traffic)"

definition summaryCondition :: "routing_rule \<Rightarrow> (string \<Rightarrow> string) \<Rightarrow> string" where
  "summaryCondition rule tr =
     (if \<not> hasMatchConditions rule then tr zh_any_traffic
      else case filter (\<lambda>t. t \<noteq> CatchAll) (conditionTags rule) of
        [] \<Rightarrow> tr zh_any_traffic
      | first # _ \<Rightarrow> tr zh_hits @ '' '' @ tag_value first @ '' '' @ tr zh_hits_when)"

section \<open>Looking things up\<close>

definition buildInboundLookup :: "inbound list \<Rightarrow> (string \<times> inbound) list" where
  "buildInboundLookup inbounds =
     fold (\<lambda>inb lookup.
       let remark = trim (ib_remark inb);
           lookup1 = AList.update (generatedInboundTag inb) inb lookup
       in if remark \<noteq> [] then AList.update remark inb lookup1 else lookup1) inbounds []"

primrec findClientById :: "inbound list \<Rightarrow> int \<Rightarrow> (inbound \<times> client) option" where
  "findClientById [] clientID = None"
| "findClientById (inb # rest) clientID =
     (case find (\<lambda>c. cl_id c = clientID) (olist (ib_clients inb)) of
        Some c \<Rightarrow> Some (inb, c) | None \<Rightarrow> findClientById rest clientID)"

definition findInboundByTag :: "inbound list \<Rightarrow> string \<Rightarrow> inbound option" where
  "findInboundByTag inbounds tag =
     (let normalized = trim tag in
      find (\<lambda>i. generatedInboundTag i = normalized \<or> trim (ib_remark i) = normalized) inbounds)"

definition findInboundForRule :: "inbound list \<Rightarrow> routing_rule \<Rightarrow> inbound option" where
  "findInboundForRule inbounds rule =
     (let inboundID = rr_num (rr_inbound_id rule) in
      if inboundID > 0 then find (\<lambda>i. ib_id i = inboundID) inbounds
      else findInboundByTag inbounds (ostr (rr_inbound_tag rule)))"

definition findOutboundForValues :: "outbound list \<Rightarrow> routing_rule \<Rightarrow> outbound option" where
  "findOutboundForValues outbounds rule =
     (let outboundID = rr_num (rr_outbound_id rule);
          byTag = (let tag = trim (rr_outbound_tag rule)
                   in if tag \<noteq> [] then find (\<lambda>ob. ob_tag ob = tag) outbounds else None)
      in if outboundID > 0
         then (case find (\<lambda>ob. ob_id ob = outboundID) outbounds of Some found \<Rightarrow> Some found | None \<Rightarrow> byTag)
         else byTag)"

definition clientCredentialIDValue :: "client \<Rightarrow> string" where
  "clientCredentialIDValue c = str_or (trim (ostr (cl_credential_id c))) (trim (cl_uuid c))"

definition clientStatsNameValue :: "client \<Rightarrow> string" where
  "clientStatsNameValue c = str_or (trim (ostr (cl_stats_key c))) (trim (cl_email c))"

definition clientRouteMatchIdentity :: "string \<Rightarrow> client \<Rightarrow> string" where
  "clientRouteMatchIdentity protocol c =
     (if toLowerCase (trim protocol) = ''socks'' \<or> toLowerCase (trim protocol) = ''http''
      then clientCredentialIDValue c else clientStatsNameValue c)"

definition clientDisplayName :: "client \<Rightarrow> string \<Rightarrow> string" where
  "clientDisplayName c fallback =
     (let email = trim (cl_email c); credentialID = trim (ostr (cl_credential_id c)) in
      if email \<noteq> [] then email else if credentialID \<noteq> [] then credentialID
      else str_or (trim (str_or (cl_uuid c) fallback)) fallback)"

section \<open>Names in the summary\<close>

definition readableInboundName :: "routing_rule \<Rightarrow> inbound list \<Rightarrow> (string \<Rightarrow> string) \<Rightarrow> string" where
  "readableInboundName rule inbounds tr =
     (case findInboundForRule inbounds rule of
        Some i \<Rightarrow> str_or (trim (str_or (ib_remark i) (generatedInboundTag i))) (tr zh_unnamed_inbound)
      | None \<Rightarrow> trim (ostr (rr_inbound_tag rule)))"

definition client_number_label :: "int \<Rightarrow> (string \<Rightarrow> string) \<Rightarrow> string" where
  "client_number_label n tr = tr zh_rt_client @ '' #'' @ int_str n"

definition readableClientName :: "routing_rule \<Rightarrow> inbound list \<Rightarrow> (string \<Rightarrow> string) \<Rightarrow> string" where
  "readableClientName rule inbounds tr =
     (let clientID = rr_num (rr_client_id rule) in
      if clientID = 0 then ''-''
      else case findClientById inbounds clientID of
        Some (i, c) \<Rightarrow> clientDisplayName c (client_number_label clientID tr)
      | None \<Rightarrow> trim (str_or (ostr (rr_client_email rule)) (str_or (ostr (rr_client_label rule)) (client_number_label clientID tr))))"

definition clientRouteHint :: "routing_rule \<Rightarrow> inbound list \<Rightarrow> string" where
  "clientRouteHint rule inbounds =
     (let clientID = rr_num (rr_client_id rule) in
      case (if clientID \<noteq> 0 then findClientById inbounds clientID else None) of
        None \<Rightarrow> []
      | Some (i, c) \<Rightarrow>
          (let displayName = clientDisplayName c (''client-'' @ int_str clientID);
               routeIdentity = clientRouteMatchIdentity (ib_protocol i) c
           in if routeIdentity \<noteq> [] \<and> routeIdentity \<noteq> displayName then routeIdentity else []))"

definition readableClientInboundName :: "routing_rule \<Rightarrow> inbound list \<Rightarrow> (string \<Rightarrow> string) \<Rightarrow> string \<Rightarrow> string" where
  "readableClientInboundName rule inbounds tr fallback =
     (let clientID = rr_num (rr_client_id rule) in
      case (if clientID \<noteq> 0 then findClientById inbounds clientID else None) of
        None \<Rightarrow> str_or fallback (tr zh_all_inbounds)
      | Some (i, c) \<Rightarrow> str_or (trim (str_or (ib_remark i) (generatedInboundTag i))) (tr zh_unnamed_inbound))"

definition outbound_by_id :: "outbound list \<Rightarrow> int \<Rightarrow> outbound option" where
  "outbound_by_id outbounds n = (if n > 0 then find (\<lambda>ob. ob_id ob = n) outbounds else None)"

definition readableOutboundName :: "routing_rule \<Rightarrow> outbound list \<Rightarrow> string" where
  "readableOutboundName rule outbounds =
     (case outbound_by_id outbounds (rr_num (rr_outbound_id rule)) of
        Some out \<Rightarrow> trim (str_or (ostr (ob_remark out)) (ob_tag out))
      | None \<Rightarrow> rr_outbound_tag rule)"

definition outboundTagName :: "routing_rule \<Rightarrow> outbound list \<Rightarrow> string" where
  "outboundTagName rule outbounds =
     (case outbound_by_id outbounds (rr_num (rr_outbound_id rule)) of
        Some out \<Rightarrow> ob_tag out | None \<Rightarrow> rr_outbound_tag rule)"

definition firstRoutingMatch :: "routing_rule \<Rightarrow> (string \<Rightarrow> string) \<Rightarrow> string" where
  "firstRoutingMatch rule tr =
     (if ostr (rr_domain rule) \<noteq> [] then compactRuleValue (ostr (rr_domain rule))
      else if ostr (rr_ip rule) \<noteq> [] then compactRuleValue (ostr (rr_ip rule))
      else if ostr (rr_rule_set rule) \<noteq> [] then compactRuleValue (ostr (rr_rule_set rule))
      else if ostr (rr_protocol rule) \<noteq> [] then tr zh_protocol_word @ '': '' @ compactRuleValue (ostr (rr_protocol rule))
      else if ostr (rr_inbound_tag rule) \<noteq> [] then tr zh_inbound_word @ '': '' @ ostr (rr_inbound_tag rule)
      else tr zh_all_inbounds)"

definition ruleTitle :: "routing_rule \<Rightarrow> (string \<Rightarrow> string) \<Rightarrow> inbound list \<Rightarrow> outbound list \<Rightarrow> string" where
  "ruleTitle rule tr inbounds outbounds =
     (let inb = readableInboundName rule inbounds tr; out = readableOutboundName rule outbounds in
      if rr_num (rr_client_id rule) > 0
      then str_or (readableClientInboundName rule inbounds tr inb) inb @ '' / '' @ readableClientName rule inbounds tr @ '' -> '' @ out
      else str_or inb (firstRoutingMatch rule tr) @ '' -> '' @ out)"

definition routeSummaryText :: "routing_rule \<Rightarrow> inbound list \<Rightarrow> outbound list \<Rightarrow> (string \<Rightarrow> string) \<Rightarrow> string" where
  "routeSummaryText rule inbounds outbounds tr =
     (let inb = str_or (readableInboundName rule inbounds tr) (tr zh_all_inbounds);
          out = str_or (readableOutboundName rule outbounds) (str_or (rr_outbound_tag rule) (tr zh_no_outbound_chosen));
          condition = summaryCondition rule tr
      in if rr_num (rr_client_id rule) > 0
         then tr zh_coming_from @ '' '' @ inb @ '' '' @ tr zh_its_client @ '' '' @ readableClientName rule inbounds tr
              @ zh_wide_comma @ condition @ zh_wide_comma @ tr zh_goes @ '' '' @ out
         else tr zh_coming_from @ '' '' @ inb @ '' '' @ condition @ zh_wide_comma @ tr zh_goes @ '' '' @ out)"

definition ruleTypeLabel :: "routing_rule \<Rightarrow> string" where
  "ruleTypeLabel rule = (if rr_num (rr_client_id rule) > 0 then zh_client_level else zh_inbound_level)"

section \<open>Cores and diagnostics\<close>

definition requiredRouteCores :: "inbound list \<Rightarrow> int \<Rightarrow> string \<Rightarrow> int \<Rightarrow> core_name list" where
  "requiredRouteCores inbounds inboundID inboundTag clientID =
     (if clientID > 0 then (case findClientById inbounds clientID of Some (i, c) \<Rightarrow> [inboundCore i] | None \<Rightarrow> [])
      else (let lookup = buildInboundLookup inbounds;
                selected = (if inboundID > 0 then find (\<lambda>i. ib_id i = inboundID) inbounds
                            else if inboundTag \<noteq> [] then map_of lookup inboundTag else None);
                sourceInbounds = (case selected of Some i \<Rightarrow> [i] | None \<Rightarrow> if inboundTag \<noteq> [] then [] else inbounds)
            in uniq (map inboundCore sourceInbounds)))"

definition rule_cores :: "inbound list \<Rightarrow> routing_rule \<Rightarrow> core_name list" where
  "rule_cores inbounds rule = requiredRouteCores inbounds (rr_num (rr_inbound_id rule)) (ostr (rr_inbound_tag rule))
     (rr_num (rr_client_id rule))"

definition inferRuleTargetCore :: "routing_rule \<Rightarrow> inbound list \<Rightarrow> outbound list \<Rightarrow> string" where
  "inferRuleTargetCore rule inbounds outbounds =
     (let required = rule_cores inbounds rule;
          supported = (case findOutboundForValues outbounds rule of
             Some out \<Rightarrow> outboundSupportedCores (ob_protocol out) | None \<Rightarrow> [])
      in if length required > 1 then ''mixed''
         else if length required = 1 then coreLabel (required ! 0)
         else if length supported > 1 then ''mixed''
         else if length supported = 1 then coreLabel (supported ! 0)
         else ''unknown'')"

definition outboundDisabledReason :: "outbound option \<Rightarrow> core_name list \<Rightarrow> string" where
  "outboundDisabledReason out requiredCores =
     (case out of None \<Rightarrow> [] | Some ob \<Rightarrow>
       (let supported = outboundSupportedCores (ob_protocol ob);
            missing = filter (\<lambda>core. core \<notin> set supported) requiredCores
        in if requiredCores = [] then []
           else if missing = [] then []
           else if length requiredCores > 1 then zh_not_all_cores
           else if supported = [SingBox] then zh_only_singbox
           else if supported = [Xray] then zh_only_xray
           else zh_core_unsupported))"

definition outboundSelectionWarning :: "outbound option \<Rightarrow> string" where
  "outboundSelectionWarning out =
     (case out of Some ob \<Rightarrow> if ob_enabled ob = Some False then zh_outbound_disabled else [] | None \<Rightarrow> [])"

datatype diag_tone = DiagOk | DiagInfo | DiagWarning | DiagError

definition routingDiagnostics :: "routing_rule \<Rightarrow> inbound list \<Rightarrow> outbound list \<Rightarrow> (diag_tone \<times> string) list" where
  "routingDiagnostics rule inbounds outbounds =
     (let out = findOutboundForValues outbounds rule;
          reason = outboundDisabledReason out (rule_cores inbounds rule);
          clientID = rr_num (rr_client_id rule);
          diagnostics =
            (if rr_num (rr_outbound_id rule) \<le> 0 then [(DiagError, zh_dg_no_outbound)] else [])
            @ (if reason \<noteq> [] then [(DiagError, reason)] else [])
            @ (if outboundSelectionWarning out \<noteq> [] then [(DiagWarning, zh_dg_disabled)] else [])
            @ (if clientID > 0 \<and> findClientById inbounds clientID = None
               then [(DiagWarning, zh_dg_client_missing)] else [])
            @ (if \<not> hasMatchConditions rule then [(DiagInfo, zh_dg_no_condition)] else [])
      in if list_ex (\<lambda>d. fst d = DiagError \<or> fst d = DiagWarning) diagnostics then diagnostics
         else (DiagOk, zh_dg_ok) # diagnostics)"

record summary_status =
  sy_ruleType :: string
  sy_label :: string
  sy_tone :: diag_tone

definition routeSummaryStatus :: "routing_rule \<Rightarrow> inbound list \<Rightarrow> outbound list \<Rightarrow> summary_status" where
  "routeSummaryStatus rule inbounds outbounds =
     (let diagnostics = routingDiagnostics rule inbounds outbounds;
          hasError = list_ex (\<lambda>d. fst d = DiagError) diagnostics;
          hasWarning = list_ex (\<lambda>d. fst d = DiagWarning) diagnostics
      in \<lparr>sy_ruleType = ruleTypeLabel rule,
          sy_label = (if hasError then zh_sy_incomplete else if hasWarning then zh_sy_risky else zh_sy_ok),
          sy_tone = (if hasError then DiagError else if hasWarning then DiagWarning else DiagOk)\<rparr>)"

definition ruleTechnicalMeta :: "routing_rule \<Rightarrow> inbound list \<Rightarrow> outbound list \<Rightarrow> (string \<Rightarrow> string) \<Rightarrow> (string \<times> string) list" where
  "ruleTechnicalMeta rule inbounds outbounds tr =
     [(zh_tm_inbound_id, str_or (num_text (rr_num (rr_inbound_id rule))) ''-''),
      (zh_tm_client_id, str_or (num_text (rr_num (rr_client_id rule))) ''-''),
      (zh_tm_outbound_id, str_or (num_text (rr_num (rr_outbound_id rule))) ''-''),
      (zh_tm_core, inferRuleTargetCore rule inbounds outbounds),
      (zh_tm_inbound_tag, str_or (ostr (rr_inbound_tag rule)) (str_or (readableInboundName rule inbounds tr) ''-'')),
      (zh_tm_outbound_tag, str_or (outboundTagName rule outbounds) ''-'')]"

section \<open>Facts\<close>

lemma findClientById_Some:
  "findClientById inbounds n = Some (i, c) \<Longrightarrow> i \<in> set inbounds \<and> c \<in> set (olist (ib_clients i)) \<and> cl_id c = n"
  by (induction inbounds) (auto split: option.splits dest: find_Some_set)

lemma findClientById_None:
  "findClientById inbounds n = None \<longleftrightarrow> (\<forall>i \<in> set inbounds. \<forall>c \<in> set (olist (ib_clients i)). cl_id c \<noteq> n)"
  by (induction inbounds) (auto split: option.splits simp: find_None_all dest: find_Some_set)

lemma disabled_reason_iff:
  "outboundDisabledReason (Some ob) cores \<noteq> [] \<longleftrightarrow> (\<exists>c \<in> set cores. \<not> outboundSupportsCore (Some ob) c)"
  by (auto simp: outboundDisabledReason_def Let_def outboundSupportsCore_def filter_empty_conv)

lemma diagnostics_error_iff:
  "list_ex (\<lambda>d. fst d = DiagError) (routingDiagnostics rule inbounds outbounds) \<longleftrightarrow>
     rr_num (rr_outbound_id rule) \<le> 0
     \<or> outboundDisabledReason (findOutboundForValues outbounds rule) (rule_cores inbounds rule) \<noteq> []"
  by (simp add: routingDiagnostics_def Let_def)

lemma outbound_warning_iff [simp]:
  "outboundSelectionWarning out \<noteq> [] \<longleftrightarrow> (\<exists>ob. out = Some ob \<and> ob_enabled ob = Some False)"
  by (simp add: outboundSelectionWarning_def split: option.split)

lemma diagnostics_warning_iff:
  "list_ex (\<lambda>d. fst d = DiagWarning) (routingDiagnostics rule inbounds outbounds) \<longleftrightarrow>
     (\<exists>ob. findOutboundForValues outbounds rule = Some ob \<and> ob_enabled ob = Some False)
     \<or> (rr_num (rr_client_id rule) > 0 \<and> findClientById inbounds (rr_num (rr_client_id rule)) = None)"
  by (simp add: routingDiagnostics_def Let_def)

lemma reason_iff:
  "outboundDisabledReason out cores \<noteq> [] \<longleftrightarrow>
     (\<exists>ob c. out = Some ob \<and> c \<in> set cores \<and> \<not> outboundSupportsCore (Some ob) c)"
proof (cases out)
  case None
  then show ?thesis by (simp add: outboundDisabledReason_def)
next
  case (Some ob)
  then show ?thesis using disabled_reason_iff [of ob cores] by auto
qed

text \<open>
  C11.
  The diagnosis of a rule is right about the cores: it shows an error exactly when no outbound id is set or
  the outbound the rule resolves to lacks one of the cores its source runs on; otherwise a warning
  exactly when that outbound is disabled or the client of the rule no longer exists; otherwise it is fit to be
  saved, and only then is that said.
\<close>

theorem diagnosis_matches_cores:
  "let incomplete = (rr_num (rr_outbound_id rule) \<le> 0
         \<or> (\<exists>ob c. findOutboundForValues outbounds rule = Some ob \<and> c \<in> set (rule_cores inbounds rule)
              \<and> \<not> outboundSupportsCore (Some ob) c));
       risky = ((\<exists>ob. findOutboundForValues outbounds rule = Some ob \<and> ob_enabled ob = Some False)
         \<or> (rr_num (rr_client_id rule) > 0
            \<and> (\<forall>i \<in> set inbounds. \<forall>c \<in> set (olist (ib_clients i)). cl_id c \<noteq> rr_num (rr_client_id rule))))
   in sy_tone (routeSummaryStatus rule inbounds outbounds) =
        (if incomplete then DiagError else if risky then DiagWarning else DiagOk)
      \<and> ((DiagOk, zh_dg_ok) \<in> set (routingDiagnostics rule inbounds outbounds) \<longleftrightarrow> \<not> incomplete \<and> \<not> risky)"
proof -
  let ?ds = "routingDiagnostics rule inbounds outbounds"
  have e: "list_ex (\<lambda>d. fst d = DiagError) ?ds \<longleftrightarrow> rr_num (rr_outbound_id rule) \<le> 0
         \<or> (\<exists>ob c. findOutboundForValues outbounds rule = Some ob \<and> c \<in> set (rule_cores inbounds rule)
              \<and> \<not> outboundSupportsCore (Some ob) c)"
    unfolding diagnostics_error_iff reason_iff ..
  have w: "list_ex (\<lambda>d. fst d = DiagWarning) ?ds \<longleftrightarrow>
     (\<exists>ob. findOutboundForValues outbounds rule = Some ob \<and> ob_enabled ob = Some False)
     \<or> (rr_num (rr_client_id rule) > 0
        \<and> (\<forall>i \<in> set inbounds. \<forall>c \<in> set (olist (ib_clients i)). cl_id c \<noteq> rr_num (rr_client_id rule)))"
    unfolding diagnostics_warning_iff findClientById_None ..
  have ok: "(DiagOk, zh_dg_ok) \<in> set ?ds \<longleftrightarrow>
     \<not> list_ex (\<lambda>d. fst d = DiagError) ?ds \<and> \<not> list_ex (\<lambda>d. fst d = DiagWarning) ?ds"
    by (simp add: routingDiagnostics_def Let_def)
  have tone: "sy_tone (routeSummaryStatus rule inbounds outbounds) =
     (if list_ex (\<lambda>d. fst d = DiagError) ?ds then DiagError
      else if list_ex (\<lambda>d. fst d = DiagWarning) ?ds then DiagWarning else DiagOk)"
    by (simp add: routeSummaryStatus_def Let_def)
  show ?thesis unfolding Let_def tone ok e w by (intro conjI refl)
qed

definition sample_rule :: routing_rule where
  "sample_rule = \<lparr>rr_id = 1, rr_remark = None, rr_inbound_id = None, rr_inbound_tag = None, rr_client_id = Some 7,
     rr_client_email = None, rr_client_label = None, rr_domain = None, rr_ip = None, rr_rule_set = None,
     rr_protocol = None, rr_outbound_id = Some 3, rr_outbound_tag = ''out'', rr_enabled = Some True, rr_sort_order = None\<rparr>"

theorem diagnosis_matches_cores_witness:
  "sy_tone (routeSummaryStatus sample_rule [] [sample_outbound]) = DiagWarning"
proof -
  have "findOutboundForValues [sample_outbound] sample_rule = Some sample_outbound"
    by (simp add: findOutboundForValues_def sample_rule_def sample_outbound_def rr_num_def)
  moreover have "rule_cores [] sample_rule = []"
    by (simp add: rule_cores_def requiredRouteCores_def sample_rule_def rr_num_def)
  ultimately show ?thesis
    using diagnosis_matches_cores [of sample_rule "[sample_outbound]" "[]"]
    by (simp add: Let_def) (simp add: sample_rule_def rr_num_def)
qed

end
