(* ===== verification/InboundView.thy ===== *)
theory InboundView
  imports InboundDialog Routing
begin

text \<open>
  What the dialogs of \<^verbatim>\<open>src/web/src/routes/InboundsPageForms.tsx\<close> show: the inputs of an inbound for
  its combination, the options of the selections, the cards of the node types, the credentials of a client and their
  masked summary; and the dialog of a client, which follows the inbound and the client it is given.
\<close>

section \<open>Texts\<close>

text \<open>The non-ASCII texts of this part of the user interface, as UTF-8 bytes.\<close>

definition zh_iw_unset :: string where
  "zh_iw_unset = [CHR 0xE4, CHR 0xB8, CHR 0x8D, CHR 0xE6, CHR 0x8C, CHR 0x87, CHR 0xE5, CHR 0xAE, CHR 0x9A]"

definition zh_iw_off :: string where
  "zh_iw_off = [CHR 0xE5, CHR 0x85, CHR 0xB3, CHR 0xE9, CHR 0x97, CHR 0xAD]"

definition zh_iw_colon :: string where
  "zh_iw_colon = [CHR 0xEF, CHR 0xBC, CHR 0x9A]"

definition zh_iw_local :: string where
  "zh_iw_local = [CHR 0xE6, CHR 0x9C, CHR 0xAC, CHR 0xE5, CHR 0x9C, CHR 0xB0, CHR 0xE4, CHR 0xBB, CHR 0xA3, CHR 0xE7,
    CHR 0x90, CHR 0x86]"

definition zh_iw_link :: string where
  "zh_iw_link = [CHR 0xE6, CHR 0x94, CHR 0xAF, CHR 0xE6, CHR 0x8C, CHR 0x81, CHR 0xE8, CHR 0x8A, CHR 0x82, CHR 0xE7,
    CHR 0x82, CHR 0xB9, CHR 0xE9, CHR 0x93, CHR 0xBE, CHR 0xE6, CHR 0x8E, CHR 0xA5]"

definition zh_iw_nolink :: string where
  "zh_iw_nolink = [CHR 0xE4, CHR 0xB8, CHR 0x8D, CHR 0xE7, CHR 0x94, CHR 0x9F, CHR 0xE6, CHR 0x88, CHR 0x90, CHR 0xE8,
    CHR 0x8A, CHR 0x82, CHR 0xE7, CHR 0x82, CHR 0xB9, CHR 0xE9, CHR 0x93, CHR 0xBE, CHR 0xE6, CHR 0x8E,
    CHR 0xA5]"

definition zh_iw_missing :: string where
  "zh_iw_missing = [CHR 0xE6, CHR 0x9C, CHR 0xAA, CHR 0xE7, CHR 0x94, CHR 0x9F, CHR 0xE6, CHR 0x88, CHR 0x90]"

definition zh_iw_nodelevel :: string where
  "zh_iw_nodelevel = [CHR 0xE8, CHR 0xAF, CHR 0xA5, CHR 0xE5, CHR 0x8D, CHR 0x8F, CHR 0xE8, CHR 0xAE, CHR 0xAE, CHR 0xE4,
    CHR 0xBD, CHR 0xBF, CHR 0xE7, CHR 0x94, CHR 0xA8, CHR 0xE8, CHR 0x8A, CHR 0x82, CHR 0xE7, CHR 0x82,
    CHR 0xB9, CHR 0xE7, CHR 0xBA, CHR 0xA7, CHR 0xE5, CHR 0x87, CHR 0xAD, CHR 0xE6, CHR 0x8D, CHR 0xAE]"

definition zh_iw_password :: string where
  "zh_iw_password = [CHR 0xE5, CHR 0xAF, CHR 0x86, CHR 0xE7, CHR 0xA0, CHR 0x81]"

definition zh_iw_user :: string where
  "zh_iw_user = [CHR 0xE7, CHR 0x94, CHR 0xA8, CHR 0xE6, CHR 0x88, CHR 0xB7, CHR 0xE5, CHR 0x90, CHR 0x8D]"

definition zh_iw_tuic_password :: string where
  "zh_iw_tuic_password = [CHR 0x54, CHR 0x55, CHR 0x49, CHR 0x43, CHR 0x20, CHR 0xE5, CHR 0xAF, CHR 0x86, CHR 0xE7, CHR 0xA0,
    CHR 0x81]"

lemmas texts_InboundView =
  zh_iw_unset_def zh_iw_off_def zh_iw_colon_def zh_iw_local_def zh_iw_link_def
  zh_iw_nolink_def zh_iw_missing_def zh_iw_nodelevel_def zh_iw_password_def zh_iw_user_def
  zh_iw_tuic_password_def

lemma texts_nonempty_InboundView [simp]:
  "zh_iw_unset \<noteq> []" "zh_iw_off \<noteq> []" "zh_iw_colon \<noteq> []" "zh_iw_local \<noteq> []"
  "zh_iw_link \<noteq> []" "zh_iw_nolink \<noteq> []" "zh_iw_missing \<noteq> []" "zh_iw_nodelevel \<noteq> []"
  "zh_iw_password \<noteq> []" "zh_iw_user \<noteq> []" "zh_iw_tuic_password \<noteq> []"
  by (simp_all add: texts_InboundView)

section \<open>Options\<close>

definition tlsFingerprintOptions :: "string list" where
  "tlsFingerprintOptions = [''chrome'', ''firefox'', ''safari'', ''ios'', ''android'', ''randomized'']"

definition tlsAlpnOptions :: "(string \<times> string) list" where
  "tlsAlpnOptions = [([], zh_iw_unset), (''h2'', ''h2''), (''http/1.1'', ''http/1.1''), (''h2,http/1.1'', ''h2,http/1.1'')]"

definition xhttpModeOptions :: "string list" where
  "xhttpModeOptions = [''stream-one'', ''packet-up'']"

definition hy2ObfsOptions :: "(string \<times> string) list" where
  "hy2ObfsOptions = [([], zh_iw_off), (''salamander'', ''salamander'')]"

definition tuicCongestionOptions :: "string list" where
  "tuicCongestionOptions = [''bbr'', ''cubic'', ''new_reno'']"

definition shadowsocksMethodOptions :: "string list" where
  "shadowsocksMethodOptions = [''2022-blake3-aes-128-gcm'', ''2022-blake3-aes-256-gcm'', ''2022-blake3-chacha20-poly1305'']"

definition realityTargets :: "string list" where
  "realityTargets = [''www.cloudflare.com'', ''www.microsoft.com'', ''www.apple.com'', ''www.google.com'']"

text \<open>The values the selection of an advanced field offers; the other fields are inputs.\<close>

definition select_values :: "adv_field \<Rightarrow> string list option" where
  "select_values key =
     (if key = F_tls_fingerprint then Some tlsFingerprintOptions
      else if key = F_tls_alpn then Some (map fst tlsAlpnOptions)
      else if key = F_xhttp_mode then Some xhttpModeOptions
      else if key = F_hy2_obfs then Some (map fst hy2ObfsOptions)
      else if key = F_tuic_congestion_control then Some tuicCongestionOptions
      else if key = F_ss_method then Some shadowsocksMethodOptions
      else if key = F_shadowtls_version then Some [''3'']
      else None)"

section \<open>The inputs of the inbound dialog\<close>

definition shown_if :: "bool \<Rightarrow> 'a list \<Rightarrow> 'a list" where "shown_if b xs = (if b then xs else [])"

lemma set_shown_if [simp]: "set (shown_if b xs) = (if b then set xs else {})"
  by (simp add: shown_if_def)

definition connection_fields :: "adv_field list \<Rightarrow> adv_field list" where
  "connection_fields enabled = shown_if (F_tls_sni \<in> set enabled) [F_tls_sni]"

definition reality_section :: "inbound_values \<Rightarrow> adv_field list" where
  "reality_section v = shown_if (iv_security v = ''reality'') [F_reality_dest, F_reality_server_names]"

definition identity_fields :: "adv_field list \<Rightarrow> adv_field list" where
  "identity_fields enabled = shown_if (F_reality_short_id \<in> set enabled) [F_reality_short_id]"

definition transport_fields :: "adv_field list \<Rightarrow> adv_field list" where
  "transport_fields enabled =
     filter (\<lambda>key. key \<in> set enabled) [F_ws_path, F_grpc_service_name, F_xhttp_path, F_ws_host, F_xhttp_mode]"

definition security_expert_fields :: "inbound_values \<Rightarrow> adv_field list \<Rightarrow> adv_field list" where
  "security_expert_fields v enabled =
     shown_if (iv_security v = ''reality'') [F_reality_private_key, F_reality_public_key, F_tls_fingerprint]
     @ shown_if (iv_security v = ''tls'')
         (filter (\<lambda>key. key \<in> set enabled) [F_tls_cert_file, F_tls_key_file, F_tls_fingerprint, F_tls_alpn])"

definition protocol_fields :: "inbound_values \<Rightarrow> adv_field list \<Rightarrow> adv_field list" where
  "protocol_fields v enabled =
     shown_if (F_ss_method \<in> set enabled) [F_ss_method]
     @ shown_if (iv_protocol v = ''hysteria2'')
         (filter (\<lambda>key. key \<in> set enabled) [F_hy2_up_mbps, F_hy2_down_mbps, F_hy2_obfs, F_hy2_obfs_password])
     @ shown_if (iv_protocol v = ''tuic'') (filter (\<lambda>key. key \<in> set enabled) [F_tuic_congestion_control, F_tuic_zero_rtt])
     @ shown_if (iv_protocol v = ''shadowtls'') (filter (\<lambda>key. key \<in> set enabled) [F_shadowtls_version])"

definition shown_fields :: "cap_state \<Rightarrow> dialog \<Rightarrow> adv_field list" where
  "shown_fields st m =
     (let v = dg_form m; enabled = enabledInboundAdvancedFields st v
      in connection_fields enabled @ reality_section v
         @ shown_if (dg_advancedOpen m)
             (identity_fields enabled @ transport_fields enabled @ security_expert_fields v enabled @ protocol_fields v enabled))"

definition protocol_choices :: "cap_state \<Rightarrow> string list" where
  "protocol_choices st = inboundProtocolOptions st"

definition network_choices :: "cap_state \<Rightarrow> inbound_values \<Rightarrow> string list" where
  "network_choices st v = allowedInboundNetworks st (str_or (iv_protocol v) ''vless'')"

definition security_choices :: "cap_state \<Rightarrow> inbound_values \<Rightarrow> string list" where
  "security_choices st v =
     map security_name (filter (\<lambda>p. p \<in> set (allowedInboundSecurities st (str_or (iv_protocol v) ''vless'') (iv_network v))) inboundSecurities)"

section \<open>Summaries\<close>

definition currentProtocolSummary :: "inbound_values \<Rightarrow> string" where
  "currentProtocolSummary v = str_or (iv_protocol v) ''-'' @ '' / '' @ str_or (iv_network v) ''-'' @ '' / '' @ str_or (iv_security v) ''-''"

definition isAutoPort :: "inbound_values \<Rightarrow> bool" where
  "isAutoPort v = (iv_port v = 0)"

definition port_shown :: "inbound_values \<Rightarrow> string" where
  "port_shown v = (if isAutoPort v then [] else int_str (iv_port v))"

definition port_typed :: "string \<Rightarrow> rat option" where \<comment> \<open>the new port, \<open>None\<close> if the input is passed over\<close>
  "port_typed raw = (if raw = [] then Some 0 else string_to_number raw)"

definition hasTLSCertPaths :: "dialog \<Rightarrow> bool" where
  "hasTLSCertPaths m = (trim (ostr (form_text m F_tls_cert_file)) \<noteq> [] \<and> trim (ostr (form_text m F_tls_key_file)) \<noteq> [])"

subsection \<open>The cards of the node types\<close>

text \<open>The name is what stands before the first colon; the labels have no line end.\<close>

fun label_cut :: "string \<Rightarrow> string \<Rightarrow> (string \<times> string) option" where
  "label_cut g [] = None"
| "label_cut g (c # s) =
     (if g \<noteq> [] \<and> c = CHR '':'' \<and> s \<noteq> [] then Some (g, s)
      else if g \<noteq> [] \<and> startsWith (c # s) zh_iw_colon \<and> drop 3 (c # s) \<noteq> [] then Some (g, drop 3 (c # s))
      else label_cut (g @ [c]) s)"

definition templateDisplayParts :: "string \<Rightarrow> string \<times> string" where
  "templateDisplayParts label = (case label_cut [] label of None \<Rightarrow> (label, []) | Some (n, combo) \<Rightarrow> (trim n, trim combo))"

definition templatePreviewBase :: inbound_values where
  "templatePreviewBase = \<lparr>iv_remark = [], iv_protocol = ''vless'', iv_port = 0, iv_network = ''tcp'', iv_security = ''reality'',
     iv_uuid = Some [], iv_enabled = True,
     iv_adv = (\<lambda>key. if key = F_tuic_zero_rtt then JBool False else JUndef)\<rparr>"

definition templateOptions :: "cap_state \<Rightarrow> draws \<Rightarrow> ((template_id \<times> string \<times> string) \<times> string) list" where
  "templateOptions st d =
     map (\<lambda>t. (t, iv_protocol (applyInboundTemplate st (as_inbound templatePreviewBase) (fst t) d))) inboundTemplateOptions"

definition template_card :: "cap_state \<Rightarrow> (string \<Rightarrow> string) \<Rightarrow> (template_id \<times> string \<times> string) \<times> string \<Rightarrow> string list" where
  "template_card st tr t = (case t of ((tid, label, description), preview) \<Rightarrow>
     (let (n, combo) = templateDisplayParts label;
          isLocalProxy = startsWith (template_name tid) ''local-'';
          shareable = (\<not> isLocalProxy \<and> supportsInboundShareLink st preview)
      in [tr n, if combo = [] then [] else tr combo, tr description,
          tr (if isLocalProxy then zh_iw_local else if shareable then zh_iw_link else zh_iw_nolink)]))"

definition savedClientLinkActions :: "cap_state \<Rightarrow> string \<Rightarrow> string list" where
  "savedClientLinkActions st protocol = (if supportsInboundShareLink st protocol then [''share''] else [])"

section \<open>Credentials of a client\<close>

definition utf16_drop :: "nat \<Rightarrow> string \<Rightarrow> string" where \<comment> \<open>\<^verbatim>\<open>s.slice(n)\<close>, a pair at the cut being dropped\<close>
  "utf16_drop n s = drop (length (utf16_take n s)) s"

definition maskCredential :: "string \<Rightarrow> (string \<Rightarrow> string) \<Rightarrow> string" where
  "maskCredential value tr =
     (if value = [] then tr zh_iw_missing
      else if utf16_length value \<le> 12 then value
      else utf16_take 8 value @ ''...'' @ utf16_drop (utf16_length value - 4) value)"

definition clientCredentialSummary :: "client_values \<Rightarrow> credential_type \<Rightarrow> (string \<Rightarrow> string) \<Rightarrow> string" where
  "clientCredentialSummary values type tr =
     (let named = str_or (cv_credential_id values) (cv_uuid values)
      in case type of
           C_none \<Rightarrow> tr zh_iw_nodelevel
         | C_credential_id_password \<Rightarrow> ''TUIC UUID: '' @ maskCredential named tr @ '' / '' @ tr zh_iw_password @ '': ''
             @ maskCredential (cv_password values) tr
         | C_username_password \<Rightarrow> tr zh_iw_user @ '': '' @ maskCredential named tr @ '' / '' @ tr zh_iw_password @ '': ''
             @ maskCredential (cv_password values) tr
         | C_password \<Rightarrow> tr zh_iw_password @ '': '' @ maskCredential (str_or (cv_password values) (cv_uuid values)) tr
         | C_uuid \<Rightarrow> ''UUID: '' @ maskCredential (str_or (cv_uuid values) (cv_credential_id values)) tr)"

datatype credential_field = CF_uuid | CF_credential_id | CF_password

text \<open>The inputs of \<^verbatim>\<open>CredentialFields\<close>: what is registered, its label, and whether new values can be drawn there.\<close>

definition CredentialFields :: "credential_type \<Rightarrow> (string \<Rightarrow> string) \<Rightarrow> (credential_field \<times> string \<times> bool) list" where
  "CredentialFields type tr = (case type of
       C_none \<Rightarrow> []
     | C_credential_id_password \<Rightarrow> [(CF_credential_id, ''TUIC UUID'', True), (CF_password, tr zh_iw_tuic_password, False)]
     | C_username_password \<Rightarrow> [(CF_credential_id, tr zh_iw_user, True), (CF_password, tr zh_iw_password, False)]
     | C_password \<Rightarrow> [(CF_password, tr zh_iw_password, True)]
     | C_uuid \<Rightarrow> [(CF_uuid, ''UUID'', True)])"

primrec credential_value :: "credential_field \<Rightarrow> client_values \<Rightarrow> string" where
  "credential_value CF_uuid v = cv_uuid v"
| "credential_value CF_credential_id v = cv_credential_id v"
| "credential_value CF_password v = cv_password v"

definition copy_enabled :: "credential_field \<Rightarrow> client_values \<Rightarrow> bool" where
  "copy_enabled f v = (credential_value f v \<noteq> [])"

subsection \<open>The client of an answer\<close>

definition isClient :: "jsval \<Rightarrow> bool" where
  "isClient v = (is_object v \<and> js_has_field v ''uuid'' \<and> js_has_field v ''email'')"

datatype extracted = FromAnswer jsval | Known client

definition extractClientResponse :: "jsval \<Rightarrow> client option \<Rightarrow> client_payload option \<Rightarrow> int \<Rightarrow> extracted option" where
  "extractClientResponse response fallback payload inboundId =
     (if isClient response then Some (FromAnswer response)
      else if is_object response \<and> isClient (js_field response ''client'') then Some (FromAnswer (js_field response ''client''))
      else case payload of None \<Rightarrow> map_option Known fallback
        | Some p \<Rightarrow> Some (Known
            \<lparr>cl_id = (case fallback of None \<Rightarrow> 0 | Some c \<Rightarrow> cl_id c),
             cl_inbound_id = (case fallback of Some c \<Rightarrow> if cl_inbound_id c \<noteq> 0 then cl_inbound_id c else inboundId | None \<Rightarrow> inboundId),
             cl_email = py_email p, cl_uuid = py_uuid p, cl_credential_id = Some (py_credential_id p), cl_stats_key = None,
             cl_password = Some (py_password p),
             cl_subscription_token = (case fallback of None \<Rightarrow> None | Some c \<Rightarrow> cl_subscription_token c),
             cl_enabled = Some (py_enabled p), cl_traffic_limit = Some (py_traffic_limit p), cl_expiry_at = Some (py_expiry_at p)\<rparr>))"

section \<open>The dialog of a client\<close>

text \<open>
  The dialog is always there; what it is about are its properties \<open>cd_inbound\<close> (none: it is closed) and
  \<open>cd_client\<close>. \<open>cd_key\<close> is the key its effect ran with last.
\<close>

record client_dialog =
  cd_inbound :: "inbound option"
  cd_client :: "client option"
  cd_form :: client_values
  cd_credentialOpen :: bool
  cd_key :: string

definition clientOpenKey :: "inbound option \<Rightarrow> client option \<Rightarrow> string" where
  "clientOpenKey inb cl = (case inb of None \<Rightarrow> []
     | Some i \<Rightarrow> int_str (ib_id i) @ '':'' @ ib_protocol i @ '':''
         @ (case cl of Some c \<Rightarrow> if cl_id c \<noteq> 0 then int_str (cl_id c) else ''new'' | None \<Rightarrow> ''new''))"

text \<open>A render with new properties: the effect runs when the key changed, and resets the form if the dialog is open.\<close>

definition client_props ::
  "cap_state \<Rightarrow> cal_day \<Rightarrow> string \<Rightarrow> string \<Rightarrow> string \<Rightarrow> inbound option \<Rightarrow> client option \<Rightarrow> client_dialog \<Rightarrow> client_dialog" where
  "client_props st cal u1 u2 u3 inb cl m =
     (let m' = m\<lparr>cd_inbound := inb, cd_client := cl, cd_key := clientOpenKey inb cl\<rparr>
      in case inb of None \<Rightarrow> m'
         | Some i \<Rightarrow> if clientOpenKey inb cl = cd_key m then m'
             else m'\<lparr>cd_form := clientFormValues st cal u1 u2 u3 i cl, cd_credentialOpen := False\<rparr>)"

definition regenerate_client :: "cap_state \<Rightarrow> string \<Rightarrow> string \<Rightarrow> string \<Rightarrow> client_dialog \<Rightarrow> client_dialog" where
  "regenerate_client st u1 u2 u3 m =
     (let generated = generatedClientCredentialValues st (case cd_inbound m of None \<Rightarrow> [] | Some i \<Rightarrow> ib_protocol i) u1 u2 u3
      in m\<lparr>cd_form := (cd_form m)\<lparr>cv_uuid := cc_uuid generated, cv_credential_id := cc_credential_id generated,
           cv_password := cc_password generated\<rparr>\<rparr>)"

datatype client_event =
    PropsC cal_day string string string "inbound option" "client option"
  | EditC client_values
  | RegenerateC string string string
  | ToggleCredentialC

fun client_dialog_step :: "cap_state \<Rightarrow> client_event \<Rightarrow> client_dialog \<Rightarrow> client_dialog" where
  "client_dialog_step st (PropsC cal u1 u2 u3 inb cl) m = client_props st cal u1 u2 u3 inb cl m"
| "client_dialog_step st (EditC v) m = m\<lparr>cd_form := v\<rparr>"
| "client_dialog_step st (RegenerateC u1 u2 u3) m = regenerate_client st u1 u2 u3 m"
| "client_dialog_step st ToggleCredentialC m = m\<lparr>cd_credentialOpen := \<not> cd_credentialOpen m\<rparr>"

definition number_json :: "int option \<Rightarrow> jsval" where
  "number_json n = (case n of None \<Rightarrow> JUndef | Some i \<Rightarrow> JNum (of_int i))"

definition client_json :: "client \<Rightarrow> jsval" where
  "client_json c = JObj [(''id'', JNum (of_int (cl_id c))), (''inbound_id'', JNum (of_int (cl_inbound_id c))),
     (''email'', JStr (cl_email c)), (''uuid'', JStr (cl_uuid c)), (''credential_id'', text_json (cl_credential_id c)),
     (''stats_key'', text_json (cl_stats_key c)), (''password'', text_json (cl_password c)),
     (''subscription_token'', text_json (cl_subscription_token c)),
     (''enabled'', case cl_enabled c of None \<Rightarrow> JUndef | Some b \<Rightarrow> JBool b),
     (''traffic_limit'', number_json (cl_traffic_limit c)), (''expiry_at'', number_json (cl_expiry_at c))]"

text \<open>The request of the mutation; a stored client is sent as a whole, with the payload over it.\<close>

definition save_client :: "cap_state \<Rightarrow> int \<Rightarrow> cal_parse \<Rightarrow> client_dialog \<Rightarrow> (inbounds_op \<times> client_payload) option" where
  "save_client st now parse m = (case cd_inbound m of None \<Rightarrow> None
     | Some i \<Rightarrow> (let payload = buildClientPayload st now parse (cd_form m) (ib_protocol i)
         in case cd_client m of
              Some c \<Rightarrow> Some (UpdateClient (ib_id i) (cl_id c) (client_json (saved_client c payload)), payload)
            | None \<Rightarrow> Some (CreateClient (ib_id i) (payload_json payload), payload)))"

end
