(* ===== verification/InboundViewProps.thy ===== *)
theory InboundViewProps
  imports InboundView
begin

text \<open>
  What the inbound dialogs guarantee: the inputs are those of the fields the combination uses, the selections of a new node hold
  values they offer, credentials are masked, and the client dialog saves the client whose values it shows.
\<close>

abbreviation builtin :: cap_state where "builtin \<equiv> resetInboundCapabilitiesForTest"

section \<open>The fields shown\<close>

definition possible_securities :: "protocol \<Rightarrow> inbound_security list" where
  "possible_securities p = cp_securityDefault (inboundCapabilities p) @ concat (map snd (cp_securityByNetwork (inboundCapabilities p)))"

lemma combination_security:
  assumes "combination_ok builtin v"
  obtains p s where "iv_protocol v = protocol_name p" "iv_security v = security_name s" "s \<in> set (possible_securities p)"
proof -
  let ?p = "asInboundProtocol builtin (iv_protocol v)"
  have p: "iv_protocol v = protocol_name ?p" using assms by (simp add: combination_ok_def Let_def)
  have "allowedInboundSecurities builtin (iv_protocol v) (iv_network v) \<noteq> []"
    using allowed_nonempty [OF caps_ok_api [of None]] by (simp add: reset_is_empty_response)
  then have "iv_security v \<in> security_name ` set (allowedInboundSecurities builtin (protocol_name ?p) (iv_network v))"
    using assms p by (simp add: combination_ok_def Let_def)
  then obtain s where s: "iv_security v = security_name s" "s \<in> set (allowedInboundSecurities builtin (protocol_name ?p) (iv_network v))"
    by blast
  moreover have "s \<in> set (possible_securities ?p)"
    using s(2) by (force simp: allowed_reset possible_securities_def split: option.splits dest: map_of_SomeD)
  ultimately show ?thesis using that p by blast
qed

lemma possible_tls_reality:
  "S_tls \<in> set (possible_securities p) \<longleftrightarrow> p \<in> {P_vless, P_vmess, P_trojan, P_hysteria2, P_tuic}"
  "S_reality \<in> set (possible_securities p) \<longleftrightarrow> p \<in> {P_vless, P_trojan}"
  by (cases p; simp add: possible_securities_def builtin_caps)+

lemma builtin_protocol_fields:
  "cp_protocolAdvancedFields (inboundCapabilities p) = (case p of
       P_shadowsocks \<Rightarrow> [F_ss_method] | P_hysteria2 \<Rightarrow> [F_hy2_up_mbps, F_hy2_down_mbps, F_hy2_obfs, F_hy2_obfs_password]
     | P_tuic \<Rightarrow> [F_tuic_congestion_control, F_tuic_zero_rtt] | P_shadowtls \<Rightarrow> [F_shadowtls_version, F_tls_sni] | _ \<Rightarrow> [])"
  by (cases p) (simp_all add: builtin_caps)

definition tls_fields :: "protocol \<Rightarrow> adv_field list" where
  "tls_fields p = (if p \<in> {P_hysteria2, P_tuic} then singboxTlsFields else xrayTlsFields)"

lemma builtin_security_fields:
  assumes "s \<in> set (possible_securities p)"
  shows "(case find (\<lambda>(t, fs). t = s) (cp_securityAdvancedFields (inboundCapabilities p)) of Some (t, fs) \<Rightarrow> fs | None \<Rightarrow> [])
    = (case s of S_none \<Rightarrow> [] | S_tls \<Rightarrow> tls_fields p | S_reality \<Rightarrow> realityFields)"
proof (cases s)
  case S_none
  then show ?thesis by (cases p) (simp_all add: builtin_caps)
next
  case S_tls
  then show ?thesis using assms by (cases p) (simp_all add: possible_tls_reality builtin_caps tls_fields_def)
next
  case S_reality
  then show ?thesis using assms by (cases p) (simp_all add: possible_tls_reality builtin_caps)
qed

lemma enabled_builtin:
  assumes "iv_protocol v = protocol_name p" and "iv_security v = security_name s" and "s \<in> set (possible_securities p)"
  shows "set (enabledInboundAdvancedFields builtin v) = set (cp_protocolAdvancedFields (inboundCapabilities p))
    \<union> set (case s of S_none \<Rightarrow> [] | S_tls \<Rightarrow> tls_fields p | S_reality \<Rightarrow> realityFields)
    \<union> (if iv_network v = ''ws'' \<or> iv_network v = ''h2'' then {F_ws_path, F_ws_host} else {})
    \<union> (if iv_network v = ''grpc'' then {F_grpc_service_name} else {})
    \<union> (if iv_network v = ''xhttp'' then {F_xhttp_path, F_xhttp_mode} else {})"
  using builtin_security_fields [OF assms(3)] assms(1,2)
  by (simp add: enabledInboundAdvancedFields_def Let_def) blast

lemmas section_fields = connection_fields_def reality_section_def identity_fields_def transport_fields_def
  security_expert_fields_def protocol_fields_def

definition field_guard :: "inbound_values \<Rightarrow> adv_field \<Rightarrow> bool" where
  "field_guard v key = (case key of
       F_hy2_up_mbps \<Rightarrow> iv_protocol v = ''hysteria2'' | F_hy2_down_mbps \<Rightarrow> iv_protocol v = ''hysteria2''
     | F_hy2_obfs \<Rightarrow> iv_protocol v = ''hysteria2'' | F_hy2_obfs_password \<Rightarrow> iv_protocol v = ''hysteria2''
     | F_tuic_congestion_control \<Rightarrow> iv_protocol v = ''tuic'' | F_tuic_zero_rtt \<Rightarrow> iv_protocol v = ''tuic''
     | F_shadowtls_version \<Rightarrow> iv_protocol v = ''shadowtls''
     | F_reality_dest \<Rightarrow> iv_security v = ''reality'' | F_reality_server_names \<Rightarrow> iv_security v = ''reality''
     | F_reality_private_key \<Rightarrow> iv_security v = ''reality'' | F_reality_public_key \<Rightarrow> iv_security v = ''reality''
     | F_tls_cert_file \<Rightarrow> iv_security v = ''tls'' | F_tls_key_file \<Rightarrow> iv_security v = ''tls''
     | F_tls_alpn \<Rightarrow> iv_security v = ''tls'' | F_tls_fingerprint \<Rightarrow> iv_security v \<in> {''tls'', ''reality''}
     | F_hy2_mport \<Rightarrow> False | F_shadowtls_password \<Rightarrow> False | _ \<Rightarrow> True)"

lemma guarded_shown:
  "key \<in> set (enabledInboundAdvancedFields st (dg_form m)) \<Longrightarrow> field_guard (dg_form m) key \<Longrightarrow> dg_advancedOpen m \<Longrightarrow>
     key \<in> set (shown_fields st m)"
  by (cases key) (simp_all add: field_guard_def shown_fields_def Let_def section_fields, auto)

lemma shown_enabled:
  assumes "combination_ok builtin (dg_form m)" and "dg_advancedOpen m"
  shows "set (shown_fields builtin m) = set (enabledInboundAdvancedFields builtin (dg_form m))"
proof -
  let ?E = "set (enabledInboundAdvancedFields builtin (dg_form m))"
  obtain p s where ps: "iv_protocol (dg_form m) = protocol_name p" "iv_security (dg_form m) = security_name s"
    "s \<in> set (possible_securities p)" using combination_security [OF assms(1)] by blast
  note E = enabled_builtin [OF ps]
  have "set realityFields \<subseteq> ?E" if "iv_security (dg_form m) = ''reality''"
    using that ps(2) by (cases s) (auto simp: E)
  then have "set (shown_fields builtin m) \<subseteq> ?E"
    by (auto simp: shown_fields_def Let_def section_fields realityFields_def)
  moreover have "key \<in> set (shown_fields builtin m)" if key: "key \<in> ?E" for key
  proof -
    have "key \<in> set (cp_protocolAdvancedFields (inboundCapabilities p)) \<or> s = S_tls \<and> key \<in> set (tls_fields p)
        \<or> s = S_reality \<and> key \<in> set realityFields \<or> key \<in> {F_ws_path, F_ws_host, F_grpc_service_name, F_xhttp_path, F_xhttp_mode}"
      using key by (cases s) (auto simp: E split: if_splits)
    then have "field_guard (dg_form m) key"
    proof (elim disjE)
      assume "key \<in> set (cp_protocolAdvancedFields (inboundCapabilities p))"
      then show ?thesis
        using ps(1) by (auto simp: builtin_protocol_fields field_guard_def split: protocol.splits)
    next
      assume "s = S_tls \<and> key \<in> set (tls_fields p)"
      then show ?thesis
        using ps(2) by (auto simp: tls_fields_def xrayTlsFields_def singboxTlsFields_def field_guard_def split: if_splits)
    next
      assume "s = S_reality \<and> key \<in> set realityFields"
      then show ?thesis using ps(2) by (auto simp: realityFields_def field_guard_def)
    next
      assume "key \<in> {F_ws_path, F_ws_host, F_grpc_service_name, F_xhttp_path, F_xhttp_mode}"
      then show ?thesis by (auto simp: field_guard_def)
    qed
    then show ?thesis by (rule guarded_shown [OF key _ assms(2)])
  qed
  ultimately show ?thesis by blast
qed


text \<open>
  C6.
  With the built-in tables and the advanced settings unfolded, whatever was clicked before, the dialog has an input for exactly the
  advanced fields that its combination of protocol, network and security uses; every other field is saved with its default value.
\<close>

theorem inputs_are_the_fields_saved:
  assumes "dialog_reachable builtin inb m" and "dg_advancedOpen m"
  shows "set (shown_fields builtin m) = set (enabledInboundAdvancedFields builtin (dg_form m))
    \<and> (\<forall>key. key \<notin> set (shown_fields builtin m) \<longrightarrow>
          map_of (buildFullInboundPayload builtin (Some inb) (dg_form m) ic) (field_name key) = Some (defaultAdvancedValue key))"
proof -
  have ok: "combination_ok builtin (dg_form m)" using dialog_combination_ok [OF assms(1)] by simp
  then show ?thesis
    using shown_enabled [OF ok assms(2)] by (simp add: payload_map_simps payload_fields_map saved_value_def isInboundAdvancedFieldEnabled_def combination_nf.nf_normal)
qed

theorem inputs_are_the_fields_saved_witness:
  "set (shown_fields builtin (dialog_step builtin ToggleAdvancedE (open_dialog builtin (\<lambda>_. (2024, 0, 1)) [] [] [] sample_inbound)))
   = set (enabledInboundAdvancedFields builtin (inboundFormValues builtin sample_inbound))"
proof -
  let ?m = "dialog_step builtin ToggleAdvancedE (open_dialog builtin (\<lambda>_. (2024, 0, 1)) [] [] [] sample_inbound)"
  have "dialog_reachable builtin sample_inbound ?m" by (intro stepped opened)
  moreover have "dg_advancedOpen ?m" "dg_form ?m = inboundFormValues builtin sample_inbound" by (simp_all add: open_dialog_def)
  ultimately show ?thesis using inputs_are_the_fields_saved [of sample_inbound ?m] by simp
qed

section \<open>Selections\<close>

definition select_keys :: "adv_field list" where \<comment> \<open>the selections that have an option for the value of an untouched field\<close>
  "select_keys = [F_tls_alpn, F_xhttp_mode, F_hy2_obfs, F_tuic_congestion_control, F_ss_method, F_shadowtls_version]"

definition offered :: "adv_field \<Rightarrow> jsval \<Rightarrow> bool" where
  "offered key val \<longleftrightarrow> (\<forall>vs. select_values key = Some vs \<longrightarrow> js_string val \<in> set vs)"

definition selects_ok :: "inbound_values \<Rightarrow> bool" where
  "selects_ok v \<longleftrightarrow> (\<forall>key \<in> set select_keys.
     if key \<in> set (enabledInboundAdvancedFields builtin v) then offered key (iv_adv v key) else iv_adv v key = defaultAdvancedValue key)"

lemma selects_cong:
  "enabledInboundAdvancedFields builtin v = enabledInboundAdvancedFields builtin w \<Longrightarrow> \<forall>key \<in> set select_keys. iv_adv v key = iv_adv w key \<Longrightarrow>
     selects_ok v = selects_ok w"
  by (simp add: selects_ok_def)

lemma seeded_offered: "key \<in> set select_keys \<Longrightarrow> offered key (seededAdvancedValue key)"
proof -
  have "list_all (\<lambda>key. js_string (seededAdvancedValue key) \<in> set (the (select_values key))) select_keys" by code_simp
  then show "key \<in> set select_keys \<Longrightarrow> offered key (seededAdvancedValue key)" by (force simp: offered_def list_all_iff)
qed

lemma changed_adv [simp]: "iv_adv (changed_values st v ch fresh) = iv_adv v"
  by (simp add: changed_values_def Let_def)

lemma selects_sanitize:
  assumes "selects_ok v"
  shows "selects_ok (sanitizeInboundFormValues builtin v ch fresh)"
  using assms seeded_offered
  by (auto simp: selects_ok_def sanitizeInboundFormValues_def Let_def split: if_splits)

subsection \<open>Templates\<close>

lemma inbound_field_extra: "ib_extra inb = ib_extra (as_inbound v) \<Longrightarrow> inbound_field inb key = iv_adv v key"
proof -
  have "map_of (map (\<lambda>k. (field_name k, iv_adv v k)) xs) (field_name key) = (if key \<in> set xs then Some (iv_adv v key) else None)" for xs
    by (induction xs) auto
  then show "ib_extra inb = ib_extra (as_inbound v) \<Longrightarrow> inbound_field inb key = iv_adv v key"
    by (simp add: inbound_field_def as_inbound_def)
qed

lemma inbound_field_as [simp]: "inbound_field ((as_inbound v)\<lparr>ib_id := n\<rparr>) key = iv_adv v key"
  by (rule inbound_field_extra) simp

definition template_values :: "template \<Rightarrow> inbound_values" where
  "template_values t = \<lparr>iv_remark = [], iv_protocol = tp_protocol t, iv_port = 0, iv_network = tp_network t, iv_security = tp_security t,
     iv_uuid = None, iv_enabled = True, iv_adv = defaultAdvancedValue\<rparr>"

lemma template_selects:
  "list_all (\<lambda>t. list_all (\<lambda>key.
     case map_of (tp_adv t) key of
       Some w \<Rightarrow> key \<in> set (enabledInboundAdvancedFields builtin (template_values t)) \<and> \<not> js_nullish w
          \<and> js_string w \<in> set (the (select_values key))
     | None \<Rightarrow> key \<notin> set (enabledInboundAdvancedFields builtin (template_values t)) \<and> key \<notin> set (templateAdvancedFields (tp_id t))) select_keys) inboundTemplates"
  by code_simp

subsection \<open>Templates keep the selections\<close>

lemma or_default_simps [simp]: "or_default (or_default v key) key = or_default v key" "or_default (defaultAdvancedValue key) key = defaultAdvancedValue key"
  by (auto simp: or_default_def defaultAdvancedValue_def js_nullish_def)

lemma inboundFormValues_adv [simp]: "iv_adv (inboundFormValues st inb) key = or_default (inbound_field inb key) key"
  by (simp add: inboundFormValues_def)

lemma template_unique:
  assumes "t \<in> set inboundTemplates" and "u \<in> set inboundTemplates" and "tp_id t = tp_id u"
  shows "t = u"
proof -
  have "distinct (map tp_id inboundTemplates)" by (simp add: inboundTemplates_def templates)
  then show ?thesis using assms by (metis inj_on_contraD distinct_map)
qed

lemma template_adv:
  assumes "t \<in> set inboundTemplates" and "tp_id t = tid" and "key \<notin> {F_reality_short_id, F_hy2_obfs_password}"
  shows "iv_adv (applyInboundTemplate builtin current tid d) key = or_default (case map_of (tp_adv t) key of Some w \<Rightarrow> w
     | None \<Rightarrow> if key \<in> set (templateAdvancedFields tid) then or_default (inbound_field current key) key else defaultAdvancedValue key) key"
proof -
  have "find (\<lambda>t. tp_id t = tid) inboundTemplates = Some t"
    using template_of_id [of tid] template_unique [OF assms(1)] assms(2) by (metis (mono_tags, lifting) find_Some_set)
  then show ?thesis
    using assms(3) by (simp add: applyInboundTemplate_def Let_def template_inbound_def clearTemplateAdvancedFields_def split: option.splits)
qed

lemma selects_template: "selects_ok (applyInboundTemplate builtin current tid d)"
proof -
  let ?w = "applyInboundTemplate builtin current tid d"
  obtain t where t: "t \<in> set inboundTemplates" "tp_id t = tid" and w: "iv_protocol ?w = tp_protocol t"
    "iv_network ?w = tp_network t" "iv_security ?w = tp_security t"
    using template_combination by blast
  have enabled: "enabledInboundAdvancedFields builtin ?w = enabledInboundAdvancedFields builtin (template_values t)"
    by (rule enabled_cong) (simp_all add: w template_values_def)
  have "if key \<in> set (enabledInboundAdvancedFields builtin ?w) then offered key (iv_adv ?w key) else iv_adv ?w key = defaultAdvancedValue key"
    if key: "key \<in> set select_keys" for key
  proof -
    have "key \<notin> {F_reality_short_id, F_hy2_obfs_password}" using key by (auto simp: select_keys_def)
    note adv = template_adv [OF t this, of current d]
    show ?thesis
    proof (cases "map_of (tp_adv t) key")
      case None
      then have "key \<notin> set (enabledInboundAdvancedFields builtin (template_values t))" "key \<notin> set (templateAdvancedFields tid)"
        using template_selects t key by (force simp: list_all_iff)+
      then show ?thesis using None adv by (simp add: enabled)
    next
      case (Some x)
      then have "key \<in> set (enabledInboundAdvancedFields builtin (template_values t)) \<and> \<not> js_nullish x
          \<and> js_string x \<in> set (the (select_values key))"
        using template_selects t key by (force simp: list_all_iff)
      then show ?thesis using Some adv by (auto simp: enabled offered_def or_default_def)
    qed
  qed
  then show ?thesis by (simp add: selects_ok_def)
qed

lemma selects_new: "selects_ok (inboundFormValues builtin (createDefaultInbound builtin fresh d))"
proof -
  let ?w = "applyInboundTemplate builtin (seed_inbound fresh) T_recommended d"
  let ?v = "inboundFormValues builtin (createDefaultInbound builtin fresh d)"
  obtain t where w: "iv_protocol ?w = tp_protocol t" "iv_network ?w = tp_network t" "iv_security ?w = tp_security t"
    and mem: "t \<in> set inboundTemplates" and id: "tp_id t = T_recommended" using template_combination by blast
  have "template_matches ?v T_recommended" by (rule createDefault_matches)
  then obtain u where u: "u \<in> set inboundTemplates" "tp_id u = T_recommended" "iv_protocol ?v = tp_protocol u"
    "iv_network ?v = tp_network u" "iv_security ?v = tp_security u" unfolding template_matches_def by blast
  have "u = t" by (rule template_unique) (simp_all only: u(1,2) mem id)
  then have v: "iv_protocol ?v = iv_protocol ?w" "iv_network ?v = iv_network ?w" "iv_security ?v = iv_security ?w"
    by (simp_all only: w u(3,4,5))
  have same: "iv_adv ?v key = iv_adv ?w key" if key: "key \<in> set select_keys" for key
  proof -
    have "key \<notin> {F_reality_short_id, F_hy2_obfs_password}" using key by (auto simp: select_keys_def)
    moreover have "inbound_field (createDefaultInbound builtin fresh d) key = iv_adv ?w key"
      by (rule inbound_field_extra) (simp add: createDefaultInbound_def)
    ultimately show ?thesis using template_adv [OF mem id, of key "seed_inbound fresh" d] by simp
  qed
  then show ?thesis
    using selects_template [of "seed_inbound fresh" T_recommended d] selects_cong [of ?v ?w] enabled_cong [OF v] by simp
qed

subsection \<open>A new node\<close>

definition input_made :: "dialog \<Rightarrow> dialog_event \<Rightarrow> bool" where \<comment> \<open>only inputs that are there are used, and selections by their options\<close>
  "input_made m e \<longleftrightarrow> (case e of
     EditTextE key val \<Rightarrow> key \<in> set (shown_fields builtin m) \<and> (\<forall>vs. select_values key = Some vs \<longrightarrow> val \<in> set vs) | _ \<Rightarrow> True)"

inductive new_dialog :: "dialog \<Rightarrow> bool" where
  new_opened: "new_dialog (open_dialog builtin cal u1 u2 u3 (createDefaultInbound builtin fresh d))"
| new_stepped: "new_dialog m \<Longrightarrow> input_made m e \<Longrightarrow> new_dialog (dialog_step builtin e m)"

lemma new_reachable: "new_dialog m \<Longrightarrow> \<exists>inb. dialog_reachable builtin inb m"
  by (induction rule: new_dialog.induct) (auto intro: dialog_reachable.intros)

lemma shown_subset: "dialog_reachable builtin inb m \<Longrightarrow> set (shown_fields builtin m) \<subseteq> set (enabledInboundAdvancedFields builtin (dg_form m))"
proof -
  assume "dialog_reachable builtin inb m"
  then have ok: "combination_ok builtin (dg_form (m\<lparr>dg_advancedOpen := True\<rparr>))" using dialog_combination_ok by simp
  have "set (shown_fields builtin m) \<subseteq> set (shown_fields builtin (m\<lparr>dg_advancedOpen := True\<rparr>))"
    by (auto simp: shown_fields_def Let_def)
  then show ?thesis using shown_enabled [OF ok] by simp
qed

definition form_kept :: "dialog \<Rightarrow> dialog \<Rightarrow> bool" where \<comment> \<open>the combination and the selections are left alone\<close>
  "form_kept m m' \<longleftrightarrow> iv_protocol (dg_form m') = iv_protocol (dg_form m) \<and> iv_network (dg_form m') = iv_network (dg_form m)
     \<and> iv_security (dg_form m') = iv_security (dg_form m) \<and> (\<forall>key \<in> set select_keys. iv_adv (dg_form m') key = iv_adv (dg_form m) key)"

lemma form_kept_refl: "form_kept m m"
  by (simp add: form_kept_def)

lemma form_kept_adv: "key \<notin> set select_keys \<Longrightarrow> form_kept m m' \<Longrightarrow> form_kept m (set_adv key val m')"
  by (auto simp: form_kept_def set_adv_def)

lemma form_kept_selects: "form_kept m m' \<Longrightarrow> selects_ok (dg_form m) \<Longrightarrow> selects_ok (dg_form m')"
  using selects_cong [of "dg_form m'" "dg_form m"] enabled_cong [of "dg_form m'" "dg_form m" builtin] by (simp add: form_kept_def)

lemma reset_form [simp]: "dg_form (resetInitialClientForProtocol st p u1 u2 u3 m) = dg_form m"
  by (simp add: resetInitialClientForProtocol_def Let_def set_client_credential_def)

lemma selects_edit:
  assumes "selects_ok (dg_form m)" and "key \<in> set (enabledInboundAdvancedFields builtin (dg_form m))" and "offered key (JStr val)"
  shows "selects_ok (dg_form (set_adv key val m))"
  using assms enabled_cong [of "dg_form (set_adv key val m)" "dg_form m" builtin] by (simp add: selects_ok_def set_adv_def)

lemma selects_step:
  assumes "dialog_reachable builtin inb m" and "selects_ok (dg_form m)" and "input_made m e"
  shows "selects_ok (dg_form (dialog_step builtin e m))"
proof (cases e)
  case (ApplyTemplateE tid d u1 u2 u3 accepted)
  then show ?thesis using assms(2) selects_template by (simp add: requestApplyTemplate_def applyTemplate_def Let_def)
next
  case (ChooseProtocolE p fresh u1 u2 u3)
  then show ?thesis using selects_sanitize [OF assms(2)] by (simp add: chooseProtocol_def Let_def)
next
  case (ChooseNetworkE n fresh)
  then show ?thesis using selects_sanitize [OF assms(2)] by (simp add: chooseNetwork_def)
next
  case (ChooseSecurityE s fresh)
  then show ?thesis using selects_sanitize [OF assms(2)] by (simp add: chooseSecurity_def)
next
  case (EditTextE key val)
  then have "key \<in> set (enabledInboundAdvancedFields builtin (dg_form m))" "offered key (JStr val)"
    using assms(3) shown_subset [OF assms(1)] by (auto simp: input_made_def offered_def)
  then show ?thesis using EditTextE selects_edit [OF assms(2)] by simp
next
  case (AttachCertE cert)
  have "form_kept m (attachSettingCert cert m)"
    by (auto simp: attachSettingCert_def Let_def select_keys_def intro!: form_kept_adv form_kept_refl split: option.split)
  then show ?thesis using form_kept_selects assms(2) AttachCertE by simp
next
  case (RealityKeysE keypair)
  have "form_kept m (generateRealityKeys keypair m)"
    by (auto simp: generateRealityKeys_def select_keys_def intro!: form_kept_adv form_kept_refl split: option.split)
  then show ?thesis using form_kept_selects assms(2) RealityKeysE by simp
next
  case (EditBaseE remark port uuid enabled)
  have "form_kept m (dialog_step builtin e m)" by (simp add: EditBaseE form_kept_def)
  then show ?thesis using form_kept_selects assms(2) by simp
next
  case (NewCredentialE fresh)
  have "form_kept m (dialog_step builtin e m)" by (simp add: NewCredentialE form_kept_def regenerateCredential_def)
  then show ?thesis using form_kept_selects assms(2) by simp
next
  case (NewClientCredentialE u1 u2 u3)
  then show ?thesis using assms(2) by (simp add: regenerateInitialClientCredential_def set_client_credential_def)
next
  case ClearCertE
  have "form_kept m (clearTLSCert m)" by (auto simp: clearTLSCert_def select_keys_def intro!: form_kept_adv form_kept_refl)
  then show ?thesis using form_kept_selects assms(2) ClearCertE by simp
next
  case (RealityTargetE s)
  have "form_kept m (applyRealityTarget s m)" by (auto simp: applyRealityTarget_def select_keys_def intro!: form_kept_adv form_kept_refl)
  then show ?thesis using form_kept_selects assms(2) RealityTargetE by simp
next
  case ClearRealityE
  have "form_kept m (clearRealitySettings m)"
    by (simp add: clearRealitySettings_def select_keys_def form_kept_adv form_kept_refl)
  then show ?thesis using form_kept_selects assms(2) ClearRealityE by simp
next
  case (NewShortIdE bytes)
  have "form_kept m (regenerateRealityShortID bytes m)"
    by (auto simp: regenerateRealityShortID_def select_keys_def intro!: form_kept_adv form_kept_refl)
  then show ?thesis using form_kept_selects assms(2) NewShortIdE by simp
qed (use assms(2) in simp_all)



text \<open>
  The TLS fingerprint is seeded with the empty text, which its selection does not offer: choosing TLS for a node without encryption
  leaves the selection without a value.
\<close>

lemma fingerprint_is_not_offered:
  assumes "iv_protocol (dg_form m) = ''vless''" and "iv_network (dg_form m) = ''tcp''"
  shows "let m' = dialog_step builtin (ChooseSecurityE ''tls'' fresh) (dialog_step builtin (ChooseSecurityE ''none'' fresh) m) in
    F_tls_fingerprint \<in> set (enabledInboundAdvancedFields builtin (dg_form m')) \<and> iv_adv (dg_form m') F_tls_fingerprint = JStr []
    \<and> [] \<notin> set tlsFingerprintOptions"
proof -
  have vless: "protocol_name P_vless = ''vless''" by simp
  have choose: "iv_protocol w = ''vless'' \<and> iv_network w = ''tcp'' \<and> iv_security w = s \<and> iv_adv w = iv_adv v"
    if "iv_protocol v = ''vless''" "iv_network v = ''tcp''" "s \<in> {''none'', ''tls''}"
      "w = changed_values builtin v (no_change\<lparr>ch_security := Some s\<rparr>) fresh" for v w s
    using that allowed_reset [of P_vless "''tcp''"]
    by (auto simp: changed_values_def no_change_def change_or_def normalizeInboundCombination_def Let_def cap_vless_def xrayNetworks_def)
  have uses_fingerprint: "F_tls_fingerprint \<in> set (enabledInboundAdvancedFields builtin v)"
    if "iv_protocol v = ''vless''" "iv_security v = ''tls''" for v
    using that by (simp add: enabledInboundAdvancedFields_def Let_def cap_vless_def xrayTlsFields_def)
  let ?a = "changed_values builtin (dg_form m) (no_change\<lparr>ch_security := Some ''none''\<rparr>) fresh"
  let ?m1 = "dialog_step builtin (ChooseSecurityE ''none'' fresh) m"
  have a: "iv_protocol ?a = ''vless''" "iv_network ?a = ''tcp''" "iv_security ?a = ''none''"
    using choose [OF assms, of "''none''" ?a] by simp_all
  have "enabledInboundAdvancedFields builtin ?a = []"
    by (simp add: enabledInboundAdvancedFields_def Let_def a cap_vless_def)
  then have m1: "iv_protocol (dg_form ?m1) = ''vless''" "iv_network (dg_form ?m1) = ''tcp''"
    "iv_adv (dg_form ?m1) F_tls_fingerprint = JStr []"
    using a by (simp_all add: chooseSecurity_def sanitizeInboundFormValues_def Let_def defaultAdvancedValue_def numericAdvancedFields_def)
  let ?b = "changed_values builtin (dg_form ?m1) (no_change\<lparr>ch_security := Some ''tls''\<rparr>) fresh"
  let ?m2 = "dialog_step builtin (ChooseSecurityE ''tls'' fresh) ?m1"
  have b: "iv_protocol ?b = ''vless''" "iv_network ?b = ''tcp''" "iv_security ?b = ''tls''" "iv_adv ?b = iv_adv (dg_form ?m1)"
    using choose [OF m1(1,2), of "''tls''" ?b] by simp_all
  have fp: "F_tls_fingerprint \<in> set (enabledInboundAdvancedFields builtin ?b)" by (rule uses_fingerprint [OF b(1,3)])
  have seed: "seededAdvancedValue F_tls_fingerprint = JStr []" "isBlankAdvancedValue F_tls_fingerprint (JStr [])"
    by (simp_all add: seededAdvancedValue_def defaultAdvancedValue_def numericAdvancedFields_def isBlankAdvancedValue_def
        normalizeAdvancedValue_def js_nullish_def)
  have m2: "dg_form ?m2 = sanitizeInboundFormValues builtin (dg_form ?m1) (no_change\<lparr>ch_security := Some ''tls''\<rparr>) fresh"
    by (simp add: chooseSecurity_def)
  have "enabledInboundAdvancedFields builtin (dg_form ?m2) = enabledInboundAdvancedFields builtin ?b"
    unfolding m2 by (simp add: sanitizeInboundFormValues_def Let_def)
  moreover have "iv_adv (dg_form ?m2) F_tls_fingerprint = JStr []"
    unfolding m2 using fp seed m1(3) b(4) by (simp add: sanitizeInboundFormValues_def Let_def)
  ultimately show ?thesis using fp by (simp add: Let_def tlsFingerprintOptions_def)
qed

section \<open>The port\<close>

lemma lower_digit: "is_digit c \<Longrightarrow> lower_char c = c"
  by (simp add: is_digit_def) (elim disjE; simp add: lower_char_def)

lemma digit_hex: "is_digit c \<Longrightarrow> is_hex c"
  using lower_digit [of c] by (auto simp: is_hex_def is_digit_def)

text \<open>Typing the port that is shown keeps it, and an empty input makes it automatic.\<close>

lemma port_round_trip: "0 \<le> iv_port v \<Longrightarrow> port_typed (port_shown v) = Some (of_int (iv_port v))"
proof -
  assume pos: "0 \<le> iv_port v"
  let ?s = "nat_str (nat (iv_port v))"
  have digits: "\<forall>c \<in> set ?s. is_digit c" by (rule nat_str_digits)
  have "trim ?s = ?s"
    using digits by (intro trim_hex_ends) (simp_all add: digit_hex)
  moreover have "toLowerCase (take 2 ?s) \<notin> {''0x'', ''0o'', ''0b''}"
  proof -
    have "\<forall>c \<in> set (toLowerCase (take 2 ?s)). is_digit c"
      using digits lower_digit by (auto simp: toLowerCase_def dest!: in_set_takeD)
    moreover have "\<not> is_digit (CHR ''x'')" "\<not> is_digit (CHR ''o'')" "\<not> is_digit (CHR ''b'')" by (simp_all add: is_digit_def)
    ultimately show ?thesis by auto
  qed
  moreover have "hd ?s \<notin> {CHR ''-'', CHR ''+''}"
  proof -
    have "is_digit (hd ?s)" using digits by simp
    moreover have "\<not> is_digit (CHR ''+'')" by (simp add: is_digit_def)
    ultimately show ?thesis using digit_not_minus by auto
  qed
  ultimately show ?thesis
    using pos by (simp add: port_typed_def port_shown_def isAutoPort_def int_str_def string_to_number_def Let_def)
qed

section \<open>Credentials in the summary\<close>

definition single_bytes :: "string \<Rightarrow> bool" where
  "single_bytes s = list_all (\<lambda>c. (of_char c :: nat) < 0x80) s"

lemma single_units: "(of_char c :: nat) < 0x80 \<Longrightarrow> utf16_units c = 1"
  by (simp add: utf16_units_def Let_def)

lemma single_length: "single_bytes s \<Longrightarrow> utf16_length s = length s"
  by (induction s) (simp_all add: single_bytes_def utf16_length_def single_units)

lemma single_take: "single_bytes s \<Longrightarrow> utf16_take n s = take n s"
  by (induction s arbitrary: n) (auto simp: single_bytes_def single_units take_Cons split: nat.splits)

lemma single_append [simp]: "single_bytes (a @ b) \<longleftrightarrow> single_bytes a \<and> single_bytes b"
  by (simp add: single_bytes_def)

lemma mask_hides_the_middle:
  assumes "single_bytes a" and "single_bytes m" and "single_bytes b" and "length a = 8" and "length b = 4" and "m \<noteq> []"
  shows "maskCredential (a @ m @ b) tr = a @ ''...'' @ b"
proof -
  have "single_bytes (a @ m @ b)" using assms(1-3) by simp
  moreover have "a @ m @ b \<noteq> []" using assms(4) by auto
  ultimately show ?thesis
    using assms(4-6) by (simp add: maskCredential_def single_length single_take utf16_drop_def)
qed

definition named_credential :: "credential_type \<Rightarrow> client_credential \<Rightarrow> string" where \<comment> \<open>what identifies a client to the core\<close>
  "named_credential type c = (case type of C_none \<Rightarrow> [] | C_password \<Rightarrow> cc_uuid c | _ \<Rightarrow> cc_credential_id c)"

definition stored_values :: "client_credential \<Rightarrow> client_values \<Rightarrow> client_values" where
  "stored_values c v = v\<lparr>cv_uuid := cc_uuid c, cv_credential_id := cc_credential_id c, cv_password := cc_password c\<rparr>"

text \<open>
  
  The summary of the credentials in the client dialogs shows those that saving stores, for every kind of credential, except for a
  UUID client whose two identifiers differ: there the typed UUID is shown, and the old identifier is stored.
\<close>

theorem summary_is_of_the_saved_credential:
  assumes "type \<noteq> C_uuid \<or> cv_uuid v = cv_credential_id v \<or> cv_uuid v = [] \<and> cv_credential_id v \<noteq> [] \<or> cv_credential_id v = [] \<and> cv_uuid v \<noteq> []"
    and "type = C_uuid \<longrightarrow> cv_password v = [] \<or> cv_uuid v \<noteq> [] \<or> cv_credential_id v \<noteq> []"
  shows "clientCredentialSummary (stored_values (payload_credential type v) v) type tr = clientCredentialSummary v type tr"
  using assms by (cases type) (auto simp: clientCredentialSummary_def stored_values_def payload_credential_def Let_def)

definition empty_client_form :: client_values where
  "empty_client_form = \<lparr>cv_email = [], cv_uuid = [], cv_credential_id = [], cv_password = [], cv_enabled = True,
     cv_traffic_limit_gb = 0, cv_expiry_mode = E_unlimited, cv_expiry_date = []\<rparr>"

definition secret_form :: client_values where
  "secret_form = empty_client_form\<lparr>cv_uuid := ''secret-1''\<rparr>"

theorem summary_is_of_the_saved_credential_witness:
  "clientCredentialSummary (stored_values (payload_credential C_password secret_form) secret_form) C_password (\<lambda>x. x)
   = clientCredentialSummary secret_form C_password (\<lambda>x. x)"
  by (rule summary_is_of_the_saved_credential) simp_all

text \<open>The inputs of the credentials are those the summary names.\<close>

lemma credential_inputs:
  "fst ` set (CredentialFields type tr) = (case type of C_none \<Rightarrow> {} | C_uuid \<Rightarrow> {CF_uuid} | C_password \<Rightarrow> {CF_password}
     | _ \<Rightarrow> {CF_credential_id, CF_password})"
  "type \<noteq> C_none \<Longrightarrow> length (filter (\<lambda>(f, l, draw). draw) (CredentialFields type tr)) = 1"
  by (cases type; simp add: CredentialFields_def)+

section \<open>The dialog of a client\<close>

definition client_dialog_start :: "client_values \<Rightarrow> client_dialog" where
  "client_dialog_start v = \<lparr>cd_inbound = None, cd_client = None, cd_form = v, cd_credentialOpen = False, cd_key = []\<rparr>"

definition client_run :: "cap_state \<Rightarrow> client_values \<Rightarrow> client_event list \<Rightarrow> client_dialog" where
  "client_run st v es = fold (client_dialog_step st) es (client_dialog_start v)"

lemma client_run_snoc: "client_run st v (es @ [e]) = client_dialog_step st e (client_run st v es)"
  by (simp add: client_run_def)

definition client_id_of :: "client option \<Rightarrow> int" where
  "client_id_of c = (case c of None \<Rightarrow> 0 | Some cl \<Rightarrow> cl_id cl)"

lemma int_str_chars: "c \<in> set (int_str n) \<Longrightarrow> is_digit c \<or> c = CHR ''-''"
  using nat_str_digits by (auto simp: int_str_def split: if_splits)

lemma int_str_no_colon: "CHR '':'' \<notin> set (int_str n)"
  using int_str_chars [of "CHR '':''" n] by (auto simp: is_digit_def)

lemma int_str_not_new: "int_str n \<noteq> ''new''"
proof
  assume "int_str n = ''new''"
  then have "CHR ''n'' \<in> set (int_str n)" by simp
  then show False using int_str_chars [of "CHR ''n''" n] by (auto simp: is_digit_def)
qed

lemma last_cut:
  assumes "p @ c # t = q @ c # u" and "c \<notin> set t" and "c \<notin> set u"
  shows "p = q \<and> t = u"
proof -
  have cut: "takeWhile (\<lambda>x. x \<noteq> c) (rev (p @ c # t)) = rev t" if "c \<notin> set t" for p t
    using that by (simp add: takeWhile_tail) (metis set_rev takeWhile_eq_all_conv)
  have "rev t = rev u" using cut [OF assms(2), of p] cut [OF assms(3), of q] assms(1) by simp
  then show ?thesis using assms(1) by simp
qed

lemma first_cut: "p @ c # t = q @ c # u \<Longrightarrow> c \<notin> set p \<Longrightarrow> c \<notin> set q \<Longrightarrow> p = q \<and> t = u"
  using last_cut [of "rev t" c "rev p" "rev u" "rev q"] by (metis append.assoc append_Cons append_Nil rev.simps(2) rev_append rev_rev_ident set_rev)

lemma key_determines:
  assumes "clientOpenKey (Some i) c = clientOpenKey (Some j) d"
  shows "ib_id i = ib_id j \<and> ib_protocol i = ib_protocol j \<and> client_id_of c = client_id_of d"
proof -
  define tail where "tail x = (case x of Some c \<Rightarrow> if cl_id c \<noteq> 0 then int_str (cl_id c) else ''new'' | None \<Rightarrow> ''new'')" for x :: "client option"
  have no: "CHR '':'' \<notin> set (tail x)" for x by (auto simp: tail_def int_str_no_colon split: option.splits)
  have key: "int_str (ib_id i) @ CHR '':'' # (ib_protocol i @ CHR '':'' # tail c) = int_str (ib_id j) @ CHR '':'' # (ib_protocol j @ CHR '':'' # tail d)"
    using assms by (simp add: clientOpenKey_def tail_def)
  have "int_str (ib_id i) = int_str (ib_id j)" and rest: "ib_protocol i @ CHR '':'' # tail c = ib_protocol j @ CHR '':'' # tail d"
    using first_cut [OF key] int_str_no_colon by auto
  moreover have "ib_protocol i = ib_protocol j" "tail c = tail d" using last_cut [OF rest no no] by auto
  moreover have "tail c = tail d \<Longrightarrow> client_id_of c = client_id_of d"
    using int_str_not_new int_str_not_new [symmetric] by (auto simp: tail_def client_id_of_def split: option.splits if_splits)
  ultimately show ?thesis by simp
qed

definition edited :: "cap_state \<Rightarrow> string \<Rightarrow> client_event \<Rightarrow> client_values \<Rightarrow> client_values" where \<comment> \<open>the effect of an edit on the values\<close>
  "edited st protocol e v = (case e of EditC w \<Rightarrow> w
     | RegenerateC u1 u2 u3 \<Rightarrow> stored_values (generatedClientCredentialValues st protocol u1 u2 u3) v | _ \<Rightarrow> v)"

lemma client_key: "cd_key (client_run st v es) = clientOpenKey (cd_inbound (client_run st v es)) (cd_client (client_run st v es))"
proof (induction es rule: rev_induct)
  case Nil
  then show ?case by (simp add: client_run_def client_dialog_start_def clientOpenKey_def)
next
  case (snoc e es)
  then show ?case
    by (cases e) (simp_all add: client_run_snoc client_props_def regenerate_client_def Let_def split: option.splits)
qed

definition same_client :: "inbound \<Rightarrow> client option \<Rightarrow> inbound \<Rightarrow> client option \<Rightarrow> bool" where
  "same_client i c j d \<longleftrightarrow> ib_id i = ib_id j \<and> ib_protocol i = ib_protocol j \<and> client_id_of c = client_id_of d"

definition loaded_by :: "cap_state \<Rightarrow> client_event list \<Rightarrow> client_dialog \<Rightarrow> inbound \<Rightarrow> bool" where
  "loaded_by st es m i \<longleftrightarrow> (\<exists>before cal u1 u2 u3 j d later. es = before @ PropsC cal u1 u2 u3 (Some j) d # later
     \<and> same_client i (cd_client m) j d \<and> cd_form m = fold (edited st (ib_protocol i)) later (clientFormValues st cal u1 u2 u3 j d))"

lemma loaded_snoc:
  assumes "loaded_by st es m i" and "same_client i' (cd_client m') i (cd_client m)" and "cd_form m' = edited st (ib_protocol i') e (cd_form m)"
  shows "loaded_by st (es @ [e]) m' i'"
proof -
  obtain before cal u1 u2 u3 j d later where l: "es = before @ PropsC cal u1 u2 u3 (Some j) d # later" "same_client i (cd_client m) j d"
    "cd_form m = fold (edited st (ib_protocol i)) later (clientFormValues st cal u1 u2 u3 j d)"
    using assms(1) unfolding loaded_by_def by blast
  have "ib_protocol i' = ib_protocol i" using assms(2) by (simp add: same_client_def)
  then have "cd_form m' = fold (edited st (ib_protocol i')) (later @ [e]) (clientFormValues st cal u1 u2 u3 j d)"
    using assms(3) l(3) by simp
  moreover have "es @ [e] = before @ PropsC cal u1 u2 u3 (Some j) d # (later @ [e])" using l(1) by simp
  moreover have "same_client i' (cd_client m') j d" using l(2) assms(2) by (simp add: same_client_def)
  ultimately show ?thesis unfolding loaded_by_def by blast
qed

lemma same_client_refl [simp]: "same_client i c i c"
  by (simp add: same_client_def)


definition sample_opening :: "client_event list" where
  "sample_opening = [PropsC (\<lambda>_. (2024, 0, 1)) [] [] [] (Some sample_inbound) (Some (sample_client ''a''))]"


section \<open>Cards and link actions\<close>

lemma template_names:
  "map (\<lambda>t. snd (templateDisplayParts (tp_label t))) inboundTemplates
   = [''VLESS + TCP + REALITY'', ''VMess + WS + TLS'', ''Trojan + TLS'', ''Shadowsocks 2022'', ''SOCKS'', ''HTTP'', ''Hysteria2'', ''TUIC'', ''ShadowTLS'']"
  by code_simp

end
