(* ===== verification/Traffic.thy ===== *)
theory Traffic
  imports Format ApiClient
begin

text \<open>
  The traffic data of \<^verbatim>\<open>src/web/src/routes/OverviewPage.tsx\<close>: the snapshot in the query cache, the
  patches of the event stream that are merged into it, and the throttled fallback to polling when the stream
  fails. A frame is the JSON object the server sent; \<open>None\<close> is a frame that does not parse (or is null), which
  the handlers ignore. The clock and the state of the running fetch come with the event.
\<close>

section \<open>Merging a patch\<close>

definition emptyTrafficMetric :: traffic_metric where
  "emptyTrafficMetric = \<lparr>tm_up = 0, tm_down = 0, tm_total = 0, tm_status = ''waiting'', tm_source = ''migate'', tm_message = []\<rparr>"

definition emptyTrafficRealtime :: traffic_realtime where
  "emptyTrafficRealtime = \<lparr>tr_delta_up = 0, tr_delta_down = 0, tr_delta_total = 0, tr_rate_up = 0, tr_rate_down = 0,
     tr_rate_total = 0, tr_observed_at = [], tr_window_seconds = 0, tr_status = ''waiting'', tr_source = ''inbound'', tr_message = []\<rparr>"

definition emptyTrafficV2 :: traffic_snapshot where
  "emptyTrafficV2 = \<lparr>sn_generated_at = [], sn_observed_at = [], sn_window_seconds = 0,
     sn_total = \<lparr>tt_cumulative = emptyTrafficMetric, tt_realtime = emptyTrafficRealtime\<rparr>, sn_inbounds = [], sn_clients = [],
     sn_coverage = \<lparr>tv_overall = ''waiting'', tv_engines = [(''xray'', ''not_configured''), (''singbox'', ''not_configured'')],
       tv_ok = 0, tv_waiting = 0, tv_stale = 0, tv_unavailable = 0, tv_unsupported = 0, tv_partial = 0, tv_not_configured = None\<rparr>\<rparr>"

definition or_else :: "'a option \<Rightarrow> 'a \<Rightarrow> 'a" where \<comment> \<open>\<^verbatim>\<open>v ?? d\<close>\<close>
  "or_else v d = (case v of None \<Rightarrow> d | Some x \<Rightarrow> x)"

lemma or_else_simps [simp]: "or_else None d = d" "or_else (Some x) d = x"
  by (simp_all add: or_else_def)

definition mergeTrafficV2ById :: "('a \<Rightarrow> int) \<Rightarrow> 'a list \<Rightarrow> 'a list option \<Rightarrow> int list option \<Rightarrow> 'a list" where
  "mergeTrafficV2ById key current updates removedIDs =
     (if olist updates = [] \<and> olist removedIDs = [] then current
      else (let nextUpdates = olist updates; removed = set (olist removedIDs);
                kept = filter (\<lambda>x. key x \<notin> removed) current;
                byID = fold (\<lambda>x. AList.update (key x) x) nextUpdates (fold (\<lambda>x. AList.update (key x) x) kept []);
                merged = map (\<lambda>x. or_else (map_of byID (key x)) x) kept;
                seen = set (map key merged)
            in merged @ filter (\<lambda>u. key u \<notin> seen) nextUpdates))"

definition mergeTrafficV2Snapshot :: "traffic_snapshot option \<Rightarrow> traffic_patch \<Rightarrow> traffic_snapshot" where
  "mergeTrafficV2Snapshot current patch =
     (let base = or_else current emptyTrafficV2 in
      \<lparr>sn_generated_at = or_else (pt_generated_at patch) (sn_generated_at base),
       sn_observed_at = or_else (pt_observed_at patch) (sn_observed_at base),
       sn_window_seconds = or_else (pt_window_seconds patch) (sn_window_seconds base),
       sn_total = or_else (pt_total patch) (sn_total base),
       sn_inbounds = mergeTrafficV2ById ti_id (sn_inbounds base) (pt_inbounds patch) (pt_removed_inbound_ids patch),
       sn_clients = mergeTrafficV2ById tc_id (sn_clients base) (pt_clients patch) (pt_removed_client_ids patch),
       sn_coverage = or_else (pt_coverage patch) (sn_coverage base)\<rparr>)"

subsection \<open>What merging means\<close>

definition item :: "('a \<Rightarrow> int) \<Rightarrow> 'a list \<Rightarrow> int \<Rightarrow> 'a option" where \<comment> \<open>the list read as a map from ids\<close>
  "item key xs k = find (\<lambda>x. key x = k) xs"

lemma item_Nil [simp]: "item key [] k = None"
  by (simp add: item_def)

lemma item_Cons [simp]: "item key (x # xs) k = (if key x = k then Some x else item key xs k)"
  by (simp add: item_def)

lemma item_append: "item key (xs @ ys) k = (case item key xs k of None \<Rightarrow> item key ys k | Some x \<Rightarrow> Some x)"
  by (induction xs) auto

lemma item_None: "item key xs k = None \<longleftrightarrow> k \<notin> key ` set xs"
  by (auto simp: item_def find_None_all)

lemma item_Some: "item key xs k = Some x \<Longrightarrow> x \<in> set xs \<and> key x = k"
  by (auto simp: item_def dest: find_Some_set)

lemma item_filter: "item key (filter (\<lambda>x. key x \<notin> R) xs) k = (if k \<in> R then None else item key xs k)"
  by (induction xs) auto

lemma item_map: "(\<And>x. key (f x) = key x) \<Longrightarrow> item key (map f xs) k = map_option f (item key xs k)"
  by (induction xs) auto

lemma fold_put_item:
  "distinct (map key xs) \<Longrightarrow>
   map_of (fold (\<lambda>x. AList.update (key x) x) xs m) k = (case item key xs k of Some x \<Rightarrow> Some x | None \<Rightarrow> map_of m k)"
proof (induction xs arbitrary: m)
  case Nil
  then show ?case by simp
next
  case (Cons x xs)
  then have "item key xs (key x) = None" by (simp add: item_None)
  then show ?case using Cons by (auto simp: js_map.get_put split: option.split)
qed

lemma item_own: "distinct (map key xs) \<Longrightarrow> x \<in> set xs \<Longrightarrow> item key xs (key x) = Some x"
  by (induction xs) auto

lemma updated_key: "key (or_else (item key us (key y)) y) = key y"
  using item_Some [of key us "key y"] by (auto simp: or_else_def split: option.split)

text \<open>The merge without its auxiliary map: kept entries in place, replaced when updated, then the new ones.\<close>

lemma merge_form:
  fixes removedIDs :: "int list option" and current :: "'a list"
  assumes "distinct (map key current)" and "distinct (map key (olist updates))"
  defines "kept \<equiv> filter (\<lambda>x. key x \<notin> set (olist removedIDs)) current"
  shows "mergeTrafficV2ById key current updates removedIDs =
    map (\<lambda>x. or_else (item key (olist updates) (key x)) x) kept @ filter (\<lambda>u. key u \<notin> key ` set kept) (olist updates)"
proof (cases "olist updates = [] \<and> olist removedIDs = []")
  case True
  then show ?thesis by (simp add: mergeTrafficV2ById_def kept_def)
next
  case False
  let ?by = "fold (\<lambda>x. AList.update (key x) x) (olist updates) (fold (\<lambda>x. AList.update (key x) x) kept [])"
  have dk: "distinct (map key kept)" using assms(1) by (simp add: kept_def distinct_map_filter)
  have "map_of ?by k = (case item key (olist updates) k of Some u \<Rightarrow> Some u | None \<Rightarrow> item key kept k)" for k
    using fold_put_item [OF assms(2)] fold_put_item [OF dk, of "[]" k] by (auto split: option.split)
  then have m: "map (\<lambda>x. or_else (map_of ?by (key x)) x) kept = map (\<lambda>x. or_else (item key (olist updates) (key x)) x) kept"
    using item_own [OF dk] by (auto simp: or_else_def split: option.split)
  have kf: "key (or_else (item key (olist updates) (key y)) y) = key y" for y
    by (rule updated_key)
  have s: "set (map key (map (\<lambda>x. or_else (item key (olist updates) (key x)) x) kept)) = key ` set kept"
    by (auto simp: kf image_iff)
  show ?thesis
    unfolding mergeTrafficV2ById_def Let_def kept_def [symmetric] if_not_P [OF False] m s ..
qed

lemma distinct_kept_new:
  "distinct (map key kept) \<Longrightarrow> distinct (map key us) \<Longrightarrow>
   distinct (map key kept @ map key (filter (\<lambda>u. key u \<notin> key ` set kept) us))"
  by (auto simp: distinct_map_filter image_iff)

lemma merge_keys:
  fixes current :: "'a list" and removedIDs :: "int list option"
  assumes "distinct (map key current)" and "distinct (map key (olist updates))"
  shows "map key (mergeTrafficV2ById key current updates removedIDs) =
    map key (filter (\<lambda>x. key x \<notin> set (olist removedIDs)) current) @
    map key (filter (\<lambda>u. key u \<notin> key ` set (filter (\<lambda>x. key x \<notin> set (olist removedIDs)) current)) (olist updates))"
proof -
  have "map key (map (\<lambda>x. or_else (item key (olist updates) (key x)) x) xs) = map key xs" for xs
    by (simp add: updated_key)
  then show ?thesis unfolding merge_form [OF assms] map_append by (rule arg_cong2 [where f = append, OF _ refl])
qed

lemma merge_distinct:
  fixes current :: "'a list" and removedIDs :: "int list option"
  assumes "distinct (map key current)" and "distinct (map key (olist updates))"
  shows "distinct (map key (mergeTrafficV2ById key current updates removedIDs))"
  unfolding merge_keys [OF assms] by (rule distinct_kept_new) (use assms in \<open>simp_all add: distinct_map_filter\<close>)

text \<open>
  C14.
  Merging a patch is the update of a map: when neither the current list nor the patch repeats an id, the merged
  list repeats none, each id in the patch has the patch's entry (also when the patch lists it as removed), each
  other removed id has none, every other id keeps its entry, and the entries that stay keep their order.
\<close>

theorem merge_patch_semantics:
  fixes current :: "'a list"
  assumes "distinct (map key current)" and "distinct (map key (olist updates))"
  shows "distinct (map key (mergeTrafficV2ById key current updates removedIDs))
    \<and> (\<forall>k. item key (mergeTrafficV2ById key current updates removedIDs) k =
        (case item key (olist updates) k of Some u \<Rightarrow> Some u
         | None \<Rightarrow> if k \<in> set (olist removedIDs) then None else item key current k))
    \<and> prefix (filter (\<lambda>k. k \<notin> set (olist removedIDs)) (map key current))
        (map key (mergeTrafficV2ById key current updates removedIDs))"
proof -
  let ?R = "set (olist removedIDs)"
  define kept where "kept = filter (\<lambda>x. key x \<notin> ?R) current"
  define h where "h = (\<lambda>x. or_else (item key (olist updates) (key x)) x)"
  have form: "mergeTrafficV2ById key current updates removedIDs = map h kept @ filter (\<lambda>u. key u \<notin> key ` set kept) (olist updates)"
    unfolding h_def kept_def by (rule merge_form [OF assms])
  have kf: "key (h y) = key y" for y by (simp add: h_def updated_key)
  have ks: "map key kept = filter (\<lambda>k. k \<notin> ?R) (map key current)" unfolding kept_def by (induction current) auto
  have d: "distinct (map key (mergeTrafficV2ById key current updates removedIDs))" by (rule merge_distinct [OF assms])
  have p: "prefix (filter (\<lambda>k. k \<notin> ?R) (map key current)) (map key (mergeTrafficV2ById key current updates removedIDs))"
    unfolding merge_keys [OF assms] ks [symmetric] kept_def [symmetric] by (rule prefixI [OF refl])
  have "item key (mergeTrafficV2ById key current updates removedIDs) k =
        (case item key (olist updates) k of Some u \<Rightarrow> Some u
         | None \<Rightarrow> if k \<in> ?R then None else item key current k)" for k
  proof -
    have "item key (map h kept) k = map_option h (item key kept k)" by (rule item_map) (rule kf)
    moreover have "h x = or_else (item key (olist updates) k) x" if "item key kept k = Some x" for x
      using item_Some [OF that] by (simp add: h_def)
    moreover have "item key kept k = (if k \<in> ?R then None else item key current k)" by (simp add: kept_def item_filter)
    ultimately show ?thesis unfolding form item_append
      using item_None [of key kept k] item_filter [of key "key ` set kept" "olist updates" k]
      by (cases "item key kept k"; cases "item key (olist updates) k") (auto simp: or_else_def split: if_splits)
  qed
  then show ?thesis using d p by blast
qed


theorem merge_patch_semantics_witness:
  "map fst (mergeTrafficV2ById fst [(1 :: int, ''a''), (2, ''b''), (3, ''c'')] (Some [(4, ''d''), (2, ''B'')]) (Some [1])) = [2, 3, 4]
   \<and> item fst (mergeTrafficV2ById fst [(1, ''a''), (2, ''b''), (3, ''c'')] (Some [(4, ''d''), (2, ''B'')]) (Some [1])) 2 = Some (2, ''B'')"
proof -
  have "item fst (mergeTrafficV2ById fst [(1 :: int, ''a''), (2, ''b''), (3, ''c'')] (Some [(4, ''d''), (2, ''B'')]) (Some [1])) 2 = Some (2, ''B'')"
    using merge_patch_semantics [of fst "[(1 :: int, ''a''), (2, ''b''), (3, ''c'')]" "Some [(4, ''d''), (2, ''B'')]" "Some [1]"]
    by simp
  then show ?thesis by (simp add: mergeTrafficV2ById_def Let_def or_else_def)
qed

text \<open>
  
  The hypothesis on the patch is needed: the set of ids already seen is not extended while new entries are
  appended, so an id that a patch carries twice, and the list does not have yet, appears twice in the result.
\<close>

theorem merge_repeats_new_ids:
  fixes current :: "'a list"
  assumes "distinct (map key current)" and "key u = key v" and "\<forall>x \<in> set current. key x \<noteq> key u"
  shows "mergeTrafficV2ById key current (Some [u, v]) removedIDs =
    filter (\<lambda>x. key x \<notin> set (olist removedIDs)) current @ [u, v]"
proof -
  define kept where "kept = filter (\<lambda>x. key x \<notin> set (olist removedIDs)) current"
  let ?by = "fold (\<lambda>x. AList.update (key x) x) [u, v] (fold (\<lambda>x. AList.update (key x) x) kept [])"
  have dk: "distinct (map key kept)" using assms(1) by (simp add: kept_def distinct_map_filter)
  have "or_else (map_of ?by (key x)) x = x" if "x \<in> set kept" for x
    using that assms(2,3) fold_put_item [OF dk, of "[]" "key x"] item_own [OF dk that]
    by (simp add: js_map.get_put kept_def)
  then have m: "map (\<lambda>x. or_else (map_of ?by (key x)) x) kept = kept" by (rule map_idI)
  have "key u \<notin> set (map key kept)" using assms(3) by (auto simp: kept_def)
  then show ?thesis
    unfolding mergeTrafficV2ById_def Let_def kept_def [symmetric] olist_simps m using assms(2) by simp
qed

theorem merge_repeats_new_ids_witness:
  "mergeTrafficV2ById fst [(1 :: int, ''a'')] (Some [(7, ''x''), (7, ''y'')]) None = [(1, ''a''), (7, ''x''), (7, ''y'')]"
  using merge_repeats_new_ids [of fst "[(1 :: int, ''a'')]" "(7, ''x'')" "(7, ''y'')" None] by simp

section \<open>The event stream\<close>

record stream_state =
  sm_cache :: "traffic_snapshot option"  \<comment> \<open>the query \<^verbatim>\<open>traffic-v2-snapshot\<close>\<close>
  sm_last :: int                          \<comment> \<open>\<^verbatim>\<open>lastErrorInvalidateAt\<close>\<close>
  sm_invalidated :: "int list"            \<comment> \<open>when the query was invalidated, latest first\<close>

datatype stream_event =
    SnapshotFrame "traffic_patch option"  \<comment> \<open>the same fields, all of them present in a well-formed snapshot\<close>
  | PatchFrame "traffic_patch option"
  | StreamError int bool                  \<comment> \<open>the clock, and whether the query is being fetched\<close>

definition snapshot_of :: "traffic_patch \<Rightarrow> traffic_snapshot option" where
  \<comment> \<open>what a snapshot frame stores: it must have a total and both lists, other absent fields read as empty\<close>
  "snapshot_of p = (case (pt_total p, pt_inbounds p, pt_clients p) of
      (Some t, Some is, Some cs) \<Rightarrow> Some \<lparr>sn_generated_at = ostr (pt_generated_at p), sn_observed_at = ostr (pt_observed_at p),
         sn_window_seconds = orat (pt_window_seconds p), sn_total = t, sn_inbounds = is, sn_clients = cs,
         sn_coverage = or_else (pt_coverage p) (sn_coverage emptyTrafficV2)\<rparr>
    | _ \<Rightarrow> None)"

definition handleSnapshot :: "traffic_patch option \<Rightarrow> stream_state \<Rightarrow> stream_state" where
  "handleSnapshot frame s = (case Option.bind frame snapshot_of of None \<Rightarrow> s | Some sn \<Rightarrow> s\<lparr>sm_cache := Some sn\<rparr>)"

definition handlePatch :: "traffic_patch option \<Rightarrow> stream_state \<Rightarrow> stream_state" where
  "handlePatch frame s = (case frame of None \<Rightarrow> s
     | Some p \<Rightarrow> s\<lparr>sm_cache := Some (mergeTrafficV2Snapshot (sm_cache s) p)\<rparr>)"

definition invalidateSnapshotOnError :: "int \<Rightarrow> bool \<Rightarrow> stream_state \<Rightarrow> stream_state" where
  "invalidateSnapshotOnError now fetching s =
     (if fetching then s
      else if now - sm_last s < 5000 then s
      else s\<lparr>sm_last := now, sm_invalidated := now # sm_invalidated s\<rparr>)"

fun stream_step :: "stream_event \<Rightarrow> stream_state \<Rightarrow> stream_state" where
  "stream_step (SnapshotFrame f) s = handleSnapshot f s"
| "stream_step (PatchFrame f) s = handlePatch f s"
| "stream_step (StreamError now fetching) s = invalidateSnapshotOnError now fetching s"

definition stream_start :: "traffic_snapshot option \<Rightarrow> stream_state" where
  "stream_start cache = \<lparr>sm_cache = cache, sm_last = 0, sm_invalidated = []\<rparr>"

definition stream_run :: "stream_event list \<Rightarrow> stream_state \<Rightarrow> stream_state" where
  "stream_run es s = fold stream_step es s"

definition no_repeats :: "traffic_snapshot \<Rightarrow> bool" where
  "no_repeats sn = (distinct (map ti_id (sn_inbounds sn)) \<and> distinct (map tc_id (sn_clients sn)))"

definition frame_ok :: "stream_event \<Rightarrow> bool" where \<comment> \<open>no frame repeats an id in one of its lists\<close>
  "frame_ok e = (\<forall>p. e \<in> {SnapshotFrame (Some p), PatchFrame (Some p)} \<longrightarrow>
     distinct (map ti_id (olist (pt_inbounds p))) \<and> distinct (map tc_id (olist (pt_clients p))))"

lemma merge_snapshot_no_repeats:
  assumes "case current of None \<Rightarrow> True | Some sn \<Rightarrow> no_repeats sn"
    and "distinct (map ti_id (olist (pt_inbounds p)))" and "distinct (map tc_id (olist (pt_clients p)))"
  shows "no_repeats (mergeTrafficV2Snapshot current p)"
proof -
  have "no_repeats (or_else current emptyTrafficV2)"
    using assms(1) by (cases current) (simp_all add: no_repeats_def emptyTrafficV2_def)
  then show ?thesis using assms(2,3)
    by (simp add: no_repeats_def mergeTrafficV2Snapshot_def Let_def merge_distinct)
qed

definition stream_inv :: "stream_state \<Rightarrow> bool" where
  "stream_inv s = ((case sm_cache s of None \<Rightarrow> True | Some sn \<Rightarrow> no_repeats sn)
     \<and> sorted_wrt (\<lambda>a b. b + 5000 \<le> a) (sm_invalidated s)
     \<and> (\<forall>t \<in> set (sm_invalidated s). t \<le> sm_last s))"

lemma stream_step_inv:
  assumes "stream_inv s" and "frame_ok e"
  shows "stream_inv (stream_step e s)"
proof (cases e)
  case (SnapshotFrame f)
  have "no_repeats sn" if "f = Some p" "snapshot_of p = Some sn" for p sn
    using that assms(2) SnapshotFrame
    by (auto simp: frame_ok_def snapshot_of_def no_repeats_def split: option.splits)
  then show ?thesis using assms(1) SnapshotFrame
    by (auto simp: stream_inv_def handleSnapshot_def bind_eq_Some_conv split: option.split)
next
  case (PatchFrame f)
  show ?thesis
  proof (cases f)
    case None
    then show ?thesis using assms(1) PatchFrame by (simp add: handlePatch_def)
  next
    case (Some p)
    then have "no_repeats (mergeTrafficV2Snapshot (sm_cache s) p)"
      using assms PatchFrame by (intro merge_snapshot_no_repeats) (auto simp: frame_ok_def stream_inv_def)
    then show ?thesis using assms(1) PatchFrame Some by (simp add: stream_inv_def handlePatch_def)
  qed
next
  case (StreamError now fetching)
  have "\<forall>t \<in> set (sm_invalidated s). t + 5000 \<le> now \<and> t \<le> now" if "\<not> now - sm_last s < 5000"
    using assms(1) that by (auto simp: stream_inv_def)
  then show ?thesis using assms(1) StreamError
    by (auto simp: stream_inv_def invalidateSnapshotOnError_def)
qed

lemma stream_run_inv: "stream_inv s \<Longrightarrow> \<forall>e \<in> set es. frame_ok e \<Longrightarrow> stream_inv (stream_run es s)"
  by (induction es arbitrary: s) (simp_all add: stream_run_def stream_step_inv)

text \<open>
  C12.
  Over every run of the event stream, whatever mixture of snapshots, patches, malformed frames and failures
  arrives: as long as no single frame repeats an id, the cached snapshot never lists an inbound or a client
  twice, and two fallback invalidations are never less than five seconds apart.
\<close>

theorem traffic_stream_invariant:
  assumes "\<forall>sn. cache = Some sn \<longrightarrow> no_repeats sn" and "\<forall>e \<in> set es. frame_ok e"
  shows "(\<forall>sn. sm_cache (stream_run es (stream_start cache)) = Some sn \<longrightarrow>
            distinct (map ti_id (sn_inbounds sn)) \<and> distinct (map tc_id (sn_clients sn)))
    \<and> sorted_wrt (\<lambda>later earlier. earlier + 5000 \<le> later) (sm_invalidated (stream_run es (stream_start cache)))"
proof -
  have "stream_inv (stream_start cache)"
    using assms(1) by (auto simp: stream_inv_def stream_start_def split: option.split)
  from stream_run_inv [OF this assms(2)] show ?thesis by (auto simp: stream_inv_def no_repeats_def)
qed

theorem traffic_stream_invariant_witness:
  "sm_invalidated (stream_run [StreamError 9000 False, StreamError 12000 False, StreamError 15000 False] (stream_start None)) = [15000, 9000]
   \<and> sorted_wrt (\<lambda>later earlier. earlier + 5000 \<le> later)
      (sm_invalidated (stream_run [StreamError 9000 False, StreamError 12000 False, StreamError 15000 False] (stream_start None)))"
proof
  show "sm_invalidated (stream_run [StreamError 9000 False, StreamError 12000 False, StreamError 15000 False] (stream_start None)) = [15000, 9000]"
    by (simp add: stream_run_def stream_start_def invalidateSnapshotOnError_def)
  show "sorted_wrt (\<lambda>later earlier. earlier + 5000 \<le> later)
      (sm_invalidated (stream_run [StreamError 9000 False, StreamError 12000 False, StreamError 15000 False] (stream_start None)))"
    using traffic_stream_invariant [of None "[StreamError 9000 False, StreamError 12000 False, StreamError 15000 False]"]
    by (simp add: frame_ok_def)
qed

end
