(* ===== verification/Overview.thy ===== *)
theory Overview
  imports Traffic
begin

text \<open>
  The view of \<^verbatim>\<open>src/web/src/routes/OverviewPage.tsx\<close>: the status texts, the summary cards, and the
  data handed to the chart. The translation \<^verbatim>\<open>text\<close> is the parameter \<open>tr\<close>; the clock formats of
  \<^verbatim>\<open>Date\<close> are the parameter \<open>clock\<close>, which maps an instant that parses to its label (the first
  argument says whether the time of day or the date is wanted). Of the chart options the model keeps those
  computed from data; fixed colours, grids and fonts are left out.
\<close>

section \<open>Texts\<close>

text \<open>The non-ASCII texts of this part of the user interface, as UTF-8 bytes.\<close>

definition zh_stats_ok :: string where
  "zh_stats_ok = [CHR 0xE7, CHR 0xBB, CHR 0x9F, CHR 0xE8, CHR 0xAE, CHR 0xA1, CHR 0xE6, CHR 0xAD, CHR 0xA3, CHR 0xE5,
    CHR 0xB8, CHR 0xB8]"

definition zh_stats_partial :: string where
  "zh_stats_partial = [CHR 0xE7, CHR 0xBB, CHR 0x9F, CHR 0xE8, CHR 0xAE, CHR 0xA1, CHR 0xE8, CHR 0xA6, CHR 0x86, CHR 0xE7,
    CHR 0x9B, CHR 0x96, CHR 0xE4, CHR 0xB8, CHR 0x8D, CHR 0xE5, CHR 0xAE, CHR 0x8C, CHR 0xE6, CHR 0x95,
    CHR 0xB4]"

definition zh_stats_unsupported :: string where
  "zh_stats_unsupported = [CHR 0xE5, CHR 0xBD, CHR 0x93, CHR 0xE5, CHR 0x89, CHR 0x8D, CHR 0x20, CHR 0x73, CHR 0x69, CHR 0x6E,
    CHR 0x67, CHR 0x2D, CHR 0x62, CHR 0x6F, CHR 0x78, CHR 0x20, CHR 0xE4, CHR 0xBA, CHR 0x8C, CHR 0xE8,
    CHR 0xBF, CHR 0x9B, CHR 0xE5, CHR 0x88, CHR 0xB6, CHR 0xE4, CHR 0xB8, CHR 0x8D, CHR 0xE6, CHR 0x94,
    CHR 0xAF, CHR 0xE6, CHR 0x8C, CHR 0x81, CHR 0xE5, CHR 0xAE, CHR 0x9E, CHR 0xE6, CHR 0x97, CHR 0xB6,
    CHR 0xE7, CHR 0xBB, CHR 0x9F, CHR 0xE8, CHR 0xAE, CHR 0xA1]"

definition zh_stats_not_configured :: string where
  "zh_stats_not_configured = [CHR 0xE6, CHR 0x9C, CHR 0xAA, CHR 0xE9, CHR 0x85, CHR 0x8D, CHR 0xE7, CHR 0xBD, CHR 0xAE, CHR 0xE5,
    CHR 0xAF, CHR 0xB9, CHR 0xE5, CHR 0xBA, CHR 0x94, CHR 0xE6, CHR 0xA0, CHR 0xB8, CHR 0xE5, CHR 0xBF,
    CHR 0x83, CHR 0xE5, CHR 0x85, CHR 0xA5, CHR 0xE7, CHR 0xAB, CHR 0x99]"

definition zh_stats_unavailable :: string where
  "zh_stats_unavailable = [CHR 0xE7, CHR 0xBB, CHR 0x9F, CHR 0xE8, CHR 0xAE, CHR 0xA1, CHR 0xE6, CHR 0x8E, CHR 0xA5, CHR 0xE5,
    CHR 0x8F, CHR 0xA3, CHR 0xE4, CHR 0xB8, CHR 0x8D, CHR 0xE5, CHR 0x8F, CHR 0xAF, CHR 0xE7, CHR 0x94,
    CHR 0xA8]"

definition zh_stats_stale :: string where
  "zh_stats_stale = [CHR 0xE7, CHR 0xBB, CHR 0x9F, CHR 0xE8, CHR 0xAE, CHR 0xA1, CHR 0xE7, CHR 0x8A, CHR 0xB6, CHR 0xE6,
    CHR 0x80, CHR 0x81, CHR 0xE8, CHR 0xBF, CHR 0x87, CHR 0xE6, CHR 0x9C, CHR 0x9F]"

definition zh_stats_cumulative :: string where
  "zh_stats_cumulative = [CHR 0xE4, CHR 0xBB, CHR 0x85, CHR 0xE6, CHR 0x98, CHR 0xBE, CHR 0xE7, CHR 0xA4, CHR 0xBA, CHR 0xE7,
    CHR 0xB4, CHR 0xAF, CHR 0xE8, CHR 0xAE, CHR 0xA1]"

definition zh_stats_waiting :: string where
  "zh_stats_waiting = [CHR 0xE7, CHR 0xAD, CHR 0x89, CHR 0xE5, CHR 0xBE, CHR 0x85, CHR 0xE9, CHR 0x87, CHR 0x87, CHR 0xE6,
    CHR 0xA0, CHR 0xB7]"

definition zh_run_ok :: string where
  "zh_run_ok = [CHR 0xE8, CHR 0xBF, CHR 0x90, CHR 0xE8, CHR 0xA1, CHR 0x8C, CHR 0xE6, CHR 0xAD, CHR 0xA3, CHR 0xE5,
    CHR 0xB8, CHR 0xB8]"

definition zh_run_partly :: string where
  "zh_run_partly = [CHR 0xE9, CHR 0x83, CHR 0xA8, CHR 0xE5, CHR 0x88, CHR 0x86, CHR 0xE8, CHR 0xBF, CHR 0x90, CHR 0xE8,
    CHR 0xA1, CHR 0x8C]"

definition zh_run_none :: string where
  "zh_run_none = [CHR 0xE6, CHR 0x9C, CHR 0xAA, CHR 0xE8, CHR 0xBF, CHR 0x90, CHR 0xE8, CHR 0xA1, CHR 0x8C]"

definition zh_dot :: string where
  "zh_dot = [CHR 0x20, CHR 0xC2, CHR 0xB7, CHR 0x20]"

definition zh_up_arrow :: string where
  "zh_up_arrow = [CHR 0x2F, CHR 0x73, CHR 0x20, CHR 0xE2, CHR 0x86, CHR 0x91, CHR 0x20, CHR 0x2F, CHR 0x20]"

definition zh_down_arrow :: string where
  "zh_down_arrow = [CHR 0x2F, CHR 0x73, CHR 0x20, CHR 0xE2, CHR 0x86, CHR 0x93]"

definition zh_source_inbound :: string where
  "zh_source_inbound = [CHR 0xE5, CHR 0x85, CHR 0xA5, CHR 0xE7, CHR 0xAB, CHR 0x99, CHR 0xE5, CHR 0x8E, CHR 0x9F, CHR 0xE7,
    CHR 0x94, CHR 0x9F, CHR 0xE7, CHR 0xBB, CHR 0x9F, CHR 0xE8, CHR 0xAE, CHR 0xA1]"

definition zh_source_client :: string where
  "zh_source_client = [CHR 0xE5, CHR 0xAE, CHR 0xA2, CHR 0xE6, CHR 0x88, CHR 0xB7, CHR 0xE7, CHR 0xAB, CHR 0xAF, CHR 0xE5,
    CHR 0x8E, CHR 0x9F, CHR 0xE7, CHR 0x94, CHR 0x9F, CHR 0xE7, CHR 0xBB, CHR 0x9F, CHR 0xE8, CHR 0xAE,
    CHR 0xA1]"

definition zh_source_aggregate :: string where
  "zh_source_aggregate = [CHR 0xE5, CHR 0xAE, CHR 0xA2, CHR 0xE6, CHR 0x88, CHR 0xB7, CHR 0xE7, CHR 0xAB, CHR 0xAF, CHR 0xE6,
    CHR 0xB1, CHR 0x87, CHR 0xE6, CHR 0x80, CHR 0xBB, CHR 0xE5, CHR 0x9B, CHR 0x9E, CHR 0xE9, CHR 0x80,
    CHR 0x80]"

definition zh_source_mixed :: string where
  "zh_source_mixed = [CHR 0xE6, CHR 0xB7, CHR 0xB7, CHR 0xE5, CHR 0x90, CHR 0x88, CHR 0xE6, CHR 0x9D, CHR 0xA5, CHR 0xE6,
    CHR 0xBA, CHR 0x90]"

definition zh_sampled_at :: string where
  "zh_sampled_at = [CHR 0xE9, CHR 0x87, CHR 0x87, CHR 0xE6, CHR 0xA0, CHR 0xB7, CHR 0xE6, CHR 0x97, CHR 0xB6, CHR 0xE9,
    CHR 0x97, CHR 0xB4]"

definition zh_sample_window :: string where
  "zh_sample_window = [CHR 0xE9, CHR 0x87, CHR 0x87, CHR 0xE6, CHR 0xA0, CHR 0xB7, CHR 0xE7, CHR 0xAA, CHR 0x97, CHR 0xE5,
    CHR 0x8F, CHR 0xA3]"

definition zh_stats_source :: string where
  "zh_stats_source = [CHR 0xE7, CHR 0xBB, CHR 0x9F, CHR 0xE8, CHR 0xAE, CHR 0xA1, CHR 0xE6, CHR 0xBA, CHR 0x90]"

definition zh_the_status :: string where
  "zh_the_status = [CHR 0xE7, CHR 0x8A, CHR 0xB6, CHR 0xE6, CHR 0x80, CHR 0x81]"

definition zh_explanation :: string where
  "zh_explanation = [CHR 0xE8, CHR 0xAF, CHR 0xB4, CHR 0xE6, CHR 0x98, CHR 0x8E]"

definition zh_generating :: string where
  "zh_generating = [CHR 0xE7, CHR 0x94, CHR 0x9F, CHR 0xE6, CHR 0x88, CHR 0x90, CHR 0xE4, CHR 0xB8, CHR 0xAD]"

definition zh_not_available :: string where
  "zh_not_available = [CHR 0xE4, CHR 0xB8, CHR 0x8D, CHR 0xE5, CHR 0x8F, CHR 0xAF, CHR 0xE7, CHR 0x94, CHR 0xA8]"

definition zh_passed :: string where
  "zh_passed = [CHR 0xE9, CHR 0x80, CHR 0x9A, CHR 0xE8, CHR 0xBF, CHR 0x87]"

definition zh_awaiting_validation :: string where
  "zh_awaiting_validation = [CHR 0xE7, CHR 0xAD, CHR 0x89, CHR 0xE5, CHR 0xBE, CHR 0x85, CHR 0xE6, CHR 0xA0, CHR 0xA1, CHR 0xE9,
    CHR 0xAA, CHR 0x8C, CHR 0xE7, CHR 0xBB, CHR 0x93, CHR 0xE6, CHR 0x9E, CHR 0x9C]"

definition zh_hour_1 :: string where
  "zh_hour_1 = [CHR 0x31, CHR 0xE5, CHR 0xB0, CHR 0x8F, CHR 0xE6, CHR 0x97, CHR 0xB6]"

definition zh_hours_24 :: string where
  "zh_hours_24 = [CHR 0x32, CHR 0x34, CHR 0xE5, CHR 0xB0, CHR 0x8F, CHR 0xE6, CHR 0x97, CHR 0xB6]"

definition zh_days_7 :: string where
  "zh_days_7 = [CHR 0x37, CHR 0xE5, CHR 0xA4, CHR 0xA9]"

definition zh_days_30 :: string where
  "zh_days_30 = [CHR 0x33, CHR 0x30, CHR 0xE5, CHR 0xA4, CHR 0xA9]"

definition zh_usage :: string where
  "zh_usage = [CHR 0xE5, CHR 0x8C, CHR 0xBA, CHR 0xE9, CHR 0x97, CHR 0xB4, CHR 0xE7, CHR 0x94, CHR 0xA8, CHR 0xE9,
    CHR 0x87, CHR 0x8F]"

definition zh_live_rate :: string where
  "zh_live_rate = [CHR 0xE5, CHR 0xAE, CHR 0x9E, CHR 0xE6, CHR 0x97, CHR 0xB6, CHR 0xE9, CHR 0x80, CHR 0x9F, CHR 0xE7,
    CHR 0x8E, CHR 0x87]"

definition zh_cumulated :: string where
  "zh_cumulated = [CHR 0xE7, CHR 0xB4, CHR 0xAF, CHR 0xE8, CHR 0xAE, CHR 0xA1, CHR 0xE6, CHR 0x80, CHR 0xBB, CHR 0xE9,
    CHR 0x87, CHR 0x8F]"

definition zh_trend :: string where
  "zh_trend = [CHR 0xE8, CHR 0xB6, CHR 0x8B, CHR 0xE5, CHR 0x8A, CHR 0xBF]"

definition zh_stacked :: string where
  "zh_stacked = [CHR 0xE5, CHR 0xA0, CHR 0x86, CHR 0xE5, CHR 0x8F, CHR 0xA0]"

definition zh_ranking :: string where
  "zh_ranking = [CHR 0xE6, CHR 0x8E, CHR 0x92, CHR 0xE8, CHR 0xA1, CHR 0x8C]"

definition zh_heat :: string where
  "zh_heat = [CHR 0xE7, CHR 0x83, CHR 0xAD, CHR 0xE5, CHR 0x8A, CHR 0x9B]"

definition zh_need_samples :: string where
  "zh_need_samples = [CHR 0xE8, CHR 0x87, CHR 0xB3, CHR 0xE5, CHR 0xB0, CHR 0x91, CHR 0xE9, CHR 0x9C, CHR 0x80, CHR 0xE8,
    CHR 0xA6, CHR 0x81, CHR 0xE9, CHR 0x87, CHR 0x87, CHR 0xE6, CHR 0xA0, CHR 0xB7, CHR 0xE6, CHR 0x95,
    CHR 0xB0, CHR 0xE6, CHR 0x8D, CHR 0xAE, CHR 0xE5, CHR 0x90, CHR 0x8E, CHR 0xE6, CHR 0x89, CHR 0x8D,
    CHR 0xE8, CHR 0x83, CHR 0xBD, CHR 0xE7, CHR 0xBB, CHR 0x98, CHR 0xE5, CHR 0x88, CHR 0xB6, CHR 0xE8,
    CHR 0xB6, CHR 0x8B, CHR 0xE5, CHR 0x8A, CHR 0xBF]"

definition zh_history_kept :: string where
  "zh_history_kept = [CHR 0xE9, CHR 0x87, CHR 0x8D, CHR 0xE7, CHR 0xBD, CHR 0xAE, CHR 0xE7, CHR 0xB4, CHR 0xAF, CHR 0xE8,
    CHR 0xAE, CHR 0xA1, CHR 0xE4, CHR 0xB8, CHR 0x8D, CHR 0xE4, CHR 0xBC, CHR 0x9A, CHR 0xE6, CHR 0x94,
    CHR 0xB9, CHR 0xE5, CHR 0x86, CHR 0x99, CHR 0xE5, CHR 0x8E, CHR 0x86, CHR 0xE5, CHR 0x8F, CHR 0xB2,
    CHR 0xE8, CHR 0xB6, CHR 0x8B, CHR 0xE5, CHR 0x8A, CHR 0xBF]"

definition zh_peak :: string where
  "zh_peak = [CHR 0xE5, CHR 0xB3, CHR 0xB0, CHR 0xE5, CHR 0x80, CHR 0xBC]"

definition zh_upload :: string where
  "zh_upload = [CHR 0xE4, CHR 0xB8, CHR 0x8A, CHR 0xE4, CHR 0xBC, CHR 0xA0]"

definition zh_download :: string where
  "zh_download = [CHR 0xE4, CHR 0xB8, CHR 0x8B, CHR 0xE8, CHR 0xBD, CHR 0xBD]"

definition zh_the_total :: string where
  "zh_the_total = [CHR 0xE6, CHR 0x80, CHR 0xBB, CHR 0xE9, CHR 0x87, CHR 0x8F]"

lemmas texts_Overview =
  zh_stats_ok_def zh_stats_partial_def zh_stats_unsupported_def zh_stats_not_configured_def zh_stats_unavailable_def
  zh_stats_stale_def zh_stats_cumulative_def zh_stats_waiting_def zh_run_ok_def zh_run_partly_def
  zh_run_none_def zh_dot_def zh_up_arrow_def zh_down_arrow_def zh_source_inbound_def
  zh_source_client_def zh_source_aggregate_def zh_source_mixed_def zh_sampled_at_def zh_sample_window_def
  zh_stats_source_def zh_the_status_def zh_explanation_def zh_generating_def zh_not_available_def
  zh_passed_def zh_awaiting_validation_def zh_hour_1_def zh_hours_24_def zh_days_7_def
  zh_days_30_def zh_usage_def zh_live_rate_def zh_cumulated_def zh_trend_def
  zh_stacked_def zh_ranking_def zh_heat_def zh_need_samples_def zh_history_kept_def
  zh_peak_def zh_upload_def zh_download_def zh_the_total_def

lemma texts_nonempty_Overview [simp]:
  "zh_stats_ok \<noteq> []" "zh_stats_partial \<noteq> []" "zh_stats_unsupported \<noteq> []" "zh_stats_not_configured \<noteq> []"
  "zh_stats_unavailable \<noteq> []" "zh_stats_stale \<noteq> []" "zh_stats_cumulative \<noteq> []" "zh_stats_waiting \<noteq> []"
  "zh_run_ok \<noteq> []" "zh_run_partly \<noteq> []" "zh_run_none \<noteq> []" "zh_dot \<noteq> []"
  "zh_up_arrow \<noteq> []" "zh_down_arrow \<noteq> []" "zh_source_inbound \<noteq> []" "zh_source_client \<noteq> []"
  "zh_source_aggregate \<noteq> []" "zh_source_mixed \<noteq> []" "zh_sampled_at \<noteq> []" "zh_sample_window \<noteq> []"
  "zh_stats_source \<noteq> []" "zh_the_status \<noteq> []" "zh_explanation \<noteq> []" "zh_generating \<noteq> []"
  "zh_not_available \<noteq> []" "zh_passed \<noteq> []" "zh_awaiting_validation \<noteq> []" "zh_hour_1 \<noteq> []"
  "zh_hours_24 \<noteq> []" "zh_days_7 \<noteq> []" "zh_days_30 \<noteq> []" "zh_usage \<noteq> []"
  "zh_live_rate \<noteq> []" "zh_cumulated \<noteq> []" "zh_trend \<noteq> []" "zh_stacked \<noteq> []"
  "zh_ranking \<noteq> []" "zh_heat \<noteq> []" "zh_need_samples \<noteq> []" "zh_history_kept \<noteq> []"
  "zh_peak \<noteq> []" "zh_upload \<noteq> []" "zh_download \<noteq> []" "zh_the_total \<noteq> []"
  by (simp_all add: texts_Overview)

section \<open>Analytics data\<close>

record analytics_point =
  an_time :: string
  an_up :: rat
  an_down :: rat
  an_total :: rat
  an_rate_up :: rat
  an_rate_down :: rat
  an_rate_total :: rat

record analytics_summary =
  as_up :: rat
  as_down :: rat
  as_total :: rat
  as_rate_up :: rat
  as_rate_down :: rat
  as_rate_total :: rat
  as_peak_up :: rat
  as_peak_down :: rat
  as_peak_total :: rat
  as_peak_rate :: rat
  as_peak_at :: "string option"
  as_points :: int
  as_has_data :: bool

record analytics_rank =
  ak_id :: int
  ak_label :: string
  ak_scope_key :: "string option"
  ak_total :: "rat option"
  ak_rate_total :: "rat option"

record heat_point =
  hp_day :: string
  hp_hour :: int
  hp_total :: "rat option"
  hp_rate_total :: "rat option"

record analytics =
  ay_range :: string
  ay_metric :: string
  ay_semantics :: "string option"
  ay_bucket_seconds :: rat
  ay_summary :: "analytics_summary option"
  ay_series :: "analytics_point list"
  ay_top_clients :: "analytics_rank list"
  ay_top_inbounds :: "analytics_rank list"
  ay_heatmap :: "heat_point list option"

datatype analytics_range = R1h | R24h | R7d | R30d

datatype analytics_metric = Usage | Rate | Cumulative

datatype analytics_scope = ByInbound | ByClient

datatype chart_mode = AreaChart | BarChart | RankChart | HeatChart

definition trafficChartModes :: "chart_mode list" where
  "trafficChartModes = [AreaChart, BarChart, RankChart, HeatChart]"

definition availableModes :: "analytics_metric \<Rightarrow> chart_mode list" where
  "availableModes metric = (if metric = Rate then filter (\<lambda>m. m \<noteq> HeatChart) trafficChartModes else trafficChartModes)"

definition effectiveMode :: "analytics_metric \<Rightarrow> chart_mode \<Rightarrow> chart_mode" where
  "effectiveMode metric mode = (if metric = Rate \<and> mode = HeatChart then AreaChart else mode)"

section \<open>Status texts\<close>

definition trafficStatusLabel :: "string option \<Rightarrow> (string \<Rightarrow> string) \<Rightarrow> string" where
  "trafficStatusLabel status tr =
     (if status = Some ''ok'' then tr zh_stats_ok
      else if status = Some ''partial'' then tr zh_stats_partial
      else if status = Some ''unsupported'' then tr zh_stats_unsupported
      else if status = Some ''not_configured'' then tr zh_stats_not_configured
      else if status = Some ''unavailable'' then tr zh_stats_unavailable
      else if status = Some ''stale'' then tr zh_stats_stale
      else if status = Some ''cumulative_only'' then tr zh_stats_cumulative
      else tr zh_stats_waiting)"

definition trafficStatusTone :: "string option \<Rightarrow> string" where
  "trafficStatusTone status =
     (if status = Some ''ok'' then ''emerald''
      else if status = Some ''waiting'' \<or> status = Some ''partial'' then ''amber''
      else if status = Some ''unavailable'' \<or> status = Some ''stale'' then ''rose''
      else ''slate'')"

definition coreStatusTone :: "string option \<Rightarrow> string option \<Rightarrow> string" where
  "coreStatusTone xrayStatus singboxStatus =
     (if xrayStatus = Some ''running'' \<and> singboxStatus = Some ''running'' then ''emerald''
      else if xrayStatus = Some ''running'' \<or> singboxStatus = Some ''running'' then ''amber''
      else ''rose'')"

definition coreStatusValue :: "string option \<Rightarrow> string option \<Rightarrow> (string \<Rightarrow> string) \<Rightarrow> string" where
  "coreStatusValue xrayStatus singboxStatus tr =
     (if xrayStatus = Some ''running'' \<and> singboxStatus = Some ''running'' then tr zh_run_ok
      else if xrayStatus = Some ''running'' \<or> singboxStatus = Some ''running'' then tr zh_run_partly
      else tr zh_run_none)"

definition engineStatusSummary :: "(string \<times> string) list option \<Rightarrow> (string \<Rightarrow> string) \<Rightarrow> string" where
  "engineStatusSummary engines tr =
     (case engines of None \<Rightarrow> tr zh_stats_waiting
      | Some es \<Rightarrow> join zh_dot (map (\<lambda>(engine, status). engine @ '': '' @ trafficStatusLabel (Some status) tr) es))"

definition realtimeRateLabel :: "rat option \<Rightarrow> rat option \<Rightarrow> string" where
  "realtimeRateLabel rateUp rateDown =
     formatBytes (Some (orat rateUp)) @ zh_up_arrow @ formatBytes (Some (orat rateDown)) @ zh_down_arrow"

definition trafficRateSummary :: "rat option \<Rightarrow> rat option \<Rightarrow> string option \<Rightarrow> (string \<times> string) list option
    \<Rightarrow> (string \<Rightarrow> string) \<Rightarrow> string" where
  "trafficRateSummary rateUp rateDown status engines tr =
     (let statusLabel = trafficStatusLabel status tr in
      if ostr status = [] \<or> status = Some ''ok'' then realtimeRateLabel rateUp rateDown @ zh_dot @ statusLabel
      else statusLabel @ zh_dot @ engineStatusSummary engines tr)"

definition realtimeTotalLabel :: "rat option \<Rightarrow> string option \<Rightarrow> (string \<Rightarrow> string) \<Rightarrow> string" where
  "realtimeTotalLabel rateTotal status tr =
     (if ostr status = [] \<or> status = Some ''ok'' then formatBytes (Some (orat rateTotal)) @ ''/s''
      else trafficStatusLabel status tr)"

definition trafficSourceLabel :: "string \<Rightarrow> (string \<Rightarrow> string) \<Rightarrow> string" where
  "trafficSourceLabel source tr =
     (if source = ''inbound'' then tr zh_source_inbound
      else if source = ''client'' then tr zh_source_client
      else if source = ''client_aggregate'' then tr zh_source_aggregate
      else if source = ''mixed'' then tr zh_source_mixed
      else str_or source (tr ''MiGate''))"

definition trafficHint :: "string option \<Rightarrow> rat option \<Rightarrow> string option \<Rightarrow> string option \<Rightarrow> string option
    \<Rightarrow> (string \<Rightarrow> string) \<Rightarrow> string option" where
  "trafficHint sampledAt windowSeconds source status message tr =
     (let parts = (if ostr sampledAt \<noteq> [] then [tr zh_sampled_at @ '': '' @ ostr sampledAt] else [])
            @ (if orat windowSeconds \<noteq> 0 then [tr zh_sample_window @ '': '' @ fixed_rat 1 (orat windowSeconds) @ ''s''] else [])
            @ (if ostr source \<noteq> [] then [tr zh_stats_source @ '': '' @ trafficSourceLabel (ostr source) tr] else [])
            @ (if ostr status \<noteq> [] then [tr zh_the_status @ '': '' @ trafficStatusLabel status tr] else [])
            @ (if ostr message \<noteq> [] then [tr zh_explanation @ '': '' @ ostr message] else []);
          hint = join zh_dot parts
      in if hint = [] then None else Some hint)"

section \<open>Validation of the generated configuration\<close>

definition errorText :: "failure \<Rightarrow> string" where
  "errorText err = getAPIErrorMessage err ''unknown''"

definition validationStatusLabel :: "bool \<Rightarrow> bool option \<Rightarrow> failure option \<Rightarrow> (string \<Rightarrow> string) \<Rightarrow> string" where
  "validationStatusLabel loading valid err tr =
     (if loading then tr zh_generating
      else if err \<noteq> None then tr zh_not_available
      else if valid = Some False then tr zh_failure
      else if valid = Some True then tr zh_passed
      else tr zh_unknown)"

record validation =
  va_valid :: bool
  va_inbounds :: "int option"
  va_outbounds :: "int option"
  va_rules :: "int option"
  va_warnings :: "string list option"
  va_error :: "string option"

definition validationSummary :: "validation option \<Rightarrow> (string \<Rightarrow> string) \<Rightarrow> failure option \<Rightarrow> string" where
  "validationSummary data tr err =
     (case err of Some e \<Rightarrow> errorText e
      | None \<Rightarrow> (case data of None \<Rightarrow> tr zh_awaiting_validation
         | Some d \<Rightarrow> join zh_dot
             ((case va_inbounds d of None \<Rightarrow> [] | Some n \<Rightarrow> [''inbounds '' @ int_str n])
              @ (case va_outbounds d of None \<Rightarrow> [] | Some n \<Rightarrow> [''outbounds '' @ int_str n])
              @ (case va_rules d of None \<Rightarrow> [] | Some n \<Rightarrow> [''rules '' @ int_str n])
              @ (if olist (va_warnings d) \<noteq> [] then [''warnings '' @ nat_str (length (olist (va_warnings d)))] else [])
              @ (if ostr (va_error d) \<noteq> [] then [ostr (va_error d)] else []))))"

section \<open>Labels of the analytics card\<close>

definition trafficRangeLabel :: "analytics_range \<Rightarrow> string" where
  "trafficRangeLabel value = (case value of R1h \<Rightarrow> zh_hour_1 | R24h \<Rightarrow> zh_hours_24 | R7d \<Rightarrow> zh_days_7 | R30d \<Rightarrow> zh_days_30)"

definition trafficMetricLabel :: "analytics_metric \<Rightarrow> string" where
  "trafficMetricLabel value = (case value of Usage \<Rightarrow> zh_usage | Rate \<Rightarrow> zh_live_rate | Cumulative \<Rightarrow> zh_cumulated)"

definition trafficModeLabel :: "chart_mode \<Rightarrow> string" where
  "trafficModeLabel value = (case value of AreaChart \<Rightarrow> zh_trend | BarChart \<Rightarrow> zh_stacked | RankChart \<Rightarrow> zh_ranking | HeatChart \<Rightarrow> zh_heat)"

definition math_round :: "rat \<Rightarrow> int" where "math_round r = \<lfloor>r + 1 / 2\<rfloor>" \<comment> \<open>\<^verbatim>\<open>Math.round\<close>\<close>

definition formatBucketSeconds :: "rat \<Rightarrow> string" where
  "formatBucketSeconds seconds =
     (if seconds = 0 then ''-''
      else if seconds < 60 then num_str seconds @ ''s''
      else if seconds < 3600 then int_str (math_round (seconds / 60)) @ ''min''
      else int_str (math_round (seconds / 3600)) @ ''h'')"

type_synonym clock = "bool \<Rightarrow> string \<Rightarrow> string option"

definition formatAxisTime :: "clock \<Rightarrow> string \<Rightarrow> string option \<Rightarrow> string" where
  "formatAxisTime clock value range0 =
     (if value = [] then []
      else case clock (range0 = Some ''1h'' \<or> range0 = Some ''24h'') value of
        None \<Rightarrow> value | Some label \<Rightarrow> label)"

definition rate_suffix :: "analytics_metric \<Rightarrow> string" where
  "rate_suffix metric = (if metric = Rate then ''/s'' else [])"

definition summary_value :: "analytics_metric \<Rightarrow> (analytics_summary \<Rightarrow> rat) \<Rightarrow> (analytics_summary \<Rightarrow> rat)
    \<Rightarrow> analytics option \<Rightarrow> string" where
  "summary_value metric rate amount data =
     (let v = (case Option.bind data ay_summary of None \<Rightarrow> 0 | Some s \<Rightarrow> if metric = Rate then rate s else amount s)
      in formatBytes (Some v) @ rate_suffix metric)"

record analytics_labels =
  al_value :: string
  al_up :: string
  al_down :: string
  al_peak :: string
  al_points :: string

definition analytics_labels :: "analytics option \<Rightarrow> analytics_metric \<Rightarrow> analytics_labels" where
  "analytics_labels data metric =
     \<lparr>al_value = summary_value metric as_rate_total as_total data,
      al_up = summary_value metric as_rate_up as_up data,
      al_down = summary_value metric as_rate_down as_down data,
      al_peak = summary_value metric as_peak_rate as_peak_total data,
      al_points = (case Option.bind data ay_summary of None \<Rightarrow> ''-'' | Some s \<Rightarrow> int_str (as_points s))\<rparr>"

definition has_data :: "analytics option \<Rightarrow> bool" where
  "has_data data = (case Option.bind data ay_summary of None \<Rightarrow> False | Some s \<Rightarrow> as_has_data s)"

definition trafficAnalyticsSubtitle :: "clock \<Rightarrow> analytics option \<Rightarrow> analytics_metric \<Rightarrow> (string \<Rightarrow> string) \<Rightarrow> string" where
  "trafficAnalyticsSubtitle clock data metric tr =
     (case Option.bind data ay_summary of
        None \<Rightarrow> tr zh_need_samples
      | Some s \<Rightarrow>
          if \<not> as_has_data s then tr zh_need_samples
          else (let peakAt = (if ostr (as_peak_at s) \<noteq> [] then formatAxisTime clock (ostr (as_peak_at s)) (map_option ay_range data)
                              else tr zh_unknown);
                    suffix = (if Option.bind data ay_semantics = Some ''historical_samples''
                              then zh_dot @ tr zh_history_kept else [])
                in tr (trafficMetricLabel metric) @ zh_dot @ tr zh_peak @ '' ''
                   @ formatBytes (Some (if metric = Rate then as_peak_rate s else as_peak_total s)) @ rate_suffix metric
                   @ zh_dot @ peakAt @ suffix))"

subsection \<open>Shares of upload and download\<close>

definition insight_percents :: "analytics_metric \<Rightarrow> analytics_summary \<Rightarrow> int \<times> int" where
  "insight_percents metric s =
     (let total = (if metric = Rate then as_rate_total s else as_total s);
          up = (if metric = Rate then as_rate_up s else as_up s);
          upPercent = (if total > 0 then math_round (up / total * 100) else 0);
          downPercent = (if total > 0 then max 0 (100 - upPercent) else 0)
      in (upPercent, downPercent))"

definition rank_label :: "analytics_rank \<Rightarrow> string" where
  "rank_label r = str_or (ak_label r) (str_or (ostr (ak_scope_key r)) (''#'' @ int_str (ak_id r)))"

text \<open>
  
  The upload and download shares shown for a period are percentages that add up to exactly 100 whenever
  there was traffic, however the upload share is rounded, and the upload share is within half a point of the
  true one; without traffic both are 0.
\<close>

theorem traffic_shares_sum:
  assumes "up = (if metric = Rate then as_rate_up s else as_up s)" and "whole = (if metric = Rate then as_rate_total s else as_total s)"
    and "0 \<le> up" and "up \<le> whole"
  shows "case insight_percents metric s of (u, d) \<Rightarrow>
    if whole > 0 then 0 \<le> u \<and> 0 \<le> d \<and> u + d = 100 \<and> \<bar>of_int u - up / whole * 100\<bar> \<le> 1 / 2 else u = 0 \<and> d = 0"
proof (cases "whole > 0")
  case False
  then show ?thesis using assms(2) by (auto simp: insight_percents_def Let_def)
next
  case True
  define x where "x = up / whole * 100"
  have x: "0 \<le> x" "x \<le> 100" using assms(3,4) True by (simp_all add: x_def field_simps)
  obtain u where u: "math_round x = u" by blast
  have lo: "of_int u \<le> x + 1 / 2" and hi: "x + 1 / 2 < of_int u + 1"
    using u by (simp_all add: math_round_def floor_eq_iff)
  have "(-1 :: rat) < of_int u" using lo hi x by linarith
  then have u0: "0 \<le> u" by linarith
  have "of_int u < (101 :: rat)" using lo x by linarith
  then have u100: "u \<le> 100" by linarith
  have p: "insight_percents metric s = (u, max 0 (100 - u))"
    using True u assms(1,2) by (simp add: insight_percents_def Let_def x_def)
  have "\<bar>of_int u - x\<bar> \<le> 1 / 2" using lo hi by linarith
  then show ?thesis using True u0 u100 unfolding p x_def [symmetric] by simp
qed

definition sample_summary :: analytics_summary where
  "sample_summary = \<lparr>as_up = 1, as_down = 2, as_total = 3, as_rate_up = 0, as_rate_down = 0, as_rate_total = 0, as_peak_up = 0,
     as_peak_down = 0, as_peak_total = 0, as_peak_rate = 0, as_peak_at = None, as_points = 1, as_has_data = True\<rparr>"

theorem traffic_shares_sum_witness:
  "case insight_percents Usage sample_summary of (u, d) \<Rightarrow> 0 \<le> u \<and> 0 \<le> d \<and> u + d = 100"
  using traffic_shares_sum [OF refl refl, of Usage sample_summary]
  by (auto simp: sample_summary_def split: prod.splits)

section \<open>Chart data\<close>

record chart_series =
  se_name :: string
  se_type :: string
  se_stack :: "string option"
  se_smooth :: bool
  se_area :: "rat option"
  se_data :: "rat list"

datatype chart =
    HeatMap "string list" "string list" rat "(string \<times> string \<times> rat) list" \<comment> \<open>days, hours, maximum, cells\<close>
  | RankBars "string list" "rat list"
  | TimeSeries "string list" "rat option" "chart_series list" \<comment> \<open>axis, fixed maximum, series\<close>

datatype point_key = KUp | KDown | KTotal

definition valueFor :: "analytics_metric \<Rightarrow> point_key \<Rightarrow> analytics_point \<Rightarrow> rat" where
  "valueFor metric key p =
     (if metric = Rate then (case key of KUp \<Rightarrow> an_rate_up p | KDown \<Rightarrow> an_rate_down p | KTotal \<Rightarrow> an_rate_total p)
      else (case key of KUp \<Rightarrow> an_up p | KDown \<Rightarrow> an_down p | KTotal \<Rightarrow> an_total p))"

definition rankValueFor :: "analytics_metric \<Rightarrow> analytics_rank \<Rightarrow> rat" where
  "rankValueFor metric r =
     (if metric = Rate then or_else (ak_rate_total r) (orat (ak_total r)) else orat (ak_total r))"

definition heatmapValueFor :: "analytics_metric \<Rightarrow> heat_point \<Rightarrow> rat" where
  "heatmapValueFor metric p =
     (if metric = Rate then or_else (hp_rate_total p) (orat (hp_total p)) else orat (hp_total p))"

definition pad_start :: "nat \<Rightarrow> string \<Rightarrow> string" where \<comment> \<open>\<^verbatim>\<open>padStart(n, '0')\<close>\<close>
  "pad_start n s = pad_zeros n s"

definition hour_label :: "int \<Rightarrow> string" where
  "hour_label h = pad_start 2 (int_str h) @ '':00''"

definition buildTrafficAnalyticsOption :: "clock \<Rightarrow> analytics option \<Rightarrow> chart_mode \<Rightarrow> analytics_metric \<Rightarrow> analytics_scope
    \<Rightarrow> (string \<Rightarrow> string) \<Rightarrow> chart" where
  "buildTrafficAnalyticsOption clock data mode metric scope tr =
     (let series = (case data of None \<Rightarrow> [] | Some d \<Rightarrow> ay_series d);
          axis = map (\<lambda>p. formatAxisTime clock (an_time p) (map_option ay_range data)) series;
          values = concat (map (\<lambda>p. map (\<lambda>k. valueFor metric k p) [KUp, KDown, KTotal]) series);
          yAxisMax = (if list_ex (\<lambda>v. 0 < v) values then None else Some 1);
          kind = (if mode = BarChart then ''bar'' else ''line'');
          stack = (if mode = BarChart then Some ''traffic'' else None)
      in if mode = HeatChart then
           (let heatmap = (case data of None \<Rightarrow> [] | Some d \<Rightarrow> olist (ay_heatmap d)) in
            HeatMap (uniq (map hp_day heatmap)) (map (\<lambda>h. hour_label (int h)) [0..<24])
              (fold max (map (heatmapValueFor metric) heatmap) 1)
              (map (\<lambda>p. (hp_day p, hour_label (hp_hour p), heatmapValueFor metric p)) heatmap))
         else if mode = RankChart then
           (let ranks = (case data of None \<Rightarrow> [] | Some d \<Rightarrow> if scope = ByClient then ay_top_clients d else ay_top_inbounds d) in
            RankBars (map rank_label ranks) (map (rankValueFor metric) ranks))
         else TimeSeries axis yAxisMax
           [\<lparr>se_name = tr zh_upload, se_type = kind, se_stack = stack, se_smooth = (mode \<noteq> BarChart),
               se_area = (if mode = AreaChart then Some (18 / 100) else None), se_data = map (valueFor metric KUp) series\<rparr>,
            \<lparr>se_name = tr zh_download, se_type = kind, se_stack = stack, se_smooth = (mode \<noteq> BarChart),
               se_area = (if mode = AreaChart then Some (14 / 100) else None), se_data = map (valueFor metric KDown) series\<rparr>,
            \<lparr>se_name = tr zh_the_total, se_type = ''line'', se_stack = None, se_smooth = True,
               se_area = None, se_data = map (valueFor metric KTotal) series\<rparr>])"

lemma fold_max_ge: "(a :: rat) \<le> fold max xs a \<and> (\<forall>x \<in> set xs. x \<le> fold max xs a)"
proof (induction xs arbitrary: a)
  case Nil
  then show ?case by simp
next
  case (Cons x xs)
  have "max x a \<le> fold max xs (max x a)" using Cons by blast
  then show ?case using Cons [of "max x a"] by auto
qed

lemma hour_in_axis:
  assumes "0 \<le> h" and "h < 24"
  shows "hour_label h \<in> set (map (\<lambda>h. hour_label (int h)) [0..<24])"
proof -
  have "hour_label (int (nat h)) \<in> (\<lambda>h. hour_label (int h)) ` {0..<24}" using assms by (intro imageI) auto
  then show ?thesis using assms(1) by simp
qed

text \<open>
  
  The data handed to the chart fits its axes. In the heat map every cell lies in a listed day and, for an hour
  of the day, a listed hour, no day is listed twice, and the colour scale reaches every value; in a time series
  each line has one value per axis label, and the fixed maximum of 1 is used only when no value is positive.
\<close>

theorem chart_data_is_consistent:
  "case buildTrafficAnalyticsOption clock data mode metric scope tr of
     HeatMap days hours peak cells \<Rightarrow> distinct days \<and> length hours = 24 \<and> 1 \<le> peak
       \<and> (\<forall>(day, hour, v) \<in> set cells. day \<in> set days \<and> v \<le> peak)
       \<and> (\<forall>d p. data = Some d \<longrightarrow> p \<in> set (olist (ay_heatmap d)) \<longrightarrow> 0 \<le> hp_hour p \<longrightarrow> hp_hour p < 24 \<longrightarrow>
            (hp_day p, hour_label (hp_hour p), heatmapValueFor metric p) \<in> set cells \<and> hour_label (hp_hour p) \<in> set hours)
   | RankBars names vs \<Rightarrow> length names = length vs
   | TimeSeries axis peak lines \<Rightarrow> (\<forall>l \<in> set lines. length (se_data l) = length axis)
       \<and> (peak = Some 1 \<longleftrightarrow> (\<forall>l \<in> set lines. \<forall>v \<in> set (se_data l). v \<le> 0))"
proof -
  consider (heat) "mode = HeatChart" | (rank) "mode = RankChart" | (time) "mode = AreaChart \<or> mode = BarChart"
    by (cases mode) auto
  then show ?thesis
  proof cases
    case heat
    define hs where "hs = (case data of None \<Rightarrow> [] | Some d \<Rightarrow> olist (ay_heatmap d))"
    have o: "buildTrafficAnalyticsOption clock data mode metric scope tr =
       HeatMap (uniq (map hp_day hs)) (map (\<lambda>h. hour_label (int h)) [0..<24]) (fold max (map (heatmapValueFor metric) hs) 1)
         (map (\<lambda>p. (hp_day p, hour_label (hp_hour p), heatmapValueFor metric p)) hs)"
      by (simp add: buildTrafficAnalyticsOption_def Let_def heat hs_def)
    define m where "m = fold max (map (heatmapValueFor metric) hs) 1"
    have m: "1 \<le> m" "\<forall>p \<in> set hs. heatmapValueFor metric p \<le> m"
      using fold_max_ge [of 1 "map (heatmapValueFor metric) hs"] by (auto simp: m_def)
    have cells: "\<forall>(day, hour, v) \<in> set (map (\<lambda>p. (hp_day p, hour_label (hp_hour p), heatmapValueFor metric p)) hs).
        day \<in> set (uniq (map hp_day hs)) \<and> v \<le> m" using m(2) by auto
    have "(hp_day p, hour_label (hp_hour p), heatmapValueFor metric p)
            \<in> set (map (\<lambda>p. (hp_day p, hour_label (hp_hour p), heatmapValueFor metric p)) hs)
          \<and> hour_label (hp_hour p) \<in> set (map (\<lambda>h. hour_label (int h)) [0..<24])"
      if "data = Some d" "p \<in> set (olist (ay_heatmap d))" "0 \<le> hp_hour p" "hp_hour p < 24" for d p
    proof
      have "p \<in> set hs" using that(1,2) by (simp add: hs_def)
      then show "(hp_day p, hour_label (hp_hour p), heatmapValueFor metric p)
            \<in> set (map (\<lambda>p. (hp_day p, hour_label (hp_hour p), heatmapValueFor metric p)) hs)" by simp
    qed (rule hour_in_axis [OF that(3,4)])
    moreover have "length (map (\<lambda>h. hour_label (int h)) [0..<24]) = 24" by (simp del: upt_rec_numeral)
    ultimately show ?thesis unfolding o m_def [symmetric] chart.case
      using m(1) cells distinct_uniq [of "map hp_day hs"] by blast
  next
    case rank
    then show ?thesis by (simp add: buildTrafficAnalyticsOption_def Let_def)
  next
    case time
    define ps where "ps = (case data of None \<Rightarrow> [] | Some d \<Rightarrow> ay_series d)"
    have "\<exists>axis lines. buildTrafficAnalyticsOption clock data mode metric scope tr = TimeSeries axis
        (if list_ex (\<lambda>v. 0 < v) (concat (map (\<lambda>p. map (\<lambda>k. valueFor metric k p) [KUp, KDown, KTotal]) ps)) then None else Some 1) lines
      \<and> length axis = length ps
      \<and> map se_data lines = [map (valueFor metric KUp) ps, map (valueFor metric KDown) ps, map (valueFor metric KTotal) ps]"
      using time by (auto simp: buildTrafficAnalyticsOption_def Let_def ps_def)
    then obtain axis lines where o: "buildTrafficAnalyticsOption clock data mode metric scope tr = TimeSeries axis
        (if list_ex (\<lambda>v. 0 < v) (concat (map (\<lambda>p. map (\<lambda>k. valueFor metric k p) [KUp, KDown, KTotal]) ps)) then None else Some 1) lines"
      "length axis = length ps"
      "map se_data lines = [map (valueFor metric KUp) ps, map (valueFor metric KDown) ps, map (valueFor metric KTotal) ps]"
      by (elim exE conjE) (rule that)
    have dat: "se_data ` set lines = {map (valueFor metric KUp) ps, map (valueFor metric KDown) ps, map (valueFor metric KTotal) ps}"
      using arg_cong [OF o(3), of set] by simp
    have "\<forall>l \<in> set lines. length (se_data l) = length axis"
    proof
      fix l assume "l \<in> set lines"
      then have "se_data l \<in> se_data ` set lines" by simp
      then show "length (se_data l) = length axis" unfolding dat using o(2) by auto
    qed
    moreover have "(\<forall>l \<in> set lines. \<forall>v \<in> set (se_data l). v \<le> 0) \<longleftrightarrow>
        (\<forall>xs \<in> se_data ` set lines. \<forall>v \<in> set xs. v \<le> 0)" by simp
    moreover have "(\<forall>xs \<in> se_data ` set lines. \<forall>v \<in> set xs. v \<le> 0) \<longleftrightarrow>
        \<not> list_ex (\<lambda>v. 0 < v) (concat (map (\<lambda>p. map (\<lambda>k. valueFor metric k p) [KUp, KDown, KTotal]) ps))"
      unfolding dat by (auto simp: list_ex_iff not_less)
    ultimately show ?thesis unfolding o(1) by auto
  qed
qed

definition sample_analytics :: analytics where
  "sample_analytics = \<lparr>ay_range = ''24h'', ay_metric = ''usage'', ay_semantics = None, ay_bucket_seconds = 300,
     ay_summary = Some sample_summary, ay_series = [], ay_top_clients = [], ay_top_inbounds = [],
     ay_heatmap = Some [\<lparr>hp_day = ''Mon'', hp_hour = 7, hp_total = Some 5, hp_rate_total = None\<rparr>]\<rparr>"

theorem chart_data_is_consistent_witness:
  "case buildTrafficAnalyticsOption (\<lambda>hm s. None) (Some sample_analytics) HeatChart Usage ByInbound (\<lambda>s. s) of
     HeatMap days hours peak cells \<Rightarrow> hour_label 7 \<in> set hours \<and> length hours = 24 | _ \<Rightarrow> False"
  using chart_data_is_consistent [where clock = "\<lambda>hm s. None" and data = "Some sample_analytics" and mode = HeatChart
      and metric = Usage and scope = ByInbound and tr = "\<lambda>s. s"]
  by (simp add: buildTrafficAnalyticsOption_def Let_def sample_analytics_def del: upt_rec_numeral)

end
