(* ===== verification/InboundList.thy ===== *)
theory InboundList
  imports Overview
begin

text \<open>
  The list of \<^verbatim>\<open>src/web/src/routes/InboundsPage.tsx\<close>: which inbounds a search, the filters and
  the order leave, which client panels are open, what is shown as needing attention, and the usage bar of a
  client. The page state read here is the record \<open>list_page\<close>; \<open>list_step\<close> is one action on the panels. A
  \<^verbatim>\<open>Set\<close> of ids is a set; \<^verbatim>\<open>localeCompare\<close> is the parameter \<open>lc\<close>.
\<close>

section \<open>Texts\<close>

text \<open>The non-ASCII texts of this part of the user interface, as UTF-8 bytes.\<close>

definition zh_il_stale :: string where
  "zh_il_stale = [CHR 0xE7, CHR 0xBB, CHR 0x9F, CHR 0xE8, CHR 0xAE, CHR 0xA1, CHR 0xE5, CHR 0xB7, CHR 0xB2, CHR 0xE8,
    CHR 0xBF, CHR 0x87, CHR 0xE6, CHR 0x9C, CHR 0x9F]"

definition zh_il_unavailable :: string where
  "zh_il_unavailable = [CHR 0xE7, CHR 0xBB, CHR 0x9F, CHR 0xE8, CHR 0xAE, CHR 0xA1, CHR 0xE4, CHR 0xB8, CHR 0x8D, CHR 0xE5,
    CHR 0x8F, CHR 0xAF, CHR 0xE7, CHR 0x94, CHR 0xA8]"

definition zh_il_unsupported :: string where
  "zh_il_unsupported = [CHR 0xE5, CHR 0xAE, CHR 0x9E, CHR 0xE6, CHR 0x97, CHR 0xB6, CHR 0xE7, CHR 0xBB, CHR 0x9F, CHR 0xE8,
    CHR 0xAE, CHR 0xA1, CHR 0xE4, CHR 0xB8, CHR 0x8D, CHR 0xE5, CHR 0x8F, CHR 0xAF, CHR 0xE7, CHR 0x94,
    CHR 0xA8]"

definition zh_il_not_configured :: string where
  "zh_il_not_configured = [CHR 0xE6, CHR 0xA0, CHR 0xB8, CHR 0xE5, CHR 0xBF, CHR 0x83, CHR 0xE8, CHR 0x8A, CHR 0x82, CHR 0xE7,
    CHR 0x82, CHR 0xB9, CHR 0xE6, CHR 0x9C, CHR 0xAA, CHR 0xE9, CHR 0x85, CHR 0x8D, CHR 0xE7, CHR 0xBD,
    CHR 0xAE]"

definition zh_il_no_core_node :: string where
  "zh_il_no_core_node = [CHR 0xE6, CHR 0x9C, CHR 0xAA, CHR 0xE9, CHR 0x85, CHR 0x8D, CHR 0xE7, CHR 0xBD, CHR 0xAE, CHR 0xE5,
    CHR 0xAF, CHR 0xB9, CHR 0xE5, CHR 0xBA, CHR 0x94, CHR 0xE6, CHR 0xA0, CHR 0xB8, CHR 0xE5, CHR 0xBF,
    CHR 0x83, CHR 0xE8, CHR 0x8A, CHR 0x82, CHR 0xE7, CHR 0x82, CHR 0xB9]"

definition zh_no_traffic :: string where
  "zh_no_traffic = [CHR 0xE6, CHR 0x9A, CHR 0x82, CHR 0xE6, CHR 0x97, CHR 0xA0, CHR 0xE6, CHR 0xB5, CHR 0x81, CHR 0xE9,
    CHR 0x87, CHR 0x8F]"

definition zh_used :: string where
  "zh_used = [CHR 0xE5, CHR 0xB7, CHR 0xB2, CHR 0xE7, CHR 0x94, CHR 0xA8]"

definition zh_over_limit :: string where
  "zh_over_limit = [CHR 0xE5, CHR 0xB7, CHR 0xB2, CHR 0xE8, CHR 0xB6, CHR 0x85, CHR 0xE9, CHR 0xA2, CHR 0x9D]"

lemmas texts_InboundList =
  zh_il_stale_def zh_il_unavailable_def zh_il_unsupported_def zh_il_not_configured_def zh_il_no_core_node_def
  zh_no_traffic_def zh_used_def zh_over_limit_def

lemma texts_nonempty_InboundList [simp]:
  "zh_il_stale \<noteq> []" "zh_il_unavailable \<noteq> []" "zh_il_unsupported \<noteq> []" "zh_il_not_configured \<noteq> []"
  "zh_il_no_core_node \<noteq> []" "zh_no_traffic \<noteq> []" "zh_used \<noteq> []" "zh_over_limit \<noteq> []"
  by (simp_all add: texts_InboundList)

section \<open>Matching and status\<close>

definition text_includes :: "string \<Rightarrow> string \<Rightarrow> bool" where \<comment> \<open>\<^verbatim>\<open>s.toLowerCase().includes(query)\<close>\<close>
  "text_includes s query = str_includes (toLowerCase s) query"

definition inboundMatchesQuery :: "inbound \<Rightarrow> string \<Rightarrow> bool" where
  "inboundMatchesQuery inb query = text_includes
     (join '' '' ([ib_remark inb, ib_protocol inb, coreLabel (inboundCore inb), int_str (ib_port inb), ib_network inb,
        ib_security inb] @ map cl_email (olist (ib_clients inb)))) query"

definition inboundClientMatchesQuery :: "inbound \<Rightarrow> string \<Rightarrow> bool" where
  "inboundClientMatchesQuery inb query = list_ex (\<lambda>c. text_includes (cl_email c) query) (olist (ib_clients inb))"

definition abnormalTrafficStatus :: "string option \<Rightarrow> bool" where
  "abnormalTrafficStatus status = (ostr status \<in> set [''stale'', ''unavailable'', ''unsupported'', ''not_configured''])"

definition inboundTrafficStatus :: "traffic_inbound option \<Rightarrow> string option" where
  "inboundTrafficStatus traffic = map_option (\<lambda>t. str_or (tr_status (ti_realtime t)) (tm_status (ti_cumulative t))) traffic"

definition inboundNeedsAttention :: "inbound \<Rightarrow> traffic_inbound option \<Rightarrow> bool" where
  "inboundNeedsAttention inb traffic = (is_on (ib_enabled inb) \<and> abnormalTrafficStatus (inboundTrafficStatus traffic))"

definition attentionTrafficStatusLabel :: "string option \<Rightarrow> (string \<Rightarrow> string) \<Rightarrow> string" where
  "attentionTrafficStatusLabel status tr =
     (if status = Some ''partial'' then tr zh_stats_partial
      else if status = Some ''stale'' then tr zh_il_stale
      else if status = Some ''unavailable'' then tr zh_il_unavailable
      else if status = Some ''unsupported'' then tr zh_il_unsupported
      else if status = Some ''not_configured'' then tr zh_il_not_configured
      else [])"

definition inboundAttentionNotice :: "inbound \<Rightarrow> traffic_inbound option \<Rightarrow> (string \<Rightarrow> string) \<Rightarrow> string" where
  "inboundAttentionNotice inb traffic tr =
     (if \<not> is_on (ib_enabled inb) then []
      else let status = inboundTrafficStatus traffic in
        if status = Some ''partial'' then attentionTrafficStatusLabel status tr
        else if \<not> inboundNeedsAttention inb traffic then []
        else attentionTrafficStatusLabel status tr)"

definition inboundStatusLabel :: "string option \<Rightarrow> (string \<Rightarrow> string) \<Rightarrow> string" where
  "inboundStatusLabel status tr =
     (if status = Some ''ok'' then tr zh_stats_ok
      else if status = Some ''cumulative_only'' then tr zh_stats_cumulative
      else if status = Some ''partial'' then tr zh_stats_partial
      else if status = Some ''stale'' then tr zh_stats_stale
      else if status = Some ''unavailable'' then tr zh_stats_unavailable
      else if status = Some ''unsupported'' then tr zh_stats_unsupported
      else if status = Some ''not_configured'' then tr zh_il_no_core_node
      else tr zh_stats_waiting)"

definition trafficStatusInline :: "string option \<Rightarrow> (string \<Rightarrow> string) \<Rightarrow> string" where
  "trafficStatusInline status tr =
     (if ostr status = [] \<or> status = Some ''ok'' then tr zh_stats_ok
      else str_or (attentionTrafficStatusLabel status tr) (tr zh_stats_waiting))"

definition rateLabel :: "rat \<Rightarrow> rat \<Rightarrow> (string \<Rightarrow> string) \<Rightarrow> string option \<Rightarrow> string" where
  "rateLabel up down tr status =
     (if status = Some ''waiting'' then tr zh_stats_waiting
      else if status = Some ''stale'' then tr zh_il_stale
      else if status = Some ''unavailable'' then tr zh_il_unavailable
      else if status = Some ''unsupported'' then tr zh_il_unsupported
      else if status = Some ''not_configured'' then tr zh_il_not_configured
      else if up = 0 \<and> down = 0 then tr ''0 B/s''
      else formatBytes (Some up) @ zh_up_arrow @ formatBytes (Some down) @ zh_down_arrow)"

section \<open>Traffic of a row\<close>

definition trafficV2Index ::
  "traffic_snapshot option \<Rightarrow> (int \<Rightarrow> traffic_inbound option) \<times> (int \<Rightarrow> traffic_client option)" where
  "trafficV2Index snapshot =
     (let ins = (case snapshot of None \<Rightarrow> [] | Some s \<Rightarrow> sn_inbounds s);
          cls = (case snapshot of None \<Rightarrow> [] | Some s \<Rightarrow> sn_clients s)
      in (map_of (rev (map (\<lambda>i. (ti_id i, i)) ins)), map_of (rev (map (\<lambda>c. (tc_id c, c)) cls))))"

definition emptyV2Metric :: "string \<Rightarrow> string \<Rightarrow> traffic_metric" where
  "emptyV2Metric status source = \<lparr>tm_up = 0, tm_down = 0, tm_total = 0, tm_status = status, tm_source = source, tm_message = []\<rparr>"

definition emptyV2Realtime :: "string \<Rightarrow> string \<Rightarrow> traffic_realtime" where
  "emptyV2Realtime status source = \<lparr>tr_delta_up = 0, tr_delta_down = 0, tr_delta_total = 0, tr_rate_up = 0,
     tr_rate_down = 0, tr_rate_total = 0, tr_observed_at = [], tr_window_seconds = 0, tr_status = status,
     tr_source = source, tr_message = []\<rparr>"

definition inboundCumulative :: "traffic_inbound option \<Rightarrow> traffic_metric" where
  "inboundCumulative t = (case t of Some i \<Rightarrow> ti_cumulative i | None \<Rightarrow> emptyV2Metric ''waiting'' ''inbound'')"

definition clientCumulative :: "traffic_client option \<Rightarrow> traffic_metric" where
  "clientCumulative t = (case t of Some c \<Rightarrow> tc_cumulative c | None \<Rightarrow> emptyV2Metric ''waiting'' ''client'')"

definition inboundRealtime :: "traffic_inbound option \<Rightarrow> traffic_realtime" where
  "inboundRealtime t = (case t of Some i \<Rightarrow> ti_realtime i | None \<Rightarrow> emptyV2Realtime ''waiting'' ''inbound'')"

definition clientRealtime :: "traffic_client option \<Rightarrow> traffic_realtime" where
  "clientRealtime t = (case t of Some c \<Rightarrow> tc_realtime c | None \<Rightarrow> emptyV2Realtime ''waiting'' ''client'')"

datatype usage_tone = Normal | UsageWarning | Danger | Over

record usage =
  us_label :: string
  us_percent :: rat
  us_percentLabel :: string
  us_tone :: usage_tone

definition clientUsageSummary :: "int option \<Rightarrow> traffic_metric \<Rightarrow> (string \<Rightarrow> string) \<Rightarrow> usage" where
  "clientUsageSummary limitValue cumulative tr =
     (let used = of_int (tm_total cumulative) :: rat; limit = of_int (oint limitValue) :: rat in
      if used \<le> 0 then \<lparr>us_label = tr zh_no_traffic, us_percent = 0, us_percentLabel = [], us_tone = Normal\<rparr>
      else if limit \<le> 0 then
        \<lparr>us_label = tr zh_used @ '' '' @ formatBytes (Some used), us_percent = 0, us_percentLabel = [], us_tone = Normal\<rparr>
      else (let rawPercent = used / limit * 100; rounded = math_round rawPercent; over = rawPercent > 100 in
        \<lparr>us_label = tr zh_used @ '' '' @ formatBytes (Some used) @ '' / '' @ formatBytes (Some limit)
            @ (if over then zh_dot @ tr zh_over_limit else []),
         us_percent = (if over then 100 else rawPercent),
         us_percentLabel = (if over then tr zh_over_limit else int_str rounded @ ''%''),
         us_tone = (if over then Over else if rounded \<ge> 90 then Danger else if rounded \<ge> 70 then UsageWarning else Normal)\<rparr>))"

definition bar_width :: "rat \<Rightarrow> rat" where
  "bar_width percent = min 100 (max 0 percent)"

section \<open>The list\<close>

datatype sort_key = SortId | SortPort | SortProtocol | SortClients

datatype status_filter = AllStatus | EnabledOnly | DisabledOnly | AttentionOnly

datatype expansion_mode = Single | Bulk

record list_page =
  lp_search :: string
  lp_protocolFilter :: string
  lp_statusFilter :: status_filter
  lp_sort :: sort_key
  lp_expandedClients :: "int set"
  lp_clientExpansionMode :: expansion_mode

type_synonym traffic_index = "int \<Rightarrow> traffic_inbound option"

definition inbound_listed :: "list_page \<Rightarrow> traffic_index \<Rightarrow> inbound \<Rightarrow> bool" where
  "inbound_listed page traffic inb =
     (let q = toLowerCase (trim (lp_search page)) in
      if lp_protocolFilter page \<noteq> ''all'' \<and> ib_protocol inb \<noteq> lp_protocolFilter page then False
      else if lp_statusFilter page = EnabledOnly \<and> \<not> is_on (ib_enabled inb) then False
      else if lp_statusFilter page = DisabledOnly \<and> is_on (ib_enabled inb) then False
      else if lp_statusFilter page = AttentionOnly \<and> \<not> inboundNeedsAttention inb (traffic (ib_id inb)) then False
      else if q = [] then True
      else inboundMatchesQuery inb q)"

definition list_le :: "(string \<Rightarrow> string \<Rightarrow> bool) \<Rightarrow> sort_key \<Rightarrow> inbound \<Rightarrow> inbound \<Rightarrow> bool" where
  "list_le lc key a b =
     (case key of
        SortPort \<Rightarrow> ib_port a \<le> ib_port b
      | SortProtocol \<Rightarrow> lc (ib_protocol a) (ib_protocol b)
      | SortClients \<Rightarrow> length (olist (ib_clients b)) \<le> length (olist (ib_clients a))
      | SortId \<Rightarrow> ib_id a \<le> ib_id b)"

definition filtered :: "(string \<Rightarrow> string \<Rightarrow> bool) \<Rightarrow> list_page \<Rightarrow> traffic_index \<Rightarrow> inbound list \<Rightarrow> inbound list" where
  "filtered lc page traffic inbounds =
     sort_by (list_le lc (lp_sort page)) (filter (inbound_listed page traffic) inbounds)"

definition searchClientMatches :: "list_page \<Rightarrow> inbound list \<Rightarrow> int set" where
  "searchClientMatches page inbounds =
     (let q = toLowerCase (trim (lp_search page)) in
      if q = [] then {} else set (map ib_id (filter (\<lambda>i. inboundClientMatchesQuery i q) inbounds)))"

definition displayedExpandedClients :: "list_page \<Rightarrow> inbound list \<Rightarrow> int set" where
  "displayedExpandedClients page inbounds = lp_expandedClients page \<union> searchClientMatches page inbounds"

definition allFilteredExpanded :: "list_page \<Rightarrow> inbound list \<Rightarrow> inbound list \<Rightarrow> bool" where
  "allFilteredExpanded page inbounds shown =
     (shown \<noteq> [] \<and> list_all (\<lambda>i. ib_id i \<in> displayedExpandedClients page inbounds) shown)"

definition clientBulkToggleDisabled :: "list_page \<Rightarrow> inbound list \<Rightarrow> inbound list \<Rightarrow> bool" where
  "clientBulkToggleDisabled page inbounds shown =
     (allFilteredExpanded page inbounds shown \<and> list_ex (\<lambda>i. ib_id i \<in> searchClientMatches page inbounds) shown)"

section \<open>Client panels\<close>

definition toggleClientPanel :: "int \<Rightarrow> list_page \<Rightarrow> list_page" where
  "toggleClientPanel inboundId page = page\<lparr>
     lp_expandedClients := (if inboundId \<in> lp_expandedClients page then {} else {inboundId}),
     lp_clientExpansionMode := Single\<rparr>"

definition setAllClientPanels :: "inbound list \<Rightarrow> bool \<Rightarrow> list_page \<Rightarrow> list_page" where
  "setAllClientPanels shown expanded page = page\<lparr>
     lp_expandedClients := fold (\<lambda>inb ids. if expanded then insert (ib_id inb) ids else ids - {ib_id inb}) shown (lp_expandedClients page),
     lp_clientExpansionMode := Bulk\<rparr>"

definition openNewClientModal :: "int \<Rightarrow> list_page \<Rightarrow> list_page" where
  "openNewClientModal inboundId page = page\<lparr>lp_expandedClients := insert inboundId (lp_expandedClients page),
     lp_clientExpansionMode := Bulk\<rparr>"

text \<open>A click outside: \<open>menus\<close> says that it closed an open menu, \<open>control\<close> that it hit a panel button,
  \<open>inside\<close> that it fell into the expanded card.\<close>

definition handleDocumentClick :: "bool \<Rightarrow> bool \<Rightarrow> bool \<Rightarrow> list_page \<Rightarrow> list_page" where
  "handleDocumentClick menus control inside page =
     (if menus then page
      else if lp_clientExpansionMode page \<noteq> Single \<or> card (lp_expandedClients page) \<noteq> 1 then page
      else if control then page
      else if inside then page
      else page\<lparr>lp_expandedClients := {}\<rparr>)"

definition handleDocumentKeyDown :: "bool \<Rightarrow> bool \<Rightarrow> list_page \<Rightarrow> list_page" where
  "handleDocumentKeyDown esc menus page =
     (if \<not> esc then page
      else if menus then page
      else if lp_clientExpansionMode page \<noteq> Single \<or> card (lp_expandedClients page) \<noteq> 1 then page
      else page\<lparr>lp_expandedClients := {}\<rparr>)"

datatype list_event =
    TogglePanel int | AllPanels "inbound list" bool | NewClient int | ClickE bool bool bool | KeyE bool bool
  | SearchE string | FilterE string status_filter sort_key

fun list_step :: "list_event \<Rightarrow> list_page \<Rightarrow> list_page" where
  "list_step (TogglePanel n) page = toggleClientPanel n page"
| "list_step (AllPanels shown expanded) page = setAllClientPanels shown expanded page"
| "list_step (NewClient n) page = openNewClientModal n page"
| "list_step (ClickE menus control inside) page = handleDocumentClick menus control inside page"
| "list_step (KeyE esc menus) page = handleDocumentKeyDown esc menus page"
| "list_step (SearchE s) page = page\<lparr>lp_search := s\<rparr>"
| "list_step (FilterE p s k) page = page\<lparr>lp_protocolFilter := p, lp_statusFilter := s, lp_sort := k\<rparr>"

definition initial_page :: list_page where
  "initial_page = \<lparr>lp_search = [], lp_protocolFilter = ''all'', lp_statusFilter = AllStatus, lp_sort = SortId,
     lp_expandedClients = {}, lp_clientExpansionMode = Single\<rparr>"

inductive list_reachable :: "list_page \<Rightarrow> bool" where
  initial: "list_reachable initial_page"
| acted: "list_reachable page \<Longrightarrow> list_reachable (list_step e page)"

section \<open>Facts\<close>

interpretation id_order: total_preorder "list_le lc SortId" for lc
  by unfold_locales (auto simp: list_le_def)

interpretation port_order: total_preorder "list_le lc SortPort" for lc
  by unfold_locales (auto simp: list_le_def)

interpretation clients_order: total_preorder "list_le lc SortClients" for lc
  by unfold_locales (auto simp: list_le_def)

lemma filtered_sorted: "k \<noteq> SortProtocol \<Longrightarrow> lp_sort page = k \<Longrightarrow> sorted_wrt (list_le lc k) (filtered lc page traffic inbounds)"
  by (cases k) (simp_all add: filtered_def id_order.sorted_sort_by port_order.sorted_sort_by clients_order.sorted_sort_by)

lemma set_filtered [simp]: "set (filtered lc page traffic inbounds) = {i \<in> set inbounds. inbound_listed page traffic i}"
  by (auto simp: filtered_def)

text \<open>A part of a joined text is found in the whole.\<close>

lemma indexOf_None_iff: "indexOf s p = None \<longleftrightarrow> (\<forall>a b. s \<noteq> a @ p @ b)"
proof (induction s)
  case Nil
  then show ?case by auto
next
  case (Cons c s)
  show ?case
  proof (cases "prefix p (c # s)")
    case True
    then have "\<exists>b. c # s = [] @ p @ b" by (auto simp: prefix_def)
    then have "\<exists>a b. c # s = a @ p @ b" by blast
    moreover have "indexOf (c # s) p \<noteq> None" using True by simp
    ultimately show ?thesis by blast
  next
    case False
    then have "(\<exists>a b. c # s = a @ p @ b) \<longleftrightarrow> (\<exists>a b. s = a @ p @ b)"
      by (auto simp: Cons_eq_append_conv prefix_def)
    then show ?thesis using False Cons by auto
  qed
qed

lemma str_includes_iff: "str_includes s p \<longleftrightarrow> (\<exists>a b. s = a @ p @ b)"
  using indexOf_None_iff [of s p] by (auto simp: str_includes_def)

lemma str_includes_part: "str_includes s p \<Longrightarrow> str_includes (x @ s @ y) p"
  unfolding str_includes_iff by (metis append.assoc)

lemma join_part: "x \<in> set xs \<Longrightarrow> \<exists>a b. join sep xs = a @ x @ b"
proof (induction xs)
  case Nil
  then show ?case by simp
next
  case (Cons y ys)
  show ?case
  proof (cases "x = y")
    case True
    then have "join sep (y # ys) = [] @ x @ (case ys of [] \<Rightarrow> [] | _ # _ \<Rightarrow> sep @ join sep ys)"
      by (simp split: list.split)
    then show ?thesis by blast
  next
    case False
    then have ys: "x \<in> set ys" using Cons.prems by simp
    then obtain a b where "join sep ys = a @ x @ b" using Cons.IH by blast
    moreover have "ys \<noteq> []" using ys by auto
    ultimately have "join sep (y # ys) = (y @ sep @ a) @ x @ b" by (simp add: join_Cons del: join.simps)
    then show ?thesis by blast
  qed
qed

lemma text_includes_join: "x \<in> set xs \<Longrightarrow> text_includes x q \<Longrightarrow> text_includes (join sep xs) q"
  using join_part [of x xs sep] by (auto simp: text_includes_def str_includes_part)

lemma client_match_is_match: "inboundClientMatchesQuery inb q \<Longrightarrow> inboundMatchesQuery inb q"
  unfolding inboundClientMatchesQuery_def inboundMatchesQuery_def list_ex_iff
  by (elim bexE) (erule text_includes_join [rotated], simp)

text \<open>
  
  The list shows exactly the inbounds the filters and the search leave, each as often as it occurs, in the chosen
  order. While nothing but a search is set, an inbound with a client that matches it is listed with its clients
  open, and neither the button of its panel nor the one that closes all panels hides them.
\<close>

theorem search_hits_are_shown:
  assumes "inb \<in> set inbounds" and "lp_protocolFilter page = ''all''" and "lp_statusFilter page = AllStatus"
    and "toLowerCase (trim (lp_search page)) \<noteq> []"
    and "inboundClientMatchesQuery inb (toLowerCase (trim (lp_search page)))"
  shows "mset (filtered lc page traffic inbounds) = filter_mset (inbound_listed page traffic) (mset inbounds)
    \<and> inb \<in> set (filtered lc page traffic inbounds)
    \<and> ib_id inb \<in> displayedExpandedClients (toggleClientPanel (ib_id inb) page) inbounds
    \<and> ib_id inb \<in> displayedExpandedClients (setAllClientPanels shown False page) inbounds
    \<and> (lp_sort page \<noteq> SortProtocol \<longrightarrow> sorted_wrt (list_le lc (lp_sort page)) (filtered lc page traffic inbounds))"
proof -
  have "ib_id inb \<in> searchClientMatches page inbounds"
    using assms by (auto simp: searchClientMatches_def Let_def)
  then have "ib_id inb \<in> displayedExpandedClients (toggleClientPanel (ib_id inb) page) inbounds"
    "ib_id inb \<in> displayedExpandedClients (setAllClientPanels shown False page) inbounds"
    by (auto simp: displayedExpandedClients_def searchClientMatches_def toggleClientPanel_def setAllClientPanels_def)
  moreover have "inbound_listed page traffic inb"
    using assms client_match_is_match by (simp add: inbound_listed_def Let_def)
  ultimately show ?thesis
    using assms(1) filtered_sorted by (auto simp: filtered_def)
qed

text \<open>Opening panels one at a time leaves at most one open.\<close>

lemma single_mode_one_panel:
  "list_reachable page \<Longrightarrow> lp_clientExpansionMode page = Single \<Longrightarrow>
   finite (lp_expandedClients page) \<and> card (lp_expandedClients page) \<le> 1"
proof (induction rule: list_reachable.induct)
  case initial
  then show ?case by (simp add: initial_page_def)
next
  case (acted page e)
  then show ?case
    by (cases e) (auto simp: toggleClientPanel_def setAllClientPanels_def openNewClientModal_def
        handleDocumentClick_def handleDocumentKeyDown_def split: if_splits)
qed

text \<open>Every card that needs attention says why.\<close>

lemma attention_has_notice:
  assumes "\<And>s. s \<noteq> [] \<Longrightarrow> tr s \<noteq> []" and "inboundNeedsAttention inb traffic"
  shows "inboundAttentionNotice inb traffic tr \<noteq> []"
  using assms by (auto simp: inboundNeedsAttention_def inboundAttentionNotice_def abnormalTrafficStatus_def
      attentionTrafficStatusLabel_def ostr_def Let_def split: option.splits)

text \<open>
  
  The usage bar of a client never leaves its frame, it is full and in the colour of an overrun exactly when a
  limit is set and exceeded, and below that the width is the exact share of the limit that is used.
\<close>

theorem usage_bar_bounds:
  "let u = clientUsageSummary limit m tr in
   0 \<le> us_percent u \<and> us_percent u \<le> 100 \<and> bar_width (us_percent u) = us_percent u
   \<and> (us_tone u = Over \<longleftrightarrow> 0 < oint limit \<and> oint limit < tm_total m)
   \<and> (0 < oint limit \<and> 0 \<le> tm_total m \<and> tm_total m \<le> oint limit \<longrightarrow>
        us_percent u * of_int (oint limit) = 100 * of_int (tm_total m))"
  by (auto simp: clientUsageSummary_def Let_def bar_width_def field_simps)

definition busy_client :: traffic_metric where
  "busy_client = (emptyV2Metric ''ok'' ''client'')\<lparr>tm_total := 25\<rparr>"

theorem usage_bar_bounds_witness:
  "us_percent (clientUsageSummary (Some 100) busy_client (\<lambda>s. s)) * 100 = 2500"
  using usage_bar_bounds [of "Some 100" busy_client "\<lambda>s. s"]
  by (simp add: Let_def busy_client_def emptyV2Metric_def)

definition listed_inbound :: inbound where
  "listed_inbound = \<lparr>ib_id = 4, ib_remark = ''n4'', ib_protocol = ''vless'', ib_core = None, ib_port = 443,
     ib_network = ''tcp'', ib_security = ''none'', ib_enabled = Some True, ib_uuid = None,
     ib_clients = Some [\<lparr>cl_id = 9, cl_inbound_id = 4, cl_email = ''bob'', cl_uuid = [], cl_credential_id = None,
       cl_stats_key = None, cl_password = None, cl_subscription_token = None, cl_enabled = Some True,
       cl_traffic_limit = None, cl_expiry_at = None\<rparr>], ib_extra = []\<rparr>"

lemma trim_bob: "trim ''bo'' = ''bo''"
  by (simp add: trim_def strip_ws_fix head_ws_def js_ws_def)

theorem search_hits_are_shown_witness:
  "listed_inbound \<in> set (filtered (\<lambda>a b. True) (initial_page\<lparr>lp_search := ''bo''\<rparr>) (\<lambda>n. None) [listed_inbound])
   \<and> 4 \<in> displayedExpandedClients (toggleClientPanel 4 (initial_page\<lparr>lp_search := ''bo''\<rparr>)) [listed_inbound]"
proof -
  have q: "toLowerCase (trim ''bo'') = ''bo''" by (simp add: trim_bob lower_char_def)
  have "inboundClientMatchesQuery listed_inbound ''bo''"
    by (simp add: inboundClientMatchesQuery_def listed_inbound_def text_includes_def str_includes_def lower_char_def)
  then show ?thesis
    using search_hits_are_shown [of listed_inbound "[listed_inbound]" "initial_page\<lparr>lp_search := ''bo''\<rparr>"
        "\<lambda>a b. True" "\<lambda>n. None" "[]"] q
    by (simp add: initial_page_def listed_inbound_def)
qed

end
