(* ===== verification/Reorder.thy ===== *)
theory Reorder
  imports Collections
begin

text \<open>
  Moving an entry of a list by exchanging it with the one at the target position, as the pages for routing rules,
  outbounds and subscriptions do before they send the new order. The locale \<open>id_mover\<close> is the contract of such
  an operation: \<open>moved items index delta\<close> is the list of ids that is sent, \<open>kept\<close> the entries whose
  ids are sent at all. What the pages promise follows from the two laws of the locale.
\<close>

definition swapped :: "'a list \<Rightarrow> nat \<Rightarrow> nat \<Rightarrow> 'a list" where
  "swapped xs i j = xs[i := xs ! j, j := xs ! i]"

lemma swapped_nth:
  "i < length xs \<Longrightarrow> j < length xs \<Longrightarrow> k < length xs \<Longrightarrow>
   swapped xs i j ! k = (if k = j then xs ! i else if k = i then xs ! j else xs ! k)"
  by (simp add: swapped_def nth_list_update)

lemma length_swapped [simp]: "length (swapped xs i j) = length xs"
  by (simp add: swapped_def)

lemma swapped_twice: "i < length xs \<Longrightarrow> j < length xs \<Longrightarrow> swapped (swapped xs i j) j i = xs"
  by (rule nth_equalityI) (auto simp: swapped_nth)

lemma mset_swapped: "i < length xs \<Longrightarrow> j < length xs \<Longrightarrow> mset (swapped xs i j) = mset xs"
  by (simp add: swapped_def mset_swap)

lemma set_swapped: "i < length xs \<Longrightarrow> j < length xs \<Longrightarrow> set (swapped xs i j) = set xs"
  by (metis mset_swapped set_mset_mset)

lemma map_swapped: "i < length xs \<Longrightarrow> j < length xs \<Longrightarrow> map f (swapped xs i j) = swapped (map f xs) i j"
  by (simp add: swapped_def map_update)

text \<open>The buttons of an entry: up unless it is the first one, down unless it is the last one.\<close>

definition offered_moves :: "int \<Rightarrow> int \<Rightarrow> int list" where
  "offered_moves index n = (if index = 0 then [] else [-1]) @ (if index = n - 1 then [] else [1])"

locale id_mover =
  fixes ident :: "'a \<Rightarrow> int"
    and kept :: "'a \<Rightarrow> bool"
    and moved :: "'a list \<Rightarrow> int \<Rightarrow> int \<Rightarrow> int list option"
  assumes moved_inside: "0 \<le> index \<Longrightarrow> index < int (length items) \<Longrightarrow> 0 \<le> index + delta \<Longrightarrow>
      index + delta < int (length items) \<Longrightarrow>
      moved items index delta = Some (map ident (filter kept (swapped items (nat index) (nat (index + delta)))))"
    and moved_outside: "index + delta < 0 \<or> int (length items) \<le> index + delta \<Longrightarrow>
      moved items index delta = Some (map ident (filter kept items))"
begin

lemma moved_mset:
  assumes "0 \<le> index" and "index < int (length items)"
  shows "\<exists>ids. moved items index delta = Some ids \<and> mset ids = mset (map ident (filter kept items))"
proof (cases "0 \<le> index + delta \<and> index + delta < int (length items)")
  case True
  then have "mset (swapped items (nat index) (nat (index + delta))) = mset items"
    using assms by (intro mset_swapped) auto
  then show ?thesis using moved_inside [OF assms True [THEN conjunct1] True [THEN conjunct2]] by simp
next
  case False
  then show ?thesis using moved_outside [of index delta items] by (auto simp: not_le not_less)
qed

lemma moved_all:
  assumes "0 \<le> index" and "index < int (length items)" and "0 \<le> index + delta" and "index + delta < int (length items)"
    and "\<forall>x \<in> set items. kept x"
  shows "moved items index delta = Some (swapped (map ident items) (nat index) (nat (index + delta)))"
proof -
  have ij: "nat index < length items" "nat (index + delta) < length items" using assms by auto
  have "filter kept (swapped items (nat index) (nat (index + delta))) = swapped items (nat index) (nat (index + delta))"
    using assms(5) ij by (intro filter_True) (simp add: set_swapped)
  then show ?thesis using moved_inside [OF assms(1-4)] ij by (simp add: map_swapped)
qed

lemma moved_exchanges:
  assumes "0 \<le> index" and "index < int (length items)" and "0 \<le> index + delta" and "index + delta < int (length items)"
    and "\<forall>x \<in> set items. kept x" and "moved items index delta = Some ids"
  shows "ids ! nat (index + delta) = ident (items ! nat index)"
    and "k < length items \<Longrightarrow> k \<noteq> nat index \<Longrightarrow> k \<noteq> nat (index + delta) \<Longrightarrow> ids ! k = ident (items ! k)"
  using moved_all [OF assms(1-5)] assms by (simp_all add: swapped_nth)

lemma moved_undo:
  assumes "0 \<le> index" and "index < int (length items)" and "0 \<le> index + delta" and "index + delta < int (length items)"
    and "\<forall>x \<in> set items. kept x" and "moved items index delta = Some ids"
    and "map ident items' = ids" and "\<forall>x \<in> set items'. kept x"
  shows "moved items' (index + delta) (- delta) = Some (map ident items)"
proof -
  have ids: "ids = swapped (map ident items) (nat index) (nat (index + delta))"
    using moved_all [OF assms(1-5)] assms(6) by simp
  have len: "length items' = length items" using arg_cong [OF assms(7), of length] by (simp add: ids)
  have "moved items' (index + delta) (- delta) = Some (swapped (map ident items') (nat (index + delta)) (nat index))"
    using moved_all [of "index + delta" items' "- delta"] assms by (simp add: len)
  then show ?thesis using assms by (simp add: assms(7) ids swapped_twice)
qed

lemma offered_move_exchanges:
  assumes "0 \<le> index" and "index < int (length items)" and "delta \<in> set (offered_moves index (int (length items)))"
    and "\<forall>x \<in> set items. kept x"
  shows "\<exists>ids. moved items index delta = Some ids \<and> ids ! nat (index + delta) = ident (items ! nat index)
    \<and> ids ! nat index = ident (items ! nat (index + delta)) \<and> 0 \<le> index + delta \<and> index + delta < int (length items)"
proof -
  have target: "0 \<le> index + delta" "index + delta < int (length items)"
  proof -
    consider "delta = -1" "index \<noteq> 0" | "delta = 1" "index \<noteq> int (length items) - 1"
      using assms(3) by (auto simp: offered_moves_def split: if_splits)
    then show "0 \<le> index + delta" "index + delta < int (length items)" by (cases; use assms(1,2) in linarith)+
  qed
  then have ij: "nat index < length items" "nat (index + delta) < length items" using assms by auto
  then show ?thesis
    using moved_all [OF assms(1,2) target assms(4)] target by (simp add: swapped_nth)
qed

end

text \<open>The exchange the pages write: a move out of the list keeps the order, an index that is not in the list
  would read the id of \<^verbatim>\<open>undefined\<close>, which raises (\<open>None\<close>).\<close>

definition exchange :: "'a list \<Rightarrow> int \<Rightarrow> int \<Rightarrow> 'a list option" where
  "exchange items index delta =
     (let target = index + delta; n = int (length items) in
      if target < 0 \<or> target \<ge> n then Some items
      else if index < 0 \<or> index \<ge> n then None
      else Some (items[nat index := items ! nat target, nat target := items ! nat index]))"

lemma exchange_inside:
  "0 \<le> index \<Longrightarrow> index < int (length items) \<Longrightarrow> 0 \<le> index + delta \<Longrightarrow> index + delta < int (length items) \<Longrightarrow>
   exchange items index delta = Some (swapped items (nat index) (nat (index + delta)))"
  by (simp add: exchange_def Let_def swapped_def)

lemma exchange_outside:
  "index + delta < 0 \<or> int (length items) \<le> index + delta \<Longrightarrow> exchange items index delta = Some items"
  by (auto simp: exchange_def Let_def)

end
