(* ===== verification/RoutingForm.thy ===== *)
theory RoutingForm
  imports Routing Reorder
begin

text \<open>
  \<^verbatim>\<open>src/web/src/routes/RoutingPage.tsx\<close>, the actions of the page: the choices its form offers,
  what picking one does to the draft, the payload, moving a rule, and the window of a page. The draft of the
  form is a \<open>routing_rule\<close>. \<^verbatim>\<open>TypeError\<close>s are \<open>None\<close>.
\<close>

section \<open>Texts\<close>

text \<open>The non-ASCII texts of this part of the user interface, as UTF-8 bytes.\<close>

definition zh_the_all :: string where
  "zh_the_all = [CHR 0xE5, CHR 0x85, CHR 0xA8, CHR 0xE9, CHR 0x83, CHR 0xA8]"

definition zh_scope_label :: string where
  "zh_scope_label = [CHR 0xE8, CHR 0x8C, CHR 0x83, CHR 0xE5, CHR 0x9B, CHR 0xB4, CHR 0xEF, CHR 0xBC, CHR 0x9A]"

definition zh_any_source :: string where
  "zh_any_source = [CHR 0xE4, CHR 0xB8, CHR 0x8D, CHR 0xE9, CHR 0x99, CHR 0x90, CHR 0xE5, CHR 0x88, CHR 0xB6, CHR 0xE6,
    CHR 0x9D, CHR 0xA5, CHR 0xE6, CHR 0xBA, CHR 0x90, CHR 0xE5, CHR 0x85, CHR 0xA5, CHR 0xE7, CHR 0xAB,
    CHR 0x99]"

definition zh_all_inbounds_search :: string where
  "zh_all_inbounds_search = [CHR 0xE5, CHR 0x85, CHR 0xA8, CHR 0xE9, CHR 0x83, CHR 0xA8, CHR 0xE5, CHR 0x85, CHR 0xA5, CHR 0xE7,
    CHR 0xAB, CHR 0x99, CHR 0x20, CHR 0x61, CHR 0x6C, CHR 0x6C, CHR 0x20, CHR 0x69, CHR 0x6E, CHR 0x62,
    CHR 0x6F, CHR 0x75, CHR 0x6E, CHR 0x64]"

definition zh_protocol_label :: string where
  "zh_protocol_label = [CHR 0xE5, CHR 0x8D, CHR 0x8F, CHR 0xE8, CHR 0xAE, CHR 0xAE, CHR 0xEF, CHR 0xBC, CHR 0x9A]"

definition zh_transport_label :: string where
  "zh_transport_label = [CHR 0xE4, CHR 0xBC, CHR 0xA0, CHR 0xE8, CHR 0xBE, CHR 0x93, CHR 0xEF, CHR 0xBC, CHR 0x9A]"

definition zh_clients_label :: string where
  "zh_clients_label = [CHR 0xE5, CHR 0xAE, CHR 0xA2, CHR 0xE6, CHR 0x88, CHR 0xB7, CHR 0xE7, CHR 0xAB, CHR 0xAF, CHR 0xEF,
    CHR 0xBC, CHR 0x9A]"

definition zh_no_client_chosen :: string where
  "zh_no_client_chosen = [CHR 0xE4, CHR 0xB8, CHR 0x8D, CHR 0xE6, CHR 0x8C, CHR 0x87, CHR 0xE5, CHR 0xAE, CHR 0x9A, CHR 0xE5,
    CHR 0xAE, CHR 0xA2, CHR 0xE6, CHR 0x88, CHR 0xB7, CHR 0xE7, CHR 0xAB, CHR 0xAF]"

definition zh_rule_label :: string where
  "zh_rule_label = [CHR 0xE8, CHR 0xA7, CHR 0x84, CHR 0xE5, CHR 0x88, CHR 0x99, CHR 0xEF, CHR 0xBC, CHR 0x9A]"

definition zh_inbound_to_outbound :: string where
  "zh_inbound_to_outbound = [CHR 0xE5, CHR 0x85, CHR 0xA5, CHR 0xE7, CHR 0xAB, CHR 0x99, CHR 0x20, CHR 0x2D, CHR 0x3E, CHR 0x20,
    CHR 0xE5, CHR 0x87, CHR 0xBA, CHR 0xE7, CHR 0xAB, CHR 0x99]"

definition zh_no_client_search :: string where
  "zh_no_client_search = [CHR 0xE4, CHR 0xB8, CHR 0x8D, CHR 0xE6, CHR 0x8C, CHR 0x87, CHR 0xE5, CHR 0xAE, CHR 0x9A, CHR 0xE5,
    CHR 0xAE, CHR 0xA2, CHR 0xE6, CHR 0x88, CHR 0xB7, CHR 0xE7, CHR 0xAB, CHR 0xAF, CHR 0x20, CHR 0x69,
    CHR 0x6E, CHR 0x62, CHR 0x6F, CHR 0x75, CHR 0x6E, CHR 0x64, CHR 0x20, CHR 0x6C, CHR 0x65, CHR 0x76,
    CHR 0x65, CHR 0x6C, CHR 0x20, CHR 0x61, CHR 0x6C, CHR 0x6C]"

definition zh_match_value :: string where
  "zh_match_value = [CHR 0xE5, CHR 0x8C, CHR 0xB9, CHR 0xE9, CHR 0x85, CHR 0x8D, CHR 0xE5, CHR 0x80, CHR 0xBC, CHR 0xEF,
    CHR 0xBC, CHR 0x9A]"

definition zh_inbound_label :: string where
  "zh_inbound_label = [CHR 0xE5, CHR 0x85, CHR 0xA5, CHR 0xE7, CHR 0xAB, CHR 0x99, CHR 0xEF, CHR 0xBC, CHR 0x9A]"

definition zh_state_label :: string where
  "zh_state_label = [CHR 0xE7, CHR 0x8A, CHR 0xB6, CHR 0xE6, CHR 0x80, CHR 0x81, CHR 0xEF, CHR 0xBC, CHR 0x9A]"

definition zh_is_disabled :: string where
  "zh_is_disabled = [CHR 0xE7, CHR 0xA6, CHR 0x81, CHR 0xE7, CHR 0x94, CHR 0xA8]"

definition zh_is_enabled :: string where
  "zh_is_enabled = [CHR 0xE5, CHR 0x90, CHR 0xAF, CHR 0xE7, CHR 0x94, CHR 0xA8]"

definition zh_client_gone :: string where
  "zh_client_gone = [CHR 0xE5, CHR 0xAE, CHR 0xA2, CHR 0xE6, CHR 0x88, CHR 0xB7, CHR 0xE7, CHR 0xAB, CHR 0xAF, CHR 0xE5,
    CHR 0xB7, CHR 0xB2, CHR 0xE7, CHR 0xBC, CHR 0xBA, CHR 0xE5, CHR 0xA4, CHR 0xB1]"

definition zh_skipped_in_config :: string where
  "zh_skipped_in_config = [CHR 0xE6, CHR 0xA0, CHR 0xB8, CHR 0xE5, CHR 0xBF, CHR 0x83, CHR 0xE9, CHR 0x85, CHR 0x8D, CHR 0xE7,
    CHR 0xBD, CHR 0xAE, CHR 0xE7, CHR 0x94, CHR 0x9F, CHR 0xE6, CHR 0x88, CHR 0x90, CHR 0xE6, CHR 0x97,
    CHR 0xB6, CHR 0xE8, CHR 0xB7, CHR 0xB3, CHR 0xE8, CHR 0xBF, CHR 0x87]"

definition zh_direct_connection :: string where
  "zh_direct_connection = [CHR 0xE7, CHR 0x9B, CHR 0xB4, CHR 0xE6, CHR 0x8E, CHR 0xA5, CHR 0xE8, CHR 0xBF, CHR 0x9E, CHR 0xE6,
    CHR 0x8E, CHR 0xA5]"

definition zh_blocked_out :: string where
  "zh_blocked_out = [CHR 0xE9, CHR 0x98, CHR 0xBB, CHR 0xE6, CHR 0x96, CHR 0xAD]"

definition zh_address_label :: string where
  "zh_address_label = [CHR 0xE5, CHR 0x9C, CHR 0xB0, CHR 0xE5, CHR 0x9D, CHR 0x80, CHR 0xEF, CHR 0xBC, CHR 0x9A]"

definition zh_country_label :: string where
  "zh_country_label = [CHR 0xE5, CHR 0x9B, CHR 0xBD, CHR 0xE5, CHR 0xAE, CHR 0xB6, CHR 0x2F, CHR 0xE5, CHR 0x9C, CHR 0xB0,
    CHR 0xE5, CHR 0x8C, CHR 0xBA, CHR 0xEF, CHR 0xBC, CHR 0x9A]"

lemmas texts_RoutingForm =
  zh_the_all_def zh_scope_label_def zh_any_source_def zh_all_inbounds_search_def zh_protocol_label_def
  zh_transport_label_def zh_clients_label_def zh_no_client_chosen_def zh_rule_label_def zh_inbound_to_outbound_def
  zh_no_client_search_def zh_match_value_def zh_inbound_label_def zh_state_label_def zh_is_disabled_def
  zh_is_enabled_def zh_client_gone_def zh_skipped_in_config_def zh_direct_connection_def zh_blocked_out_def
  zh_address_label_def zh_country_label_def

lemma texts_nonempty_RoutingForm [simp]:
  "zh_the_all \<noteq> []" "zh_scope_label \<noteq> []" "zh_any_source \<noteq> []" "zh_all_inbounds_search \<noteq> []"
  "zh_protocol_label \<noteq> []" "zh_transport_label \<noteq> []" "zh_clients_label \<noteq> []" "zh_no_client_chosen \<noteq> []"
  "zh_rule_label \<noteq> []" "zh_inbound_to_outbound \<noteq> []" "zh_no_client_search \<noteq> []" "zh_match_value \<noteq> []"
  "zh_inbound_label \<noteq> []" "zh_state_label \<noteq> []" "zh_is_disabled \<noteq> []" "zh_is_enabled \<noteq> []"
  "zh_client_gone \<noteq> []" "zh_skipped_in_config \<noteq> []" "zh_direct_connection \<noteq> []" "zh_blocked_out \<noteq> []"
  "zh_address_label \<noteq> []" "zh_country_label \<noteq> []"
  by (simp_all add: texts_RoutingForm)

section \<open>Choices\<close>

record choice_meta =
  ch_label :: string
  ch_value :: string
  ch_translate :: bool

record inbound_option =
  io_id :: int
  io_value :: string
  io_aliases :: "string list option"
  io_title :: string
  io_subtitle :: "string option"
  io_typeLabel :: string
  io_meta :: "choice_meta list"
  io_search :: string

record client_option =
  co_id :: int
  co_email :: string
  co_title :: string
  co_subtitle :: "string option"
  co_typeLabel :: string
  co_missing :: bool
  co_inboundID :: "int option"
  co_inboundTag :: "string option"
  co_meta :: "choice_meta list"
  co_search :: string

record outbound_option =
  oo_id :: int
  oo_tag :: string
  oo_title :: string
  oo_subtitle :: "string option"
  oo_protocolType :: string
  oo_protocolLabel :: string
  oo_remark :: string
  oo_meta :: "choice_meta list"
  oo_cores :: "core_name list"
  oo_disabled :: bool
  oo_disabledReason :: string
  oo_search :: string

definition formatChoiceMetaValue :: "choice_meta \<Rightarrow> (string \<Rightarrow> string) \<Rightarrow> string" where
  "formatChoiceMetaValue m tr = (if ch_translate m then tr (ch_value m) else ch_value m)"

definition meta :: "string \<Rightarrow> string \<Rightarrow> choice_meta" where
  "meta label v = \<lparr>ch_label = label, ch_value = v, ch_translate = False\<rparr>"

definition tmeta :: "string \<Rightarrow> string \<Rightarrow> choice_meta" where
  "tmeta label v = \<lparr>ch_label = label, ch_value = v, ch_translate = True\<rparr>"

primrec keep_first :: "('a \<Rightarrow> string) \<Rightarrow> string list \<Rightarrow> 'a list \<Rightarrow> 'a list" where \<comment> \<open>\<^verbatim>\<open>filter\<close> with a \<^verbatim>\<open>seen\<close> set\<close>
  "keep_first key seen [] = []"
| "keep_first key seen (x # xs) =
     (if key x \<in> set seen then keep_first key seen xs else x # keep_first key (key x # seen) xs)"

subsection \<open>Inbounds\<close>

definition all_inbounds_option :: inbound_option where
  "all_inbounds_option = \<lparr>io_id = 0, io_value = [], io_aliases = None, io_title = zh_all_inbounds, io_subtitle = None,
     io_typeLabel = zh_the_all, io_meta = [meta zh_scope_label zh_any_source],
     io_search = zh_all_inbounds_search\<rparr>"

definition inbound_choice :: "inbound \<Rightarrow> inbound_option" where
  "inbound_choice inb =
     (let generated = generatedInboundTag inb;
          remark = trim (ib_remark inb)
      in \<lparr>io_id = ib_id inb, io_value = generated,
          io_aliases = (if remark \<noteq> [] \<and> remark \<noteq> generated then Some [remark] else None),
          io_title = str_or remark generated, io_subtitle = (if remark \<noteq> [] then Some generated else None),
          io_typeLabel = zh_inbound_word,
          io_meta = [meta zh_protocol_label
                (trim (str_or (ib_protocol inb) ''-'' @ '' '' @ (if ib_port inb \<noteq> 0 then '':'' @ int_str (ib_port inb) else []))),
              meta zh_tm_core (coreLabel (inboundCore inb)),
              meta zh_transport_label (str_or (ib_network inb) ''tcp'' @ '' / '' @ str_or (ib_security inb) ''none''),
              meta zh_clients_label (nat_str (length (olist (ib_clients inb))))],
          io_search = js_joined [generated, remark, ib_protocol inb, coreLabel (inboundCore inb), num_text (ib_port inb),
              ib_network inb, ib_security inb]\<rparr>)"

definition inboundSelectionOptions :: "inbound list \<Rightarrow> inbound_option list" where
  "inboundSelectionOptions inbounds = keep_first io_value [] (all_inbounds_option # map inbound_choice inbounds)"

definition inboundTagOptions :: "inbound list \<Rightarrow> string list" where
  "inboundTagOptions inbounds = uniq (filter (\<lambda>s. s \<noteq> []) (map io_value (inboundSelectionOptions inbounds)))"

definition inboundOptionMatches :: "inbound_option \<Rightarrow> int \<Rightarrow> string \<Rightarrow> bool" where
  "inboundOptionMatches opt inboundID fallbackTag =
     (if inboundID > 0 then io_id opt = inboundID
      else io_value opt = fallbackTag \<or> (fallbackTag \<noteq> [] \<and> fallbackTag \<in> set (olist (io_aliases opt))))"

subsection \<open>Clients\<close>

definition no_client_option :: client_option where
  "no_client_option = \<lparr>co_id = 0, co_email = [], co_title = zh_no_client_chosen, co_subtitle = None,
     co_typeLabel = zh_inbound_level, co_missing = False, co_inboundID = None, co_inboundTag = None,
     co_meta = [tmeta zh_rule_label zh_inbound_to_outbound],
     co_search = zh_no_client_search\<rparr>"

definition client_choice :: "inbound \<Rightarrow> client \<Rightarrow> client_option" where
  "client_choice inb c =
     (let inboundTagValue = generatedInboundTag inb;
          inboundName = str_or (ib_remark inb) inboundTagValue;
          email = trim (cl_email c);
          routeIdentity = clientRouteMatchIdentity (ib_protocol inb) c;
          title = clientDisplayName c (''client-'' @ int_str (cl_id c))
      in \<lparr>co_id = cl_id c, co_email = email, co_title = title,
          co_subtitle = (if routeIdentity \<noteq> [] \<and> routeIdentity \<noteq> title then Some (zh_match_value @ routeIdentity) else None),
          co_typeLabel = zh_client_level, co_missing = False, co_inboundID = Some (ib_id inb),
          co_inboundTag = Some inboundTagValue,
          co_meta = [meta zh_inbound_label inboundName,
             tmeta zh_state_label (if cl_enabled c = Some False then zh_is_disabled else zh_is_enabled)],
          co_search = js_joined [routeIdentity, email, clientCredentialIDValue c, clientStatsNameValue c, cl_uuid c,
             ib_remark inb, inboundTagValue]\<rparr>)"

definition missing_client :: "int \<Rightarrow> string \<Rightarrow> routing_rule \<Rightarrow> client_option" where
  "missing_client inboundID inboundTag rule =
     (let clientID = rr_num (rr_client_id rule); email = trim (ostr (rr_client_email rule))
      in \<lparr>co_id = clientID, co_email = email, co_title = str_or email (''client-'' @ int_str clientID), co_subtitle = None,
          co_typeLabel = zh_client_gone, co_missing = True,
          co_inboundID = Some (if rr_num (rr_inbound_id rule) \<noteq> 0 then rr_num (rr_inbound_id rule) else inboundID),
          co_inboundTag = Some inboundTag,
          co_meta = [tmeta zh_state_label zh_client_gone, tmeta zh_rule_label zh_skipped_in_config],
          co_search = toLowerCase (join '' '' [email, int_str clientID, ''missing deleted''])\<rparr>)"

definition clientSelectionOptions :: "inbound list \<Rightarrow> int \<Rightarrow> string \<Rightarrow> routing_rule option \<Rightarrow> client_option list" where
  "clientSelectionOptions inbounds inboundID inboundTag rule =
     (let lookup = buildInboundLookup inbounds;
          selectedInbound = (if inboundID > 0 then find (\<lambda>i. ib_id i = inboundID) inbounds
             else if inboundTag \<noteq> [] then map_of lookup inboundTag else None);
          sourceInbounds = (case selectedInbound of Some i \<Rightarrow> [i] | None \<Rightarrow> inbounds);
          options = no_client_option # concat (map (\<lambda>inb. map (client_choice inb) (olist (ib_clients inb))) sourceInbounds)
      in case rule of None \<Rightarrow> options
         | Some r \<Rightarrow> if rr_num (rr_client_id r) > 0 \<and> \<not> list_ex (\<lambda>opt. co_id opt = rr_num (rr_client_id r)) options
                     then options @ [missing_client inboundID inboundTag r] else options)"

subsection \<open>Outbounds\<close>

definition outboundPoolType :: "outbound \<Rightarrow> string" where
  "outboundPoolType item =
     (if startsWith (ob_tag item) ''pool-https-'' then ''https''
      else if startsWith (ob_tag item) ''pool-http-'' then ''http''
      else if startsWith (ob_tag item) ''pool-socks-'' then ''socks5''
      else [])"

definition outboundLookupKey :: "outbound \<Rightarrow> string" where
  "outboundLookupKey item =
     (let type = outboundPoolType item in
      if type = [] \<or> ostr (ob_address item) = [] \<or> oint (ob_port item) = 0 then []
      else type @ '':'' @ ostr (ob_address item) @ '':'' @ int_str (oint (ob_port item)))"

record proxy_country =
  pc_country :: "string option"
  pc_country_code :: "string option"

definition proxyCountryLabel :: "proxy_country option \<Rightarrow> string" where
  "proxyCountryLabel proxy = (case proxy of None \<Rightarrow> []
     | Some p \<Rightarrow> trim (str_or (ostr (pc_country p)) (ostr (pc_country_code p))))"

definition slug_char :: "char \<Rightarrow> bool" where \<comment> \<open>\<^verbatim>\<open>[a-z0-9_-]\<close>\<close>
  "slug_char c = (c \<in> set ''abcdefghijklmnopqrstuvwxyz0123456789_-'')"

primrec slug_runs :: "bool \<Rightarrow> string \<Rightarrow> string" where \<comment> \<open>\<^verbatim>\<open>replace(/[^a-z0-9_-]+/g, '-')\<close>\<close>
  "slug_runs inRun [] = []"
| "slug_runs inRun (c # s) =
     (if slug_char c then c # slug_runs False s
      else if inRun then slug_runs True s else CHR ''-'' # slug_runs True s)"

definition strip_dashes :: "string \<Rightarrow> string" where \<comment> \<open>\<^verbatim>\<open>replace(/^-+|-+$/g, '')\<close>\<close>
  "strip_dashes s = rev (dropWhile (\<lambda>c. c = CHR ''-'') (rev (dropWhile (\<lambda>c. c = CHR ''-'') s)))"

definition protocolSlug :: "string \<Rightarrow> string" where
  "protocolSlug protocol =
     str_or (strip_dashes (slug_runs False (toLowerCase (trim (str_or protocol ''default''))))) ''default''"

definition protocolLabel :: "string \<Rightarrow> string" where
  "protocolLabel protocol =
     (let v = str_or protocol ''default''; normalized = protocolSlug v in
      if normalized = ''socks5'' then ''SOCKS5''
      else if normalized = ''default'' then ''OUT''
      else toUpperCase v)"

definition builtin_outbounds :: "outbound list" where
  "builtin_outbounds =
     (let ob = (\<lambda>tag protocol remark. \<lparr>ob_id = 0, ob_tag = tag, ob_remark = Some remark, ob_protocol = protocol, ob_address = None,
          ob_port = None, ob_username = None, ob_password = None, ob_supported_cores = None, ob_enabled = Some True,
          ob_sort = None, ob_source = None, ob_subscription_id = None, ob_extra = []\<rparr>)
      in [ob ''direct'' ''freedom'' zh_direct_connection, ob ''blocked'' ''blackhole'' zh_blocked_out])"

definition outbound_choice :: "(string \<Rightarrow> proxy_country option) \<Rightarrow> core_name list \<Rightarrow> outbound \<Rightarrow> outbound_option" where
  "outbound_choice proxyLookup requiredCores item =
     (let country = proxyCountryLabel (proxyLookup (outboundLookupKey item));
          remark = ostr (ob_remark item);
          rawProtocolType = str_or (outboundPoolType item) (str_or (ob_protocol item) ''default'');
          protocolType = protocolSlug rawProtocolType;
          cores = outboundSupportedCores (ob_protocol item);
          disabledReason = outboundDisabledReason (Some item) requiredCores;
          warningReason = outboundSelectionWarning (Some item)
      in \<lparr>oo_id = ob_id item, oo_tag = ob_tag item,
          oo_title = str_or (trim (str_or remark (ob_tag item))) (ob_tag item),
          oo_subtitle = (if remark \<noteq> [] \<and> remark \<noteq> ob_tag item then Some (ob_tag item) else None),
          oo_protocolType = protocolType, oo_protocolLabel = protocolLabel rawProtocolType, oo_remark = remark,
          oo_meta = (if ostr (ob_address item) \<noteq> [] then
                [meta zh_address_label (ostr (ob_address item) @ '':'' @ num_text (oint (ob_port item)))] else [])
             @ [meta zh_tm_core (str_or (join '' / '' (map coreLabel cores)) ''-'')]
             @ (if country \<noteq> [] \<and> (remark = [] \<or> \<not> str_includes remark country) then [meta zh_country_label country] else [])
             @ (if ob_enabled item = Some False then [tmeta zh_state_label zh_is_disabled] else []),
          oo_cores = cores, oo_disabled = (disabledReason \<noteq> []), oo_disabledReason = str_or disabledReason warningReason,
          oo_search = js_joined [ob_tag item, remark, ob_protocol item, rawProtocolType, protocolType, protocolLabel rawProtocolType,
             join '' '' (map coreLabel cores), ostr (ob_address item), num_text (oint (ob_port item)), country]\<rparr>)"

definition outboundSelectionOptions ::
  "outbound list \<Rightarrow> (string \<Rightarrow> proxy_country option) \<Rightarrow> inbound list \<Rightarrow> int \<Rightarrow> string \<Rightarrow> int \<Rightarrow> outbound_option list" where
  "outboundSelectionOptions outbounds proxyLookup inbounds inboundID inboundTag clientID =
     (let values = (if outbounds \<noteq> [] then outbounds else builtin_outbounds)
      in map (outbound_choice proxyLookup (requiredRouteCores inbounds inboundID inboundTag clientID))
           (keep_first ob_tag [] (filter (\<lambda>ob. ob_tag ob \<noteq> []) values)))"

definition filter_options :: "('a \<Rightarrow> string) \<Rightarrow> 'a list \<Rightarrow> string \<Rightarrow> 'a list" where
  "filter_options search options query =
     (let needle = toLowerCase (trim query) in
      if needle = [] then options else filter (\<lambda>item. str_includes (search item) needle) options)"

section \<open>The draft\<close>

definition newRoutingRuleDraft :: "outbound list \<Rightarrow> routing_rule option" where
  "newRoutingRuleDraft outbounds =
     map_option (\<lambda>ob. \<lparr>rr_id = 0, rr_remark = None, rr_inbound_id = None, rr_inbound_tag = None, rr_client_id = None,
        rr_client_email = None, rr_client_label = None, rr_domain = None, rr_ip = None, rr_rule_set = None,
        rr_protocol = None, rr_outbound_id = Some (ob_id ob), rr_outbound_tag = ob_tag ob, rr_enabled = Some True,
        rr_sort_order = None\<rparr>) (find (\<lambda>ob. ob_id ob > 0) outbounds)"

definition rule_form_values :: "outbound_option list \<Rightarrow> routing_rule \<Rightarrow> routing_rule" where
  "rule_form_values initialOutboundOptions rule = rule\<lparr>
     rr_inbound_tag := Some (ostr (rr_inbound_tag rule)), rr_inbound_id := Some (oint (rr_inbound_id rule)),
     rr_client_id := Some (oint (rr_client_id rule)), rr_client_email := Some (ostr (rr_client_email rule)),
     rr_domain := Some (ostr (rr_domain rule)), rr_ip := Some (ostr (rr_ip rule)),
     rr_rule_set := Some (ostr (rr_rule_set rule)), rr_protocol := Some (ostr (rr_protocol rule)),
     rr_outbound_tag := str_or (rr_outbound_tag rule)
        (str_or (case initialOutboundOptions of [] \<Rightarrow> [] | opt # _ \<Rightarrow> oo_tag opt) ''direct''),
     rr_outbound_id := Some (if oint (rr_outbound_id rule) \<noteq> 0 then oint (rr_outbound_id rule)
        else (case initialOutboundOptions of [] \<Rightarrow> 0 | opt # _ \<Rightarrow> oo_id opt)),
     rr_enabled := Some (not_false (rr_enabled rule))\<rparr>"

definition pick_inbound :: "inbound_option \<Rightarrow> routing_rule \<Rightarrow> routing_rule" where
  "pick_inbound opt draft = draft\<lparr>rr_inbound_id := Some (io_id opt), rr_inbound_tag := Some (io_value opt),
     rr_client_id := Some 0, rr_client_email := Some []\<rparr>"

definition pick_client :: "client_option \<Rightarrow> routing_rule \<Rightarrow> routing_rule" where
  "pick_client opt draft =
     (let draft1 = (if co_id opt > 0
        then draft\<lparr>rr_inbound_id := Some (oint (co_inboundID opt)), rr_inbound_tag := Some (ostr (co_inboundTag opt))\<rparr>
        else draft)
      in draft1\<lparr>rr_client_id := Some (co_id opt), rr_client_email := Some (co_email opt)\<rparr>)"

definition pick_outbound :: "outbound_option \<Rightarrow> routing_rule \<Rightarrow> routing_rule" where
  "pick_outbound opt draft =
     (if oo_disabled opt then draft else draft\<lparr>rr_outbound_tag := oo_tag opt, rr_outbound_id := Some (oo_id opt)\<rparr>)"

definition jnum :: "int \<Rightarrow> jsval" where "jnum n = JNum (of_int n)"

definition routingPayload :: "routing_rule \<Rightarrow> (string \<times> jsval) list" where
  "routingPayload values =
     [(''inbound_id'', jnum (oint (rr_inbound_id values))), (''inbound_tag'', JStr (ostr (rr_inbound_tag values))),
      (''client_id'', jnum (oint (rr_client_id values))), (''client_email'', JStr (ostr (rr_client_email values))),
      (''domain'', JStr (ostr (rr_domain values))), (''ip'', JStr (ostr (rr_ip values))),
      (''rule_set'', JStr (ostr (rr_rule_set values))), (''protocol'', JStr (ostr (rr_protocol values))),
      (''outbound_id'', jnum (oint (rr_outbound_id values))), (''outbound_tag'', JStr (rr_outbound_tag values)),
      (''enabled'', (case rr_enabled values of None \<Rightarrow> JUndef | Some b \<Rightarrow> JBool b))]"

section \<open>Order and pages\<close>

definition movedRoutingRuleIds :: "routing_rule list \<Rightarrow> int \<Rightarrow> int \<Rightarrow> int list option" where
  "movedRoutingRuleIds items index delta = map_option (map rr_id) (exchange items index delta)"

definition ROUTING_PAGE_SIZES :: "int list" where
  "ROUTING_PAGE_SIZES = [10, 20, 50]"

record 'a page_window =
  pw_items :: "'a list"
  pw_page :: int
  pw_pageSize :: int
  pw_total :: int
  pw_totalPages :: int
  pw_startIndex :: int
  pw_start :: int
  pw_end :: int

definition routingPageWindow :: "'a list \<Rightarrow> int \<Rightarrow> int \<Rightarrow> 'a page_window" where
  "routingPageWindow items page pageSize =
     (let safePageSize = (if pageSize \<in> set ROUTING_PAGE_SIZES then pageSize else ROUTING_PAGE_SIZES ! 0);
          n = int (length items);
          totalPages = max 1 (ceil_div n safePageSize);
          safePage = min (max 1 (if page = 0 then 1 else page)) totalPages;
          startIndex = (if n \<noteq> 0 then (safePage - 1) * safePageSize else 0);
          endIndex = min (startIndex + safePageSize) n
      in \<lparr>pw_items = take (nat (endIndex - startIndex)) (drop (nat startIndex) items),
          pw_page = safePage, pw_pageSize = safePageSize, pw_total = n, pw_totalPages = totalPages,
          pw_startIndex = startIndex, pw_start = (if n \<noteq> 0 then startIndex + 1 else 0), pw_end = endIndex\<rparr>)"

end
