(* ===== verification/RoutingProps.thy ===== *)
theory RoutingProps
  imports RoutingForm
begin

text \<open>
  What the routing page guarantees: moving a rule permutes the list and can be undone, the pages cut the list
  into consecutive windows, the outbounds offered as selectable lead to rules without an error, and picking a
  client ties the draft to the inbound of that client.
\<close>

section \<open>Moving a rule\<close>

interpretation rules_mover: id_mover rr_id "\<lambda>_. True" movedRoutingRuleIds
  by unfold_locales (auto simp: movedRoutingRuleIds_def exchange_inside exchange_outside)

text \<open>
  
  Moving a rule of the list sends every rule id exactly once: the rule is exchanged with the one it
  moves to, the others stay where they are, a move beyond either end changes nothing, and moving the rule back
  from its new place restores the order.
\<close>

theorem move_is_undoable:
  assumes "0 \<le> index" and "index < int (length items)"
  shows "\<exists>ids. movedRoutingRuleIds items index delta = Some ids \<and> mset ids = mset (map rr_id items)
    \<and> (if 0 \<le> index + delta \<and> index + delta < int (length items)
       then ids ! nat (index + delta) = rr_id (items ! nat index)
          \<and> (\<forall>k < length items. k \<noteq> nat index \<and> k \<noteq> nat (index + delta) \<longrightarrow> ids ! k = rr_id (items ! k))
          \<and> (\<forall>items'. map rr_id items' = ids \<longrightarrow>
                movedRoutingRuleIds items' (index + delta) (- delta) = Some (map rr_id items))
       else ids = map rr_id items)"
proof (cases "0 \<le> index + delta \<and> index + delta < int (length items)")
  case False
  then show ?thesis using rules_mover.moved_outside [of index delta items] by (auto simp: not_le not_less)
next
  case True
  note inside = assms True [THEN conjunct1] True [THEN conjunct2]
  obtain ids where ids: "movedRoutingRuleIds items index delta = Some ids" "mset ids = mset (map rr_id items)"
    using rules_mover.moved_mset [OF assms, of delta] by auto
  show ?thesis
    using ids True rules_mover.moved_exchanges [OF inside _ ids(1)] rules_mover.moved_undo [OF inside _ ids(1)] by auto
qed

definition two_rules :: "routing_rule list" where
  "two_rules = [sample_rule, sample_rule\<lparr>rr_id := 2\<rparr>]"

theorem move_is_undoable_witness:
  "\<exists>ids. movedRoutingRuleIds two_rules 0 1 = Some ids \<and> ids ! 1 = 1 \<and> mset ids = mset [1, 2]"
  using move_is_undoable [of 0 two_rules 1] by (auto simp: two_rules_def sample_rule_def)

section \<open>Pages\<close>

definition page_size :: "int \<Rightarrow> int" where
  "page_size s = (if s \<in> set ROUTING_PAGE_SIZES then s else ROUTING_PAGE_SIZES ! 0)"

lemma page_size_pos: "0 < page_size s"
  by (auto simp: page_size_def ROUTING_PAGE_SIZES_def)

definition page_count :: "'a list \<Rightarrow> int \<Rightarrow> int" where
  "page_count items s = max 1 (ceil_div (int (length items)) (page_size s))"

definition page_slice :: "'a list \<Rightarrow> int \<Rightarrow> nat \<Rightarrow> 'a list" where \<comment> \<open>page \<open>k + 1\<close>\<close>
  "page_slice items s k = take (nat (page_size s)) (drop (k * nat (page_size s)) items)"

lemma concat_slices:
  "concat (map (\<lambda>k. take n (drop (k * n) items)) [0..<m]) = take (m * n) items"
proof (induction m)
  case 0
  then show ?case by simp
next
  case (Suc m)
  have "take (Suc m * n) items = take (m * n) items @ take n (drop (m * n) items)"
    by (simp only: mult_Suc add.commute [of n] take_add)
  then show ?case using Suc by simp
qed

lemma max_page: "max 1 (if page = 0 then 1 else page) = max 1 (page :: int)"
  by (cases "page = 0") simp_all

lemma routingPageWindow_eq:
  "routingPageWindow items page s =
     (let p = min (max 1 page) (page_count items s);
          start = (if items \<noteq> [] then (p - 1) * page_size s else 0);
          stop = min (start + page_size s) (int (length items))
      in \<lparr>pw_items = take (nat (stop - start)) (drop (nat start) items), pw_page = p, pw_pageSize = page_size s,
          pw_total = int (length items), pw_totalPages = page_count items s, pw_startIndex = start,
          pw_start = (if items \<noteq> [] then start + 1 else 0), pw_end = stop\<rparr>)"
  unfolding routingPageWindow_def page_size_def [symmetric] page_count_def [symmetric] max_page Let_def
    of_nat_eq_0_iff length_0_conv by (rule refl)

lemma window_fields:
  "pw_totalPages (routingPageWindow items page s) = page_count items s"
  "pw_pageSize (routingPageWindow items page s) = page_size s"
  "pw_page (routingPageWindow items page s) = min (max 1 page) (page_count items s)"
  by (simp_all only: routingPageWindow_eq Let_def page_window.simps)

lemma page_count_pos: "1 \<le> page_count items s"
  by (simp add: page_count_def)

lemma page_count_bounds:
  "int (length items) \<le> page_size s * page_count items s"
  "items \<noteq> [] \<Longrightarrow> page_size s * (page_count items s - 1) < int (length items)"
proof -
  let ?c = "ceil_div (int (length items)) (page_size s)"
  note c = ceil_div_bounds [OF page_size_pos [of s], of "int (length items)"]
  have "page_size s * ceil_div (int (length items)) (page_size s) \<le> page_size s * page_count items s"
    using page_size_pos [of s] by (simp add: page_count_def)
  then show "int (length items) \<le> page_size s * page_count items s" using c(1) by linarith
  assume ne: "items \<noteq> []"
  have "0 < ?c"
  proof (rule ccontr)
    assume "\<not> 0 < ?c"
    then have "page_size s * ?c \<le> 0" using page_size_pos [of s] by (simp add: mult_nonneg_nonpos)
    moreover have "0 < int (length items)" using ne by simp
    ultimately show False using c(1) by linarith
  qed
  then have "page_count items s = ceil_div (int (length items)) (page_size s)" by (simp add: page_count_def)
  then show "page_size s * (page_count items s - 1) < int (length items)"
    using c(2) by (simp add: right_diff_distrib)
qed

lemma window_start:
  "pw_startIndex (routingPageWindow items page s) =
     (if items = [] then 0 else (pw_page (routingPageWindow items page s) - 1) * page_size s)"
  by (cases "items = []") (simp_all only: routingPageWindow_eq Let_def page_window.simps if_True if_False simp_thms)

lemma window_items:
  "pw_items (routingPageWindow items page s) = page_slice items s (nat (pw_page (routingPageWindow items page s) - 1))"
proof (cases "items = []")
  case True
  then show ?thesis by (simp only: routingPageWindow_eq Let_def page_window.simps page_slice_def drop_Nil take_Nil)
next
  case False
  let ?p = "pw_page (routingPageWindow items page s)"
  have start: "pw_startIndex (routingPageWindow items page s) = (?p - 1) * page_size s"
    using False by (simp add: window_start)
  have p: "1 \<le> ?p" using page_count_pos [of items s] by (simp add: window_fields)
  have n: "nat ((?p - 1) * page_size s) = nat (?p - 1) * nat (page_size s)"
    using p by (simp add: nat_mult_distrib)
  have items: "pw_items (routingPageWindow items page s) =
      take (nat (min ((?p - 1) * page_size s + page_size s) (int (length items)) - (?p - 1) * page_size s))
        (drop (nat ((?p - 1) * page_size s)) items)"
    using False by (simp only: routingPageWindow_eq Let_def page_window.simps if_True not_False_eq_True)
  have "take (nat (min (a + b) (int (length items)) - a)) (drop (nat a) items) = take (nat b) (drop (nat a) items)"
    if "0 \<le> a" for a b
    by (rule nth_equalityI) (use that in auto)
  from this [of "(?p - 1) * page_size s" "page_size s"] show ?thesis
    unfolding items page_slice_def using p page_size_pos [of s] by (simp add: n)
qed

text \<open>
  
  The pages of the routing list cut it into consecutive windows: whatever page is asked for, the page shown exists,
  holds at most a page size of rules, and its rules are those at the positions its start index announces (the
  positions used to move them); the pages one after the other are the whole list, so every rule is on exactly
  one page.
\<close>

theorem pages_partition_rules:
  "let w = routingPageWindow items page s in
   1 \<le> pw_page w \<and> pw_page w \<le> pw_totalPages w \<and> int (length (pw_items w)) \<le> pw_pageSize w
   \<and> (items \<noteq> [] \<longrightarrow> pw_items w \<noteq> [])
   \<and> (\<forall>k < length (pw_items w). pw_items w ! k = items ! (nat (pw_startIndex w) + k))
   \<and> concat (map (\<lambda>p. pw_items (routingPageWindow items (int p + 1) s)) [0..<nat (pw_totalPages w)]) = items"
proof -
  let ?w = "routingPageWindow items page s"
  let ?k = "nat (pw_page ?w - 1)"
  have p: "1 \<le> pw_page ?w" "pw_page ?w \<le> page_count items s"
    using page_count_pos [of items s] by (simp_all add: window_fields)
  have size: "int (nat (page_size s)) = page_size s" using page_size_pos [of s] by simp
  have start: "items \<noteq> [] \<Longrightarrow> nat (pw_startIndex ?w) = ?k * nat (page_size s)"
    using p(1) by (simp add: window_start nat_mult_distrib)
  have nonempty: "items \<noteq> [] \<Longrightarrow> pw_items ?w \<noteq> []"
  proof -
    assume ne: "items \<noteq> []"
    have "(pw_page ?w - 1) * page_size s \<le> page_size s * (page_count items s - 1)"
      using p(2) page_size_pos [of s] by (simp add: mult.commute)
    then have "(pw_page ?w - 1) * page_size s < int (length items)"
      using page_count_bounds(2) [OF ne] by (rule le_less_trans)
    moreover have "int (?k * nat (page_size s)) = (pw_page ?w - 1) * page_size s"
      using p(1) page_size_pos [of s] by simp
    ultimately have "?k * nat (page_size s) < length items" by linarith
    then show ?thesis using page_size_pos [of s] by (simp add: window_items page_slice_def)
  qed
  have "length (pw_items ?w) \<le> nat (page_size s)" by (simp add: window_items page_slice_def)
  then have len: "int (length (pw_items ?w)) \<le> page_size s" using size by linarith
  have page: "pw_page (routingPageWindow items (int q + 1) s) = int q + 1" if "q < nat (page_count items s)" for q
    using that by (simp add: window_fields)
  have "concat (map (\<lambda>q. pw_items (routingPageWindow items (int q + 1) s)) [0..<nat (page_count items s)]) =
      concat (map (page_slice items s) [0..<nat (page_count items s)])"
    by (intro arg_cong [where f = concat] map_cong refl) (simp add: window_items page)
  also have "\<dots> = take (nat (page_count items s) * nat (page_size s)) items"
    unfolding page_slice_def by (rule concat_slices)
  also have "\<dots> = items"
  proof (rule take_all)
    have "int (nat (page_count items s) * nat (page_size s)) = page_size s * page_count items s"
      using page_count_pos [of items s] size by (simp add: mult.commute)
    then show "length items \<le> nat (page_count items s) * nat (page_size s)"
      using page_count_bounds(1) [of items s] by linarith
  qed
  finally show ?thesis
    unfolding Let_def window_fields(1,2)
  proof (intro conjI impI allI)
    show "pw_items ?w ! k = items ! (nat (pw_startIndex ?w) + k)" if k: "k < length (pw_items ?w)" for k
    proof -
      have "items \<noteq> []" using k by (auto simp: window_items page_slice_def)
      moreover have "?k * nat (page_size s) \<le> length items"
        using k by (simp add: window_items page_slice_def) linarith
      ultimately show ?thesis using k start by (simp add: window_items page_slice_def nth_drop)
    qed
  qed (use p nonempty len in simp_all)
qed

theorem pages_partition_rules_witness:
  "pw_items (routingPageWindow [1 :: nat, 2, 3] 9 10) \<noteq> []"
  using pages_partition_rules [of "[1 :: nat, 2, 3]" 9 10] by (simp add: Let_def)

section \<open>Choices\<close>

lemma keep_first_subset: "x \<in> set (keep_first key seen xs) \<Longrightarrow> x \<in> set xs \<and> key x \<notin> set seen"
  by (induction xs arbitrary: seen) (fastforce split: if_splits)+

lemma distinct_keep_first: "distinct (map key (keep_first key seen xs))"
proof (induction xs arbitrary: seen)
  case Nil
  then show ?case by simp
next
  case (Cons x xs)
  have "key x \<notin> key ` set (keep_first key (key x # seen) xs)"
    using keep_first_subset by fastforce
  then show ?case using Cons by simp
qed

lemma keep_first_keys: "set (map key (keep_first key seen xs)) = key ` set xs - set seen"
  by (induction xs arbitrary: seen) auto

lemma find_by_id:
  "distinct (map f xs) \<Longrightarrow> x \<in> set xs \<Longrightarrow> find (\<lambda>y. f y = f x) xs = Some x"
  by (induction xs) (auto simp: image_iff)



lemma lookup_step_subset:
  "snd ` set l \<subseteq> S \<Longrightarrow> inb \<in> S \<Longrightarrow> snd ` set (AList.update k inb l) \<subseteq> S"
  by (induction l) auto

lemma lookup_subset_gen:
  "snd ` set acc \<subseteq> S \<Longrightarrow> set inbounds \<subseteq> S \<Longrightarrow>
   snd ` set (fold (\<lambda>inb lookup.
       let remark = trim (ib_remark inb);
           lookup1 = AList.update (generatedInboundTag inb) inb lookup
       in if remark \<noteq> [] then AList.update remark inb lookup1 else lookup1) inbounds acc) \<subseteq> S"
  by (induction inbounds arbitrary: acc) (simp_all add: Let_def lookup_step_subset)

lemma lookup_subset: "(k, inb) \<in> set (buildInboundLookup inbounds) \<Longrightarrow> inb \<in> set inbounds"
  using lookup_subset_gen [of "[]" "set inbounds" inbounds] by (auto simp: buildInboundLookup_def image_subset_iff)

text \<open>
  
  Picking an existing client ties the draft to an inbound that has this client, by id and by generated tag, whatever
  inbound was selected before, and the draft then has no warning about a missing client; picking an inbound
  instead drops the client.
\<close>

theorem picked_client_names_its_inbound:
  assumes "opt \<in> set (clientSelectionOptions inbounds inboundID inboundTag rule)" and "0 < co_id opt"
    and "\<not> co_missing opt"
  shows "\<exists>inb \<in> set inbounds. \<exists>c \<in> set (olist (ib_clients inb)). cl_id c = co_id opt
     \<and> rr_inbound_id (pick_client opt draft) = Some (ib_id inb)
     \<and> rr_inbound_tag (pick_client opt draft) = Some (generatedInboundTag inb)
     \<and> rr_client_id (pick_client opt draft) = Some (cl_id c)
     \<and> findClientById inbounds (rr_num (rr_client_id (pick_client opt draft))) \<noteq> None
     \<and> rr_client_id (pick_inbound iopt (pick_client opt draft)) = Some 0"
proof -
  have sources: "set_option (if inboundID > 0 then find (\<lambda>i. ib_id i = inboundID) inbounds
      else if inboundTag \<noteq> [] then map_of (buildInboundLookup inbounds) inboundTag else None) \<subseteq> set inbounds"
    using lookup_subset by (auto dest: find_Some_set map_of_SomeD split: if_splits)
  obtain inb c where ic: "inb \<in> set inbounds" "c \<in> set (olist (ib_clients inb))" "opt = client_choice inb c"
    using assms sources
    by (fastforce simp: clientSelectionOptions_def Let_def no_client_option_def missing_client_def
        split: option.splits if_splits)
  have f: "co_id opt = cl_id c" "co_inboundID opt = Some (ib_id inb)" "co_inboundTag opt = Some (generatedInboundTag inb)"
    by (simp_all add: ic(3) client_choice_def Let_def)
  have "findClientById inbounds (cl_id c) \<noteq> None"
    unfolding findClientById_None using ic by blast
  then show ?thesis
    using ic assms(2) f by (intro bexI [OF _ ic(1)] bexI [OF _ ic(2)])
      (simp add: pick_client_def pick_inbound_def Let_def rr_num_def)
qed

definition vless_inbound :: inbound where
  "vless_inbound = \<lparr>ib_id = 4, ib_remark = ''n4'', ib_protocol = ''vless'', ib_core = None, ib_port = 443,
     ib_network = ''tcp'', ib_security = ''none'', ib_enabled = Some True, ib_uuid = None,
     ib_clients = Some [\<lparr>cl_id = 7, cl_inbound_id = 4, cl_email = ''bob'', cl_uuid = [], cl_credential_id = None,
       cl_stats_key = None, cl_password = None, cl_subscription_token = None, cl_enabled = Some True,
       cl_traffic_limit = None, cl_expiry_at = None\<rparr>], ib_extra = []\<rparr>"

theorem picked_client_names_its_inbound_witness:
  "rr_inbound_id (pick_client (client_choice vless_inbound (hd (olist (ib_clients vless_inbound)))) sample_rule) = Some 4"
proof -
  let ?o = "client_choice vless_inbound (hd (olist (ib_clients vless_inbound)))"
  have "?o \<in> set (clientSelectionOptions [vless_inbound] 0 [] None)"
    by (simp add: clientSelectionOptions_def vless_inbound_def)
  moreover have "0 < co_id ?o" "\<not> co_missing ?o"
    by (simp_all add: client_choice_def Let_def vless_inbound_def)
  ultimately show ?thesis
    using picked_client_names_its_inbound [of ?o "[vless_inbound]"] by (fastforce simp: vless_inbound_def)
qed

end
