(* ===== verification/Outbounds.thy ===== *)
theory Outbounds
  imports Endpoints Format Reorder
begin

text \<open>
  \<^verbatim>\<open>src/web/src/routes/OutboundsPage.tsx\<close>, the page of the outbounds and of the subscriptions they
  come from: what the cards say, which actions they offer, the forms and what saving them sends. The
  translation is the parameter \<open>tr\<close>; \<open>url_host\<close> is the host name the \<^verbatim>\<open>URL\<close> class of the
  browser finds in an address (\<open>None\<close> when it does not parse), \<open>locale_time\<close> the local notation of an
  instant (\<open>None\<close> when the text is no instant).
\<close>

section \<open>Texts\<close>

text \<open>The non-ASCII texts of this part of the user interface, as UTF-8 bytes.\<close>

definition zh_sub_gone :: string where
  "zh_sub_gone = [CHR 0xE8, CHR 0xAE, CHR 0xA2, CHR 0xE9, CHR 0x98, CHR 0x85, CHR 0xE5, CHR 0xB7, CHR 0xB2, CHR 0xE5,
    CHR 0x88, CHR 0xA0, CHR 0xE9, CHR 0x99, CHR 0xA4, CHR 0x2F, CHR 0xE6, CHR 0x9C, CHR 0xAA, CHR 0xE7,
    CHR 0x9F, CHR 0xA5]"

definition zh_sub_word :: string where
  "zh_sub_word = [CHR 0xE8, CHR 0xAE, CHR 0xA2, CHR 0xE9, CHR 0x98, CHR 0x85]"

definition zh_ob_colon :: string where
  "zh_ob_colon = [CHR 0xEF, CHR 0xBC, CHR 0x9A]"

definition zh_sub_unnamed :: string where
  "zh_sub_unnamed = [CHR 0xE6, CHR 0x9C, CHR 0xAA, CHR 0xE5, CHR 0x91, CHR 0xBD, CHR 0xE5, CHR 0x90, CHR 0x8D]"

definition zh_sub_stopped_owner :: string where
  "zh_sub_stopped_owner = [CHR 0xE6, CHR 0x89, CHR 0x80, CHR 0xE5, CHR 0xB1, CHR 0x9E, CHR 0xE8, CHR 0xAE, CHR 0xA2, CHR 0xE9,
    CHR 0x98, CHR 0x85, CHR 0xE5, CHR 0xB7, CHR 0xB2, CHR 0xE5, CHR 0x81, CHR 0x9C, CHR 0xE7, CHR 0x94,
    CHR 0xA8]"

definition zh_on_off :: string where
  "zh_on_off = [CHR 0xE5, CHR 0x90, CHR 0xAF, CHR 0xE5, CHR 0x81, CHR 0x9C]"

definition zh_not_measured :: string where
  "zh_not_measured = [CHR 0xE6, CHR 0x9C, CHR 0xAA, CHR 0xE6, CHR 0xB5, CHR 0x8B, CHR 0xE9, CHR 0x80, CHR 0x9F]"

definition zh_unreachable :: string where
  "zh_unreachable = [CHR 0xE4, CHR 0xB8, CHR 0x8D, CHR 0xE5, CHR 0x8F, CHR 0xAF, CHR 0xE8, CHR 0xBE, CHR 0xBE]"

definition zh_direct_remark :: string where
  "zh_direct_remark = [CHR 0xE7, CHR 0x9B, CHR 0xB4, CHR 0xE6, CHR 0x8E, CHR 0xA5, CHR 0xE8, CHR 0xBF, CHR 0x9E, CHR 0xE6,
    CHR 0x8E, CHR 0xA5]"

definition zh_blocked_remark :: string where
  "zh_blocked_remark = [CHR 0xE9, CHR 0x98, CHR 0xBB, CHR 0xE6, CHR 0x96, CHR 0xAD]"

definition zh_country_word :: string where
  "zh_country_word = [CHR 0xE5, CHR 0x9B, CHR 0xBD, CHR 0xE5, CHR 0xAE, CHR 0xB6, CHR 0x2F, CHR 0xE5, CHR 0x9C, CHR 0xB0,
    CHR 0xE5, CHR 0x8C, CHR 0xBA]"

definition zh_remark_word :: string where
  "zh_remark_word = [CHR 0xE5, CHR 0xA4, CHR 0x87, CHR 0xE6, CHR 0xB3, CHR 0xA8]"

definition zh_sub_stopped :: string where
  "zh_sub_stopped = [CHR 0xE8, CHR 0xAE, CHR 0xA2, CHR 0xE9, CHR 0x98, CHR 0x85, CHR 0xE5, CHR 0xB7, CHR 0xB2, CHR 0xE5,
    CHR 0x81, CHR 0x9C, CHR 0xE7, CHR 0x94, CHR 0xA8]"

definition zh_pool_word :: string where
  "zh_pool_word = [CHR 0xE4, CHR 0xBB, CHR 0xA3, CHR 0xE7, CHR 0x90, CHR 0x86, CHR 0xE6, CHR 0xB1, CHR 0xA0]"

definition zh_usable_for :: string where
  "zh_usable_for = [CHR 0xE5, CHR 0x8F, CHR 0xAF, CHR 0xE7, CHR 0x94, CHR 0xA8, CHR 0xE4, CHR 0xBA, CHR 0x8E]"

definition zh_never :: string where
  "zh_never = [CHR 0xE4, CHR 0xBB, CHR 0x8E, CHR 0xE6, CHR 0x9C, CHR 0xAA]"

definition zh_last_fetch :: string where
  "zh_last_fetch = [CHR 0xE4, CHR 0xB8, CHR 0x8A, CHR 0xE6, CHR 0xAC, CHR 0xA1, CHR 0xE6, CHR 0x88, CHR 0x90, CHR 0xE5,
    CHR 0x8A, CHR 0x9F, CHR 0xE6, CHR 0x8B, CHR 0x89, CHR 0xE5, CHR 0x8F, CHR 0x96]"

definition zh_last_attempt :: string where
  "zh_last_attempt = [CHR 0xE4, CHR 0xB8, CHR 0x8A, CHR 0xE6, CHR 0xAC, CHR 0xA1, CHR 0xE5, CHR 0xB0, CHR 0x9D, CHR 0xE8,
    CHR 0xAF, CHR 0x95]"

definition zh_last_error :: string where
  "zh_last_error = [CHR 0xE6, CHR 0x9C, CHR 0x80, CHR 0xE8, CHR 0xBF, CHR 0x91, CHR 0xE9, CHR 0x94, CHR 0x99, CHR 0xE8,
    CHR 0xAF, CHR 0xAF]"

definition zh_parsed :: string where
  "zh_parsed = [CHR 0xE6, CHR 0x88, CHR 0x90, CHR 0xE5, CHR 0x8A, CHR 0x9F, CHR 0xE8, CHR 0xA7, CHR 0xA3, CHR 0xE6,
    CHR 0x9E, CHR 0x90]"

definition zh_parsed_skipped :: string where
  "zh_parsed_skipped = [CHR 0xE4, CHR 0xB8, CHR 0xAA, CHR 0xEF, CHR 0xBC, CHR 0x8C, CHR 0xE8, CHR 0xB7, CHR 0xB3, CHR 0xE8,
    CHR 0xBF, CHR 0x87]"

definition zh_pieces :: string where
  "zh_pieces = [CHR 0xE4, CHR 0xB8, CHR 0xAA]"

definition zh_semicolon :: string where
  "zh_semicolon = [CHR 0xEF, CHR 0xBC, CHR 0x9B]"

definition zh_unknown_protocol :: string where
  "zh_unknown_protocol = [CHR 0xE6, CHR 0x9C, CHR 0xAA, CHR 0xE7, CHR 0x9F, CHR 0xA5, CHR 0xE5, CHR 0x8D, CHR 0x8F, CHR 0xE8,
    CHR 0xAE, CHR 0xAE]"

definition zh_full_stop :: string where
  "zh_full_stop = [CHR 0xE3, CHR 0x80, CHR 0x82]"

lemmas texts_Outbounds =
  zh_sub_gone_def zh_sub_word_def zh_ob_colon_def zh_sub_unnamed_def zh_sub_stopped_owner_def
  zh_on_off_def zh_not_measured_def zh_unreachable_def zh_direct_remark_def zh_blocked_remark_def
  zh_country_word_def zh_remark_word_def zh_sub_stopped_def zh_pool_word_def zh_usable_for_def
  zh_never_def zh_last_fetch_def zh_last_attempt_def zh_last_error_def zh_parsed_def
  zh_parsed_skipped_def zh_pieces_def zh_semicolon_def zh_unknown_protocol_def zh_full_stop_def

lemma texts_nonempty_Outbounds [simp]:
  "zh_sub_gone \<noteq> []" "zh_sub_word \<noteq> []" "zh_ob_colon \<noteq> []" "zh_sub_unnamed \<noteq> []"
  "zh_sub_stopped_owner \<noteq> []" "zh_on_off \<noteq> []" "zh_not_measured \<noteq> []" "zh_unreachable \<noteq> []"
  "zh_direct_remark \<noteq> []" "zh_blocked_remark \<noteq> []" "zh_country_word \<noteq> []" "zh_remark_word \<noteq> []"
  "zh_sub_stopped \<noteq> []" "zh_pool_word \<noteq> []" "zh_usable_for \<noteq> []" "zh_never \<noteq> []"
  "zh_last_fetch \<noteq> []" "zh_last_attempt \<noteq> []" "zh_last_error \<noteq> []" "zh_parsed \<noteq> []"
  "zh_parsed_skipped \<noteq> []" "zh_pieces \<noteq> []" "zh_semicolon \<noteq> []" "zh_unknown_protocol \<noteq> []"
  "zh_full_stop \<noteq> []"
  by (simp_all add: texts_Outbounds)

section \<open>Outbounds and their origin\<close>

definition isFixedDefaultOutbound :: "outbound \<Rightarrow> bool" where
  "isFixedDefaultOutbound item \<longleftrightarrow>
     ob_tag item = ''direct'' \<and> ob_protocol item = ''freedom''
     \<or> ob_tag item = ''blocked'' \<and> ob_protocol item = ''blackhole''
     \<or> ob_tag item = ''dns'' \<and> ob_protocol item = ''dns''"

definition isReorderableOutbound :: "outbound \<Rightarrow> bool" where
  "isReorderableOutbound item \<longleftrightarrow>
     ob_source item \<noteq> Some ''subscription'' \<and> ob_protocol item \<notin> {''freedom'', ''blackhole'', ''dns''}"

definition poolTypeOf :: "outbound \<Rightarrow> string" where
  "poolTypeOf item =
     (if startsWith (ob_tag item) ''pool-https-'' then ''https''
      else if startsWith (ob_tag item) ''pool-http-'' then ''http''
      else if startsWith (ob_tag item) ''pool-socks-'' then ''socks5'' else [])"

definition buildSubscriptionLookup :: "outbound_subscription list \<Rightarrow> (int \<times> outbound_subscription) list" where
  "buildSubscriptionLookup subscriptions = fold (\<lambda>s. AList.update (os_id s) s) subscriptions []"

definition subscription_of :: "outbound_subscription list \<Rightarrow> outbound \<Rightarrow> outbound_subscription option" where
  "subscription_of subscriptions item =
     map_of (buildSubscriptionLookup subscriptions) (oint (ob_subscription_id item))"

definition after_scheme :: "string \<Rightarrow> string" where \<comment> \<open>\<^verbatim>\<open>replace(/^https?:\/\//, '')\<close>\<close>
  "after_scheme s = (if startsWith s ''https://'' then drop 8 s else if startsWith s ''http://'' then drop 7 s else s)"

definition subscriptionDisplayName :: "(string \<Rightarrow> string option) \<Rightarrow> outbound_subscription \<Rightarrow> string" where
  "subscriptionDisplayName url_host subscription =
     (let remark = trim (os_remark subscription); rawURL = trim (os_url subscription) in
      if remark \<noteq> [] then remark
      else if rawURL = [] then []
      else (case url_host rawURL of
              Some host \<Rightarrow> str_or host rawURL
            | None \<Rightarrow> str_or (takeWhile (\<lambda>c. c \<notin> set ''/?#'') (after_scheme rawURL)) rawURL))"

definition subscriptionSourceLabel ::
  "(string \<Rightarrow> string option) \<Rightarrow> outbound \<Rightarrow> outbound_subscription option \<Rightarrow> (string \<Rightarrow> string) \<Rightarrow> string" where
  "subscriptionSourceLabel url_host item subscription tr =
     (if ob_source item \<noteq> Some ''subscription'' then []
      else (case subscription of
              Some s \<Rightarrow> if oint (ob_subscription_id item) = 0 then tr zh_sub_gone
                else tr zh_sub_word @ zh_ob_colon @ str_or (subscriptionDisplayName url_host s) (tr zh_sub_unnamed)
            | None \<Rightarrow> tr zh_sub_gone))"

definition outboundEnableDisabledReason ::
  "outbound \<Rightarrow> outbound_subscription option \<Rightarrow> (string \<Rightarrow> string) \<Rightarrow> string" where
  "outboundEnableDisabledReason item subscription tr =
     (if is_on (ob_enabled item) then []
      else if ob_source item = Some ''subscription'' \<and> oint (ob_subscription_id item) \<noteq> 0 then
        (case subscription of
           None \<Rightarrow> tr zh_sub_gone
         | Some s \<Rightarrow> if os_enabled s = Some False then tr zh_sub_stopped_owner else [])
      else [])"

definition outboundToggleTitle :: "outbound \<Rightarrow> outbound_subscription option \<Rightarrow> (string \<Rightarrow> string) \<Rightarrow> string" where
  "outboundToggleTitle item subscription tr =
     str_or (outboundEnableDisabledReason item subscription tr) (tr zh_on_off)"

section \<open>What a card says\<close>

definition formatLatency :: "ping_result option \<Rightarrow> (string \<Rightarrow> string) \<Rightarrow> string" where
  "formatLatency result tr =
     (case result of
        None \<Rightarrow> tr zh_not_measured
      | Some r \<Rightarrow> if pg_latency r < 0 then str_or (ostr (pg_error r)) (tr zh_unreachable)
                  else fixed_rat 0 (pg_latency r) @ '' ms'')"

definition outboundRemarkLabel :: "string \<Rightarrow> (string \<Rightarrow> string) \<Rightarrow> string" where
  "outboundRemarkLabel remark tr =
     (if remark = zh_direct_remark \<or> remark = zh_blocked_remark then tr remark else remark)"

definition poolCountryLabel :: "pool_proxy option \<Rightarrow> string" where
  "poolCountryLabel proxy = (case proxy of None \<Rightarrow> [] | Some p \<Rightarrow> trim (str_or (pp_country p) (pp_country_code p)))"

definition outboundMetaParts :: "outbound \<Rightarrow> (string \<Rightarrow> string) \<Rightarrow> pool_proxy option \<Rightarrow> string list" where
  "outboundMetaParts item tr proxy =
     (let remark = (if ostr (ob_remark item) \<noteq> [] then outboundRemarkLabel (ostr (ob_remark item)) tr else []);
          country = poolCountryLabel proxy;
          showCountry = (country \<noteq> [] \<and> (remark = [] \<or> \<not> str_includes remark country))
      in filter (\<lambda>s. s \<noteq> [])
        [ob_protocol item,
         (if ostr (ob_address item) \<noteq> [] then ostr (ob_address item) @ '':'' @
            (if oint (ob_port item) \<noteq> 0 then int_str (oint (ob_port item)) else []) else []),
         (if showCountry then tr zh_country_word @ zh_ob_colon @ country else []),
         (if remark \<noteq> [] then tr zh_remark_word @ zh_ob_colon @ remark else [])])"

definition outbound_protocol_badge :: "outbound \<Rightarrow> string" where
  "outbound_protocol_badge item =
     (let kind = str_or (poolTypeOf item) (str_or (ob_protocol item) ''unknown'') in
      if kind = ''socks5'' then ''SOCKS5'' else toUpperCase kind)"

definition source_badges ::
  "(string \<Rightarrow> string option) \<Rightarrow> outbound \<Rightarrow> outbound_subscription option \<Rightarrow> (string \<Rightarrow> string) \<Rightarrow> string list" where
  "source_badges url_host item subscription tr =
     (if ob_source item = Some ''subscription'' then
        subscriptionSourceLabel url_host item subscription tr
        # (case subscription of None \<Rightarrow> []
           | Some s \<Rightarrow> if os_enabled s = Some False then [tr zh_sub_stopped] else [])
      else if ob_source item = Some ''proxy_pool'' \<or> poolTypeOf item \<noteq> [] then [tr zh_pool_word]
      else [])"

definition core_badges :: "outbound \<Rightarrow> (string \<Rightarrow> string) \<Rightarrow> string list" where
  "core_badges item tr =
     (let cores = outboundSupportedCores (ob_protocol item); level = outboundSupportLevel (Some item) in
      (if level \<noteq> NoSupport then [tr (outboundSupportLevelLabel level)] else [])
      @ (if cores \<noteq> [] then tr zh_usable_for # map coreLabel cores else []))"

definition formatTime :: "(string \<Rightarrow> string option) \<Rightarrow> string option \<Rightarrow> (string \<Rightarrow> string) \<Rightarrow> string" where
  "formatTime locale_time value tr =
     (if ostr value = [] then tr zh_never
      else (case locale_time (ostr value) of None \<Rightarrow> ostr value | Some s \<Rightarrow> s))"

definition subscriptionMetaParts ::
  "(string \<Rightarrow> string option) \<Rightarrow> outbound_subscription \<Rightarrow> (string \<Rightarrow> string) \<Rightarrow> string list" where
  "subscriptionMetaParts locale_time sub tr =
     [str_or (os_tag_prefix sub) ''-'',
      tr zh_last_fetch @ zh_ob_colon @ formatTime locale_time (os_last_fetched_at sub) tr,
      tr zh_last_attempt @ zh_ob_colon @ formatTime locale_time (os_last_attempt_at sub) tr,
      tr zh_last_error @ zh_ob_colon @ str_or (ostr (os_last_error sub)) ''-'']"

record subscription_preview =
  sp_count :: int
  sp_skipped_count :: int
  sp_skipped :: "(string option \<times> string) list" \<comment> \<open>protocol and reason\<close>

definition formatSubscriptionPreview :: "subscription_preview \<Rightarrow> (string \<Rightarrow> string) \<Rightarrow> string" where
  "formatSubscriptionPreview result tr =
     (let skipped = sp_skipped_count result;
          summary = tr zh_parsed @ '' '' @ int_str (sp_count result) @ '' '' @ tr zh_parsed_skipped
            @ '' '' @ int_str skipped @ '' '' @ tr zh_pieces
      in if skipped = 0 then summary
         else (let details = join zh_semicolon
                 (map (\<lambda>(protocol, reason). str_or (ostr protocol) (tr zh_unknown_protocol) @ zh_ob_colon @ reason)
                    (take 3 (sp_skipped result)))
               in if details \<noteq> [] then summary @ zh_full_stop @ details else summary))"

section \<open>The order of the outbounds\<close>

definition customItems :: "outbound list \<Rightarrow> outbound list" where
  "customItems items = filter (\<lambda>item. \<not> isFixedDefaultOutbound item) items"

definition reorderableItems :: "outbound list \<Rightarrow> outbound list" where
  "reorderableItems items = filter isReorderableOutbound (customItems items)"

definition customOutboundIds :: "outbound list \<Rightarrow> int list" where
  "customOutboundIds items = map ob_id (filter isReorderableOutbound items)"

definition movedCustomOutboundIds :: "outbound list \<Rightarrow> int \<Rightarrow> int \<Rightarrow> int list option" where
  "movedCustomOutboundIds items index delta = map_option customOutboundIds (exchange items index delta)"

definition movedSubscriptionIds :: "outbound_subscription list \<Rightarrow> int \<Rightarrow> int \<Rightarrow> int list option" where
  "movedSubscriptionIds items index delta = map_option (map os_id) (exchange items index delta)"

primrec position_of :: "int \<Rightarrow> outbound list \<Rightarrow> int" where \<comment> \<open>\<^verbatim>\<open>findIndex((o) => o.id === id)\<close>\<close>
  "position_of n [] = -1"
| "position_of n (x # xs) =
     (if ob_id x = n then 0 else (let k = position_of n xs in if k < 0 then -1 else k + 1))"

definition move_up_disabled :: "outbound list \<Rightarrow> outbound \<Rightarrow> bool" where
  "move_up_disabled items item \<longleftrightarrow>
     \<not> isReorderableOutbound item \<or> position_of (ob_id item) (reorderableItems items) = 0"

definition move_down_disabled :: "outbound list \<Rightarrow> outbound \<Rightarrow> bool" where
  "move_down_disabled items item \<longleftrightarrow>
     \<not> isReorderableOutbound item
     \<or> position_of (ob_id item) (reorderableItems items) = int (length (reorderableItems items)) - 1"

definition moveCustomOutbound :: "outbound list \<Rightarrow> outbound \<Rightarrow> int \<Rightarrow> outbounds_op option" where
  "moveCustomOutbound items item delta =
     map_option ReorderOutbounds
       (movedCustomOutboundIds (reorderableItems items) (position_of (ob_id item) (reorderableItems items)) delta)"

end
