(* ===== verification/OutboundForms.thy ===== *)
theory OutboundForms
  imports Outbounds
begin

text \<open>
  The dialogs of the outbounds page: the outbound and subscription forms with what their save buttons send, the
  messages of the page's writes, the latency tests in flight, and the proxy pool. Coercion of the typed
  numbers is done by the form library; the schemas of the source are the predicates \<open>values_valid\<close> and
  \<open>subscription_valid\<close> on the coerced values.
\<close>

section \<open>Texts\<close>

text \<open>The non-ASCII texts of this part of the user interface, as UTF-8 bytes.\<close>

definition zh_ss_method :: string where
  "zh_ss_method = [CHR 0x53, CHR 0x68, CHR 0x61, CHR 0x64, CHR 0x6F, CHR 0x77, CHR 0x73, CHR 0x6F, CHR 0x63, CHR 0x6B,
    CHR 0x73, CHR 0x20, CHR 0xE5, CHR 0x8A, CHR 0xA0, CHR 0xE5, CHR 0xAF, CHR 0x86, CHR 0xE6, CHR 0x96,
    CHR 0xB9, CHR 0xE6, CHR 0xB3, CHR 0x95]"

definition zh_user_word :: string where
  "zh_user_word = [CHR 0xE7, CHR 0x94, CHR 0xA8, CHR 0xE6, CHR 0x88, CHR 0xB7, CHR 0xE5, CHR 0x90, CHR 0x8D]"

definition zh_shadowtls_password :: string where
  "zh_shadowtls_password = [CHR 0x53, CHR 0x68, CHR 0x61, CHR 0x64, CHR 0x6F, CHR 0x77, CHR 0x54, CHR 0x4C, CHR 0x53, CHR 0x20,
    CHR 0xE5, CHR 0xAF, CHR 0x86, CHR 0xE7, CHR 0xA0, CHR 0x81]"

definition zh_password_word :: string where
  "zh_password_word = [CHR 0xE5, CHR 0xAF, CHR 0x86, CHR 0xE7, CHR 0xA0, CHR 0x81]"

definition zh_enabled_refresh :: string where
  "zh_enabled_refresh = [CHR 0xE8, CHR 0xAE, CHR 0xA2, CHR 0xE9, CHR 0x98, CHR 0x85, CHR 0xE5, CHR 0xB7, CHR 0xB2, CHR 0xE5,
    CHR 0x90, CHR 0xAF, CHR 0xE7, CHR 0x94, CHR 0xA8, CHR 0xEF, CHR 0xBC, CHR 0x8C, CHR 0xE8, CHR 0xAF,
    CHR 0xB7, CHR 0xE5, CHR 0x88, CHR 0xB7, CHR 0xE6, CHR 0x96, CHR 0xB0, CHR 0xE4, CHR 0xBB, CHR 0xA5,
    CHR 0xE6, CHR 0x81, CHR 0xA2, CHR 0xE5, CHR 0xA4, CHR 0x8D, CHR 0xE8, CHR 0x8A, CHR 0x82, CHR 0xE7,
    CHR 0x82, CHR 0xB9]"

definition zh_saved_not_applied :: string where
  "zh_saved_not_applied = [CHR 0xE5, CHR 0xB7, CHR 0xB2, CHR 0xE4, CHR 0xBF, CHR 0x9D, CHR 0xE5, CHR 0xAD, CHR 0x98, CHR 0xEF,
    CHR 0xBC, CHR 0x8C, CHR 0xE4, CHR 0xBD, CHR 0x86, CHR 0xE6, CHR 0xA0, CHR 0xB8, CHR 0xE5, CHR 0xBF,
    CHR 0x83, CHR 0xE9, CHR 0x85, CHR 0x8D, CHR 0xE7, CHR 0xBD, CHR 0xAE, CHR 0xE6, CHR 0x9C, CHR 0xAA,
    CHR 0xE7, CHR 0x94, CHR 0x9F, CHR 0xE6, CHR 0x95, CHR 0x88]"

definition zh_sub_saved :: string where
  "zh_sub_saved = [CHR 0xE5, CHR 0x87, CHR 0xBA, CHR 0xE7, CHR 0xAB, CHR 0x99, CHR 0xE8, CHR 0xAE, CHR 0xA2, CHR 0xE9,
    CHR 0x98, CHR 0x85, CHR 0xE5, CHR 0xB7, CHR 0xB2, CHR 0xE4, CHR 0xBF, CHR 0x9D, CHR 0xE5, CHR 0xAD,
    CHR 0x98]"

definition zh_status_updated :: string where
  "zh_status_updated = [CHR 0xE5, CHR 0x87, CHR 0xBA, CHR 0xE7, CHR 0xAB, CHR 0x99, CHR 0xE7, CHR 0x8A, CHR 0xB6, CHR 0xE6,
    CHR 0x80, CHR 0x81, CHR 0xE5, CHR 0xB7, CHR 0xB2, CHR 0xE6, CHR 0x9B, CHR 0xB4, CHR 0xE6, CHR 0x96,
    CHR 0xB0]"

definition zh_status_failed :: string where
  "zh_status_failed = [CHR 0xE5, CHR 0x87, CHR 0xBA, CHR 0xE7, CHR 0xAB, CHR 0x99, CHR 0xE7, CHR 0x8A, CHR 0xB6, CHR 0xE6,
    CHR 0x80, CHR 0x81, CHR 0xE6, CHR 0x9B, CHR 0xB4, CHR 0xE6, CHR 0x96, CHR 0xB0, CHR 0xE5, CHR 0xA4,
    CHR 0xB1, CHR 0xE8, CHR 0xB4, CHR 0xA5]"

definition zh_deleted_not_applied :: string where
  "zh_deleted_not_applied = [CHR 0xE5, CHR 0xB7, CHR 0xB2, CHR 0xE5, CHR 0x88, CHR 0xA0, CHR 0xE9, CHR 0x99, CHR 0xA4, CHR 0xEF,
    CHR 0xBC, CHR 0x8C, CHR 0xE4, CHR 0xBD, CHR 0x86, CHR 0xE6, CHR 0xA0, CHR 0xB8, CHR 0xE5, CHR 0xBF,
    CHR 0x83, CHR 0xE9, CHR 0x85, CHR 0x8D, CHR 0xE7, CHR 0xBD, CHR 0xAE, CHR 0xE6, CHR 0x9C, CHR 0xAA,
    CHR 0xE7, CHR 0x94, CHR 0x9F, CHR 0xE6, CHR 0x95, CHR 0x88]"

definition zh_ob_deleted :: string where
  "zh_ob_deleted = [CHR 0xE5, CHR 0x87, CHR 0xBA, CHR 0xE7, CHR 0xAB, CHR 0x99, CHR 0xE5, CHR 0xB7, CHR 0xB2, CHR 0xE5,
    CHR 0x88, CHR 0xA0, CHR 0xE9, CHR 0x99, CHR 0xA4]"

definition zh_ob_delete_failed :: string where
  "zh_ob_delete_failed = [CHR 0xE5, CHR 0x88, CHR 0xA0, CHR 0xE9, CHR 0x99, CHR 0xA4, CHR 0xE5, CHR 0x87, CHR 0xBA, CHR 0xE7,
    CHR 0xAB, CHR 0x99, CHR 0xE5, CHR 0xA4, CHR 0xB1, CHR 0xE8, CHR 0xB4, CHR 0xA5]"

definition zh_order_saved :: string where
  "zh_order_saved = [CHR 0xE5, CHR 0x87, CHR 0xBA, CHR 0xE7, CHR 0xAB, CHR 0x99, CHR 0xE9, CHR 0xA1, CHR 0xBA, CHR 0xE5,
    CHR 0xBA, CHR 0x8F, CHR 0xE5, CHR 0xB7, CHR 0xB2, CHR 0xE4, CHR 0xBF, CHR 0x9D, CHR 0xE5, CHR 0xAD,
    CHR 0x98]"

definition zh_order_failed :: string where
  "zh_order_failed = [CHR 0xE4, CHR 0xBF, CHR 0x9D, CHR 0xE5, CHR 0xAD, CHR 0x98, CHR 0xE9, CHR 0xA1, CHR 0xBA, CHR 0xE5,
    CHR 0xBA, CHR 0x8F, CHR 0xE5, CHR 0xA4, CHR 0xB1, CHR 0xE8, CHR 0xB4, CHR 0xA5]"

definition zh_refreshed_not_applied :: string where
  "zh_refreshed_not_applied = [CHR 0xE8, CHR 0xAE, CHR 0xA2, CHR 0xE9, CHR 0x98, CHR 0x85, CHR 0xE5, CHR 0xB7, CHR 0xB2, CHR 0xE5,
    CHR 0x88, CHR 0xB7, CHR 0xE6, CHR 0x96, CHR 0xB0, CHR 0xEF, CHR 0xBC, CHR 0x8C, CHR 0xE4, CHR 0xBD,
    CHR 0x86, CHR 0xE6, CHR 0xA0, CHR 0xB8, CHR 0xE5, CHR 0xBF, CHR 0x83, CHR 0xE9, CHR 0x85, CHR 0x8D,
    CHR 0xE7, CHR 0xBD, CHR 0xAE, CHR 0xE6, CHR 0x9C, CHR 0xAA, CHR 0xE7, CHR 0x94, CHR 0x9F, CHR 0xE6,
    CHR 0x95, CHR 0x88]"

definition zh_sub_refreshed :: string where
  "zh_sub_refreshed = [CHR 0xE5, CHR 0x87, CHR 0xBA, CHR 0xE7, CHR 0xAB, CHR 0x99, CHR 0xE8, CHR 0xAE, CHR 0xA2, CHR 0xE9,
    CHR 0x98, CHR 0x85, CHR 0xE5, CHR 0xB7, CHR 0xB2, CHR 0xE5, CHR 0x88, CHR 0xB7, CHR 0xE6, CHR 0x96,
    CHR 0xB0]"

definition zh_refresh_failed :: string where
  "zh_refresh_failed = [CHR 0xE5, CHR 0x88, CHR 0xB7, CHR 0xE6, CHR 0x96, CHR 0xB0, CHR 0xE8, CHR 0xAE, CHR 0xA2, CHR 0xE9,
    CHR 0x98, CHR 0x85, CHR 0xE5, CHR 0xA4, CHR 0xB1, CHR 0xE8, CHR 0xB4, CHR 0xA5]"

definition zh_sub_deleted_not_applied :: string where
  "zh_sub_deleted_not_applied = [CHR 0xE8, CHR 0xAE, CHR 0xA2, CHR 0xE9, CHR 0x98, CHR 0x85, CHR 0xE5, CHR 0xB7, CHR 0xB2, CHR 0xE5,
    CHR 0x88, CHR 0xA0, CHR 0xE9, CHR 0x99, CHR 0xA4, CHR 0xEF, CHR 0xBC, CHR 0x8C, CHR 0xE4, CHR 0xBD,
    CHR 0x86, CHR 0xE6, CHR 0xA0, CHR 0xB8, CHR 0xE5, CHR 0xBF, CHR 0x83, CHR 0xE9, CHR 0x85, CHR 0x8D,
    CHR 0xE7, CHR 0xBD, CHR 0xAE, CHR 0xE6, CHR 0x9C, CHR 0xAA, CHR 0xE7, CHR 0x94, CHR 0x9F, CHR 0xE6,
    CHR 0x95, CHR 0x88]"

definition zh_sub_deleted :: string where
  "zh_sub_deleted = [CHR 0xE5, CHR 0x87, CHR 0xBA, CHR 0xE7, CHR 0xAB, CHR 0x99, CHR 0xE8, CHR 0xAE, CHR 0xA2, CHR 0xE9,
    CHR 0x98, CHR 0x85, CHR 0xE5, CHR 0xB7, CHR 0xB2, CHR 0xE5, CHR 0x88, CHR 0xA0, CHR 0xE9, CHR 0x99,
    CHR 0xA4]"

definition zh_sub_delete_failed :: string where
  "zh_sub_delete_failed = [CHR 0xE5, CHR 0x88, CHR 0xA0, CHR 0xE9, CHR 0x99, CHR 0xA4, CHR 0xE8, CHR 0xAE, CHR 0xA2, CHR 0xE9,
    CHR 0x98, CHR 0x85, CHR 0xE5, CHR 0xA4, CHR 0xB1, CHR 0xE8, CHR 0xB4, CHR 0xA5]"

definition zh_sub_order_not_applied :: string where
  "zh_sub_order_not_applied = [CHR 0xE8, CHR 0xAE, CHR 0xA2, CHR 0xE9, CHR 0x98, CHR 0x85, CHR 0xE9, CHR 0xA1, CHR 0xBA, CHR 0xE5,
    CHR 0xBA, CHR 0x8F, CHR 0xE5, CHR 0xB7, CHR 0xB2, CHR 0xE4, CHR 0xBF, CHR 0x9D, CHR 0xE5, CHR 0xAD,
    CHR 0x98, CHR 0xEF, CHR 0xBC, CHR 0x8C, CHR 0xE4, CHR 0xBD, CHR 0x86, CHR 0xE6, CHR 0xA0, CHR 0xB8,
    CHR 0xE5, CHR 0xBF, CHR 0x83, CHR 0xE9, CHR 0x85, CHR 0x8D, CHR 0xE7, CHR 0xBD, CHR 0xAE, CHR 0xE6,
    CHR 0x9C, CHR 0xAA, CHR 0xE7, CHR 0x94, CHR 0x9F, CHR 0xE6, CHR 0x95, CHR 0x88]"

definition zh_sub_order_saved :: string where
  "zh_sub_order_saved = [CHR 0xE8, CHR 0xAE, CHR 0xA2, CHR 0xE9, CHR 0x98, CHR 0x85, CHR 0xE9, CHR 0xA1, CHR 0xBA, CHR 0xE5,
    CHR 0xBA, CHR 0x8F, CHR 0xE5, CHR 0xB7, CHR 0xB2, CHR 0xE4, CHR 0xBF, CHR 0x9D, CHR 0xE5, CHR 0xAD,
    CHR 0x98]"

definition zh_sub_order_failed :: string where
  "zh_sub_order_failed = [CHR 0xE4, CHR 0xBF, CHR 0x9D, CHR 0xE5, CHR 0xAD, CHR 0x98, CHR 0xE8, CHR 0xAE, CHR 0xA2, CHR 0xE9,
    CHR 0x98, CHR 0x85, CHR 0xE9, CHR 0xA1, CHR 0xBA, CHR 0xE5, CHR 0xBA, CHR 0x8F, CHR 0xE5, CHR 0xA4,
    CHR 0xB1, CHR 0xE8, CHR 0xB4, CHR 0xA5]"

definition zh_ob_saved :: string where
  "zh_ob_saved = [CHR 0xE5, CHR 0x87, CHR 0xBA, CHR 0xE7, CHR 0xAB, CHR 0x99, CHR 0xE5, CHR 0xB7, CHR 0xB2, CHR 0xE4,
    CHR 0xBF, CHR 0x9D, CHR 0xE5, CHR 0xAD, CHR 0x98]"

definition zh_ob_save_failed :: string where
  "zh_ob_save_failed = [CHR 0xE4, CHR 0xBF, CHR 0x9D, CHR 0xE5, CHR 0xAD, CHR 0x98, CHR 0xE5, CHR 0x87, CHR 0xBA, CHR 0xE7,
    CHR 0xAB, CHR 0x99, CHR 0xE5, CHR 0xA4, CHR 0xB1, CHR 0xE8, CHR 0xB4, CHR 0xA5]"

definition zh_imported :: string where
  "zh_imported = [CHR 0xE4, CHR 0xBB, CHR 0xA3, CHR 0xE7, CHR 0x90, CHR 0x86, CHR 0xE5, CHR 0x87, CHR 0xBA, CHR 0xE7,
    CHR 0xAB, CHR 0x99, CHR 0xE5, CHR 0xB7, CHR 0xB2, CHR 0xE5, CHR 0xAF, CHR 0xBC, CHR 0xE5, CHR 0x85,
    CHR 0xA5]"

definition zh_import_failed :: string where
  "zh_import_failed = [CHR 0xE5, CHR 0xAF, CHR 0xBC, CHR 0xE5, CHR 0x85, CHR 0xA5, CHR 0xE5, CHR 0xA4, CHR 0xB1, CHR 0xE8,
    CHR 0xB4, CHR 0xA5]"

lemmas texts_OutboundForms =
  zh_ss_method_def zh_user_word_def zh_shadowtls_password_def zh_password_word_def zh_enabled_refresh_def
  zh_saved_not_applied_def zh_sub_saved_def zh_status_updated_def zh_status_failed_def zh_deleted_not_applied_def
  zh_ob_deleted_def zh_ob_delete_failed_def zh_order_saved_def zh_order_failed_def zh_refreshed_not_applied_def
  zh_sub_refreshed_def zh_refresh_failed_def zh_sub_deleted_not_applied_def zh_sub_deleted_def zh_sub_delete_failed_def
  zh_sub_order_not_applied_def zh_sub_order_saved_def zh_sub_order_failed_def zh_ob_saved_def zh_ob_save_failed_def
  zh_imported_def zh_import_failed_def

lemma texts_nonempty_OutboundForms [simp]:
  "zh_ss_method \<noteq> []" "zh_user_word \<noteq> []" "zh_shadowtls_password \<noteq> []" "zh_password_word \<noteq> []"
  "zh_enabled_refresh \<noteq> []" "zh_saved_not_applied \<noteq> []" "zh_sub_saved \<noteq> []" "zh_status_updated \<noteq> []"
  "zh_status_failed \<noteq> []" "zh_deleted_not_applied \<noteq> []" "zh_ob_deleted \<noteq> []" "zh_ob_delete_failed \<noteq> []"
  "zh_order_saved \<noteq> []" "zh_order_failed \<noteq> []" "zh_refreshed_not_applied \<noteq> []" "zh_sub_refreshed \<noteq> []"
  "zh_refresh_failed \<noteq> []" "zh_sub_deleted_not_applied \<noteq> []" "zh_sub_deleted \<noteq> []" "zh_sub_delete_failed \<noteq> []"
  "zh_sub_order_not_applied \<noteq> []" "zh_sub_order_saved \<noteq> []" "zh_sub_order_failed \<noteq> []" "zh_ob_saved \<noteq> []"
  "zh_ob_save_failed \<noteq> []" "zh_imported \<noteq> []" "zh_import_failed \<noteq> []"
  by (simp_all add: texts_OutboundForms)

section \<open>Which fields a protocol has\<close>

definition requiresOutboundAddress :: "string \<Rightarrow> bool" where
  "requiresOutboundAddress protocol \<longleftrightarrow> toLowerCase (trim protocol) \<notin> {''freedom'', ''blackhole'', ''dns''}"

definition outboundUsernameLabel :: "string \<Rightarrow> string" where
  "outboundUsernameLabel protocol =
     (let p = toLowerCase (trim protocol) in
      if p \<in> {''vless'', ''tuic''} then ''UUID''
      else if p = ''shadowsocks'' then zh_ss_method else zh_user_word)"

definition outboundPasswordLabel :: "string \<Rightarrow> string" where
  "outboundPasswordLabel protocol =
     (if toLowerCase (trim protocol) = ''shadowtls'' then zh_shadowtls_password else zh_password_word)"

record credential_fields =
  cf_username :: bool
  cf_password :: bool

definition outboundCredentialFields :: "string \<Rightarrow> credential_fields" where
  "outboundCredentialFields protocol =
     (let p = toLowerCase (trim protocol) in
      if p = ''vless'' then \<lparr>cf_username = True, cf_password = False\<rparr>
      else if p \<in> {''trojan'', ''hysteria2'', ''shadowtls''} then \<lparr>cf_username = False, cf_password = True\<rparr>
      else if p \<in> {''tuic'', ''shadowsocks'', ''socks'', ''socks5'', ''http'', ''https''}
        then \<lparr>cf_username = True, cf_password = True\<rparr>
      else \<lparr>cf_username = False, cf_password = False\<rparr>)"

section \<open>The outbound form\<close>

record outbound_values =
  ov_tag :: string
  ov_remark :: string
  ov_protocol :: string
  ov_address :: string
  ov_port :: int
  ov_username :: string
  ov_password :: string
  ov_enabled :: bool

definition schema_protocols :: "string list" where
  "schema_protocols = [''socks'', ''http'', ''https'', ''vless'', ''trojan'', ''shadowsocks'', ''hysteria2'', ''tuic'',
     ''shadowtls'', ''freedom'', ''blackhole'', ''dns'']"

definition values_valid :: "outbound_values \<Rightarrow> bool" where
  "values_valid v \<longleftrightarrow>
     ov_tag v \<noteq> [] \<and> ov_protocol v \<in> set schema_protocols \<and> 0 \<le> ov_port v \<and> ov_port v \<le> 65535"

definition outboundFormValues :: "outbound option \<Rightarrow> outbound_values" where
  "outboundFormValues outbound =
     (case outbound of
        Some ob \<Rightarrow> \<lparr>ov_tag = ob_tag ob, ov_remark = ostr (ob_remark ob), ov_protocol = str_or (ob_protocol ob) ''socks'',
          ov_address = ostr (ob_address ob), ov_port = oint (ob_port ob), ov_username = ostr (ob_username ob),
          ov_password = ostr (ob_password ob), ov_enabled = not_false (ob_enabled ob)\<rparr>
      | None \<Rightarrow> \<lparr>ov_tag = [], ov_remark = [], ov_protocol = ''socks'', ov_address = [], ov_port = 0, ov_username = [],
          ov_password = [], ov_enabled = True\<rparr>)"

definition sanitizeOutboundValues :: "outbound_values \<Rightarrow> outbound_values" where
  "sanitizeOutboundValues values =
     (let fields = outboundCredentialFields (ov_protocol values);
          sanitized = values\<lparr>ov_username := (if cf_username fields then ov_username values else []),
            ov_password := (if cf_password fields then ov_password values else [])\<rparr>
      in if \<not> requiresOutboundAddress (ov_protocol values) then sanitized\<lparr>ov_address := [], ov_port := 0\<rparr>
         else sanitized)"

definition subscriptionOutboundUpdatePayload :: "outbound \<Rightarrow> outbound_values \<Rightarrow> outbound" where
  "subscriptionOutboundUpdatePayload outbound values = outbound\<lparr>
     ob_remark := Some (str_or (ov_remark values) (str_or (ostr (ob_remark outbound)) (ob_tag outbound))),
     ob_enabled := Some (ov_enabled values)\<rparr>"

definition with_values :: "outbound \<Rightarrow> outbound_values \<Rightarrow> outbound" where \<comment> \<open>\<^verbatim>\<open>{ ...outbound, ...values }\<close>\<close>
  "with_values outbound v = outbound\<lparr>ob_tag := ov_tag v, ob_remark := Some (ov_remark v), ob_protocol := ov_protocol v,
     ob_address := Some (ov_address v), ob_port := Some (ov_port v), ob_username := Some (ov_username v),
     ob_password := Some (ov_password v), ob_enabled := Some (ov_enabled v)\<rparr>"

definition outbound_payload ::
  "(string \<Rightarrow> string) \<Rightarrow> outbound \<Rightarrow> outbound_subscription option \<Rightarrow> outbound_values \<Rightarrow> outbound" where
  "outbound_payload tr outbound source values =
     (let managed = (ob_source outbound = Some ''subscription'');
          nextValues = (if outboundEnableDisabledReason outbound source tr \<noteq> [] then values\<lparr>ov_enabled := False\<rparr> else values);
          payload = (if managed then subscriptionOutboundUpdatePayload outbound nextValues
                     else with_values outbound (sanitizeOutboundValues nextValues))
      in payload\<lparr>ob_supported_cores := None\<rparr>)"

definition save_outbound ::
  "(string \<Rightarrow> string) \<Rightarrow> outbound \<Rightarrow> outbound_subscription option \<Rightarrow> outbound_values \<Rightarrow> outbounds_op option" where
  "save_outbound tr outbound source values =
     (if values_valid values then
        (let b = jobj (outbound_json (outbound_payload tr outbound source values)) in
         Some (if ob_id outbound \<noteq> 0 then UpdateOutbound (ob_id outbound) b else CreateOutbound b))
      else None)"

section \<open>The subscription form\<close>

record subscription_values =
  sv_remark :: string
  sv_url :: string
  sv_tag_prefix :: string
  sv_update_interval_seconds :: int
  sv_enabled :: bool
  sv_allow_private :: bool
  sv_prepend :: bool

definition defaultInterval :: int where
  "defaultInterval = 21600"

definition subscription_valid :: "subscription_values \<Rightarrow> bool" where
  "subscription_valid v \<longleftrightarrow>
     sv_url v \<noteq> [] \<and> 60 \<le> sv_update_interval_seconds v \<and> sv_update_interval_seconds v \<le> 86400"

definition emptySubscription :: "outbound_subscription list \<Rightarrow> outbound_subscription" where
  "emptySubscription subscriptions = \<lparr>os_id = 0, os_remark = [], os_url = [],
     os_tag_prefix = ''sub'' @ nat_str (length subscriptions + 1) @ ''-'', os_update_interval_seconds = defaultInterval,
     os_enabled = Some True, os_allow_private = Some False, os_prepend = Some False,
     os_priority = int (length subscriptions), os_last_fetched_at = None, os_last_attempt_at = None,
     os_last_error = None, os_outbound_count = None\<rparr>"

definition subscriptionFormValues :: "outbound_subscription option \<Rightarrow> subscription_values" where
  "subscriptionFormValues subscription =
     (case subscription of
        Some s \<Rightarrow> \<lparr>sv_remark = os_remark s, sv_url = os_url s, sv_tag_prefix = os_tag_prefix s,
          sv_update_interval_seconds =
            (if os_update_interval_seconds s \<noteq> 0 then os_update_interval_seconds s else defaultInterval),
          sv_enabled = not_false (os_enabled s), sv_allow_private = is_on (os_allow_private s),
          sv_prepend = is_on (os_prepend s)\<rparr>
      | None \<Rightarrow> \<lparr>sv_remark = [], sv_url = [], sv_tag_prefix = ''sub1-'', sv_update_interval_seconds = defaultInterval,
          sv_enabled = True, sv_allow_private = False, sv_prepend = False\<rparr>)"

definition subscription_body :: "subscription_values \<Rightarrow> jsval" where
  "subscription_body v = jobj [(''remark'', JStr (sv_remark v)), (''url'', JStr (sv_url v)),
     (''tag_prefix'', JStr (sv_tag_prefix v)), (''update_interval_seconds'', jint (sv_update_interval_seconds v)),
     (''enabled'', JBool (sv_enabled v)), (''allow_private'', JBool (sv_allow_private v)),
     (''prepend'', JBool (sv_prepend v))]"

definition save_subscription :: "outbound_subscription \<Rightarrow> subscription_values \<Rightarrow> outbounds_op option" where
  "save_subscription subscription values =
     (if subscription_valid values then
        Some (if os_id subscription \<noteq> 0 then UpdateOutboundSubscription (os_id subscription) (subscription_body values)
              else CreateOutboundSubscription (subscription_body values))
      else None)"

definition plain_toast :: "string \<Rightarrow> tone \<Rightarrow> toast" where
  "plain_toast title tone = \<lparr>to_title = title, to_tone = tone, to_action = None\<rparr>"

definition subscription_saved ::
  "location \<Rightarrow> (string \<Rightarrow> string) \<Rightarrow> jsval \<Rightarrow> toast \<times> jsval option" where \<comment> \<open>and the id to refresh, if one is asked for\<close>
  "subscription_saved w tr response =
     (let sub_id = js_field (js_field response ''subscription'') ''id'' in
      if js_has_field response ''needs_refresh'' \<and> truthy (js_field response ''needs_refresh'') \<and> truthy sub_id
      then (plain_toast (tr zh_enabled_refresh) ToneSuccess, Some sub_id)
      else (case write_toast w tr (read_core_write response) zh_saved_not_applied of
              Some t \<Rightarrow> (t, None)
            | None \<Rightarrow> (plain_toast (tr zh_sub_saved) ToneSuccess, None)))"

section \<open>The writes of the page\<close>

datatype page_write = ToggleWrite | RemoveWrite | ReorderWrite | RefreshSubWrite | RefreshAfterEnableWrite
  | RefreshAllWrite | RemoveSubWrite | ReorderSubWrite | SaveWrite | ImportWrite

definition write_texts :: "page_write \<Rightarrow> string \<times> string \<times> string" where \<comment> \<open>not applied, done, failed\<close>
  "write_texts m = (case m of
       ToggleWrite \<Rightarrow> (zh_saved_not_applied, zh_status_updated, zh_status_failed)
     | RemoveWrite \<Rightarrow> (zh_deleted_not_applied, zh_ob_deleted, zh_ob_delete_failed)
     | ReorderWrite \<Rightarrow> (zh_saved_not_applied, zh_order_saved, zh_order_failed)
     | RefreshSubWrite \<Rightarrow> (zh_refreshed_not_applied, zh_sub_refreshed, zh_refresh_failed)
     | RefreshAfterEnableWrite \<Rightarrow> (zh_refreshed_not_applied, zh_sub_refreshed, zh_enabled_refresh)
     | RefreshAllWrite \<Rightarrow> (zh_refreshed_not_applied, zh_sub_refreshed, zh_refresh_failed)
     | RemoveSubWrite \<Rightarrow> (zh_sub_deleted_not_applied, zh_sub_deleted, zh_sub_delete_failed)
     | ReorderSubWrite \<Rightarrow> (zh_sub_order_not_applied, zh_sub_order_saved, zh_sub_order_failed)
     | SaveWrite \<Rightarrow> (zh_saved_not_applied, zh_ob_saved, zh_ob_save_failed)
     | ImportWrite \<Rightarrow> (zh_saved_not_applied, zh_imported, zh_import_failed))"

definition page_write_toast :: "location \<Rightarrow> (string \<Rightarrow> string) \<Rightarrow> page_write \<Rightarrow> failure + jsval \<Rightarrow> toast \<times> bool" where
  \<comment> \<open>the toast, and whether the lists are refreshed\<close>
  "page_write_toast w tr m answer =
     (case write_texts m of (not_applied, finished, failed) \<Rightarrow>
       (case answer of
          Inr response \<Rightarrow>
            ((case write_toast w tr (read_core_write response) not_applied of
                Some t \<Rightarrow> t | None \<Rightarrow> plain_toast (tr finished) ToneSuccess), True)
        | Inl e \<Rightarrow> (plain_toast (getAPIErrorMessage e (tr failed)) ToneError, False)))"

section \<open>Latency tests\<close>

record ping_state =
  pi_latency :: "(string \<times> ping_result) list"
  pi_pinging :: "int list" \<comment> \<open>the ids whose button spins\<close>
  pi_inflight :: "int list" \<comment> \<open>the requests on their way\<close>

definition ping_start :: ping_state where
  "ping_start = \<lparr>pi_latency = [], pi_pinging = [], pi_inflight = []\<rparr>"

definition click_ping :: "int \<Rightarrow> ping_state \<Rightarrow> ping_state" where
  "click_ping n s = (if n \<in> set (pi_pinging s) then s
     else s\<lparr>pi_pinging := pi_pinging s @ [n], pi_inflight := pi_inflight s @ [n]\<rparr>)"

definition ping_answered :: "int \<Rightarrow> failure + ping_result \<Rightarrow> ping_state \<Rightarrow> ping_state" where
  "ping_answered n answer s = s\<lparr>
     pi_latency := (case answer of Inr r \<Rightarrow> AList.update (int_str n) r (pi_latency s) | Inl e \<Rightarrow> pi_latency s),
     pi_pinging := removeAll n (pi_pinging s), pi_inflight := remove1 n (pi_inflight s)\<rparr>"

definition number_key :: "string \<Rightarrow> string" where \<comment> \<open>the key \<^verbatim>\<open>Number(id)\<close> of an object\<close>
  "number_key k = (case string_to_number k of None \<Rightarrow> ''NaN'' | Some n \<Rightarrow> num_str n)"

definition speedtest_done :: "(string \<times> ping_result) list \<Rightarrow> ping_state \<Rightarrow> ping_state" where
  "speedtest_done result s = s\<lparr>pi_latency :=
     fold (\<lambda>(k, r). AList.update k r) (fold (\<lambda>(k, r). AList.update (number_key k) r) result []) (pi_latency s)\<rparr>"

inductive ping_reachable :: "ping_state \<Rightarrow> bool" where
  start: "ping_reachable ping_start"
| click: "ping_reachable s \<Longrightarrow> ping_reachable (click_ping n s)"
| answer: "ping_reachable s \<Longrightarrow> n \<in> set (pi_inflight s) \<Longrightarrow> ping_reachable (ping_answered n a s)"
| speedtest: "ping_reachable s \<Longrightarrow> ping_reachable (speedtest_done result s)"

section \<open>The proxy pool\<close>

definition proxyPoolPageSize :: int where
  "proxyPoolPageSize = 100"

definition proxyKey :: "pool_proxy \<Rightarrow> string" where
  "proxyKey proxy = pp_address proxy @ '':'' @ int_str (pp_port proxy)"

record pool_state =
  pl_type :: string
  pl_country :: string
  pl_page :: int
  pl_selected :: "pool_proxy option"
  pl_latency :: "(string \<times> ping_result) list"
  pl_total :: int \<comment> \<open>of the answer on show\<close>

definition pool_start :: pool_state where
  "pool_start = \<lparr>pl_type = ''socks5'', pl_country = [], pl_page = 1, pl_selected = None, pl_latency = [], pl_total = 0\<rparr>"

definition hasPrev :: "pool_state \<Rightarrow> bool" where
  "hasPrev s \<longleftrightarrow> 1 < pl_page s"

definition hasNext :: "pool_state \<Rightarrow> bool" where
  "hasNext s \<longleftrightarrow> pl_page s * proxyPoolPageSize < pl_total s"

definition pool_pages :: "pool_state \<Rightarrow> int" where
  "pool_pages s = max 1 (ceil_div (pl_total s) proxyPoolPageSize)"

definition pager_shown :: "pool_state \<Rightarrow> bool" where
  "pager_shown s \<longleftrightarrow> proxyPoolPageSize < pl_total s"

definition choose_type :: "string \<Rightarrow> pool_state \<Rightarrow> pool_state" where
  "choose_type t s = s\<lparr>pl_type := t, pl_country := [], pl_page := 1, pl_selected := None, pl_latency := []\<rparr>"

definition choose_country :: "string \<Rightarrow> pool_state \<Rightarrow> pool_state" where
  "choose_country c s = s\<lparr>pl_country := c, pl_page := 1, pl_selected := None\<rparr>"

definition prev_page :: "pool_state \<Rightarrow> pool_state" where
  "prev_page s = (if pager_shown s \<and> hasPrev s then s\<lparr>pl_page := max 1 (pl_page s - 1)\<rparr> else s)"

definition next_page :: "pool_state \<Rightarrow> pool_state" where
  "next_page s = (if pager_shown s \<and> hasNext s then s\<lparr>pl_page := pl_page s + 1\<rparr> else s)"

definition pool_ping_done :: "pool_proxy \<Rightarrow> ping_result \<Rightarrow> pool_state \<Rightarrow> pool_state" where
  "pool_ping_done proxy r s = s\<lparr>pl_latency := AList.update (proxyKey proxy) r (pl_latency s)\<rparr>"

definition pool_call :: "pool_state \<Rightarrow> call" where
  "pool_call s = outbounds_call (ProxyPool (pl_type s)
     (Inr \<lparr>pq_country = Some (pl_country s), pq_summary = False, pq_page = Some (pl_page s),
        pq_per_page = Some proxyPoolPageSize\<rparr>))"

end
