(* ===== verification/OutboundProps.thy ===== *)
theory OutboundProps
  imports OutboundForms
begin

text \<open>
  What the outbounds page guarantees: a saved outbound has only the fields of its protocol and a node of a
  subscription stays what the subscription made it; opening the form of what was saved changes nothing; moving a card
  exchanges two neighbours; a latency test is never doubled; the pages of the proxy pool are all within reach; and
  every write ends in one message.
\<close>

section \<open>Saving\<close>

lemma payload_fields [simp]:
  "ob_id (outbound_payload tr ob src v) = ob_id ob"
  "ob_source (outbound_payload tr ob src v) = ob_source ob"
  "ob_subscription_id (outbound_payload tr ob src v) = ob_subscription_id ob"
  "ob_supported_cores (outbound_payload tr ob src v) = None"
  by (simp_all add: outbound_payload_def Let_def subscriptionOutboundUpdatePayload_def with_values_def)

lemma sanitize_fields [simp]:
  "ov_tag (sanitizeOutboundValues v) = ov_tag v" "ov_remark (sanitizeOutboundValues v) = ov_remark v"
  "ov_protocol (sanitizeOutboundValues v) = ov_protocol v" "ov_enabled (sanitizeOutboundValues v) = ov_enabled v"
  "ov_username (sanitizeOutboundValues v) = (if cf_username (outboundCredentialFields (ov_protocol v)) then ov_username v else [])"
  "ov_password (sanitizeOutboundValues v) = (if cf_password (outboundCredentialFields (ov_protocol v)) then ov_password v else [])"
  "ov_address (sanitizeOutboundValues v) = (if requiresOutboundAddress (ov_protocol v) then ov_address v else [])"
  "ov_port (sanitizeOutboundValues v) = (if requiresOutboundAddress (ov_protocol v) then ov_port v else 0)"
  by (simp_all add: sanitizeOutboundValues_def Let_def)

definition values_clean :: "outbound_values \<Rightarrow> bool" where
  "values_clean v \<longleftrightarrow>
     (cf_username (outboundCredentialFields (ov_protocol v)) \<or> ov_username v = [])
     \<and> (cf_password (outboundCredentialFields (ov_protocol v)) \<or> ov_password v = [])
     \<and> (requiresOutboundAddress (ov_protocol v) \<or> ov_address v = [] \<and> ov_port v = 0)"

interpretation sanitize_nf: normaliser sanitizeOutboundValues values_clean
proof
  show "values_clean (sanitizeOutboundValues v)" for v by (simp add: values_clean_def)
  show "sanitizeOutboundValues v = v" if "values_clean v" for v
    using that by (intro outbound_values.equality) (auto simp: values_clean_def)
qed

lemma manual_payload:
  assumes "ob_source ob \<noteq> Some ''subscription''"
  shows "outbound_payload tr ob src v = (with_values ob (sanitizeOutboundValues v))\<lparr>ob_supported_cores := None\<rparr>"
  using assms by (simp add: outbound_payload_def Let_def outboundEnableDisabledReason_def)

lemma with_values_twice:
  "(with_values ((with_values ob v)\<lparr>ob_supported_cores := None\<rparr>) v)\<lparr>ob_supported_cores := None\<rparr>
     = (with_values ob v)\<lparr>ob_supported_cores := None\<rparr>"
  by (simp add: with_values_def)

lemma managed_payload:
  assumes "ob_source ob = Some ''subscription''"
  shows "outbound_payload tr ob src v = ob\<lparr>
     ob_remark := Some (str_or (ov_remark v) (str_or (ostr (ob_remark ob)) (ob_tag ob))),
     ob_enabled := Some (ov_enabled v \<and> outboundEnableDisabledReason ob src tr = []), ob_supported_cores := None\<rparr>"
  using assms by (simp add: outbound_payload_def Let_def subscriptionOutboundUpdatePayload_def)

lemma enable_reason_iff:
  assumes "\<forall>s. s \<noteq> [] \<longrightarrow> tr s \<noteq> []"
  shows "outboundEnableDisabledReason ob src tr \<noteq> [] \<longleftrightarrow>
     \<not> is_on (ob_enabled ob) \<and> ob_source ob = Some ''subscription'' \<and> oint (ob_subscription_id ob) \<noteq> 0
     \<and> (\<forall>s. src = Some s \<longrightarrow> os_enabled s = Some False)"
  using assms by (auto simp: outboundEnableDisabledReason_def split: option.splits)


definition new_outbound :: outbound where
  "new_outbound = sample_outbound\<lparr>ob_id := 0, ob_tag := []\<rparr>"

definition typed_values :: outbound_values where
  "typed_values = (outboundFormValues (Some new_outbound))\<lparr>ov_tag := ''up'', ov_protocol := ''vless'', ov_password := ''old''\<rparr>"


text \<open>
  C34.
  The form shows what was saved: after a manual outbound is saved, its form has exactly the values that were sent, and
  saving the form of any saved outbound as it is, a node of a subscription included, sends the same outbound again.
\<close>

theorem outbound_edit_is_stable:
  assumes "values_valid values"
  shows "(let p = outbound_payload tr outbound source values in
     outbound_payload tr p source (outboundFormValues (Some p)) = p
     \<and> (ob_source outbound \<noteq> Some ''subscription'' \<longrightarrow> outboundFormValues (Some p) = sanitizeOutboundValues values))"
proof (cases "ob_source outbound = Some ''subscription''")
  case True
  let ?p = "outbound_payload tr outbound source values"
  have "outboundEnableDisabledReason ?p source tr = [] \<or> ob_enabled ?p = Some False"
    by (simp add: managed_payload [OF True] outboundEnableDisabledReason_def)
  then have "outbound_payload tr ?p source (outboundFormValues (Some ?p)) = ?p"
    using True by (intro outbound.equality)
      (auto simp: managed_payload outboundFormValues_def)
  then show ?thesis using True by (simp add: Let_def)
next
  case False
  let ?p = "outbound_payload tr outbound source values"
  have form: "outboundFormValues (Some ?p) = sanitizeOutboundValues values"
    using False assms
    by (intro outbound_values.equality)
      (auto simp: manual_payload with_values_def outboundFormValues_def values_valid_def schema_protocols_def)
  have "outbound_payload tr ?p source (sanitizeOutboundValues values) =
      (with_values ?p (sanitizeOutboundValues values))\<lparr>ob_supported_cores := None\<rparr>"
    using manual_payload [of ?p tr source "sanitizeOutboundValues values"] False
    by (simp only: payload_fields sanitize_nf.nf_idem not_False_eq_True)
  also have "\<dots> = ?p" unfolding manual_payload [OF False] by (rule with_values_twice)
  finally have "outbound_payload tr ?p source (outboundFormValues (Some ?p)) = ?p" unfolding form .
  then show ?thesis using form by (simp add: Let_def)
qed

theorem outbound_edit_is_stable_witness:
  "outboundFormValues (Some (outbound_payload (\<lambda>s. s) new_outbound None typed_values)) = sanitizeOutboundValues typed_values"
proof -
  have "values_valid typed_values"
    by (simp add: values_valid_def typed_values_def schema_protocols_def outboundFormValues_def new_outbound_def sample_outbound_def)
  from outbound_edit_is_stable [OF this, of "\<lambda>s. s" new_outbound None] show ?thesis
    by (simp add: Let_def new_outbound_def sample_outbound_def)
qed

section \<open>Moving a card\<close>

interpretation outbounds_mover: id_mover ob_id isReorderableOutbound movedCustomOutboundIds
  by unfold_locales (auto simp: movedCustomOutboundIds_def customOutboundIds_def exchange_inside exchange_outside)

interpretation subscriptions_mover: id_mover os_id "\<lambda>_. True" movedSubscriptionIds
  by unfold_locales (auto simp: movedSubscriptionIds_def exchange_inside exchange_outside)

lemma position_of_bounds:
  "position_of n xs < 0 \<longleftrightarrow> n \<notin> ob_id ` set xs"
  "n \<in> ob_id ` set xs \<Longrightarrow> position_of n xs < int (length xs) \<and> ob_id (xs ! nat (position_of n xs)) = n"
proof (induction xs)
  case Nil
  { case 1 show ?case by simp }
  { case 2 then show ?case by simp }
next
  case (Cons x xs)
  { case 1 show ?case using Cons(1) by (auto simp: Let_def) }
  { case 2 then show ?case using Cons by (auto simp: Let_def nat_add_distrib not_less) }
qed

lemma reorderable_all: "\<forall>x \<in> set (reorderableItems items). isReorderableOutbound x"
  by (simp add: reorderableItems_def)

lemma reorderable_custom: "reorderableItems items = filter isReorderableOutbound items"
  by (auto simp: reorderableItems_def customItems_def isFixedDefaultOutbound_def isReorderableOutbound_def intro!: filter_cong)

text \<open>
  
  The arrows of a custom outbound: where one is enabled, pressing it sends the ids of all outbounds that may be
  reordered, each once and no other (never a built-in one or a node of a subscription), in an order in which the
  outbound has changed places with its neighbour on that side and all others keep theirs.
\<close>

theorem move_exchanges_neighbours:
  assumes "distinct (map ob_id items)" and "item \<in> set items"
    and "delta = -1 \<and> \<not> move_up_disabled items item \<or> delta = 1 \<and> \<not> move_down_disabled items item"
  shows "\<exists>ids k. moveCustomOutbound items item delta = Some (ReorderOutbounds ids)
    \<and> mset ids = mset (map ob_id (filter isReorderableOutbound items))
    \<and> 0 \<le> k \<and> k < int (length ids) \<and> 0 \<le> k + delta \<and> k + delta < int (length ids)
    \<and> filter isReorderableOutbound items ! nat k = item
    \<and> ids ! nat (k + delta) = ob_id item
    \<and> ids ! nat k = ob_id (filter isReorderableOutbound items ! nat (k + delta))
    \<and> (\<forall>j < length ids. j \<noteq> nat k \<and> j \<noteq> nat (k + delta) \<longrightarrow> ids ! j = ob_id (filter isReorderableOutbound items ! j))"
proof -
  let ?r = "reorderableItems items" and ?k = "position_of (ob_id item) (reorderableItems items)"
  have r: "item \<in> set ?r" using assms(2,3) by (auto simp: reorderable_custom move_up_disabled_def move_down_disabled_def)
  then have in_r: "ob_id item \<in> ob_id ` set ?r" by blast
  have pos: "0 \<le> ?k" "?k < int (length ?r)" "ob_id (?r ! nat ?k) = ob_id item"
    using position_of_bounds [of "ob_id item" ?r] in_r by auto
  have target: "0 \<le> ?k + delta" "?k + delta < int (length ?r)"
    using assms(3) pos by (auto simp: move_up_disabled_def move_down_disabled_def)
  have at: "?r ! nat ?k = item"
  proof -
    have "inj_on ob_id (set ?r)" using assms(1) by (auto simp: reorderable_custom distinct_map intro: inj_on_subset)
    moreover have "?r ! nat ?k \<in> set ?r" using pos by (intro nth_mem) linarith
    ultimately show ?thesis using pos(3) r by (auto dest: inj_onD)
  qed
  let ?ids = "swapped (map ob_id ?r) (nat ?k) (nat (?k + delta))"
  have moved: "movedCustomOutboundIds ?r ?k delta = Some ?ids"
    by (rule outbounds_mover.moved_all [OF pos(1,2) target reorderable_all])
  then have sent: "moveCustomOutbound items item delta = Some (ReorderOutbounds ?ids)"
    by (simp add: moveCustomOutbound_def)
  have ij: "nat ?k < length (map ob_id ?r)" "nat (?k + delta) < length (map ob_id ?r)" using pos target by auto
  have "mset ?ids = mset (map ob_id ?r)" by (rule mset_swapped [OF ij])
  moreover have "nat ?k \<noteq> nat (?k + delta)" using assms(3) pos target by auto
  ultimately show ?thesis
    using sent pos target at ij unfolding reorderable_custom [symmetric]
    by (intro exI [of _ ?ids] exI [of _ ?k]) (simp add: swapped_nth)
qed

definition three_outbounds :: "outbound list" where
  "three_outbounds = [sample_outbound\<lparr>ob_id := 1, ob_tag := ''direct'', ob_protocol := ''freedom''\<rparr>,
     sample_outbound\<lparr>ob_id := 2\<rparr>, sample_outbound\<lparr>ob_id := 3\<rparr>]"

theorem move_exchanges_neighbours_witness:
  "\<exists>ids. moveCustomOutbound three_outbounds (sample_outbound\<lparr>ob_id := 3\<rparr>) (-1) = Some (ReorderOutbounds ids) \<and> mset ids = mset [2, 3]"
proof -
  have "distinct (map ob_id three_outbounds)" "sample_outbound\<lparr>ob_id := 3\<rparr> \<in> set three_outbounds"
    by (simp_all add: three_outbounds_def)
  moreover have "\<not> move_up_disabled three_outbounds (sample_outbound\<lparr>ob_id := 3\<rparr>)"
    by (simp add: three_outbounds_def move_up_disabled_def reorderable_custom isReorderableOutbound_def sample_outbound_def)
  ultimately show ?thesis
    using move_exchanges_neighbours [of three_outbounds "sample_outbound\<lparr>ob_id := 3\<rparr>" "-1"]
    by (fastforce simp: three_outbounds_def isReorderableOutbound_def sample_outbound_def)
qed

section \<open>Latency tests\<close>

lemma click_ping_inv:
  "distinct (pi_inflight s) \<Longrightarrow> set (pi_pinging s) = set (pi_inflight s) \<Longrightarrow>
   distinct (pi_inflight (click_ping n s)) \<and> set (pi_pinging (click_ping n s)) = set (pi_inflight (click_ping n s))"
  by (simp add: click_ping_def)

lemma ping_inv: "ping_reachable s \<Longrightarrow> distinct (pi_inflight s) \<and> set (pi_pinging s) = set (pi_inflight s)"
proof (induction rule: ping_reachable.induct)
  case start
  then show ?case by (simp add: ping_start_def)
next
  case (click s n)
  then show ?case using click_ping_inv by blast
next
  case (answer s n a)
  then show ?case by (simp add: ping_answered_def set_remove1_eq)
next
  case (speedtest s result)
  then show ?case by (simp add: speedtest_done_def)
qed

inductive_cases ping_answerE: "ping_reachable (ping_answered n a s)"

text \<open>
  
  The latency buttons: at any time the buttons that spin are exactly those of the outbounds whose test is on its way,
  with one request each; pressing a button that spins sends nothing; pressing another one sends one request for it;
  and when a request is answered, by a result or a failure, its button is free again and a result is shown.
\<close>

theorem ping_button_tracks_request:
  assumes "ping_reachable s"
  shows "distinct (pi_inflight s) \<and> set (pi_pinging s) = set (pi_inflight s)
    \<and> count (mset (pi_inflight (click_ping n s))) n = 1
    \<and> (n \<in> set (pi_inflight s) \<longrightarrow> click_ping n s = s
        \<and> n \<notin> set (pi_pinging (ping_answered n a s)) \<and> n \<notin> set (pi_inflight (ping_answered n a s))
        \<and> (\<forall>r. a = Inr r \<longrightarrow> map_of (pi_latency (ping_answered n a s)) (int_str n) = Some r))"
proof -
  have inv: "distinct (pi_inflight s)" "set (pi_pinging s) = set (pi_inflight s)" using ping_inv [OF assms] by auto
  have "distinct (pi_inflight (click_ping n s))" "n \<in> set (pi_inflight (click_ping n s))"
    using inv by (auto simp: click_ping_def)
  then have "count (mset (pi_inflight (click_ping n s))) n = 1" by (simp add: distinct_count_atmost_1)
  moreover have "map_of (pi_latency (ping_answered n (Inr r) s)) (int_str n) = Some r" for r
    by (simp add: ping_answered_def js_map.get_put)
  ultimately show ?thesis using inv by (auto simp: click_ping_def ping_answered_def set_remove1_eq)
qed

theorem ping_button_tracks_request_witness:
  "click_ping 5 (click_ping 5 ping_start) = click_ping 5 ping_start"
proof -
  have "ping_reachable (click_ping 5 ping_start)" by (rule ping_reachable.click [OF ping_reachable.start])
  moreover have "5 \<in> set (pi_inflight (click_ping 5 ping_start))" by (simp add: click_ping_def ping_start_def)
  ultimately show ?thesis using ping_button_tracks_request [of "click_ping 5 ping_start" 5] by blast
qed

section \<open>The pages of the proxy pool\<close>

lemma pool_pages_next [simp]: "pool_pages (next_page s) = pool_pages s" "pl_total (next_page s) = pl_total s"
  "pl_type (next_page s) = pl_type s" "pl_country (next_page s) = pl_country s"
  by (simp_all add: next_page_def pool_pages_def)

lemma has_next_iff: "1 \<le> pl_page s \<Longrightarrow> pager_shown s \<and> hasNext s \<longleftrightarrow> pl_page s < pool_pages s"
proof -
  assume p: "1 \<le> pl_page s"
  define c where "c = ceil_div (pl_total s) 100"
  have "pl_total s \<le> 100 * c" "100 * c < pl_total s + 100"
    unfolding c_def by (simp_all add: ceil_div_bounds)
  then show ?thesis
    using p by (auto simp: pager_shown_def hasNext_def pool_pages_def proxyPoolPageSize_def simp flip: c_def)
qed

lemma pool_query:
  assumes "CHR ''?'' \<notin> set kind"
  shows "search_get (query_of (proxyPoolURL kind (Inr q))) k = map_of (pool_params q) k"
proof -
  have "CHR ''?'' \<notin> set (''/api/outbounds/'' @ kind @ ''-pool'')" using assms by simp
  from query_of_url [OF this] show ?thesis by (simp add: proxyPoolURL_def Let_def)
qed

lemma next_page_eq: "1 \<le> pl_page s \<Longrightarrow> pl_page (next_page s) = (if pl_page s < pool_pages s then pl_page s + 1 else pl_page s)"
  using has_next_iff [of s] by (simp add: next_page_def)

lemma next_pages:
  "pl_page s = 1 \<Longrightarrow> pl_page ((next_page ^^ k) s) = min (int k + 1) (pool_pages s)
   \<and> pool_pages ((next_page ^^ k) s) = pool_pages s \<and> pl_total ((next_page ^^ k) s) = pl_total s
   \<and> pl_country ((next_page ^^ k) s) = pl_country s \<and> pl_type ((next_page ^^ k) s) = pl_type s"
proof (induction k)
  case 0
  then show ?case by (simp add: pool_pages_def)
next
  case (Suc k)
  have "1 \<le> pool_pages s" by (simp add: pool_pages_def)
  then show ?case using Suc next_page_eq [of "(next_page ^^ k) s"] by (auto simp: min_def)
qed

text \<open>
  
  The pager of the proxy pool: after a type or a country is chosen the first page is shown, pressing \<open>next\<close> \<open>k\<close> times
  leads to page \<open>k + 1\<close> or to the last page, \<open>next\<close> is offered exactly before the last page and \<open>previous\<close>
  exactly after the first, each page asked for has an entry (unless the pool is empty), and the request
  carries that page.
\<close>

theorem pool_pages_within_reach:
  assumes "pl_type s0 \<in> {''socks5'', ''http'', ''https''}"
    and "s = (choose_country c s0)\<lparr>pl_total := n\<rparr>" and "t = (next_page ^^ k) s"
  shows "pl_page t = min (int k + 1) (pool_pages t)
    \<and> (pager_shown t \<and> hasNext t \<longleftrightarrow> pl_page t < pool_pages t) \<and> (hasPrev t \<longleftrightarrow> pl_page t \<noteq> 1)
    \<and> (0 < n \<longrightarrow> (pl_page t - 1) * proxyPoolPageSize < n)
    \<and> search_get (query_of (fst (pool_call t))) ''page'' = Some (int_str (min (int k + 1) (pool_pages t)))
    \<and> search_get (query_of (fst (pool_call t))) ''country'' = (if c = [] then None else Some c)"
proof -
  have one: "pl_page s = 1" by (simp add: assms(2) choose_country_def)
  note steps = next_pages [OF one, of k, folded assms(3)]
  have pages: "1 \<le> pool_pages t" by (simp add: pool_pages_def)
  have page: "pl_page t = min (int k + 1) (pool_pages t)" "1 \<le> pl_page t" "pl_page t \<le> pool_pages t"
    using steps pages by auto
  have tot: "pl_total t = n" "pl_country t = c" using steps by (simp_all add: assms(2) choose_country_def)
  have "(pl_page t - 1) * 100 < n" if "0 < n"
  proof -
    have "100 * ceil_div n 100 < n + 100" by (rule ceil_div_bounds(2)) simp
    then show ?thesis using page(3) that by (auto simp: pool_pages_def tot proxyPoolPageSize_def max_def split: if_splits)
  qed
  moreover have "CHR ''?'' \<notin> set (pl_type t)" using assms(1) steps by (auto simp: assms(2) choose_country_def)
  then have "search_get (query_of (fst (pool_call t))) ''page'' = Some (int_str (pl_page t))"
    "search_get (query_of (fst (pool_call t))) ''country'' = (if c = [] then None else Some c)"
    using page(2) by (simp_all add: pool_call_def get_call_def pool_query pool_params_lookup tot)
  ultimately show ?thesis
    using page has_next_iff [OF page(2)] tot by (auto simp: hasPrev_def proxyPoolPageSize_def)
qed

theorem pool_pages_within_reach_witness:
  "pl_page ((next_page ^^ 7) ((choose_country ''DE'' pool_start)\<lparr>pl_total := 250\<rparr>)) = 3"
proof -
  have "pl_type pool_start \<in> {''socks5'', ''http'', ''https''}" by (simp add: pool_start_def)
  from pool_pages_within_reach [OF this refl refl, where c = "''DE''" and n = 250 and k = 7] show ?thesis
    by (simp add: pool_pages_def proxyPoolPageSize_def ceil_div_def next_pages choose_country_def)
qed

text \<open>
  The pager is shown only while the pool has more than one page of entries: when the pool has shrunk behind the
  user's back, a later page stays selected with neither an entry nor a button to leave it.
\<close>

lemma shrunk_pool_strands_the_page:
  "\<exists>s. pl_page s = 2 \<and> pl_total s = 90 \<and> \<not> pager_shown s \<and> prev_page s = s \<and> next_page s = s
     \<and> s = (next_page ((choose_country c pool_start)\<lparr>pl_total := 150\<rparr>))\<lparr>pl_total := 90\<rparr>"
  by (simp add: next_page_def prev_page_def pager_shown_def hasNext_def proxyPoolPageSize_def choose_country_def)

section \<open>One message per write\<close>

text \<open>
  
  Every write of the page ends in exactly one message, and its tone tells the outcome: an error when the request failed
  (the server's message, or the page's own text for the operation) or when the configuration could not be
  applied, success when there is nothing else to report; the lists are fetched again exactly when the server accepted the write.
\<close>

theorem write_ends_in_one_message:
  assumes "\<forall>s. s \<noteq> [] \<longrightarrow> tr s \<noteq> []" and "page_write_toast w tr m answer = (t, refreshed)"
  shows "(to_tone t = ToneError \<longleftrightarrow> (case answer of Inl e \<Rightarrow> True
       | Inr r \<Rightarrow> \<exists>data. read_core_write r = Some data \<and> is_failure (classify_write data)))
    \<and> (to_tone t = ToneSuccess \<longleftrightarrow> (case answer of Inl e \<Rightarrow> False
       | Inr r \<Rightarrow> \<forall>data. read_core_write r = Some data \<longrightarrow> is_silent (classify_write data)))
    \<and> (refreshed \<longleftrightarrow> \<not> isl answer) \<and> to_title t \<noteq> []"
proof (cases answer)
  case (Inl e)
  obtain na fin fail where m: "write_texts m = (na, fin, fail)" by (cases "write_texts m")
  have "fail \<noteq> []" using m by (cases m) (auto simp: write_texts_def)
  then have "getAPIErrorMessage e (tr fail) \<noteq> []"
    using assms(1) by (cases e) (simp_all add: getAPIErrorMessage_def)
  moreover have "t = plain_toast (getAPIErrorMessage e (tr fail)) ToneError" "\<not> refreshed"
    using assms(2) by (simp_all add: page_write_toast_def m Inl)
  ultimately show ?thesis by (simp add: Inl plain_toast_def)
next
  case (Inr r)
  have texts: "fst (snd (write_texts m)) \<noteq> []" by (cases m) (simp_all add: write_texts_def)
  show ?thesis
  proof (cases "read_core_write r")
    case None
    obtain na fin fail where m: "write_texts m = (na, fin, fail)" by (cases "write_texts m")
    have "t = plain_toast (tr fin) ToneSuccess" "refreshed"
      using assms(2) by (simp_all add: page_write_toast_def m Inr None write_toast_def coreApplyWarning_def)
    then show ?thesis using texts assms(1) by (simp add: Inr None m plain_toast_def)
  next
    case (Some data)
    obtain na fin fail where m: "write_texts m = (na, fin, fail)" by (cases "write_texts m")
    let ?c = "classify_write data"
    have shown: "write_toast w tr (Some data) na = (if is_silent ?c then None
        else Some \<lparr>to_title = tr (report na data ?c), to_tone = (if is_failure ?c then ToneError else ToneInfo),
               to_action = autoApplyFailureAction w (Some data)\<rparr>)"
      by (simp add: write_toast_def warning_report report_silent tone_report Let_def)
    have "is_silent ?c \<Longrightarrow> \<not> is_failure ?c" by (auto simp: is_silent_def is_failure_def)
    moreover have "\<not> is_silent ?c \<Longrightarrow> tr (report na data ?c) \<noteq> []" using assms(1) by (simp add: report_silent)
    moreover have "(t, refreshed) = ((case write_toast w tr (Some data) na of
        Some t \<Rightarrow> t | None \<Rightarrow> plain_toast (tr fin) ToneSuccess), True)"
      using assms(2) by (simp add: page_write_toast_def m Inr Some)
    ultimately show ?thesis
      using texts assms(1) unfolding shown by (cases "is_silent ?c") (simp_all add: Inr Some m plain_toast_def)
  qed
qed

theorem write_ends_in_one_message_witness:
  "to_tone (fst (page_write_toast sample_settings_page (\<lambda>s. s) RemoveWrite (Inl NetworkFailure))) = ToneError"
  using write_ends_in_one_message [of "\<lambda>s. s", OF _ prod.collapse [symmetric], of sample_settings_page RemoveWrite "Inl NetworkFailure"]
  by simp

end
