(* ===== verification/Settings.thy ===== *)
theory Settings
  imports Endpoints Format
begin

text \<open>
  \<^verbatim>\<open>src/web/src/routes/SettingsPage.tsx\<close>: the settings form with its lists and its public address, what
  saving sends, and the update console. A settings object is the list of its fields, as the source spreads and
  overwrites it. \<open>url_parts\<close> is what the \<^verbatim>\<open>URL\<close> class of the browser finds in an address: its
  protocol (with the colon) and its host, or \<open>None\<close> when it raises.
\<close>

section \<open>Texts\<close>

text \<open>The non-ASCII texts of this part of the user interface, as UTF-8 bytes.\<close>

definition zh_full_comma :: string where
  "zh_full_comma = [CHR 0xEF, CHR 0xBC, CHR 0x8C]"

lemmas texts_Settings =
  zh_full_comma_def

lemma texts_nonempty_Settings [simp]:
  "zh_full_comma \<noteq> []"
  by (simp_all add: texts_Settings)

section \<open>Objects\<close>

type_synonym settings = "(string \<times> jsval) list"

definition spread :: "settings \<Rightarrow> settings \<Rightarrow> settings" where \<comment> \<open>\<^verbatim>\<open>{ ...a, ...b }\<close>\<close>
  "spread a b = fold (\<lambda>kv. AList.update (fst kv) (snd kv)) b a"

abbreviation field_of :: "settings \<Rightarrow> string \<Rightarrow> jsval" where
  "field_of kvs k \<equiv> js_field (JObj kvs) k"

definition or_empty :: "jsval \<Rightarrow> jsval" where \<comment> \<open>\<^verbatim>\<open>v || ''\<close>\<close>
  "or_empty v = (if truthy v then v else JStr [])"

definition js_text :: "jsval \<Rightarrow> string" where \<comment> \<open>\<^verbatim>\<open>String(v || '')\<close>\<close>
  "js_text v = (if truthy v then js_string v else [])"

section \<open>Lists in a text field\<close>

definition list_seps :: "string list" where \<comment> \<open>\<open>[\s,,]\<close> with the ASCII and the full-width comma\<close>
  "list_seps = js_ws @ ['','', zh_full_comma]"

lemma strip_ws_shorter: "head_ws ws s = Some w \<Longrightarrow> length (strip_ws ws s) < length s"
proof -
  assume w: "head_ws ws s = Some w"
  then have "w \<noteq> []" "prefix w s" by (auto dest: head_ws_Some)
  then have "0 < length w" "length w \<le> length s" by (auto dest: prefix_length_le)
  moreover have "strip_ws ws s = strip_ws ws (drop (length w) s)" by (subst strip_ws.simps) (simp add: w)
  then have "length (strip_ws ws s) \<le> length s - length w"
    using suffix_length_le [OF strip_ws_suffix, of ws "drop (length w) s"] by simp
  ultimately show ?thesis by linarith
qed

function split_seps :: "string list \<Rightarrow> string \<Rightarrow> string \<Rightarrow> string list" where \<comment> \<open>\<^verbatim>\<open>s.split(/[...]+/)\<close>; the word so far is reversed\<close>
  "split_seps seps word [] = [rev word]"
| "split_seps seps word (c # s) =
     (case head_ws seps (c # s) of
        Some w \<Rightarrow> rev word # split_seps seps [] (strip_ws seps (c # s))
      | None \<Rightarrow> split_seps seps (c # word) s)"
  by pat_completeness auto
termination
  by (relation "measure (\<lambda>(seps, word, s). length s)") (auto dest: strip_ws_shorter)

definition list_items :: "string \<Rightarrow> string list" where \<comment> \<open>\<^verbatim>\<open>.map((item) => item.trim()).filter(Boolean)\<close>\<close>
  "list_items s = filter (\<lambda>x. x \<noteq> []) (map trim (split_seps list_seps [] s))"

definition parseDomains :: "string + string list \<Rightarrow> string list" where
  "parseDomains value =
     (let items = (case value of Inr xs \<Rightarrow> xs | Inl s \<Rightarrow> split_seps list_seps [] s)
      in uniq (filter (\<lambda>x. x \<noteq> []) (map (\<lambda>x. toLowerCase (trim x)) items)))"

definition parseTextList :: "jsval \<Rightarrow> string list" where
  "parseTextList value =
     (case value of
        JArr xs \<Rightarrow> filter (\<lambda>x. x \<noteq> []) (map (\<lambda>x. trim (js_string x)) xs)
      | _ \<Rightarrow> if truthy value then list_items (js_string value) else [])"

definition is_port :: "rat \<Rightarrow> bool" where
  "is_port r \<longleftrightarrow> r = of_int \<lfloor>r\<rfloor> \<and> 0 < r \<and> r \<le> 65535"

definition parsePortList :: "jsval \<Rightarrow> jsval" where
  "parsePortList value =
     (case value of
        JArr xs \<Rightarrow> JArr (map JNum (filter is_port (List.map_filter js_number xs)))
      | _ \<Rightarrow>
          if \<not> truthy value then JArr []
          else (let raw = js_string value; parts = list_items raw in
            if \<not> list_all (list_all is_digit) parts then JStr raw
            else (let ports = map (\<lambda>p. of_int (dec_val p)) parts in
              if \<not> list_all is_port ports then JStr raw else JArr (map JNum ports))))"

definition listFieldValue :: "jsval \<Rightarrow> string" where
  "listFieldValue value = (case value of
      JArr xs \<Rightarrow> join '', '' (map (\<lambda>x. if js_nullish x then [] else js_string x) xs)
    | _ \<Rightarrow> js_text value)"

section \<open>The public address\<close>

type_synonym url_parts = "string \<Rightarrow> (string \<times> string) option"

definition drop_scheme :: "string \<Rightarrow> string" where \<comment> \<open>\<^verbatim>\<open>replace(/^https?:\/\//i, '')\<close>\<close>
  "drop_scheme s =
     (if toLowerCase (take 8 s) = ''https://'' then drop 8 s
      else if toLowerCase (take 7 s) = ''http://'' then drop 7 s else s)"

definition publicHostInputValue :: "url_parts \<Rightarrow> jsval \<Rightarrow> string" where
  "publicHostInputValue url value =
     (let raw = trim (js_text value) in
      if raw = [] then []
      else (case url (if str_includes raw ''://'' then raw else ''https://'' @ raw) of
              Some (protocol, host) \<Rightarrow> host
            | None \<Rightarrow> trim (takeWhile (\<lambda>c. c \<noteq> CHR ''/'') (drop_scheme raw))))"

definition strip_slashes :: "string \<Rightarrow> string" where \<comment> \<open>\<^verbatim>\<open>replace(/^\/+|\/+$/g, '')\<close>\<close>
  "strip_slashes s =
     rev (dropWhile (\<lambda>c. c = CHR ''/'') (rev (dropWhile (\<lambda>c. c = CHR ''/'') s)))"

definition normal_path :: "string \<Rightarrow> string" where
  "normal_path webPath =
     (let path = trim webPath in if path = [] \<or> path = ''/'' then [] else ''/'' @ strip_slashes path)"

definition buildPublicHost :: "url_parts \<Rightarrow> jsval \<Rightarrow> jsval \<Rightarrow> bool \<Rightarrow> string" where
  "buildPublicHost url value webPath trustProxy =
     (let raw = trim (js_text value); scheme = (if trustProxy then ''https'' else ''http'') in
      if raw = [] then []
      else (case (case url (if str_includes raw ''://'' then raw else scheme @ ''://'' @ raw) of
                    Some (protocol, host) \<Rightarrow> (str_or (remove1 (CHR '':'') protocol) scheme, host)
                  | None \<Rightarrow> (scheme, trim (takeWhile (\<lambda>c. c \<noteq> CHR ''/'') (drop_scheme raw))))
            of (scheme', host) \<Rightarrow> scheme' @ ''://'' @ host @ normal_path (js_text webPath)))"

section \<open>Saving\<close>

definition settings_form :: "url_parts \<Rightarrow> settings option \<Rightarrow> settings" where
  "settings_form url stored = (case stored of None \<Rightarrow> []
     | Some kvs \<Rightarrow> AList.update ''public_host'' (JStr (publicHostInputValue url (field_of kvs ''public_host''))) kvs)"

definition has_key :: "settings \<Rightarrow> string \<Rightarrow> bool" where \<comment> \<open>\<^verbatim>\<open>hasOwnProperty\<close>\<close>
  "has_key kvs k \<longleftrightarrow> map_of kvs k \<noteq> None"

definition settingsPayload :: "url_parts \<Rightarrow> settings option \<Rightarrow> settings \<Rightarrow> settings" where
  "settingsPayload url current values =
     (let payload = AList.update ''panel_password'' (or_empty (field_of values ''panel_password'')) (spread (olist current) values);
          payload1 = (if has_key values ''public_host'' then
              AList.update ''public_host'' (JStr (buildPublicHost url (field_of payload ''public_host'')
                (field_of payload ''web_base_path'') (field_of payload ''trust_proxy'' = JBool True))) payload else payload);
          payload2 = (if has_key values ''management_direct_hosts'' then
              AList.update ''management_direct_hosts'' (jstrs (parseTextList (field_of values ''management_direct_hosts''))) payload1
              else payload1)
      in if has_key values ''management_direct_ports'' then
           AList.update ''management_direct_ports'' (parsePortList (field_of values ''management_direct_ports'')) payload2
         else payload2)"

definition certSettingsPayload :: "settings option \<Rightarrow> settings \<Rightarrow> settings" where
  "certSettingsPayload current values =
     AList.update ''panel_password'' (JStr [])
       (AList.update ''cert_email'' (or_empty (field_of values ''cert_email''))
         (AList.update ''cert_domain'' (or_empty (field_of values ''cert_domain'')) (olist current)))"

definition certIssuePayload :: "settings \<Rightarrow> (string \<times> string) option \<Rightarrow> string \<times> string" where
  "certIssuePayload values current =
     (let (domain, email) = (case current of None \<Rightarrow> ([], []) | Some p \<Rightarrow> p)
      in (str_or (js_text (field_of values ''cert_domain'')) domain, str_or (js_text (field_of values ''cert_email'')) email))"

section \<open>Sessions\<close>

definition defaultVisibleSessions :: nat where "defaultVisibleSessions = 5"

definition visibleSessions :: "bool \<Rightarrow> 'a list \<Rightarrow> 'a list" where
  "visibleSessions showAll items = (if showAll then items else take defaultVisibleSessions items)"

definition hiddenSessionCount :: "bool \<Rightarrow> 'a list \<Rightarrow> nat" where
  "hiddenSessionCount showAll items = length items - length (visibleSessions showAll items)"

lemma sessions_accounted:
  "length (visibleSessions showAll items) + hiddenSessionCount showAll items = length items"
  by (simp add: visibleSessions_def hiddenSessionCount_def)

end
