(* ===== verification/QueryInvalidation.thy ===== *)
theory QueryInvalidation
  imports Prelude
begin

text \<open>
  \<^verbatim>\<open>src/web/src/lib/queryInvalidation.ts\<close>: which cached queries are asked again after a write. A call on the
  query client or on a query is a value; a client marks, or asks again, every query whose key starts with the key it is
  given, as its documentation says, and a query that is refetched is asked again itself.
\<close>

type_synonym query_key = "string list"

datatype query_call =
    Invalidate query_key
  | RefetchAll query_key
  | Refetch query_key \<comment> \<open>of one query object, named by its key\<close>

fun reaches :: "query_call \<Rightarrow> query_key \<Rightarrow> bool" where
  "reaches (Invalidate p) k = prefix p k"
| "reaches (RefetchAll p) k = prefix p k"
| "reaches (Refetch q) k = (q = k)"

definition asked_anew :: "query_call list \<Rightarrow> query_key \<Rightarrow> bool" where
  "asked_anew calls k \<longleftrightarrow> list_ex (\<lambda>c. reaches c k) calls"

definition invalidateTrafficV2Snapshot :: "query_call list" where
  "invalidateTrafficV2Snapshot = [Invalidate [''traffic-v2-snapshot'']]"

definition invalidateTrafficV2Analytics :: "query_call list" where
  "invalidateTrafficV2Analytics = [Invalidate [''traffic-v2-analytics'']]"

definition refreshTopologyDependencies :: "query_call list" where
  "refreshTopologyDependencies =
     [Invalidate [''inbounds''], Invalidate [''outbounds''], Invalidate [''routing-rules''], Invalidate [''dashboard-summary'']]
     @ invalidateTrafficV2Snapshot @ invalidateTrafficV2Analytics"

definition refreshOutboundDependencies :: "query_call list" where
  "refreshOutboundDependencies = refreshTopologyDependencies @ [Invalidate [''outbound-subscriptions'']]"

definition invalidateQueryKeys :: "query_key list \<Rightarrow> query_call list" where
  "invalidateQueryKeys keys = map Invalidate keys"

definition refreshSettingsDependencies :: "query_call list" where
  "refreshSettingsDependencies =
     invalidateQueryKeys [[''settings''], [''cert-status''], [''certificates''], [''certificate-inbounds'']]"

definition refreshCertificateApplyDependencies :: "query_call list" where
  "refreshCertificateApplyDependencies =
     invalidateQueryKeys [[''cert-status''], [''certificates''], [''certificate-inbounds''], [''inbounds''], [''dashboard-summary'']]"

definition refreshCertificateOperationDependencies :: "query_call list" where
  "refreshCertificateOperationDependencies = invalidateQueryKeys [[''certificate-operations'']]"

definition refreshUpdateDependencies :: "query_call list" where
  "refreshUpdateDependencies = invalidateQueryKeys [[''update-status''], [''update-logs'']]"

definition refreshSessionDependencies :: "query_call list" where
  "refreshSessionDependencies = invalidateQueryKeys [[''sessions'']]"

definition refreshSessionState :: "query_call list" where
  "refreshSessionState = invalidateQueryKeys [[''session'']]"

definition refetchTopologyDependencies :: "query_call list" where
  "refetchTopologyDependencies = [RefetchAll [''inbounds''], RefetchAll [''outbounds''], RefetchAll [''routing-rules'']]"

definition refreshQuery :: "query_key \<Rightarrow> query_call list" where
  "refreshQuery q = [Refetch q]"

definition refreshQueries :: "query_key list \<Rightarrow> query_call list" where
  "refreshQueries qs = concat (map refreshQuery qs)"

lemma asked_anew_append [simp]: "asked_anew (a @ b) k \<longleftrightarrow> asked_anew a k \<or> asked_anew b k"
  by (simp add: asked_anew_def)

lemma asked_anew_keys: "asked_anew (invalidateQueryKeys ks) k \<longleftrightarrow> list_ex (\<lambda>p. prefix p k) ks"
  by (induction ks) (auto simp: asked_anew_def invalidateQueryKeys_def)

lemma asked_anew_queries: "asked_anew (refreshQueries qs) k \<longleftrightarrow> k \<in> set qs"
  by (induction qs) (auto simp: asked_anew_def refreshQueries_def refreshQuery_def)

text \<open>Writing an outbound makes anew all that writing an inbound or a rule does, and the subscriptions.\<close>

lemma outbound_writes_reach_topology:
  "asked_anew refreshOutboundDependencies k \<longleftrightarrow> asked_anew refreshTopologyDependencies k \<or> prefix [''outbound-subscriptions''] k"
  by (simp add: refreshOutboundDependencies_def) (simp add: asked_anew_def)

lemma topology_is_refetched: "asked_anew refetchTopologyDependencies k \<Longrightarrow> asked_anew refreshTopologyDependencies k"
  by (auto simp: asked_anew_def refetchTopologyDependencies_def refreshTopologyDependencies_def)

end
