(* ===== verification/Updates.thy ===== *)
theory Updates
  imports Settings QueryInvalidation
begin

text \<open>
  The update console of \<^verbatim>\<open>src/web/src/routes/SettingsPage.tsx\<close>: which states of an update are running and
  which are final, what the console says of them, and the watch that keeps asking the server while an update or a check
  is under way.
\<close>

section \<open>Texts\<close>

text \<open>The non-ASCII texts of this part of the user interface, as UTF-8 bytes.\<close>

definition zh_update_after_check :: string where
  "zh_update_after_check = [CHR 0xE6, CHR 0xA3, CHR 0x80, CHR 0xE6, CHR 0x9F, CHR 0xA5, CHR 0xE5, CHR 0x90, CHR 0x8E, CHR 0xE6,
    CHR 0x9B, CHR 0xB4, CHR 0xE6, CHR 0x96, CHR 0xB0]"

definition zh_rolled_back_ok :: string where
  "zh_rolled_back_ok = [CHR 0xE5, CHR 0xB7, CHR 0xB2, CHR 0xE5, CHR 0x9B, CHR 0x9E, CHR 0xE6, CHR 0xBB, CHR 0x9A, CHR 0xEF,
    CHR 0xBC, CHR 0x8C, CHR 0xE6, CHR 0x9C, CHR 0x8D, CHR 0xE5, CHR 0x8A, CHR 0xA1, CHR 0xE5, CHR 0xB7,
    CHR 0xB2, CHR 0xE6, CHR 0x81, CHR 0xA2, CHR 0xE5, CHR 0xA4, CHR 0x8D]"

definition zh_rolled_back_state :: string where
  "zh_rolled_back_state = [CHR 0xE5, CHR 0xB7, CHR 0xB2, CHR 0xE5, CHR 0x9B, CHR 0x9E, CHR 0xE6, CHR 0xBB, CHR 0x9A, CHR 0xEF,
    CHR 0xBC, CHR 0x8C, CHR 0xE7, CHR 0x8A, CHR 0xB6, CHR 0xE6, CHR 0x80, CHR 0x81, CHR 0x20]"

definition zh_unknown_short :: string where
  "zh_unknown_short = [CHR 0xE6, CHR 0x9C, CHR 0xAA, CHR 0xE7, CHR 0x9F, CHR 0xA5]"

definition zh_no_rollback_confirmed :: string where
  "zh_no_rollback_confirmed = [CHR 0xE6, CHR 0x9C, CHR 0xAA, CHR 0xE7, CHR 0xA1, CHR 0xAE, CHR 0xE8, CHR 0xAE, CHR 0xA4, CHR 0xE5,
    CHR 0x9B, CHR 0x9E, CHR 0xE6, CHR 0xBB, CHR 0x9A]"

definition zh_no_rollback :: string where
  "zh_no_rollback = [CHR 0xE6, CHR 0x97, CHR 0xA0, CHR 0xE5, CHR 0x9B, CHR 0x9E, CHR 0xE6, CHR 0xBB, CHR 0x9A]"

definition zh_upgrade_rolled_back :: string where
  "zh_upgrade_rolled_back = [CHR 0xE5, CHR 0x8D, CHR 0x87, CHR 0xE7, CHR 0xBA, CHR 0xA7, CHR 0xE5, CHR 0xA4, CHR 0xB1, CHR 0xE8,
    CHR 0xB4, CHR 0xA5, CHR 0xEF, CHR 0xBC, CHR 0x8C, CHR 0xE5, CHR 0xB7, CHR 0xB2, CHR 0xE5, CHR 0x9B,
    CHR 0x9E, CHR 0xE6, CHR 0xBB, CHR 0x9A, CHR 0xEF, CHR 0xBC, CHR 0x8C, CHR 0xE6, CHR 0x9C, CHR 0x8D,
    CHR 0xE5, CHR 0x8A, CHR 0xA1, CHR 0xE5, CHR 0xB7, CHR 0xB2, CHR 0xE6, CHR 0x81, CHR 0xA2, CHR 0xE5,
    CHR 0xA4, CHR 0x8D]"

definition zh_upgrade_done :: string where
  "zh_upgrade_done = [CHR 0xE5, CHR 0x8D, CHR 0x87, CHR 0xE7, CHR 0xBA, CHR 0xA7, CHR 0xE6, CHR 0x88, CHR 0x90, CHR 0xE5,
    CHR 0x8A, CHR 0x9F, CHR 0xEF, CHR 0xBC, CHR 0x8C, CHR 0xE6, CHR 0x9C, CHR 0x8D, CHR 0xE5, CHR 0x8A,
    CHR 0xA1, CHR 0xE5, CHR 0xB7, CHR 0xB2, CHR 0xE5, CHR 0x8F, CHR 0xAF, CHR 0xE7, CHR 0x94, CHR 0xA8]"

definition zh_update_running :: string where
  "zh_update_running = [CHR 0xE6, CHR 0xAD, CHR 0xA3, CHR 0xE5, CHR 0x9C, CHR 0xA8, CHR 0xE6, CHR 0x89, CHR 0xA7, CHR 0xE8,
    CHR 0xA1, CHR 0x8C, CHR 0xE6, CHR 0x9B, CHR 0xB4, CHR 0xE6, CHR 0x96, CHR 0xB0, CHR 0xE4, CHR 0xBB,
    CHR 0xBB, CHR 0xE5, CHR 0x8A, CHR 0xA1, CHR 0xEF, CHR 0xBC, CHR 0x8C, CHR 0xE8, CHR 0xAF, CHR 0xB7,
    CHR 0xE7, CHR 0xAD, CHR 0x89, CHR 0xE5, CHR 0xBE, CHR 0x85, CHR 0xE7, CHR 0x8A, CHR 0xB6, CHR 0xE6,
    CHR 0x80, CHR 0x81, CHR 0xE5, CHR 0x88, CHR 0xB7, CHR 0xE6, CHR 0x96, CHR 0xB0, CHR 0xE3, CHR 0x80,
    CHR 0x82]"

definition zh_update_stalled :: string where
  "zh_update_stalled = [CHR 0xE4, CHR 0xB8, CHR 0x8A, CHR 0xE6, CHR 0xAC, CHR 0xA1, CHR 0xE6, CHR 0x9B, CHR 0xB4, CHR 0xE6,
    CHR 0x96, CHR 0xB0, CHR 0xE7, CHR 0x8A, CHR 0xB6, CHR 0xE6, CHR 0x80, CHR 0x81, CHR 0xE9, CHR 0x95,
    CHR 0xBF, CHR 0xE6, CHR 0x97, CHR 0xB6, CHR 0xE9, CHR 0x97, CHR 0xB4, CHR 0xE6, CHR 0x9C, CHR 0xAA,
    CHR 0xE5, CHR 0xAE, CHR 0x8C, CHR 0xE6, CHR 0x88, CHR 0x90, CHR 0xEF, CHR 0xBC, CHR 0x8C, CHR 0xE5,
    CHR 0xB7, CHR 0xB2, CHR 0xE6, CHR 0xA0, CHR 0x87, CHR 0xE8, CHR 0xAE, CHR 0xB0, CHR 0xE4, CHR 0xB8,
    CHR 0xBA, CHR 0xE5, CHR 0xA4, CHR 0xB1, CHR 0xE8, CHR 0xB4, CHR 0xA5, CHR 0xEF, CHR 0xBC, CHR 0x9B,
    CHR 0xE5, CHR 0x8F, CHR 0xAF, CHR 0xE9, CHR 0x87, CHR 0x8D, CHR 0xE6, CHR 0x96, CHR 0xB0, CHR 0xE5,
    CHR 0x8F, CHR 0x91, CHR 0xE8, CHR 0xB5, CHR 0xB7, CHR 0xE6, CHR 0x9B, CHR 0xB4, CHR 0xE6, CHR 0x96,
    CHR 0xB0]"

definition zh_update_download :: string where
  "zh_update_download = [CHR 0xE6, CHR 0xAD, CHR 0xA3, CHR 0xE5, CHR 0x9C, CHR 0xA8, CHR 0xE4, CHR 0xB8, CHR 0x8B, CHR 0xE8,
    CHR 0xBD, CHR 0xBD, CHR 0xE5, CHR 0xB9, CHR 0xB6, CHR 0xE6, CHR 0xA0, CHR 0xA1, CHR 0xE9, CHR 0xAA,
    CHR 0x8C, CHR 0xE5, CHR 0x8D, CHR 0x87, CHR 0xE7, CHR 0xBA, CHR 0xA7, CHR 0xE5, CHR 0x8C, CHR 0x85]"

definition zh_update_replace :: string where
  "zh_update_replace = [CHR 0xE5, CHR 0x8D, CHR 0x87, CHR 0xE7, CHR 0xBA, CHR 0xA7, CHR 0xE5, CHR 0x8C, CHR 0x85, CHR 0xE6,
    CHR 0xA0, CHR 0xA1, CHR 0xE9, CHR 0xAA, CHR 0x8C, CHR 0xE5, CHR 0xAE, CHR 0x8C, CHR 0xE6, CHR 0x88,
    CHR 0x90, CHR 0xEF, CHR 0xBC, CHR 0x8C, CHR 0xE6, CHR 0xAD, CHR 0xA3, CHR 0xE5, CHR 0x9C, CHR 0xA8,
    CHR 0xE6, CHR 0x9B, CHR 0xBF, CHR 0xE6, CHR 0x8D, CHR 0xA2, CHR 0xE4, CHR 0xBA, CHR 0x8C, CHR 0xE8,
    CHR 0xBF, CHR 0x9B, CHR 0xE5, CHR 0x88, CHR 0xB6, CHR 0xE5, CHR 0x92, CHR 0x8C, CHR 0xE6, CHR 0x9C,
    CHR 0x8D, CHR 0xE5, CHR 0x8A, CHR 0xA1, CHR 0xE6, CHR 0x96, CHR 0x87, CHR 0xE4, CHR 0xBB, CHR 0xB6]"

definition zh_update_restart :: string where
  "zh_update_restart = [CHR 0xE6, CHR 0xAD, CHR 0xA3, CHR 0xE5, CHR 0x9C, CHR 0xA8, CHR 0xE9, CHR 0x87, CHR 0x8D, CHR 0xE5,
    CHR 0x90, CHR 0xAF, CHR 0x20, CHR 0x4D, CHR 0x69, CHR 0x47, CHR 0x61, CHR 0x74, CHR 0x65, CHR 0x20,
    CHR 0xE5, CHR 0xB9, CHR 0xB6, CHR 0xE6, CHR 0x89, CHR 0xA7, CHR 0xE8, CHR 0xA1, CHR 0x8C, CHR 0xE5,
    CHR 0x81, CHR 0xA5, CHR 0xE5, CHR 0xBA, CHR 0xB7, CHR 0xE6, CHR 0xA3, CHR 0x80, CHR 0xE6, CHR 0x9F,
    CHR 0xA5]"

definition zh_update_ok :: string where
  "zh_update_ok = [CHR 0xE5, CHR 0x8D, CHR 0x87, CHR 0xE7, CHR 0xBA, CHR 0xA7, CHR 0xE6, CHR 0x88, CHR 0x90, CHR 0xE5,
    CHR 0x8A, CHR 0x9F, CHR 0xEF, CHR 0xBC, CHR 0x8C, CHR 0xE6, CHR 0x9C, CHR 0x8D, CHR 0xE5, CHR 0x8A,
    CHR 0xA1, CHR 0xE5, CHR 0xB7, CHR 0xB2, CHR 0xE6, CHR 0x81, CHR 0xA2, CHR 0xE5, CHR 0xA4, CHR 0x8D,
    CHR 0xE5, CHR 0x8F, CHR 0xAF, CHR 0xE7, CHR 0x94, CHR 0xA8]"

definition zh_rollback_failed :: string where
  "zh_rollback_failed = [CHR 0xE5, CHR 0x9B, CHR 0x9E, CHR 0xE6, CHR 0xBB, CHR 0x9A, CHR 0xE5, CHR 0xA4, CHR 0xB1, CHR 0xE8,
    CHR 0xB4, CHR 0xA5, CHR 0xEF, CHR 0xBC, CHR 0x8C, CHR 0xE9, CHR 0x9C, CHR 0x80, CHR 0xE8, CHR 0xA6,
    CHR 0x81, CHR 0xE4, CHR 0xBA, CHR 0xBA, CHR 0xE5, CHR 0xB7, CHR 0xA5, CHR 0xE5, CHR 0xA4, CHR 0x84,
    CHR 0xE7, CHR 0x90, CHR 0x86]"

definition zh_started_at :: string where
  "zh_started_at = [CHR 0xE5, CHR 0x90, CHR 0xAF, CHR 0xE5, CHR 0x8A, CHR 0xA8, CHR 0xE4, CHR 0xBA, CHR 0x8E]"

lemmas texts_Updates =
  zh_update_after_check_def zh_rolled_back_ok_def zh_rolled_back_state_def zh_unknown_short_def zh_no_rollback_confirmed_def
  zh_no_rollback_def zh_upgrade_rolled_back_def zh_upgrade_done_def zh_update_running_def zh_update_stalled_def
  zh_update_download_def zh_update_replace_def zh_update_restart_def zh_update_ok_def zh_rollback_failed_def
  zh_started_at_def

lemma texts_nonempty_Updates [simp]:
  "zh_update_after_check \<noteq> []" "zh_rolled_back_ok \<noteq> []" "zh_rolled_back_state \<noteq> []" "zh_unknown_short \<noteq> []"
  "zh_no_rollback_confirmed \<noteq> []" "zh_no_rollback \<noteq> []" "zh_upgrade_rolled_back \<noteq> []" "zh_upgrade_done \<noteq> []"
  "zh_update_running \<noteq> []" "zh_update_stalled \<noteq> []" "zh_update_download \<noteq> []" "zh_update_replace \<noteq> []"
  "zh_update_restart \<noteq> []" "zh_update_ok \<noteq> []" "zh_rollback_failed \<noteq> []" "zh_started_at \<noteq> []"
  by (simp_all add: texts_Updates)

record update_status =
  us_status :: string
  us_current_version :: "string option"
  us_target_version :: "string option"
  us_message :: "string option"
  us_rolled_back :: "bool option"
  us_rollback_status :: "string option"

record update_check =
  uc_current_version :: string
  uc_latest_version :: string
  uc_update_available :: bool
  uc_status :: string
  uc_message :: "string option"

definition status_of :: "update_status option \<Rightarrow> string" where
  "status_of s = (case s of None \<Rightarrow> [] | Some u \<Rightarrow> us_status u)"

definition isUpdateInProgress :: "string \<Rightarrow> bool" where
  "isUpdateInProgress status \<longleftrightarrow>
     toLowerCase status \<in> {''pending'', ''running'', ''updating'', ''downloading'', ''installing'', ''restarting''}"

definition isUpdateTerminal :: "string \<Rightarrow> bool" where
  "isUpdateTerminal status \<longleftrightarrow> toLowerCase status \<in> {''started'', ''failed'', ''completed'', ''idle''}"

definition updateStatusRefetchInterval :: "string \<Rightarrow> bool \<Rightarrow> int option" where
  "updateStatusRefetchInterval status watching = (if watching \<or> isUpdateInProgress status then Some 5000 else None)"

definition updateDependencyRefetchInterval :: "bool \<Rightarrow> int option" where
  "updateDependencyRefetchInterval watching = (if watching then Some 5000 else None)"

definition updatePrimaryAction :: "update_check option \<Rightarrow> update_status option \<Rightarrow> string" where
  "updatePrimaryAction check status =
     (if isUpdateInProgress (status_of status) then ''update''
      else if (\<exists>c \<in> set_option check. uc_update_available c) then ''update'' else ''check'')"

definition updateAvailabilitySummary :: "update_check option \<Rightarrow> (string \<Rightarrow> string) \<Rightarrow> string" where
  "updateAvailabilitySummary check tr =
     (case check of None \<Rightarrow> tr zh_update_after_check
      | Some c \<Rightarrow> if ostr (uc_message c) \<noteq> [] then tr (ostr (uc_message c))
                  else str_or (uc_status c) (tr zh_update_after_check))"

definition rollbackSummary :: "update_status option \<Rightarrow> (string \<Rightarrow> string) \<Rightarrow> string" where
  "rollbackSummary status tr =
     (case status of None \<Rightarrow> ''-''
      | Some u \<Rightarrow>
          if is_on (us_rolled_back u) then
            (if us_rollback_status u = Some ''restored'' then tr zh_rolled_back_ok
             else tr (zh_rolled_back_state @ str_or (ostr (us_rollback_status u)) zh_unknown_short))
          else if toLowerCase (us_status u) = ''failed'' then tr zh_no_rollback_confirmed
          else tr zh_no_rollback)"

definition updateStatusSummaryKey :: "update_status option \<Rightarrow> string" where
  "updateStatusSummaryKey status =
     (case status of None \<Rightarrow> []
      | Some u \<Rightarrow>
          if toLowerCase (us_status u) = ''failed'' \<and> is_on (us_rolled_back u) \<and> us_rollback_status u = Some ''restored''
          then zh_upgrade_rolled_back
          else if toLowerCase (us_status u) = ''completed'' then zh_upgrade_done else [])"

definition translatableUpdateMessages :: "string list" where
  "translatableUpdateMessages =
     [''idle'', ''update command accepted'', ''update command accepted in test mode'',
      ''update command completed; MiGate may restart if a new version was installed'',
      ''dev builds cannot be checked against releases'',
      zh_update_running,
      zh_update_stalled,
      zh_update_download, zh_update_replace,
      zh_update_restart, zh_update_ok,
      zh_upgrade_rolled_back, zh_rollback_failed]"

definition updateStatusMessageLabel :: "string option \<Rightarrow> (string \<Rightarrow> string) \<Rightarrow> string" where
  "updateStatusMessageLabel message tr =
     (let value = trim (ostr message) in
      if value = [] then [] else if value \<in> set translatableUpdateMessages then tr value else value)"

definition serviceDetailLabel :: "string option \<Rightarrow> (string \<Rightarrow> string) \<Rightarrow> string" where
  "serviceDetailLabel detail tr =
     (let value = trim (ostr detail); rest = drop (length zh_started_at) value; body = strip_ws js_ws rest in
      if value = [] then []
      else if startsWith value zh_started_at \<and> head_ws js_ws rest \<noteq> None \<and> body \<noteq> []
              \<and> CHR 0x0A \<notin> set body \<and> CHR 0x0D \<notin> set body
        then tr zh_started_at @ '' '' @ body
      else value)"

definition formatUpdateLogs :: "(string option \<times> string list option) option \<Rightarrow> string \<Rightarrow> string" where
  \<comment> \<open>the text and the lines of the answer\<close>
  "formatUpdateLogs data emptyMessage =
     (case data of None \<Rightarrow> emptyMessage
      | Some (logs, Some ls) \<Rightarrow> join [CHR 0x0A] ls
      | Some (logs, None) \<Rightarrow> str_or (ostr logs) emptyMessage)"

definition currentVersion :: "string option \<Rightarrow> update_check option \<Rightarrow> update_status option \<Rightarrow> string" where
  "currentVersion version check status =
     str_or (ostr version) (str_or (case check of None \<Rightarrow> [] | Some c \<Rightarrow> uc_current_version c)
       (str_or (ostr (Option.bind status us_current_version)) ''-''))"

definition latestVersion :: "update_check option \<Rightarrow> update_status option \<Rightarrow> string" where
  "latestVersion check status =
     str_or (case check of None \<Rightarrow> [] | Some c \<Rightarrow> uc_latest_version c)
       (str_or (ostr (Option.bind status us_target_version)) ''-'')"

section \<open>The watch\<close>

text \<open>
  The state of the watch with the last answers it looks at, and the calls that ask the server out of turn. An effect of
  React runs when one of the values it names has changed, both effects here with the values at that moment; leaving the
  watch changes one of them again, but then neither does anything.
\<close>

record watch_state =
  ws_watching :: bool
  ws_status :: "string option" \<comment> \<open>of the last answer\<close>
  ws_version :: string \<comment> \<open>of the last answer, or empty\<close>
  ws_calls :: "query_call list"

definition watch_start :: watch_state where
  "watch_start = \<lparr>ws_watching = False, ws_status = None, ws_version = [], ws_calls = []\<rparr>"

definition watched :: "watch_state \<Rightarrow> bool \<times> string option \<times> string" where
  "watched s = (ws_watching s, ws_status s, ws_version s)"

definition watch_effect :: "watch_state \<Rightarrow> watch_state" where
  "watch_effect s =
     (if ws_watching s \<and> isUpdateTerminal (ostr (ws_status s))
      then (let s1 = s\<lparr>ws_calls := ws_calls s @ refreshQueries [[''update-status''], [''update-logs''], [''service-status''],
                [''version''], [''update-check'']]\<rparr>
            in if ws_status s \<noteq> Some ''completed'' \<or> ws_version s \<noteq> [] then s1\<lparr>ws_watching := False\<rparr> else s1)
      else s)"

definition recheck_effect :: "watch_state \<Rightarrow> watch_state \<Rightarrow> watch_state" where \<comment> \<open>the values of the render, then the state\<close>
  "recheck_effect seen s =
     (if ws_watching seen \<and> ws_version seen \<noteq> [] \<and> isUpdateTerminal (ostr (ws_status seen))
      then s\<lparr>ws_calls := ws_calls s @ refreshQuery [''update-check'']\<rparr> else s)"

datatype watch_event = CheckClicked | UpdateAccepted | StatusAnswer string | VersionAnswer string

definition update_accepted :: "watch_state \<Rightarrow> watch_state" where
  "update_accepted s = s\<lparr>ws_watching := True, ws_calls := ws_calls s @ refreshUpdateDependencies @ refreshQuery [''update-logs'']\<rparr>"

definition runUpdateCheck :: "watch_state \<Rightarrow> watch_state" where
  "runUpdateCheck s = s\<lparr>ws_watching := True,
     ws_calls := ws_calls s @ refreshQueries [[''update-check''], [''version''], [''update-status'']]\<rparr>"

definition watch_handle :: "watch_event \<Rightarrow> watch_state \<Rightarrow> watch_state" where
  "watch_handle e s = (case e of
       CheckClicked \<Rightarrow> runUpdateCheck s
     | UpdateAccepted \<Rightarrow> update_accepted s
     | StatusAnswer st \<Rightarrow> s\<lparr>ws_status := Some st\<rparr>
     | VersionAnswer v \<Rightarrow> s\<lparr>ws_version := v\<rparr>)"

definition watch_step :: "watch_event \<Rightarrow> watch_state \<Rightarrow> watch_state" where
  "watch_step e s =
     (let s1 = watch_handle e s in if watched s1 = watched s then s1 else recheck_effect s1 (watch_effect s1))"

definition asks_again :: "watch_state \<Rightarrow> bool" where \<comment> \<open>the status query has an interval\<close>
  "asks_again s \<longleftrightarrow> updateStatusRefetchInterval (ostr (ws_status s)) (ws_watching s) \<noteq> None"

definition dependencies_polled :: "watch_state \<Rightarrow> bool" where \<comment> \<open>the check, the version, the logs and the service\<close>
  "dependencies_polled s \<longleftrightarrow> updateDependencyRefetchInterval (ws_watching s) \<noteq> None"

definition settled_answer :: "watch_state \<Rightarrow> bool" where
  "settled_answer s \<longleftrightarrow> isUpdateTerminal (ostr (ws_status s)) \<and> (ws_status s \<noteq> Some ''completed'' \<or> ws_version s \<noteq> [])"

lemma progress_is_not_final: "isUpdateInProgress s \<Longrightarrow> \<not> isUpdateTerminal s"
  by (auto simp: isUpdateInProgress_def isUpdateTerminal_def)

lemma watch_effect_watching: "ws_watching (watch_effect s) \<longleftrightarrow> ws_watching s \<and> \<not> settled_answer s"
  by (auto simp: watch_effect_def settled_answer_def Let_def)

lemma watch_effect_same [simp]:
  "ws_status (watch_effect s) = ws_status s" "ws_version (watch_effect s) = ws_version s"
  "ws_watching (recheck_effect t s) = ws_watching s" "ws_status (recheck_effect t s) = ws_status s"
  "ws_version (recheck_effect t s) = ws_version s"
  by (simp_all add: watch_effect_def recheck_effect_def Let_def)

lemma settled_answer_same [simp]:
  "settled_answer (watch_effect s) = settled_answer s" "settled_answer (recheck_effect t s) = settled_answer s"
  by (simp_all add: settled_answer_def)

lemma watch_step_settled:
  assumes "ws_watching s \<longrightarrow> \<not> settled_answer s"
  shows "ws_watching (watch_step e s) \<longrightarrow> \<not> settled_answer (watch_step e s)"
proof (cases "watched (watch_handle e s) = watched s")
  case True
  then show ?thesis using assms by (simp add: watch_step_def Let_def watched_def settled_answer_def)
next
  case False
  then show ?thesis by (auto simp: watch_step_def Let_def watch_effect_watching)
qed

lemma watch_settled: "ws_watching (fold watch_step es watch_start) \<longrightarrow> \<not> settled_answer (fold watch_step es watch_start)"
proof (induction es rule: rev_induct)
  case Nil
  then show ?case by (simp add: watch_start_def)
next
  case (snoc e es)
  then show ?case using watch_step_settled by simp
qed

end
