(* ===== verification/Certificates.thy ===== *)
theory Certificates
  imports Settings
begin

text \<open>
  The certificate manager of \<^verbatim>\<open>src/web/src/routes/SettingsPage.tsx\<close>: the inventory and its advice, the binding of
  certificates to inbounds, and the state of the manager with the requests it sends. An event handler is followed by the
  effects of the page (\<open>settle\<close>), which run after every render.
\<close>

section \<open>Texts\<close>

text \<open>The non-ASCII texts of this part of the user interface, as UTF-8 bytes.\<close>

definition zh_cert_valid :: string where
  "zh_cert_valid = [CHR 0xE6, CHR 0x9C, CHR 0x89, CHR 0xE6, CHR 0x95, CHR 0x88]"

definition zh_cert_expiring :: string where
  "zh_cert_expiring = [CHR 0xE5, CHR 0x8D, CHR 0xB3, CHR 0xE5, CHR 0xB0, CHR 0x86, CHR 0xE5, CHR 0x88, CHR 0xB0, CHR 0xE6,
    CHR 0x9C, CHR 0x9F]"

definition zh_cert_expired :: string where
  "zh_cert_expired = [CHR 0xE5, CHR 0xB7, CHR 0xB2, CHR 0xE8, CHR 0xBF, CHR 0x87, CHR 0xE6, CHR 0x9C, CHR 0x9F]"

definition zh_cert_pending :: string where
  "zh_cert_pending = [CHR 0xE5, CHR 0xA4, CHR 0x84, CHR 0xE7, CHR 0x90, CHR 0x86, CHR 0xE4, CHR 0xB8, CHR 0xAD]"

definition zh_cert_failed :: string where
  "zh_cert_failed = [CHR 0xE5, CHR 0xA4, CHR 0xB1, CHR 0xE8, CHR 0xB4, CHR 0xA5]"

definition zh_cert_unknown :: string where
  "zh_cert_unknown = [CHR 0xE6, CHR 0x9C, CHR 0xAA, CHR 0xE7, CHR 0x9F, CHR 0xA5]"

definition zh_cert_import :: string where
  "zh_cert_import = [CHR 0xE5, CHR 0xAF, CHR 0xBC, CHR 0xE5, CHR 0x85, CHR 0xA5]"

definition zh_advice_none :: string where
  "zh_advice_none = [CHR 0xE6, CHR 0x9A, CHR 0x82, CHR 0xE6, CHR 0x97, CHR 0xA0, CHR 0xE8, CHR 0xAF, CHR 0x81, CHR 0xE4,
    CHR 0xB9, CHR 0xA6, CHR 0xEF, CHR 0xBC, CHR 0x8C, CHR 0xE5, CHR 0xBB, CHR 0xBA, CHR 0xE8, CHR 0xAE,
    CHR 0xAE, CHR 0xE5, CHR 0x85, CHR 0x88, CHR 0xE7, CHR 0x94, CHR 0xB3, CHR 0xE8, CHR 0xAF, CHR 0xB7,
    CHR 0x20, CHR 0x41, CHR 0x43, CHR 0x4D, CHR 0x45, CHR 0x20, CHR 0xE8, CHR 0xAF, CHR 0x81, CHR 0xE4,
    CHR 0xB9, CHR 0xA6, CHR 0xE3, CHR 0x80, CHR 0x82]"

definition zh_advice_failed :: string where
  "zh_advice_failed = [CHR 0xE5, CHR 0xAD, CHR 0x98, CHR 0xE5, CHR 0x9C, CHR 0xA8, CHR 0xE5, CHR 0xA4, CHR 0xB1, CHR 0xE8,
    CHR 0xB4, CHR 0xA5, CHR 0xE6, CHR 0x88, CHR 0x96, CHR 0xE5, CHR 0xB7, CHR 0xB2, CHR 0xE8, CHR 0xBF,
    CHR 0x87, CHR 0xE6, CHR 0x9C, CHR 0x9F, CHR 0xE8, CHR 0xAF, CHR 0x81, CHR 0xE4, CHR 0xB9, CHR 0xA6,
    CHR 0xEF, CHR 0xBC, CHR 0x8C, CHR 0xE5, CHR 0xBB, CHR 0xBA, CHR 0xE8, CHR 0xAE, CHR 0xAE, CHR 0xE6,
    CHR 0x9F, CHR 0xA5, CHR 0xE7, CHR 0x9C, CHR 0x8B, CHR 0xE9, CHR 0x94, CHR 0x99, CHR 0xE8, CHR 0xAF,
    CHR 0xAF, CHR 0xE5, CHR 0xB9, CHR 0xB6, CHR 0xE9, CHR 0x87, CHR 0x8D, CHR 0xE6, CHR 0x96, CHR 0xB0,
    CHR 0xE7, CHR 0x94, CHR 0xB3, CHR 0xE8, CHR 0xAF, CHR 0xB7, CHR 0xE3, CHR 0x80, CHR 0x82]"

definition zh_advice_renew :: string where
  "zh_advice_renew = [CHR 0xE5, CHR 0xAD, CHR 0x98, CHR 0xE5, CHR 0x9C, CHR 0xA8, CHR 0xE5, CHR 0x8D, CHR 0xB3, CHR 0xE5,
    CHR 0xB0, CHR 0x86, CHR 0xE5, CHR 0x88, CHR 0xB0, CHR 0xE6, CHR 0x9C, CHR 0x9F, CHR 0xE8, CHR 0xAF,
    CHR 0x81, CHR 0xE4, CHR 0xB9, CHR 0xA6, CHR 0xEF, CHR 0xBC, CHR 0x8C, CHR 0xE5, CHR 0xBB, CHR 0xBA,
    CHR 0xE8, CHR 0xAE, CHR 0xAE, CHR 0xE8, CHR 0xBF, CHR 0x90, CHR 0xE8, CHR 0xA1, CHR 0x8C, CHR 0xE7,
    CHR 0xBB, CHR 0xAD, CHR 0xE6, CHR 0x9C, CHR 0x9F, CHR 0xE6, CHR 0xA3, CHR 0x80, CHR 0xE6, CHR 0x9F,
    CHR 0xA5, CHR 0xE3, CHR 0x80, CHR 0x82]"

definition zh_advice_bind :: string where
  "zh_advice_bind = [CHR 0xE5, CHR 0xB7, CHR 0xB2, CHR 0xE6, CHR 0x9C, CHR 0x89, CHR 0xE8, CHR 0xAF, CHR 0x81, CHR 0xE4,
    CHR 0xB9, CHR 0xA6, CHR 0xEF, CHR 0xBC, CHR 0x8C, CHR 0xE5, CHR 0xBB, CHR 0xBA, CHR 0xE8, CHR 0xAE,
    CHR 0xAE, CHR 0xE7, CHR 0xBB, CHR 0x91, CHR 0xE5, CHR 0xAE, CHR 0x9A, CHR 0xE5, CHR 0x88, CHR 0xB0,
    CHR 0xE9, CHR 0x9C, CHR 0x80, CHR 0xE8, CHR 0xA6, CHR 0x81, CHR 0x20, CHR 0x54, CHR 0x4C, CHR 0x53,
    CHR 0x20, CHR 0xE7, CHR 0x9A, CHR 0x84, CHR 0xE5, CHR 0x85, CHR 0xA5, CHR 0xE7, CHR 0xAB, CHR 0x99,
    CHR 0xE3, CHR 0x80, CHR 0x82]"

definition zh_advice_ok :: string where
  "zh_advice_ok = [CHR 0xE8, CHR 0xAF, CHR 0x81, CHR 0xE4, CHR 0xB9, CHR 0xA6, CHR 0xE7, CHR 0x8A, CHR 0xB6, CHR 0xE6,
    CHR 0x80, CHR 0x81, CHR 0xE6, CHR 0xAD, CHR 0xA3, CHR 0xE5, CHR 0xB8, CHR 0xB8, CHR 0xEF, CHR 0xBC,
    CHR 0x8C, CHR 0xE5, CHR 0xAE, CHR 0x9A, CHR 0xE6, CHR 0x9C, CHR 0x9F, CHR 0xE6, CHR 0xA3, CHR 0x80,
    CHR 0xE6, CHR 0x9F, CHR 0xA5, CHR 0xE7, CHR 0xBB, CHR 0xAD, CHR 0xE6, CHR 0x9C, CHR 0x9F, CHR 0xE5,
    CHR 0x8D, CHR 0xB3, CHR 0xE5, CHR 0x8F, CHR 0xAF, CHR 0xE3, CHR 0x80, CHR 0x82]"

lemmas texts_Certificates =
  zh_cert_valid_def zh_cert_expiring_def zh_cert_expired_def zh_cert_pending_def zh_cert_failed_def
  zh_cert_unknown_def zh_cert_import_def zh_advice_none_def zh_advice_failed_def zh_advice_renew_def
  zh_advice_bind_def zh_advice_ok_def

lemma texts_nonempty_Certificates [simp]:
  "zh_cert_valid \<noteq> []" "zh_cert_expiring \<noteq> []" "zh_cert_expired \<noteq> []" "zh_cert_pending \<noteq> []"
  "zh_cert_failed \<noteq> []" "zh_cert_unknown \<noteq> []" "zh_cert_import \<noteq> []" "zh_advice_none \<noteq> []"
  "zh_advice_failed \<noteq> []" "zh_advice_renew \<noteq> []" "zh_advice_bind \<noteq> []" "zh_advice_ok \<noteq> []"
  by (simp_all add: texts_Certificates)

record certificate =
  mc_id :: int
  mc_name :: string
  mc_source :: string
  mc_status :: string
  mc_domains :: "string list"
  mc_cert_path :: string
  mc_key_path :: string
  mc_not_after :: "string option"
  mc_last_error :: "string option"
  mc_usage_count :: int

definition certificateStatusLabel :: "string \<Rightarrow> string" where
  "certificateStatusLabel status =
     (if status = ''issued'' then zh_cert_valid
      else if status = ''expiring_soon'' then zh_cert_expiring
      else if status = ''expired'' then zh_cert_expired
      else if status = ''pending'' then zh_cert_pending
      else if status = ''failed'' then zh_cert_failed
      else str_or status zh_cert_unknown)"

datatype cert_tone = ToneValid | ToneSoon | ToneBad | ToneMuted

definition certificateStatusTone :: "string \<Rightarrow> cert_tone" where
  "certificateStatusTone status =
     (if status = ''issued'' then ToneValid else if status = ''expiring_soon'' then ToneSoon
      else if status = ''expired'' \<or> status = ''failed'' then ToneBad else ToneMuted)"

definition certificateSourceLabel :: "string \<Rightarrow> string" where
  "certificateSourceLabel source =
     (if source = ''acme'' then ''ACME'' else if source = ''import'' then zh_cert_import else str_or source zh_cert_unknown)"

definition certificateOperationTone :: "string \<Rightarrow> cert_tone" where
  "certificateOperationTone status =
     (let normalized = toLowerCase status in
      if normalized \<in> {''success'', ''completed'', ''ok''} then ToneValid
      else if normalized \<in> {''failed'', ''error''} then ToneBad else ToneMuted)"

definition translatableCertificateOperationMessages :: "string list" where
  "translatableCertificateOperationMessages =
     [''preflight failed'', ''certificate issue started'', ''ACME issue failed'', ''issued certificate validation failed'',
      ''certificate issued'', ''certificate import failed'', ''write imported certificate failed'', ''certificate imported'',
      ''certificate apply failed'', ''certificate applied'', ''certificate deleted'', ''renew skipped'', ''renew failed'',
      ''certificate renewed'']"

definition certificateOperationMessageLabel :: "string option \<Rightarrow> string option \<Rightarrow> (string \<Rightarrow> string) \<Rightarrow> string" where
  "certificateOperationMessageLabel message detail tr =
     (let m = trim (ostr message) in
      if m \<noteq> [] then (if m \<in> set translatableCertificateOperationMessages then tr m else m) else trim (ostr detail))"

section \<open>Certificates and inbounds\<close>

definition inboundTLSValue :: "inbound \<Rightarrow> string \<Rightarrow> string" where
  "inboundTLSValue inb key = (case map_of (ib_extra inb) key of Some (JStr s) \<Rightarrow> trim s | _ \<Rightarrow> [])"

definition hasTLSCertificateBinding :: "inbound \<Rightarrow> bool" where
  "hasTLSCertificateBinding inb \<longleftrightarrow>
     inboundTLSValue inb ''tls_cert_file'' \<noteq> [] \<or> inboundTLSValue inb ''tls_key_file'' \<noteq> []"

datatype binding_status = BoundCurrent | BoundOther | Unbound

definition inboundCertificateBindingStatus :: "inbound \<Rightarrow> certificate option \<Rightarrow> binding_status" where
  "inboundCertificateBindingStatus inb cert =
     (let certFile = inboundTLSValue inb ''tls_cert_file''; keyFile = inboundTLSValue inb ''tls_key_file'' in
      if certFile = [] \<and> keyFile = [] then Unbound
      else if (\<exists>c \<in> set_option cert. certFile = mc_cert_path c \<and> keyFile = mc_key_path c) then BoundCurrent
      else BoundOther)"

definition shortPath :: "string \<Rightarrow> string" where
  "shortPath value =
     (let parts = filter (\<lambda>p. p \<noteq> []) (split_char (CHR ''/'') value) in if parts = [] then value else last parts)"

record inventory =
  ci_total :: nat
  ci_valid :: nat
  ci_expiring :: nat
  ci_expired :: nat
  ci_failed :: nat
  ci_boundInbounds :: nat
  ci_usageCount :: int
  ci_recommendedAction :: string

definition count_certificate :: "certificate \<Rightarrow> inventory \<Rightarrow> inventory" where
  "count_certificate cert result =
     (let status = toLowerCase (mc_status cert) in
      if status = ''issued'' then result\<lparr>ci_valid := ci_valid result + 1\<rparr>
      else if status = ''expiring_soon'' then result\<lparr>ci_expiring := ci_expiring result + 1\<rparr>
      else if status = ''expired'' then result\<lparr>ci_expired := ci_expired result + 1\<rparr>
      else if status = ''failed'' then result\<lparr>ci_failed := ci_failed result + 1\<rparr>
      else result)"

definition certificateInventorySummary :: "certificate list \<Rightarrow> inbound list \<Rightarrow> inventory" where
  "certificateInventorySummary certificates tlsInbounds =
     (let counts0 = fold count_certificate certificates
            \<lparr>ci_total = length certificates, ci_valid = 0, ci_expiring = 0, ci_expired = 0, ci_failed = 0,
             ci_boundInbounds = 0, ci_usageCount = 0, ci_recommendedAction = zh_advice_none\<rparr>;
          counts = counts0\<lparr>ci_boundInbounds := length (filter hasTLSCertificateBinding tlsInbounds),
            ci_usageCount := sum_list (map mc_usage_count certificates)\<rparr>
      in counts\<lparr>ci_recommendedAction :=
           (if ci_failed counts > 0 \<or> ci_expired counts > 0 then zh_advice_failed
            else if ci_expiring counts > 0 then zh_advice_renew
            else if ci_total counts > 0 \<and> ci_boundInbounds counts = 0 then zh_advice_bind
            else if ci_total counts > 0 then zh_advice_ok
            else ci_recommendedAction counts)\<rparr>)"

section \<open>The precheck in an error\<close>

record preflight =
  pf_ok :: bool
  pf_checks :: "jsval list"

definition string_valued :: "jsval \<Rightarrow> bool" where
  "string_valued v = (case v of JStr _ \<Rightarrow> True | _ \<Rightarrow> False)"

definition is_check :: "jsval \<Rightarrow> bool" where
  "is_check v \<longleftrightarrow> is_object v \<and> string_valued (js_field v ''code'') \<and> string_valued (js_field v ''status'')"

definition preflightFromAPIError :: "failure \<Rightarrow> preflight option" where
  "preflightFromAPIError err =
     (case err of
        ApiFailure e \<Rightarrow>
          (let candidate = (case ae_fields e of None \<Rightarrow> JUndef | Some fs \<Rightarrow> js_field fs ''preflight'') in
           if \<not> is_object candidate then None
           else (case (js_field candidate ''ok'', js_field candidate ''checks'') of
                   (JBool ok, JArr checks) \<Rightarrow> Some \<lparr>pf_ok = ok, pf_checks = filter is_check checks\<rparr>
                 | _ \<Rightarrow> None))
      | NetworkFailure \<Rightarrow> None)"

section \<open>The manager\<close>

definition toggleID :: "int list \<Rightarrow> int \<Rightarrow> int list" where
  "toggleID ids n = (if n \<in> set ids then filter (\<lambda>i. i \<noteq> n) ids else ids @ [n])"

definition shouldClearOnSelect :: "int option \<Rightarrow> int \<Rightarrow> bool" where
  "shouldClearOnSelect currentId nextId \<longleftrightarrow> currentId \<noteq> Some nextId"

definition shouldClearForActual :: "int option \<Rightarrow> int option \<Rightarrow> nat \<Rightarrow> bool" where
  "shouldClearForActual previousId nextId selectedCount \<longleftrightarrow> selectedCount > 0 \<and> previousId \<noteq> nextId"

record cert_page =
  ct_certificates :: "certificate list"
  ct_selectedCertId :: "int option"
  ct_selectedInboundIds :: "int list"
  ct_appliedSelectionCertId :: "int option"
  ct_defaultDomain :: string \<comment> \<open>\<^verbatim>\<open>certDomain\<close>, from the form or the server\<close>
  ct_defaultEmail :: string
  ct_domainsInput :: string
  ct_emailInput :: string
  ct_domainsTouched :: bool
  ct_emailTouched :: bool
  ct_preflight :: "preflight option"
  ct_asked :: "(string list \<times> string) list" \<comment> \<open>prechecks on their way\<close>

definition cert_start :: cert_page where
  "cert_start = \<lparr>ct_certificates = [], ct_selectedCertId = None, ct_selectedInboundIds = [],
     ct_appliedSelectionCertId = None, ct_defaultDomain = [], ct_defaultEmail = [], ct_domainsInput = [],
     ct_emailInput = [], ct_domainsTouched = False, ct_emailTouched = False, ct_preflight = None, ct_asked = []\<rparr>"

definition selectedCertificate :: "cert_page \<Rightarrow> certificate option" where
  "selectedCertificate s =
     (case find (\<lambda>c. Some (mc_id c) = ct_selectedCertId s) (ct_certificates s) of
        Some c \<Rightarrow> Some c
      | None \<Rightarrow> (case ct_certificates s of [] \<Rightarrow> None | c # _ \<Rightarrow> Some c))"

definition currentCertId :: "cert_page \<Rightarrow> int option" where
  "currentCertId s = (case selectedCertificate s of None \<Rightarrow> None | Some c \<Rightarrow> if mc_id c = 0 then None else Some (mc_id c))"

definition settle_selection :: "cert_page \<Rightarrow> cert_page" where
  "settle_selection s =
     (let current = currentCertId s;
          s1 = (if shouldClearForActual (ct_appliedSelectionCertId s) current (length (ct_selectedInboundIds s))
                then s\<lparr>ct_selectedInboundIds := []\<rparr> else s)
      in s1\<lparr>ct_appliedSelectionCertId := current\<rparr>)"

definition settle_domains :: "cert_page \<Rightarrow> cert_page" where
  "settle_domains s =
     (if \<not> ct_domainsTouched s \<and> ct_domainsInput s \<noteq> ct_defaultDomain s
      then s\<lparr>ct_domainsInput := ct_defaultDomain s, ct_preflight := None\<rparr> else s)"

definition settle_email :: "cert_page \<Rightarrow> cert_page" where
  "settle_email s =
     (if \<not> ct_emailTouched s \<and> ct_emailInput s \<noteq> ct_defaultEmail s
      then s\<lparr>ct_emailInput := ct_defaultEmail s, ct_preflight := None\<rparr> else s)"

definition settle :: "cert_page \<Rightarrow> cert_page" where
  "settle s = settle_selection (settle_email (settle_domains s))"

datatype cert_event =
    CertificatesLoaded "certificate list"
  | DefaultsChanged string string
  | SelectCertificate int
  | ToggleInboundId int
  | TypeDomains string
  | TypeEmail string
  | AskPreflight
  | PreflightAnswer "(string list \<times> string)" preflight

definition canRequest :: "cert_page \<Rightarrow> bool" where
  "canRequest s \<longleftrightarrow> parseDomains (Inl (ct_domainsInput s)) \<noteq> [] \<and> ct_emailInput s \<noteq> []"

definition asked_for :: "cert_page \<Rightarrow> string list \<times> string" where
  "asked_for s = (parseDomains (Inl (str_or (ct_domainsInput s) (ct_defaultDomain s))),
     str_or (ct_emailInput s) (ct_defaultEmail s))"

definition cert_busy :: "cert_page \<Rightarrow> bool" where
  "cert_busy s \<longleftrightarrow> ct_asked s \<noteq> []"

definition cert_handle :: "cert_event \<Rightarrow> cert_page \<Rightarrow> cert_page" where
  "cert_handle e s = (case e of
       CertificatesLoaded cs \<Rightarrow> s\<lparr>ct_certificates := cs\<rparr>
     | DefaultsChanged d m \<Rightarrow> s\<lparr>ct_defaultDomain := d, ct_defaultEmail := m\<rparr>
     | SelectCertificate n \<Rightarrow>
         (let s1 = s\<lparr>ct_selectedCertId := Some n\<rparr> in
          if shouldClearOnSelect (currentCertId s) n
          then s1\<lparr>ct_selectedInboundIds := [], ct_appliedSelectionCertId := Some n\<rparr> else s1)
     | ToggleInboundId n \<Rightarrow> s\<lparr>ct_selectedInboundIds := toggleID (ct_selectedInboundIds s) n\<rparr>
     | TypeDomains v \<Rightarrow> s\<lparr>ct_domainsTouched := True, ct_domainsInput := v, ct_preflight := None\<rparr>
     | TypeEmail v \<Rightarrow> s\<lparr>ct_emailTouched := True, ct_emailInput := v, ct_preflight := None\<rparr>
     | AskPreflight \<Rightarrow> if canRequest s \<and> \<not> cert_busy s then s\<lparr>ct_asked := ct_asked s @ [asked_for s]\<rparr> else s
     | PreflightAnswer q r \<Rightarrow> if q \<in> set (ct_asked s)
         then s\<lparr>ct_asked := remove1 q (ct_asked s), ct_preflight := Some r\<rparr> else s)"

definition cert_step :: "cert_event \<Rightarrow> cert_page \<Rightarrow> cert_page" where
  "cert_step e s = settle (cert_handle e s)"

definition create_enabled :: "cert_page \<Rightarrow> bool" where
  "create_enabled s \<longleftrightarrow> \<not> cert_busy s \<and> canRequest s \<and> (\<exists>p \<in> set_option (ct_preflight s). pf_ok p)"

definition create_request :: "cert_page \<Rightarrow> settings_op option" where
  "create_request s = (if create_enabled s then Some (CreateCertificate (fst (asked_for s)) (snd (asked_for s))) else None)"

definition apply_request :: "cert_page \<Rightarrow> settings_op option" where
  "apply_request s =
     (case selectedCertificate s of
        None \<Rightarrow> None
      | Some c \<Rightarrow> if cert_busy s \<or> ct_selectedInboundIds s = [] then None
                  else Some (ApplyCertificate (mc_id c) (ct_selectedInboundIds s)))"

end
