(* ===== verification/SettingsProps.thy ===== *)
theory SettingsProps
  imports Updates Certificates
begin

text \<open>
  What the settings page guarantees: the lists of the form survive being shown and read back, saving sends every field
  of the settings and rebuilds the public address, the inbounds chosen for a certificate are never applied to another
  one, a precheck taken from an error is well formed; and where it falls short: an answer to an old precheck releases
  the request for other domains, and the watch over an update is lost when the update starts.
\<close>

section \<open>Lists in a text field\<close>

definition sep_heads :: "char set" where
  "sep_heads = hd ` set list_seps"

definition plain_item :: "string \<Rightarrow> bool" where \<comment> \<open>without a byte that begins a separator\<close>
  "plain_item x \<longleftrightarrow> x \<noteq> [] \<and> set x \<inter> sep_heads = {} \<and> trim x = x"

lemma list_seps_nonempty: "w \<in> set list_seps \<Longrightarrow> w \<noteq> []"
  by (auto simp: list_seps_def js_ws_def texts_Settings)

lemma head_seps_None: "c \<notin> sep_heads \<Longrightarrow> head_ws list_seps (c # s) = None"
  using list_seps_nonempty
  by (fastforce simp: head_ws_def find_None_iff sep_heads_def image_iff neq_Nil_conv)

lemma head_seps_comma: "head_ws list_seps (CHR '','' # s) = Some '',''"
  by (simp add: head_ws_def list_seps_def js_ws_def)

lemma split_seps_plain: "set x \<inter> sep_heads = {} \<Longrightarrow> split_seps list_seps word (x @ s) = split_seps list_seps (rev x @ word) s"
  by (induction x arbitrary: word) (simp_all add: head_seps_None)

lemma strip_comma:
  assumes "plain_item x"
  shows "strip_ws list_seps ('', '' @ x @ s) = x @ s"
proof -
  obtain c x' where x: "x = c # x'" "c \<notin> sep_heads" using assms by (cases x) (auto simp: plain_item_def)
  have "head_ws list_seps (CHR '' '' # t) = Some '' ''" for t
    by (simp add: head_ws_def list_seps_def js_ws_def)
  then show ?thesis
    by (subst strip_ws.simps, simp add: head_seps_comma, subst strip_ws.simps) (simp add: x strip_ws_fix head_seps_None)
qed

lemma split_joined:
  "xs \<noteq> [] \<Longrightarrow> list_all plain_item xs \<Longrightarrow> split_seps list_seps [] (join '', '' xs) = xs"
proof (induction xs)
  case Nil
  then show ?case by simp
next
  case (Cons x xs)
  have x: "set x \<inter> sep_heads = {}" using Cons.prems by (simp add: plain_item_def)
  show ?case
  proof (cases xs)
    case Nil
    then show ?thesis using split_seps_plain [OF x, of "[]" "[]"] by simp
  next
    case (Cons y ys)
    then have y: "plain_item y" using Cons.prems by simp
    obtain t where t: "join '', '' xs = y @ t" by (cases ys) (auto simp: Cons)
    have "split_seps list_seps (rev x) ('', '' @ join '', '' xs) = x # split_seps list_seps [] (join '', '' xs)"
      using strip_comma [OF y, of t] by (simp add: t head_seps_comma)
    then show ?thesis using Cons split_seps_plain [OF x, of "[]"] Cons.IH Cons.prems by (simp add: join_Cons)
  qed
qed

lemma list_items_joined: "list_all plain_item xs \<Longrightarrow> list_items (join '', '' xs) = xs"
proof (cases xs)
  case Nil
  then show ?thesis by (simp add: list_items_def)
next
  case (Cons y ys)
  assume a: "list_all plain_item xs"
  then have "map trim xs = xs" "filter (\<lambda>x. x \<noteq> []) xs = xs"
    by (auto simp: list_all_iff plain_item_def map_idI filter_id_conv)
  then show ?thesis using split_joined [OF _ a] Cons by (simp add: list_items_def)
qed

lemma sep_heads_not_digit: "is_digit c \<Longrightarrow> c \<notin> sep_heads"
  by (auto simp: sep_heads_def list_seps_def js_ws_def texts_Settings is_digit_def)

lemma head_ws_disjoint:
  assumes "\<And>w. w \<in> set ws \<Longrightarrow> set w \<inter> set s = {}"
  shows "head_ws ws s = None"
proof -
  have "\<not> prefix w s" if "w \<in> set ws" "w \<noteq> []" for w
    using assms [OF that(1)] that(2) set_mono_prefix [of w s] by (cases w) auto
  then show ?thesis by (auto simp: head_ws_def find_None_iff)
qed

lemma trim_no_ws:
  assumes "\<And>w. w \<in> set js_ws \<Longrightarrow> set w \<inter> set s = {}"
  shows "trim s = s"
proof (rule trim_fix)
  show "head_ws js_ws s = None" using assms by (rule head_ws_disjoint)
  have "set w \<inter> set (rev s) = {}" if w: "w \<in> set (map rev js_ws)" for w
  proof -
    obtain u where "u \<in> set js_ws" "w = rev u" using w by auto
    then show ?thesis using assms [of u] by simp
  qed
  then show "head_ws (map rev js_ws) (rev s) = None" by (rule head_ws_disjoint)
qed

lemma ws_no_digit: "list_all (\<lambda>w. list_all (\<lambda>c. \<not> is_digit c) w) js_ws"
  by (simp add: js_ws_def is_digit_def)

lemma plain_number: "plain_item (nat_str n)"
proof -
  have "trim (nat_str n) = nat_str n"
    by (rule trim_no_ws) (use nat_str_digits [of n] ws_no_digit in \<open>fastforce simp: list_all_iff\<close>)
  then show ?thesis using nat_str_digits [of n] sep_heads_not_digit by (auto simp: plain_item_def)
qed

text \<open>
  
  The list fields of the settings: a list of ports shown in the field and read back is the same list, whether or not the
  field was touched, and so is a list of hosts without separators in them; a text that is not a list of ports
  is sent to the server as it was typed, and whatever is read as ports is in range.
\<close>

theorem list_fields_round_trip:
  assumes "\<forall>p \<in> set ports. 1 \<le> p \<and> p \<le> 65535" and "list_all plain_item hosts"
  shows "parsePortList (JStr (listFieldValue (JArr (map (\<lambda>p. JNum (of_nat p)) ports)))) = JArr (map (\<lambda>p. JNum (of_nat p)) ports)
    \<and> parsePortList (JArr (map (\<lambda>p. JNum (of_nat p)) ports)) = JArr (map (\<lambda>p. JNum (of_nat p)) ports)
    \<and> parseTextList (JStr (listFieldValue (JArr (map JStr hosts)))) = hosts
    \<and> parseTextList (JArr (map JStr hosts)) = hosts
    \<and> (parsePortList (JStr typed) = JStr typed \<or>
        (\<exists>ps. parsePortList (JStr typed) = JArr (map JNum ps) \<and> (\<forall>p \<in> set ps. is_port p)))"
proof -
  have port: "is_port (of_nat p)" if "p \<in> set ports" for p
    using assms(1) that by (auto simp: is_port_def)
  have shown: "listFieldValue (JArr (map (\<lambda>p. JNum (of_nat p)) ports)) = join '', '' (map nat_str ports)"
  proof -
    have "num_str (of_nat p) = nat_str p" for p
      using num_str_int [of "int p"] by (simp add: int_str_def)
    then show ?thesis by (simp add: listFieldValue_def js_nullish_def comp_def)
  qed
  have hosts: "listFieldValue (JArr (map JStr hosts)) = join '', '' hosts"
    by (simp add: listFieldValue_def js_nullish_def comp_def)
  have "list_all plain_item (map nat_str ports)" by (simp add: list_all_iff plain_number)
  then have read: "list_items (join '', '' (map nat_str ports)) = map nat_str ports" by (rule list_items_joined)
  have digits: "list_all (list_all is_digit) (map nat_str ports)"
    using nat_str_digits by (simp add: list_all_iff)
  have "parsePortList (JStr (join '', '' (map nat_str ports))) = JArr (map (\<lambda>p. JNum (of_nat p)) ports)"
  proof (cases "join '', '' (map nat_str ports) = []")
    case True
    then have "ports = []" using read by (simp add: list_items_def)
    then show ?thesis by (simp add: parsePortList_def)
  next
    case False
    then show ?thesis
      using digits port by (simp add: parsePortList_def Let_def read list_all_iff comp_def)
  qed
  moreover have "parsePortList (JArr (map (\<lambda>p. JNum (of_nat p)) ports)) = JArr (map (\<lambda>p. JNum (of_nat p)) ports)"
  proof -
    have "List.map_filter js_number (map (\<lambda>p. JNum (of_nat p)) ports) = map of_nat ports"
      by (induction ports) (simp_all add: js_number_def map_filter_def)
    then show ?thesis using port by (simp add: parsePortList_def filter_id_conv comp_def)
  qed
  moreover have "parseTextList (JStr (join '', '' hosts)) = hosts"
    using list_items_joined [OF assms(2)] by (auto simp: parseTextList_def list_items_def)
  moreover have "parseTextList (JArr (map JStr hosts)) = hosts"
    using assms(2) by (simp add: parseTextList_def comp_def list_all_iff plain_item_def filter_id_conv map_idI)
  moreover have "parsePortList (JStr typed) = JStr typed \<or>
      (\<exists>ps. parsePortList (JStr typed) = JArr (map JNum ps) \<and> (\<forall>p \<in> set ps. is_port p))"
  proof (cases "list_all (list_all is_digit) (list_items typed)
      \<and> list_all is_port (map (\<lambda>p. of_int (dec_val p)) (list_items typed))")
    case True
    let ?ps = "map (\<lambda>p. of_int (dec_val p)) (list_items typed) :: rat list"
    have "typed \<noteq> [] \<Longrightarrow> parsePortList (JStr typed) = JArr (map JNum ?ps)"
      using True by (simp add: parsePortList_def Let_def)
    moreover have "typed = [] \<Longrightarrow> parsePortList (JStr typed) = JArr (map JNum [])"
      by (simp add: parsePortList_def)
    moreover have "\<forall>p \<in> set ?ps. is_port p" using True by (simp add: list_all_iff)
    ultimately show ?thesis by (metis empty_iff list.set(1))
  next
    case False
    then have "parsePortList (JStr typed) = JStr typed \<or> typed = []" by (auto simp: parsePortList_def Let_def)
    then show ?thesis using False by (auto simp: list_items_def)
  qed
  ultimately show ?thesis unfolding shown hosts by blast
qed

theorem list_fields_round_trip_witness:
  "parsePortList (JStr (listFieldValue (JArr [JNum 22, JNum 9999]))) = JArr [JNum 22, JNum 9999]"
  using list_fields_round_trip [of "[22, 9999]" "[]"] by simp

section \<open>Saving the settings\<close>

text \<open>What the code relies on of the browser's \<^verbatim>\<open>URL\<close>: a web address whose host is made of lower-case letters
  and dots is split into its protocol, with the colon, and this host.\<close>

definition letters :: "char set" where
  "letters = set ''abcdefghijklmnopqrstuvwxyz''"

definition host_ok :: "string \<Rightarrow> bool" where
  "host_ok h \<longleftrightarrow> h \<noteq> [] \<and> hd h \<in> letters \<and> set h \<subseteq> insert (CHR ''.'') letters"

definition path_ok :: "string \<Rightarrow> bool" where
  "path_ok p \<longleftrightarrow> (p = [] \<or> hd p = CHR ''/'') \<and> set p \<subseteq> insert (CHR ''/'') letters"

definition url_splits :: "url_parts \<Rightarrow> bool" where
  "url_splits url \<longleftrightarrow> (\<forall>scheme host path. scheme \<in> {''http'', ''https''} \<and> host_ok host \<and> path_ok path \<longrightarrow>
     url (scheme @ ''://'' @ host @ path) = Some (scheme @ '':'', host))"

lemma spread_lookup:
  assumes "distinct (map fst b)"
  shows "map_of (spread a b) k = (case map_of b k of None \<Rightarrow> map_of a k | Some v \<Rightarrow> Some v)"
proof -
  have "map_of (rev b) = map_of b"
    by (rule map_of_inject_set [THEN iffD2]) (use assms in \<open>simp_all add: rev_map [symmetric]\<close>)
  then show ?thesis
    unfolding spread_def js_map.get_put_all by (simp add: map_add_def)
qed

lemma form_lookup:
  "map_of (settings_form url (Some stored)) k =
     (if k = ''public_host'' then Some (JStr (publicHostInputValue url (field_of stored ''public_host''))) else map_of stored k)"
  by (simp add: settings_form_def js_map.get_put)

lemma form_distinct: "distinct (map fst stored) \<Longrightarrow> distinct (map fst (settings_form url (Some stored)))"
  by (simp add: settings_form_def js_map.distinct_put)

lemma web_text:
  assumes "set s \<subseteq> insert (CHR ''.'') (insert (CHR ''/'') (insert (CHR '':'') letters))"
  shows "trim s = s"
proof (rule trim_no_ws)
  have "list_all (\<lambda>w. list_all (\<lambda>c. c \<notin> insert (CHR ''.'') (insert (CHR ''/'') (insert (CHR '':'') letters))) w) js_ws"
    by (simp add: js_ws_def letters_def)
  then show "set w \<inter> set s = {}" if "w \<in> set js_ws" for w
    using that assms by (fastforce simp: list_all_iff)
qed

lemma no_colon_in_host: "set h \<subseteq> insert (CHR ''.'') letters \<Longrightarrow> \<not> str_includes h ''://''"
proof
  assume h: "set h \<subseteq> insert (CHR ''.'') letters" and "str_includes h ''://''"
  then obtain i t where "h = take i h @ ''://'' @ t" using indexOf_Some [of h "''://''"] by (auto simp: str_includes_def)
  then have "CHR '':'' \<in> set h" by (metis in_set_conv_decomp append_Cons)
  then show False using h by (auto simp: letters_def)
qed

lemma colon_in_url: "str_includes (s @ ''://'' @ t) ''://''"
proof (induction s)
  case Nil
  then show ?case by (simp add: str_includes_def)
next
  case (Cons c s)
  then show ?case by (auto simp: str_includes_def)
qed

lemma shown_host:
  assumes "url_splits url" "host_ok host" "path_ok path" "scheme \<in> {''http'', ''https''}"
  shows "publicHostInputValue url (JStr (scheme @ ''://'' @ host @ path)) = host"
proof -
  have "trim (scheme @ ''://'' @ host @ path) = scheme @ ''://'' @ host @ path"
  proof (rule web_text)
    have "set scheme \<subseteq> letters" using assms(4) by (auto simp: letters_def)
    moreover have "set host \<subseteq> insert (CHR ''.'') letters" "set path \<subseteq> insert (CHR ''/'') letters"
      using assms(2,3) by (simp_all add: host_ok_def path_ok_def)
    ultimately show "set (scheme @ ''://'' @ host @ path)
        \<subseteq> insert (CHR ''.'') (insert (CHR ''/'') (insert (CHR '':'') letters))" by auto
  qed
  moreover have "url (scheme @ ''://'' @ host @ path) = Some (scheme @ '':'', host)"
    using assms by (simp add: url_splits_def)
  ultimately show ?thesis
    using colon_in_url [of scheme "host @ path"] by (simp add: publicHostInputValue_def js_text_def Let_def)
qed

lemma built_host:
  assumes "url_splits url" "host_ok host"
  shows "buildPublicHost url (JStr host) webPath trust =
     (if trust then ''https'' else ''http'') @ ''://'' @ host @ normal_path (js_text webPath)"
proof -
  have h: "set host \<subseteq> insert (CHR ''.'') letters" "host \<noteq> []" using assms(2) by (auto simp: host_ok_def)
  have "trim host = host" by (rule web_text) (use h in auto)
  moreover have "url (s @ ''://'' @ host) = Some (s @ '':'', host)" if "s \<in> {''http'', ''https''}" for s
    using assms(1) [unfolded url_splits_def, rule_format, of s host "[]"] assms(2) that by (simp add: path_ok_def)
  ultimately show ?thesis
    using h no_colon_in_host [OF h(1)] by (simp add: buildPublicHost_def js_text_def Let_def)
qed

text \<open>
  
  Saving the settings form as it was loaded sends back every stored setting as it is, keeps the password out unless
  one was stored in the clear, and lists of valid ports and of hosts unchanged; only the public address is rebuilt: its
  host is kept, its path becomes the base path of the panel and its scheme follows the proxy switch, whatever scheme was stored.
\<close>

theorem unchanged_settings_save:
  assumes "url_splits url" and "distinct (map fst stored)" and "host_ok host" and "path_ok path" and "scheme \<in> {''http'', ''https''}"
    and "map_of stored ''public_host'' = Some (JStr (scheme @ ''://'' @ host @ path))"
    and "p = settingsPayload url (Some stored) (settings_form url (Some stored))"
  shows "(\<forall>k. k \<notin> {''panel_password'', ''public_host'', ''management_direct_hosts'', ''management_direct_ports''} \<longrightarrow>
        map_of p k = map_of stored k)
    \<and> field_of p ''panel_password'' = or_empty (field_of stored ''panel_password'')
    \<and> field_of p ''public_host'' = JStr ((if field_of stored ''trust_proxy'' = JBool True then ''https'' else ''http'')
        @ ''://'' @ host @ normal_path (js_text (field_of stored ''web_base_path'')))
    \<and> (has_key stored ''management_direct_ports'' \<longrightarrow>
        field_of p ''management_direct_ports'' = parsePortList (field_of stored ''management_direct_ports''))
    \<and> (has_key stored ''management_direct_hosts'' \<longrightarrow>
        field_of p ''management_direct_hosts'' = jstrs (parseTextList (field_of stored ''management_direct_hosts'')))"
proof -
  let ?form = "settings_form url (Some stored)"
  have base: "map_of (spread stored ?form) k = map_of ?form k" for k
    using spread_lookup [OF form_distinct [OF assms(2), where url = url], where a = stored and k = k]
    by (auto simp: form_lookup split: option.splits)
  have host: "map_of ?form ''public_host'' = Some (JStr host)"
    using shown_host [OF assms(1,3,4,5)] by (simp add: form_lookup js_field_def assms(6))
  show ?thesis
    unfolding assms(7) settingsPayload_def Let_def
    using host built_host [OF assms(1,3)]
    by (simp add: has_key_def js_field_def js_map.get_put base form_lookup)
qed

definition simple_url :: url_parts where
  "simple_url s =
     (if startsWith s ''http://'' then Some (''http:'', takeWhile (\<lambda>c. c \<noteq> CHR ''/'') (drop 7 s))
      else if startsWith s ''https://'' then Some (''https:'', takeWhile (\<lambda>c. c \<noteq> CHR ''/'') (drop 8 s))
      else None)"

lemma simple_url_splits: "url_splits simple_url"
proof -
  have cut: "takeWhile (\<lambda>c. c \<noteq> CHR ''/'') (host @ path) = host" if "host_ok host" "path_ok path" for host path
  proof -
    have "\<forall>c \<in> set host. c \<noteq> CHR ''/''" using that(1) by (auto simp: host_ok_def letters_def)
    moreover have "takeWhile (\<lambda>c. c \<noteq> CHR ''/'') path = []"
      using that(2) by (cases path) (auto simp: path_ok_def)
    ultimately show ?thesis by simp
  qed
  have "simple_url (scheme @ ''://'' @ host @ path) = Some (scheme @ '':'', host)"
    if ok: "scheme \<in> {''http'', ''https''}" "host_ok host" "path_ok path" for scheme host path
  proof (cases "scheme = ''http''")
    case True
    then show ?thesis using cut [OF ok(2,3)] by (simp add: simple_url_def startsWith_def)
  next
    case False
    then have "scheme = ''https''" using ok(1) by simp
    then show ?thesis using cut [OF ok(2,3)] by (simp add: simple_url_def startsWith_def)
  qed
  then show ?thesis unfolding url_splits_def by blast
qed

definition stored_settings :: settings where
  "stored_settings = [(''public_host'', JStr (''https'' @ ''://'' @ ''panel.example.com'' @ ''/panel'')),
     (''trust_proxy'', JBool False), (''web_base_path'', JStr ''/panel''), (''panel_port'', JNum 9999)]"

theorem unchanged_settings_save_witness:
  "field_of (settingsPayload simple_url (Some stored_settings) (settings_form simple_url (Some stored_settings))) ''public_host''
     = JStr ''http://panel.example.com/panel''"
proof -
  have "distinct (map fst stored_settings)" "host_ok ''panel.example.com''" "path_ok ''/panel''"
    by (simp_all add: stored_settings_def host_ok_def path_ok_def letters_def)
  moreover have "map_of stored_settings ''public_host'' = Some (JStr (''https'' @ ''://'' @ ''panel.example.com'' @ ''/panel''))"
    by (simp add: stored_settings_def)
  ultimately have "field_of (settingsPayload simple_url (Some stored_settings) (settings_form simple_url (Some stored_settings))) ''public_host''
      = JStr ((if field_of stored_settings ''trust_proxy'' = JBool True then ''https'' else ''http'')
          @ ''://'' @ ''panel.example.com'' @ normal_path (js_text (field_of stored_settings ''web_base_path'')))"
    using unchanged_settings_save [OF simple_url_splits, of stored_settings "''panel.example.com''" "''/panel''" "''https''"] by blast
  moreover have "normal_path ''/panel'' = ''/panel''"
    using web_text [of "''/panel''"] by (simp add: normal_path_def strip_slashes_def letters_def)
  ultimately show ?thesis by (simp add: stored_settings_def js_field_def js_text_def)
qed

section \<open>Certificates and the inbounds chosen for them\<close>

text \<open>The states of the manager, with the certificate that was current when an inbound was last ticked.\<close>

inductive cert_reach :: "cert_page \<Rightarrow> (int \<Rightarrow> int option) \<Rightarrow> bool" where
  start: "cert_reach cert_start (\<lambda>_. None)"
| step: "cert_reach s g \<Longrightarrow>
    cert_reach (cert_step e s) (case e of ToggleInboundId n \<Rightarrow> g(n := currentCertId s) | _ \<Rightarrow> g)"

lemma currentCertId_cong:
  "ct_certificates s = ct_certificates t \<Longrightarrow> ct_selectedCertId s = ct_selectedCertId t \<Longrightarrow> currentCertId s = currentCertId t"
  by (simp only: currentCertId_def selectedCertificate_def)

lemma settle_inputs [simp]:
  "ct_selectedInboundIds (settle_email (settle_domains s)) = ct_selectedInboundIds s"
  "ct_appliedSelectionCertId (settle_email (settle_domains s)) = ct_appliedSelectionCertId s"
  "ct_certificates (settle_email (settle_domains s)) = ct_certificates s"
  "ct_selectedCertId (settle_email (settle_domains s)) = ct_selectedCertId s"
  by (simp_all add: settle_email_def settle_domains_def)

lemma settle_applied: "ct_appliedSelectionCertId (settle s) = currentCertId (settle s)"
  "currentCertId (settle s) = currentCertId s"
  "ct_selectedInboundIds (settle s) =
     (if ct_appliedSelectionCertId s = currentCertId s then ct_selectedInboundIds s else [])"
proof -
  have kept: "currentCertId (settle_email (settle_domains s)) = currentCertId s"
    by (rule currentCertId_cong) simp_all
  have "ct_certificates (settle s) = ct_certificates s" "ct_selectedCertId (settle s) = ct_selectedCertId s"
    by (simp_all add: settle_def settle_selection_def Let_def)
  then show c: "currentCertId (settle s) = currentCertId s" by (rule currentCertId_cong)
  show "ct_appliedSelectionCertId (settle s) = currentCertId (settle s)" unfolding c
    by (simp add: settle_def settle_selection_def Let_def kept)
  show "ct_selectedInboundIds (settle s) =
     (if ct_appliedSelectionCertId s = currentCertId s then ct_selectedInboundIds s else [])"
    by (simp add: settle_def settle_selection_def Let_def shouldClearForActual_def kept)
qed

lemma handle_selection:
  assumes "ct_selectedInboundIds (cert_handle e s) \<noteq> []"
  shows "ct_appliedSelectionCertId (cert_handle e s) = ct_appliedSelectionCertId s"
  using assms by (auto simp: cert_handle_def Let_def split: cert_event.splits if_splits)

lemma handle_ids:
  "set (ct_selectedInboundIds (cert_handle e s)) \<subseteq>
     (case e of ToggleInboundId n \<Rightarrow> insert n (set (ct_selectedInboundIds s)) | _ \<Rightarrow> set (ct_selectedInboundIds s))"
  "distinct (ct_selectedInboundIds s) \<Longrightarrow> distinct (ct_selectedInboundIds (cert_handle e s))"
  by (auto simp: cert_handle_def Let_def toggleID_def split: cert_event.splits)

lemma cert_inv:
  "cert_reach s g \<Longrightarrow> ct_appliedSelectionCertId s = currentCertId s \<and> distinct (ct_selectedInboundIds s)
     \<and> (\<forall>i \<in> set (ct_selectedInboundIds s). g i = currentCertId s)"
proof (induction rule: cert_reach.induct)
  case start
  then show ?case by (simp add: cert_start_def currentCertId_def selectedCertificate_def)
next
  case (step s g e)
  let ?s = "cert_handle e s"
  show ?case
  proof (cases "ct_appliedSelectionCertId ?s = currentCertId ?s \<and> ct_selectedInboundIds ?s \<noteq> []")
    case True
    then have "currentCertId ?s = currentCertId s" using handle_selection [of e s] step.IH by simp
    then show ?thesis using True step.IH handle_ids [where e = e and s = s]
      by (cases e) (auto simp: cert_step_def settle_applied)
  next
    case False
    then show ?thesis using settle_applied [of ?s] by (auto simp: cert_step_def)
  qed
qed


definition sample_cert :: "int \<Rightarrow> certificate" where
  "sample_cert n = \<lparr>mc_id = n, mc_name = ''a'', mc_source = ''acme'', mc_status = ''issued'', mc_domains = [''a.example''],
     mc_cert_path = ''/c'', mc_key_path = ''/k'', mc_not_after = None, mc_last_error = None, mc_usage_count = 0\<rparr>"

definition chosen_page :: cert_page where
  "chosen_page = cert_step (ToggleInboundId 7) (cert_step (CertificatesLoaded [sample_cert 4]) cert_start)"


text \<open>
  
  An answer to an old precheck releases the request: the inputs can be edited while a precheck is on its way, and its answer
  is then taken for one about the new domains. There is a run after which the manager would request a
  certificate for a domain although no precheck was ever made for it.
\<close>

theorem late_precheck_releases_request:
  "\<exists>es s. s = fold cert_step es cert_start
     \<and> create_request s = Some (CreateCertificate [''b.example''] ''ops'')
     \<and> {q. \<exists>r. PreflightAnswer q r \<in> set es} = {([''a.example''], ''ops'')}"
proof -
  have plain: "plain_item ''a.example''" "plain_item ''b.example''"
    by (simp_all add: plain_item_def sep_heads_def list_seps_def js_ws_def texts_Settings trim_fix head_ws_def)
  have split: "split_seps list_seps [] ''a.example'' = [''a.example'']" "split_seps list_seps [] ''b.example'' = [''b.example'']"
    using plain split_joined [of "[''a.example'']"] split_joined [of "[''b.example'']"] by simp_all
  have domains: "parseDomains (Inl ''a.example'') = [''a.example'']" "parseDomains (Inl ''b.example'') = [''b.example'']"
    using plain unfolding plain_item_def
    by (simp_all add: parseDomains_def split lower_char_def del: split_seps.simps)
  let ?es = "[TypeEmail ''ops'', TypeDomains ''a.example'', AskPreflight, TypeDomains ''b.example'',
     PreflightAnswer ([''a.example''], ''ops'') \<lparr>pf_ok = True, pf_checks = []\<rparr>]"
  have "create_request (fold cert_step ?es cert_start) = Some (CreateCertificate [''b.example''] ''ops'')"
    by (simp add: cert_step_def cert_handle_def cert_start_def settle_def settle_domains_def settle_email_def
        settle_selection_def shouldClearForActual_def currentCertId_def selectedCertificate_def canRequest_def asked_for_def
        cert_busy_def domains create_request_def create_enabled_def Let_def)
  then show ?thesis by (intro exI [of _ ?es] exI conjI refl) auto
qed

section \<open>The precheck in an error\<close>

definition error_precheck :: "response \<Rightarrow> jsval" where \<comment> \<open>where the server puts it\<close>
  "error_precheck r =
     js_field (js_field (js_field (case parseResponse r of Some v \<Rightarrow> v | None \<Rightarrow> JNull) ''error'') ''fields'') ''preflight''"

lemma field_object: "js_field v k \<noteq> JUndef \<Longrightarrow> is_object v"
  by (cases v) (simp_all add: js_field_def is_object_def)

lemma not_object_field: "\<not> is_object v \<Longrightarrow> js_field v k = JUndef"
  using field_object by blast

lemma precheck_of_standard_error:
  "(case se_fields (readStandardError payload) of None \<Rightarrow> JUndef | Some fs \<Rightarrow> js_field fs ''preflight'')
     = js_field (js_field (js_field payload ''error'') ''fields'') ''preflight''"
proof -
  have undefined: "js_field JUndef k = JUndef" for k by (simp add: js_field_def)
  show ?thesis
    by (cases "is_object payload"; cases "is_object (js_field payload ''error'')";
        cases "is_object (js_field (js_field payload ''error'') ''fields'')")
      (simp_all add: readStandardError_def Let_def not_object_field undefined)
qed

text \<open>
  C40.
  A precheck taken from a failed request: there is one exactly when the error of the answer carries a precheck with a verdict
  and a list of checks, whatever else the server sent; the verdict is the server's and the list holds exactly those
  of its checks that have a code and a status in text, in order. A request without an answer gives none.
\<close>

theorem error_precheck_is_well_formed:
  assumes "fst (apiFetch_response w path (Some r)) = Inl err"
  shows "(preflightFromAPIError err = Some p \<longleftrightarrow>
      (\<exists>cs. js_field (error_precheck r) ''ok'' = JBool (pf_ok p) \<and> js_field (error_precheck r) ''checks'' = JArr cs
         \<and> pf_checks p = filter (\<lambda>c. \<exists>code st. js_field c ''code'' = JStr code \<and> js_field c ''status'' = JStr st) cs))
    \<and> preflightFromAPIError NetworkFailure = None"
proof -
  let ?payload = "case parseResponse r of Some v \<Rightarrow> v | None \<Rightarrow> JNull"
  have "\<not> rs_ok r" using assms by (auto simp: apiFetch_response_def Let_def split: if_splits)
  then obtain e where e: "err = ApiFailure e" "ae_fields e = se_fields (readStandardError ?payload)"
    using assms by (auto simp: apiFetch_response_def Let_def new_api_error_def)
  have textual: "string_valued v \<longleftrightarrow> (\<exists>s. v = JStr s)" for v by (cases v) (simp_all add: string_valued_def)
  have check: "is_check c \<longleftrightarrow> (\<exists>code st. js_field c ''code'' = JStr code \<and> js_field c ''status'' = JStr st)" for c
    using field_object [of c "''code''"] by (auto simp: is_check_def textual)
  have "preflightFromAPIError err =
      (if \<not> is_object (error_precheck r) then None
       else (case (js_field (error_precheck r) ''ok'', js_field (error_precheck r) ''checks'') of
               (JBool ok, JArr checks) \<Rightarrow> Some \<lparr>pf_ok = ok, pf_checks = filter is_check checks\<rparr>
             | _ \<Rightarrow> None))"
    unfolding e(1) preflightFromAPIError_def failure.case e(2) Let_def precheck_of_standard_error
    by (simp only: error_precheck_def)
  moreover have "is_check = (\<lambda>c. \<exists>code st. js_field c ''code'' = JStr code \<and> js_field c ''status'' = JStr st)"
    by (rule ext) (rule check)
  moreover have "is_object (error_precheck r)" if "js_field (error_precheck r) ''ok'' = JBool b" for b
    using field_object [of "error_precheck r" "''ok''"] that by simp
  ultimately show ?thesis
    by (cases p) (auto simp: preflightFromAPIError_def split: jsval.splits)
qed

definition refused_request :: response where
  "refused_request = \<lparr>rs_status = 409, rs_status_text = ''Conflict'', rs_content_type = Some ''application/json'',
     rs_json = Some (JObj [(''error'', JObj [(''fields'', JObj [(''preflight'',
       JObj [(''ok'', JBool False), (''checks'', JArr [JStr ''dns''])])])])]), rs_text = None\<rparr>"

theorem error_precheck_is_well_formed_witness:
  "\<exists>err. fst (apiFetch_response sample_settings_page ''/api/certificates'' (Some refused_request)) = Inl err
     \<and> preflightFromAPIError err = Some \<lparr>pf_ok = False, pf_checks = []\<rparr>"
proof -
  have "str_includes ''application/json'' ''application/json''" by (simp add: str_includes_def)
  then have payload: "parseResponse refused_request = rs_json refused_request"
    by (simp add: parseResponse_def refused_request_def)
  have "\<not> rs_ok refused_request" by (simp add: rs_ok_def refused_request_def)
  then obtain err where err: "fst (apiFetch_response sample_settings_page ''/api/certificates'' (Some refused_request)) = Inl err"
    by (simp add: apiFetch_response_def Let_def)
  then show ?thesis
    using error_precheck_is_well_formed [OF err, where p = "\<lparr>pf_ok = False, pf_checks = []\<rparr>"]
    by (simp add: error_precheck_def payload) (simp add: refused_request_def js_field_def)
qed

section \<open>Watching an update\<close>

text \<open>
  C38.
  Following an update: while the last status says that it is under way, the status is asked for again, whatever happened before; the
  watch is never on with a settled answer; and an update accepted while no settled answer is known is watched, with the
  check, the version, the logs and the service polled. But an update accepted while the last status is a settled one, as the
  idle status before the first update is, loses its watch at once: the five queries are asked one more time and no longer polled.
\<close>

theorem update_is_followed:
  assumes "s = fold watch_step es watch_start"
  shows "(isUpdateInProgress (ostr (ws_status s)) \<longrightarrow> asks_again s)
    \<and> \<not> (ws_watching s \<and> settled_answer s)
    \<and> (\<not> settled_answer s \<longrightarrow> dependencies_polled (watch_step UpdateAccepted s) \<and> asks_again (watch_step UpdateAccepted s))
    \<and> (settled_answer s \<longrightarrow> \<not> dependencies_polled (watch_step UpdateAccepted s) \<and> \<not> asks_again (watch_step UpdateAccepted s)
        \<and> (\<exists>calls. ws_calls (watch_step UpdateAccepted s) = ws_calls s @ calls
            \<and> (\<forall>q \<in> {''update-status'', ''update-logs'', ''service-status'', ''version'', ''update-check''}. asked_anew calls [q])))"
proof -
  have settled: "\<not> (ws_watching s \<and> settled_answer s)" using watch_settled [of es] assms by simp
  have polled: "dependencies_polled t = ws_watching t" for t
    by (simp add: dependencies_polled_def updateDependencyRefetchInterval_def)
  have asks: "asks_again t \<longleftrightarrow> ws_watching t \<or> isUpdateInProgress (ostr (ws_status t))" for t
    by (simp add: asks_again_def updateStatusRefetchInterval_def)
  have same: "ws_status (watch_step UpdateAccepted s) = ws_status s"
    by (simp add: watch_step_def Let_def watch_handle_def update_accepted_def)
  have watching: "ws_watching (watch_step UpdateAccepted s) \<longleftrightarrow> \<not> settled_answer s"
  proof (cases "ws_watching s")
    case True
    then show ?thesis using settled
      by (simp add: watch_step_def Let_def watch_handle_def update_accepted_def watched_def)
  next
    case False
    then show ?thesis
      by (simp add: watch_step_def Let_def watch_handle_def update_accepted_def watched_def watch_effect_watching)
        (simp add: settled_answer_def)
  qed
  have final: "\<not> isUpdateInProgress (ostr (ws_status s))" if "settled_answer s"
    using that progress_is_not_final by (auto simp: settled_answer_def)
  have calls: "\<exists>calls. ws_calls (watch_step UpdateAccepted s) = ws_calls s @ calls
      \<and> (\<forall>q \<in> {''update-status'', ''update-logs'', ''service-status'', ''version'', ''update-check''}. asked_anew calls [q])"
    if a: "settled_answer s"
  proof -
    let ?qs = "refreshQueries [[''update-status''], [''update-logs''], [''service-status''], [''version''], [''update-check'']]"
    have off: "\<not> ws_watching s" using settled a by simp
    have "\<exists>more. ws_calls (watch_step UpdateAccepted s) =
        ws_calls s @ (refreshUpdateDependencies @ refreshQuery [''update-logs'']) @ ?qs @ more"
      using a off
      by (auto simp: watch_step_def Let_def watch_handle_def update_accepted_def watched_def watch_effect_def
          recheck_effect_def settled_answer_def)
    moreover have "\<forall>q \<in> {''update-status'', ''update-logs'', ''service-status'', ''version'', ''update-check''}. asked_anew ?qs [q]"
      by (simp add: asked_anew_queries)
    ultimately show ?thesis by fastforce
  qed
  show ?thesis using settled watching final calls by (simp add: polled asks same)
qed

theorem update_is_followed_witness:
  "\<not> dependencies_polled (fold watch_step [StatusAnswer ''idle'', UpdateAccepted] watch_start)"
proof -
  have "settled_answer (fold watch_step [StatusAnswer ''idle''] watch_start)"
    by (simp add: watch_start_def watch_step_def Let_def watch_handle_def watched_def watch_effect_def recheck_effect_def
        settled_answer_def isUpdateTerminal_def lower_char_def)
  then show ?thesis using update_is_followed [OF refl, of "[StatusAnswer ''idle'']"] by simp
qed

end
