(* ===== verification/SettingsActions.thy ===== *)
theory SettingsActions
  imports Certificates Updates OutboundForms
begin

text \<open>
  What the buttons of \<^verbatim>\<open>routes/SettingsPage.tsx\<close> do: the question that is asked first, the request, and what the page
  does with the answer, that is the message, the fields it empties and the queries it asks anew. \<open>settings_page\<close> is the state
  that these mutations touch: the form, the certificate manager of theory \<open>Certificates\<close>, the import form, the session
  being revoked, and the watch of theory \<open>Updates\<close>.
\<close>

section \<open>Texts\<close>

text \<open>The non-ASCII texts of this part of the user interface, as UTF-8 bytes.\<close>

definition zh_sa_q_restart :: string where
  "zh_sa_q_restart = [CHR 0xE9, CHR 0x87, CHR 0x8D, CHR 0xE5, CHR 0x90, CHR 0xAF, CHR 0x20, CHR 0x4D, CHR 0x69, CHR 0x47,
    CHR 0x61, CHR 0x74, CHR 0x65, CHR 0x20, CHR 0xE6, CHR 0x9C, CHR 0x8D, CHR 0xE5, CHR 0x8A, CHR 0xA1,
    CHR 0xEF, CHR 0xBC, CHR 0x9F]"

definition zh_sa_d_restart :: string where
  "zh_sa_d_restart = [CHR 0xE6, CHR 0x9C, CHR 0x8D, CHR 0xE5, CHR 0x8A, CHR 0xA1, CHR 0xE9, CHR 0x87, CHR 0x8D, CHR 0xE5,
    CHR 0x90, CHR 0xAF, CHR 0xE5, CHR 0x90, CHR 0x8E, CHR 0xE5, CHR 0xBD, CHR 0x93, CHR 0xE5, CHR 0x89,
    CHR 0x8D, CHR 0xE8, CHR 0xBF, CHR 0x9E, CHR 0xE6, CHR 0x8E, CHR 0xA5, CHR 0xE5, CHR 0x8F, CHR 0xAF,
    CHR 0xE8, CHR 0x83, CHR 0xBD, CHR 0xE7, CHR 0x9F, CHR 0xAD, CHR 0xE6, CHR 0x9A, CHR 0x82, CHR 0xE4,
    CHR 0xB8, CHR 0xAD, CHR 0xE6, CHR 0x96, CHR 0xAD, CHR 0xE3, CHR 0x80, CHR 0x82]"

definition zh_sa_q_renew :: string where
  "zh_sa_q_renew = [CHR 0xE6, CHR 0xA3, CHR 0x80, CHR 0xE6, CHR 0x9F, CHR 0xA5, CHR 0xE5, CHR 0xB9, CHR 0xB6, CHR 0xE7,
    CHR 0xBB, CHR 0xAD, CHR 0xE6, CHR 0x9C, CHR 0x9F, CHR 0xE8, CHR 0xAF, CHR 0x81, CHR 0xE4, CHR 0xB9,
    CHR 0xA6, CHR 0xEF, CHR 0xBC, CHR 0x9F]"

definition zh_sa_d_renew :: string where
  "zh_sa_d_renew = [CHR 0x33, CHR 0x30, CHR 0x20, CHR 0xE5, CHR 0xA4, CHR 0xA9, CHR 0xE5, CHR 0x86, CHR 0x85, CHR 0xE5,
    CHR 0x88, CHR 0xB0, CHR 0xE6, CHR 0x9C, CHR 0x9F, CHR 0xE7, CHR 0x9A, CHR 0x84, CHR 0x20, CHR 0x41,
    CHR 0x43, CHR 0x4D, CHR 0x45, CHR 0x20, CHR 0xE8, CHR 0xAF, CHR 0x81, CHR 0xE4, CHR 0xB9, CHR 0xA6,
    CHR 0xE4, CHR 0xBC, CHR 0x9A, CHR 0xE5, CHR 0xB0, CHR 0x9D, CHR 0xE8, CHR 0xAF, CHR 0x95, CHR 0xE7,
    CHR 0xBB, CHR 0xAD, CHR 0xE6, CHR 0x9C, CHR 0x9F, CHR 0xE3, CHR 0x80, CHR 0x82]"

definition zh_sa_q_create :: string where
  "zh_sa_q_create = [CHR 0xE7, CHR 0x94, CHR 0xB3, CHR 0xE8, CHR 0xAF, CHR 0xB7, CHR 0x20, CHR 0x54, CHR 0x4C, CHR 0x53,
    CHR 0x20, CHR 0xE8, CHR 0xAF, CHR 0x81, CHR 0xE4, CHR 0xB9, CHR 0xA6, CHR 0xEF, CHR 0xBC, CHR 0x9F]"

definition zh_sa_d_create :: string where
  "zh_sa_d_create = [CHR 0x4D, CHR 0x69, CHR 0x47, CHR 0x61, CHR 0x74, CHR 0x65, CHR 0x20, CHR 0xE5, CHR 0xB0, CHR 0x86,
    CHR 0xE6, CHR 0x89, CHR 0xA7, CHR 0xE8, CHR 0xA1, CHR 0x8C, CHR 0x20, CHR 0x48, CHR 0x54, CHR 0x54,
    CHR 0x50, CHR 0x2D, CHR 0x30, CHR 0x31, CHR 0x20, CHR 0xE9, CHR 0xA2, CHR 0x84, CHR 0xE6, CHR 0xA3,
    CHR 0x80, CHR 0xE6, CHR 0x9F, CHR 0xA5, CHR 0xE5, CHR 0x92, CHR 0x8C, CHR 0x20, CHR 0x41, CHR 0x43,
    CHR 0x4D, CHR 0x45, CHR 0x20, CHR 0xE7, CHR 0xAD, CHR 0xBE, CHR 0xE5, CHR 0x8F, CHR 0x91, CHR 0xEF,
    CHR 0xBC, CHR 0x8C, CHR 0xE5, CHR 0x8F, CHR 0xAF, CHR 0xE8, CHR 0x83, CHR 0xBD, CHR 0xE7, CHR 0x9F,
    CHR 0xAD, CHR 0xE6, CHR 0x9A, CHR 0x82, CHR 0xE5, CHR 0x8D, CHR 0xA0, CHR 0xE7, CHR 0x94, CHR 0xA8,
    CHR 0x20, CHR 0x38, CHR 0x30, CHR 0x20, CHR 0xE7, CHR 0xAB, CHR 0xAF, CHR 0xE5, CHR 0x8F, CHR 0xA3,
    CHR 0xE3, CHR 0x80, CHR 0x82]"

definition zh_sa_q_import :: string where
  "zh_sa_q_import = [CHR 0xE5, CHR 0xAF, CHR 0xBC, CHR 0xE5, CHR 0x85, CHR 0xA5, CHR 0x20, CHR 0x54, CHR 0x4C, CHR 0x53,
    CHR 0x20, CHR 0xE8, CHR 0xAF, CHR 0x81, CHR 0xE4, CHR 0xB9, CHR 0xA6, CHR 0xEF, CHR 0xBC, CHR 0x9F]"

definition zh_sa_d_import :: string where
  "zh_sa_d_import = [CHR 0xE5, CHR 0xAF, CHR 0xBC, CHR 0xE5, CHR 0x85, CHR 0xA5, CHR 0xE5, CHR 0x90, CHR 0x8E, CHR 0xE8,
    CHR 0xAF, CHR 0x81, CHR 0xE4, CHR 0xB9, CHR 0xA6, CHR 0xE5, CHR 0x92, CHR 0x8C, CHR 0xE7, CHR 0xA7,
    CHR 0x81, CHR 0xE9, CHR 0x92, CHR 0xA5, CHR 0xE4, CHR 0xBC, CHR 0x9A, CHR 0xE5, CHR 0x86, CHR 0x99,
    CHR 0xE5, CHR 0x85, CHR 0xA5, CHR 0x20, CHR 0x2F, CHR 0x65, CHR 0x74, CHR 0x63, CHR 0x2F, CHR 0x6D,
    CHR 0x69, CHR 0x67, CHR 0x61, CHR 0x74, CHR 0x65, CHR 0x2F, CHR 0x63, CHR 0x65, CHR 0x72, CHR 0x74,
    CHR 0x73, CHR 0xE3, CHR 0x80, CHR 0x82]"

definition zh_sa_q_apply :: string where
  "zh_sa_q_apply = [CHR 0xE5, CHR 0xBA, CHR 0x94, CHR 0xE7, CHR 0x94, CHR 0xA8, CHR 0xE8, CHR 0xAF, CHR 0x81, CHR 0xE4,
    CHR 0xB9, CHR 0xA6, CHR 0xE5, CHR 0x88, CHR 0xB0, CHR 0xE5, CHR 0x85, CHR 0xA5, CHR 0xE7, CHR 0xAB,
    CHR 0x99, CHR 0xEF, CHR 0xBC, CHR 0x9F]"

definition zh_sa_d_apply1 :: string where
  "zh_sa_d_apply1 = [CHR 0xE5, CHR 0xB0, CHR 0x86, CHR 0xE6, CHR 0x8A, CHR 0x8A, CHR 0xE5, CHR 0xBD, CHR 0x93, CHR 0xE5,
    CHR 0x89, CHR 0x8D, CHR 0xE8, CHR 0xAF, CHR 0x81, CHR 0xE4, CHR 0xB9, CHR 0xA6, CHR 0xE5, CHR 0xBA,
    CHR 0x94, CHR 0xE7, CHR 0x94, CHR 0xA8, CHR 0xE5, CHR 0x88, CHR 0xB0, CHR 0xE9, CHR 0x80, CHR 0x89,
    CHR 0xE4, CHR 0xB8, CHR 0xAD, CHR 0xE7, CHR 0x9A, CHR 0x84, CHR 0x20]"

definition zh_sa_d_apply2 :: string where
  "zh_sa_d_apply2 = [CHR 0x20, CHR 0xE4, CHR 0xB8, CHR 0xAA, CHR 0xE5, CHR 0x85, CHR 0xA5, CHR 0xE7, CHR 0xAB, CHR 0x99,
    CHR 0xEF, CHR 0xBC, CHR 0x8C, CHR 0xE5, CHR 0xB9, CHR 0xB6, CHR 0xE9, CHR 0x87, CHR 0x8D, CHR 0xE6,
    CHR 0x96, CHR 0xB0, CHR 0xE5, CHR 0xBA, CHR 0x94, CHR 0xE7, CHR 0x94, CHR 0xA8, CHR 0xE5, CHR 0xAF,
    CHR 0xB9, CHR 0xE5, CHR 0xBA, CHR 0x94, CHR 0xE6, CHR 0xA0, CHR 0xB8, CHR 0xE5, CHR 0xBF, CHR 0x83,
    CHR 0xE9, CHR 0x85, CHR 0x8D, CHR 0xE7, CHR 0xBD, CHR 0xAE, CHR 0xE3, CHR 0x80, CHR 0x82]"

definition zh_sa_q_delete :: string where
  "zh_sa_q_delete = [CHR 0xE5, CHR 0x88, CHR 0xA0, CHR 0xE9, CHR 0x99, CHR 0xA4, CHR 0xE8, CHR 0xAF, CHR 0x81, CHR 0xE4,
    CHR 0xB9, CHR 0xA6, CHR 0xEF, CHR 0xBC, CHR 0x9F]"

definition zh_sa_d_delete :: string where
  "zh_sa_d_delete = [CHR 0xE4, CHR 0xBB, CHR 0x8D, CHR 0xE8, CHR 0xA2, CHR 0xAB, CHR 0xE5, CHR 0x85, CHR 0xA5, CHR 0xE7,
    CHR 0xAB, CHR 0x99, CHR 0xE4, CHR 0xBD, CHR 0xBF, CHR 0xE7, CHR 0x94, CHR 0xA8, CHR 0xE7, CHR 0x9A,
    CHR 0x84, CHR 0xE8, CHR 0xAF, CHR 0x81, CHR 0xE4, CHR 0xB9, CHR 0xA6, CHR 0xE4, CHR 0xB8, CHR 0x8D,
    CHR 0xE4, CHR 0xBC, CHR 0x9A, CHR 0xE8, CHR 0xA2, CHR 0xAB, CHR 0xE5, CHR 0x88, CHR 0xA0, CHR 0xE9,
    CHR 0x99, CHR 0xA4, CHR 0xE3, CHR 0x80, CHR 0x82]"

definition zh_sa_q_issue :: string where
  "zh_sa_q_issue = [CHR 0xE8, CHR 0x8E, CHR 0xB7, CHR 0xE5, CHR 0x8F, CHR 0x96, CHR 0x20, CHR 0x54, CHR 0x4C, CHR 0x53,
    CHR 0x20, CHR 0xE8, CHR 0xAF, CHR 0x81, CHR 0xE4, CHR 0xB9, CHR 0xA6, CHR 0xEF, CHR 0xBC, CHR 0x9F]"

definition zh_sa_d_issue :: string where
  "zh_sa_d_issue = [CHR 0xE5, CHR 0x85, CHR 0xBC, CHR 0xE5, CHR 0xAE, CHR 0xB9, CHR 0xE6, CHR 0x8E, CHR 0xA5, CHR 0xE5,
    CHR 0x8F, CHR 0xA3, CHR 0xE4, CHR 0xBC, CHR 0x9A, CHR 0xE4, CHR 0xBD, CHR 0xBF, CHR 0xE7, CHR 0x94,
    CHR 0xA8, CHR 0x20, CHR 0x4D, CHR 0x69, CHR 0x47, CHR 0x61, CHR 0x74, CHR 0x65, CHR 0x20, CHR 0xE5,
    CHR 0x8E, CHR 0x9F, CHR 0xE7, CHR 0x94, CHR 0x9F, CHR 0x20, CHR 0x41, CHR 0x43, CHR 0x4D, CHR 0x45,
    CHR 0x20, CHR 0x48, CHR 0x54, CHR 0x54, CHR 0x50, CHR 0x2D, CHR 0x30, CHR 0x31, CHR 0x20, CHR 0xE7,
    CHR 0x94, CHR 0xB3, CHR 0xE8, CHR 0xAF, CHR 0xB7, CHR 0xE8, CHR 0xAF, CHR 0x81, CHR 0xE4, CHR 0xB9,
    CHR 0xA6, CHR 0xEF, CHR 0xBC, CHR 0x8C, CHR 0xE5, CHR 0xB9, CHR 0xB6, CHR 0xE5, CHR 0x8F, CHR 0xAF,
    CHR 0xE8, CHR 0x83, CHR 0xBD, CHR 0xE5, CHR 0x8D, CHR 0xA0, CHR 0xE7, CHR 0x94, CHR 0xA8, CHR 0x20,
    CHR 0x38, CHR 0x30, CHR 0x20, CHR 0xE7, CHR 0xAB, CHR 0xAF, CHR 0xE5, CHR 0x8F, CHR 0xA3, CHR 0xE3,
    CHR 0x80, CHR 0x82]"

definition zh_sa_q_update :: string where
  "zh_sa_q_update = [CHR 0xE7, CHR 0xAB, CHR 0x8B, CHR 0xE5, CHR 0x8D, CHR 0xB3, CHR 0xE6, CHR 0x9B, CHR 0xB4, CHR 0xE6,
    CHR 0x96, CHR 0xB0, CHR 0x20, CHR 0x4D, CHR 0x69, CHR 0x47, CHR 0x61, CHR 0x74, CHR 0x65, CHR 0xEF,
    CHR 0xBC, CHR 0x9F]"

definition zh_sa_d_update :: string where
  "zh_sa_d_update = [CHR 0xE6, CHR 0x9B, CHR 0xB4, CHR 0xE6, CHR 0x96, CHR 0xB0, CHR 0xE5, CHR 0x99, CHR 0xA8, CHR 0xE5,
    CHR 0xB0, CHR 0x86, CHR 0xE9, CHR 0x80, CHR 0x9A, CHR 0xE8, CHR 0xBF, CHR 0x87, CHR 0x20, CHR 0x73,
    CHR 0x79, CHR 0x73, CHR 0x74, CHR 0x65, CHR 0x6D, CHR 0x64, CHR 0x2D, CHR 0x72, CHR 0x75, CHR 0x6E,
    CHR 0x20, CHR 0xE5, CHR 0x9C, CHR 0xA8, CHR 0xE6, CHR 0x9C, CHR 0x8D, CHR 0xE5, CHR 0x8A, CHR 0xA1,
    CHR 0xE5, CHR 0xA4, CHR 0x96, CHR 0xE6, CHR 0x89, CHR 0xA7, CHR 0xE8, CHR 0xA1, CHR 0x8C, CHR 0xE3,
    CHR 0x80, CHR 0x82]"

definition zh_sa_q_others :: string where
  "zh_sa_q_others = [CHR 0xE6, CHR 0x92, CHR 0xA4, CHR 0xE9, CHR 0x94, CHR 0x80, CHR 0xE5, CHR 0x85, CHR 0xB6, CHR 0xE4,
    CHR 0xBB, CHR 0x96, CHR 0xE4, CHR 0xBC, CHR 0x9A, CHR 0xE8, CHR 0xAF, CHR 0x9D, CHR 0xEF, CHR 0xBC,
    CHR 0x9F]"

definition zh_sa_d_others :: string where
  "zh_sa_d_others = [CHR 0xE5, CHR 0xBD, CHR 0x93, CHR 0xE5, CHR 0x89, CHR 0x8D, CHR 0xE4, CHR 0xBC, CHR 0x9A, CHR 0xE8,
    CHR 0xAF, CHR 0x9D, CHR 0xE4, CHR 0xBC, CHR 0x9A, CHR 0xE4, CHR 0xBF, CHR 0x9D, CHR 0xE7, CHR 0x95,
    CHR 0x99, CHR 0xEF, CHR 0xBC, CHR 0x8C, CHR 0xE5, CHR 0x85, CHR 0xB6, CHR 0xE4, CHR 0xBB, CHR 0x96,
    CHR 0xE8, CHR 0xAE, CHR 0xBE, CHR 0xE5, CHR 0xA4, CHR 0x87, CHR 0xE5, CHR 0x92, CHR 0x8C, CHR 0xE6,
    CHR 0xB5, CHR 0x8F, CHR 0xE8, CHR 0xA7, CHR 0x88, CHR 0xE5, CHR 0x99, CHR 0xA8, CHR 0xE9, CHR 0x9C,
    CHR 0x80, CHR 0xE8, CHR 0xA6, CHR 0x81, CHR 0xE9, CHR 0x87, CHR 0x8D, CHR 0xE6, CHR 0x96, CHR 0xB0,
    CHR 0xE7, CHR 0x99, CHR 0xBB, CHR 0xE5, CHR 0xBD, CHR 0x95, CHR 0xE3, CHR 0x80, CHR 0x82]"

definition zh_sa_q_revoke :: string where
  "zh_sa_q_revoke = [CHR 0xE6, CHR 0x92, CHR 0xA4, CHR 0xE9, CHR 0x94, CHR 0x80, CHR 0xE8, CHR 0xAF, CHR 0xA5, CHR 0xE4,
    CHR 0xBC, CHR 0x9A, CHR 0xE8, CHR 0xAF, CHR 0x9D, CHR 0xEF, CHR 0xBC, CHR 0x9F]"

definition zh_sa_saved :: string where
  "zh_sa_saved = [CHR 0xE8, CHR 0xAE, CHR 0xBE, CHR 0xE7, CHR 0xBD, CHR 0xAE, CHR 0xE5, CHR 0xB7, CHR 0xB2, CHR 0xE4,
    CHR 0xBF, CHR 0x9D, CHR 0xE5, CHR 0xAD, CHR 0x98, CHR 0xEF, CHR 0xBC, CHR 0x8C, CHR 0xE7, CHR 0xAB,
    CHR 0xAF, CHR 0xE5, CHR 0x8F, CHR 0xA3, CHR 0xE3, CHR 0x80, CHR 0x81, CHR 0xE6, CHR 0x95, CHR 0xB0,
    CHR 0xE6, CHR 0x8D, CHR 0xAE, CHR 0xE5, CHR 0xBA, CHR 0x93, CHR 0xE3, CHR 0x80, CHR 0x81, CHR 0xE5,
    CHR 0x9F, CHR 0xBA, CHR 0xE7, CHR 0xA1, CHR 0x80, CHR 0xE8, CHR 0xB7, CHR 0xAF, CHR 0xE5, CHR 0xBE,
    CHR 0x84, CHR 0xE6, CHR 0x88, CHR 0x96, CHR 0xE5, CHR 0x8F, CHR 0x8D, CHR 0xE5, CHR 0x90, CHR 0x91,
    CHR 0xE4, CHR 0xBB, CHR 0xA3, CHR 0xE7, CHR 0x90, CHR 0x86, CHR 0xE9, CHR 0x85, CHR 0x8D, CHR 0xE7,
    CHR 0xBD, CHR 0xAE, CHR 0xE5, CHR 0x8F, CHR 0x98, CHR 0xE6, CHR 0x9B, CHR 0xB4, CHR 0xE9, CHR 0x9C,
    CHR 0x80, CHR 0xE8, CHR 0xA6, CHR 0x81, CHR 0xE9, CHR 0x87, CHR 0x8D, CHR 0xE5, CHR 0x90, CHR 0xAF,
    CHR 0xE6, CHR 0x9C, CHR 0x8D, CHR 0xE5, CHR 0x8A, CHR 0xA1, CHR 0xE5, CHR 0x90, CHR 0x8E, CHR 0xE7,
    CHR 0x94, CHR 0x9F, CHR 0xE6, CHR 0x95, CHR 0x88]"

definition zh_sa_save_failed :: string where
  "zh_sa_save_failed = [CHR 0xE4, CHR 0xBF, CHR 0x9D, CHR 0xE5, CHR 0xAD, CHR 0x98, CHR 0xE8, CHR 0xAE, CHR 0xBE, CHR 0xE7,
    CHR 0xBD, CHR 0xAE, CHR 0xE5, CHR 0xA4, CHR 0xB1, CHR 0xE8, CHR 0xB4, CHR 0xA5]"

definition zh_sa_cert_saved :: string where
  "zh_sa_cert_saved = [CHR 0xE8, CHR 0xAF, CHR 0x81, CHR 0xE4, CHR 0xB9, CHR 0xA6, CHR 0xE9, CHR 0x85, CHR 0x8D, CHR 0xE7,
    CHR 0xBD, CHR 0xAE, CHR 0xE5, CHR 0xB7, CHR 0xB2, CHR 0xE4, CHR 0xBF, CHR 0x9D, CHR 0xE5, CHR 0xAD,
    CHR 0x98]"

definition zh_sa_cert_save_failed :: string where
  "zh_sa_cert_save_failed = [CHR 0xE4, CHR 0xBF, CHR 0x9D, CHR 0xE5, CHR 0xAD, CHR 0x98, CHR 0xE8, CHR 0xAF, CHR 0x81, CHR 0xE4,
    CHR 0xB9, CHR 0xA6, CHR 0xE9, CHR 0x85, CHR 0x8D, CHR 0xE7, CHR 0xBD, CHR 0xAE, CHR 0xE5, CHR 0xA4,
    CHR 0xB1, CHR 0xE8, CHR 0xB4, CHR 0xA5]"

definition zh_sa_restarted :: string where
  "zh_sa_restarted = [CHR 0xE9, CHR 0x87, CHR 0x8D, CHR 0xE5, CHR 0x90, CHR 0xAF, CHR 0xE5, CHR 0x91, CHR 0xBD, CHR 0xE4,
    CHR 0xBB, CHR 0xA4, CHR 0xE5, CHR 0xB7, CHR 0xB2, CHR 0xE5, CHR 0x8F, CHR 0x91, CHR 0xE9, CHR 0x80,
    CHR 0x81]"

definition zh_sa_restart_failed :: string where
  "zh_sa_restart_failed = [CHR 0xE9, CHR 0x87, CHR 0x8D, CHR 0xE5, CHR 0x90, CHR 0xAF, CHR 0xE5, CHR 0xA4, CHR 0xB1, CHR 0xE8,
    CHR 0xB4, CHR 0xA5]"

definition zh_sa_issued :: string where
  "zh_sa_issued = [CHR 0xE8, CHR 0xAF, CHR 0x81, CHR 0xE4, CHR 0xB9, CHR 0xA6, CHR 0xE5, CHR 0xB7, CHR 0xB2, CHR 0xE8,
    CHR 0x8E, CHR 0xB7, CHR 0xE5, CHR 0x8F, CHR 0x96]"

definition zh_sa_issue_failed :: string where
  "zh_sa_issue_failed = [CHR 0xE8, CHR 0x8E, CHR 0xB7, CHR 0xE5, CHR 0x8F, CHR 0x96, CHR 0xE8, CHR 0xAF, CHR 0x81, CHR 0xE4,
    CHR 0xB9, CHR 0xA6, CHR 0xE5, CHR 0xA4, CHR 0xB1, CHR 0xE8, CHR 0xB4, CHR 0xA5]"

definition zh_sa_precheck_failed :: string where
  "zh_sa_precheck_failed = [CHR 0xE9, CHR 0xA2, CHR 0x84, CHR 0xE6, CHR 0xA3, CHR 0x80, CHR 0xE6, CHR 0x9F, CHR 0xA5, CHR 0xE5,
    CHR 0xA4, CHR 0xB1, CHR 0xE8, CHR 0xB4, CHR 0xA5]"

definition zh_sa_created :: string where
  "zh_sa_created = [CHR 0xE8, CHR 0xAF, CHR 0x81, CHR 0xE4, CHR 0xB9, CHR 0xA6, CHR 0xE7, CHR 0x94, CHR 0xB3, CHR 0xE8,
    CHR 0xAF, CHR 0xB7, CHR 0xE5, CHR 0xB7, CHR 0xB2, CHR 0xE5, CHR 0xAE, CHR 0x8C, CHR 0xE6, CHR 0x88,
    CHR 0x90]"

definition zh_sa_create_failed :: string where
  "zh_sa_create_failed = [CHR 0xE8, CHR 0xAF, CHR 0x81, CHR 0xE4, CHR 0xB9, CHR 0xA6, CHR 0xE7, CHR 0x94, CHR 0xB3, CHR 0xE8,
    CHR 0xAF, CHR 0xB7, CHR 0xE5, CHR 0xA4, CHR 0xB1, CHR 0xE8, CHR 0xB4, CHR 0xA5]"

definition zh_sa_imported :: string where
  "zh_sa_imported = [CHR 0xE8, CHR 0xAF, CHR 0x81, CHR 0xE4, CHR 0xB9, CHR 0xA6, CHR 0xE5, CHR 0xB7, CHR 0xB2, CHR 0xE5,
    CHR 0xAF, CHR 0xBC, CHR 0xE5, CHR 0x85, CHR 0xA5]"

definition zh_sa_import_failed :: string where
  "zh_sa_import_failed = [CHR 0xE5, CHR 0xAF, CHR 0xBC, CHR 0xE5, CHR 0x85, CHR 0xA5, CHR 0xE8, CHR 0xAF, CHR 0x81, CHR 0xE4,
    CHR 0xB9, CHR 0xA6, CHR 0xE5, CHR 0xA4, CHR 0xB1, CHR 0xE8, CHR 0xB4, CHR 0xA5]"

definition zh_sa_renewed :: string where
  "zh_sa_renewed = [CHR 0xE7, CHR 0xBB, CHR 0xAD, CHR 0xE6, CHR 0x9C, CHR 0x9F, CHR 0xE6, CHR 0xA3, CHR 0x80, CHR 0xE6,
    CHR 0x9F, CHR 0xA5, CHR 0xE5, CHR 0xAE, CHR 0x8C, CHR 0xE6, CHR 0x88, CHR 0x90]"

definition zh_sa_renew_failed :: string where
  "zh_sa_renew_failed = [CHR 0xE7, CHR 0xBB, CHR 0xAD, CHR 0xE6, CHR 0x9C, CHR 0x9F, CHR 0xE6, CHR 0xA3, CHR 0x80, CHR 0xE6,
    CHR 0x9F, CHR 0xA5, CHR 0xE5, CHR 0xA4, CHR 0xB1, CHR 0xE8, CHR 0xB4, CHR 0xA5]"

definition zh_sa_applied :: string where
  "zh_sa_applied = [CHR 0xE8, CHR 0xAF, CHR 0x81, CHR 0xE4, CHR 0xB9, CHR 0xA6, CHR 0xE5, CHR 0xB7, CHR 0xB2, CHR 0xE5,
    CHR 0xBA, CHR 0x94, CHR 0xE7, CHR 0x94, CHR 0xA8, CHR 0xE5, CHR 0x88, CHR 0xB0, CHR 0xE5, CHR 0x85,
    CHR 0xA5, CHR 0xE7, CHR 0xAB, CHR 0x99]"

definition zh_sa_apply_failed :: string where
  "zh_sa_apply_failed = [CHR 0xE5, CHR 0xBA, CHR 0x94, CHR 0xE7, CHR 0x94, CHR 0xA8, CHR 0xE8, CHR 0xAF, CHR 0x81, CHR 0xE4,
    CHR 0xB9, CHR 0xA6, CHR 0xE5, CHR 0xA4, CHR 0xB1, CHR 0xE8, CHR 0xB4, CHR 0xA5]"

definition zh_sa_deleted :: string where
  "zh_sa_deleted = [CHR 0xE8, CHR 0xAF, CHR 0x81, CHR 0xE4, CHR 0xB9, CHR 0xA6, CHR 0xE5, CHR 0xB7, CHR 0xB2, CHR 0xE5,
    CHR 0x88, CHR 0xA0, CHR 0xE9, CHR 0x99, CHR 0xA4]"

definition zh_sa_delete_failed :: string where
  "zh_sa_delete_failed = [CHR 0xE5, CHR 0x88, CHR 0xA0, CHR 0xE9, CHR 0x99, CHR 0xA4, CHR 0xE8, CHR 0xAF, CHR 0x81, CHR 0xE4,
    CHR 0xB9, CHR 0xA6, CHR 0xE5, CHR 0xA4, CHR 0xB1, CHR 0xE8, CHR 0xB4, CHR 0xA5]"

definition zh_sa_updating :: string where
  "zh_sa_updating = [CHR 0xE6, CHR 0x9B, CHR 0xB4, CHR 0xE6, CHR 0x96, CHR 0xB0, CHR 0xE5, CHR 0x91, CHR 0xBD, CHR 0xE4,
    CHR 0xBB, CHR 0xA4, CHR 0xE5, CHR 0xB7, CHR 0xB2, CHR 0xE5, CHR 0x8F, CHR 0x91, CHR 0xE9, CHR 0x80,
    CHR 0x81]"

definition zh_sa_update_failed :: string where
  "zh_sa_update_failed = [CHR 0xE5, CHR 0x90, CHR 0xAF, CHR 0xE5, CHR 0x8A, CHR 0xA8, CHR 0xE6, CHR 0x9B, CHR 0xB4, CHR 0xE6,
    CHR 0x96, CHR 0xB0, CHR 0xE5, CHR 0xA4, CHR 0xB1, CHR 0xE8, CHR 0xB4, CHR 0xA5]"

definition zh_sa_revoked :: string where
  "zh_sa_revoked = [CHR 0xE4, CHR 0xBC, CHR 0x9A, CHR 0xE8, CHR 0xAF, CHR 0x9D, CHR 0xE5, CHR 0xB7, CHR 0xB2, CHR 0xE6,
    CHR 0x92, CHR 0xA4, CHR 0xE9, CHR 0x94, CHR 0x80]"

definition zh_sa_revoke_failed :: string where
  "zh_sa_revoke_failed = [CHR 0xE6, CHR 0x92, CHR 0xA4, CHR 0xE9, CHR 0x94, CHR 0x80, CHR 0xE4, CHR 0xBC, CHR 0x9A, CHR 0xE8,
    CHR 0xAF, CHR 0x9D, CHR 0xE5, CHR 0xA4, CHR 0xB1, CHR 0xE8, CHR 0xB4, CHR 0xA5]"

definition zh_sa_revoked_n :: string where
  "zh_sa_revoked_n = [CHR 0xE5, CHR 0xB7, CHR 0xB2, CHR 0xE6, CHR 0x92, CHR 0xA4, CHR 0xE9, CHR 0x94, CHR 0x80]"

definition zh_sa_others_failed :: string where
  "zh_sa_others_failed = [CHR 0xE6, CHR 0x92, CHR 0xA4, CHR 0xE9, CHR 0x94, CHR 0x80, CHR 0xE5, CHR 0x85, CHR 0xB6, CHR 0xE4,
    CHR 0xBB, CHR 0x96, CHR 0xE4, CHR 0xBC, CHR 0x9A, CHR 0xE8, CHR 0xAF, CHR 0x9D, CHR 0xE5, CHR 0xA4,
    CHR 0xB1, CHR 0xE8, CHR 0xB4, CHR 0xA5]"

definition zh_sa_colon :: string where
  "zh_sa_colon = [CHR 0xEF, CHR 0xBC, CHR 0x9A]"

definition zh_sa_renewed_n :: string where
  "zh_sa_renewed_n = [CHR 0xE4, CHR 0xB8, CHR 0xAA, CHR 0xE5, CHR 0xB7, CHR 0xB2, CHR 0xE7, CHR 0xBB, CHR 0xAD, CHR 0xE6,
    CHR 0x9C, CHR 0x9F]"

definition zh_sa_others_n :: string where
  "zh_sa_others_n = [CHR 0xE4, CHR 0xB8, CHR 0xAA, CHR 0xE5, CHR 0x85, CHR 0xB6, CHR 0xE4, CHR 0xBB, CHR 0x96, CHR 0xE4,
    CHR 0xBC, CHR 0x9A, CHR 0xE8, CHR 0xAF, CHR 0x9D]"

definition zh_sa_no_path :: string where
  "zh_sa_no_path = [CHR 0xE6, CHR 0x97, CHR 0xA0, CHR 0x20, CHR 0x54, CHR 0x4C, CHR 0x53, CHR 0x20, CHR 0xE8, CHR 0xAF,
    CHR 0x81, CHR 0xE4, CHR 0xB9, CHR 0xA6, CHR 0xE8, CHR 0xB7, CHR 0xAF, CHR 0xE5, CHR 0xBE, CHR 0x84]"

definition zh_sa_cert_word :: string where
  "zh_sa_cert_word = [CHR 0xE8, CHR 0xAF, CHR 0x81, CHR 0xE4, CHR 0xB9, CHR 0xA6]"

definition zh_sa_bound :: string where
  "zh_sa_bound = [CHR 0xE5, CHR 0xB7, CHR 0xB2, CHR 0xE7, CHR 0xBB, CHR 0x91, CHR 0xE5, CHR 0xAE, CHR 0x9A, CHR 0xE5,
    CHR 0xBD, CHR 0x93, CHR 0xE5, CHR 0x89, CHR 0x8D, CHR 0xE8, CHR 0xAF, CHR 0x81, CHR 0xE4, CHR 0xB9,
    CHR 0xA6]"

definition zh_sa_bound_other :: string where
  "zh_sa_bound_other = [CHR 0xE5, CHR 0xB7, CHR 0xB2, CHR 0xE7, CHR 0xBB, CHR 0x91, CHR 0xE5, CHR 0xAE, CHR 0x9A, CHR 0xE5,
    CHR 0x85, CHR 0xB6, CHR 0xE4, CHR 0xBB, CHR 0x96, CHR 0xE8, CHR 0xAF, CHR 0x81, CHR 0xE4, CHR 0xB9,
    CHR 0xA6]"

definition zh_sa_unbound :: string where
  "zh_sa_unbound = [CHR 0xE6, CHR 0x9C, CHR 0xAA, CHR 0xE7, CHR 0xBB, CHR 0x91, CHR 0xE5, CHR 0xAE, CHR 0x9A, CHR 0xE8,
    CHR 0xAF, CHR 0x81, CHR 0xE4, CHR 0xB9, CHR 0xA6]"

definition zh_sa_updating_now :: string where
  "zh_sa_updating_now = [CHR 0xE6, CHR 0x9B, CHR 0xB4, CHR 0xE6, CHR 0x96, CHR 0xB0, CHR 0xE4, CHR 0xB8, CHR 0xAD]"

definition zh_sa_update_now :: string where
  "zh_sa_update_now = [CHR 0xE7, CHR 0xAB, CHR 0x8B, CHR 0xE5, CHR 0x8D, CHR 0xB3, CHR 0xE6, CHR 0x9B, CHR 0xB4, CHR 0xE6,
    CHR 0x96, CHR 0xB0]"

definition zh_sa_check :: string where
  "zh_sa_check = [CHR 0xE6, CHR 0xA3, CHR 0x80, CHR 0xE6, CHR 0x9F, CHR 0xA5, CHR 0xE6, CHR 0x9B, CHR 0xB4, CHR 0xE6,
    CHR 0x96, CHR 0xB0]"

definition zh_sa_update_bad :: string where
  "zh_sa_update_bad = [CHR 0xE6, CHR 0x9C, CHR 0x80, CHR 0xE8, CHR 0xBF, CHR 0x91, CHR 0xE6, CHR 0x9B, CHR 0xB4, CHR 0xE6,
    CHR 0x96, CHR 0xB0, CHR 0xE5, CHR 0xA4, CHR 0xB1, CHR 0xE8, CHR 0xB4, CHR 0xA5]"

definition zh_sa_update_last :: string where
  "zh_sa_update_last = [CHR 0xE6, CHR 0x9C, CHR 0x80, CHR 0xE8, CHR 0xBF, CHR 0x91, CHR 0xE6, CHR 0x9B, CHR 0xB4, CHR 0xE6,
    CHR 0x96, CHR 0xB0, CHR 0xE7, CHR 0xBB, CHR 0x93, CHR 0xE6, CHR 0x9E, CHR 0x9C]"

lemmas texts_SettingsActions =
  zh_sa_q_restart_def zh_sa_d_restart_def zh_sa_q_renew_def zh_sa_d_renew_def zh_sa_q_create_def
  zh_sa_d_create_def zh_sa_q_import_def zh_sa_d_import_def zh_sa_q_apply_def zh_sa_d_apply1_def
  zh_sa_d_apply2_def zh_sa_q_delete_def zh_sa_d_delete_def zh_sa_q_issue_def zh_sa_d_issue_def
  zh_sa_q_update_def zh_sa_d_update_def zh_sa_q_others_def zh_sa_d_others_def zh_sa_q_revoke_def
  zh_sa_saved_def zh_sa_save_failed_def zh_sa_cert_saved_def zh_sa_cert_save_failed_def zh_sa_restarted_def
  zh_sa_restart_failed_def zh_sa_issued_def zh_sa_issue_failed_def zh_sa_precheck_failed_def zh_sa_created_def
  zh_sa_create_failed_def zh_sa_imported_def zh_sa_import_failed_def zh_sa_renewed_def zh_sa_renew_failed_def
  zh_sa_applied_def zh_sa_apply_failed_def zh_sa_deleted_def zh_sa_delete_failed_def zh_sa_updating_def
  zh_sa_update_failed_def zh_sa_revoked_def zh_sa_revoke_failed_def zh_sa_revoked_n_def zh_sa_others_failed_def
  zh_sa_colon_def zh_sa_renewed_n_def zh_sa_others_n_def zh_sa_no_path_def zh_sa_cert_word_def
  zh_sa_bound_def zh_sa_bound_other_def zh_sa_unbound_def zh_sa_updating_now_def zh_sa_update_now_def
  zh_sa_check_def zh_sa_update_bad_def zh_sa_update_last_def

lemma texts_nonempty_SettingsActions [simp]:
  "zh_sa_q_restart \<noteq> []" "zh_sa_d_restart \<noteq> []" "zh_sa_q_renew \<noteq> []" "zh_sa_d_renew \<noteq> []"
  "zh_sa_q_create \<noteq> []" "zh_sa_d_create \<noteq> []" "zh_sa_q_import \<noteq> []" "zh_sa_d_import \<noteq> []"
  "zh_sa_q_apply \<noteq> []" "zh_sa_d_apply1 \<noteq> []" "zh_sa_d_apply2 \<noteq> []" "zh_sa_q_delete \<noteq> []"
  "zh_sa_d_delete \<noteq> []" "zh_sa_q_issue \<noteq> []" "zh_sa_d_issue \<noteq> []" "zh_sa_q_update \<noteq> []"
  "zh_sa_d_update \<noteq> []" "zh_sa_q_others \<noteq> []" "zh_sa_d_others \<noteq> []" "zh_sa_q_revoke \<noteq> []"
  "zh_sa_saved \<noteq> []" "zh_sa_save_failed \<noteq> []" "zh_sa_cert_saved \<noteq> []" "zh_sa_cert_save_failed \<noteq> []"
  "zh_sa_restarted \<noteq> []" "zh_sa_restart_failed \<noteq> []" "zh_sa_issued \<noteq> []" "zh_sa_issue_failed \<noteq> []"
  "zh_sa_precheck_failed \<noteq> []" "zh_sa_created \<noteq> []" "zh_sa_create_failed \<noteq> []" "zh_sa_imported \<noteq> []"
  "zh_sa_import_failed \<noteq> []" "zh_sa_renewed \<noteq> []" "zh_sa_renew_failed \<noteq> []" "zh_sa_applied \<noteq> []"
  "zh_sa_apply_failed \<noteq> []" "zh_sa_deleted \<noteq> []" "zh_sa_delete_failed \<noteq> []" "zh_sa_updating \<noteq> []"
  "zh_sa_update_failed \<noteq> []" "zh_sa_revoked \<noteq> []" "zh_sa_revoke_failed \<noteq> []" "zh_sa_revoked_n \<noteq> []"
  "zh_sa_others_failed \<noteq> []" "zh_sa_colon \<noteq> []" "zh_sa_renewed_n \<noteq> []" "zh_sa_others_n \<noteq> []"
  "zh_sa_no_path \<noteq> []" "zh_sa_cert_word \<noteq> []" "zh_sa_bound \<noteq> []" "zh_sa_bound_other \<noteq> []"
  "zh_sa_unbound \<noteq> []" "zh_sa_updating_now \<noteq> []" "zh_sa_update_now \<noteq> []" "zh_sa_check \<noteq> []"
  "zh_sa_update_bad \<noteq> []" "zh_sa_update_last \<noteq> []"
  by (simp_all add: texts_SettingsActions)

section \<open>State and actions\<close>

record settings_page =
  sp_settings :: "settings option" \<comment> \<open>\<^verbatim>\<open>settings.data\<close>\<close>
  sp_form :: settings
  sp_certStatus :: "(string \<times> string) option" \<comment> \<open>domain and email of \<^verbatim>\<open>cert.data\<close>\<close>
  sp_cert :: cert_page
  sp_importName :: string
  sp_importFullchain :: string
  sp_importKey :: string
  sp_revoking :: "int option"
  sp_watch :: watch_state

datatype settings_action =
    SaveA settings
  | SaveCertA settings
  | RestartA
  | IssueA
  | PreflightA "string list" string
  | CreateA
  | ImportA
  | RenewA
  | ApplyCertA
  | DeleteCertA int
  | UpdateA
  | RevokeA int
  | RevokeOthersA

definition action_call :: "url_parts \<Rightarrow> settings_page \<Rightarrow> settings_action \<Rightarrow> call" where
  "action_call U s a = (case a of
       SaveA v \<Rightarrow> settings_call (SaveSettings (JObj (settingsPayload U (sp_settings s) v)))
     | SaveCertA v \<Rightarrow> settings_call (SaveSettings (JObj (certSettingsPayload (sp_settings s) v)))
     | RestartA \<Rightarrow> settings_call Restart
     | IssueA \<Rightarrow> (case certIssuePayload (sp_form s) (sp_certStatus s) of (domain, email) \<Rightarrow> settings_call (IssueCert domain email))
     | PreflightA domains email \<Rightarrow> settings_call (CertificatePreflight domains email)
     | CreateA \<Rightarrow> (case asked_for (sp_cert s) of (domains, email) \<Rightarrow> settings_call (CreateCertificate domains email))
     | ImportA \<Rightarrow> settings_call (ImportCertificate [(''name'', JStr (sp_importName s)),
         (''fullchain'', JStr (sp_importFullchain s)), (''private_key'', JStr (sp_importKey s))])
     | RenewA \<Rightarrow> settings_call (RenewDueCertificates 30)
     | ApplyCertA \<Rightarrow> settings_call (ApplyCertificate
         (case selectedCertificate (sp_cert s) of None \<Rightarrow> 0 | Some c \<Rightarrow> mc_id c) (ct_selectedInboundIds (sp_cert s)))
     | DeleteCertA n \<Rightarrow> settings_call (DeleteCertificate n)
     | UpdateA \<Rightarrow> settings_call Update
     | RevokeA n \<Rightarrow> session_call (RevokeSession n)
     | RevokeOthersA \<Rightarrow> session_call RevokeOtherSessions)"

section \<open>The question first\<close>

record question =
  qu_title :: string
  qu_description :: string
  qu_danger :: bool

definition ask_restart :: "(string \<Rightarrow> string) \<Rightarrow> question" where
  "ask_restart tr = \<lparr>qu_title = tr zh_sa_q_restart, qu_description = tr zh_sa_d_restart, qu_danger = True\<rparr>"

definition ask_renew :: "(string \<Rightarrow> string) \<Rightarrow> question" where
  "ask_renew tr = \<lparr>qu_title = tr zh_sa_q_renew, qu_description = tr zh_sa_d_renew, qu_danger = False\<rparr>"

definition ask_create :: "(string \<Rightarrow> string) \<Rightarrow> question" where
  "ask_create tr = \<lparr>qu_title = tr zh_sa_q_create,
     qu_description = tr zh_sa_d_create, qu_danger = False\<rparr>"

definition ask_import :: "(string \<Rightarrow> string) \<Rightarrow> question" where
  "ask_import tr = \<lparr>qu_title = tr zh_sa_q_import,
     qu_description = tr zh_sa_d_import, qu_danger = False\<rparr>"

definition ask_apply :: "nat \<Rightarrow> (string \<Rightarrow> string) \<Rightarrow> question" where
  "ask_apply n tr = \<lparr>qu_title = tr zh_sa_q_apply,
     qu_description = tr (zh_sa_d_apply1 @ nat_str n @ zh_sa_d_apply2), qu_danger = False\<rparr>"

definition ask_delete :: "(string \<Rightarrow> string) \<Rightarrow> question" where
  "ask_delete tr = \<lparr>qu_title = tr zh_sa_q_delete, qu_description = tr zh_sa_d_delete, qu_danger = True\<rparr>"

definition ask_issue :: "(string \<Rightarrow> string) \<Rightarrow> question" where
  "ask_issue tr = \<lparr>qu_title = tr zh_sa_q_issue,
     qu_description = tr zh_sa_d_issue, qu_danger = False\<rparr>"

definition ask_update :: "(string \<Rightarrow> string) \<Rightarrow> question" where
  "ask_update tr = \<lparr>qu_title = tr zh_sa_q_update,
     qu_description = tr zh_sa_d_update, qu_danger = False\<rparr>"

definition ask_revoke_others :: "(string \<Rightarrow> string) \<Rightarrow> question" where
  "ask_revoke_others tr = \<lparr>qu_title = tr zh_sa_q_others,
     qu_description = tr zh_sa_d_others, qu_danger = True\<rparr>"

definition ask_revoke :: "(string \<Rightarrow> string) \<Rightarrow> question" where
  "ask_revoke tr = \<lparr>qu_title = tr zh_sa_q_revoke, qu_description = [], qu_danger = True\<rparr>"

definition action_question :: "(string \<Rightarrow> string) \<Rightarrow> settings_page \<Rightarrow> settings_action \<Rightarrow> question option" where
  "action_question tr s a = (case a of
       RestartA \<Rightarrow> Some (ask_restart tr) | IssueA \<Rightarrow> Some (ask_issue tr) | CreateA \<Rightarrow> Some (ask_create tr)
     | ImportA \<Rightarrow> Some (ask_import tr) | RenewA \<Rightarrow> Some (ask_renew tr)
     | ApplyCertA \<Rightarrow> Some (ask_apply (length (ct_selectedInboundIds (sp_cert s))) tr)
     | DeleteCertA n \<Rightarrow> Some (ask_delete tr) | UpdateA \<Rightarrow> Some (ask_update tr)
     | RevokeA n \<Rightarrow> Some (ask_revoke tr) | RevokeOthersA \<Rightarrow> Some (ask_revoke_others tr) | _ \<Rightarrow> None)"

text \<open>The buttons that are locked; the forms of the others are checked elsewhere (\<open>create_enabled\<close>, \<open>apply_request\<close>).\<close>

definition issue_enabled :: "settings_page \<Rightarrow> bool" where
  "issue_enabled s \<longleftrightarrow> ct_defaultDomain (sp_cert s) \<noteq> [] \<and> ct_defaultEmail (sp_cert s) \<noteq> []"

definition import_enabled :: "settings_page \<Rightarrow> bool" where
  "import_enabled s \<longleftrightarrow> \<not> cert_busy (sp_cert s) \<and> sp_importFullchain s \<noteq> [] \<and> sp_importKey s \<noteq> []"

text \<open>Revoking a session marks it before the request is sent.\<close>

definition action_started :: "settings_action \<Rightarrow> settings_page \<Rightarrow> settings_page" where
  "action_started a s = (case a of RevokeA n \<Rightarrow> s\<lparr>sp_revoking := Some n\<rparr> | _ \<Rightarrow> s)"

section \<open>The answer\<close>

datatype settings_answer = Taken | Prechecked preflight | Renewed "certificate list option" "certificate list" | RevokedCount int

definition action_texts :: "settings_action \<Rightarrow> string \<times> string" where \<comment> \<open>the message of success and that of failure\<close>
  "action_texts a = (case a of
       SaveA v \<Rightarrow> (zh_sa_saved, zh_sa_save_failed)
     | SaveCertA v \<Rightarrow> (zh_sa_cert_saved, zh_sa_cert_save_failed)
     | RestartA \<Rightarrow> (zh_sa_restarted, zh_sa_restart_failed)
     | IssueA \<Rightarrow> (zh_sa_issued, zh_sa_issue_failed)
     | PreflightA ds e \<Rightarrow> ([], zh_sa_precheck_failed)
     | CreateA \<Rightarrow> (zh_sa_created, zh_sa_create_failed)
     | ImportA \<Rightarrow> (zh_sa_imported, zh_sa_import_failed)
     | RenewA \<Rightarrow> (zh_sa_renewed, zh_sa_renew_failed)
     | ApplyCertA \<Rightarrow> (zh_sa_applied, zh_sa_apply_failed)
     | DeleteCertA n \<Rightarrow> (zh_sa_deleted, zh_sa_delete_failed)
     | UpdateA \<Rightarrow> (zh_sa_updating, zh_sa_update_failed)
     | RevokeA n \<Rightarrow> (zh_sa_revoked, zh_sa_revoke_failed)
     | RevokeOthersA \<Rightarrow> (zh_sa_revoked_n, zh_sa_others_failed))"

definition success_title :: "(string \<Rightarrow> string) \<Rightarrow> settings_action \<Rightarrow> settings_answer \<Rightarrow> string" where
  "success_title tr a r = (case r of
       Renewed renewed failed \<Rightarrow> tr (fst (action_texts a)) @ zh_sa_colon @ nat_str (length (olist renewed)) @ '' '' @ tr zh_sa_renewed_n
     | RevokedCount n \<Rightarrow> tr (fst (action_texts a)) @ '' '' @ int_str n @ '' '' @ tr zh_sa_others_n
     | _ \<Rightarrow> tr (fst (action_texts a)))"

definition success_refresh :: "settings_action \<Rightarrow> query_call list" where
  "success_refresh a = (case a of
       SaveA v \<Rightarrow> refreshSettingsDependencies
     | SaveCertA v \<Rightarrow> refreshSettingsDependencies
     | RestartA \<Rightarrow> []
     | IssueA \<Rightarrow> refreshSettingsDependencies
     | PreflightA ds e \<Rightarrow> []
     | CreateA \<Rightarrow> refreshSettingsDependencies @ refreshCertificateOperationDependencies
     | ImportA \<Rightarrow> refreshSettingsDependencies @ refreshCertificateOperationDependencies
     | RenewA \<Rightarrow> refreshSettingsDependencies @ refreshCertificateOperationDependencies
     | ApplyCertA \<Rightarrow> refreshCertificateApplyDependencies @ refreshCertificateOperationDependencies
     | DeleteCertA n \<Rightarrow> refreshSettingsDependencies @ refreshCertificateOperationDependencies
     | UpdateA \<Rightarrow> refreshUpdateDependencies @ refreshQuery [''update-logs'']
     | RevokeA n \<Rightarrow> refreshSessionDependencies
     | RevokeOthersA \<Rightarrow> refreshSessionDependencies)"

definition show_precheck :: "preflight \<Rightarrow> settings_page \<Rightarrow> settings_page" where
  "show_precheck p s = s\<lparr>sp_cert := (sp_cert s)\<lparr>ct_preflight := Some p\<rparr>\<rparr>"

definition success_state :: "settings_action \<Rightarrow> settings_answer \<Rightarrow> settings_page \<Rightarrow> settings_page" where
  "success_state a r s = (case a of
       SaveA v \<Rightarrow> s\<lparr>sp_form := AList.update ''panel_password'' (JStr []) (sp_form s)\<rparr>
     | PreflightA ds e \<Rightarrow> (case r of Prechecked p \<Rightarrow> s\<lparr>sp_cert := cert_handle (PreflightAnswer (ds, e) p) (sp_cert s)\<rparr> | _ \<Rightarrow> s)
     | CreateA \<Rightarrow> (case r of Prechecked p \<Rightarrow> show_precheck p s | _ \<Rightarrow> s)
     | ImportA \<Rightarrow> s\<lparr>sp_importFullchain := [], sp_importKey := []\<rparr>
     | UpdateA \<Rightarrow> s\<lparr>sp_watch := (sp_watch s)\<lparr>ws_watching := True\<rparr>\<rparr>
     | RevokeA n \<Rightarrow> s\<lparr>sp_revoking := None\<rparr>
     | _ \<Rightarrow> s)"

definition failure_state :: "settings_action \<Rightarrow> failure \<Rightarrow> settings_page \<Rightarrow> settings_page" where
  "failure_state a e s = (case a of
       PreflightA ds m \<Rightarrow> s\<lparr>sp_cert := (sp_cert s)\<lparr>ct_asked := remove1 (ds, m) (ct_asked (sp_cert s))\<rparr>\<rparr>
     | CreateA \<Rightarrow> (case preflightFromAPIError e of Some p \<Rightarrow> show_precheck p s | None \<Rightarrow> s)
     | RevokeA n \<Rightarrow> s\<lparr>sp_revoking := None\<rparr>
     | _ \<Rightarrow> s)"

definition action_answered ::
  "(string \<Rightarrow> string) \<Rightarrow> settings_action \<Rightarrow> failure + settings_answer \<Rightarrow> settings_page \<Rightarrow> settings_page \<times> toast list \<times> query_call list" where
  "action_answered tr a answer s = (case answer of
       Inl e \<Rightarrow> (failure_state a e s, [plain_toast (getAPIErrorMessage e (tr (snd (action_texts a)))) ToneError], [])
     | Inr r \<Rightarrow> (success_state a r s,
         (case a of PreflightA ds m \<Rightarrow> [] | _ \<Rightarrow> [plain_toast (success_title tr a r) ToneSuccess]), success_refresh a))"

section \<open>What the manager and the console show\<close>

datatype step_state = StepOpen | StepDone | StepWarning

definition step_row :: "bool \<Rightarrow> bool \<Rightarrow> step_state" where
  "step_row done warning = (if warning then StepWarning else if done then StepDone else StepOpen)"

definition acme_steps :: "cert_page \<Rightarrow> step_state list" where
  "acme_steps s =
     [step_row (canRequest s) False,
      step_row (ct_preflight s \<noteq> None) False,
      step_row (\<exists>p \<in> set_option (ct_preflight s). pf_ok p) (\<exists>p \<in> set_option (ct_preflight s). \<not> pf_ok p),
      step_row False False]"

definition check_tone :: "string \<Rightarrow> cert_tone" where
  "check_tone status = certificateStatusTone
     (if status = ''failed'' then ''failed'' else if status = ''warning'' then ''expiring_soon'' else ''issued'')"

definition bindingHint :: "inbound \<Rightarrow> (string \<Rightarrow> string) \<Rightarrow> string" where
  "bindingHint inb tr =
     (let tlsSNI = inboundTLSValue inb ''tls_sni''; certFile = inboundTLSValue inb ''tls_cert_file'';
          keyFile = inboundTLSValue inb ''tls_key_file'';
          hint = (if certFile \<noteq> [] \<or> keyFile \<noteq> []
            then join '' / '' (filter (\<lambda>p. p \<noteq> []) [if certFile = [] then [] else shortPath certFile, if keyFile = [] then [] else shortPath keyFile])
            else tr zh_sa_no_path)
      in if tlsSNI \<noteq> [] then tr ''SNI'' @ zh_sa_colon @ tlsSNI else tr zh_sa_cert_word @ zh_sa_colon @ hint)"

definition binding_label :: "binding_status \<Rightarrow> string" where
  "binding_label b = (case b of BoundCurrent \<Rightarrow> zh_sa_bound | BoundOther \<Rightarrow> zh_sa_bound_other
     | Unbound \<Rightarrow> zh_sa_unbound)"

definition update_button :: "update_check option \<Rightarrow> update_status option \<Rightarrow> string \<times> bool" where \<comment> \<open>label, and whether it is locked\<close>
  "update_button check status =
     (let inProgress = isUpdateInProgress (status_of status)
      in (if inProgress then zh_sa_updating_now
          else if updatePrimaryAction check status = ''update'' then zh_sa_update_now else zh_sa_check, inProgress))"

definition update_notice :: "update_status option \<Rightarrow> bool \<Rightarrow> (string \<times> bool) option" where \<comment> \<open>title, and whether it is red\<close>
  "update_notice status waiting =
     (let failed = (toLowerCase (status_of status) = ''failed'')
      in if failed \<or> waiting \<or> updateStatusSummaryKey status \<noteq> []
         then Some (if failed then zh_sa_update_bad else zh_sa_update_last, failed) else None)"

section \<open>Reports\<close>

definition depends_on :: "settings_action \<Rightarrow> string set" where \<comment> \<open>the lists that the action changes on the server\<close>
  "depends_on a = (case a of
       SaveA v \<Rightarrow> {''settings'', ''cert-status'', ''certificates'', ''certificate-inbounds''}
     | SaveCertA v \<Rightarrow> {''settings'', ''cert-status'', ''certificates'', ''certificate-inbounds''}
     | IssueA \<Rightarrow> {''settings'', ''cert-status'', ''certificates'', ''certificate-inbounds''}
     | RestartA \<Rightarrow> {} | PreflightA ds e \<Rightarrow> {}
     | ApplyCertA \<Rightarrow> {''cert-status'', ''certificates'', ''certificate-inbounds'', ''inbounds'', ''dashboard-summary'', ''certificate-operations''}
     | UpdateA \<Rightarrow> {''update-status'', ''update-logs''}
     | RevokeA n \<Rightarrow> {''sessions''} | RevokeOthersA \<Rightarrow> {''sessions''}
     | _ \<Rightarrow> {''settings'', ''cert-status'', ''certificates'', ''certificate-inbounds'', ''certificate-operations''})"

lemma refresh_reaches: "asked_anew (success_refresh a) [q] \<longleftrightarrow> q \<in> depends_on a"
  by (cases a) (auto simp: success_refresh_def depends_on_def refreshSettingsDependencies_def asked_anew_keys
      refreshCertificateOperationDependencies_def refreshCertificateApplyDependencies_def refreshUpdateDependencies_def
      refreshSessionDependencies_def refreshQuery_def asked_anew_def [of "[Refetch _]"] asked_anew_def [of "[]"])

lemma failed_text_nonempty [simp]: "snd (action_texts a) \<noteq> []"
  by (cases a) (simp_all add: action_texts_def texts_SettingsActions)

lemma done_text_nonempty: "(\<nexists>ds e. a = PreflightA ds e) \<Longrightarrow> fst (action_texts a) \<noteq> []"
  by (cases a) (simp_all add: action_texts_def texts_SettingsActions)

definition secrets :: "settings_page \<Rightarrow> string \<times> string \<times> jsval" where
  "secrets s = (sp_importFullchain s, sp_importKey s, js_field (JObj (sp_form s)) ''panel_password'')"


definition sample_page_state :: settings_page where
  "sample_page_state = \<lparr>sp_settings = None, sp_form = [], sp_certStatus = None, sp_cert = cert_start, sp_importName = ''site'',
     sp_importFullchain = ''CHAIN'', sp_importKey = ''KEY'', sp_revoking = None, sp_watch = watch_start\<rparr>"


text \<open>A renewal that failed for every certificate is reported like one that had nothing to do.\<close>

lemma failed_renewals_are_not_told:
  "fst (snd (action_answered tr RenewA (Inr (Renewed (Some []) failed)) s)) = fst (snd (action_answered tr RenewA (Inr (Renewed (Some []) [])) s))"
  by (simp add: action_answered_def success_title_def)

lemma update_starts_watch:
  "action_answered tr UpdateA (Inr Taken) s = (s', toasts, calls) \<Longrightarrow> update_accepted (sp_watch s) = (sp_watch s')\<lparr>ws_calls := ws_calls (sp_watch s) @ calls\<rparr>"
  by (auto simp: action_answered_def success_state_def success_refresh_def update_accepted_def)

text \<open>The steps of a request: the last one is open exactly while the button is.\<close>

lemma steps_lead_to_request: "\<not> cert_busy s \<Longrightarrow> take 3 (acme_steps s) = [StepDone, StepDone, StepDone] \<longleftrightarrow> create_enabled s"
  by (cases "ct_preflight s") (auto simp: acme_steps_def step_row_def create_enabled_def)

end
