(* ===== verification/CoreStatus.thy ===== *)
theory CoreStatus
  imports CoreApply Format
begin

text \<open>
  The core pages, \<^verbatim>\<open>src/web/src/routes/CorePage.tsx\<close>: what the panel concludes from the status of a
  core, its diagnostics and the preview of its configuration. \<open>coreUserSyncState\<close> tells whether the
  configuration is in force, \<open>coreHealthSummary\<close> what the user should know and do first, and the functions
  below them label the parts. The flags the code compares with \<^verbatim>\<open>false\<close> or \<^verbatim>\<open>true\<close> are
  optional here, as in the records of theory \<^verbatim>\<open>ApiTypes\<close>; an error of a query is the message it shows,
  and a text that may be absent is empty where the code does not tell the two apart.
\<close>

section \<open>Texts\<close>

text \<open>The non-ASCII texts of this part of the user interface, as UTF-8 bytes.\<close>

definition zh_ch_queued :: string where
  "zh_ch_queued = [CHR 0xE6, CHR 0x8E, CHR 0x92, CHR 0xE9, CHR 0x98, CHR 0x9F, CHR 0xE4, CHR 0xB8, CHR 0xAD]"

definition zh_ch_running :: string where
  "zh_ch_running = [CHR 0xE6, CHR 0x89, CHR 0xA7, CHR 0xE8, CHR 0xA1, CHR 0x8C, CHR 0xE4, CHR 0xB8, CHR 0xAD]"

definition zh_ch_retrying :: string where
  "zh_ch_retrying = [CHR 0xE8, CHR 0x87, CHR 0xAA, CHR 0xE5, CHR 0x8A, CHR 0xA8, CHR 0xE9, CHR 0x87, CHR 0x8D, CHR 0xE8,
    CHR 0xAF, CHR 0x95, CHR 0xE4, CHR 0xB8, CHR 0xAD]"

definition zh_ch_succeeded :: string where
  "zh_ch_succeeded = [CHR 0xE5, CHR 0xB7, CHR 0xB2, CHR 0xE5, CHR 0xAE, CHR 0x8C, CHR 0xE6, CHR 0x88, CHR 0x90]"

definition zh_ch_failed :: string where
  "zh_ch_failed = [CHR 0xE5, CHR 0xA4, CHR 0xB1, CHR 0xE8, CHR 0xB4, CHR 0xA5]"

definition zh_ch_unknown :: string where
  "zh_ch_unknown = [CHR 0xE6, CHR 0x9C, CHR 0xAA, CHR 0xE7, CHR 0x9F, CHR 0xA5]"

definition zh_ch_config_changed :: string where
  "zh_ch_config_changed = [CHR 0xE4, CHR 0xBF, CHR 0x9D, CHR 0xE5, CHR 0xAD, CHR 0x98, CHR 0xE7, CHR 0x9A, CHR 0x84, CHR 0xE6,
    CHR 0xA0, CHR 0xB8, CHR 0xE5, CHR 0xBF, CHR 0x83, CHR 0xE9, CHR 0x85, CHR 0x8D, CHR 0xE7, CHR 0xBD,
    CHR 0xAE, CHR 0xE5, CHR 0x8F, CHR 0x98, CHR 0xE5, CHR 0x8C, CHR 0x96, CHR 0xE6, CHR 0xAD, CHR 0xA3,
    CHR 0xE5, CHR 0x9C, CHR 0xA8, CHR 0xE7, CHR 0xAD, CHR 0x89, CHR 0xE5, CHR 0xBE, CHR 0x85, CHR 0xE5,
    CHR 0x90, CHR 0x8C, CHR 0xE6, CHR 0xAD, CHR 0xA5, CHR 0xE3, CHR 0x80, CHR 0x82]"

definition zh_ch_apply_locked :: string where
  "zh_ch_apply_locked = [CHR 0xE5, CHR 0xBD, CHR 0x93, CHR 0xE5, CHR 0x89, CHR 0x8D, CHR 0xE6, CHR 0x9C, CHR 0x89, CHR 0xE5,
    CHR 0x85, CHR 0xB6, CHR 0xE4, CHR 0xBB, CHR 0x96, CHR 0xE5, CHR 0x90, CHR 0x8C, CHR 0xE6, CHR 0xAD,
    CHR 0xA5, CHR 0xE4, CHR 0xBB, CHR 0xBB, CHR 0xE5, CHR 0x8A, CHR 0xA1, CHR 0xE5, CHR 0x8D, CHR 0xA0,
    CHR 0xE7, CHR 0x94, CHR 0xA8, CHR 0xE9, CHR 0x94, CHR 0x81, CHR 0xEF, CHR 0xBC, CHR 0x8C, CHR 0xE7,
    CHR 0xB3, CHR 0xBB, CHR 0xE7, CHR 0xBB, CHR 0x9F, CHR 0xE4, CHR 0xBC, CHR 0x9A, CHR 0xE8, CHR 0x87,
    CHR 0xAA, CHR 0xE5, CHR 0x8A, CHR 0xA8, CHR 0xE9, CHR 0x87, CHR 0x8D, CHR 0xE8, CHR 0xAF, CHR 0x95,
    CHR 0xE3, CHR 0x80, CHR 0x82]"

definition zh_ch_apply_timeout :: string where
  "zh_ch_apply_timeout = [CHR 0xE4, CHR 0xB8, CHR 0x8A, CHR 0xE6, CHR 0xAC, CHR 0xA1, CHR 0xE5, CHR 0x90, CHR 0x8C, CHR 0xE6,
    CHR 0xAD, CHR 0xA5, CHR 0xE8, CHR 0xB6, CHR 0x85, CHR 0xE6, CHR 0x97, CHR 0xB6, CHR 0xEF, CHR 0xBC,
    CHR 0x8C, CHR 0xE7, CHR 0xAD, CHR 0x89, CHR 0xE5, CHR 0xBE, CHR 0x85, CHR 0xE9, CHR 0x87, CHR 0x8D,
    CHR 0xE8, CHR 0xAF, CHR 0x95, CHR 0xE6, CHR 0x88, CHR 0x96, CHR 0xE6, CHR 0x89, CHR 0x8B, CHR 0xE5,
    CHR 0x8A, CHR 0xA8, CHR 0xE5, CHR 0xA4, CHR 0x84, CHR 0xE7, CHR 0x90, CHR 0x86, CHR 0xE3, CHR 0x80,
    CHR 0x82]"

definition zh_ch_disk_mismatch :: string where
  "zh_ch_disk_mismatch = [CHR 0xE7, CHR 0xA3, CHR 0x81, CHR 0xE7, CHR 0x9B, CHR 0x98, CHR 0xE9, CHR 0x85, CHR 0x8D, CHR 0xE7,
    CHR 0xBD, CHR 0xAE, CHR 0xE4, CHR 0xB8, CHR 0x8E, CHR 0xE6, CHR 0x95, CHR 0xB0, CHR 0xE6, CHR 0x8D,
    CHR 0xAE, CHR 0xE5, CHR 0xBA, CHR 0x93, CHR 0xE7, CHR 0x94, CHR 0x9F, CHR 0xE6, CHR 0x88, CHR 0x90,
    CHR 0xE9, CHR 0x85, CHR 0x8D, CHR 0xE7, CHR 0xBD, CHR 0xAE, CHR 0xE4, CHR 0xB8, CHR 0x8D, CHR 0xE4,
    CHR 0xB8, CHR 0x80, CHR 0xE8, CHR 0x87, CHR 0xB4, CHR 0xE3, CHR 0x80, CHR 0x82]"

definition zh_ch_build_failed :: string where
  "zh_ch_build_failed = [CHR 0xE6, CHR 0x95, CHR 0xB0, CHR 0xE6, CHR 0x8D, CHR 0xAE, CHR 0xE5, CHR 0xBA, CHR 0x93, CHR 0xE9,
    CHR 0x85, CHR 0x8D, CHR 0xE7, CHR 0xBD, CHR 0xAE, CHR 0xE7, CHR 0x94, CHR 0x9F, CHR 0xE6, CHR 0x88,
    CHR 0x90, CHR 0xE5, CHR 0xA4, CHR 0xB1, CHR 0xE8, CHR 0xB4, CHR 0xA5, CHR 0xEF, CHR 0xBC, CHR 0x8C,
    CHR 0xE9, CHR 0x9C, CHR 0x80, CHR 0xE8, CHR 0xA6, CHR 0x81, CHR 0xE6, CHR 0xA3, CHR 0x80, CHR 0xE6,
    CHR 0x9F, CHR 0xA5, CHR 0xE7, CHR 0x9B, CHR 0xB8, CHR 0xE5, CHR 0x85, CHR 0xB3, CHR 0xE9, CHR 0x85,
    CHR 0x8D, CHR 0xE7, CHR 0xBD, CHR 0xAE, CHR 0xE3, CHR 0x80, CHR 0x82]"

definition zh_ch_reason :: string where
  "zh_ch_reason = [CHR 0xE5, CHR 0x8E, CHR 0x9F, CHR 0xE5, CHR 0x9B, CHR 0xA0, CHR 0xEF, CHR 0xBC, CHR 0x9A]"

definition zh_ch_disk_missing :: string where
  "zh_ch_disk_missing = [CHR 0xE7, CHR 0xA3, CHR 0x81, CHR 0xE7, CHR 0x9B, CHR 0x98, CHR 0xE9, CHR 0x85, CHR 0x8D, CHR 0xE7,
    CHR 0xBD, CHR 0xAE, CHR 0xE4, CHR 0xB8, CHR 0x8D, CHR 0xE5, CHR 0xAD, CHR 0x98, CHR 0xE5, CHR 0x9C,
    CHR 0xA8]"

definition zh_ch_generate_failed :: string where
  "zh_ch_generate_failed = [CHR 0xE6, CHR 0x95, CHR 0xB0, CHR 0xE6, CHR 0x8D, CHR 0xAE, CHR 0xE5, CHR 0xBA, CHR 0x93, CHR 0xE7,
    CHR 0x94, CHR 0x9F, CHR 0xE6, CHR 0x88, CHR 0x90, CHR 0xE9, CHR 0x85, CHR 0x8D, CHR 0xE7, CHR 0xBD,
    CHR 0xAE, CHR 0xE5, CHR 0xA4, CHR 0xB1, CHR 0xE8, CHR 0xB4, CHR 0xA5]"

definition zh_ch_hash_mismatch :: string where
  "zh_ch_hash_mismatch = [CHR 0xE9, CHR 0x85, CHR 0x8D, CHR 0xE7, CHR 0xBD, CHR 0xAE, CHR 0x20, CHR 0x68, CHR 0x61, CHR 0x73,
    CHR 0x68, CHR 0x20, CHR 0xE4, CHR 0xB8, CHR 0x8D, CHR 0xE4, CHR 0xB8, CHR 0x80, CHR 0xE8, CHR 0x87,
    CHR 0xB4]"

definition zh_ch_parse_failed :: string where
  "zh_ch_parse_failed = [CHR 0xE7, CHR 0xA3, CHR 0x81, CHR 0xE7, CHR 0x9B, CHR 0x98, CHR 0xE9, CHR 0x85, CHR 0x8D, CHR 0xE7,
    CHR 0xBD, CHR 0xAE, CHR 0xE8, CHR 0xA7, CHR 0xA3, CHR 0xE6, CHR 0x9E, CHR 0x90, CHR 0xE5, CHR 0xA4,
    CHR 0xB1, CHR 0xE8, CHR 0xB4, CHR 0xA5]"

definition zh_ch_unknown_reason :: string where
  "zh_ch_unknown_reason = [CHR 0xE6, CHR 0x9C, CHR 0xAA, CHR 0xE7, CHR 0x9F, CHR 0xA5, CHR 0xE5, CHR 0x8E, CHR 0x9F, CHR 0xE5,
    CHR 0x9B, CHR 0xA0]"

definition zh_ch_error :: string where
  "zh_ch_error = [CHR 0xE9, CHR 0x94, CHR 0x99, CHR 0xE8, CHR 0xAF, CHR 0xAF]"

definition zh_ch_warning :: string where
  "zh_ch_warning = [CHR 0xE8, CHR 0xAD, CHR 0xA6, CHR 0xE5, CHR 0x91, CHR 0x8A]"

definition zh_ch_info :: string where
  "zh_ch_info = [CHR 0xE6, CHR 0x8F, CHR 0x90, CHR 0xE7, CHR 0xA4, CHR 0xBA]"

definition zh_ch_service :: string where
  "zh_ch_service = [CHR 0xE6, CHR 0x9C, CHR 0x8D, CHR 0xE5, CHR 0x8A, CHR 0xA1]"

definition zh_ch_config :: string where
  "zh_ch_config = [CHR 0xE9, CHR 0x85, CHR 0x8D, CHR 0xE7, CHR 0xBD, CHR 0xAE]"

definition zh_ch_listener :: string where
  "zh_ch_listener = [CHR 0xE7, CHR 0x9B, CHR 0x91, CHR 0xE5, CHR 0x90, CHR 0xAC]"

definition zh_ch_log :: string where
  "zh_ch_log = [CHR 0xE6, CHR 0x97, CHR 0xA5, CHR 0xE5, CHR 0xBF, CHR 0x97]"

definition zh_ch_security :: string where
  "zh_ch_security = [CHR 0xE5, CHR 0xAE, CHR 0x89, CHR 0xE5, CHR 0x85, CHR 0xA8]"

definition zh_ch_routing :: string where
  "zh_ch_routing = [CHR 0xE8, CHR 0xB7, CHR 0xAF, CHR 0xE7, CHR 0x94, CHR 0xB1]"

definition zh_ch_diagnosis :: string where
  "zh_ch_diagnosis = [CHR 0xE8, CHR 0xAF, CHR 0x8A, CHR 0xE6, CHR 0x96, CHR 0xAD]"

definition zh_wl_sb_install :: string where
  "zh_wl_sb_install = [CHR 0x73, CHR 0x69, CHR 0x6E, CHR 0x67, CHR 0x2D, CHR 0x62, CHR 0x6F, CHR 0x78, CHR 0x20, CHR 0xE6,
    CHR 0x9C, CHR 0xAA, CHR 0xE5, CHR 0xAE, CHR 0x89, CHR 0xE8, CHR 0xA3, CHR 0x85]"

definition zh_wl_sb_managed :: string where
  "zh_wl_sb_managed = [CHR 0x73, CHR 0x69, CHR 0x6E, CHR 0x67, CHR 0x2D, CHR 0x62, CHR 0x6F, CHR 0x78, CHR 0x20, CHR 0xE6,
    CHR 0x9C, CHR 0xAA, CHR 0xE8, CHR 0xA2, CHR 0xAB, CHR 0x20, CHR 0x73, CHR 0x79, CHR 0x73, CHR 0x74,
    CHR 0x65, CHR 0x6D, CHR 0x64, CHR 0x20, CHR 0xE6, CHR 0x89, CHR 0x98, CHR 0xE7, CHR 0xAE, CHR 0xA1]"

definition zh_wl_sb_running :: string where
  "zh_wl_sb_running = [CHR 0x73, CHR 0x69, CHR 0x6E, CHR 0x67, CHR 0x2D, CHR 0x62, CHR 0x6F, CHR 0x78, CHR 0x20, CHR 0xE6,
    CHR 0x9C, CHR 0x8D, CHR 0xE5, CHR 0x8A, CHR 0xA1, CHR 0xE6, CHR 0x9C, CHR 0xAA, CHR 0xE8, CHR 0xBF,
    CHR 0x90, CHR 0xE8, CHR 0xA1, CHR 0x8C]"

definition zh_wl_config_missing :: string where
  "zh_wl_config_missing = [CHR 0xE9, CHR 0x85, CHR 0x8D, CHR 0xE7, CHR 0xBD, CHR 0xAE, CHR 0xE6, CHR 0x96, CHR 0x87, CHR 0xE4,
    CHR 0xBB, CHR 0xB6, CHR 0xE4, CHR 0xB8, CHR 0x8D, CHR 0xE5, CHR 0xAD, CHR 0x98, CHR 0xE5, CHR 0x9C,
    CHR 0xA8]"

definition zh_wl_sb_check :: string where
  "zh_wl_sb_check = [CHR 0x73, CHR 0x69, CHR 0x6E, CHR 0x67, CHR 0x2D, CHR 0x62, CHR 0x6F, CHR 0x78, CHR 0x20, CHR 0x63,
    CHR 0x68, CHR 0x65, CHR 0x63, CHR 0x6B, CHR 0x20, CHR 0xE5, CHR 0xA4, CHR 0xB1, CHR 0xE8, CHR 0xB4,
    CHR 0xA5]"

definition zh_wl_out_of_sync :: string where
  "zh_wl_out_of_sync = [CHR 0xE7, CHR 0xA3, CHR 0x81, CHR 0xE7, CHR 0x9B, CHR 0x98, CHR 0xE9, CHR 0x85, CHR 0x8D, CHR 0xE7,
    CHR 0xBD, CHR 0xAE, CHR 0xE4, CHR 0xB8, CHR 0x8E, CHR 0xE6, CHR 0x95, CHR 0xB0, CHR 0xE6, CHR 0x8D,
    CHR 0xAE, CHR 0xE5, CHR 0xBA, CHR 0x93, CHR 0xE7, CHR 0x94, CHR 0x9F, CHR 0xE6, CHR 0x88, CHR 0x90,
    CHR 0xE9, CHR 0x85, CHR 0x8D, CHR 0xE7, CHR 0xBD, CHR 0xAE, CHR 0xE4, CHR 0xB8, CHR 0x8D, CHR 0xE4,
    CHR 0xB8, CHR 0x80, CHR 0xE8, CHR 0x87, CHR 0xB4]"

definition zh_wl_listeners :: string where
  "zh_wl_listeners = [CHR 0xE6, CHR 0x9C, CHR 0x8D, CHR 0xE5, CHR 0x8A, CHR 0xA1, CHR 0xE8, CHR 0xBF, CHR 0x90, CHR 0xE8,
    CHR 0xA1, CHR 0x8C, CHR 0xE4, CHR 0xBD, CHR 0x86, CHR 0xE5, CHR 0x85, CHR 0xA5, CHR 0xE7, CHR 0xAB,
    CHR 0x99, CHR 0xE7, CHR 0xAB, CHR 0xAF, CHR 0xE5, CHR 0x8F, CHR 0xA3, CHR 0xE6, CHR 0x9C, CHR 0xAA,
    CHR 0xE7, CHR 0x9B, CHR 0x91, CHR 0xE5, CHR 0x90, CHR 0xAC]"

definition zh_wl_no_clients :: string where
  "zh_wl_no_clients = [CHR 0xE5, CHR 0xAD, CHR 0x98, CHR 0xE5, CHR 0x9C, CHR 0xA8, CHR 0xE5, CHR 0x90, CHR 0xAF, CHR 0xE7,
    CHR 0x94, CHR 0xA8, CHR 0xE5, CHR 0x85, CHR 0xA5, CHR 0xE7, CHR 0xAB, CHR 0x99, CHR 0xE4, CHR 0xBD,
    CHR 0x86, CHR 0xE6, CHR 0xB2, CHR 0xA1, CHR 0xE6, CHR 0x9C, CHR 0x89, CHR 0xE5, CHR 0x90, CHR 0xAF,
    CHR 0xE7, CHR 0x94, CHR 0xA8, CHR 0xE5, CHR 0xAE, CHR 0xA2, CHR 0xE6, CHR 0x88, CHR 0xB7, CHR 0xE7,
    CHR 0xAB, CHR 0xAF]"

definition zh_wl_sb_credentials :: string where
  "zh_wl_sb_credentials = [CHR 0x48, CHR 0x79, CHR 0x73, CHR 0x74, CHR 0x65, CHR 0x72, CHR 0x69, CHR 0x61, CHR 0x32, CHR 0x2F,
    CHR 0x54, CHR 0x55, CHR 0x49, CHR 0x43, CHR 0x20, CHR 0xE7, CHR 0xBC, CHR 0xBA, CHR 0xE5, CHR 0xB0,
    CHR 0x91, CHR 0xE5, CHR 0x8F, CHR 0xAF, CHR 0xE7, CHR 0x94, CHR 0xA8, CHR 0xE5, CHR 0xAE, CHR 0xA2,
    CHR 0xE6, CHR 0x88, CHR 0xB7, CHR 0xE7, CHR 0xAB, CHR 0xAF, CHR 0xE5, CHR 0x87, CHR 0xAD, CHR 0xE6,
    CHR 0x8D, CHR 0xAE]"

definition zh_wl_shadowtls :: string where
  "zh_wl_shadowtls = [CHR 0x53, CHR 0x68, CHR 0x61, CHR 0x64, CHR 0x6F, CHR 0x77, CHR 0x54, CHR 0x4C, CHR 0x53, CHR 0x20,
    CHR 0xE7, CHR 0xBC, CHR 0xBA, CHR 0xE5, CHR 0xB0, CHR 0x91, CHR 0x20, CHR 0x68, CHR 0x61, CHR 0x6E,
    CHR 0x64, CHR 0x73, CHR 0x68, CHR 0x61, CHR 0x6B, CHR 0x65, CHR 0x2F, CHR 0x53, CHR 0x4E, CHR 0x49]"

definition zh_wl_sb_route :: string where
  "zh_wl_sb_route = [CHR 0xE8, CHR 0xB7, CHR 0xAF, CHR 0xE7, CHR 0x94, CHR 0xB1, CHR 0xE8, CHR 0xA7, CHR 0x84, CHR 0xE5,
    CHR 0x88, CHR 0x99, CHR 0xE5, CHR 0xBC, CHR 0x95, CHR 0xE7, CHR 0x94, CHR 0xA8, CHR 0xE4, CHR 0xB8,
    CHR 0x8D, CHR 0xE5, CHR 0x8F, CHR 0xAF, CHR 0xE7, CHR 0x94, CHR 0xA8, CHR 0xE4, CHR 0xBA, CHR 0x8E,
    CHR 0x20, CHR 0x73, CHR 0x69, CHR 0x6E, CHR 0x67, CHR 0x2D, CHR 0x62, CHR 0x6F, CHR 0x78, CHR 0x20,
    CHR 0xE7, CHR 0x9A, CHR 0x84, CHR 0xE5, CHR 0x87, CHR 0xBA, CHR 0xE7, CHR 0xAB, CHR 0x99]"

definition zh_wl_sb_stats :: string where
  "zh_wl_sb_stats = [CHR 0x73, CHR 0x69, CHR 0x6E, CHR 0x67, CHR 0x2D, CHR 0x62, CHR 0x6F, CHR 0x78, CHR 0x20, CHR 0xE4,
    CHR 0xBA, CHR 0x8C, CHR 0xE8, CHR 0xBF, CHR 0x9B, CHR 0xE5, CHR 0x88, CHR 0xB6, CHR 0xE4, CHR 0xB8,
    CHR 0x8D, CHR 0xE6, CHR 0x94, CHR 0xAF, CHR 0xE6, CHR 0x8C, CHR 0x81, CHR 0xE5, CHR 0xBD, CHR 0x93,
    CHR 0xE5, CHR 0x89, CHR 0x8D, CHR 0xE7, CHR 0xBB, CHR 0x9F, CHR 0xE8, CHR 0xAE, CHR 0xA1, CHR 0xE7,
    CHR 0x89, CHR 0xB9, CHR 0xE6, CHR 0x80, CHR 0xA7]"

definition zh_wl_sb_stats_check :: string where
  "zh_wl_sb_stats_check = [CHR 0x73, CHR 0x69, CHR 0x6E, CHR 0x67, CHR 0x2D, CHR 0x62, CHR 0x6F, CHR 0x78, CHR 0x20, CHR 0xE4,
    CHR 0xBA, CHR 0x8C, CHR 0xE8, CHR 0xBF, CHR 0x9B, CHR 0xE5, CHR 0x88, CHR 0xB6, CHR 0xE7, CHR 0x89,
    CHR 0xB9, CHR 0xE6, CHR 0x80, CHR 0xA7, CHR 0xE6, CHR 0xA3, CHR 0x80, CHR 0xE6, CHR 0xB5, CHR 0x8B,
    CHR 0xE5, CHR 0xA4, CHR 0xB1, CHR 0xE8, CHR 0xB4, CHR 0xA5]"

definition zh_wl_sb_build :: string where
  "zh_wl_sb_build = [CHR 0xE6, CHR 0x95, CHR 0xB0, CHR 0xE6, CHR 0x8D, CHR 0xAE, CHR 0xE5, CHR 0xBA, CHR 0x93, CHR 0xE7,
    CHR 0x94, CHR 0x9F, CHR 0xE6, CHR 0x88, CHR 0x90, CHR 0x20, CHR 0x73, CHR 0x69, CHR 0x6E, CHR 0x67,
    CHR 0x2D, CHR 0x62, CHR 0x6F, CHR 0x78, CHR 0x20, CHR 0xE9, CHR 0x85, CHR 0x8D, CHR 0xE7, CHR 0xBD,
    CHR 0xAE, CHR 0xE5, CHR 0xA4, CHR 0xB1, CHR 0xE8, CHR 0xB4, CHR 0xA5]"

definition zh_wl_x_install :: string where
  "zh_wl_x_install = [CHR 0x58, CHR 0x72, CHR 0x61, CHR 0x79, CHR 0x20, CHR 0xE6, CHR 0x9C, CHR 0xAA, CHR 0xE5, CHR 0xAE,
    CHR 0x89, CHR 0xE8, CHR 0xA3, CHR 0x85]"

definition zh_wl_x_managed :: string where
  "zh_wl_x_managed = [CHR 0x58, CHR 0x72, CHR 0x61, CHR 0x79, CHR 0x20, CHR 0xE6, CHR 0x9C, CHR 0xAA, CHR 0xE8, CHR 0xA2,
    CHR 0xAB, CHR 0x20, CHR 0x73, CHR 0x79, CHR 0x73, CHR 0x74, CHR 0x65, CHR 0x6D, CHR 0x64, CHR 0x20,
    CHR 0xE6, CHR 0x89, CHR 0x98, CHR 0xE7, CHR 0xAE, CHR 0xA1]"

definition zh_wl_x_running :: string where
  "zh_wl_x_running = [CHR 0x58, CHR 0x72, CHR 0x61, CHR 0x79, CHR 0x20, CHR 0xE6, CHR 0x9C, CHR 0x8D, CHR 0xE5, CHR 0x8A,
    CHR 0xA1, CHR 0xE6, CHR 0x9C, CHR 0xAA, CHR 0xE8, CHR 0xBF, CHR 0x90, CHR 0xE8, CHR 0xA1, CHR 0x8C]"

definition zh_wl_x_check :: string where
  "zh_wl_x_check = [CHR 0x78, CHR 0x72, CHR 0x61, CHR 0x79, CHR 0x20, CHR 0x72, CHR 0x75, CHR 0x6E, CHR 0x20, CHR 0x2D,
    CHR 0x74, CHR 0x65, CHR 0x73, CHR 0x74, CHR 0x20, CHR 0xE5, CHR 0xA4, CHR 0xB1, CHR 0xE8, CHR 0xB4,
    CHR 0xA5]"

definition zh_wl_x_ws :: string where
  "zh_wl_x_ws = [CHR 0x57, CHR 0x53, CHR 0x2F, CHR 0x48, CHR 0x32, CHR 0x20, CHR 0x70, CHR 0x61, CHR 0x74, CHR 0x68,
    CHR 0x20, CHR 0xE9, CHR 0x85, CHR 0x8D, CHR 0xE7, CHR 0xBD, CHR 0xAE, CHR 0xE6, CHR 0x97, CHR 0xA0,
    CHR 0xE6, CHR 0x95, CHR 0x88]"

definition zh_wl_x_grpc_default :: string where
  "zh_wl_x_grpc_default = [CHR 0x67, CHR 0x52, CHR 0x50, CHR 0x43, CHR 0x20, CHR 0x73, CHR 0x65, CHR 0x72, CHR 0x76, CHR 0x69,
    CHR 0x63, CHR 0x65, CHR 0x4E, CHR 0x61, CHR 0x6D, CHR 0x65, CHR 0x20, CHR 0xE5, CHR 0xB0, CHR 0x86,
    CHR 0xE4, CHR 0xBD, CHR 0xBF, CHR 0xE7, CHR 0x94, CHR 0xA8, CHR 0xE9, CHR 0xBB, CHR 0x98, CHR 0xE8,
    CHR 0xAE, CHR 0xA4, CHR 0xE5, CHR 0x80, CHR 0xBC]"

definition zh_wl_x_grpc :: string where
  "zh_wl_x_grpc = [CHR 0x67, CHR 0x52, CHR 0x50, CHR 0x43, CHR 0x20, CHR 0x73, CHR 0x65, CHR 0x72, CHR 0x76, CHR 0x69,
    CHR 0x63, CHR 0x65, CHR 0x4E, CHR 0x61, CHR 0x6D, CHR 0x65, CHR 0x20, CHR 0xE9, CHR 0x85, CHR 0x8D,
    CHR 0xE7, CHR 0xBD, CHR 0xAE, CHR 0xE6, CHR 0x97, CHR 0xA0, CHR 0xE6, CHR 0x95, CHR 0x88]"

definition zh_wl_x_xhttp :: string where
  "zh_wl_x_xhttp = [CHR 0x58, CHR 0x48, CHR 0x54, CHR 0x54, CHR 0x50, CHR 0x20, CHR 0x70, CHR 0x61, CHR 0x74, CHR 0x68,
    CHR 0x20, CHR 0xE9, CHR 0x85, CHR 0x8D, CHR 0xE7, CHR 0xBD, CHR 0xAE, CHR 0xE6, CHR 0x97, CHR 0xA0,
    CHR 0xE6, CHR 0x95, CHR 0x88]"

definition zh_wl_x_reality :: string where
  "zh_wl_x_reality = [CHR 0x52, CHR 0x45, CHR 0x41, CHR 0x4C, CHR 0x49, CHR 0x54, CHR 0x59, CHR 0x20, CHR 0xE9, CHR 0x85,
    CHR 0x8D, CHR 0xE7, CHR 0xBD, CHR 0xAE, CHR 0xE4, CHR 0xB8, CHR 0x8D, CHR 0xE5, CHR 0xAE, CHR 0x8C,
    CHR 0xE6, CHR 0x95, CHR 0xB4]"

definition zh_wl_x_tls :: string where
  "zh_wl_x_tls = [CHR 0x54, CHR 0x4C, CHR 0x53, CHR 0x20, CHR 0xE8, CHR 0xAF, CHR 0x81, CHR 0xE4, CHR 0xB9, CHR 0xA6,
    CHR 0xE9, CHR 0x85, CHR 0x8D, CHR 0xE7, CHR 0xBD, CHR 0xAE, CHR 0xE7, CHR 0xBC, CHR 0xBA, CHR 0xE5,
    CHR 0xA4, CHR 0xB1]"

definition zh_wl_x_ss :: string where
  "zh_wl_x_ss = [CHR 0x53, CHR 0x68, CHR 0x61, CHR 0x64, CHR 0x6F, CHR 0x77, CHR 0x73, CHR 0x6F, CHR 0x63, CHR 0x6B,
    CHR 0x73, CHR 0x20, CHR 0x32, CHR 0x30, CHR 0x32, CHR 0x32, CHR 0x20, CHR 0xE7, CHR 0xBC, CHR 0xBA,
    CHR 0xE5, CHR 0xB0, CHR 0x91, CHR 0xE5, CHR 0x8F, CHR 0xAF, CHR 0xE7, CHR 0x94, CHR 0xA8, CHR 0xE5,
    CHR 0x87, CHR 0xAD, CHR 0xE6, CHR 0x8D, CHR 0xAE]"

definition zh_wl_x_route :: string where
  "zh_wl_x_route = [CHR 0xE8, CHR 0xB7, CHR 0xAF, CHR 0xE7, CHR 0x94, CHR 0xB1, CHR 0xE8, CHR 0xA7, CHR 0x84, CHR 0xE5,
    CHR 0x88, CHR 0x99, CHR 0xE5, CHR 0xBC, CHR 0x95, CHR 0xE7, CHR 0x94, CHR 0xA8, CHR 0xE4, CHR 0xB8,
    CHR 0x8D, CHR 0xE5, CHR 0x8F, CHR 0xAF, CHR 0xE7, CHR 0x94, CHR 0xA8, CHR 0xE4, CHR 0xBA, CHR 0x8E,
    CHR 0x20, CHR 0x58, CHR 0x72, CHR 0x61, CHR 0x79, CHR 0x20, CHR 0xE7, CHR 0x9A, CHR 0x84, CHR 0xE5,
    CHR 0x87, CHR 0xBA, CHR 0xE7, CHR 0xAB, CHR 0x99]"

definition zh_wl_x_build :: string where
  "zh_wl_x_build = [CHR 0xE6, CHR 0x95, CHR 0xB0, CHR 0xE6, CHR 0x8D, CHR 0xAE, CHR 0xE5, CHR 0xBA, CHR 0x93, CHR 0xE7,
    CHR 0x94, CHR 0x9F, CHR 0xE6, CHR 0x88, CHR 0x90, CHR 0x20, CHR 0x58, CHR 0x72, CHR 0x61, CHR 0x79,
    CHR 0x20, CHR 0xE9, CHR 0x85, CHR 0x8D, CHR 0xE7, CHR 0xBD, CHR 0xAE, CHR 0xE5, CHR 0xA4, CHR 0xB1,
    CHR 0xE8, CHR 0xB4, CHR 0xA5]"

definition zh_ch_dot :: string where
  "zh_ch_dot = [CHR 0x20, CHR 0xC2, CHR 0xB7, CHR 0x20]"

definition zh_ch_inbound :: string where
  "zh_ch_inbound = [CHR 0xE5, CHR 0x85, CHR 0xA5, CHR 0xE7, CHR 0xAB, CHR 0x99, CHR 0x20]"

definition zh_ch_port :: string where
  "zh_ch_port = [CHR 0xE7, CHR 0xAB, CHR 0xAF, CHR 0xE5, CHR 0x8F, CHR 0xA3, CHR 0x20]"

definition zh_ch_command :: string where
  "zh_ch_command = [CHR 0xE5, CHR 0x91, CHR 0xBD, CHR 0xE4, CHR 0xBB, CHR 0xA4, CHR 0xEF, CHR 0xBC, CHR 0x9A]"

definition zh_ch_no_ports :: string where
  "zh_ch_no_ports = [CHR 0xE6, CHR 0x9A, CHR 0x82, CHR 0xE6, CHR 0x97, CHR 0xA0, CHR 0xE7, CHR 0x9B, CHR 0x91, CHR 0xE5,
    CHR 0x90, CHR 0xAC, CHR 0xE7, CHR 0xAB, CHR 0xAF, CHR 0xE5, CHR 0x8F, CHR 0xA3, CHR 0xE6, CHR 0x95,
    CHR 0xB0, CHR 0xE6, CHR 0x8D, CHR 0xAE, CHR 0xE3, CHR 0x80, CHR 0x82]"

definition zh_ch_ports_missing :: string where
  "zh_ch_ports_missing = [CHR 0x20, CHR 0xE4, CHR 0xB8, CHR 0xAA, CHR 0xE7, CHR 0xAB, CHR 0xAF, CHR 0xE5, CHR 0x8F, CHR 0xA3,
    CHR 0xE6, CHR 0x9C, CHR 0xAA, CHR 0xE7, CHR 0x9B, CHR 0x91, CHR 0xE5, CHR 0x90, CHR 0xAC, CHR 0xEF,
    CHR 0xBC, CHR 0x8C, CHR 0xE8, CHR 0xAF, CHR 0xB7, CHR 0xE4, CHR 0xBC, CHR 0x98, CHR 0xE5, CHR 0x85,
    CHR 0x88, CHR 0xE6, CHR 0xA3, CHR 0x80, CHR 0xE6, CHR 0x9F, CHR 0xA5, CHR 0xE6, CHR 0x9C, CHR 0x8D,
    CHR 0xE5, CHR 0x8A, CHR 0xA1, CHR 0xE6, CHR 0x97, CHR 0xA5, CHR 0xE5, CHR 0xBF, CHR 0x97, CHR 0xE5,
    CHR 0x92, CHR 0x8C, CHR 0xE9, CHR 0x98, CHR 0xB2, CHR 0xE7, CHR 0x81, CHR 0xAB, CHR 0xE5, CHR 0xA2,
    CHR 0x99, CHR 0xE3, CHR 0x80, CHR 0x82]"

definition zh_ch_ports_ok :: string where
  "zh_ch_ports_ok = [CHR 0x20, CHR 0xE4, CHR 0xB8, CHR 0xAA, CHR 0xE7, CHR 0xAB, CHR 0xAF, CHR 0xE5, CHR 0x8F, CHR 0xA3,
    CHR 0xE7, CHR 0x9B, CHR 0x91, CHR 0xE5, CHR 0x90, CHR 0xAC, CHR 0xE6, CHR 0xAD, CHR 0xA3, CHR 0xE5,
    CHR 0xB8, CHR 0xB8, CHR 0xE3, CHR 0x80, CHR 0x82]"

definition zh_ch_sync_checking :: string where
  "zh_ch_sync_checking = [CHR 0xE6, CHR 0xAD, CHR 0xA3, CHR 0xE5, CHR 0x9C, CHR 0xA8, CHR 0xE6, CHR 0xA3, CHR 0x80, CHR 0xE6,
    CHR 0x9F, CHR 0xA5, CHR 0xE9, CHR 0x85, CHR 0x8D, CHR 0xE7, CHR 0xBD, CHR 0xAE, CHR 0xE5, CHR 0x90,
    CHR 0x8C, CHR 0xE6, CHR 0xAD, CHR 0xA5, CHR 0xE7, CHR 0x8A, CHR 0xB6, CHR 0xE6, CHR 0x80, CHR 0x81]"

definition zh_ch_preview_failed :: string where
  "zh_ch_preview_failed = [CHR 0xE7, CHR 0x94, CHR 0x9F, CHR 0xE6, CHR 0x88, CHR 0x90, CHR 0xE9, CHR 0x85, CHR 0x8D, CHR 0xE7,
    CHR 0xBD, CHR 0xAE, CHR 0xE9, CHR 0xA2, CHR 0x84, CHR 0xE8, CHR 0xA7, CHR 0x88, CHR 0xE5, CHR 0xA4,
    CHR 0xB1, CHR 0xE8, CHR 0xB4, CHR 0xA5]"

definition zh_ch_sync_unknown :: string where
  "zh_ch_sync_unknown = [CHR 0xE9, CHR 0x85, CHR 0x8D, CHR 0xE7, CHR 0xBD, CHR 0xAE, CHR 0xE5, CHR 0x90, CHR 0x8C, CHR 0xE6,
    CHR 0xAD, CHR 0xA5, CHR 0xE7, CHR 0x8A, CHR 0xB6, CHR 0xE6, CHR 0x80, CHR 0x81, CHR 0xE6, CHR 0x9C,
    CHR 0xAA, CHR 0xE7, CHR 0x9F, CHR 0xA5]"

definition zh_ch_changes_pending :: string where
  "zh_ch_changes_pending = [CHR 0xE6, CHR 0x9C, CHR 0x89, CHR 0xE6, CHR 0x9B, CHR 0xB4, CHR 0xE6, CHR 0x94, CHR 0xB9, CHR 0xE5,
    CHR 0xBE, CHR 0x85, CHR 0xE5, CHR 0xBA, CHR 0x94, CHR 0xE7, CHR 0x94, CHR 0xA8]"

definition zh_ch_apply_to_take_effect :: string where
  "zh_ch_apply_to_take_effect = [CHR 0xE4, CHR 0xBF, CHR 0x9D, CHR 0xE5, CHR 0xAD, CHR 0x98, CHR 0xE7, CHR 0x9A, CHR 0x84, CHR 0xE6,
    CHR 0x9B, CHR 0xB4, CHR 0xE6, CHR 0x94, CHR 0xB9, CHR 0xE9, CHR 0x9C, CHR 0x80, CHR 0xE8, CHR 0xA6,
    CHR 0x81, CHR 0xE5, CHR 0xBA, CHR 0x94, CHR 0xE7, CHR 0x94, CHR 0xA8, CHR 0xE9, CHR 0x85, CHR 0x8D,
    CHR 0xE7, CHR 0xBD, CHR 0xAE, CHR 0xE5, CHR 0x90, CHR 0x8E, CHR 0xE7, CHR 0x94, CHR 0x9F, CHR 0xE6,
    CHR 0x95, CHR 0x88]"

definition zh_ch_disk_in_sync :: string where
  "zh_ch_disk_in_sync = [CHR 0xE7, CHR 0xA3, CHR 0x81, CHR 0xE7, CHR 0x9B, CHR 0x98, CHR 0xE9, CHR 0x85, CHR 0x8D, CHR 0xE7,
    CHR 0xBD, CHR 0xAE, CHR 0xE4, CHR 0xB8, CHR 0x8E, CHR 0xE6, CHR 0x95, CHR 0xB0, CHR 0xE6, CHR 0x8D,
    CHR 0xAE, CHR 0xE5, CHR 0xBA, CHR 0x93, CHR 0xE7, CHR 0x94, CHR 0x9F, CHR 0xE6, CHR 0x88, CHR 0x90,
    CHR 0xE9, CHR 0x85, CHR 0x8D, CHR 0xE7, CHR 0xBD, CHR 0xAE, CHR 0xE4, CHR 0xB8, CHR 0x80, CHR 0xE8,
    CHR 0x87, CHR 0xB4]"

definition zh_ch_diag_loading :: string where
  "zh_ch_diag_loading = [CHR 0xE6, CHR 0xAD, CHR 0xA3, CHR 0xE5, CHR 0x9C, CHR 0xA8, CHR 0xE5, CHR 0x8A, CHR 0xA0, CHR 0xE8,
    CHR 0xBD, CHR 0xBD, CHR 0xE8, CHR 0xAF, CHR 0x8A, CHR 0xE6, CHR 0x96, CHR 0xAD]"

definition zh_ch_diag_failed :: string where
  "zh_ch_diag_failed = [CHR 0xE8, CHR 0xAF, CHR 0x8A, CHR 0xE6, CHR 0x96, CHR 0xAD, CHR 0xE5, CHR 0x8A, CHR 0xA0, CHR 0xE8,
    CHR 0xBD, CHR 0xBD, CHR 0xE5, CHR 0xA4, CHR 0xB1, CHR 0xE8, CHR 0xB4, CHR 0xA5]"

definition zh_ch_diag_unknown :: string where
  "zh_ch_diag_unknown = [CHR 0xE8, CHR 0xAF, CHR 0x8A, CHR 0xE6, CHR 0x96, CHR 0xAD, CHR 0xE7, CHR 0x8A, CHR 0xB6, CHR 0xE6,
    CHR 0x80, CHR 0x81, CHR 0xE6, CHR 0x9C, CHR 0xAA, CHR 0xE7, CHR 0x9F, CHR 0xA5]"

definition zh_ch_normal :: string where
  "zh_ch_normal = [CHR 0xE6, CHR 0xAD, CHR 0xA3, CHR 0xE5, CHR 0xB8, CHR 0xB8]"

definition zh_ch_install :: string where
  "zh_ch_install = [CHR 0xE5, CHR 0xAE, CHR 0x89, CHR 0xE8, CHR 0xA3, CHR 0x85]"

definition zh_ch_installed :: string where
  "zh_ch_installed = [CHR 0xE5, CHR 0xB7, CHR 0xB2, CHR 0xE5, CHR 0xAE, CHR 0x89, CHR 0xE8, CHR 0xA3, CHR 0x85]"

definition zh_ch_not_installed :: string where
  "zh_ch_not_installed = [CHR 0xE6, CHR 0x9C, CHR 0xAA, CHR 0xE5, CHR 0xAE, CHR 0x89, CHR 0xE8, CHR 0xA3, CHR 0x85]"

definition zh_ch_systemd :: string where
  "zh_ch_systemd = [CHR 0x73, CHR 0x79, CHR 0x73, CHR 0x74, CHR 0x65, CHR 0x6D, CHR 0x64, CHR 0x20, CHR 0xE6, CHR 0x89,
    CHR 0x98, CHR 0xE7, CHR 0xAE, CHR 0xA1]"

definition zh_ch_managed :: string where
  "zh_ch_managed = [CHR 0xE5, CHR 0xB7, CHR 0xB2, CHR 0xE6, CHR 0x89, CHR 0x98, CHR 0xE7, CHR 0xAE, CHR 0xA1]"

definition zh_ch_unmanaged :: string where
  "zh_ch_unmanaged = [CHR 0xE6, CHR 0x9C, CHR 0xAA, CHR 0xE6, CHR 0x89, CHR 0x98, CHR 0xE7, CHR 0xAE, CHR 0xA1]"

definition zh_ch_service_state :: string where
  "zh_ch_service_state = [CHR 0xE6, CHR 0x9C, CHR 0x8D, CHR 0xE5, CHR 0x8A, CHR 0xA1, CHR 0xE7, CHR 0x8A, CHR 0xB6, CHR 0xE6,
    CHR 0x80, CHR 0x81]"

definition zh_ch_validation :: string where
  "zh_ch_validation = [CHR 0xE9, CHR 0x85, CHR 0x8D, CHR 0xE7, CHR 0xBD, CHR 0xAE, CHR 0xE6, CHR 0xA0, CHR 0xA1, CHR 0xE9,
    CHR 0xAA, CHR 0x8C]"

definition zh_ch_passed :: string where
  "zh_ch_passed = [CHR 0xE9, CHR 0x80, CHR 0x9A, CHR 0xE8, CHR 0xBF, CHR 0x87]"

definition zh_ch_config_sync :: string where
  "zh_ch_config_sync = [CHR 0xE9, CHR 0x85, CHR 0x8D, CHR 0xE7, CHR 0xBD, CHR 0xAE, CHR 0xE5, CHR 0x90, CHR 0x8C, CHR 0xE6,
    CHR 0xAD, CHR 0xA5]"

definition zh_ch_same :: string where
  "zh_ch_same = [CHR 0xE4, CHR 0xB8, CHR 0x80, CHR 0xE8, CHR 0x87, CHR 0xB4]"

definition zh_ch_port_listening :: string where
  "zh_ch_port_listening = [CHR 0xE7, CHR 0xAB, CHR 0xAF, CHR 0xE5, CHR 0x8F, CHR 0xA3, CHR 0xE7, CHR 0x9B, CHR 0x91, CHR 0xE5,
    CHR 0x90, CHR 0xAC]"

definition zh_ch_lacking :: string where
  "zh_ch_lacking = [CHR 0xE7, CHR 0xBC, CHR 0xBA, CHR 0xE5, CHR 0xA4, CHR 0xB1, CHR 0x20]"

definition zh_ch_count :: string where
  "zh_ch_count = [CHR 0x20, CHR 0xE4, CHR 0xB8, CHR 0xAA]"

definition zh_ch_complete :: string where
  "zh_ch_complete = [CHR 0xE5, CHR 0xAE, CHR 0x8C, CHR 0xE6, CHR 0x95, CHR 0xB4]"

definition zh_ch_checking :: string where
  "zh_ch_checking = [CHR 0xE6, CHR 0xAD, CHR 0xA3, CHR 0xE5, CHR 0x9C, CHR 0xA8, CHR 0xE6, CHR 0xA3, CHR 0x80, CHR 0xE6,
    CHR 0x9F, CHR 0xA5]"

definition zh_ch_load_failed :: string where
  "zh_ch_load_failed = [CHR 0xE5, CHR 0x8A, CHR 0xA0, CHR 0xE8, CHR 0xBD, CHR 0xBD, CHR 0xE5, CHR 0xA4, CHR 0xB1, CHR 0xE8,
    CHR 0xB4, CHR 0xA5]"

definition zh_ch_listen_ports :: string where
  "zh_ch_listen_ports = [CHR 0x20, CHR 0xE4, CHR 0xB8, CHR 0xAA, CHR 0xE7, CHR 0x9B, CHR 0x91, CHR 0xE5, CHR 0x90, CHR 0xAC,
    CHR 0xE7, CHR 0xAB, CHR 0xAF, CHR 0xE5, CHR 0x8F, CHR 0xA3]"

definition zh_ch_fix_and_apply :: string where
  "zh_ch_fix_and_apply = [CHR 0xE6, CHR 0x8C, CHR 0x89, CHR 0xE9, CHR 0x94, CHR 0x99, CHR 0xE8, CHR 0xAF, CHR 0xAF, CHR 0xE6,
    CHR 0x8F, CHR 0x90, CHR 0xE7, CHR 0xA4, CHR 0xBA, CHR 0xE4, CHR 0xBF, CHR 0xAE, CHR 0xE5, CHR 0xA4,
    CHR 0x8D, CHR 0xE5, CHR 0x90, CHR 0x8E, CHR 0xE9, CHR 0x87, CHR 0x8D, CHR 0xE6, CHR 0x96, CHR 0xB0,
    CHR 0xE5, CHR 0xBA, CHR 0x94, CHR 0xE7, CHR 0x94, CHR 0xA8, CHR 0xE9, CHR 0x85, CHR 0x8D, CHR 0xE7,
    CHR 0xBD, CHR 0xAE, CHR 0xE3, CHR 0x80, CHR 0x82]"

definition zh_ch_check_and_apply :: string where
  "zh_ch_check_and_apply = [CHR 0xE6, CHR 0xA3, CHR 0x80, CHR 0xE6, CHR 0x9F, CHR 0xA5, CHR 0xE8, CHR 0xAF, CHR 0x8A, CHR 0xE6,
    CHR 0x96, CHR 0xAD, CHR 0xE8, CHR 0xAF, CHR 0xA6, CHR 0xE6, CHR 0x83, CHR 0x85, CHR 0xEF, CHR 0xBC,
    CHR 0x8C, CHR 0xE5, CHR 0xBF, CHR 0x85, CHR 0xE8, CHR 0xA6, CHR 0x81, CHR 0xE6, CHR 0x97, CHR 0xB6,
    CHR 0xE9, CHR 0x87, CHR 0x8D, CHR 0xE6, CHR 0x96, CHR 0xB0, CHR 0xE5, CHR 0xBA, CHR 0x94, CHR 0xE7,
    CHR 0x94, CHR 0xA8, CHR 0xE9, CHR 0x85, CHR 0x8D, CHR 0xE7, CHR 0xBD, CHR 0xAE, CHR 0xE3, CHR 0x80,
    CHR 0x82]"

definition zh_ch_nothing :: string where
  "zh_ch_nothing = [CHR 0xE6, CHR 0x97, CHR 0xA0, CHR 0xE9, CHR 0x9C, CHR 0x80, CHR 0xE5, CHR 0xA4, CHR 0x84, CHR 0xE7,
    CHR 0x90, CHR 0x86, CHR 0xE3, CHR 0x80, CHR 0x82]"

definition zh_ch_manage :: string where
  "zh_ch_manage = [CHR 0xE6, CHR 0x89, CHR 0x98, CHR 0xE7, CHR 0xAE, CHR 0xA1]"

definition zh_ch_state :: string where
  "zh_ch_state = [CHR 0xE7, CHR 0x8A, CHR 0xB6, CHR 0xE6, CHR 0x80, CHR 0x81]"

definition zh_ch_version :: string where
  "zh_ch_version = [CHR 0xE7, CHR 0x89, CHR 0x88, CHR 0xE6, CHR 0x9C, CHR 0xAC]"

definition zh_ch_memory :: string where
  "zh_ch_memory = [CHR 0xE5, CHR 0x86, CHR 0x85, CHR 0xE5, CHR 0xAD, CHR 0x98]"

definition zh_ch_uptime :: string where
  "zh_ch_uptime = [CHR 0xE8, CHR 0xBF, CHR 0x90, CHR 0xE8, CHR 0xA1, CHR 0x8C, CHR 0xE6, CHR 0x97, CHR 0xB6, CHR 0xE9,
    CHR 0x95, CHR 0xBF]"

definition zh_ch_connections :: string where
  "zh_ch_connections = [CHR 0xE8, CHR 0xBF, CHR 0x9E, CHR 0xE6, CHR 0x8E, CHR 0xA5]"

definition zh_ch_config_path :: string where
  "zh_ch_config_path = [CHR 0xE9, CHR 0x85, CHR 0x8D, CHR 0xE7, CHR 0xBD, CHR 0xAE, CHR 0xE8, CHR 0xB7, CHR 0xAF, CHR 0xE5,
    CHR 0xBE, CHR 0x84]"

lemmas texts_CoreStatus =
  zh_ch_queued_def zh_ch_running_def zh_ch_retrying_def zh_ch_succeeded_def zh_ch_failed_def
  zh_ch_unknown_def zh_ch_config_changed_def zh_ch_apply_locked_def zh_ch_apply_timeout_def zh_ch_disk_mismatch_def
  zh_ch_build_failed_def zh_ch_reason_def zh_ch_disk_missing_def zh_ch_generate_failed_def zh_ch_hash_mismatch_def
  zh_ch_parse_failed_def zh_ch_unknown_reason_def zh_ch_error_def zh_ch_warning_def zh_ch_info_def
  zh_ch_service_def zh_ch_config_def zh_ch_listener_def zh_ch_log_def zh_ch_security_def
  zh_ch_routing_def zh_ch_diagnosis_def zh_wl_sb_install_def zh_wl_sb_managed_def zh_wl_sb_running_def
  zh_wl_config_missing_def zh_wl_sb_check_def zh_wl_out_of_sync_def zh_wl_listeners_def zh_wl_no_clients_def
  zh_wl_sb_credentials_def zh_wl_shadowtls_def zh_wl_sb_route_def zh_wl_sb_stats_def zh_wl_sb_stats_check_def
  zh_wl_sb_build_def zh_wl_x_install_def zh_wl_x_managed_def zh_wl_x_running_def zh_wl_x_check_def
  zh_wl_x_ws_def zh_wl_x_grpc_default_def zh_wl_x_grpc_def zh_wl_x_xhttp_def zh_wl_x_reality_def
  zh_wl_x_tls_def zh_wl_x_ss_def zh_wl_x_route_def zh_wl_x_build_def zh_ch_dot_def
  zh_ch_inbound_def zh_ch_port_def zh_ch_command_def zh_ch_no_ports_def zh_ch_ports_missing_def
  zh_ch_ports_ok_def zh_ch_sync_checking_def zh_ch_preview_failed_def zh_ch_sync_unknown_def zh_ch_changes_pending_def
  zh_ch_apply_to_take_effect_def zh_ch_disk_in_sync_def zh_ch_diag_loading_def zh_ch_diag_failed_def zh_ch_diag_unknown_def
  zh_ch_normal_def zh_ch_install_def zh_ch_installed_def zh_ch_not_installed_def zh_ch_systemd_def
  zh_ch_managed_def zh_ch_unmanaged_def zh_ch_service_state_def zh_ch_validation_def zh_ch_passed_def
  zh_ch_config_sync_def zh_ch_same_def zh_ch_port_listening_def zh_ch_lacking_def zh_ch_count_def
  zh_ch_complete_def zh_ch_checking_def zh_ch_load_failed_def zh_ch_listen_ports_def zh_ch_fix_and_apply_def
  zh_ch_check_and_apply_def zh_ch_nothing_def zh_ch_manage_def zh_ch_state_def zh_ch_version_def
  zh_ch_memory_def zh_ch_uptime_def zh_ch_connections_def zh_ch_config_path_def

lemma texts_nonempty_CoreStatus [simp]:
  "zh_ch_queued \<noteq> []" "zh_ch_running \<noteq> []" "zh_ch_retrying \<noteq> []" "zh_ch_succeeded \<noteq> []"
  "zh_ch_failed \<noteq> []" "zh_ch_unknown \<noteq> []" "zh_ch_config_changed \<noteq> []" "zh_ch_apply_locked \<noteq> []"
  "zh_ch_apply_timeout \<noteq> []" "zh_ch_disk_mismatch \<noteq> []" "zh_ch_build_failed \<noteq> []" "zh_ch_reason \<noteq> []"
  "zh_ch_disk_missing \<noteq> []" "zh_ch_generate_failed \<noteq> []" "zh_ch_hash_mismatch \<noteq> []" "zh_ch_parse_failed \<noteq> []"
  "zh_ch_unknown_reason \<noteq> []" "zh_ch_error \<noteq> []" "zh_ch_warning \<noteq> []" "zh_ch_info \<noteq> []"
  "zh_ch_service \<noteq> []" "zh_ch_config \<noteq> []" "zh_ch_listener \<noteq> []" "zh_ch_log \<noteq> []"
  "zh_ch_security \<noteq> []" "zh_ch_routing \<noteq> []" "zh_ch_diagnosis \<noteq> []" "zh_wl_sb_install \<noteq> []"
  "zh_wl_sb_managed \<noteq> []" "zh_wl_sb_running \<noteq> []" "zh_wl_config_missing \<noteq> []" "zh_wl_sb_check \<noteq> []"
  "zh_wl_out_of_sync \<noteq> []" "zh_wl_listeners \<noteq> []" "zh_wl_no_clients \<noteq> []" "zh_wl_sb_credentials \<noteq> []"
  "zh_wl_shadowtls \<noteq> []" "zh_wl_sb_route \<noteq> []" "zh_wl_sb_stats \<noteq> []" "zh_wl_sb_stats_check \<noteq> []"
  "zh_wl_sb_build \<noteq> []" "zh_wl_x_install \<noteq> []" "zh_wl_x_managed \<noteq> []" "zh_wl_x_running \<noteq> []"
  "zh_wl_x_check \<noteq> []" "zh_wl_x_ws \<noteq> []" "zh_wl_x_grpc_default \<noteq> []" "zh_wl_x_grpc \<noteq> []"
  "zh_wl_x_xhttp \<noteq> []" "zh_wl_x_reality \<noteq> []" "zh_wl_x_tls \<noteq> []" "zh_wl_x_ss \<noteq> []"
  "zh_wl_x_route \<noteq> []" "zh_wl_x_build \<noteq> []" "zh_ch_dot \<noteq> []" "zh_ch_inbound \<noteq> []"
  "zh_ch_port \<noteq> []" "zh_ch_command \<noteq> []" "zh_ch_no_ports \<noteq> []" "zh_ch_ports_missing \<noteq> []"
  "zh_ch_ports_ok \<noteq> []" "zh_ch_sync_checking \<noteq> []" "zh_ch_preview_failed \<noteq> []" "zh_ch_sync_unknown \<noteq> []"
  "zh_ch_changes_pending \<noteq> []" "zh_ch_apply_to_take_effect \<noteq> []" "zh_ch_disk_in_sync \<noteq> []" "zh_ch_diag_loading \<noteq> []"
  "zh_ch_diag_failed \<noteq> []" "zh_ch_diag_unknown \<noteq> []" "zh_ch_normal \<noteq> []" "zh_ch_install \<noteq> []"
  "zh_ch_installed \<noteq> []" "zh_ch_not_installed \<noteq> []" "zh_ch_systemd \<noteq> []" "zh_ch_managed \<noteq> []"
  "zh_ch_unmanaged \<noteq> []" "zh_ch_service_state \<noteq> []" "zh_ch_validation \<noteq> []" "zh_ch_passed \<noteq> []"
  "zh_ch_config_sync \<noteq> []" "zh_ch_same \<noteq> []" "zh_ch_port_listening \<noteq> []" "zh_ch_lacking \<noteq> []"
  "zh_ch_count \<noteq> []" "zh_ch_complete \<noteq> []" "zh_ch_checking \<noteq> []" "zh_ch_load_failed \<noteq> []"
  "zh_ch_listen_ports \<noteq> []" "zh_ch_fix_and_apply \<noteq> []" "zh_ch_check_and_apply \<noteq> []" "zh_ch_nothing \<noteq> []"
  "zh_ch_manage \<noteq> []" "zh_ch_state \<noteq> []" "zh_ch_version \<noteq> []" "zh_ch_memory \<noteq> []"
  "zh_ch_uptime \<noteq> []" "zh_ch_connections \<noteq> []" "zh_ch_config_path \<noteq> []"
  by (simp_all add: texts_CoreStatus)

section \<open>What the server says of a core\<close>

record core_listener =
  li_inbound_id :: int
  li_protocol :: string
  li_port :: int
  li_network :: "string option"
  li_transport :: "string option"
  li_path :: "string option"
  li_grpc_service_name :: "string option"
  li_security :: "string option"
  li_listening :: bool

record diagnostic_action =
  da_code :: string
  da_severity :: string
  da_category :: string
  da_message :: string
  da_command :: "string option"
  da_inbound_id :: "int option"
  da_port :: "int option"

record core_status =
  sc_status :: string
  sc_managed :: "bool option"
  sc_installed :: "bool option"
  sc_version :: "string option"
  sc_memory_rss_bytes :: "rat option"
  sc_uptime :: "string option"
  sc_active_connections :: "int option"
  sc_config_path :: "string option"
  sc_listening_ports :: "core_listener list option"
  sc_pending_apply :: "bool option"
  sc_pending_apply_error :: "string option"
  sc_pending_apply_detail :: "string option"
  sc_pending_reason :: "string option"
  sc_apply_job :: "apply_job option"

record core_artifact =
  ca_config_path :: string
  ca_hash :: "string option"
  ca_detail :: "string option"

record config_preview =
  pv_config_path :: string
  pv_in_sync :: "bool option"
  pv_reason :: "string option"
  pv_pending_apply :: "bool option"
  pv_error :: "string option"
  pv_detail :: "string option"
  pv_applied_config_hash :: "string option"
  pv_pending_reason :: "string option"
  pv_disk :: "core_artifact option"
  pv_generated :: "core_artifact option"

record core_diagnostics =
  dg_installed :: "bool option"
  dg_managed :: "bool option"
  dg_service :: string
  dg_service_status :: string
  dg_config_path :: string
  dg_config_exists :: "bool option"
  dg_config_valid :: "bool option"
  dg_config_error :: "string option"
  dg_disk_generated_in_sync :: "bool option"
  dg_sync_reason :: "string option"
  dg_expected_listeners :: "core_listener list option"
  dg_missing_listeners :: "core_listener list option"
  dg_warnings :: "string list option"
  dg_suggestions :: "string list option"
  dg_actions :: "diagnostic_action list option"
  dg_suggestion_details :: "diagnostic_action list option"

datatype status_tone = StatusOk | StatusWarning | StatusError | StatusNeutral

abbreviation of_opt :: "('a \<Rightarrow> 'b option) \<Rightarrow> 'a option \<Rightarrow> 'b option" where \<comment> \<open>\<^verbatim>\<open>v?.field\<close>\<close>
  "of_opt f v \<equiv> Option.bind v f"

abbreviation first_of :: "string list option \<Rightarrow> string" where \<comment> \<open>\<^verbatim>\<open>xs?.[0]\<close>\<close>
  "first_of xs \<equiv> (case olist xs of [] \<Rightarrow> [] | x # _ \<Rightarrow> x)"

definition hash_of :: "core_artifact option \<Rightarrow> string" where \<comment> \<open>\<^verbatim>\<open>v?.hash\<close>\<close>
  "hash_of a = ostr (of_opt ca_hash a)"

section \<open>Labels\<close>

definition coreApplyJobInProgress :: "string option \<Rightarrow> bool" where
  "coreApplyJobInProgress status \<longleftrightarrow> toLowerCase (ostr status) \<in> {''queued'', ''running'', ''retrying''}"

definition applyJobStatusLabel :: "string option \<Rightarrow> string" where
  "applyJobStatusLabel status =
     (let s = toLowerCase (ostr status) in
      if s = ''queued'' then zh_ch_queued
      else if s = ''running'' then zh_ch_running
      else if s = ''retrying'' then zh_ch_retrying
      else if s = ''succeeded'' then zh_ch_succeeded
      else if s = ''failed'' then zh_ch_failed
      else str_or (ostr status) zh_ch_unknown)"

definition humanPendingReason :: "string \<Rightarrow> string" where
  "humanPendingReason reason =
     (if reason = ''config_changed'' then zh_ch_config_changed
      else if reason = ''apply_locked'' then zh_ch_apply_locked
      else if reason = ''apply_timeout'' then zh_ch_apply_timeout
      else if reason = ''disk_hash_mismatch'' then zh_ch_disk_mismatch
      else if reason = ''generated_build_failed'' then zh_ch_build_failed
      else if reason \<noteq> [] then zh_ch_reason @ reason else [])"

definition configSyncReasonLabel :: "string \<Rightarrow> string" where
  "configSyncReasonLabel reason =
     (if reason = ''disk_missing'' then zh_ch_disk_missing
      else if reason = ''generated_build_failed'' then zh_ch_generate_failed
      else if reason = ''hash_mismatch'' then zh_ch_hash_mismatch
      else if reason = ''disk_parse_failed'' then zh_ch_parse_failed
      else str_or reason zh_ch_unknown_reason)"

definition diagnosticSeverityLabel :: "string \<Rightarrow> string" where
  "diagnosticSeverityLabel severity =
     (if severity = ''error'' then zh_ch_error
      else if severity = ''warning'' then zh_ch_warning
      else if severity = ''info'' then zh_ch_info
      else str_or severity zh_ch_info)"

definition diagnosticCategoryLabel :: "string \<Rightarrow> string" where
  "diagnosticCategoryLabel category =
     (if category = ''service'' then zh_ch_service
      else if category = ''config'' then zh_ch_config
      else if category = ''listener'' then zh_ch_listener
      else if category = ''log'' then zh_ch_log
      else if category = ''security'' then zh_ch_security
      else if category = ''routing'' then zh_ch_routing
      else str_or category zh_ch_diagnosis)"

definition diagnosticActionToneClass :: "string \<Rightarrow> string" where
  "diagnosticActionToneClass severity =
     (if severity = ''error'' then ''bg-red-100 text-red-700''
      else if severity = ''warning'' then ''bg-amber-100 text-amber-800''
      else ''bg-sky-100 text-sky-700'')"

definition warning_labels :: "(string \<times> string) list" where
  "warning_labels =
     [(''singbox_not_installed'', zh_wl_sb_install),
      (''singbox_not_systemd_managed'', zh_wl_sb_managed),
      (''singbox_service_not_running'', zh_wl_sb_running),
      (''singbox_config_missing'', zh_wl_config_missing),
      (''singbox_config_invalid'', zh_wl_sb_check),
      (''singbox_config_out_of_sync'', zh_wl_out_of_sync),
      (''singbox_missing_listeners'', zh_wl_listeners),
      (''singbox_inbound_without_enabled_clients'', zh_wl_no_clients),
      (''singbox_client_credentials_missing'', zh_wl_sb_credentials),
      (''shadowtls_handshake_missing'', zh_wl_shadowtls),
      (''singbox_route_outbound_unavailable'', zh_wl_sb_route),
      (''singbox_stats_unsupported'', zh_wl_sb_stats),
      (''singbox_stats_capability_check_failed'', zh_wl_sb_stats_check),
      (''singbox_generated_config_build_failed'', zh_wl_sb_build),
      (''xray_not_installed'', zh_wl_x_install),
      (''xray_not_systemd_managed'', zh_wl_x_managed),
      (''xray_service_not_running'', zh_wl_x_running),
      (''xray_config_missing'', zh_wl_config_missing),
      (''xray_config_invalid'', zh_wl_x_check),
      (''xray_config_out_of_sync'', zh_wl_out_of_sync),
      (''xray_missing_listeners'', zh_wl_listeners),
      (''xray_inbound_without_enabled_clients'', zh_wl_no_clients),
      (''xray_ws_path_invalid'', zh_wl_x_ws),
      (''xray_grpc_service_name_default'', zh_wl_x_grpc_default),
      (''xray_grpc_service_name_invalid'', zh_wl_x_grpc),
      (''xray_xhttp_path_invalid'', zh_wl_x_xhttp),
      (''xray_reality_settings_incomplete'', zh_wl_x_reality),
      (''xray_tls_certificate_missing'', zh_wl_x_tls),
      (''xray_shadowsocks_credentials_missing'', zh_wl_x_ss),
      (''xray_route_outbound_unavailable'', zh_wl_x_route),
      (''xray_generated_config_build_failed'', zh_wl_x_build)]"

definition diagnosticWarningLabel :: "string \<Rightarrow> string" where
  "diagnosticWarningLabel warning =
     (case map_of warning_labels warning of None \<Rightarrow> warning | Some label \<Rightarrow> str_or label warning)"

section \<open>Suggestions\<close>

definition coreDiagnosticActions :: "core_diagnostics option \<Rightarrow> diagnostic_action list" where
  "coreDiagnosticActions diagnostics =
     (let acts = olist (of_opt dg_actions diagnostics);
          actions = (if acts \<noteq> [] then acts else olist (of_opt dg_suggestion_details diagnostics))
      in filter (\<lambda>a. da_code a \<noteq> [] \<and> da_message a \<noteq> []) actions)"

record formatted_action =
  fa_severity :: string
  fa_category :: string
  fa_message :: string
  fa_command :: string
  fa_target :: string
  fa_summary :: string

definition join_parts :: "string \<Rightarrow> string list \<Rightarrow> string" where \<comment> \<open>\<^verbatim>\<open>.filter(Boolean).join(sep)\<close>\<close>
  "join_parts sep parts = join sep (filter (\<lambda>p. p \<noteq> []) parts)"

definition formatDiagnosticAction :: "diagnostic_action \<Rightarrow> formatted_action" where
  "formatDiagnosticAction action =
     (let severity = diagnosticSeverityLabel (da_severity action);
          category = diagnosticCategoryLabel (da_category action);
          target = join_parts zh_ch_dot
            [if oint (da_inbound_id action) \<noteq> 0 then zh_ch_inbound @ int_str (oint (da_inbound_id action)) else [],
             if oint (da_port action) \<noteq> 0 then zh_ch_port @ int_str (oint (da_port action)) else []];
          command = trim (ostr (da_command action));
          message = str_or (da_message action) (diagnosticWarningLabel (da_code action));
          summary = join_parts zh_ch_dot
            [severity, category, target, message, if command \<noteq> [] then zh_ch_command @ command else []]
      in \<lparr>fa_severity = severity, fa_category = category, fa_message = message, fa_command = command,
          fa_target = target, fa_summary = summary\<rparr>)"

definition diagnosticSuggestionItems :: "core_diagnostics option \<Rightarrow> string list" where
  "diagnosticSuggestionItems diagnostics =
     (let actions = coreDiagnosticActions diagnostics in
      if actions \<noteq> [] then map (\<lambda>a. fa_summary (formatDiagnosticAction a)) actions
      else olist (of_opt dg_suggestions diagnostics))"

section \<open>Is it installed?\<close>

definition isKnownCoreSignal :: "string \<Rightarrow> bool" where
  "isKnownCoreSignal value = (let signal = toLowerCase (trim value) in signal \<noteq> [] \<and> signal \<noteq> ''unknown'')"

definition hasCoreInstallSignal :: "core_status option \<Rightarrow> bool" where
  "hasCoreInstallSignal status =
     (isKnownCoreSignal (ostr (of_opt sc_version status)) \<or> isKnownCoreSignal (case status of None \<Rightarrow> [] | Some s \<Rightarrow> sc_status s))"

definition isCoreInstalled :: "core_status option \<Rightarrow> bool" where
  "isCoreInstalled status =
     (case of_opt sc_installed status of
        Some b \<Rightarrow> b
      | None \<Rightarrow>
          (let version = toLowerCase (trim (ostr (of_opt sc_version status)));
               serviceStatus = toLowerCase (trim (case status of None \<Rightarrow> [] | Some s \<Rightarrow> sc_status s))
           in if version \<noteq> [] \<and> version \<noteq> ''unknown'' \<and> version \<noteq> ''not_installed'' then True
              else serviceStatus \<noteq> [] \<and> serviceStatus \<noteq> ''unknown'' \<and> serviceStatus \<noteq> ''not_installed''))"

definition coreInstalledWithDiagnostics :: "core_status option \<Rightarrow> core_diagnostics option \<Rightarrow> bool" where
  "coreInstalledWithDiagnostics status diagnostics =
     (case of_opt sc_installed status of
        Some b \<Rightarrow> b
      | None \<Rightarrow> if hasCoreInstallSignal status then isCoreInstalled status
                else is_on (of_opt dg_installed diagnostics))"

section \<open>Listeners\<close>

record listener_row =
  lr_inboundId :: int
  lr_protocol :: string
  lr_port :: int
  lr_transport :: string
  lr_network :: "string option"
  lr_security :: "string option"
  lr_detail :: "string option"
  lr_listening :: bool

definition listenerDetail :: "core_listener \<Rightarrow> string" where
  "listenerDetail item = str_or (ostr (li_grpc_service_name item)) (str_or (ostr (li_path item)) ''-'')"

definition listener_row_of :: "core_listener \<Rightarrow> listener_row" where
  "listener_row_of item =
     (let transport = str_or (ostr (li_transport item)) (str_or (ostr (li_network item)) ''-'');
          network = ostr (li_network item);
          detail = listenerDetail item
      in \<lparr>lr_inboundId = li_inbound_id item, lr_protocol = str_or (li_protocol item) ''-'', lr_port = li_port item,
          lr_transport = transport,
          lr_network = (if network \<noteq> [] \<and> network \<noteq> transport then Some network else None),
          lr_security = (if ostr (li_security item) \<noteq> [] then Some (ostr (li_security item)) else None),
          lr_detail = (if detail \<noteq> ''-'' then Some detail else None),
          lr_listening = li_listening item\<rparr>)"

definition coreListeningDiagnostics :: "core_status option \<Rightarrow> core_diagnostics option \<Rightarrow> listener_row list" where
  "coreListeningDiagnostics status diagnostics =
     (let ports = olist (of_opt sc_listening_ports status);
          source = (if ports \<noteq> [] then ports else olist (of_opt dg_expected_listeners diagnostics))
      in map listener_row_of source)"

definition singboxListeningDiagnostics :: "core_status option \<Rightarrow> listener_row list" where
  "singboxListeningDiagnostics status = coreListeningDiagnostics status None"

definition corePortSummary :: "listener_row list \<Rightarrow> string" where
  "corePortSummary ports =
     (if ports = [] then zh_ch_no_ports
      else let missing = length (filter (\<lambda>p. \<not> lr_listening p) ports) in
           if missing \<noteq> 0 then nat_str missing @ zh_ch_ports_missing
           else nat_str (length ports) @ zh_ch_ports_ok)"

section \<open>The parts of the diagnosis\<close>

record sync_state =
  sy_ok :: "bool option"
  sy_label :: string
  sy_detail :: string

definition configSyncState :: "config_preview option \<Rightarrow> bool \<Rightarrow> string option \<Rightarrow> sync_state" where
  "configSyncState preview loading err =
     (if loading then \<lparr>sy_ok = None, sy_label = zh_ch_sync_checking, sy_detail = []\<rparr>
      else case err of
        Some m \<Rightarrow> \<lparr>sy_ok = Some False, sy_label = zh_ch_preview_failed, sy_detail = m\<rparr>
      | None \<Rightarrow>
        (case preview of
           None \<Rightarrow> \<lparr>sy_ok = None, sy_label = zh_ch_sync_unknown, sy_detail = []\<rparr>
         | Some p \<Rightarrow>
             if is_on (pv_pending_apply p) then
               (let hashes = join_parts zh_ch_dot
                  [if ostr (pv_applied_config_hash p) \<noteq> [] then ''applied: '' @ ostr (pv_applied_config_hash p) else [],
                   if hash_of (pv_generated p) \<noteq> [] then ''generated: '' @ hash_of (pv_generated p) else []]
                in \<lparr>sy_ok = Some False, sy_label = zh_ch_changes_pending,
                    sy_detail = str_or hashes zh_ch_apply_to_take_effect\<rparr>)
             else if is_on (pv_in_sync p) then
               \<lparr>sy_ok = Some True, sy_label = zh_ch_disk_in_sync,
                sy_detail = str_or (hash_of (pv_generated p)) (hash_of (pv_disk p))\<rparr>
             else
               (let reason = (if ostr (pv_reason p) \<noteq> [] then zh_ch_reason @ configSyncReasonLabel (ostr (pv_reason p)) else []);
                    hashDetail = join_parts zh_ch_dot
                      [if hash_of (pv_disk p) \<noteq> [] then ''disk: '' @ hash_of (pv_disk p) else [],
                       if hash_of (pv_generated p) \<noteq> [] then ''generated: '' @ hash_of (pv_generated p) else []]
                in \<lparr>sy_ok = Some False, sy_label = zh_wl_out_of_sync,
                    sy_detail = join_parts zh_ch_dot
                      [reason, str_or (ostr (of_opt ca_detail (pv_disk p)))
                        (str_or (ostr (of_opt ca_detail (pv_generated p))) hashDetail)]\<rparr>)))"

record diag_summary =
  ds_tone :: status_tone
  ds_label :: string
  ds_detail :: string

definition coreDiagnosticsSummary :: "core_diagnostics option \<Rightarrow> bool \<Rightarrow> string option \<Rightarrow> diag_summary" where
  "coreDiagnosticsSummary diagnostics loading err =
     (if loading then \<lparr>ds_tone = StatusWarning, ds_label = zh_ch_diag_loading, ds_detail = []\<rparr>
      else case err of
        Some m \<Rightarrow> \<lparr>ds_tone = StatusError, ds_label = zh_ch_diag_failed, ds_detail = m\<rparr>
      | None \<Rightarrow>
        (case diagnostics of
           None \<Rightarrow> \<lparr>ds_tone = StatusWarning, ds_label = zh_ch_diag_unknown, ds_detail = []\<rparr>
         | Some d \<Rightarrow>
             if \<not> is_on (dg_installed d) \<or> dg_service_status d = ''not_installed'' \<or> \<not> is_on (dg_config_exists d)
                \<or> \<not> is_on (dg_config_valid d) \<or> dg_service_status d = ''stopped''
             then \<lparr>ds_tone = StatusError, ds_label = zh_ch_error,
                   ds_detail = str_or (ostr (dg_config_error d)) (first_of (dg_warnings d))\<rparr>
             else if olist (dg_warnings d) \<noteq> [] \<or> olist (dg_missing_listeners d) \<noteq> []
                \<or> \<not> is_on (dg_disk_generated_in_sync d) \<or> dg_service_status d = ''not_managed''
             then \<lparr>ds_tone = StatusWarning, ds_label = zh_ch_warning, ds_detail = first_of (dg_warnings d)\<rparr>
             else \<lparr>ds_tone = StatusOk, ds_label = zh_ch_normal, ds_detail = []\<rparr>))"

definition singboxDiagnosticsSummary :: "core_diagnostics option \<Rightarrow> bool \<Rightarrow> string option \<Rightarrow> diag_summary" where
  "singboxDiagnosticsSummary diagnostics loading err = coreDiagnosticsSummary diagnostics loading err"

record check_row =
  ck_label :: string
  ck_value :: string
  ck_ok :: "bool option"

definition coreDiagnosticChecks :: "core_diagnostics option \<Rightarrow> check_row list" where
  "coreDiagnosticChecks diagnostics =
     (let status = (case diagnostics of None \<Rightarrow> [] | Some d \<Rightarrow> dg_service_status d);
          missing = olist (of_opt dg_missing_listeners diagnostics) in
      [\<lparr>ck_label = zh_ch_install,
        ck_value = (if is_on (of_opt dg_installed diagnostics) then zh_ch_installed else zh_ch_not_installed),
        ck_ok = Some (is_on (of_opt dg_installed diagnostics))\<rparr>,
       \<lparr>ck_label = zh_ch_systemd,
        ck_value = (if is_on (of_opt dg_managed diagnostics)
           then str_or (case diagnostics of None \<Rightarrow> [] | Some d \<Rightarrow> dg_service d) zh_ch_managed else zh_ch_unmanaged),
        ck_ok = Some (is_on (of_opt dg_managed diagnostics))\<rparr>,
       \<lparr>ck_label = zh_ch_service_state,
        ck_value = serviceLabel (if status = [] then None else Some status),
        ck_ok = Some (status = ''running'')\<rparr>,
       \<lparr>ck_label = zh_ch_validation,
        ck_value = (if is_on (of_opt dg_config_valid diagnostics) then zh_ch_passed else zh_ch_failed),
        ck_ok = Some (is_on (of_opt dg_config_valid diagnostics))\<rparr>,
       \<lparr>ck_label = zh_ch_config_sync,
        ck_value = (if is_on (of_opt dg_disk_generated_in_sync diagnostics) then zh_ch_same
           else configSyncReasonLabel (ostr (of_opt dg_sync_reason diagnostics))),
        ck_ok = Some (is_on (of_opt dg_disk_generated_in_sync diagnostics))\<rparr>,
       \<lparr>ck_label = zh_ch_port_listening,
        ck_value = (if missing \<noteq> [] then zh_ch_lacking @ nat_str (length missing) @ zh_ch_count else zh_ch_complete),
        ck_ok = Some (missing = [])\<rparr>])"

definition singboxDiagnosticChecks :: "core_diagnostics option \<Rightarrow> check_row list" where
  "singboxDiagnosticChecks diagnostics = coreDiagnosticChecks diagnostics"

definition coreDiagnosticCheckLabels :: "string list" where
  "coreDiagnosticCheckLabels =
     [zh_ch_install, zh_ch_systemd, zh_ch_service_state, zh_ch_validation, zh_ch_config_sync, zh_ch_port_listening]"

definition diagnosticChecksForPanel :: "core_diagnostics option \<Rightarrow> bool \<Rightarrow> string option \<Rightarrow> check_row list" where
  "diagnosticChecksForPanel diagnostics loading err =
     (let same = (\<lambda>v. map (\<lambda>l. \<lparr>ck_label = l, ck_value = v, ck_ok = None\<rparr>) coreDiagnosticCheckLabels) in
      if loading then same zh_ch_checking
      else if err \<noteq> None then same zh_ch_load_failed
      else if diagnostics = None then same zh_ch_unknown
      else coreDiagnosticChecks diagnostics)"

definition issueSummary :: "core_diagnostics option \<Rightarrow> diag_summary \<Rightarrow> string" where
  "issueSummary diagnostics summary =
     (if ds_detail summary \<noteq> [] then diagnosticWarningLabel (ds_detail summary)
      else if olist (of_opt dg_missing_listeners diagnostics) \<noteq> []
        then zh_ch_lacking @ nat_str (length (olist (of_opt dg_missing_listeners diagnostics))) @ zh_ch_listen_ports
      else if olist (of_opt dg_warnings diagnostics) \<noteq> []
        then diagnosticWarningLabel (first_of (of_opt dg_warnings diagnostics))
      else ds_label summary)"

definition recommendedAction :: "core_diagnostics option \<Rightarrow> diag_summary \<Rightarrow> string" where
  "recommendedAction diagnostics summary =
     (case coreDiagnosticActions diagnostics of
        a # _ \<Rightarrow> fa_message (formatDiagnosticAction a)
      | [] \<Rightarrow>
          if first_of (of_opt dg_suggestions diagnostics) \<noteq> [] then first_of (of_opt dg_suggestions diagnostics)
          else if ds_tone summary = StatusError then zh_ch_fix_and_apply
          else if ds_tone summary = StatusWarning then zh_ch_check_and_apply
          else zh_ch_nothing)"

definition coreStatusMetrics :: "core_status option \<Rightarrow> string option \<Rightarrow> (string \<times> string) list" where
  "coreStatusMetrics status fallbackVersion =
     [(zh_ch_install, if isCoreInstalled status then zh_ch_installed else zh_ch_not_installed),
      (zh_ch_manage, if is_on (of_opt sc_managed status) then zh_ch_managed else zh_ch_unmanaged),
      (zh_ch_state, serviceLabel (map_option sc_status status)),
      (zh_ch_version, versionLabel (if ostr (of_opt sc_version status) \<noteq> [] then of_opt sc_version status else fallbackVersion)),
      (zh_ch_memory, formatBytes (of_opt sc_memory_rss_bytes status)),
      (zh_ch_uptime, str_or (ostr (of_opt sc_uptime status)) ''-''),
      (zh_ch_connections, int_str (oint (of_opt sc_active_connections status))),
      (zh_ch_config_path, str_or (ostr (of_opt sc_config_path status)) ''-'')]"

end
