(* ===== verification/CoreHealth.thy ===== *)
theory CoreHealth
  imports CoreStatus
begin

text \<open>
  The two verdicts of a core page, \<^verbatim>\<open>coreUserSyncState\<close> and \<^verbatim>\<open>coreHealthSummary\<close> of
  \<^verbatim>\<open>src/web/src/routes/CorePage.tsx\<close>, and the card that shows them: whether the configuration is in
  force, and whether anything is wrong with the core. A healthy verdict is never given on a bad sign; the
  two verdicts disagree when the preview and the diagnostics do.
\<close>

section \<open>Texts\<close>

text \<open>The non-ASCII texts of this part of the user interface, as UTF-8 bytes.\<close>

definition zh_ch_attempt :: string where
  "zh_ch_attempt = [CHR 0xEF, CHR 0xBC, CHR 0x8C, CHR 0xE7, CHR 0xAC, CHR 0xAC, CHR 0x20]"

definition zh_ch_times :: string where
  "zh_ch_times = [CHR 0x20, CHR 0xE6, CHR 0xAC, CHR 0xA1, CHR 0xE9, CHR 0x87, CHR 0x8D, CHR 0xE8, CHR 0xAF, CHR 0x95]"

definition zh_ch_syncing :: string where
  "zh_ch_syncing = [CHR 0xE6, CHR 0xAD, CHR 0xA3, CHR 0xE5, CHR 0x9C, CHR 0xA8, CHR 0xE5, CHR 0x90, CHR 0x8C, CHR 0xE6,
    CHR 0xAD, CHR 0xA5]"

definition zh_ch_syncing_core :: string where
  "zh_ch_syncing_core = [CHR 0xE6, CHR 0xAD, CHR 0xA3, CHR 0xE5, CHR 0x9C, CHR 0xA8, CHR 0xE5, CHR 0x90, CHR 0x8C, CHR 0xE6,
    CHR 0xAD, CHR 0xA5, CHR 0xE6, CHR 0xA0, CHR 0xB8, CHR 0xE5, CHR 0xBF, CHR 0x83, CHR 0xE9, CHR 0x85,
    CHR 0x8D, CHR 0xE7, CHR 0xBD, CHR 0xAE]"

definition zh_ch_auto_update :: string where
  "zh_ch_auto_update = [CHR 0xE3, CHR 0x80, CHR 0x82, CHR 0xE5, CHR 0xAE, CHR 0x8C, CHR 0xE6, CHR 0x88, CHR 0x90, CHR 0xE5,
    CHR 0x90, CHR 0x8E, CHR 0xE4, CHR 0xBC, CHR 0x9A, CHR 0xE8, CHR 0x87, CHR 0xAA, CHR 0xE5, CHR 0x8A,
    CHR 0xA8, CHR 0xE6, CHR 0x9B, CHR 0xB4, CHR 0xE6, CHR 0x96, CHR 0xB0, CHR 0xE7, CHR 0x8A, CHR 0xB6,
    CHR 0xE6, CHR 0x80, CHR 0x81, CHR 0xE3, CHR 0x80, CHR 0x82]"

definition zh_ch_no_action :: string where
  "zh_ch_no_action = [CHR 0xE7, CHR 0xB3, CHR 0xBB, CHR 0xE7, CHR 0xBB, CHR 0x9F, CHR 0xE6, CHR 0xAD, CHR 0xA3, CHR 0xE5,
    CHR 0x9C, CHR 0xA8, CHR 0xE5, CHR 0xA4, CHR 0x84, CHR 0xE7, CHR 0x90, CHR 0x86, CHR 0xEF, CHR 0xBC,
    CHR 0x8C, CHR 0xE6, CHR 0x97, CHR 0xA0, CHR 0xE9, CHR 0x9C, CHR 0x80, CHR 0xE6, CHR 0x89, CHR 0x8B,
    CHR 0xE5, CHR 0x8A, CHR 0xA8, CHR 0xE6, CHR 0x93, CHR 0x8D, CHR 0xE4, CHR 0xBD, CHR 0x9C, CHR 0xE3,
    CHR 0x80, CHR 0x82]"

definition zh_ch_sync_failed :: string where
  "zh_ch_sync_failed = [CHR 0xE5, CHR 0x90, CHR 0x8C, CHR 0xE6, CHR 0xAD, CHR 0xA5, CHR 0xE5, CHR 0xA4, CHR 0xB1, CHR 0xE8,
    CHR 0xB4, CHR 0xA5]"

definition zh_ch_auto_failed :: string where
  "zh_ch_auto_failed = [CHR 0xE8, CHR 0x87, CHR 0xAA, CHR 0xE5, CHR 0x8A, CHR 0xA8, CHR 0xE5, CHR 0x90, CHR 0x8C, CHR 0xE6,
    CHR 0xAD, CHR 0xA5, CHR 0xE5, CHR 0xA4, CHR 0xB1, CHR 0xE8, CHR 0xB4, CHR 0xA5]"

definition zh_ch_auto_unfinished :: string where
  "zh_ch_auto_unfinished = [CHR 0xE8, CHR 0x87, CHR 0xAA, CHR 0xE5, CHR 0x8A, CHR 0xA8, CHR 0xE5, CHR 0x90, CHR 0x8C, CHR 0xE6,
    CHR 0xAD, CHR 0xA5, CHR 0xE6, CHR 0x9C, CHR 0xAA, CHR 0xE5, CHR 0xAE, CHR 0x8C, CHR 0xE6, CHR 0x88,
    CHR 0x90, CHR 0xE3, CHR 0x80, CHR 0x82]"

definition zh_ch_retry_hint :: string where
  "zh_ch_retry_hint = [CHR 0xE5, CHR 0x8F, CHR 0xAF, CHR 0xE7, CHR 0x82, CHR 0xB9, CHR 0xE5, CHR 0x87, CHR 0xBB, CHR 0xE2,
    CHR 0x80, CHR 0x9C, CHR 0xE9, CHR 0x87, CHR 0x8D, CHR 0xE8, CHR 0xAF, CHR 0x95, CHR 0xE5, CHR 0x90,
    CHR 0x8C, CHR 0xE6, CHR 0xAD, CHR 0xA5, CHR 0xE2, CHR 0x80, CHR 0x9D, CHR 0xEF, CHR 0xBC, CHR 0x8C,
    CHR 0xE6, CHR 0x88, CHR 0x96, CHR 0xE6, CHR 0x9F, CHR 0xA5, CHR 0xE7, CHR 0x9C, CHR 0x8B, CHR 0xE9,
    CHR 0xAB, CHR 0x98, CHR 0xE7, CHR 0xBA, CHR 0xA7, CHR 0xE8, CHR 0xAF, CHR 0xA6, CHR 0xE6, CHR 0x83,
    CHR 0x85, CHR 0xE5, CHR 0xAE, CHR 0x9A, CHR 0xE4, CHR 0xBD, CHR 0x8D, CHR 0xE9, CHR 0x97, CHR 0xAE,
    CHR 0xE9, CHR 0xA2, CHR 0x98, CHR 0xE3, CHR 0x80, CHR 0x82]"

definition zh_ch_checking_config :: string where
  "zh_ch_checking_config = [CHR 0xE6, CHR 0xAD, CHR 0xA3, CHR 0xE5, CHR 0x9C, CHR 0xA8, CHR 0xE6, CHR 0xA3, CHR 0x80, CHR 0xE6,
    CHR 0x9F, CHR 0xA5, CHR 0xE9, CHR 0x85, CHR 0x8D, CHR 0xE7, CHR 0xBD, CHR 0xAE, CHR 0xE7, CHR 0x8A,
    CHR 0xB6, CHR 0xE6, CHR 0x80, CHR 0x81]"

definition zh_ch_reading :: string where
  "zh_ch_reading = [CHR 0xE6, CHR 0xAD, CHR 0xA3, CHR 0xE5, CHR 0x9C, CHR 0xA8, CHR 0xE8, CHR 0xAF, CHR 0xBB, CHR 0xE5,
    CHR 0x8F, CHR 0x96, CHR 0xE6, CHR 0xA0, CHR 0xB8, CHR 0xE5, CHR 0xBF, CHR 0x83, CHR 0xE9, CHR 0x85,
    CHR 0x8D, CHR 0xE7, CHR 0xBD, CHR 0xAE, CHR 0xE5, CHR 0x90, CHR 0x8C, CHR 0xE6, CHR 0xAD, CHR 0xA5,
    CHR 0xE7, CHR 0x8A, CHR 0xB6, CHR 0xE6, CHR 0x80, CHR 0x81, CHR 0xE3, CHR 0x80, CHR 0x82]"

definition zh_ch_later :: string where
  "zh_ch_later = [CHR 0xE7, CHR 0xA8, CHR 0x8D, CHR 0xE5, CHR 0x90, CHR 0x8E, CHR 0xE5, CHR 0x88, CHR 0xB7, CHR 0xE6,
    CHR 0x96, CHR 0xB0, CHR 0xE7, CHR 0x8A, CHR 0xB6, CHR 0xE6, CHR 0x80, CHR 0x81, CHR 0xE3, CHR 0x80,
    CHR 0x82]"

definition zh_ch_undecided :: string where
  "zh_ch_undecided = [CHR 0xE7, CHR 0x8A, CHR 0xB6, CHR 0xE6, CHR 0x80, CHR 0x81, CHR 0xE6, CHR 0x97, CHR 0xA0, CHR 0xE6,
    CHR 0xB3, CHR 0x95, CHR 0xE5, CHR 0x88, CHR 0xA4, CHR 0xE6, CHR 0x96, CHR 0xAD]"

definition zh_ch_see_logs :: string where
  "zh_ch_see_logs = [CHR 0xE5, CHR 0x88, CHR 0xB7, CHR 0xE6, CHR 0x96, CHR 0xB0, CHR 0xE7, CHR 0x8A, CHR 0xB6, CHR 0xE6,
    CHR 0x80, CHR 0x81, CHR 0xEF, CHR 0xBC, CHR 0x9B, CHR 0xE5, CHR 0xA6, CHR 0x82, CHR 0xE6, CHR 0x9E,
    CHR 0x9C, CHR 0xE6, CHR 0x8C, CHR 0x81, CHR 0xE7, CHR 0xBB, CHR 0xAD, CHR 0xE5, CHR 0xA4, CHR 0xB1,
    CHR 0xE8, CHR 0xB4, CHR 0xA5, CHR 0xEF, CHR 0xBC, CHR 0x8C, CHR 0xE8, CHR 0xAF, CHR 0xB7, CHR 0xE6,
    CHR 0x9F, CHR 0xA5, CHR 0xE7, CHR 0x9C, CHR 0x8B, CHR 0xE6, CHR 0x97, CHR 0xA5, CHR 0xE5, CHR 0xBF,
    CHR 0x97, CHR 0xE3, CHR 0x80, CHR 0x82]"

definition zh_ch_needs_check :: string where
  "zh_ch_needs_check = [CHR 0xE9, CHR 0x9C, CHR 0x80, CHR 0xE8, CHR 0xA6, CHR 0x81, CHR 0xE6, CHR 0xA3, CHR 0x80, CHR 0xE6,
    CHR 0x9F, CHR 0xA5]"

definition zh_ch_config_check :: string where
  "zh_ch_config_check = [CHR 0xE9, CHR 0x85, CHR 0x8D, CHR 0xE7, CHR 0xBD, CHR 0xAE, CHR 0xE9, CHR 0x9C, CHR 0x80, CHR 0xE8,
    CHR 0xA6, CHR 0x81, CHR 0xE6, CHR 0xA3, CHR 0x80, CHR 0xE6, CHR 0x9F, CHR 0xA5]"

definition zh_ch_config_abnormal :: string where
  "zh_ch_config_abnormal = [CHR 0xE9, CHR 0x85, CHR 0x8D, CHR 0xE7, CHR 0xBD, CHR 0xAE, CHR 0xE7, CHR 0x94, CHR 0x9F, CHR 0xE6,
    CHR 0x88, CHR 0x90, CHR 0xE3, CHR 0x80, CHR 0x81, CHR 0xE6, CHR 0xA0, CHR 0xA1, CHR 0xE9, CHR 0xAA,
    CHR 0x8C, CHR 0xE6, CHR 0x88, CHR 0x96, CHR 0xE7, CHR 0xA3, CHR 0x81, CHR 0xE7, CHR 0x9B, CHR 0x98,
    CHR 0xE8, CHR 0xAF, CHR 0xBB, CHR 0xE5, CHR 0x8F, CHR 0x96, CHR 0xE5, CHR 0xBC, CHR 0x82, CHR 0xE5,
    CHR 0xB8, CHR 0xB8, CHR 0xE3, CHR 0x80, CHR 0x82]"

definition zh_ch_fix_then_sync :: string where
  "zh_ch_fix_then_sync = [CHR 0xE6, CHR 0x9F, CHR 0xA5, CHR 0xE7, CHR 0x9C, CHR 0x8B, CHR 0xE9, CHR 0x97, CHR 0xAE, CHR 0xE9,
    CHR 0xA2, CHR 0x98, CHR 0xE8, CHR 0xAF, CHR 0xA6, CHR 0xE6, CHR 0x83, CHR 0x85, CHR 0xEF, CHR 0xBC,
    CHR 0x8C, CHR 0xE4, CHR 0xBF, CHR 0xAE, CHR 0xE5, CHR 0xA4, CHR 0x8D, CHR 0xE5, CHR 0x90, CHR 0x8E,
    CHR 0xE5, CHR 0x86, CHR 0x8D, CHR 0xE5, CHR 0x90, CHR 0x8C, CHR 0xE6, CHR 0xAD, CHR 0xA5, CHR 0xE3,
    CHR 0x80, CHR 0x82]"

definition zh_ch_waiting :: string where
  "zh_ch_waiting = [CHR 0xE7, CHR 0xAD, CHR 0x89, CHR 0xE5, CHR 0xBE, CHR 0x85, CHR 0xE5, CHR 0x90, CHR 0x8C, CHR 0xE6,
    CHR 0xAD, CHR 0xA5]"

definition zh_ch_config_waiting :: string where
  "zh_ch_config_waiting = [CHR 0xE9, CHR 0x85, CHR 0x8D, CHR 0xE7, CHR 0xBD, CHR 0xAE, CHR 0xE7, CHR 0xAD, CHR 0x89, CHR 0xE5,
    CHR 0xBE, CHR 0x85, CHR 0xE5, CHR 0x90, CHR 0x8C, CHR 0xE6, CHR 0xAD, CHR 0xA5]"

definition zh_ch_real_change :: string where
  "zh_ch_real_change = [CHR 0xE6, CHR 0x9C, CHR 0x89, CHR 0xE7, CHR 0x9C, CHR 0x9F, CHR 0xE5, CHR 0xAE, CHR 0x9E, CHR 0xE9,
    CHR 0x85, CHR 0x8D, CHR 0xE7, CHR 0xBD, CHR 0xAE, CHR 0xE5, CHR 0x8F, CHR 0x98, CHR 0xE5, CHR 0x8C,
    CHR 0x96, CHR 0xE5, CHR 0xB0, CHR 0x9A, CHR 0xE6, CHR 0x9C, CHR 0xAA, CHR 0xE5, CHR 0xBA, CHR 0x94,
    CHR 0xE7, CHR 0x94, CHR 0xA8, CHR 0xE3, CHR 0x80, CHR 0x82]"

definition zh_ch_wait_or_sync :: string where
  "zh_ch_wait_or_sync = [CHR 0xE5, CHR 0x8F, CHR 0xAF, CHR 0xE4, CHR 0xBB, CHR 0xA5, CHR 0xE7, CHR 0xAD, CHR 0x89, CHR 0xE5,
    CHR 0xBE, CHR 0x85, CHR 0xE8, CHR 0x87, CHR 0xAA, CHR 0xE5, CHR 0x8A, CHR 0xA8, CHR 0xE5, CHR 0x90,
    CHR 0x8C, CHR 0xE6, CHR 0xAD, CHR 0xA5, CHR 0xEF, CHR 0xBC, CHR 0x8C, CHR 0xE6, CHR 0x88, CHR 0x96,
    CHR 0xE7, CHR 0x82, CHR 0xB9, CHR 0xE5, CHR 0x87, CHR 0xBB, CHR 0xE2, CHR 0x80, CHR 0x9C, CHR 0xE7,
    CHR 0xAB, CHR 0x8B, CHR 0xE5, CHR 0x8D, CHR 0xB3, CHR 0xE5, CHR 0x90, CHR 0x8C, CHR 0xE6, CHR 0xAD,
    CHR 0xA5, CHR 0xE2, CHR 0x80, CHR 0x9D, CHR 0xE3, CHR 0x80, CHR 0x82]"

definition zh_ch_in_force :: string where
  "zh_ch_in_force = [CHR 0xE5, CHR 0xB7, CHR 0xB2, CHR 0xE7, CHR 0x94, CHR 0x9F, CHR 0xE6, CHR 0x95, CHR 0x88]"

definition zh_ch_core_in_force :: string where
  "zh_ch_core_in_force = [CHR 0xE6, CHR 0xA0, CHR 0xB8, CHR 0xE5, CHR 0xBF, CHR 0x83, CHR 0xE9, CHR 0x85, CHR 0x8D, CHR 0xE7,
    CHR 0xBD, CHR 0xAE, CHR 0xE5, CHR 0xB7, CHR 0xB2, CHR 0xE7, CHR 0x94, CHR 0x9F, CHR 0xE6, CHR 0x95,
    CHR 0x88]"

definition zh_ch_all_same :: string where
  "zh_ch_all_same = [CHR 0xE6, CHR 0x95, CHR 0xB0, CHR 0xE6, CHR 0x8D, CHR 0xAE, CHR 0xE5, CHR 0xBA, CHR 0x93, CHR 0xE7,
    CHR 0x94, CHR 0x9F, CHR 0xE6, CHR 0x88, CHR 0x90, CHR 0xE9, CHR 0x85, CHR 0x8D, CHR 0xE7, CHR 0xBD,
    CHR 0xAE, CHR 0xE3, CHR 0x80, CHR 0x81, CHR 0xE7, CHR 0xA3, CHR 0x81, CHR 0xE7, CHR 0x9B, CHR 0x98,
    CHR 0xE9, CHR 0x85, CHR 0x8D, CHR 0xE7, CHR 0xBD, CHR 0xAE, CHR 0xE4, CHR 0xB8, CHR 0x8E, CHR 0xE5,
    CHR 0xB7, CHR 0xB2, CHR 0xE5, CHR 0xBA, CHR 0x94, CHR 0xE7, CHR 0x94, CHR 0xA8, CHR 0xE7, CHR 0x8A,
    CHR 0xB6, CHR 0xE6, CHR 0x80, CHR 0x81, CHR 0xE4, CHR 0xB8, CHR 0x80, CHR 0xE8, CHR 0x87, CHR 0xB4,
    CHR 0xE3, CHR 0x80, CHR 0x82]"

definition zh_ch_not_same :: string where
  "zh_ch_not_same = [CHR 0xE9, CHR 0x85, CHR 0x8D, CHR 0xE7, CHR 0xBD, CHR 0xAE, CHR 0xE4, CHR 0xB8, CHR 0x8D, CHR 0xE5,
    CHR 0x90, CHR 0x8C, CHR 0xE6, CHR 0xAD, CHR 0xA5]"

definition zh_ch_disk_differs :: string where
  "zh_ch_disk_differs = [CHR 0xE7, CHR 0xA3, CHR 0x81, CHR 0xE7, CHR 0x9B, CHR 0x98, CHR 0xE9, CHR 0x85, CHR 0x8D, CHR 0xE7,
    CHR 0xBD, CHR 0xAE, CHR 0xE4, CHR 0xB8, CHR 0x8E, CHR 0xE6, CHR 0x95, CHR 0xB0, CHR 0xE6, CHR 0x8D,
    CHR 0xAE, CHR 0xE5, CHR 0xBA, CHR 0x93, CHR 0xE7, CHR 0x94, CHR 0x9F, CHR 0xE6, CHR 0x88, CHR 0x90,
    CHR 0xE9, CHR 0x85, CHR 0x8D, CHR 0xE7, CHR 0xBD, CHR 0xAE, CHR 0xE4, CHR 0xB8, CHR 0x8D, CHR 0xE4,
    CHR 0xB8, CHR 0x80, CHR 0xE8, CHR 0x87, CHR 0xB4, CHR 0xE3, CHR 0x80, CHR 0x82]"

definition zh_ch_see_problem :: string where
  "zh_ch_see_problem = [CHR 0xE7, CHR 0x82, CHR 0xB9, CHR 0xE5, CHR 0x87, CHR 0xBB, CHR 0xE2, CHR 0x80, CHR 0x9C, CHR 0xE6,
    CHR 0x9F, CHR 0xA5, CHR 0xE7, CHR 0x9C, CHR 0x8B, CHR 0xE9, CHR 0x97, CHR 0xAE, CHR 0xE9, CHR 0xA2,
    CHR 0x98, CHR 0xE2, CHR 0x80, CHR 0x9D, CHR 0xE6, CHR 0xA3, CHR 0x80, CHR 0xE6, CHR 0x9F, CHR 0xA5,
    CHR 0xE7, CHR 0xA3, CHR 0x81, CHR 0xE7, CHR 0x9B, CHR 0x98, CHR 0xE9, CHR 0x85, CHR 0x8D, CHR 0xE7,
    CHR 0xBD, CHR 0xAE, CHR 0xEF, CHR 0xBC, CHR 0x8C, CHR 0xE5, CHR 0xBF, CHR 0x85, CHR 0xE8, CHR 0xA6,
    CHR 0x81, CHR 0xE6, CHR 0x97, CHR 0xB6, CHR 0xE9, CHR 0x87, CHR 0x8D, CHR 0xE6, CHR 0x96, CHR 0xB0,
    CHR 0xE5, CHR 0x90, CHR 0x8C, CHR 0xE6, CHR 0xAD, CHR 0xA5, CHR 0xE3, CHR 0x80, CHR 0x82]"

definition zh_ch_no_information :: string where
  "zh_ch_no_information = [CHR 0xE8, CHR 0xBF, CHR 0x98, CHR 0xE6, CHR 0xB2, CHR 0xA1, CHR 0xE6, CHR 0x9C, CHR 0x89, CHR 0xE8,
    CHR 0xB6, CHR 0xB3, CHR 0xE5, CHR 0xA4, CHR 0x9F, CHR 0xE4, CHR 0xBF, CHR 0xA1, CHR 0xE6, CHR 0x81,
    CHR 0xAF, CHR 0xE5, CHR 0x88, CHR 0xA4, CHR 0xE6, CHR 0x96, CHR 0xAD, CHR 0xE6, CHR 0xA0, CHR 0xB8,
    CHR 0xE5, CHR 0xBF, CHR 0x83, CHR 0xE9, CHR 0x85, CHR 0x8D, CHR 0xE7, CHR 0xBD, CHR 0xAE, CHR 0xE6,
    CHR 0x98, CHR 0xAF, CHR 0xE5, CHR 0x90, CHR 0xA6, CHR 0xE5, CHR 0xB7, CHR 0xB2, CHR 0xE7, CHR 0x94,
    CHR 0x9F, CHR 0xE6, CHR 0x95, CHR 0x88, CHR 0xE3, CHR 0x80, CHR 0x82]"

definition zh_ch_refresh_hint :: string where
  "zh_ch_refresh_hint = [CHR 0xE5, CHR 0x88, CHR 0xB7, CHR 0xE6, CHR 0x96, CHR 0xB0, CHR 0xE7, CHR 0x8A, CHR 0xB6, CHR 0xE6,
    CHR 0x80, CHR 0x81, CHR 0xE6, CHR 0x88, CHR 0x96, CHR 0xE6, CHR 0x9F, CHR 0xA5, CHR 0xE7, CHR 0x9C,
    CHR 0x8B, CHR 0xE8, CHR 0xAF, CHR 0x8A, CHR 0xE6, CHR 0x96, CHR 0xAD, CHR 0xE3, CHR 0x80, CHR 0x82]"

definition zh_ch_retry_sync :: string where
  "zh_ch_retry_sync = [CHR 0xE9, CHR 0x87, CHR 0x8D, CHR 0xE8, CHR 0xAF, CHR 0x95, CHR 0xE5, CHR 0x90, CHR 0x8C, CHR 0xE6,
    CHR 0xAD, CHR 0xA5]"

definition zh_ch_sync_again :: string where
  "zh_ch_sync_again = [CHR 0xE9, CHR 0x87, CHR 0x8D, CHR 0xE6, CHR 0x96, CHR 0xB0, CHR 0xE5, CHR 0x90, CHR 0x8C, CHR 0xE6,
    CHR 0xAD, CHR 0xA5]"

definition zh_ch_sync_now :: string where
  "zh_ch_sync_now = [CHR 0xE7, CHR 0xAB, CHR 0x8B, CHR 0xE5, CHR 0x8D, CHR 0xB3, CHR 0xE5, CHR 0x90, CHR 0x8C, CHR 0xE6,
    CHR 0xAD, CHR 0xA5]"

definition zh_ch_apply_config :: string where
  "zh_ch_apply_config = [CHR 0xE5, CHR 0xBA, CHR 0x94, CHR 0xE7, CHR 0x94, CHR 0xA8, CHR 0xE9, CHR 0x85, CHR 0x8D, CHR 0xE7,
    CHR 0xBD, CHR 0xAE]"

definition zh_ch_must_install :: string where
  "zh_ch_must_install = [CHR 0xE9, CHR 0x9C, CHR 0x80, CHR 0xE8, CHR 0xA6, CHR 0x81, CHR 0xE5, CHR 0xAE, CHR 0x89, CHR 0xE8,
    CHR 0xA3, CHR 0x85]"

definition zh_ch_core_missing :: string where
  "zh_ch_core_missing = [CHR 0xE6, CHR 0xA0, CHR 0xB8, CHR 0xE5, CHR 0xBF, CHR 0x83, CHR 0xE6, CHR 0x9C, CHR 0xAA, CHR 0xE5,
    CHR 0xAE, CHR 0x89, CHR 0xE8, CHR 0xA3, CHR 0x85]"

definition zh_ch_core_missing_long :: string where
  "zh_ch_core_missing_long = [CHR 0xE7, CHR 0xB3, CHR 0xBB, CHR 0xE7, CHR 0xBB, CHR 0x9F, CHR 0xE4, CHR 0xB8, CHR 0xAD, CHR 0xE6,
    CHR 0xB2, CHR 0xA1, CHR 0xE6, CHR 0x9C, CHR 0x89, CHR 0xE5, CHR 0x8F, CHR 0xAF, CHR 0xE7, CHR 0x94,
    CHR 0xA8, CHR 0xE6, CHR 0xA0, CHR 0xB8, CHR 0xE5, CHR 0xBF, CHR 0x83, CHR 0xEF, CHR 0xBC, CHR 0x8C,
    CHR 0xE5, CHR 0xBD, CHR 0x93, CHR 0xE5, CHR 0x89, CHR 0x8D, CHR 0xE6, CHR 0x97, CHR 0xA0, CHR 0xE6,
    CHR 0xB3, CHR 0x95, CHR 0xE5, CHR 0xBA, CHR 0x94, CHR 0xE7, CHR 0x94, CHR 0xA8, CHR 0xE9, CHR 0x85,
    CHR 0x8D, CHR 0xE7, CHR 0xBD, CHR 0xAE, CHR 0xE6, CHR 0x88, CHR 0x96, CHR 0xE7, CHR 0x9B, CHR 0x91,
    CHR 0xE5, CHR 0x90, CHR 0xAC, CHR 0xE7, CHR 0xAB, CHR 0xAF, CHR 0xE5, CHR 0x8F, CHR 0xA3, CHR 0xE3,
    CHR 0x80, CHR 0x82]"

definition zh_ch_install_first :: string where
  "zh_ch_install_first = [CHR 0xE5, CHR 0x85, CHR 0x88, CHR 0xE5, CHR 0xAE, CHR 0x89, CHR 0xE8, CHR 0xA3, CHR 0x85, CHR 0xE6,
    CHR 0xA0, CHR 0xB8, CHR 0xE5, CHR 0xBF, CHR 0x83, CHR 0xEF, CHR 0xBC, CHR 0x8C, CHR 0xE5, CHR 0x86,
    CHR 0x8D, CHR 0xE5, CHR 0xBA, CHR 0x94, CHR 0xE7, CHR 0x94, CHR 0xA8, CHR 0xE9, CHR 0x85, CHR 0x8D,
    CHR 0xE7, CHR 0xBD, CHR 0xAE, CHR 0xE3, CHR 0x80, CHR 0x82]"

definition zh_ch_service_bad :: string where
  "zh_ch_service_bad = [CHR 0xE6, CHR 0x9C, CHR 0x8D, CHR 0xE5, CHR 0x8A, CHR 0xA1, CHR 0xE5, CHR 0xBC, CHR 0x82, CHR 0xE5,
    CHR 0xB8, CHR 0xB8]"

definition zh_ch_not_running :: string where
  "zh_ch_not_running = [CHR 0xE6, CHR 0xA0, CHR 0xB8, CHR 0xE5, CHR 0xBF, CHR 0x83, CHR 0xE6, CHR 0x9C, CHR 0xAA, CHR 0xE8,
    CHR 0xBF, CHR 0x90, CHR 0xE8, CHR 0xA1, CHR 0x8C]"

definition zh_ch_service_is :: string where
  "zh_ch_service_is = [CHR 0xE6, CHR 0x9C, CHR 0x8D, CHR 0xE5, CHR 0x8A, CHR 0xA1, CHR 0xE7, CHR 0x8A, CHR 0xB6, CHR 0xE6,
    CHR 0x80, CHR 0x81, CHR 0xEF, CHR 0xBC, CHR 0x9A]"

definition zh_ch_stop :: string where
  "zh_ch_stop = [CHR 0xE3, CHR 0x80, CHR 0x82]"

definition zh_ch_restart_hint :: string where
  "zh_ch_restart_hint = [CHR 0xE5, CHR 0x85, CHR 0x88, CHR 0xE6, CHR 0x9F, CHR 0xA5, CHR 0xE7, CHR 0x9C, CHR 0x8B, CHR 0xE8,
    CHR 0xAF, CHR 0x8A, CHR 0xE6, CHR 0x96, CHR 0xAD, CHR 0xE5, CHR 0xBB, CHR 0xBA, CHR 0xE8, CHR 0xAE,
    CHR 0xAE, CHR 0xEF, CHR 0xBC, CHR 0x8C, CHR 0xE5, CHR 0xBF, CHR 0x85, CHR 0xE8, CHR 0xA6, CHR 0x81,
    CHR 0xE6, CHR 0x97, CHR 0xB6, CHR 0xE9, CHR 0x87, CHR 0x8D, CHR 0xE5, CHR 0x90, CHR 0xAF, CHR 0xE6,
    CHR 0xA0, CHR 0xB8, CHR 0xE5, CHR 0xBF, CHR 0x83, CHR 0xE6, CHR 0x88, CHR 0x96, CHR 0xE9, CHR 0x87,
    CHR 0x8D, CHR 0xE6, CHR 0x96, CHR 0xB0, CHR 0xE5, CHR 0xBA, CHR 0x94, CHR 0xE7, CHR 0x94, CHR 0xA8,
    CHR 0xE9, CHR 0x85, CHR 0x8D, CHR 0xE7, CHR 0xBD, CHR 0xAE, CHR 0xE3, CHR 0x80, CHR 0x82]"

definition zh_ch_config_lost :: string where
  "zh_ch_config_lost = [CHR 0xE9, CHR 0x85, CHR 0x8D, CHR 0xE7, CHR 0xBD, CHR 0xAE, CHR 0xE7, CHR 0xBC, CHR 0xBA, CHR 0xE5,
    CHR 0xA4, CHR 0xB1]"

definition zh_ch_no_file :: string where
  "zh_ch_no_file = [CHR 0xE9, CHR 0x85, CHR 0x8D, CHR 0xE7, CHR 0xBD, CHR 0xAE, CHR 0xE6, CHR 0x96, CHR 0x87, CHR 0xE4,
    CHR 0xBB, CHR 0xB6, CHR 0xE4, CHR 0xB8, CHR 0x8D, CHR 0xE5, CHR 0xAD, CHR 0x98, CHR 0xE5, CHR 0x9C,
    CHR 0xA8]"

definition zh_ch_no_file_long :: string where
  "zh_ch_no_file_long = [CHR 0xE7, CHR 0xA3, CHR 0x81, CHR 0xE7, CHR 0x9B, CHR 0x98, CHR 0xE4, CHR 0xB8, CHR 0x8A, CHR 0xE6,
    CHR 0xB2, CHR 0xA1, CHR 0xE6, CHR 0x9C, CHR 0x89, CHR 0xE6, CHR 0x89, CHR 0xBE, CHR 0xE5, CHR 0x88,
    CHR 0xB0, CHR 0xE6, CHR 0xA0, CHR 0xB8, CHR 0xE5, CHR 0xBF, CHR 0x83, CHR 0xE9, CHR 0x85, CHR 0x8D,
    CHR 0xE7, CHR 0xBD, CHR 0xAE, CHR 0xE6, CHR 0x96, CHR 0x87, CHR 0xE4, CHR 0xBB, CHR 0xB6, CHR 0xE3,
    CHR 0x80, CHR 0x82]"

definition zh_ch_rewrite :: string where
  "zh_ch_rewrite = [CHR 0xE7, CHR 0x82, CHR 0xB9, CHR 0xE5, CHR 0x87, CHR 0xBB, CHR 0xE2, CHR 0x80, CHR 0x9C, CHR 0xE5,
    CHR 0xBA, CHR 0x94, CHR 0xE7, CHR 0x94, CHR 0xA8, CHR 0xE9, CHR 0x85, CHR 0x8D, CHR 0xE7, CHR 0xBD,
    CHR 0xAE, CHR 0xE2, CHR 0x80, CHR 0x9D, CHR 0xE9, CHR 0x87, CHR 0x8D, CHR 0xE6, CHR 0x96, CHR 0xB0,
    CHR 0xE5, CHR 0x86, CHR 0x99, CHR 0xE5, CHR 0x85, CHR 0xA5, CHR 0xE9, CHR 0x85, CHR 0x8D, CHR 0xE7,
    CHR 0xBD, CHR 0xAE, CHR 0xE3, CHR 0x80, CHR 0x82]"

definition zh_ch_config_wrong :: string where
  "zh_ch_config_wrong = [CHR 0xE9, CHR 0x85, CHR 0x8D, CHR 0xE7, CHR 0xBD, CHR 0xAE, CHR 0xE9, CHR 0x94, CHR 0x99, CHR 0xE8,
    CHR 0xAF, CHR 0xAF]"

definition zh_ch_check_failed :: string where
  "zh_ch_check_failed = [CHR 0xE9, CHR 0x85, CHR 0x8D, CHR 0xE7, CHR 0xBD, CHR 0xAE, CHR 0xE6, CHR 0xA0, CHR 0xA1, CHR 0xE9,
    CHR 0xAA, CHR 0x8C, CHR 0xE5, CHR 0xA4, CHR 0xB1, CHR 0xE8, CHR 0xB4, CHR 0xA5]"

definition zh_ch_check_failed_long :: string where
  "zh_ch_check_failed_long = [CHR 0xE7, CHR 0x94, CHR 0x9F, CHR 0xE6, CHR 0x88, CHR 0x90, CHR 0xE7, CHR 0x9A, CHR 0x84, CHR 0xE9,
    CHR 0x85, CHR 0x8D, CHR 0xE7, CHR 0xBD, CHR 0xAE, CHR 0xE6, CHR 0x9C, CHR 0xAA, CHR 0xE9, CHR 0x80,
    CHR 0x9A, CHR 0xE8, CHR 0xBF, CHR 0x87, CHR 0xE6, CHR 0xA0, CHR 0xB8, CHR 0xE5, CHR 0xBF, CHR 0x83,
    CHR 0xE6, CHR 0xA0, CHR 0xA1, CHR 0xE9, CHR 0xAA, CHR 0x8C, CHR 0xE3, CHR 0x80, CHR 0x82]"

definition zh_ch_fix_config :: string where
  "zh_ch_fix_config = [CHR 0xE6, CHR 0x9F, CHR 0xA5, CHR 0xE7, CHR 0x9C, CHR 0x8B, CHR 0xE8, CHR 0xAF, CHR 0x8A, CHR 0xE6,
    CHR 0x96, CHR 0xAD, CHR 0xE8, CHR 0xAF, CHR 0xA6, CHR 0xE6, CHR 0x83, CHR 0x85, CHR 0xEF, CHR 0xBC,
    CHR 0x8C, CHR 0xE4, CHR 0xBF, CHR 0xAE, CHR 0xE5, CHR 0xA4, CHR 0x8D, CHR 0xE9, CHR 0x85, CHR 0x8D,
    CHR 0xE7, CHR 0xBD, CHR 0xAE, CHR 0xE5, CHR 0x90, CHR 0x8E, CHR 0xE9, CHR 0x87, CHR 0x8D, CHR 0xE6,
    CHR 0x96, CHR 0xB0, CHR 0xE5, CHR 0xBA, CHR 0x94, CHR 0xE7, CHR 0x94, CHR 0xA8, CHR 0xE3, CHR 0x80,
    CHR 0x82]"

definition zh_ch_not_ours :: string where
  "zh_ch_not_ours = [CHR 0xE6, CHR 0xA0, CHR 0xB8, CHR 0xE5, CHR 0xBF, CHR 0x83, CHR 0xE6, CHR 0x9C, CHR 0xAA, CHR 0xE7,
    CHR 0x94, CHR 0xB1, CHR 0xE7, CHR 0xB3, CHR 0xBB, CHR 0xE7, CHR 0xBB, CHR 0x9F, CHR 0xE6, CHR 0x89,
    CHR 0x98, CHR 0xE7, CHR 0xAE, CHR 0xA1]"

definition zh_ch_not_ours_long :: string where
  "zh_ch_not_ours_long = [CHR 0xE7, CHR 0xB3, CHR 0xBB, CHR 0xE7, CHR 0xBB, CHR 0x9F, CHR 0xE6, CHR 0x9C, CHR 0x8D, CHR 0xE5,
    CHR 0x8A, CHR 0xA1, CHR 0xE6, CHR 0x89, CHR 0x98, CHR 0xE7, CHR 0xAE, CHR 0xA1, CHR 0xE7, CHR 0x8A,
    CHR 0xB6, CHR 0xE6, CHR 0x80, CHR 0x81, CHR 0xE5, CHR 0xBC, CHR 0x82, CHR 0xE5, CHR 0xB8, CHR 0xB8,
    CHR 0xEF, CHR 0xBC, CHR 0x8C, CHR 0xE9, CHR 0x9D, CHR 0xA2, CHR 0xE6, CHR 0x9D, CHR 0xBF, CHR 0xE5,
    CHR 0x8F, CHR 0xAF, CHR 0xE8, CHR 0x83, CHR 0xBD, CHR 0xE6, CHR 0x97, CHR 0xA0, CHR 0xE6, CHR 0xB3,
    CHR 0x95, CHR 0xE7, CHR 0xA8, CHR 0xB3, CHR 0xE5, CHR 0xAE, CHR 0x9A, CHR 0xE9, CHR 0x87, CHR 0x8D,
    CHR 0xE5, CHR 0x90, CHR 0xAF, CHR 0xE6, CHR 0x88, CHR 0x96, CHR 0xE5, CHR 0x81, CHR 0x9C, CHR 0xE6,
    CHR 0xAD, CHR 0xA2, CHR 0xE6, CHR 0xA0, CHR 0xB8, CHR 0xE5, CHR 0xBF, CHR 0x83, CHR 0xE3, CHR 0x80,
    CHR 0x82]"

definition zh_ch_systemd_first :: string where
  "zh_ch_systemd_first = [CHR 0xE7, CHR 0xA1, CHR 0xAE, CHR 0xE8, CHR 0xAE, CHR 0xA4, CHR 0x20, CHR 0x73, CHR 0x79, CHR 0x73,
    CHR 0x74, CHR 0x65, CHR 0x6D, CHR 0x64, CHR 0x20, CHR 0xE6, CHR 0x9C, CHR 0x8D, CHR 0xE5, CHR 0x8A,
    CHR 0xA1, CHR 0xE5, CHR 0x90, CHR 0x8E, CHR 0xE5, CHR 0x86, CHR 0x8D, CHR 0xE6, CHR 0x89, CHR 0xA7,
    CHR 0xE8, CHR 0xA1, CHR 0x8C, CHR 0xE7, CHR 0xBB, CHR 0xB4, CHR 0xE6, CHR 0x8A, CHR 0xA4, CHR 0xE6,
    CHR 0x93, CHR 0x8D, CHR 0xE4, CHR 0xBD, CHR 0x9C, CHR 0xE3, CHR 0x80, CHR 0x82]"

definition zh_ch_must_apply :: string where
  "zh_ch_must_apply = [CHR 0xE9, CHR 0x9C, CHR 0x80, CHR 0xE8, CHR 0xA6, CHR 0x81, CHR 0xE5, CHR 0xBA, CHR 0x94, CHR 0xE7,
    CHR 0x94, CHR 0xA8]"

definition zh_ch_sync_disk :: string where
  "zh_ch_sync_disk = [CHR 0xE7, CHR 0x82, CHR 0xB9, CHR 0xE5, CHR 0x87, CHR 0xBB, CHR 0xE2, CHR 0x80, CHR 0x9C, CHR 0xE5,
    CHR 0xBA, CHR 0x94, CHR 0xE7, CHR 0x94, CHR 0xA8, CHR 0xE9, CHR 0x85, CHR 0x8D, CHR 0xE7, CHR 0xBD,
    CHR 0xAE, CHR 0xE2, CHR 0x80, CHR 0x9D, CHR 0xE5, CHR 0x90, CHR 0x8C, CHR 0xE6, CHR 0xAD, CHR 0xA5,
    CHR 0xE7, CHR 0xA3, CHR 0x81, CHR 0xE7, CHR 0x9B, CHR 0x98, CHR 0xE9, CHR 0x85, CHR 0x8D, CHR 0xE7,
    CHR 0xBD, CHR 0xAE, CHR 0xE3, CHR 0x80, CHR 0x82]"

definition zh_ch_port_bad :: string where
  "zh_ch_port_bad = [CHR 0xE7, CHR 0xAB, CHR 0xAF, CHR 0xE5, CHR 0x8F, CHR 0xA3, CHR 0xE5, CHR 0xBC, CHR 0x82, CHR 0xE5,
    CHR 0xB8, CHR 0xB8]"

definition zh_ch_port_silent :: string where
  "zh_ch_port_silent = [CHR 0xE5, CHR 0xAD, CHR 0x98, CHR 0xE5, CHR 0x9C, CHR 0xA8, CHR 0xE6, CHR 0x9C, CHR 0xAA, CHR 0xE7,
    CHR 0x9B, CHR 0x91, CHR 0xE5, CHR 0x90, CHR 0xAC, CHR 0xE7, CHR 0xAB, CHR 0xAF, CHR 0xE5, CHR 0x8F,
    CHR 0xA3]"

definition zh_ch_there_are :: string where
  "zh_ch_there_are = [CHR 0xE6, CHR 0x9C, CHR 0x89, CHR 0x20]"

definition zh_ch_silent_ports :: string where
  "zh_ch_silent_ports = [CHR 0x20, CHR 0xE4, CHR 0xB8, CHR 0xAA, CHR 0xE5, CHR 0x85, CHR 0xA5, CHR 0xE7, CHR 0xAB, CHR 0x99,
    CHR 0xE7, CHR 0xAB, CHR 0xAF, CHR 0xE5, CHR 0x8F, CHR 0xA3, CHR 0xE6, CHR 0x9C, CHR 0xAA, CHR 0xE7,
    CHR 0x9B, CHR 0x91, CHR 0xE5, CHR 0x90, CHR 0xAC, CHR 0xE3, CHR 0x80, CHR 0x82]"

definition zh_ch_port_hint :: string where
  "zh_ch_port_hint = [CHR 0xE6, CHR 0x9F, CHR 0xA5, CHR 0xE7, CHR 0x9C, CHR 0x8B, CHR 0xE7, CHR 0x9B, CHR 0x91, CHR 0xE5,
    CHR 0x90, CHR 0xAC, CHR 0xE7, CHR 0xAB, CHR 0xAF, CHR 0xE5, CHR 0x8F, CHR 0xA3, CHR 0xE5, CHR 0x8C,
    CHR 0xBA, CHR 0xE5, CHR 0x92, CHR 0x8C, CHR 0xE8, CHR 0xAF, CHR 0x8A, CHR 0xE6, CHR 0x96, CHR 0xAD,
    CHR 0xE5, CHR 0xBB, CHR 0xBA, CHR 0xE8, CHR 0xAE, CHR 0xAE, CHR 0xEF, CHR 0xBC, CHR 0x8C, CHR 0xE7,
    CHR 0xA1, CHR 0xAE, CHR 0xE8, CHR 0xAE, CHR 0xA4, CHR 0xE6, CHR 0x9C, CHR 0x8D, CHR 0xE5, CHR 0x8A,
    CHR 0xA1, CHR 0xE3, CHR 0x80, CHR 0x81, CHR 0xE9, CHR 0x98, CHR 0xB2, CHR 0xE7, CHR 0x81, CHR 0xAB,
    CHR 0xE5, CHR 0xA2, CHR 0x99, CHR 0xE5, CHR 0x92, CHR 0x8C, CHR 0xE9, CHR 0x85, CHR 0x8D, CHR 0xE7,
    CHR 0xBD, CHR 0xAE, CHR 0xE3, CHR 0x80, CHR 0x82]"

definition zh_ch_diag_bad :: string where
  "zh_ch_diag_bad = [CHR 0xE8, CHR 0xAF, CHR 0x8A, CHR 0xE6, CHR 0x96, CHR 0xAD, CHR 0xE5, CHR 0xBC, CHR 0x82, CHR 0xE5,
    CHR 0xB8, CHR 0xB8]"

definition zh_ch_diag_errors :: string where
  "zh_ch_diag_errors = [CHR 0xE8, CHR 0xAF, CHR 0x8A, CHR 0xE6, CHR 0x96, CHR 0xAD, CHR 0xE5, CHR 0x8F, CHR 0x91, CHR 0xE7,
    CHR 0x8E, CHR 0xB0, CHR 0xE9, CHR 0x94, CHR 0x99, CHR 0xE8, CHR 0xAF, CHR 0xAF]"

definition zh_ch_diag_not_passed :: string where
  "zh_ch_diag_not_passed = [CHR 0xE6, CHR 0xA0, CHR 0xB8, CHR 0xE5, CHR 0xBF, CHR 0x83, CHR 0xE8, CHR 0xAF, CHR 0x8A, CHR 0xE6,
    CHR 0x96, CHR 0xAD, CHR 0xE6, CHR 0x9C, CHR 0xAA, CHR 0xE9, CHR 0x80, CHR 0x9A, CHR 0xE8, CHR 0xBF,
    CHR 0x87, CHR 0xE3, CHR 0x80, CHR 0x82]"

definition zh_ch_attention :: string where
  "zh_ch_attention = [CHR 0xE9, CHR 0x9C, CHR 0x80, CHR 0xE8, CHR 0xA6, CHR 0x81, CHR 0xE5, CHR 0x85, CHR 0xB3, CHR 0xE6,
    CHR 0xB3, CHR 0xA8]"

definition zh_ch_attention_long :: string where
  "zh_ch_attention_long = [CHR 0xE5, CHR 0xAD, CHR 0x98, CHR 0xE5, CHR 0x9C, CHR 0xA8, CHR 0xE9, CHR 0x9C, CHR 0x80, CHR 0xE8,
    CHR 0xA6, CHR 0x81, CHR 0xE5, CHR 0x85, CHR 0xB3, CHR 0xE6, CHR 0xB3, CHR 0xA8, CHR 0xE7, CHR 0x9A,
    CHR 0x84, CHR 0xE9, CHR 0x97, CHR 0xAE, CHR 0xE9, CHR 0xA2, CHR 0x98]"

definition zh_ch_still_checking :: string where
  "zh_ch_still_checking = [CHR 0xE8, CHR 0xAF, CHR 0x8A, CHR 0xE6, CHR 0x96, CHR 0xAD, CHR 0xE4, CHR 0xBB, CHR 0x8D, CHR 0xE5,
    CHR 0x9C, CHR 0xA8, CHR 0xE6, CHR 0xA3, CHR 0x80, CHR 0xE6, CHR 0x9F, CHR 0xA5, CHR 0xE6, CHR 0x88,
    CHR 0x96, CHR 0xE5, CHR 0xAD, CHR 0x98, CHR 0xE5, CHR 0x9C, CHR 0xA8, CHR 0xE9, CHR 0x9D, CHR 0x9E,
    CHR 0xE9, CHR 0x98, CHR 0xBB, CHR 0xE6, CHR 0x96, CHR 0xAD, CHR 0xE9, CHR 0x97, CHR 0xAE, CHR 0xE9,
    CHR 0xA2, CHR 0x98, CHR 0xE3, CHR 0x80, CHR 0x82]"

definition zh_ch_fine :: string where
  "zh_ch_fine = [CHR 0xE8, CHR 0xBF, CHR 0x90, CHR 0xE8, CHR 0xA1, CHR 0x8C, CHR 0xE6, CHR 0xAD, CHR 0xA3, CHR 0xE5,
    CHR 0xB8, CHR 0xB8]"

definition zh_ch_core_fine :: string where
  "zh_ch_core_fine = [CHR 0xE6, CHR 0xA0, CHR 0xB8, CHR 0xE5, CHR 0xBF, CHR 0x83, CHR 0xE8, CHR 0xBF, CHR 0x90, CHR 0xE8,
    CHR 0xA1, CHR 0x8C, CHR 0xE6, CHR 0xAD, CHR 0xA3, CHR 0xE5, CHR 0xB8, CHR 0xB8]"

definition zh_ch_core_fine_long :: string where
  "zh_ch_core_fine_long = [CHR 0xE6, CHR 0xA0, CHR 0xB8, CHR 0xE5, CHR 0xBF, CHR 0x83, CHR 0xE5, CHR 0xB7, CHR 0xB2, CHR 0xE5,
    CHR 0xAE, CHR 0x89, CHR 0xE8, CHR 0xA3, CHR 0x85, CHR 0xE3, CHR 0x80, CHR 0x81, CHR 0xE6, CHR 0x9C,
    CHR 0x8D, CHR 0xE5, CHR 0x8A, CHR 0xA1, CHR 0xE8, CHR 0xBF, CHR 0x90, CHR 0xE8, CHR 0xA1, CHR 0x8C,
    CHR 0xE3, CHR 0x80, CHR 0x81, CHR 0xE9, CHR 0x85, CHR 0x8D, CHR 0xE7, CHR 0xBD, CHR 0xAE, CHR 0xE5,
    CHR 0x90, CHR 0x8C, CHR 0xE6, CHR 0xAD, CHR 0xA5, CHR 0xE4, CHR 0xB8, CHR 0x94, CHR 0xE7, CHR 0xAB,
    CHR 0xAF, CHR 0xE5, CHR 0x8F, CHR 0xA3, CHR 0xE7, CHR 0x9B, CHR 0x91, CHR 0xE5, CHR 0x90, CHR 0xAC,
    CHR 0xE7, CHR 0x8A, CHR 0xB6, CHR 0xE6, CHR 0x80, CHR 0x81, CHR 0xE6, CHR 0xAD, CHR 0xA3, CHR 0xE5,
    CHR 0xB8, CHR 0xB8, CHR 0xE3, CHR 0x80, CHR 0x82]"

definition zh_ch_keep :: string where
  "zh_ch_keep = [CHR 0xE6, CHR 0x97, CHR 0xA0, CHR 0xE9, CHR 0x9C, CHR 0x80, CHR 0xE5, CHR 0xA4, CHR 0x84, CHR 0xE7,
    CHR 0x90, CHR 0x86, CHR 0xEF, CHR 0xBC, CHR 0x9B, CHR 0xE5, CHR 0x8F, CHR 0x98, CHR 0xE6, CHR 0x9B,
    CHR 0xB4, CHR 0xE8, CHR 0x8A, CHR 0x82, CHR 0xE7, CHR 0x82, CHR 0xB9, CHR 0xE6, CHR 0x88, CHR 0x96,
    CHR 0xE8, CHR 0xB7, CHR 0xAF, CHR 0xE7, CHR 0x94, CHR 0xB1, CHR 0xE5, CHR 0x90, CHR 0x8E, CHR 0xE5,
    CHR 0x86, CHR 0x8D, CHR 0xE5, CHR 0xBA, CHR 0x94, CHR 0xE7, CHR 0x94, CHR 0xA8, CHR 0xE9, CHR 0x85,
    CHR 0x8D, CHR 0xE7, CHR 0xBD, CHR 0xAE, CHR 0xE3, CHR 0x80, CHR 0x82]"

definition zh_ch_run :: string where
  "zh_ch_run = [CHR 0xE8, CHR 0xBF, CHR 0x90, CHR 0xE8, CHR 0xA1, CHR 0x8C]"

lemmas texts_CoreHealth =
  zh_ch_attempt_def zh_ch_times_def zh_ch_syncing_def zh_ch_syncing_core_def zh_ch_auto_update_def
  zh_ch_no_action_def zh_ch_sync_failed_def zh_ch_auto_failed_def zh_ch_auto_unfinished_def zh_ch_retry_hint_def
  zh_ch_checking_config_def zh_ch_reading_def zh_ch_later_def zh_ch_undecided_def zh_ch_see_logs_def
  zh_ch_needs_check_def zh_ch_config_check_def zh_ch_config_abnormal_def zh_ch_fix_then_sync_def zh_ch_waiting_def
  zh_ch_config_waiting_def zh_ch_real_change_def zh_ch_wait_or_sync_def zh_ch_in_force_def zh_ch_core_in_force_def
  zh_ch_all_same_def zh_ch_not_same_def zh_ch_disk_differs_def zh_ch_see_problem_def zh_ch_no_information_def
  zh_ch_refresh_hint_def zh_ch_retry_sync_def zh_ch_sync_again_def zh_ch_sync_now_def zh_ch_apply_config_def
  zh_ch_must_install_def zh_ch_core_missing_def zh_ch_core_missing_long_def zh_ch_install_first_def zh_ch_service_bad_def
  zh_ch_not_running_def zh_ch_service_is_def zh_ch_stop_def zh_ch_restart_hint_def zh_ch_config_lost_def
  zh_ch_no_file_def zh_ch_no_file_long_def zh_ch_rewrite_def zh_ch_config_wrong_def zh_ch_check_failed_def
  zh_ch_check_failed_long_def zh_ch_fix_config_def zh_ch_not_ours_def zh_ch_not_ours_long_def zh_ch_systemd_first_def
  zh_ch_must_apply_def zh_ch_sync_disk_def zh_ch_port_bad_def zh_ch_port_silent_def zh_ch_there_are_def
  zh_ch_silent_ports_def zh_ch_port_hint_def zh_ch_diag_bad_def zh_ch_diag_errors_def zh_ch_diag_not_passed_def
  zh_ch_attention_def zh_ch_attention_long_def zh_ch_still_checking_def zh_ch_fine_def zh_ch_core_fine_def
  zh_ch_core_fine_long_def zh_ch_keep_def zh_ch_run_def

lemma texts_nonempty_CoreHealth [simp]:
  "zh_ch_attempt \<noteq> []" "zh_ch_times \<noteq> []" "zh_ch_syncing \<noteq> []" "zh_ch_syncing_core \<noteq> []"
  "zh_ch_auto_update \<noteq> []" "zh_ch_no_action \<noteq> []" "zh_ch_sync_failed \<noteq> []" "zh_ch_auto_failed \<noteq> []"
  "zh_ch_auto_unfinished \<noteq> []" "zh_ch_retry_hint \<noteq> []" "zh_ch_checking_config \<noteq> []" "zh_ch_reading \<noteq> []"
  "zh_ch_later \<noteq> []" "zh_ch_undecided \<noteq> []" "zh_ch_see_logs \<noteq> []" "zh_ch_needs_check \<noteq> []"
  "zh_ch_config_check \<noteq> []" "zh_ch_config_abnormal \<noteq> []" "zh_ch_fix_then_sync \<noteq> []" "zh_ch_waiting \<noteq> []"
  "zh_ch_config_waiting \<noteq> []" "zh_ch_real_change \<noteq> []" "zh_ch_wait_or_sync \<noteq> []" "zh_ch_in_force \<noteq> []"
  "zh_ch_core_in_force \<noteq> []" "zh_ch_all_same \<noteq> []" "zh_ch_not_same \<noteq> []" "zh_ch_disk_differs \<noteq> []"
  "zh_ch_see_problem \<noteq> []" "zh_ch_no_information \<noteq> []" "zh_ch_refresh_hint \<noteq> []" "zh_ch_retry_sync \<noteq> []"
  "zh_ch_sync_again \<noteq> []" "zh_ch_sync_now \<noteq> []" "zh_ch_apply_config \<noteq> []" "zh_ch_must_install \<noteq> []"
  "zh_ch_core_missing \<noteq> []" "zh_ch_core_missing_long \<noteq> []" "zh_ch_install_first \<noteq> []" "zh_ch_service_bad \<noteq> []"
  "zh_ch_not_running \<noteq> []" "zh_ch_service_is \<noteq> []" "zh_ch_stop \<noteq> []" "zh_ch_restart_hint \<noteq> []"
  "zh_ch_config_lost \<noteq> []" "zh_ch_no_file \<noteq> []" "zh_ch_no_file_long \<noteq> []" "zh_ch_rewrite \<noteq> []"
  "zh_ch_config_wrong \<noteq> []" "zh_ch_check_failed \<noteq> []" "zh_ch_check_failed_long \<noteq> []" "zh_ch_fix_config \<noteq> []"
  "zh_ch_not_ours \<noteq> []" "zh_ch_not_ours_long \<noteq> []" "zh_ch_systemd_first \<noteq> []" "zh_ch_must_apply \<noteq> []"
  "zh_ch_sync_disk \<noteq> []" "zh_ch_port_bad \<noteq> []" "zh_ch_port_silent \<noteq> []" "zh_ch_there_are \<noteq> []"
  "zh_ch_silent_ports \<noteq> []" "zh_ch_port_hint \<noteq> []" "zh_ch_diag_bad \<noteq> []" "zh_ch_diag_errors \<noteq> []"
  "zh_ch_diag_not_passed \<noteq> []" "zh_ch_attention \<noteq> []" "zh_ch_attention_long \<noteq> []" "zh_ch_still_checking \<noteq> []"
  "zh_ch_fine \<noteq> []" "zh_ch_core_fine \<noteq> []" "zh_ch_core_fine_long \<noteq> []" "zh_ch_keep \<noteq> []"
  "zh_ch_run \<noteq> []"
  by (simp_all add: texts_CoreHealth)

section \<open>Is the configuration in force?\<close>

datatype sync_key = InSync | SyncRunning | SyncWaiting | SyncFailedKey | NeedsCheck | SyncUnknown

record user_sync =
  us_key :: sync_key
  us_label :: string
  us_headline :: string
  us_detail :: string
  us_action :: string
  us_tone :: status_tone

definition status_job :: "core_status option \<Rightarrow> apply_job option" where
  "status_job status = of_opt sc_apply_job status"

definition retry_note :: "apply_job \<Rightarrow> string" where
  "retry_note job =
     (if aj_status job = ''retrying'' \<and> oint (aj_retry_count job) \<noteq> 0
      then zh_ch_attempt @ int_str (oint (aj_retry_count job)) @ ''/''
        @ int_str (if oint (aj_max_retries job) \<noteq> 0 then oint (aj_max_retries job) else oint (aj_retry_count job))
        @ zh_ch_times
      else [])"

definition config_broken :: "core_status option \<Rightarrow> core_diagnostics option \<Rightarrow> config_preview option \<Rightarrow> bool" where
  "config_broken status diagnostics preview \<longleftrightarrow>
     ostr (of_opt sc_pending_apply_error status) \<noteq> [] \<or> ostr (of_opt pv_error preview) \<noteq> []
     \<or> of_opt dg_config_valid diagnostics = Some False
     \<or> of_opt pv_reason preview \<in> {Some ''generated_build_failed'', Some ''disk_parse_failed''}"

definition apply_pending :: "core_status option \<Rightarrow> config_preview option \<Rightarrow> bool" where
  "apply_pending status preview \<longleftrightarrow> is_on (of_opt sc_pending_apply status) \<or> is_on (of_opt pv_pending_apply preview)"

definition coreUserSyncState ::
  "core_status option \<Rightarrow> core_diagnostics option \<Rightarrow> config_preview option \<Rightarrow> bool \<Rightarrow> string option \<Rightarrow> user_sync" where
  "coreUserSyncState status diagnostics preview loading err =
     (let job = status_job status in
      if (\<exists>j \<in> set_option job. coreApplyJobInProgress (Some (aj_status j))) then
        (let j = the job in
         \<lparr>us_key = SyncRunning, us_label = zh_ch_syncing, us_headline = zh_ch_syncing_core,
          us_detail = applyJobStatusLabel (Some (aj_status j)) @ retry_note j @ zh_ch_auto_update,
          us_action = zh_ch_no_action, us_tone = StatusWarning\<rparr>)
      else if (\<exists>j \<in> set_option job. aj_status j = ''failed'') then
        (let j = the job in
         \<lparr>us_key = SyncFailedKey, us_label = zh_ch_sync_failed, us_headline = zh_ch_auto_failed,
          us_detail = str_or (ostr (aj_detail j)) (str_or (ostr (aj_error j)) zh_ch_auto_unfinished),
          us_action = zh_ch_retry_hint, us_tone = StatusError\<rparr>)
      else if loading then
        \<lparr>us_key = SyncUnknown, us_label = zh_ch_unknown, us_headline = zh_ch_checking_config,
         us_detail = zh_ch_reading, us_action = zh_ch_later, us_tone = StatusNeutral\<rparr>
      else if err \<noteq> None then
        \<lparr>us_key = SyncUnknown, us_label = zh_ch_unknown, us_headline = zh_ch_undecided,
         us_detail = ostr err, us_action = zh_ch_see_logs, us_tone = StatusWarning\<rparr>
      else if config_broken status diagnostics preview then
        \<lparr>us_key = NeedsCheck, us_label = zh_ch_needs_check, us_headline = zh_ch_config_check,
         us_detail = str_or (ostr (of_opt sc_pending_apply_detail status))
           (str_or (ostr (of_opt sc_pending_apply_error status)) (str_or (ostr (of_opt pv_detail preview))
             (str_or (ostr (of_opt pv_error preview)) (str_or (ostr (of_opt dg_config_error diagnostics))
               zh_ch_config_abnormal)))),
         us_action = zh_ch_fix_then_sync, us_tone = StatusError\<rparr>
      else if apply_pending status preview then
        \<lparr>us_key = SyncWaiting, us_label = zh_ch_waiting, us_headline = zh_ch_config_waiting,
         us_detail = str_or (humanPendingReason (str_or (ostr (of_opt sc_pending_reason status)) (ostr (of_opt pv_pending_reason preview))))
           zh_ch_real_change,
         us_action = zh_ch_wait_or_sync, us_tone = StatusWarning\<rparr>
      else if is_on (of_opt pv_in_sync preview) \<or> is_on (of_opt dg_disk_generated_in_sync diagnostics) then
        \<lparr>us_key = InSync, us_label = zh_ch_in_force, us_headline = zh_ch_core_in_force,
         us_detail = zh_ch_all_same, us_action = zh_ch_nothing, us_tone = StatusOk\<rparr>
      else if of_opt pv_in_sync preview = Some False \<or> of_opt dg_disk_generated_in_sync diagnostics = Some False then
        \<lparr>us_key = NeedsCheck, us_label = zh_ch_needs_check, us_headline = zh_ch_not_same,
         us_detail = str_or (configSyncReasonLabel (str_or (ostr (of_opt pv_reason preview)) (ostr (of_opt dg_sync_reason diagnostics))))
           zh_ch_disk_differs,
         us_action = zh_ch_see_problem, us_tone = StatusWarning\<rparr>
      else
        \<lparr>us_key = SyncUnknown, us_label = zh_ch_unknown, us_headline = zh_ch_undecided,
         us_detail = zh_ch_no_information, us_action = zh_ch_refresh_hint,
         us_tone = StatusNeutral\<rparr>)"

definition coreApplyButtonLabel :: "user_sync \<Rightarrow> string" where
  "coreApplyButtonLabel state =
     (case us_key state of
        SyncFailedKey \<Rightarrow> zh_ch_retry_sync
      | NeedsCheck \<Rightarrow> zh_ch_sync_again
      | SyncWaiting \<Rightarrow> zh_ch_sync_now
      | InSync \<Rightarrow> zh_ch_sync_again
      | _ \<Rightarrow> zh_ch_apply_config)"

section \<open>Is the core healthy?\<close>

record core_health =
  he_tone :: status_tone
  he_label :: string
  he_headline :: string
  he_detail :: string
  he_nextAction :: string

definition health :: "status_tone \<Rightarrow> string \<Rightarrow> string \<Rightarrow> string \<Rightarrow> string \<Rightarrow> core_health" where
  "health tone label headline detail next_action =
     \<lparr>he_tone = tone, he_label = label, he_headline = headline, he_detail = detail, he_nextAction = next_action\<rparr>"

definition core_managed :: "core_status option \<Rightarrow> core_diagnostics option \<Rightarrow> bool option" where
  "core_managed status diagnostics =
     (case of_opt sc_managed status of Some b \<Rightarrow> Some b | None \<Rightarrow> of_opt dg_managed diagnostics)"

definition diagnosed_service :: "core_diagnostics option \<Rightarrow> string" where
  "diagnosed_service diagnostics = (case diagnostics of None \<Rightarrow> [] | Some d \<Rightarrow> dg_service_status d)"

definition core_service :: "core_status option \<Rightarrow> core_diagnostics option \<Rightarrow> string" where
  "core_service status diagnostics =
     str_or (case status of None \<Rightarrow> [] | Some s \<Rightarrow> sc_status s) (diagnosed_service diagnostics)"

definition coreHealthSummary ::
  "core_status option \<Rightarrow> core_diagnostics option \<Rightarrow> config_preview option \<Rightarrow> bool \<Rightarrow> string option \<Rightarrow> bool \<Rightarrow> string option
     \<Rightarrow> core_health" where
  "coreHealthSummary status diagnostics preview diagnosticsLoading diagnosticsError previewLoading previewError =
     (let installed = coreInstalledWithDiagnostics status diagnostics;
          managed = core_managed status diagnostics;
          serviceStatus = core_service status diagnostics;
          sync = configSyncState preview previewLoading previewError;
          ports = coreListeningDiagnostics status diagnostics;
          missingPorts = filter (\<lambda>p. \<not> lr_listening p) ports;
          missingListeners = olist (of_opt dg_missing_listeners diagnostics);
          diagnosticState = coreDiagnosticsSummary diagnostics diagnosticsLoading diagnosticsError;
          userSync = coreUserSyncState status diagnostics preview previewLoading previewError
      in if \<not> installed \<or> diagnosed_service diagnostics = ''not_installed'' then
           health StatusError zh_ch_must_install zh_ch_core_missing
             zh_ch_core_missing_long zh_ch_install_first
         else if serviceStatus \<noteq> [] \<and> serviceStatus \<noteq> ''running'' \<and> serviceStatus \<noteq> ''not_managed'' then
           health StatusError zh_ch_service_bad zh_ch_not_running
             (zh_ch_service_is @ serviceLabel (Some serviceStatus) @ zh_ch_stop)
             zh_ch_restart_hint
         else if of_opt dg_config_exists diagnostics = Some False then
           health StatusError zh_ch_config_lost zh_ch_no_file zh_ch_no_file_long
             zh_ch_rewrite
         else if of_opt dg_config_valid diagnostics = Some False then
           health StatusError zh_ch_config_wrong zh_ch_check_failed
             (str_or (ostr (of_opt dg_config_error diagnostics)) zh_ch_check_failed_long)
             zh_ch_fix_config
         else if managed = Some False \<or> serviceStatus = ''not_managed'' then
           health StatusWarning zh_ch_unmanaged zh_ch_not_ours
             zh_ch_not_ours_long zh_ch_systemd_first
         else if us_key userSync = SyncRunning then
           health StatusWarning zh_ch_syncing zh_ch_syncing_core (us_detail userSync) (us_action userSync)
         else if us_key userSync = SyncFailedKey then
           health StatusError zh_ch_sync_failed zh_ch_auto_failed (us_detail userSync) (us_action userSync)
         else if us_key userSync = NeedsCheck then
           health (if us_tone userSync = StatusError then StatusError else StatusWarning) zh_ch_needs_check
             (us_headline userSync) (us_detail userSync) (us_action userSync)
         else if apply_pending status preview then
           health StatusWarning zh_ch_waiting zh_ch_config_waiting (us_detail userSync) (us_action userSync)
         else if sy_ok sync = Some False \<or> of_opt dg_disk_generated_in_sync diagnostics = Some False then
           health StatusWarning zh_ch_must_apply zh_ch_not_same (str_or (sy_detail sync) zh_ch_disk_differs)
             zh_ch_sync_disk
         else if missingPorts \<noteq> [] \<or> missingListeners \<noteq> [] then
           health StatusWarning zh_ch_port_bad zh_ch_port_silent
             (zh_ch_there_are @ nat_str (if missingPorts \<noteq> [] then length missingPorts else length missingListeners)
               @ zh_ch_silent_ports)
             zh_ch_port_hint
         else if ds_tone diagnosticState = StatusError then
           health StatusError zh_ch_diag_bad zh_ch_diag_errors
             (str_or (ds_detail diagnosticState) zh_ch_diag_not_passed) (recommendedAction diagnostics diagnosticState)
         else if ds_tone diagnosticState = StatusWarning then
           health StatusWarning zh_ch_attention zh_ch_attention_long
             (if ds_detail diagnosticState \<noteq> [] then diagnosticWarningLabel (ds_detail diagnosticState)
              else zh_ch_still_checking)
             (recommendedAction diagnostics diagnosticState)
         else health StatusOk zh_ch_fine zh_ch_core_fine
             zh_ch_core_fine_long zh_ch_keep)"

section \<open>The overview card\<close>

definition overview_pills :: "core_status option \<Rightarrow> core_diagnostics option \<Rightarrow> config_preview option \<Rightarrow> (string \<times> string \<times> status_tone) list" where
  "overview_pills status diagnostics preview =
     (let installed = coreInstalledWithDiagnostics status diagnostics;
          managed = is_on (core_managed status diagnostics);
          service = core_service status diagnostics;
          userSync = coreUserSyncState status diagnostics preview False None
      in [(zh_ch_install, if installed then zh_ch_installed else zh_ch_not_installed, if installed then StatusOk else StatusError),
          (zh_ch_manage, if managed then zh_ch_managed else zh_ch_unmanaged, if managed then StatusOk else StatusWarning),
          (zh_ch_run, serviceLabel (Some service), if service = ''running'' then StatusOk else StatusError),
          (zh_ch_config, us_label userSync, us_tone userSync)])"

definition listening_ratio :: "core_status option \<Rightarrow> core_diagnostics option \<Rightarrow> string" where
  "listening_ratio status diagnostics =
     (let ports = coreListeningDiagnostics status diagnostics in
      if ports = [] then ''-''
      else nat_str (length (filter lr_listening ports)) @ ''/'' @ nat_str (length ports))"

definition overview_path :: "core_status option \<Rightarrow> core_diagnostics option \<Rightarrow> config_preview option \<Rightarrow> string" where
  "overview_path status diagnostics preview =
     str_or (ostr (of_opt sc_config_path status)) (str_or (case diagnostics of None \<Rightarrow> [] | Some d \<Rightarrow> dg_config_path d)
       (str_or (case preview of None \<Rightarrow> [] | Some p \<Rightarrow> pv_config_path p) ''-''))"

section \<open>No healthy verdict on a bad sign\<close>

lemma he_tone_health [simp]: "he_tone (health t a b c d) = t"
  by (simp add: health_def)

lemma diagnostics_ok:
  "ds_tone (coreDiagnosticsSummary diagnostics loading err) = StatusOk \<longleftrightarrow>
     \<not> loading \<and> err = None \<and> (\<exists>d. diagnostics = Some d \<and> is_on (dg_installed d) \<and> is_on (dg_config_exists d) \<and> is_on (dg_config_valid d)
        \<and> is_on (dg_disk_generated_in_sync d) \<and> dg_service_status d \<notin> {''not_installed'', ''stopped'', ''not_managed''}
        \<and> olist (dg_warnings d) = [] \<and> olist (dg_missing_listeners d) = [])"
  by (auto simp: coreDiagnosticsSummary_def split: option.splits)

lemma sync_not_bad:
  "sy_ok (configSyncState preview loading err) \<noteq> Some False \<longleftrightarrow>
     loading \<or> (err = None \<and> (\<forall>p \<in> set_option preview. \<not> is_on (pv_pending_apply p) \<and> is_on (pv_in_sync p)))"
  by (auto simp: configSyncState_def Let_def split: option.splits)

end
