(* ===== verification/CoreActions.thy ===== *)
theory CoreActions
  imports CoreHealth Endpoints QueryInvalidation
begin

text \<open>
  The operations of a core page, \<^verbatim>\<open>src/web/src/routes/CorePage.tsx\<close>: checking, applying, installing,
  removing, restarting and stopping a core. \<open>coreActionResult\<close> reads the answer, \<open>action_answered\<close> and
  \<open>action_failed\<close> are the handlers of each operation with the card, the message and the queries asked again, and
  \<open>status_interval\<close> is the interval at which the page asks for the status. Time is in milliseconds and given.
\<close>

section \<open>Texts\<close>

text \<open>The non-ASCII texts of this part of the user interface, as UTF-8 bytes.\<close>

definition zh_ca_not_listening :: string where
  "zh_ca_not_listening = [CHR 0xE9, CHR 0x85, CHR 0x8D, CHR 0xE7, CHR 0xBD, CHR 0xAE, CHR 0xE5, CHR 0xB7, CHR 0xB2, CHR 0xE5,
    CHR 0xBA, CHR 0x94, CHR 0xE7, CHR 0x94, CHR 0xA8, CHR 0xEF, CHR 0xBC, CHR 0x8C, CHR 0xE4, CHR 0xBD,
    CHR 0x86, CHR 0xE7, CHR 0xAB, CHR 0xAF, CHR 0xE5, CHR 0x8F, CHR 0xA3, CHR 0xE6, CHR 0x9C, CHR 0xAA,
    CHR 0xE7, CHR 0x9B, CHR 0x91, CHR 0xE5, CHR 0x90, CHR 0xAC]"

definition zh_ca_apply_started :: string where
  "zh_ca_apply_started = [CHR 0x20, CHR 0xE9, CHR 0x85, CHR 0x8D, CHR 0xE7, CHR 0xBD, CHR 0xAE, CHR 0xE5, CHR 0xB7, CHR 0xB2,
    CHR 0xE5, CHR 0xBC, CHR 0x80, CHR 0xE5, CHR 0xA7, CHR 0x8B, CHR 0xE5, CHR 0xBA, CHR 0x94, CHR 0xE7,
    CHR 0x94, CHR 0xA8]"

definition zh_ca_colon :: string where
  "zh_ca_colon = [CHR 0xEF, CHR 0xBC, CHR 0x9A]"

definition zh_ca_inbounds :: string where
  "zh_ca_inbounds = [CHR 0xE5, CHR 0x85, CHR 0xA5, CHR 0xE7, CHR 0xAB, CHR 0x99, CHR 0x3A, CHR 0x20]"

definition zh_ca_outbounds :: string where
  "zh_ca_outbounds = [CHR 0xE5, CHR 0x87, CHR 0xBA, CHR 0xE7, CHR 0xAB, CHR 0x99, CHR 0x3A, CHR 0x20]"

definition zh_ca_rules :: string where
  "zh_ca_rules = [CHR 0xE8, CHR 0xA7, CHR 0x84, CHR 0xE5, CHR 0x88, CHR 0x99, CHR 0x3A, CHR 0x20]"

definition zh_ca_warnings :: string where
  "zh_ca_warnings = [CHR 0xE8, CHR 0xAD, CHR 0xA6, CHR 0xE5, CHR 0x91, CHR 0x8A, CHR 0x3A]"

definition zh_ca_applied :: string where
  "zh_ca_applied = [CHR 0x20, CHR 0xE9, CHR 0x85, CHR 0x8D, CHR 0xE7, CHR 0xBD, CHR 0xAE, CHR 0xE5, CHR 0xB7, CHR 0xB2,
    CHR 0xE5, CHR 0xBA, CHR 0x94, CHR 0xE7, CHR 0x94, CHR 0xA8]"

definition zh_ca_installed :: string where
  "zh_ca_installed = [CHR 0x20, CHR 0xE5, CHR 0xAE, CHR 0x89, CHR 0xE8, CHR 0xA3, CHR 0x85, CHR 0xE5, CHR 0x91, CHR 0xBD,
    CHR 0xE4, CHR 0xBB, CHR 0xA4, CHR 0xE5, CHR 0xB7, CHR 0xB2, CHR 0xE6, CHR 0x89, CHR 0xA7, CHR 0xE8,
    CHR 0xA1, CHR 0x8C]"

definition zh_ca_unmanaged :: string where
  "zh_ca_unmanaged = [CHR 0x20, CHR 0xE5, CHR 0x8F, CHR 0x96, CHR 0xE6, CHR 0xB6, CHR 0x88, CHR 0xE6, CHR 0x89, CHR 0x98,
    CHR 0xE7, CHR 0xAE, CHR 0xA1, CHR 0xE5, CHR 0x91, CHR 0xBD, CHR 0xE4, CHR 0xBB, CHR 0xA4, CHR 0xE5,
    CHR 0xB7, CHR 0xB2, CHR 0xE6, CHR 0x89, CHR 0xA7, CHR 0xE8, CHR 0xA1, CHR 0x8C]"

definition zh_ca_deleted :: string where
  "zh_ca_deleted = [CHR 0x20, CHR 0xE5, CHR 0x88, CHR 0xA0, CHR 0xE9, CHR 0x99, CHR 0xA4, CHR 0xE5, CHR 0x91, CHR 0xBD,
    CHR 0xE4, CHR 0xBB, CHR 0xA4, CHR 0xE5, CHR 0xB7, CHR 0xB2, CHR 0xE6, CHR 0x89, CHR 0xA7, CHR 0xE8,
    CHR 0xA1, CHR 0x8C]"

definition zh_ca_restarted :: string where
  "zh_ca_restarted = [CHR 0x20, CHR 0xE5, CHR 0xB7, CHR 0xB2, CHR 0xE9, CHR 0x87, CHR 0x8D, CHR 0xE5, CHR 0x90, CHR 0xAF]"

definition zh_ca_stopped :: string where
  "zh_ca_stopped = [CHR 0x20, CHR 0xE5, CHR 0xB7, CHR 0xB2, CHR 0xE5, CHR 0x81, CHR 0x9C, CHR 0xE6, CHR 0xAD, CHR 0xA2]"

definition zh_ca_apply_failed :: string where
  "zh_ca_apply_failed = [CHR 0x20, CHR 0xE5, CHR 0xBA, CHR 0x94, CHR 0xE7, CHR 0x94, CHR 0xA8, CHR 0xE5, CHR 0xA4, CHR 0xB1,
    CHR 0xE8, CHR 0xB4, CHR 0xA5]"

definition zh_ca_install_failed :: string where
  "zh_ca_install_failed = [CHR 0x20, CHR 0xE5, CHR 0xAE, CHR 0x89, CHR 0xE8, CHR 0xA3, CHR 0x85, CHR 0xE5, CHR 0xA4, CHR 0xB1,
    CHR 0xE8, CHR 0xB4, CHR 0xA5]"

definition zh_ca_unmanage_failed :: string where
  "zh_ca_unmanage_failed = [CHR 0x20, CHR 0xE5, CHR 0x8F, CHR 0x96, CHR 0xE6, CHR 0xB6, CHR 0x88, CHR 0xE6, CHR 0x89, CHR 0x98,
    CHR 0xE7, CHR 0xAE, CHR 0xA1, CHR 0xE5, CHR 0xA4, CHR 0xB1, CHR 0xE8, CHR 0xB4, CHR 0xA5]"

definition zh_ca_delete_failed :: string where
  "zh_ca_delete_failed = [CHR 0x20, CHR 0xE5, CHR 0x88, CHR 0xA0, CHR 0xE9, CHR 0x99, CHR 0xA4, CHR 0xE5, CHR 0xA4, CHR 0xB1,
    CHR 0xE8, CHR 0xB4, CHR 0xA5]"

definition zh_ca_restart_failed :: string where
  "zh_ca_restart_failed = [CHR 0x20, CHR 0xE9, CHR 0x87, CHR 0x8D, CHR 0xE5, CHR 0x90, CHR 0xAF, CHR 0xE5, CHR 0xA4, CHR 0xB1,
    CHR 0xE8, CHR 0xB4, CHR 0xA5]"

definition zh_ca_stop_failed :: string where
  "zh_ca_stop_failed = [CHR 0x20, CHR 0xE5, CHR 0x81, CHR 0x9C, CHR 0xE6, CHR 0xAD, CHR 0xA2, CHR 0xE5, CHR 0xA4, CHR 0xB1,
    CHR 0xE8, CHR 0xB4, CHR 0xA5]"

definition zh_ca_check_failed :: string where
  "zh_ca_check_failed = [CHR 0x20, CHR 0xE7, CHR 0x94, CHR 0x9F, CHR 0xE6, CHR 0x88, CHR 0x90, CHR 0xE6, CHR 0xA0, CHR 0xA1,
    CHR 0xE9, CHR 0xAA, CHR 0x8C, CHR 0xE5, CHR 0xA4, CHR 0xB1, CHR 0xE8, CHR 0xB4, CHR 0xA5]"

definition zh_ca_check_passed :: string where
  "zh_ca_check_passed = [CHR 0x20, CHR 0xE7, CHR 0x94, CHR 0x9F, CHR 0xE6, CHR 0x88, CHR 0x90, CHR 0xE6, CHR 0xA0, CHR 0xA1,
    CHR 0xE9, CHR 0xAA, CHR 0x8C, CHR 0xE9, CHR 0x80, CHR 0x9A, CHR 0xE8, CHR 0xBF, CHR 0x87]"

lemmas texts_CoreActions =
  zh_ca_not_listening_def zh_ca_apply_started_def zh_ca_colon_def zh_ca_inbounds_def zh_ca_outbounds_def
  zh_ca_rules_def zh_ca_warnings_def zh_ca_applied_def zh_ca_installed_def zh_ca_unmanaged_def
  zh_ca_deleted_def zh_ca_restarted_def zh_ca_stopped_def zh_ca_apply_failed_def zh_ca_install_failed_def
  zh_ca_unmanage_failed_def zh_ca_delete_failed_def zh_ca_restart_failed_def zh_ca_stop_failed_def zh_ca_check_failed_def
  zh_ca_check_passed_def

lemma texts_nonempty_CoreActions [simp]:
  "zh_ca_not_listening \<noteq> []" "zh_ca_apply_started \<noteq> []" "zh_ca_colon \<noteq> []" "zh_ca_inbounds \<noteq> []"
  "zh_ca_outbounds \<noteq> []" "zh_ca_rules \<noteq> []" "zh_ca_warnings \<noteq> []" "zh_ca_applied \<noteq> []"
  "zh_ca_installed \<noteq> []" "zh_ca_unmanaged \<noteq> []" "zh_ca_deleted \<noteq> []" "zh_ca_restarted \<noteq> []"
  "zh_ca_stopped \<noteq> []" "zh_ca_apply_failed \<noteq> []" "zh_ca_install_failed \<noteq> []" "zh_ca_unmanage_failed \<noteq> []"
  "zh_ca_delete_failed \<noteq> []" "zh_ca_restart_failed \<noteq> []" "zh_ca_stop_failed \<noteq> []" "zh_ca_check_failed \<noteq> []"
  "zh_ca_check_passed \<noteq> []"
  by (simp_all add: texts_CoreActions)

section \<open>The answer to an operation\<close>

record core_action =
  ac_status :: "string option"
  ac_accepted :: "bool option"
  ac_message :: "string option"
  ac_output :: "string option"
  ac_commands_executed :: "string list option"
  ac_apply_job :: "apply_job option"
  ac_xray :: "xray_summary option"
  ac_singbox :: "singbox_summary option"
  ac_applied :: "bool option"
  ac_reason :: "string option"
  ac_error :: "string option"
  ac_warnings :: "string list option"
  ac_post_apply_warnings :: "string list option"

record action_result =
  ar_ok :: bool
  ar_message :: string
  ar_detail :: string \<comment> \<open>empty when there is none\<close>
  ar_tone :: "tone option"

abbreviation xs_of :: "(xray_summary \<Rightarrow> string option) \<Rightarrow> core_action \<Rightarrow> string" where
  "xs_of f data \<equiv> ostr (of_opt f (ac_xray data))"

abbreviation ss_of :: "(singbox_summary \<Rightarrow> string option) \<Rightarrow> core_action \<Rightarrow> string" where
  "ss_of f data \<equiv> ostr (of_opt f (ac_singbox data))"

definition normalizeStatus :: "string \<Rightarrow> string" where
  "normalizeStatus status = toLowerCase status"

definition isFailureStatus :: "string \<Rightarrow> bool" where
  "isFailureStatus status \<longleftrightarrow>
     status = ''failed'' \<or> status = ''error'' \<or> status = ''not_managed''
     \<or> startsWith status ''failed:'' \<or> startsWith status ''error:''"

definition firstNonEmptyCommands :: "string list option list \<Rightarrow> string list" where
  "firstNonEmptyCommands groups =
     (case find (\<lambda>g. olist g \<noteq> []) groups of None \<Rightarrow> [] | Some g \<Rightarrow> olist g)"

definition allWarnings :: "string list option list \<Rightarrow> string list" where
  "allWarnings groups = concat (map olist groups)"

definition pageListenerWarning :: "string list \<Rightarrow> string" where
  "pageListenerWarning warnings =
     (case find (\<lambda>w. startsWith w zh_ca_not_listening) warnings of None \<Rightarrow> [] | Some w \<Rightarrow> w)"

definition singbox_reason :: "core_action \<Rightarrow> string" where
  "singbox_reason data = (if ss_of ss_reason data = ''not_needed'' then [] else ss_of ss_reason data)"

definition commandDetail :: "core_action \<Rightarrow> string \<Rightarrow> string" where
  "commandDetail data message =
     (let commands = firstNonEmptyCommands [ac_commands_executed data, of_opt xs_commands_executed (ac_xray data),
            of_opt ss_commands_executed (ac_singbox data)];
          output = str_or (ostr (ac_output data)) (str_or (xs_of xs_detail data) (str_or (xs_of xs_error_output data)
            (str_or (xs_of xs_error data) (str_or (ss_of ss_output data) (str_or (ss_of ss_error data) (singbox_reason data))))));
          supplementalOutput = (if output \<noteq> [] \<and> output \<noteq> message then output else [])
      in join_parts [CHR 0x0A, CHR 0x0A]
           [if commands \<noteq> [] then ''commands:'' @ [CHR 0x0A] @ join [CHR 0x0A] commands else [],
            if supplementalOutput \<noteq> [] then ''detail:'' @ [CHR 0x0A] @ supplementalOutput else []])"

definition withDetail :: "action_result \<Rightarrow> string \<Rightarrow> action_result" where
  "withDetail result detail = (if detail \<noteq> [] then result\<lparr>ar_detail := detail\<rparr> else result)"

definition action_accepted :: "core_action \<Rightarrow> bool" where
  "action_accepted data \<longleftrightarrow> is_on (ac_accepted data) \<or> normalizeStatus (ostr (ac_status data)) = ''accepted''"

definition action_error :: "core_action \<Rightarrow> string" where
  "action_error data =
     str_or (ostr (ac_error data)) (str_or (xs_of xs_error data) (str_or (xs_of xs_detail data) (str_or (xs_of xs_error_output data)
       (str_or (ss_of ss_error data) (str_or (singbox_reason data) (ostr (ac_reason data)))))))"

definition action_has_failed :: "core_action \<Rightarrow> bool" where
  "action_has_failed data \<longleftrightarrow>
     isFailureStatus (normalizeStatus (ostr (ac_status data))) \<or> isFailureStatus (normalizeStatus (xs_of xs_status data))
     \<or> of_opt xs_applied (ac_xray data) = Some False
     \<or> (ac_xray data = None \<and> ac_singbox data = None \<and> ac_applied data = Some False)
     \<or> (of_opt ss_applied (ac_singbox data) = Some False \<and> ss_of ss_reason data \<noteq> ''not_needed'')
     \<or> ostr (ac_error data) \<noteq> [] \<or> xs_of xs_error data \<noteq> [] \<or> xs_of xs_error_output data \<noteq> [] \<or> ss_of ss_error data \<noteq> []"

definition action_listener_warning :: "core_action \<Rightarrow> string" where
  "action_listener_warning data =
     pageListenerWarning (allWarnings
       [ac_post_apply_warnings data, of_opt xs_post_apply_warnings (ac_xray data), of_opt ss_post_apply_warnings (ac_singbox data),
        ac_warnings data, of_opt xs_warnings (ac_xray data), of_opt ss_warnings (ac_singbox data)])"

definition coreActionResult :: "core_action \<Rightarrow> string \<Rightarrow> action_result" where
  "coreActionResult data fallback =
     (if action_accepted data then
        (let core = (case ac_apply_job data of None \<Rightarrow> [] | Some j \<Rightarrow> aj_core j);
             label = (if core = ''sing-box'' \<or> core = ''singbox'' then ''sing-box'' else ''Xray'');
             job = (case ac_apply_job data of None \<Rightarrow> [] | Some j \<Rightarrow> aj_id j)
         in withDetail \<lparr>ar_ok = True, ar_message = str_or (ostr (ac_message data)) (label @ zh_ca_apply_started),
                ar_detail = [], ar_tone = Some ToneInfo\<rparr>
              (if job \<noteq> [] then ''job:'' @ [CHR 0x0A] @ job else []))
      else
        (let failed = action_has_failed data;
             listenerWarning = action_listener_warning data;
             message = (if failed
               then str_or (action_error data) (str_or (xs_of xs_status data) (str_or (ostr (ac_status data)) fallback))
               else str_or listenerWarning
                 (if xs_of xs_status data \<noteq> [] then fallback @ zh_ca_colon @ xs_of xs_status data
                  else if of_opt ss_applied (ac_singbox data) = Some True \<or> ac_applied data = Some True then fallback
                  else str_or (ostr (ac_status data)) fallback));
             tone = (if listenerWarning \<noteq> [] \<and> \<not> failed then Some ToneInfo else None)
         in withDetail \<lparr>ar_ok = \<not> failed, ar_message = message, ar_detail = [], ar_tone = tone\<rparr>
              (commandDetail data message)))"

section \<open>Checking a configuration\<close>

record config_validation =
  va_valid :: bool
  va_error :: "string option"
  va_warnings :: "string list option"
  va_inbounds :: "int option"
  va_outbounds :: "int option"
  va_rules :: "int option"

definition counted :: "string \<Rightarrow> int option \<Rightarrow> string" where
  "counted label n = (case n of None \<Rightarrow> [] | Some k \<Rightarrow> label @ int_str k)"

definition validationDetail :: "config_validation \<Rightarrow> string" where
  "validationDetail data =
     (let summary = join_parts zh_ch_dot
            [counted zh_ca_inbounds (va_inbounds data), counted zh_ca_outbounds (va_outbounds data),
             counted zh_ca_rules (va_rules data)];
          warnings = (if olist (va_warnings data) \<noteq> [] then zh_ca_warnings @ [CHR 0x0A] @ join [CHR 0x0A] (olist (va_warnings data)) else [])
      in join_parts [CHR 0x0A, CHR 0x0A] [summary, warnings])"

definition formatCoreLogs :: "(string option \<times> string list option \<times> string) option \<Rightarrow> string \<Rightarrow> string" where
  \<comment> \<open>the text, the lines and the answer as it is printed\<close>
  "formatCoreLogs data emptyMessage =
     (case data of None \<Rightarrow> emptyMessage
      | Some (logs, Some ls, dumped) \<Rightarrow> join [CHR 0x0A] ls
      | Some (logs, None, dumped) \<Rightarrow> str_or (ostr logs) dumped)"

section \<open>The page\<close>

record core_page =
  pg_lastResult :: "action_result option"
  pg_applyPollingUntil :: int

definition core_page_start :: core_page where
  "core_page_start = \<lparr>pg_lastResult = None, pg_applyPollingUntil = 0\<rparr>"

text \<open>What a handler does: the new state of the page, the message it shows and the queries it asks again.\<close>

type_synonym page_effect = "core_page \<times> (string \<times> tone) \<times> query_call list"

definition page_label :: "core_name \<Rightarrow> string" where
  "page_label core = (if core = Xray then ''Xray'' else ''Sing-box'')"

definition page_key :: "core_name \<Rightarrow> string \<Rightarrow> query_key" where
  "page_key core q = [case core of Xray \<Rightarrow> ''xray'' | SingBox \<Rightarrow> ''singbox'', q]"

definition page_keys :: "core_name \<Rightarrow> string list \<Rightarrow> query_key list" where
  "page_keys core = map (page_key core)"

definition done_text :: "core_op \<Rightarrow> string" where
  "done_text op = (case op of CoreApply \<Rightarrow> zh_ca_applied | CoreInstall \<Rightarrow> zh_ca_installed
     | CoreUninstall \<Rightarrow> zh_ca_unmanaged | CoreDelete \<Rightarrow> zh_ca_deleted
     | CoreRestart \<Rightarrow> zh_ca_restarted | CoreStop \<Rightarrow> zh_ca_stopped | _ \<Rightarrow> [])"

definition failed_text :: "core_op \<Rightarrow> string" where
  "failed_text op = (case op of CoreApply \<Rightarrow> zh_ca_apply_failed | CoreInstall \<Rightarrow> zh_ca_install_failed
     | CoreUninstall \<Rightarrow> zh_ca_unmanage_failed | CoreDelete \<Rightarrow> zh_ca_delete_failed
     | CoreRestart \<Rightarrow> zh_ca_restart_failed | CoreStop \<Rightarrow> zh_ca_stop_failed
     | _ \<Rightarrow> zh_ca_check_failed)"

definition shown_result :: "action_result \<Rightarrow> action_result" where \<comment> \<open>what \<^verbatim>\<open>setLastResult\<close> keeps\<close>
  "shown_result r = r\<lparr>ar_tone := None\<rparr>"

definition plain_tone :: "bool \<Rightarrow> tone" where
  "plain_tone ok = (if ok then ToneSuccess else ToneError)"

definition setActionError :: "failure \<Rightarrow> string \<Rightarrow> core_page \<Rightarrow> core_page \<times> (string \<times> tone)" where
  "setActionError err fallback s =
     (let message = getAPIErrorMessage err fallback in
      (s\<lparr>pg_lastResult := Some \<lparr>ar_ok = False, ar_message = message, ar_detail = [], ar_tone = None\<rparr>\<rparr>, (message, ToneError)))"

definition validate_answered :: "(string \<Rightarrow> string) \<Rightarrow> core_name \<Rightarrow> config_validation \<Rightarrow> core_page \<Rightarrow> page_effect" where
  "validate_answered tr core data s =
     (let message = (if va_valid data then page_label core @ zh_ca_check_passed
          else str_or (ostr (va_error data)) (page_label core @ zh_ca_check_failed))
      in (s\<lparr>pg_lastResult := Some \<lparr>ar_ok = va_valid data, ar_message = message, ar_detail = validationDetail data, ar_tone = None\<rparr>\<rparr>,
          (tr message, plain_tone (va_valid data)), []))"

definition apply_answered :: "(string \<Rightarrow> string) \<Rightarrow> core_name \<Rightarrow> int \<Rightarrow> core_action \<Rightarrow> core_page \<Rightarrow> page_effect" where
  "apply_answered tr core now data s =
     (let result = coreActionResult data (page_label core @ done_text CoreApply);
          s1 = s\<lparr>pg_lastResult := Some (shown_result result)\<rparr>;
          s2 = (if is_on (ac_accepted data) \<or> coreApplyJobInProgress (map_option aj_status (ac_apply_job data))
                then s1\<lparr>pg_applyPollingUntil := now + 30000\<rparr> else s1)
      in (s2, (tr (ar_message result), case ar_tone result of Some t \<Rightarrow> t | None \<Rightarrow> plain_tone (ar_ok result)),
          refreshQuery (page_key core ''status'') @ refreshQuery (page_key core ''diagnostics'')
          @ (if ar_ok result then refreshQueries (page_keys core [''config'', ''config-preview'']) else [])))"

definition command_answered :: "(string \<Rightarrow> string) \<Rightarrow> core_name \<Rightarrow> core_op \<Rightarrow> core_action \<Rightarrow> core_page \<Rightarrow> page_effect" where
  "command_answered tr core op data s =
     (let result = coreActionResult data (page_label core @ done_text op)
      in (s\<lparr>pg_lastResult := Some (shown_result result)\<rparr>, (tr (ar_message result), plain_tone (ar_ok result)),
          refreshQueries (page_keys core [''status'', ''version'', ''diagnostics''])))"

definition action_answered :: "(string \<Rightarrow> string) \<Rightarrow> core_name \<Rightarrow> core_op \<Rightarrow> int \<Rightarrow> core_action \<Rightarrow> core_page \<Rightarrow> page_effect" where
  "action_answered tr core op now data s =
     (if op = CoreApply then apply_answered tr core now data s else command_answered tr core op data s)"

definition action_failed :: "core_name \<Rightarrow> core_op \<Rightarrow> failure \<Rightarrow> core_page \<Rightarrow> page_effect" where
  "action_failed core op err s =
     (let (s1, t) = setActionError err (page_label core @ failed_text op) s in (s1, t, []))"

definition action_button :: "core_op \<Rightarrow> bool \<Rightarrow> bool \<Rightarrow> core_op option" where \<comment> \<open>installed, confirmed; what is sent\<close>
  "action_button op installed confirmed =
     (if op = CoreValidate then Some op
      else if op \<in> {CoreApply, CoreInstall} then (if confirmed then Some op else None)
      else if op \<in> {CoreRestart, CoreStop, CoreUninstall, CoreDelete} then (if installed \<and> confirmed then Some op else None)
      else None)"

datatype core_event =
    Validated config_validation
  | Answered core_op int core_action \<comment> \<open>the operation, the time and the answer\<close>
  | ActionFailed core_op failure

definition page_step :: "(string \<Rightarrow> string) \<Rightarrow> core_name \<Rightarrow> core_event \<Rightarrow> core_page \<Rightarrow> page_effect" where
  "page_step tr core e s = (case e of
       Validated v \<Rightarrow> validate_answered tr core v s
     | Answered op now data \<Rightarrow> action_answered tr core op now data s
     | ActionFailed op err \<Rightarrow> action_failed core op err s)"

section \<open>Asking for the status\<close>

definition coreStatusRefetchInterval :: "bool \<Rightarrow> int option" where
  "coreStatusRefetchInterval visible = (if visible then Some 12000 else None)"

definition status_interval :: "bool \<Rightarrow> core_status option \<Rightarrow> core_page \<Rightarrow> int \<Rightarrow> int option" where
  "status_interval visible current s now =
     (let applyRunning = coreApplyJobInProgress (map_option aj_status (status_job current)) \<or> now < pg_applyPollingUntil s
      in if \<not> visible then None else if applyRunning then Some 1500 else coreStatusRefetchInterval True)"

end
