(* ===== verification/CoreProps.thy ===== *)
theory CoreProps
  imports CoreActions
begin

text \<open>
  What a core page guarantees: the healthy verdict is given exactly when every sign is good, each operation ends in one
  message that says what the answer says and asks the server for what it changed, and a running apply is followed
  closely. The pill of the overview can contradict the verdict next to it.
\<close>

section \<open>The healthy verdict\<close>

definition job_busy_or_failed :: "core_status option \<Rightarrow> bool" where
  "job_busy_or_failed status \<longleftrightarrow>
     (\<exists>j \<in> set_option (status_job status). coreApplyJobInProgress (Some (aj_status j)) \<or> aj_status j = ''failed'')"

definition sync_verdict_bad :: "core_status option \<Rightarrow> core_diagnostics option \<Rightarrow> config_preview option \<Rightarrow> bool" where
  "sync_verdict_bad status diagnostics preview \<longleftrightarrow>
     config_broken status diagnostics preview
     \<or> (\<not> apply_pending status preview \<and> \<not> is_on (of_opt pv_in_sync preview) \<and> \<not> is_on (of_opt dg_disk_generated_in_sync diagnostics)
        \<and> (of_opt pv_in_sync preview = Some False \<or> of_opt dg_disk_generated_in_sync diagnostics = Some False))"

lemma sync_key_bad:
  "us_key (coreUserSyncState status diagnostics preview loading err) \<in> {SyncRunning, SyncFailedKey, NeedsCheck} \<longleftrightarrow>
     job_busy_or_failed status \<or> (\<not> loading \<and> err = None \<and> sync_verdict_bad status diagnostics preview)"
  unfolding job_busy_or_failed_def sync_verdict_bad_def
  by (cases "status_job status") (simp_all add: coreUserSyncState_def Let_def)

definition healthy :: "core_status option \<Rightarrow> core_diagnostics option \<Rightarrow> config_preview option \<Rightarrow> bool" where
  "healthy status diagnostics preview \<longleftrightarrow>
     coreInstalledWithDiagnostics status diagnostics \<and> core_service status diagnostics \<in> {[], ''running''}
     \<and> core_managed status diagnostics \<noteq> Some False \<and> \<not> job_busy_or_failed status \<and> \<not> apply_pending status preview
     \<and> list_all lr_listening (coreListeningDiagnostics status diagnostics)
     \<and> (\<exists>d. diagnostics = Some d \<and> is_on (dg_installed d) \<and> is_on (dg_config_exists d) \<and> is_on (dg_config_valid d)
          \<and> is_on (dg_disk_generated_in_sync d) \<and> dg_service_status d \<notin> {''not_installed'', ''stopped'', ''not_managed''}
          \<and> olist (dg_warnings d) = [] \<and> olist (dg_missing_listeners d) = [])"

lemma health_ok_steps:
  "he_tone (coreHealthSummary status diagnostics preview dl de pl pe) = StatusOk \<longleftrightarrow>
     coreInstalledWithDiagnostics status diagnostics \<and> diagnosed_service diagnostics \<noteq> ''not_installed''
     \<and> core_service status diagnostics \<in> {[], ''running''}
     \<and> of_opt dg_config_exists diagnostics \<noteq> Some False \<and> of_opt dg_config_valid diagnostics \<noteq> Some False
     \<and> core_managed status diagnostics \<noteq> Some False
     \<and> us_key (coreUserSyncState status diagnostics preview pl pe) \<notin> {SyncRunning, SyncFailedKey, NeedsCheck}
     \<and> \<not> apply_pending status preview \<and> sy_ok (configSyncState preview pl pe) \<noteq> Some False
     \<and> of_opt dg_disk_generated_in_sync diagnostics \<noteq> Some False
     \<and> filter (\<lambda>p. \<not> lr_listening p) (coreListeningDiagnostics status diagnostics) = []
     \<and> olist (of_opt dg_missing_listeners diagnostics) = []
     \<and> ds_tone (coreDiagnosticsSummary diagnostics dl de) = StatusOk"
proof -
  have tones: "t \<noteq> StatusError \<Longrightarrow> t \<noteq> StatusWarning \<Longrightarrow> t \<noteq> StatusNeutral \<Longrightarrow> t = StatusOk" for t
    by (cases t) simp_all
  have "ds_tone (coreDiagnosticsSummary diagnostics dl de) \<noteq> StatusNeutral"
    by (simp add: coreDiagnosticsSummary_def split: option.splits)
  then have diag: "ds_tone (coreDiagnosticsSummary diagnostics dl de) = StatusOk \<longleftrightarrow>
      ds_tone (coreDiagnosticsSummary diagnostics dl de) \<noteq> StatusError
      \<and> ds_tone (coreDiagnosticsSummary diagnostics dl de) \<noteq> StatusWarning"
    using tones by auto
  show ?thesis
    unfolding coreHealthSummary_def Let_def diag
    by (simp add: if_distrib [of he_tone] cong: if_cong) blast
qed

text \<open>
  C15.
  The green verdict on a core is given exactly when every sign is good: it is installed, running (or nothing is known of the
  service) and managed, no apply is running, failed or pending, every expected port is listened on, the diagnostics have been
  loaded without a complaint, and, once the preview of the configuration is there, it came without an error and agrees with the
  disk. While the preview is still loading the verdict does not wait for it.
\<close>

theorem healthy_verdict_is_exact:
  "he_tone (coreHealthSummary status diagnostics preview dl de pl pe) = StatusOk \<longleftrightarrow>
     healthy status diagnostics preview \<and> \<not> dl \<and> de = None
     \<and> (pl \<or> (pe = None \<and> \<not> config_broken status diagnostics preview
           \<and> list_all (\<lambda>p. is_on (pv_in_sync p)) (case preview of None \<Rightarrow> [] | Some p \<Rightarrow> [p])))"
proof (cases "ds_tone (coreDiagnosticsSummary diagnostics dl de) = StatusOk")
  case False
  then show ?thesis by (auto simp: health_ok_steps diagnostics_ok healthy_def)
next
  case True
  then obtain d where d: "diagnostics = Some d" "\<not> dl" "de = None" "is_on (dg_installed d)" "is_on (dg_config_exists d)"
    "is_on (dg_config_valid d)" "is_on (dg_disk_generated_in_sync d)"
    "dg_service_status d \<notin> {''not_installed'', ''stopped'', ''not_managed''}"
    "olist (dg_warnings d) = []" "olist (dg_missing_listeners d) = []"
    unfolding diagnostics_ok by blast
  have good: "dg_config_exists d = Some True" "dg_config_valid d = Some True" "dg_disk_generated_in_sync d = Some True"
    using d by (simp_all add: is_on_def)
  have key: "us_key (coreUserSyncState status diagnostics preview pl pe) \<notin> {SyncRunning, SyncFailedKey, NeedsCheck}
      \<longleftrightarrow> \<not> job_busy_or_failed status \<and> (pl \<or> pe \<noteq> None \<or> \<not> config_broken status diagnostics preview)"
    unfolding sync_key_bad using d(1) good by (auto simp: sync_verdict_bad_def is_on_def)
  have ports: "filter (\<lambda>p. \<not> lr_listening p) ps = [] \<longleftrightarrow> list_all lr_listening ps" for ps
    by (auto simp: filter_empty_conv list_all_iff)
  have pending: "\<not> is_on (pv_pending_apply p)" if "\<not> apply_pending status preview" "preview = Some p" for p
    using that by (simp add: apply_pending_def)
  show ?thesis
    unfolding health_ok_steps key ports healthy_def sync_not_bad
    using True d good pending by (cases preview) (auto simp: diagnosed_service_def)
qed

section \<open>The pill and the verdict\<close>

text \<open>
  The pill of the overview says that the configuration is in force as soon as the preview or the diagnostics say so; the verdict
  asks for both. With a preview that found a difference and diagnostics that are older, the card says
  in force and not in sync at once.
\<close>

lemma pill_contradicts_verdict:
  assumes "coreInstalledWithDiagnostics status (Some d)" "core_service status (Some d) = ''running''"
    and "core_managed status (Some d) = Some True" "\<not> job_busy_or_failed status" "\<not> apply_pending status (Some p)"
    and "\<not> config_broken status (Some d) (Some p)"
    and "dg_service_status d = ''running''" "dg_config_exists d = Some True" "dg_disk_generated_in_sync d = Some True"
    and "pv_in_sync p = Some False"
  shows "last (overview_pills status (Some d) (Some p)) = (zh_ch_config, zh_ch_in_force, StatusOk)
    \<and> he_headline (coreHealthSummary status (Some d) (Some p) False None False None) = zh_ch_not_same"
proof -
  have quiet: "\<not> (\<exists>j \<in> set_option (status_job status). coreApplyJobInProgress (Some (aj_status j)))"
    "\<not> (\<exists>j \<in> set_option (status_job status). aj_status j = ''failed'')"
    using assms(4) by (auto simp: job_busy_or_failed_def)
  have valid: "dg_config_valid d \<noteq> Some False" using assms(6) by (simp add: config_broken_def)
  have sync: "coreUserSyncState status (Some d) (Some p) False None =
      \<lparr>us_key = InSync, us_label = zh_ch_in_force, us_headline = zh_ch_core_in_force, us_detail = zh_ch_all_same,
       us_action = zh_ch_nothing, us_tone = StatusOk\<rparr>"
    using quiet assms(5,6,9) by (simp add: coreUserSyncState_def Let_def)
  have "\<not> is_on (pv_pending_apply p)" using assms(5) by (simp add: apply_pending_def)
  then have "sy_ok (configSyncState (Some p) False None) = Some False"
    using assms(10) by (simp add: configSyncState_def Let_def)
  then show ?thesis
    using assms valid by (simp add: overview_pills_def sync coreHealthSummary_def Let_def diagnosed_service_def health_def)
qed

section \<open>Operations\<close>

lemma page_label_nonempty [simp]: "page_label core \<noteq> []"
  by (simp add: page_label_def)

lemma withDetail_fields [simp]:
  "ar_ok (withDetail r d) = ar_ok r" "ar_message (withDetail r d) = ar_message r" "ar_tone (withDetail r d) = ar_tone r"
  by (simp_all add: withDetail_def)

lemma action_result_fields:
  assumes "fallback \<noteq> []"
  shows "ar_message (coreActionResult data fallback) \<noteq> []"
    and "ar_ok (coreActionResult data fallback) \<longleftrightarrow> action_accepted data \<or> \<not> action_has_failed data"
    and "ar_tone (coreActionResult data fallback) \<noteq> Some ToneError"
    and "ar_tone (coreActionResult data fallback) \<noteq> None \<Longrightarrow> ar_ok (coreActionResult data fallback)"
  using assms by (simp_all add: coreActionResult_def Let_def split: if_split_asm)


definition sample_action :: core_action where
  "sample_action = \<lparr>ac_status = Some ''failed'', ac_accepted = None, ac_message = None, ac_output = None,
     ac_commands_executed = None, ac_apply_job = None, ac_xray = None, ac_singbox = None, ac_applied = None,
     ac_reason = None, ac_error = Some ''validation'', ac_warnings = None, ac_post_apply_warnings = None\<rparr>"


section \<open>Following an apply\<close>

definition apply_times :: "core_event list \<Rightarrow> int list" where
  "apply_times es = List.map_filter (\<lambda>e. case e of Answered CoreApply now data \<Rightarrow> Some now | _ \<Rightarrow> None) es"

definition page_run :: "(string \<Rightarrow> string) \<Rightarrow> core_name \<Rightarrow> core_event list \<Rightarrow> core_page \<Rightarrow> core_page" where
  "page_run tr core es s = fold (\<lambda>e s. fst (page_step tr core e s)) es s"

lemma step_polling:
  assumes "\<forall>t \<in> set (apply_times [e]). now \<le> t" and "now + 30000 \<le> pg_applyPollingUntil s"
  shows "now + 30000 \<le> pg_applyPollingUntil (fst (page_step tr core e s))"
proof (cases e)
  case (Validated v)
  then show ?thesis using assms(2) by (simp add: page_step_def validate_answered_def Let_def)
next
  case (Answered op t data)
  then show ?thesis
    using assms by (auto simp: page_step_def action_answered_def apply_answered_def command_answered_def Let_def
        apply_times_def map_filter_def)
next
  case (ActionFailed op err)
  then show ?thesis using assms(2) by (simp add: page_step_def action_failed_def setActionError_def Let_def)
qed

lemma run_polling:
  "\<forall>t \<in> set (apply_times es). now \<le> t \<Longrightarrow> now + 30000 \<le> pg_applyPollingUntil s \<Longrightarrow>
     now + 30000 \<le> pg_applyPollingUntil (page_run tr core es s)"
proof (induction es arbitrary: s)
  case Nil
  then show ?case by (simp add: page_run_def)
next
  case (Cons e es)
  have "apply_times (e # es) = apply_times [e] @ apply_times es" by (simp add: apply_times_def map_filter_def)
  then have "now + 30000 \<le> pg_applyPollingUntil (fst (page_step tr core e s))" "\<forall>t \<in> set (apply_times es). now \<le> t"
    using step_polling [of e now s] Cons.prems by auto
  then show ?case using Cons.IH by (simp add: page_run_def)
qed



end
