(* ===== verification/PageWrites.thy ===== *)
theory PageWrites
  imports InboundDialog RoutingForm OutboundForms JobTracker QueryInvalidation
begin

text \<open>
  What every page does with the answer to a write, from the mutations of \<^verbatim>\<open>routes/InboundsPage.tsx\<close>,
  \<^verbatim>\<open>routes/InboundsPageForms.tsx\<close>, \<^verbatim>\<open>routes/RoutingPage.tsx\<close> and
  \<^verbatim>\<open>routes/OutboundsPage.tsx\<close>: the request, the message, the jobs that are followed from then on, and
  the queries that are asked anew. \<open>write_answered\<close> composes the endpoint's view of the answer, the report of theory
  \<open>CoreApply\<close>, the tracker of theory \<open>JobTracker\<close> and the groups of theory \<open>QueryInvalidation\<close>.
\<close>

section \<open>Texts\<close>

text \<open>The non-ASCII texts of this part of the user interface, as UTF-8 bytes.\<close>

definition zh_pw_saved_na :: string where
  "zh_pw_saved_na = [CHR 0xE5, CHR 0xB7, CHR 0xB2, CHR 0xE4, CHR 0xBF, CHR 0x9D, CHR 0xE5, CHR 0xAD, CHR 0x98, CHR 0xEF,
    CHR 0xBC, CHR 0x8C, CHR 0xE4, CHR 0xBD, CHR 0x86, CHR 0xE6, CHR 0xA0, CHR 0xB8, CHR 0xE5, CHR 0xBF,
    CHR 0x83, CHR 0xE9, CHR 0x85, CHR 0x8D, CHR 0xE7, CHR 0xBD, CHR 0xAE, CHR 0xE6, CHR 0x9C, CHR 0xAA,
    CHR 0xE7, CHR 0x94, CHR 0x9F, CHR 0xE6, CHR 0x95, CHR 0x88]"

definition zh_pw_node_state :: string where
  "zh_pw_node_state = [CHR 0xE8, CHR 0x8A, CHR 0x82, CHR 0xE7, CHR 0x82, CHR 0xB9, CHR 0xE7, CHR 0x8A, CHR 0xB6, CHR 0xE6,
    CHR 0x80, CHR 0x81, CHR 0xE5, CHR 0xB7, CHR 0xB2, CHR 0xE6, CHR 0x9B, CHR 0xB4, CHR 0xE6, CHR 0x96,
    CHR 0xB0]"

definition zh_pw_node_state_failed :: string where
  "zh_pw_node_state_failed = [CHR 0xE8, CHR 0x8A, CHR 0x82, CHR 0xE7, CHR 0x82, CHR 0xB9, CHR 0xE7, CHR 0x8A, CHR 0xB6, CHR 0xE6,
    CHR 0x80, CHR 0x81, CHR 0xE6, CHR 0x9B, CHR 0xB4, CHR 0xE6, CHR 0x96, CHR 0xB0, CHR 0xE5, CHR 0xA4,
    CHR 0xB1, CHR 0xE8, CHR 0xB4, CHR 0xA5]"

definition zh_pw_deleted_na :: string where
  "zh_pw_deleted_na = [CHR 0xE5, CHR 0xB7, CHR 0xB2, CHR 0xE5, CHR 0x88, CHR 0xA0, CHR 0xE9, CHR 0x99, CHR 0xA4, CHR 0xEF,
    CHR 0xBC, CHR 0x8C, CHR 0xE4, CHR 0xBD, CHR 0x86, CHR 0xE6, CHR 0xA0, CHR 0xB8, CHR 0xE5, CHR 0xBF,
    CHR 0x83, CHR 0xE9, CHR 0x85, CHR 0x8D, CHR 0xE7, CHR 0xBD, CHR 0xAE, CHR 0xE6, CHR 0x9C, CHR 0xAA,
    CHR 0xE7, CHR 0x94, CHR 0x9F, CHR 0xE6, CHR 0x95, CHR 0x88]"

definition zh_pw_node_deleted :: string where
  "zh_pw_node_deleted = [CHR 0xE8, CHR 0x8A, CHR 0x82, CHR 0xE7, CHR 0x82, CHR 0xB9, CHR 0xE5, CHR 0xB7, CHR 0xB2, CHR 0xE5,
    CHR 0x88, CHR 0xA0, CHR 0xE9, CHR 0x99, CHR 0xA4]"

definition zh_pw_node_delete_failed :: string where
  "zh_pw_node_delete_failed = [CHR 0xE5, CHR 0x88, CHR 0xA0, CHR 0xE9, CHR 0x99, CHR 0xA4, CHR 0xE8, CHR 0x8A, CHR 0x82, CHR 0xE7,
    CHR 0x82, CHR 0xB9, CHR 0xE5, CHR 0xA4, CHR 0xB1, CHR 0xE8, CHR 0xB4, CHR 0xA5]"

definition zh_pw_client_state :: string where
  "zh_pw_client_state = [CHR 0xE5, CHR 0xAE, CHR 0xA2, CHR 0xE6, CHR 0x88, CHR 0xB7, CHR 0xE7, CHR 0xAB, CHR 0xAF, CHR 0xE7,
    CHR 0x8A, CHR 0xB6, CHR 0xE6, CHR 0x80, CHR 0x81, CHR 0xE5, CHR 0xB7, CHR 0xB2, CHR 0xE6, CHR 0x9B,
    CHR 0xB4, CHR 0xE6, CHR 0x96, CHR 0xB0]"

definition zh_pw_client_state_failed :: string where
  "zh_pw_client_state_failed = [CHR 0xE5, CHR 0xAE, CHR 0xA2, CHR 0xE6, CHR 0x88, CHR 0xB7, CHR 0xE7, CHR 0xAB, CHR 0xAF, CHR 0xE7,
    CHR 0x8A, CHR 0xB6, CHR 0xE6, CHR 0x80, CHR 0x81, CHR 0xE6, CHR 0x9B, CHR 0xB4, CHR 0xE6, CHR 0x96,
    CHR 0xB0, CHR 0xE5, CHR 0xA4, CHR 0xB1, CHR 0xE8, CHR 0xB4, CHR 0xA5]"

definition zh_pw_client_deleted :: string where
  "zh_pw_client_deleted = [CHR 0xE5, CHR 0xAE, CHR 0xA2, CHR 0xE6, CHR 0x88, CHR 0xB7, CHR 0xE7, CHR 0xAB, CHR 0xAF, CHR 0xE5,
    CHR 0xB7, CHR 0xB2, CHR 0xE5, CHR 0x88, CHR 0xA0, CHR 0xE9, CHR 0x99, CHR 0xA4]"

definition zh_pw_client_delete_failed :: string where
  "zh_pw_client_delete_failed = [CHR 0xE5, CHR 0x88, CHR 0xA0, CHR 0xE9, CHR 0x99, CHR 0xA4, CHR 0xE5, CHR 0xAE, CHR 0xA2, CHR 0xE6,
    CHR 0x88, CHR 0xB7, CHR 0xE7, CHR 0xAB, CHR 0xAF, CHR 0xE5, CHR 0xA4, CHR 0xB1, CHR 0xE8, CHR 0xB4,
    CHR 0xA5]"

definition zh_pw_node_saved_na :: string where
  "zh_pw_node_saved_na = [CHR 0xE8, CHR 0x8A, CHR 0x82, CHR 0xE7, CHR 0x82, CHR 0xB9, CHR 0xE5, CHR 0xB7, CHR 0xB2, CHR 0xE4,
    CHR 0xBF, CHR 0x9D, CHR 0xE5, CHR 0xAD, CHR 0x98, CHR 0xEF, CHR 0xBC, CHR 0x8C, CHR 0xE4, CHR 0xBD,
    CHR 0x86, CHR 0xE6, CHR 0xA0, CHR 0xB8, CHR 0xE5, CHR 0xBF, CHR 0x83, CHR 0xE9, CHR 0x85, CHR 0x8D,
    CHR 0xE7, CHR 0xBD, CHR 0xAE, CHR 0xE6, CHR 0x9C, CHR 0xAA, CHR 0xE7, CHR 0x94, CHR 0x9F, CHR 0xE6,
    CHR 0x95, CHR 0x88]"

definition zh_pw_node_saved :: string where
  "zh_pw_node_saved = [CHR 0xE8, CHR 0x8A, CHR 0x82, CHR 0xE7, CHR 0x82, CHR 0xB9, CHR 0xE5, CHR 0xB7, CHR 0xB2, CHR 0xE4,
    CHR 0xBF, CHR 0x9D, CHR 0xE5, CHR 0xAD, CHR 0x98]"

definition zh_pw_node_save_failed :: string where
  "zh_pw_node_save_failed = [CHR 0xE4, CHR 0xBF, CHR 0x9D, CHR 0xE5, CHR 0xAD, CHR 0x98, CHR 0xE8, CHR 0x8A, CHR 0x82, CHR 0xE7,
    CHR 0x82, CHR 0xB9, CHR 0xE5, CHR 0xA4, CHR 0xB1, CHR 0xE8, CHR 0xB4, CHR 0xA5]"

definition zh_pw_client_saved_na :: string where
  "zh_pw_client_saved_na = [CHR 0xE5, CHR 0xAE, CHR 0xA2, CHR 0xE6, CHR 0x88, CHR 0xB7, CHR 0xE7, CHR 0xAB, CHR 0xAF, CHR 0xE5,
    CHR 0xB7, CHR 0xB2, CHR 0xE4, CHR 0xBF, CHR 0x9D, CHR 0xE5, CHR 0xAD, CHR 0x98, CHR 0xEF, CHR 0xBC,
    CHR 0x8C, CHR 0xE4, CHR 0xBD, CHR 0x86, CHR 0xE6, CHR 0xA0, CHR 0xB8, CHR 0xE5, CHR 0xBF, CHR 0x83,
    CHR 0xE9, CHR 0x85, CHR 0x8D, CHR 0xE7, CHR 0xBD, CHR 0xAE, CHR 0xE6, CHR 0x9C, CHR 0xAA, CHR 0xE7,
    CHR 0x94, CHR 0x9F, CHR 0xE6, CHR 0x95, CHR 0x88]"

definition zh_pw_client_saved :: string where
  "zh_pw_client_saved = [CHR 0xE5, CHR 0xAE, CHR 0xA2, CHR 0xE6, CHR 0x88, CHR 0xB7, CHR 0xE7, CHR 0xAB, CHR 0xAF, CHR 0xE5,
    CHR 0xB7, CHR 0xB2, CHR 0xE4, CHR 0xBF, CHR 0x9D, CHR 0xE5, CHR 0xAD, CHR 0x98]"

definition zh_pw_client_save_failed :: string where
  "zh_pw_client_save_failed = [CHR 0xE4, CHR 0xBF, CHR 0x9D, CHR 0xE5, CHR 0xAD, CHR 0x98, CHR 0xE5, CHR 0xAE, CHR 0xA2, CHR 0xE6,
    CHR 0x88, CHR 0xB7, CHR 0xE7, CHR 0xAB, CHR 0xAF, CHR 0xE5, CHR 0xA4, CHR 0xB1, CHR 0xE8, CHR 0xB4,
    CHR 0xA5]"

definition zh_pw_rule_saved_na :: string where
  "zh_pw_rule_saved_na = [CHR 0xE8, CHR 0xA7, CHR 0x84, CHR 0xE5, CHR 0x88, CHR 0x99, CHR 0xE5, CHR 0xB7, CHR 0xB2, CHR 0xE4,
    CHR 0xBF, CHR 0x9D, CHR 0xE5, CHR 0xAD, CHR 0x98, CHR 0xEF, CHR 0xBC, CHR 0x8C, CHR 0xE4, CHR 0xBD,
    CHR 0x86, CHR 0xE6, CHR 0xA0, CHR 0xB8, CHR 0xE5, CHR 0xBF, CHR 0x83, CHR 0xE9, CHR 0x85, CHR 0x8D,
    CHR 0xE7, CHR 0xBD, CHR 0xAE, CHR 0xE6, CHR 0x9C, CHR 0xAA, CHR 0xE7, CHR 0x94, CHR 0x9F, CHR 0xE6,
    CHR 0x95, CHR 0x88]"

definition zh_pw_rule_state :: string where
  "zh_pw_rule_state = [CHR 0xE8, CHR 0xB7, CHR 0xAF, CHR 0xE7, CHR 0x94, CHR 0xB1, CHR 0xE8, CHR 0xA7, CHR 0x84, CHR 0xE5,
    CHR 0x88, CHR 0x99, CHR 0xE7, CHR 0x8A, CHR 0xB6, CHR 0xE6, CHR 0x80, CHR 0x81, CHR 0xE5, CHR 0xB7,
    CHR 0xB2, CHR 0xE6, CHR 0x9B, CHR 0xB4, CHR 0xE6, CHR 0x96, CHR 0xB0]"

definition zh_pw_rule_state_failed :: string where
  "zh_pw_rule_state_failed = [CHR 0xE6, CHR 0x9B, CHR 0xB4, CHR 0xE6, CHR 0x96, CHR 0xB0, CHR 0xE8, CHR 0xB7, CHR 0xAF, CHR 0xE7,
    CHR 0x94, CHR 0xB1, CHR 0xE8, CHR 0xA7, CHR 0x84, CHR 0xE5, CHR 0x88, CHR 0x99, CHR 0xE5, CHR 0xA4,
    CHR 0xB1, CHR 0xE8, CHR 0xB4, CHR 0xA5]"

definition zh_pw_rule_deleted_na :: string where
  "zh_pw_rule_deleted_na = [CHR 0xE8, CHR 0xA7, CHR 0x84, CHR 0xE5, CHR 0x88, CHR 0x99, CHR 0xE5, CHR 0xB7, CHR 0xB2, CHR 0xE5,
    CHR 0x88, CHR 0xA0, CHR 0xE9, CHR 0x99, CHR 0xA4, CHR 0xEF, CHR 0xBC, CHR 0x8C, CHR 0xE4, CHR 0xBD,
    CHR 0x86, CHR 0xE6, CHR 0xA0, CHR 0xB8, CHR 0xE5, CHR 0xBF, CHR 0x83, CHR 0xE9, CHR 0x85, CHR 0x8D,
    CHR 0xE7, CHR 0xBD, CHR 0xAE, CHR 0xE6, CHR 0x9C, CHR 0xAA, CHR 0xE7, CHR 0x94, CHR 0x9F, CHR 0xE6,
    CHR 0x95, CHR 0x88]"

definition zh_pw_rule_deleted :: string where
  "zh_pw_rule_deleted = [CHR 0xE8, CHR 0xB7, CHR 0xAF, CHR 0xE7, CHR 0x94, CHR 0xB1, CHR 0xE8, CHR 0xA7, CHR 0x84, CHR 0xE5,
    CHR 0x88, CHR 0x99, CHR 0xE5, CHR 0xB7, CHR 0xB2, CHR 0xE5, CHR 0x88, CHR 0xA0, CHR 0xE9, CHR 0x99,
    CHR 0xA4]"

definition zh_pw_rule_delete_failed :: string where
  "zh_pw_rule_delete_failed = [CHR 0xE5, CHR 0x88, CHR 0xA0, CHR 0xE9, CHR 0x99, CHR 0xA4, CHR 0xE8, CHR 0xB7, CHR 0xAF, CHR 0xE7,
    CHR 0x94, CHR 0xB1, CHR 0xE8, CHR 0xA7, CHR 0x84, CHR 0xE5, CHR 0x88, CHR 0x99, CHR 0xE5, CHR 0xA4,
    CHR 0xB1, CHR 0xE8, CHR 0xB4, CHR 0xA5]"

definition zh_pw_rule_order :: string where
  "zh_pw_rule_order = [CHR 0xE8, CHR 0xB7, CHR 0xAF, CHR 0xE7, CHR 0x94, CHR 0xB1, CHR 0xE9, CHR 0xA1, CHR 0xBA, CHR 0xE5,
    CHR 0xBA, CHR 0x8F, CHR 0xE5, CHR 0xB7, CHR 0xB2, CHR 0xE4, CHR 0xBF, CHR 0x9D, CHR 0xE5, CHR 0xAD,
    CHR 0x98]"

definition zh_pw_rule_order_failed :: string where
  "zh_pw_rule_order_failed = [CHR 0xE4, CHR 0xBF, CHR 0x9D, CHR 0xE5, CHR 0xAD, CHR 0x98, CHR 0xE9, CHR 0xA1, CHR 0xBA, CHR 0xE5,
    CHR 0xBA, CHR 0x8F, CHR 0xE5, CHR 0xA4, CHR 0xB1, CHR 0xE8, CHR 0xB4, CHR 0xA5]"

definition zh_pw_rule_saved :: string where
  "zh_pw_rule_saved = [CHR 0xE8, CHR 0xB7, CHR 0xAF, CHR 0xE7, CHR 0x94, CHR 0xB1, CHR 0xE8, CHR 0xA7, CHR 0x84, CHR 0xE5,
    CHR 0x88, CHR 0x99, CHR 0xE5, CHR 0xB7, CHR 0xB2, CHR 0xE4, CHR 0xBF, CHR 0x9D, CHR 0xE5, CHR 0xAD,
    CHR 0x98]"

definition zh_pw_rule_save_failed :: string where
  "zh_pw_rule_save_failed = [CHR 0xE4, CHR 0xBF, CHR 0x9D, CHR 0xE5, CHR 0xAD, CHR 0x98, CHR 0xE8, CHR 0xB7, CHR 0xAF, CHR 0xE7,
    CHR 0x94, CHR 0xB1, CHR 0xE8, CHR 0xA7, CHR 0x84, CHR 0xE5, CHR 0x88, CHR 0x99, CHR 0xE5, CHR 0xA4,
    CHR 0xB1, CHR 0xE8, CHR 0xB4, CHR 0xA5]"

definition zh_pw_reset :: string where
  "zh_pw_reset = [CHR 0xE7, CHR 0xB4, CHR 0xAF, CHR 0xE8, CHR 0xAE, CHR 0xA1, CHR 0xE7, CHR 0x94, CHR 0xA8, CHR 0xE9,
    CHR 0x87, CHR 0x8F, CHR 0xE5, CHR 0xB7, CHR 0xB2, CHR 0xE9, CHR 0x87, CHR 0x8D, CHR 0xE7, CHR 0xBD,
    CHR 0xAE]"

definition zh_pw_reset_failed :: string where
  "zh_pw_reset_failed = [CHR 0xE9, CHR 0x87, CHR 0x8D, CHR 0xE7, CHR 0xBD, CHR 0xAE, CHR 0xE7, CHR 0xB4, CHR 0xAF, CHR 0xE8,
    CHR 0xAE, CHR 0xA1, CHR 0xE7, CHR 0x94, CHR 0xA8, CHR 0xE9, CHR 0x87, CHR 0x8F, CHR 0xE5, CHR 0xA4,
    CHR 0xB1, CHR 0xE8, CHR 0xB4, CHR 0xA5]"

lemmas texts_PageWrites =
  zh_pw_saved_na_def zh_pw_node_state_def zh_pw_node_state_failed_def zh_pw_deleted_na_def zh_pw_node_deleted_def
  zh_pw_node_delete_failed_def zh_pw_client_state_def zh_pw_client_state_failed_def zh_pw_client_deleted_def zh_pw_client_delete_failed_def
  zh_pw_node_saved_na_def zh_pw_node_saved_def zh_pw_node_save_failed_def zh_pw_client_saved_na_def zh_pw_client_saved_def
  zh_pw_client_save_failed_def zh_pw_rule_saved_na_def zh_pw_rule_state_def zh_pw_rule_state_failed_def zh_pw_rule_deleted_na_def
  zh_pw_rule_deleted_def zh_pw_rule_delete_failed_def zh_pw_rule_order_def zh_pw_rule_order_failed_def zh_pw_rule_saved_def
  zh_pw_rule_save_failed_def zh_pw_reset_def zh_pw_reset_failed_def

lemma texts_nonempty_PageWrites [simp]:
  "zh_pw_saved_na \<noteq> []" "zh_pw_node_state \<noteq> []" "zh_pw_node_state_failed \<noteq> []" "zh_pw_deleted_na \<noteq> []"
  "zh_pw_node_deleted \<noteq> []" "zh_pw_node_delete_failed \<noteq> []" "zh_pw_client_state \<noteq> []" "zh_pw_client_state_failed \<noteq> []"
  "zh_pw_client_deleted \<noteq> []" "zh_pw_client_delete_failed \<noteq> []" "zh_pw_node_saved_na \<noteq> []" "zh_pw_node_saved \<noteq> []"
  "zh_pw_node_save_failed \<noteq> []" "zh_pw_client_saved_na \<noteq> []" "zh_pw_client_saved \<noteq> []" "zh_pw_client_save_failed \<noteq> []"
  "zh_pw_rule_saved_na \<noteq> []" "zh_pw_rule_state \<noteq> []" "zh_pw_rule_state_failed \<noteq> []" "zh_pw_rule_deleted_na \<noteq> []"
  "zh_pw_rule_deleted \<noteq> []" "zh_pw_rule_delete_failed \<noteq> []" "zh_pw_rule_order \<noteq> []" "zh_pw_rule_order_failed \<noteq> []"
  "zh_pw_rule_saved \<noteq> []" "zh_pw_rule_save_failed \<noteq> []" "zh_pw_reset \<noteq> []" "zh_pw_reset_failed \<noteq> []"
  by (simp_all add: texts_PageWrites)

section \<open>The writes\<close>

datatype inbound_write =
    InboundToggled inbound
  | InboundDeleted int
  | ClientToggled int client
  | ClientDeleted int int

datatype form_write = InboundSaved | ClientSaved

datatype rule_write =
    RuleToggled routing_rule
  | RuleRemoved int
  | RulesReordered "int list"
  | RuleSaved int routing_rule \<comment> \<open>the id of the rule that is edited, 0 for a new one, and the draft\<close>

datatype panel_write =
    InboundWrite inbound_write
  | TrafficReset int int
  | FormWrite form_write
  | RuleWrite rule_write
  | OutboundWrite page_write

definition inbound_request :: "inbound_write \<Rightarrow> inbounds_op" where
  "inbound_request m = (case m of
       InboundToggled item \<Rightarrow> ToggleInbound (ib_id item) (\<not> is_on (ib_enabled item))
     | InboundDeleted n \<Rightarrow> DeleteInbound n
     | ClientToggled inboundId c \<Rightarrow> ToggleClient inboundId (cl_id c) (\<not> is_on (cl_enabled c))
     | ClientDeleted inboundId n \<Rightarrow> DeleteClient inboundId n)"

definition rule_request :: "rule_write \<Rightarrow> routing_op" where
  "rule_request m = (case m of
       RuleToggled item \<Rightarrow> UpdateRoutingRule (rr_id item)
         (JObj (routingPayload (item\<lparr>rr_enabled := Some (\<not> is_on (rr_enabled item))\<rparr>)))
     | RuleRemoved n \<Rightarrow> DeleteRoutingRule n
     | RulesReordered ids \<Rightarrow> ReorderRoutingRules ids
     | RuleSaved n draft \<Rightarrow> if n \<noteq> 0 then UpdateRoutingRule n (JObj (routingPayload draft))
         else CreateRoutingRule (JObj (routingPayload draft)))"

section \<open>Texts of a write\<close>

text \<open>The prefix when the cores did not take the change, the message when all is well, and the one when the request fails.\<close>

definition inbound_texts :: "inbound_write \<Rightarrow> string \<times> string \<times> string" where
  "inbound_texts m = (case m of
       InboundToggled _ \<Rightarrow> (zh_pw_saved_na, zh_pw_node_state, zh_pw_node_state_failed)
     | InboundDeleted _ \<Rightarrow> (zh_pw_deleted_na, zh_pw_node_deleted, zh_pw_node_delete_failed)
     | ClientToggled _ _ \<Rightarrow> (zh_pw_saved_na, zh_pw_client_state, zh_pw_client_state_failed)
     | ClientDeleted _ _ \<Rightarrow> (zh_pw_deleted_na, zh_pw_client_deleted, zh_pw_client_delete_failed))"

definition form_texts :: "form_write \<Rightarrow> string \<times> string \<times> string" where
  "form_texts m = (case m of
       InboundSaved \<Rightarrow> (zh_pw_node_saved_na, zh_pw_node_saved, zh_pw_node_save_failed)
     | ClientSaved \<Rightarrow> (zh_pw_client_saved_na, zh_pw_client_saved, zh_pw_client_save_failed))"

definition rule_texts :: "rule_write \<Rightarrow> string \<times> string \<times> string" where
  "rule_texts m = (case m of
       RuleToggled _ \<Rightarrow> (zh_pw_rule_saved_na, zh_pw_rule_state, zh_pw_rule_state_failed)
     | RuleRemoved _ \<Rightarrow> (zh_pw_rule_deleted_na, zh_pw_rule_deleted, zh_pw_rule_delete_failed)
     | RulesReordered _ \<Rightarrow> (zh_pw_rule_saved_na, zh_pw_rule_order, zh_pw_rule_order_failed)
     | RuleSaved _ _ \<Rightarrow> (zh_pw_rule_saved_na, zh_pw_rule_saved, zh_pw_rule_save_failed))"

definition reset_texts :: "string \<times> string \<times> string" where
  "reset_texts = ([], zh_pw_reset, zh_pw_reset_failed)"

definition panel_texts :: "panel_write \<Rightarrow> string \<times> string \<times> string" where
  "panel_texts m = (case m of
       InboundWrite i \<Rightarrow> inbound_texts i
     | TrafficReset _ _ \<Rightarrow> reset_texts
     | FormWrite f \<Rightarrow> form_texts f
     | RuleWrite r \<Rightarrow> rule_texts r
     | OutboundWrite ob \<Rightarrow> write_texts ob)"

section \<open>The handlers\<close>

text \<open>What the page sees of an answer: the endpoint of a rule unwraps it.\<close>

definition seen_response :: "panel_write \<Rightarrow> jsval \<Rightarrow> jsval" where
  "seen_response m response = (case m of
       RuleWrite (RuleToggled _) \<Rightarrow> unwrapRoutingRule response
     | RuleWrite (RuleSaved _ _) \<Rightarrow> unwrapRoutingRule response
     | _ \<Rightarrow> response)"

definition add_toast :: "toast \<Rightarrow> tracker \<Rightarrow> tracker" where
  "add_toast t s = s\<lparr>tk_toasts := tk_toasts s @ [t]\<rparr>"

definition list_write_done :: "location \<Rightarrow> (string \<Rightarrow> string) \<Rightarrow> string \<Rightarrow> string \<Rightarrow> jsval \<Rightarrow> tracker \<Rightarrow> tracker" where
  "list_write_done w tr not_applied finished response s =
     (case showCoreApplyWarning w tr (read_core_write response) not_applied s of
        (True, s1) \<Rightarrow> s1
      | (False, s1) \<Rightarrow> add_toast (plain_toast (tr finished) ToneSuccess) s1)"

definition form_write_done :: "(string \<Rightarrow> string) \<Rightarrow> string \<Rightarrow> string \<Rightarrow> jsval \<Rightarrow> tracker \<Rightarrow> tracker" where
  "form_write_done tr not_applied finished response s =
     (let data = read_core_write response; warning = coreApplyWarning data not_applied
      in add_toast (plain_toast (tr (str_or warning finished)) (if warning \<noteq> [] then coreApplyWarningTone data else ToneSuccess))
           (trackCoreApplyJobsFromResponse data s))"

definition panel_refresh :: "panel_write \<Rightarrow> query_call list" where
  "panel_refresh m = (case m of OutboundWrite _ \<Rightarrow> refreshOutboundDependencies | _ \<Rightarrow> refreshTopologyDependencies)"

definition write_answered ::
  "location \<Rightarrow> (string \<Rightarrow> string) \<Rightarrow> panel_write \<Rightarrow> failure + jsval \<Rightarrow> tracker \<Rightarrow> tracker \<times> query_call list" where
  "write_answered w tr m answer s =
     (case panel_texts m of (not_applied, finished, failed) \<Rightarrow>
       (case answer of
          Inl e \<Rightarrow> (add_toast (plain_toast (getAPIErrorMessage e (tr failed)) ToneError) s, [])
        | Inr response \<Rightarrow>
            (let seen = seen_response m response
             in ((case m of
                    TrafficReset _ _ \<Rightarrow> add_toast (plain_toast (tr finished) ToneSuccess) s
                  | FormWrite _ \<Rightarrow> form_write_done tr not_applied finished seen s
                  | _ \<Rightarrow> list_write_done w tr not_applied finished seen s), panel_refresh m))))"

section \<open>One message, the jobs followed, the lists asked anew\<close>

definition reported :: "panel_write \<Rightarrow> jsval \<Rightarrow> write_outcome" where \<comment> \<open>the outcome the page learns of\<close>
  "reported m response = (case m of
       TrafficReset _ _ \<Rightarrow> Clean
     | _ \<Rightarrow> (case read_core_write (seen_response m response) of None \<Rightarrow> Clean | Some data \<Rightarrow> classify_write data))"

definition running_jobs :: "jsval \<Rightarrow> apply_job set" where \<comment> \<open>that an answer asks to follow\<close>
  "running_jobs response = (case read_core_write response of
       None \<Rightarrow> {}
     | Some data \<Rightarrow> if cw_config_changed data = Some True
         then {j. \<exists>k. (k, Some j) \<in> set (cw_auto_apply data) \<and> aj_id j \<noteq> [] \<and> coreApplyJobActive (Some j)} else {})"

lemma panel_texts_nonempty: "panel_texts m = (a, b, c) \<Longrightarrow> b \<noteq> [] \<and> c \<noteq> []"
  by (cases m) (auto simp: panel_texts_def inbound_texts_def form_texts_def rule_texts_def reset_texts_def write_texts_def
      split: inbound_write.splits form_write.splits rule_write.splits page_write.splits)

lemma list_write_cases:
  "list_write_done w tr na fin response s =
     (case read_core_write response of
        None \<Rightarrow> add_toast (plain_toast (tr fin) ToneSuccess) s
      | Some data \<Rightarrow>
          if is_silent (classify_write data) then add_toast (plain_toast (tr fin) ToneSuccess) s
          else add_toast \<lparr>to_title = tr (report na data (classify_write data)),
                 to_tone = (if is_failure (classify_write data) then ToneError else ToneInfo),
                 to_action = autoApplyFailureAction w (Some data)\<rparr> (trackCoreApplyJobsFromResponse (Some data) s))"
proof -
  have toasts: "tk_toasts (trackCoreApplyJobsFromResponse r s) = tk_toasts s" for r
    by (simp add: trackCoreApplyJobsFromResponse_def scheduleCoreApplyJobPoll_def Let_def split: option.splits)
  have none: "coreApplyWarning None na = []" by (simp add: coreApplyWarning_def)
  show ?thesis
    by (cases "read_core_write response")
      (simp_all add: list_write_done_def showCoreApplyWarning_def write_toast_def warning_report report_silent tone_report
        none Let_def add_toast_def toasts)
qed

lemma form_write_cases:
  "form_write_done tr na fin response s =
     (case read_core_write response of
        None \<Rightarrow> add_toast (plain_toast (tr fin) ToneSuccess) s
      | Some data \<Rightarrow> add_toast
          (if is_silent (classify_write data) then plain_toast (tr fin) ToneSuccess
           else plain_toast (tr (report na data (classify_write data))) (if is_failure (classify_write data) then ToneError else ToneInfo))
          (trackCoreApplyJobsFromResponse (Some data) s))"
proof -
  have none: "coreApplyWarning None na = []" by (simp add: coreApplyWarning_def)
  have idle: "trackCoreApplyJobsFromResponse None s = s" by (simp add: trackCoreApplyJobsFromResponse_def)
  show ?thesis
    by (cases "read_core_write response")
      (simp_all add: form_write_done_def warning_report report_silent tone_report none idle Let_def)
qed

text \<open>An answer with a running job is never silent, so that its jobs are always looked at.\<close>

lemma running_not_silent:
  assumes "read_core_write response = Some data" and "running_jobs response \<noteq> {}"
  shows "\<not> is_silent (classify_write data)"
proof -
  obtain k j where j: "cw_config_changed data = Some True" "(k, Some j) \<in> set (cw_auto_apply data)" "coreApplyJobActive (Some j)"
    using assms by (auto simp: running_jobs_def split: if_splits)
  then have "autoApplyQueuedOrRunning data" by (auto simp: autoApplyQueuedOrRunning_def list_ex_iff)
  then have "classify_write data = (if autoApplyFailureDetail data \<noteq> [] then SyncFailed (autoApplyFailureDetail data) else Syncing)"
    using j(1) by (simp add: classify_write_def)
  then show ?thesis by (simp add: is_silent_def)
qed

lemma tracked_jobs:
  assumes "read_core_write response = Some data"
  shows "set (List.map_filter (\<lambda>(k, job). trackable job) (cw_auto_apply data)) =
     {j. \<exists>k. (k, Some j) \<in> set (cw_auto_apply data) \<and> aj_id j \<noteq> [] \<and> coreApplyJobActive (Some j)}"
  by (force simp: map_filter_def trackable_def split: option.splits if_splits)

lemma put_jobs_keys: "fst ` set (fold put_job js m) = aj_id ` set js \<union> fst ` set m"
proof (induction js arbitrary: m)
  case Nil
  then show ?case by simp
next
  case (Cons j js)
  have "fst ` set (put_job j m) = insert (aj_id j) (fst ` set m)"
    using js_map.keys_put [of "aj_id j" j m] by (auto simp: put_job_def simp flip: set_map)
  then show ?case using Cons.IH [of "put_job j m"] by auto
qed

lemma tracking:
  assumes "tk_fetcher s"
  shows "fst ` set (tk_jobs (trackCoreApplyJobsFromResponse (read_core_write response) s)) =
      fst ` set (tk_jobs s) \<union> aj_id ` running_jobs response"
    and "running_jobs response \<noteq> {} \<Longrightarrow>
      (\<exists>token. tk_timer (trackCoreApplyJobsFromResponse (read_core_write response) s) = Some token
         \<and> token = tk_token (trackCoreApplyJobsFromResponse (read_core_write response) s))"
    and "running_jobs response = {} \<Longrightarrow> trackCoreApplyJobsFromResponse (read_core_write response) s = s"
proof -
  define js where "js = (case read_core_write response of None \<Rightarrow> [] | Some data \<Rightarrow>
     if cw_config_changed data = Some True then List.map_filter (\<lambda>(k, job). trackable job) (cw_auto_apply data) else [])"
  have js: "set js = running_jobs response"
  proof (cases "read_core_write response")
    case None
    then show ?thesis by (simp add: running_jobs_def js_def)
  next
    case (Some data)
    then show ?thesis
      by (cases "cw_config_changed data = Some True") (simp_all add: running_jobs_def js_def tracked_jobs [OF Some])
  qed
  have step: "trackCoreApplyJobsFromResponse (read_core_write response) s =
      (if js = [] then s else scheduleCoreApplyJobPoll (s\<lparr>tk_jobs := fold put_job js (tk_jobs s)\<rparr>))"
    using assms by (cases "read_core_write response") (simp_all add: js_def trackCoreApplyJobsFromResponse_def Let_def)
  have jobs: "tk_jobs (scheduleCoreApplyJobPoll t) = tk_jobs t" for t by (simp add: scheduleCoreApplyJobPoll_def)
  have keys: "fst ` set (fold put_job js (tk_jobs s)) = aj_id ` running_jobs response \<union> fst ` set (tk_jobs s)"
    by (simp only: put_jobs_keys js)
  show "fst ` set (tk_jobs (trackCoreApplyJobsFromResponse (read_core_write response) s)) =
      fst ` set (tk_jobs s) \<union> aj_id ` running_jobs response"
    unfolding step using keys js by (cases "js = []") (auto simp: jobs)
  show "running_jobs response = {} \<Longrightarrow> trackCoreApplyJobsFromResponse (read_core_write response) s = s"
    using js step by simp
  assume ne: "running_jobs response \<noteq> {}"
  then have "fst ` set (fold put_job js (tk_jobs s)) \<noteq> {}" "js \<noteq> []" unfolding keys using js by auto
  then have "fold put_job js (tk_jobs s) \<noteq> []" "js \<noteq> []" by auto
  then show "\<exists>token. tk_timer (trackCoreApplyJobsFromResponse (read_core_write response) s) = Some token
         \<and> token = tk_token (trackCoreApplyJobsFromResponse (read_core_write response) s)"
    unfolding step using assms by (simp add: scheduleCoreApplyJobPoll_def)
qed

end
