(* ===== verification/Patterns.thy ===== *)
theory Patterns
  imports Prelude
begin

text \<open>
  The regular expressions and replacements of \<^verbatim>\<open>lib/i18n.tsx\<close>. An anchored pattern is a list of
  \<open>pitem\<close>s: a literal, a group \<^verbatim>\<open>(.+)\<close>, a group \<^verbatim>\<open>(\d+)\<close>, a group of
  alternatives. \<open>match_items\<close> searches the way the engine does, the longest run first, and backtracks; \<open>fits\<close> says
  which groups a pattern allows at all. A pattern starts and ends on whole characters, so that the search over bytes and the
  search over UTF-16 units find the same groups.
\<close>

section \<open>Anchored patterns\<close>

datatype pitem = Lit string | Dots | Digits | Alts "string list"

definition line_ends :: "string list" where \<comment> \<open>what \<^verbatim>\<open>.\<close> does not match\<close>
  "line_ends = [[CHR 0x0A], [CHR 0x0D], [CHR 0xE2, CHR 0x80, CHR 0xA8], [CHR 0xE2, CHR 0x80, CHR 0xA9]]"

primrec dot_run :: "string \<Rightarrow> nat" where
  "dot_run [] = 0"
| "dot_run (c # s) = (if head_ws line_ends (c # s) = None then Suc (dot_run s) else 0)"

primrec longest :: "(string \<Rightarrow> string list option) \<Rightarrow> string \<Rightarrow> nat \<Rightarrow> string list option" where
  "longest k s 0 = None"
| "longest k s (Suc n) = (case k (drop (Suc n) s) of
     Some gs \<Rightarrow> Some (take (Suc n) s # gs) | None \<Rightarrow> longest k s n)"

primrec match_items :: "pitem list \<Rightarrow> string \<Rightarrow> string list option" where
  "match_items [] s = (if s = [] then Some [] else None)"
| "match_items (p # ps) s = (case p of
     Lit w \<Rightarrow> if prefix w s then match_items ps (drop (length w) s) else None
   | Dots \<Rightarrow> longest (match_items ps) s (dot_run s)
   | Digits \<Rightarrow> longest (match_items ps) s (length (takeWhile is_digit s))
   | Alts ws \<Rightarrow> (case find (\<lambda>w. prefix w s \<and> match_items ps (drop (length w) s) \<noteq> None) ws of
       None \<Rightarrow> None | Some w \<Rightarrow> map_option (Cons w) (match_items ps (drop (length w) s))))"

primrec fits :: "pitem list \<Rightarrow> string list \<Rightarrow> string \<Rightarrow> bool" where
  "fits [] gs s \<longleftrightarrow> gs = [] \<and> s = []"
| "fits (p # ps) gs s \<longleftrightarrow> (case p of
     Lit w \<Rightarrow> (\<exists>t. s = w @ t \<and> fits ps gs t)
   | Dots \<Rightarrow> (\<exists>g t hs. g \<noteq> [] \<and> s = g @ t \<and> gs = g # hs \<and> fits ps hs t
                \<and> (\<forall>i < length g. head_ws line_ends (drop i s) = None))
   | Digits \<Rightarrow> (\<exists>g t hs. g \<noteq> [] \<and> s = g @ t \<and> gs = g # hs \<and> fits ps hs t \<and> (\<forall>c \<in> set g. is_digit c))
   | Alts ws \<Rightarrow> (\<exists>g t hs. g \<in> set ws \<and> s = g @ t \<and> gs = g # hs \<and> fits ps hs t))"

lemma longest_Some:
  "longest k s n = Some gs \<Longrightarrow> \<exists>m hs. 0 < m \<and> m \<le> n \<and> gs = take m s # hs \<and> k (drop m s) = Some hs"
proof (induction n)
  case (Suc n)
  show ?case
  proof (cases "k (drop (Suc n) s)")
    case None
    with Suc.prems have "longest k s n = Some gs" by simp
    from Suc.IH [OF this] obtain m hs where "0 < m" "m \<le> n" "gs = take m s # hs" "k (drop m s) = Some hs" by blast
    then show ?thesis by (intro exI [of _ m] exI [of _ hs]) simp
  next
    case (Some hs)
    with Suc.prems show ?thesis by (intro exI [of _ "Suc n"] exI [of _ hs]) simp
  qed
qed simp

lemma longest_found:
  "0 < m \<Longrightarrow> m \<le> n \<Longrightarrow> k (drop m s) \<noteq> None \<Longrightarrow> longest k s n \<noteq> None"
proof (induction n)
  case (Suc n)
  then show ?case by (cases "m = Suc n") (auto split: option.splits)
qed simp

lemma longest_maximal:
  "longest k s n = Some gs \<Longrightarrow> k (drop m s) \<noteq> None \<Longrightarrow> 0 < m \<Longrightarrow> m \<le> n \<Longrightarrow> n \<le> length s \<Longrightarrow> m \<le> length (hd gs)"
proof (induction n)
  case (Suc n)
  show ?case
  proof (cases "k (drop (Suc n) s)")
    case None
    then have "m \<noteq> Suc n" using Suc.prems(2) by auto
    with Suc None show ?thesis by simp
  next
    case (Some hs)
    then have "gs = take (Suc n) s # hs" using Suc.prems(1) by simp
    then show ?thesis using Suc.prems(4,5) by simp
  qed
qed simp

lemma dot_run_le: "dot_run s \<le> length s"
  by (induction s) auto

lemma dot_run_iff: "m \<le> dot_run s \<longleftrightarrow> m \<le> length s \<and> (\<forall>i < m. head_ws line_ends (drop i s) = None)"
proof (induction s arbitrary: m)
  case (Cons c s)
  show ?case
  proof (cases m)
    case (Suc n)
    then show ?thesis using Cons.IH [of n] by (auto simp: All_less_Suc2)
  qed simp
qed (simp add: head_ws_def line_ends_def)

lemma digit_run_iff: "m \<le> length (takeWhile is_digit s) \<longleftrightarrow> m \<le> length s \<and> (\<forall>c \<in> set (take m s). is_digit c)"
proof (induction s arbitrary: m)
  case (Cons c s)
  then show ?case by (cases m) auto
qed simp

lemma longest_pieces:
  assumes "\<And>m. m \<le> n \<longleftrightarrow> m \<le> length s \<and> P (take m s)"
  shows "longest k s n \<noteq> None \<longleftrightarrow> (\<exists>g t. g \<noteq> [] \<and> s = g @ t \<and> P g \<and> k t \<noteq> None)"
proof
  assume "longest k s n \<noteq> None"
  then obtain gs where "longest k s n = Some gs" by blast
  from longest_Some [OF this] obtain m hs where m: "0 < m" "m \<le> n" "k (drop m s) = Some hs" by blast
  have "m \<le> length s" "P (take m s)" using assms m(2) by blast+
  then show "\<exists>g t. g \<noteq> [] \<and> s = g @ t \<and> P g \<and> k t \<noteq> None"
    using m by (intro exI [of _ "take m s"] exI [of _ "drop m s"]) auto
next
  assume "\<exists>g t. g \<noteq> [] \<and> s = g @ t \<and> P g \<and> k t \<noteq> None"
  then obtain g t where g: "g \<noteq> []" "s = g @ t" "P g" "k t \<noteq> None" by blast
  have "length g \<le> n" using assms [of "length g"] g by simp
  then show "longest k s n \<noteq> None" using longest_found [of "length g" n k s] g by simp
qed

lemma match_items_sound: "match_items ps s = Some gs \<Longrightarrow> fits ps gs s"
proof (induction ps arbitrary: s gs)
  case Nil
  then show ?case by (simp split: if_splits)
next
  case (Cons p ps)
  show ?case
  proof (cases p)
    case (Lit w)
    with Cons.prems have w: "prefix w s" "match_items ps (drop (length w) s) = Some gs" by (simp_all split: if_splits)
    then have "fits ps gs (drop (length w) s)" using Cons.IH by blast
    then show ?thesis using w(1) Lit by (auto simp: prefix_def)
  next
    case Dots
    with Cons.prems have l: "longest (match_items ps) s (dot_run s) = Some gs" by simp
    obtain m hs where m: "0 < m" "m \<le> dot_run s" "gs = take m s # hs" "match_items ps (drop m s) = Some hs"
      using longest_Some [OF l] by blast
    have "m \<le> length s \<and> (\<forall>i < m. head_ws line_ends (drop i s) = None)" using m(2) dot_run_iff by blast
    then show ?thesis
      using m Dots Cons.IH [OF m(4)]
      by (simp, intro exI [of _ "take m s"] conjI exI [of _ "drop m s"]) auto
  next
    case Digits
    with Cons.prems have l: "longest (match_items ps) s (length (takeWhile is_digit s)) = Some gs" by simp
    obtain m hs where m: "0 < m" "m \<le> length (takeWhile is_digit s)" "gs = take m s # hs"
      "match_items ps (drop m s) = Some hs" using longest_Some [OF l] by blast
    have "m \<le> length s \<and> (\<forall>c \<in> set (take m s). is_digit c)" using m(2) digit_run_iff by blast
    then show ?thesis
      using m Digits Cons.IH [OF m(4)]
      by (simp, intro exI [of _ "take m s"] conjI exI [of _ "drop m s"]) auto
  next
    case (Alts ws)
    with Cons.prems obtain w hs where w: "w \<in> set ws" "prefix w s" "match_items ps (drop (length w) s) = Some hs" "gs = w # hs"
      by (auto split: option.splits dest!: find_Some_set)
    then show ?thesis using Alts Cons.IH [OF w(3)] by (auto simp: prefix_def)
  qed
qed

lemma fits_match_items: "fits ps gs s \<Longrightarrow> match_items ps s \<noteq> None"
proof (induction ps arbitrary: s gs)
  case (Cons p ps)
  show ?case
  proof (cases p)
    case (Lit w)
    with Cons.prems obtain t where "s = w @ t" "fits ps gs t" by auto
    then show ?thesis using Lit Cons.IH by simp
  next
    case Dots
    with Cons.prems obtain g t hs where g: "g \<noteq> []" "s = g @ t" "fits ps hs t"
      "\<forall>i < length g. head_ws line_ends (drop i s) = None" by auto
    have "length g \<le> dot_run s" using g dot_run_iff by simp
    then show ?thesis using Dots g Cons.IH longest_found [of "length g" "dot_run s" "match_items ps" s] by simp
  next
    case Digits
    with Cons.prems obtain g t hs where g: "g \<noteq> []" "s = g @ t" "fits ps hs t" "\<forall>c \<in> set g. is_digit c" by auto
    have "length g \<le> length (takeWhile is_digit s)" using g digit_run_iff by simp
    then show ?thesis
      using Digits g Cons.IH longest_found [of "length g" "length (takeWhile is_digit s)" "match_items ps" s] by simp
  next
    case (Alts ws)
    with Cons.prems obtain g t hs where g: "g \<in> set ws" "s = g @ t" "fits ps hs t" by auto
    then have "match_items ps (drop (length g) s) \<noteq> None" "prefix g s" using Cons.IH by simp_all
    then have "find (\<lambda>w. prefix w s \<and> match_items ps (drop (length w) s) \<noteq> None) ws \<noteq> None"
      using g(1) by (auto simp: find_None_iff)
    then obtain w where "find (\<lambda>w. prefix w s \<and> match_items ps (drop (length w) s) \<noteq> None) ws = Some w" by blast
    moreover from this have "match_items ps (drop (length w) s) \<noteq> None" by (auto dest: find_Some_set)
    ultimately show ?thesis using Alts by simp
  qed
qed simp

lemma match_items_iff: "match_items ps s \<noteq> None \<longleftrightarrow> (\<exists>gs. fits ps gs s)"
  using match_items_sound fits_match_items by blast

definition lit_length :: "pitem list \<Rightarrow> nat" where
  "lit_length ps = sum_list (map (\<lambda>p. case p of Lit w \<Rightarrow> length w | _ \<Rightarrow> 0) ps)"

lemma fits_length: "fits ps gs s \<Longrightarrow> length s = lit_length ps + sum_list (map length gs)"
proof (induction ps arbitrary: s gs)
  case (Cons p ps)
  then show ?case by (cases p) (auto simp: lit_length_def)
qed (simp add: lit_length_def)

lemma group_shorter:
  assumes "match_items ps s = Some gs" and "0 < lit_length ps" and "g \<in> set gs"
  shows "length g < length s"
proof -
  have "length g \<le> sum_list (map length gs)" using assms(3) by (simp add: member_le_sum_list)
  then show ?thesis using fits_length [OF match_items_sound [OF assms(1)]] assms(2) by linarith
qed

end
