(* ===== verification/Translation.thy ===== *)
theory Translation
  imports TranslationTable
begin

text \<open>
  The translation of the interface (\<^verbatim>\<open>lib/i18n.tsx\<close>): \<open>regex_replace\<close> is
  \<^verbatim>\<open>replace\<close> with a global pattern, \<open>translateText\<close> and
  \<open>translateDynamicText\<close> call each other as in the source, on groups that are shorter than the text they are cut from.
  A text is looked up among the dictionary's own keys; the members that every JavaScript object inherits are left out.
  Case mapping is ASCII, as everywhere in this development.
\<close>

section \<open>Texts\<close>

text \<open>The non-ASCII texts of this part of the user interface, as UTF-8 bytes.\<close>

definition zh_tr_colon :: string where
  "zh_tr_colon = [CHR 0xEF, CHR 0xBC, CHR 0x9A]"

definition zh_tr_question :: string where
  "zh_tr_question = [CHR 0xEF, CHR 0xBC, CHR 0x9F]"

definition zh_tr_stop :: string where
  "zh_tr_stop = [CHR 0xE3, CHR 0x80, CHR 0x82]"

lemmas texts_Translation =
  zh_tr_colon_def zh_tr_question_def zh_tr_stop_def

lemma texts_nonempty_Translation [simp]:
  "zh_tr_colon \<noteq> []" "zh_tr_question \<noteq> []" "zh_tr_stop \<noteq> []"
  by (simp_all add: texts_Translation)

section \<open>Global replacement\<close>

text \<open>The argument finds a match at the front of its string: what to put there, and how many bytes it takes.\<close>

fun regex_replace :: "(string \<Rightarrow> (string \<times> nat) option) \<Rightarrow> string \<Rightarrow> string" where
  "regex_replace f [] = []"
| "regex_replace f (c # s) = (case f (c # s) of
     Some (out, Suc n) \<Rightarrow> out @ regex_replace f (drop n s)
   | _ \<Rightarrow> c # regex_replace f s)"

definition literal_at :: "string \<Rightarrow> string \<Rightarrow> string \<Rightarrow> (string \<times> nat) option" where
  "literal_at p r s = (if prefix p s then Some (r, length p) else None)"

definition ws_run_at :: "string \<Rightarrow> string \<Rightarrow> (string \<times> nat) option" where \<comment> \<open>\<^verbatim>\<open>/\s+/\<close>\<close>
  "ws_run_at r s = (case head_ws js_ws s of None \<Rightarrow> None | Some w \<Rightarrow> Some (r, length s - length (strip_ws js_ws s)))"

definition compact_marks :: "string list" where
  "compact_marks = [zh_tr_colon, ''?'', zh_tr_question, zh_tr_stop]"

definition closing_marks :: "string list" where
  "closing_marks = '':'' # compact_marks"

definition mark_at :: "string \<Rightarrow> (string \<times> nat) option" where
  "mark_at s = map_option (\<lambda>m. ([], length m)) (head_ws compact_marks s)"

definition ws_before_mark_at :: "string \<Rightarrow> (string \<times> nat) option" where
  "ws_before_mark_at s = (case head_ws js_ws s of None \<Rightarrow> None | Some w \<Rightarrow>
     (let rest = strip_ws js_ws s in
      map_option (\<lambda>m. (m, length s - length rest + length m)) (head_ws closing_marks rest)))"

definition compactText :: "string \<Rightarrow> string" where
  "compactText value = regex_replace mark_at (regex_replace (ws_run_at []) value)"

section \<open>The dictionary and the patterns\<close>

definition look_up :: "string \<Rightarrow> string" where \<comment> \<open>a missing entry counts as empty\<close>
  "look_up k = ostr (map_of zhToEn k)"

definition exact_text :: "string \<Rightarrow> string" where
  "exact_text value = str_or (str_or (look_up value) (look_up (trim value))) (look_up (compactText value))"

definition chinese_at :: "string \<Rightarrow> bool" where \<comment> \<open>U+4E00 to U+9FFF are \<open>E4 B8 80\<close> to \<open>E9 BF BF\<close>\<close>
  "chinese_at s = (case s of [] \<Rightarrow> False | c # t \<Rightarrow> let n = of_char c :: nat in
     0xE5 \<le> n \<and> n \<le> 0xE9 \<or> n = 0xE4 \<and> (case t of [] \<Rightarrow> False | d # u \<Rightarrow> 0xB8 \<le> (of_char d :: nat)))"

primrec has_chinese :: "string \<Rightarrow> bool" where
  "has_chinese [] = False"
| "has_chinese (c # s) = (chinese_at (c # s) \<or> has_chinese s)"

datatype part = Said string | Again bool string

definition part_of :: "string list \<Rightarrow> piece \<Rightarrow> part" where
  "part_of gs p = (case p of Put s \<Rightarrow> Said s | Group n \<Rightarrow> Said (gs ! n) | Translated n \<Rightarrow> Again False (gs ! n)
     | Lowered n \<Rightarrow> Again True (gs ! n) | Chosen n k a b \<Rightarrow> Said (if gs ! n = k then a else b))"

primrec first_match :: "rule list \<Rightarrow> string \<Rightarrow> part list option" where
  "first_match [] t = None"
| "first_match (r # rs) t = (case match_items (ru_items r) t of
     None \<Rightarrow> first_match rs t
   | Some gs \<Rightarrow> if ru_chinese r \<longrightarrow> has_chinese (gs ! 0) then Some (map (part_of gs) (ru_text r)) else first_match rs t)"

primrec group_count :: "pitem list \<Rightarrow> nat" where
  "group_count [] = 0"
| "group_count (p # ps) = (case p of Lit w \<Rightarrow> 0 | _ \<Rightarrow> 1) + group_count ps"

primrec piece_ok :: "nat \<Rightarrow> piece \<Rightarrow> bool" where
  "piece_ok k (Put s) = True"
| "piece_ok k (Group n) = (n < k)"
| "piece_ok k (Translated n) = (n < k)"
| "piece_ok k (Lowered n) = (n < k)"
| "piece_ok k (Chosen n w a b) = (n < k)"

definition beyond_ascii :: "char \<Rightarrow> bool" where
  "beyond_ascii c = (128 \<le> (of_char c :: nat))"

definition rule_ok :: "rule \<Rightarrow> bool" where \<comment> \<open>a Chinese literal, and no group that the pattern lacks\<close>
  "rule_ok r = (list_ex (\<lambda>p. case p of Lit w \<Rightarrow> list_ex beyond_ascii w | _ \<Rightarrow> False) (ru_items r)
     \<and> list_all (piece_ok (group_count (ru_items r))) (ru_text r))"

lemma rules_ok: "list_all rule_ok dynamic_rules"
  by (simp add: dynamic_rules_defs rule_ok_def beyond_ascii_def)

lemma fits_groups: "fits ps gs s \<Longrightarrow> length gs = group_count ps"
proof (induction ps arbitrary: gs s)
  case (Cons p ps)
  then show ?case by (cases p) auto
qed simp

lemma literal_positive:
  "list_ex (\<lambda>p. case p of Lit w \<Rightarrow> list_ex beyond_ascii w | _ \<Rightarrow> False) ps \<Longrightarrow> 0 < lit_length ps"
proof (induction ps)
  case (Cons p ps)
  then show ?case by (cases p) (auto simp: lit_length_def)
qed simp

lemma again_group:
  assumes "part_of gs p = Again low g" and "piece_ok (length gs) p"
  shows "g \<in> set gs"
  using assms by (cases p) (auto simp: part_of_def)

lemma first_match_shorter:
  "list_all rule_ok rs \<Longrightarrow> first_match rs t = Some ps \<Longrightarrow> Again low g \<in> set ps \<Longrightarrow> length g < length t"
proof (induction rs)
  case (Cons r rs)
  show ?case
  proof (cases "match_items (ru_items r) t")
    case None
    then show ?thesis using Cons by simp
  next
    case (Some gs)
    show ?thesis
    proof (cases "ru_chinese r \<longrightarrow> has_chinese (gs ! 0)")
      case False
      then show ?thesis using Cons Some by simp
    next
      case True
      then have "ps = map (part_of gs) (ru_text r)" using Cons.prems(2) Some by simp
      then obtain p where p: "p \<in> set (ru_text r)" "part_of gs p = Again low g" using Cons.prems(3) by auto
      have "piece_ok (length gs) p"
        using Cons.prems(1) p(1) fits_groups [OF match_items_sound [OF Some]] by (simp add: rule_ok_def list_all_iff)
      then have "g \<in> set gs" using again_group [OF p(2)] by blast
      moreover have "0 < lit_length (ru_items r)" using Cons.prems(1) literal_positive by (simp add: rule_ok_def)
      ultimately show ?thesis using group_shorter [OF Some] by blast
    qed
  qed
qed simp

lemma length_trim: "length (trim s) \<le> length s"
  using suffix_length_le [OF strip_ws_suffix, of "map rev js_ws" "rev (strip_ws js_ws s)"]
    suffix_length_le [OF strip_ws_suffix, of js_ws s]
  by (simp add: trim_def)

section \<open>Translating a text\<close>

definition has_keyword :: "string \<Rightarrow> bool" where
  "has_keyword value = list_ex (\<lambda>(p, r). str_includes value p) textReplacements"

definition replace_words :: "string \<Rightarrow> string" where
  "replace_words value = (let translated = fold (\<lambda>(p, r). regex_replace (literal_at p r)) textReplacements value
     in trim (regex_replace ws_before_mark_at (regex_replace (ws_run_at '' '') translated)))"

function translateText :: "string \<Rightarrow> string \<Rightarrow> string" and
  translateDynamicText :: "string \<Rightarrow> string" where
  "translateText value lang =
     (if lang \<noteq> ''en'' \<or> value = [] then value
      else if exact_text value \<noteq> [] then exact_text value
      else if translateDynamicText value \<noteq> [] then translateDynamicText value
      else if \<not> has_keyword value then value
      else replace_words value)"
| "translateDynamicText value = (case first_match dynamic_rules (trim value) of
     None \<Rightarrow> []
   | Some ps \<Rightarrow> concat (map (\<lambda>p. case p of Said s \<Rightarrow> s
       | Again low g \<Rightarrow> if low then toLowerCase (translateText g ''en'') else translateText g ''en'') ps))"
  by pat_completeness auto
termination
proof (relation "measure (\<lambda>x. case x of Inl (v, l) \<Rightarrow> 2 * length v + 1 | Inr v \<Rightarrow> 2 * length v)", goal_cases)
  case 1
  then show ?case by simp
next
  case (2 v lang)
  then show ?case by simp
next
  case (3 v lang)
  then show ?case by simp
next
  case (4 v ps p low g)
  then have "length g < length (trim v)" using first_match_shorter [OF rules_ok] by blast
  then show ?case using length_trim [of v] by simp
next
  case (5 v ps p low g)
  then have "length g < length (trim v)" using first_match_shorter [OF rules_ok] by blast
  then show ?case using length_trim [of v] by simp
qed

declare translateText.simps [simp del] translateDynamicText.simps [simp del]

end
