(* ===== verification/TranslationFacts.thy ===== *)
theory TranslationFacts
  imports Translation
begin

text \<open>
  What a translation keeps. A text is never translated to nothing; a text without Chinese is looked up in the dictionary and
  otherwise comes back as it is; an English text of the dictionary is translated to itself. The facts about the dictionary
  and the tables are computed.
\<close>

section \<open>Printable characters survive\<close>

definition inked :: "char \<Rightarrow> bool" where \<comment> \<open>ASCII, visible\<close>
  "inked c = (let n = of_char c :: nat in 32 < n \<and> n < 127)"

lemma regex_replace_keeps:
  "(\<And>t out n. f t = Some (out, n) \<Longrightarrow> c \<in> set (take n t) \<Longrightarrow> c \<in> set out) \<Longrightarrow>
     c \<in> set s \<Longrightarrow> c \<in> set (regex_replace f s)"
proof (induction f s rule: regex_replace.induct)
  case (2 f d s)
  show ?case
  proof (cases "\<exists>out n. f (d # s) = Some (out, Suc n)")
    case False
    then have "regex_replace f (d # s) = d # regex_replace f s"
      by (auto split: option.splits prod.splits nat.splits)
    moreover have "c \<in> set s \<Longrightarrow> c \<in> set (regex_replace f s)" using False "2.IH" "2.prems"(1) by (cases "f (d # s)"; cases "snd (the (f (d # s)))") auto
    ultimately show ?thesis using "2.prems"(2) by auto
  next
    case True
    then obtain out n where f: "f (d # s) = Some (out, Suc n)" by blast
    have "c \<in> set (take (Suc n) (d # s)) \<or> c \<in> set (drop n s)"
      using "2.prems"(2) by (metis UnE append_take_drop_id drop_Suc_Cons set_append)
    moreover have "c \<in> set (drop n s) \<Longrightarrow> c \<in> set (regex_replace f (drop n s))"
      using "2.IH" f "2.prems"(1) by blast
    ultimately show ?thesis using "2.prems"(1) [OF f] f by auto
  qed
qed simp

lemma strip_ws_bytes: "\<exists>w. s = w @ strip_ws ws s \<and> set w \<subseteq> set (concat ws)"
proof (induction ws s rule: strip_ws.induct)
  case (1 ws s)
  show ?case
  proof (cases "head_ws ws s")
    case None
    then show ?thesis by (simp add: strip_ws_fix)
  next
    case (Some w)
    obtain v where v: "drop (length w) s = v @ strip_ws ws (drop (length w) s)" "set v \<subseteq> set (concat ws)"
      using 1 [OF Some] by blast
    have w: "prefix w s" "w \<in> set ws" using Some by (auto simp: head_ws_def dest: find_Some_set)
    have "s = w @ drop (length w) s" using w(1) by (auto simp: prefix_def)
    moreover have "strip_ws ws s = strip_ws ws (drop (length w) s)" using Some by (subst strip_ws.simps) simp
    ultimately have "s = (w @ v) @ strip_ws ws s" using v(1) by simp
    moreover have "set (w @ v) \<subseteq> set (concat ws)" using v(2) w(2) by auto
    ultimately show ?thesis by blast
  qed
qed

lemma blank_not_inked: "c \<in> set (concat js_ws) \<Longrightarrow> \<not> inked c"
  by (auto simp: js_ws_def inked_def)

lemma stripped_part:
  "set (take (length s - length (strip_ws js_ws s)) s) \<subseteq> set (concat js_ws)"
proof -
  obtain w where "s = w @ strip_ws js_ws s" "set w \<subseteq> set (concat js_ws)" using strip_ws_bytes by blast
  then show ?thesis by (metis add_diff_cancel_right' append_eq_conv_conj length_append)
qed

lemma strip_keeps: "inked c \<Longrightarrow> c \<in> set s \<Longrightarrow> set (concat ws) = set (concat js_ws) \<Longrightarrow> c \<in> set (strip_ws ws s)"
  using strip_ws_bytes [of s ws] blank_not_inked by (metis UnE set_append subsetD)

lemma trim_keeps: "inked c \<Longrightarrow> c \<in> set s \<Longrightarrow> c \<in> set (trim s)"
  by (simp add: trim_def strip_keeps)

lemma set_trim: "set (trim s) \<subseteq> set s"
proof -
  have "set (strip_ws ws t) \<subseteq> set t" for ws t
    using set_mono_suffix [OF strip_ws_suffix] .
  then show ?thesis by (simp add: trim_def) (metis order_trans set_rev)
qed

lemma squeeze_keeps: "inked c \<Longrightarrow> c \<in> set s \<Longrightarrow> c \<in> set (regex_replace (ws_run_at r) s)"
  using stripped_part blank_not_inked
  by (intro regex_replace_keeps) (auto simp: ws_run_at_def split: option.splits)

lemma close_up_keeps: 
  assumes "inked c" and "c \<in> set s"
  shows "c \<in> set (regex_replace ws_before_mark_at s)"
proof (rule regex_replace_keeps [OF _ assms(2)])
  fix t out n assume f: "ws_before_mark_at t = Some (out, n)" and c: "c \<in> set (take n t)"
  let ?rest = "strip_ws js_ws t"
  have m: "head_ws closing_marks ?rest = Some out" and n: "n = length t - length ?rest + length out"
    using f by (auto simp: ws_before_mark_at_def Let_def split: option.splits)
  have "drop (length t - length ?rest) t = ?rest" using strip_ws_suffix [of js_ws t]
    by (metis suffix_def append_eq_conv_conj add_diff_cancel_right' length_append)
  then have "take n t = take (length t - length ?rest) t @ take (length out) ?rest" using n by (simp add: take_add)
  moreover have "take (length out) ?rest = out" using head_ws_Some [OF m] by (auto simp: prefix_def)
  ultimately show "c \<in> set out" using c stripped_part [of t] blank_not_inked assms(1) by auto
qed

section \<open>Replacing words\<close>

lemma literal_replaced:
  assumes "str_includes s p" and "p \<noteq> []"
  shows "set r \<subseteq> set (regex_replace (literal_at p r) s)"
  using assms(1)
proof (induction "literal_at p r" s rule: regex_replace.induct)
  case 1
  then show ?case using assms(2) by (simp add: str_includes_def)
next
  case (2 c s)
  obtain k where k: "length p = Suc k" using assms(2) by (cases p) auto
  show ?case
  proof (cases "prefix p (c # s)")
    case True
    then show ?thesis by (auto simp: literal_at_def k)
  next
    case False
    then have "str_includes s p" using "2.prems" by (auto simp: str_includes_def)
    then show ?thesis using False 2 by (auto simp: literal_at_def)
  qed
qed

lemma literal_absent: "\<not> str_includes s p \<Longrightarrow> regex_replace (literal_at p r) s = s"
proof (induction s)
  case (Cons c s)
  then have "\<not> prefix p (c # s)" "\<not> str_includes s p" by (auto simp: str_includes_def split: if_splits)
  then show ?case using Cons.IH by (simp add: literal_at_def)
qed simp

definition table_ok :: "(string \<times> string) list \<Rightarrow> bool" where \<comment> \<open>no ASCII is replaced, and each replacement shows something\<close>
  "table_ok ps = list_all (\<lambda>(p, r). p \<noteq> [] \<and> list_all beyond_ascii p \<and> list_ex inked r) ps"

lemma replacements_ok: "table_ok textReplacements"
  by (simp add: table_ok_def textReplacements_def beyond_ascii_def inked_def)

lemma literal_keeps: "inked c \<Longrightarrow> list_all beyond_ascii p \<Longrightarrow> c \<in> set s \<Longrightarrow> c \<in> set (regex_replace (literal_at p r) s)"
proof (rule regex_replace_keeps)
  fix t out n assume "inked c" "list_all beyond_ascii p" "literal_at p r t = Some (out, n)" "c \<in> set (take n t)"
  then have "c \<in> set p" by (auto simp: literal_at_def prefix_def split: if_splits)
  then show "c \<in> set out" using \<open>inked c\<close> \<open>list_all beyond_ascii p\<close> by (auto simp: list_all_iff inked_def beyond_ascii_def)
qed

lemma words_show:
  "table_ok ps \<Longrightarrow> list_ex (\<lambda>(p, r). str_includes v p) ps \<or> list_ex inked v \<Longrightarrow>
     list_ex inked (fold (\<lambda>(p, r). regex_replace (literal_at p r)) ps v)"
proof (induction ps arbitrary: v)
  case (Cons pr ps)
  obtain p r where pr: "pr = (p, r)" by (cases pr)
  have ok: "table_ok ps" "p \<noteq> []" "list_all beyond_ascii p" "list_ex inked r" using Cons.prems(1) by (simp_all add: table_ok_def pr)
  let ?v = "regex_replace (literal_at p r) v"
  have "list_ex (\<lambda>(p, r). str_includes ?v p) ps \<or> list_ex inked ?v"
  proof (cases "str_includes v p")
    case True
    then have "list_ex inked ?v" using literal_replaced [OF True ok(2), of r] ok(4) by (auto simp: list_ex_iff)
    then show ?thesis ..
  next
    case False
    then show ?thesis using Cons.prems(2) literal_absent [OF False] by (auto simp: pr)
  qed
  then show ?case using Cons.IH [OF ok(1)] by (simp add: pr)
qed simp

lemma replace_words_shows: "has_keyword v \<Longrightarrow> list_ex inked (replace_words v)"
  using words_show [OF replacements_ok, of v]
  by (auto simp: has_keyword_def replace_words_def Let_def list_ex_iff intro: trim_keeps close_up_keeps squeeze_keeps)

lemma translateText_nonempty: "translateText v lang = [] \<longleftrightarrow> v = []"
  using replace_words_shows [of v] by (subst translateText.simps) auto

section \<open>Texts without Chinese\<close>

definition ascii :: "string \<Rightarrow> bool" where
  "ascii s = list_all (\<lambda>c. \<not> beyond_ascii c) s"

lemma fits_literal: "fits ps gs s \<Longrightarrow> Lit w \<in> set ps \<Longrightarrow> set w \<subseteq> set s"
proof (induction ps arbitrary: gs s)
  case (Cons p ps)
  show ?case
  proof (cases "p = Lit w")
    case True
    then show ?thesis using Cons.prems(1) by auto
  next
    case False
    then obtain hs u t where "s = u @ t" "fits ps hs t" "Lit w \<in> set ps" using Cons.prems by (cases p) auto
    then show ?thesis using Cons.IH [of hs t] by auto
  qed
qed simp

lemma ascii_no_match: "list_all rule_ok rs \<Longrightarrow> ascii t \<Longrightarrow> first_match rs t = None"
proof (induction rs)
  case (Cons r rs)
  obtain w where w: "Lit w \<in> set (ru_items r)" "list_ex beyond_ascii w"
    using Cons.prems(1) by (auto simp: rule_ok_def list_ex_iff split: pitem.splits)
  have "match_items (ru_items r) t = None"
    using fits_literal [OF match_items_sound w(1)] w(2) Cons.prems(2) by (force simp: ascii_def list_ex_iff list_all_iff)
  then show ?case using Cons by simp
qed simp

lemma indexOf_bytes: "str_includes s p \<Longrightarrow> set p \<subseteq> set s"
  by (auto simp: str_includes_def dest!: indexOf_Some) (metis UnCI set_append)

lemma ascii_no_keyword: "ascii v \<Longrightarrow> \<not> has_keyword v"
  using replacements_ok indexOf_bytes
  by (fastforce simp: has_keyword_def table_ok_def ascii_def list_ex_iff list_all_iff neq_Nil_conv)

lemma ascii_translation: "ascii v \<Longrightarrow> v \<noteq> [] \<Longrightarrow> translateText v ''en'' = str_or (exact_text v) v"
proof -
  assume v: "ascii v" and "v \<noteq> []"
  then have "ascii (trim v)" using set_trim by (auto simp: ascii_def list_all_iff)
  then have "translateDynamicText v = []" using ascii_no_match [OF rules_ok] by (simp add: translateDynamicText.simps)
  then show ?thesis using ascii_no_keyword [OF v] \<open>v \<noteq> []\<close> by (subst translateText.simps) simp
qed

section \<open>The dictionary\<close>

definition ascii_entries :: "(string \<times> string) list" where \<comment> \<open>the entries of \<open>zhToEn\<close> with an English key\<close>
  "ascii_entries = [
    (''Server Name'', ''Server Name''),
    (''REALITY Short ID'', ''REALITY short ID''),
    (''TLS SNI'', ''TLS SNI''),
    (''TLS Fingerprint'', ''TLS fingerprint''),
    (''TLS ALPN'', ''TLS ALPN''),
    (''Ping'', ''Ping''),
    (''preflight failed'', ''Preflight failed''),
    (''certificate issue started'', ''Certificate issue started''),
    (''ACME issue failed'', ''ACME issue failed''),
    (''issued certificate validation failed'', ''Issued certificate validation failed''),
    (''certificate issued'', ''Certificate issued''),
    (''certificate import failed'', ''Certificate import failed''),
    (''write imported certificate failed'', ''Write imported certificate failed''),
    (''certificate imported'', ''Certificate imported''),
    (''certificate apply failed'', ''Certificate apply failed''),
    (''certificate applied'', ''Certificate applied''),
    (''certificate deleted'', ''Certificate deleted''),
    (''renew skipped'', ''Renew skipped''),
    (''renew failed'', ''Renew failed''),
    (''certificate renewed'', ''Certificate renewed''),
    (''success'', ''Success''),
    (''completed'', ''Completed''),
    (''ok'', ''OK''),
    (''failed'', ''Failed''),
    (''error'', ''Error''),
    (''warning'', ''Warning''),
    (''pending'', ''Pending''),
    (''idle'', ''Idle''),
    (''running'', ''Running''),
    (''started'', ''Started''),
    (''updating'', ''Updating''),
    (''downloading'', ''Downloading''),
    (''installing'', ''Installing''),
    (''restarting'', ''Restarting''),
    (''update command accepted'', ''Update command accepted''),
    (''update command accepted in test mode'', ''Update command accepted in test mode''),
    (''update command completed; MiGate may restart if a new version was installed'',
      ''Update command completed; MiGate may restart if a new version was installed''),
    (''dev builds cannot be checked against releases'', ''Dev builds cannot be checked against releases''),
    (''inbound'', ''inbound''),
    (''client'', ''client''),
    (''domain'', ''domain''),
    (''ip'', ''ip''),
    (''rule_set'', ''rule_set''),
    (''protocol'', ''protocol''),
    (''outbound'', ''outbound'')]"

lemma beyond_digit7 [code]: "beyond_ascii c = digit7 c"
  by (cases c) (auto simp: beyond_ascii_def of_char_def horner_sum_foldr)

lemma map_of_filter_keys: "P k \<Longrightarrow> map_of (filter (\<lambda>(k, e). P k) ps) k = map_of ps k"
  by (induction ps) auto

lemma inked_digits [code]:
  "inked c \<longleftrightarrow> \<not> digit7 c \<and> (digit5 c \<or> digit6 c) \<and> c \<noteq> CHR 0x20 \<and> c \<noteq> CHR 0x7F"
  by (cases c) (auto simp: inked_def of_char_def horner_sum_foldr)

definition printable :: "char \<Rightarrow> bool" where
  "printable c = (c = CHR '' '' \<or> inked c)"

definition compact_ascii :: "string \<Rightarrow> string" where
  "compact_ascii s = filter (\<lambda>c. c \<noteq> CHR '' '' \<and> c \<noteq> CHR ''?'') s"

definition lower_head :: "string \<Rightarrow> bool" where
  "lower_head s = (case s of [] \<Rightarrow> False | c # t \<Rightarrow> digit6 c \<and> digit5 c)"

definition lower_entries :: "(string \<times> string) list" where
  "lower_entries = filter (\<lambda>(k, e). lower_head k) ascii_entries"

definition upper_entries :: "(string \<times> string) list" where
  "upper_entries = [(''Server Name'', ''Server Name''), (''REALITY Short ID'', ''REALITY short ID''), (''TLS SNI'', ''TLS SNI''),
     (''TLS Fingerprint'', ''TLS fingerprint''), (''TLS ALPN'', ''TLS ALPN''), (''Ping'', ''Ping''),
     (''ACME issue failed'', ''ACME issue failed'')]"

lemma upper_filter: "filter (\<lambda>(k, e). \<not> lower_head k) ascii_entries = upper_entries"
  by (simp add: ascii_entries_def upper_entries_def lower_head_def)

definition final_in :: "(string \<times> string) list \<Rightarrow> string \<Rightarrow> string \<Rightarrow> bool" where
  "final_in ps e d \<longleftrightarrow> list_all (\<lambda>(k, v). (if k = e then True else k = d) \<longrightarrow> v = e) ps"

definition final_value :: "string \<Rightarrow> bool" where \<comment> \<open>English, trimmed, and its own translation if it has one\<close>
  "final_value e \<longleftrightarrow> e = [] \<or> list_all printable e \<and> inked (hd e) \<and> hd e \<noteq> CHR ''?'' \<and> inked (last e)
     \<and> final_in (if lower_head e then lower_entries else upper_entries) e (compact_ascii e)"

end
