(* ===== verification/TranslationProps.thy ===== *)
theory TranslationProps
  imports TranslationData
begin

text \<open>The properties of the translation.\<close>

section \<open>English stays as it is\<close>

lemma look_up_ascii: "ascii k \<Longrightarrow> look_up k = ostr (map_of ascii_entries k)"
  using map_of_filter_keys [of ascii k zhToEn] by (simp add: look_up_def ascii_keys)

lemma blank_head: "w \<in> set js_ws \<Longrightarrow> w = '' '' \<or> w \<noteq> [] \<and> \<not> printable (hd w)"
  by (simp add: js_ws_def) (elim disjE; simp add: printable_def inked_def)

lemma blank_last: "w \<in> set js_ws \<Longrightarrow> w \<noteq> [] \<and> \<not> inked (last w) \<and> \<not> inked (hd w)"
  by (simp add: js_ws_def) (elim disjE; simp add: inked_def)

lemma head_ws_printable:
  assumes "printable c"
  shows "head_ws js_ws (c # s) = (if c = CHR '' '' then Some '' '' else None)"
proof (cases "c = CHR '' ''")
  case True
  then show ?thesis by (simp add: head_ws_def js_ws_def)
next
  case False
  then show ?thesis using assms blank_head by (force simp: head_ws_def find_None_iff prefix_Cons)
qed

lemma strip_printable: "list_all printable s \<Longrightarrow> strip_ws js_ws s = dropWhile (\<lambda>c. c = CHR '' '') s"
proof (induction s)
  case Nil
  then show ?case by (simp add: strip_ws_fix head_ws_def js_ws_def)
next
  case (Cons c s)
  then show ?case by (subst strip_ws.simps) (simp add: head_ws_printable)
qed

lemma length_dropWhile_drop: "drop (length s - length (dropWhile P s)) s = dropWhile P s"
  by (metis add_diff_cancel_right' append_eq_conv_conj length_append takeWhile_dropWhile_id)

lemma filter_dropWhile: "filter (\<lambda>c. \<not> P c) (dropWhile P s) = filter (\<lambda>c. \<not> P c) s"
  by (induction s) auto

lemma squeeze_printable:
  "list_all printable s \<Longrightarrow> regex_replace (ws_run_at []) s = filter (\<lambda>c. c \<noteq> CHR '' '') s"
proof (induction "length s" arbitrary: s rule: less_induct)
  case less
  show ?case
  proof (cases s)
    case Nil
    then show ?thesis by simp
  next
    case (Cons c t)
    have pr: "printable c" "list_all printable t" using less.prems Cons by simp_all
    show ?thesis
    proof (cases "c = CHR '' ''")
      case False
      then show ?thesis using less.hyps [of t] pr Cons by (simp add: ws_run_at_def head_ws_printable)
    next
      case True
      let ?u = "dropWhile (\<lambda>c. c = CHR '' '') t"
      have strip: "strip_ws js_ws s = ?u" using strip_printable [OF less.prems] True Cons by simp
      have len: "length ?u \<le> length t" by (rule length_dropWhile_le)
      then have "ws_run_at [] s = Some ([], Suc (length t - length ?u))"
        using strip True Cons head_ws_printable [OF pr(1)] by (simp add: ws_run_at_def Suc_diff_le)
      then have "regex_replace (ws_run_at []) s = regex_replace (ws_run_at []) ?u"
        using Cons length_dropWhile_drop [of t] by simp
      also have "\<dots> = filter (\<lambda>c. c \<noteq> CHR '' '') ?u"
        using less.hyps [of ?u] len pr(2) Cons by (simp add: list_all_iff) (meson set_dropWhileD)
      finally show ?thesis using True Cons filter_dropWhile [of "\<lambda>c. c = CHR '' ''" t] by simp
    qed
  qed
qed

lemma marks_printable:
  "list_all printable s \<Longrightarrow> regex_replace mark_at s = filter (\<lambda>c. c \<noteq> CHR ''?'') s"
proof (induction s)
  case (Cons c s)
  then have "mark_at (c # s) = (if c = CHR ''?'' then Some ([], 1) else None)"
    by (cases "c = CHR ''?''") (auto simp: mark_at_def head_ws_def compact_marks_def texts_Translation printable_def inked_def)
  then show ?case using Cons by simp
qed simp

lemma compact_printable: "list_all printable s \<Longrightarrow> compactText s = compact_ascii s"
proof -
  assume s: "list_all printable s"
  then have "list_all printable (filter (\<lambda>c. c \<noteq> CHR '' '') s)" by (auto simp: list_all_iff)
  then show ?thesis using s by (simp add: compactText_def squeeze_printable marks_printable compact_ascii_def conj_commute)
qed

lemma strip_rev_inked:
  assumes "s \<noteq> []" and "inked (last s)"
  shows "strip_ws (map rev js_ws) (rev s) = rev s"
proof (rule strip_ws_fix, rule ccontr)
  assume "head_ws (map rev js_ws) (rev s) \<noteq> None"
  then obtain v where "head_ws (map rev js_ws) (rev s) = Some v" by blast
  then have "v \<in> set (map rev js_ws)" "prefix v (rev s)" by (auto simp: head_ws_def dest!: find_Some_set)
  then obtain w where w: "w \<in> set js_ws" "suffix w s" by (auto simp: suffix_to_prefix)
  then have "last s = last w" using blank_last [OF w(1)] by (auto simp: suffix_def)
  then show False using blank_last [OF w(1)] assms(2) by simp
qed

lemma trim_ends: "head_ws js_ws s = None \<Longrightarrow> s \<noteq> [] \<Longrightarrow> inked (last s) \<Longrightarrow> trim s = s"
  using strip_rev_inked [of s] by (simp add: trim_def strip_ws_fix)

lemma trim_inked: "s \<noteq> [] \<Longrightarrow> inked (hd s) \<Longrightarrow> inked (last s) \<Longrightarrow> trim s = s"
  using blank_last by (intro trim_ends) (cases s; force simp: head_ws_def find_None_iff prefix_Cons)+

lemma printable_ascii: "list_all printable s \<Longrightarrow> ascii s"
proof -
  have "\<not> beyond_ascii c" if "printable c" for c
    using that by (cases "c = CHR '' ''") (auto simp: printable_def inked_def beyond_ascii_def Let_def)
  then show "list_all printable s \<Longrightarrow> ascii s" by (auto simp: list_all_iff ascii_def)
qed

lemma map_of_entry:
  "map_of ascii_entries k = Some v \<Longrightarrow> lower_head k \<Longrightarrow> (k, v) \<in> set lower_entries"
  "map_of ascii_entries k = Some v \<Longrightarrow> \<not> lower_head k \<Longrightarrow> (k, v) \<in> set upper_entries"
  by (auto simp: lower_entries_def upper_filter [symmetric] dest: map_of_SomeD)

lemma lower_head_compact: "inked (hd e) \<Longrightarrow> hd e \<noteq> CHR ''?'' \<Longrightarrow> lower_head (compact_ascii e) = lower_head e"
  by (cases e) (auto simp: lower_head_def compact_ascii_def inked_def)

lemma final_exact:
  assumes "final_value e" and "e \<noteq> []"
  shows "ascii e" and "exact_text e = [] \<or> exact_text e = e"
proof -
  have e: "list_all printable e" "inked (hd e)" "inked (last e)" and q: "hd e \<noteq> CHR ''?''"
    and fin: "final_in (if lower_head e then lower_entries else upper_entries) e (compact_ascii e)"
    using assms by (simp_all add: final_value_def)
  show "ascii e" using e(1) by (rule printable_ascii)
  have d: "list_all printable (compact_ascii e)" using e(1) by (auto simp: list_all_iff compact_ascii_def)
  have known: "ostr (map_of ascii_entries k) = [] \<or> ostr (map_of ascii_entries k) = e" if "k = e \<or> k = compact_ascii e" for k
  proof (cases "map_of ascii_entries k")
    case (Some v)
    have "lower_head k = lower_head e" using that lower_head_compact [OF e(2) q] by auto
    then have "(k, v) \<in> set (if lower_head e then lower_entries else upper_entries)" using map_of_entry [OF Some] by simp
    then have "(if k = e then True else k = compact_ascii e) \<longrightarrow> v = e" using fin by (auto simp: final_in_def list_all_iff)
    then have "v = e" using that by (simp split: if_splits)
    then show ?thesis using Some by simp
  qed simp
  then show "exact_text e = [] \<or> exact_text e = e"
    using printable_ascii [OF e(1)] printable_ascii [OF d] trim_inked [OF assms(2) e(2,3)] compact_printable [OF e(1)]
      known [of e] known [of "compact_ascii e"]
    by (auto simp: exact_text_def look_up_ascii)
qed

lemma final_fixed:
  assumes "final_value e"
  shows "translateText e lang = e"
proof (cases "lang = ''en'' \<and> e \<noteq> []")
  case True
  then show ?thesis using final_exact [OF assms] ascii_translation by auto
next
  case False
  then show ?thesis by (subst translateText.simps) auto
qed

lemma look_up_final: "final_value (look_up k)"
  using values_final map_of_SomeD [of zhToEn k]
  by (cases "map_of zhToEn k") (force simp: look_up_def list_all_iff final_value_def)+

lemma exact_final: "final_value (exact_text v)"
  by (simp add: exact_text_def look_up_final)

text \<open>
  
  Each English text of the dictionary is translated to itself: showing a text that a page has translated already, as the message
  list does with every title, changes nothing.
\<close>

theorem english_is_final: "(k, e) \<in> set zhToEn \<Longrightarrow> translateText e lang = e"
  using values_final final_fixed by (auto simp: list_all_iff)

lemma known_entry: "(''success'', ''Success'') \<in> set zhToEn"
proof -
  have "(''success'', ''Success'') \<in> set ascii_entries" by (simp add: ascii_entries_def)
  then show ?thesis by (simp add: ascii_keys [symmetric])
qed

theorem english_is_final_witness: "translateText ''Success'' ''en'' = ''Success''"
  using english_is_final [OF known_entry] by simp



end
