(* ===== verification/TranslationDom.thy ===== *)
theory TranslationDom
  imports TranslationFacts
begin

text \<open>
  Translating a rendered page in place (\<^verbatim>\<open>translateElement\<close> of \<^verbatim>\<open>lib/i18n.tsx\<close>). A text node
  carries the text the module remembers for it (the weak map \<^verbatim>\<open>originalTextNodes\<close>), an element the marker
  \<^verbatim>\<open>data-no-i18n\<close> and, for each of its three translatable attributes, the value and the remembered original. The
  walk over the descendants is the recursion over the tree; whether an ancestor carries the marker is handed down.
\<close>

section \<open>The tree\<close>

datatype dom_node =
    TextNode string "string option"
  | Element bool "(string option \<times> string option) list" "dom_node list" \<comment> \<open>marker, attributes, children\<close>

definition translate_text_node :: "string \<Rightarrow> string \<Rightarrow> string option \<Rightarrow> string \<times> string option" where
  "translate_text_node lang current original =
     (if lang = ''en''
      then (if has_chinese current then (translateText current lang, Some current) else (current, original))
      else if has_chinese current then (current, Some current)
      else if ostr original \<noteq> [] then (ostr original, original)
      else (current, original))"

definition translate_attr :: "string \<Rightarrow> string option \<times> string option \<Rightarrow> string option \<times> string option" where
  "translate_attr lang a = (case a of (v, saved) \<Rightarrow>
     (if ostr v = [] then a
      else (let original = str_or (ostr saved) (ostr v);
                kept = (if ostr saved = [] \<and> has_chinese original then Some original else saved)
            in if ostr kept \<noteq> [] then (Some (if lang = ''en'' then translateText (ostr kept) lang else ostr kept), kept)
               else (v, kept))))"

definition skipped :: "bool \<Rightarrow> bool \<Rightarrow> bool" where \<comment> \<open>an ancestor is marked, or the element is\<close>
  "skipped outer marked = (outer \<or> marked)"

primrec translate_node :: "string \<Rightarrow> bool \<Rightarrow> dom_node \<Rightarrow> dom_node" where
  "translate_node lang skip (TextNode v original) =
     (if skip then TextNode v original else case_prod TextNode (translate_text_node lang v original))"
| "translate_node lang skip (Element marked attrs kids) =
     (let s = skipped skip marked
      in Element marked (if s then attrs else map (translate_attr lang) attrs) (map (translate_node lang s) kids))"

text \<open>The root is skipped as a whole when it or an ancestor is marked; its own attributes are not translated.\<close>

definition translateElement :: "bool \<Rightarrow> dom_node \<Rightarrow> string \<Rightarrow> dom_node" where
  "translateElement outer page lang = (case page of
       TextNode v original \<Rightarrow> page
     | Element marked attrs kids \<Rightarrow> if skipped outer marked then page
         else Element marked attrs (map (translate_node lang False) kids))"

section \<open>There and back\<close>

primrec shown :: "dom_node \<Rightarrow> dom_node" where \<comment> \<open>what is on the screen, without what is remembered\<close>
  "shown (TextNode v original) = TextNode v None"
| "shown (Element marked attrs kids) = Element marked (map (\<lambda>(v, saved). (v, None)) attrs) (map shown kids)"

primrec fresh :: "dom_node \<Rightarrow> bool" where \<comment> \<open>nothing is remembered yet\<close>
  "fresh (TextNode v original) = (original = None)"
| "fresh (Element marked attrs kids) = (list_all (\<lambda>(v, saved). saved = None) attrs \<and> list_all fresh kids)"

primrec open_texts :: "bool \<Rightarrow> dom_node \<Rightarrow> string list" where \<comment> \<open>the texts that no marker protects\<close>
  "open_texts skip (TextNode v original) = (if skip then [] else [v])"
| "open_texts skip (Element marked attrs kids) = concat (map (open_texts (skipped skip marked)) kids)"

definition restorable :: "string \<Rightarrow> bool" where \<comment> \<open>the translation leaves no Chinese behind, or nothing is translated\<close>
  "restorable v \<longleftrightarrow> \<not> has_chinese v \<or> translateText v ''en'' = v \<or> \<not> has_chinese (translateText v ''en'')"

lemma attr_restored: "fst (translate_attr ''zh'' (translate_attr ''en'' (v, None))) = v"
proof (cases "ostr v \<noteq> [] \<and> has_chinese (ostr v)")
  case True
  then obtain w where w: "v = Some w" "w \<noteq> []" "has_chinese w" by (cases v) auto
  then have "translate_attr ''en'' (v, None) = (Some (translateText w ''en''), Some w)"
    by (simp add: translate_attr_def)
  moreover have "translateText w ''en'' \<noteq> []" using w(2) by (simp add: translateText_nonempty)
  ultimately show ?thesis using w by (simp add: translate_attr_def Let_def)
next
  case False
  then show ?thesis by (auto simp: translate_attr_def)
qed

lemma text_restored:
  "fst (case_prod (translate_text_node ''zh'') (translate_text_node ''en'' v None)) = v \<longleftrightarrow> restorable v"
  by (cases "v = []") (auto simp: translate_text_node_def restorable_def)

lemma attrs_restored:
  "list_all (\<lambda>(v, saved). saved = None) attrs \<Longrightarrow>
     map (\<lambda>(v, saved). (v, None)) (map (translate_attr ''zh'') (map (translate_attr ''en'') attrs)) = map (\<lambda>(v, saved). (v, None)) attrs"
  using attr_restored by (induction attrs) (auto simp: case_prod_unfold)

lemma node_restored:
  "fresh t \<Longrightarrow> shown (translate_node ''zh'' s (translate_node ''en'' s t)) = shown t \<longleftrightarrow> list_all restorable (open_texts s t)"
proof (induction t arbitrary: s)
  case (TextNode v original)
  then show ?case using text_restored [of v] by (auto simp: case_prod_unfold)
next
  case (Element marked attrs kids)
  let ?s = "skipped s marked"
  let ?both = "\<lambda>k. translate_node ''zh'' ?s (translate_node ''en'' ?s k)"
  have "map shown (map ?both ks) = map shown ks \<longleftrightarrow> (\<forall>k \<in> set ks. list_all restorable (open_texts ?s k))"
    if "set ks \<subseteq> set kids" for ks
    using that Element by (induction ks) (auto simp: list_all_iff)
  from this [of kids] show ?case
    using Element.prems attrs_restored [of attrs] by (auto simp: Let_def list_all_iff comp_def)
qed


definition sample_page :: dom_node where
  "sample_page = Element False [(Some ''panel'', None)] [TextNode ''MiGate'' None, Element True [] [TextNode ''raw'' None]]"


end
