(* ===== verification/MessageTranslation.thy ===== *)
theory MessageTranslation
  imports TranslationProps TranslationDom PageWrites CoreActions CoreHealth
begin

text \<open>
  The messages of the panel in English: a report that the cores did not take a change (\<open>PageWrites\<close>), whose tail is
  a message of the server, and the messages of the core pages (\<open>CoreActions\<close>). The dictionary is consulted
  through \<open>watched_entries\<close>, the few entries that start like one of these messages.
\<close>

section \<open>Texts\<close>

text \<open>The non-ASCII texts of this part of the user interface, as UTF-8 bytes.\<close>

definition zh_mt_but :: string where
  "zh_mt_but = [CHR 0xEF, CHR 0xBC, CHR 0x8C, CHR 0xE4, CHR 0xBD, CHR 0x86, CHR 0xE6, CHR 0xA0, CHR 0xB8, CHR 0xE5,
    CHR 0xBF, CHR 0x83, CHR 0xE9, CHR 0x85, CHR 0x8D, CHR 0xE7, CHR 0xBD, CHR 0xAE, CHR 0xE6, CHR 0x9C,
    CHR 0xAA, CHR 0xE7, CHR 0x94, CHR 0x9F, CHR 0xE6, CHR 0x95, CHR 0x88]"

definition zh_mt_saved :: string where
  "zh_mt_saved = [CHR 0xE5, CHR 0xB7, CHR 0xB2, CHR 0xE4, CHR 0xBF, CHR 0x9D, CHR 0xE5, CHR 0xAD, CHR 0x98]"

definition zh_mt_deleted :: string where
  "zh_mt_deleted = [CHR 0xE5, CHR 0xB7, CHR 0xB2, CHR 0xE5, CHR 0x88, CHR 0xA0, CHR 0xE9, CHR 0x99, CHR 0xA4]"

definition zh_mt_node :: string where
  "zh_mt_node = [CHR 0xE8, CHR 0x8A, CHR 0x82, CHR 0xE7, CHR 0x82, CHR 0xB9, CHR 0xE5, CHR 0xB7, CHR 0xB2, CHR 0xE4,
    CHR 0xBF, CHR 0x9D, CHR 0xE5, CHR 0xAD, CHR 0x98]"

definition zh_mt_client :: string where
  "zh_mt_client = [CHR 0xE5, CHR 0xAE, CHR 0xA2, CHR 0xE6, CHR 0x88, CHR 0xB7, CHR 0xE7, CHR 0xAB, CHR 0xAF, CHR 0xE5,
    CHR 0xB7, CHR 0xB2, CHR 0xE4, CHR 0xBF, CHR 0x9D, CHR 0xE5, CHR 0xAD, CHR 0x98]"

definition zh_mt_order :: string where
  "zh_mt_order = [CHR 0xE8, CHR 0xAE, CHR 0xA2, CHR 0xE9, CHR 0x98, CHR 0x85, CHR 0xE9, CHR 0xA1, CHR 0xBA, CHR 0xE5,
    CHR 0xBA, CHR 0x8F, CHR 0xE5, CHR 0xB7, CHR 0xB2, CHR 0xE4, CHR 0xBF, CHR 0x9D, CHR 0xE5, CHR 0xAD,
    CHR 0x98]"

definition zh_mt_sub_deleted :: string where
  "zh_mt_sub_deleted = [CHR 0xE8, CHR 0xAE, CHR 0xA2, CHR 0xE9, CHR 0x98, CHR 0x85, CHR 0xE5, CHR 0xB7, CHR 0xB2, CHR 0xE5,
    CHR 0x88, CHR 0xA0, CHR 0xE9, CHR 0x99, CHR 0xA4]"

definition zh_mt_refreshed :: string where
  "zh_mt_refreshed = [CHR 0xE8, CHR 0xAE, CHR 0xA2, CHR 0xE9, CHR 0x98, CHR 0x85, CHR 0xE5, CHR 0xB7, CHR 0xB2, CHR 0xE5,
    CHR 0x88, CHR 0xB7, CHR 0xE6, CHR 0x96, CHR 0xB0]"

definition zh_mt_rule :: string where
  "zh_mt_rule = [CHR 0xE8, CHR 0xA7, CHR 0x84, CHR 0xE5, CHR 0x88, CHR 0x99, CHR 0xE5, CHR 0xB7, CHR 0xB2, CHR 0xE4,
    CHR 0xBF, CHR 0x9D, CHR 0xE5, CHR 0xAD, CHR 0x98]"

definition zh_mt_rule_deleted :: string where
  "zh_mt_rule_deleted = [CHR 0xE8, CHR 0xA7, CHR 0x84, CHR 0xE5, CHR 0x88, CHR 0x99, CHR 0xE5, CHR 0xB7, CHR 0xB2, CHR 0xE5,
    CHR 0x88, CHR 0xA0, CHR 0xE9, CHR 0x99, CHR 0xA4]"

definition zh_mt_sub :: string where
  "zh_mt_sub = [CHR 0xE8, CHR 0xAE, CHR 0xA2, CHR 0xE9, CHR 0x98, CHR 0x85]"

lemmas texts_MessageTranslation =
  zh_mt_but_def zh_mt_saved_def zh_mt_deleted_def zh_mt_node_def zh_mt_client_def
  zh_mt_order_def zh_mt_sub_deleted_def zh_mt_refreshed_def zh_mt_rule_def zh_mt_rule_deleted_def
  zh_mt_sub_def

lemma texts_nonempty_MessageTranslation [simp]:
  "zh_mt_but \<noteq> []" "zh_mt_saved \<noteq> []" "zh_mt_deleted \<noteq> []" "zh_mt_node \<noteq> []"
  "zh_mt_client \<noteq> []" "zh_mt_order \<noteq> []" "zh_mt_sub_deleted \<noteq> []" "zh_mt_refreshed \<noteq> []"
  "zh_mt_rule \<noteq> []" "zh_mt_rule_deleted \<noteq> []" "zh_mt_sub \<noteq> []"
  by (simp_all add: texts_MessageTranslation)

section \<open>Looking up a watched text\<close>

definition not_taken :: string where
  "not_taken = zh_mt_but"

definition report_heads :: "string list" where
  "report_heads = [zh_mt_saved, zh_mt_deleted, zh_mt_node, zh_mt_client,
     zh_mt_order, zh_mt_sub_deleted, zh_mt_refreshed, zh_mt_rule,
     zh_mt_rule_deleted]"

lemma look_up_watched: "watched k \<Longrightarrow> look_up k = ostr (map_of watched_entries k)"
  using map_of_filter_keys [of watched k zhToEn] by (simp add: look_up_def watched_keys)

lemma heads_watched: "h \<in> set report_heads \<Longrightarrow> watched (h @ s)"
  by (auto simp: report_heads_def watched_def watched_heads_def texts_MessageTranslation)

lemma report_keys:
  "list_all (\<lambda>(k, e). list_all (\<lambda>h. prefix (h @ not_taken) k \<longrightarrow> k = h @ not_taken) report_heads) watched_entries"
  by code_simp

lemma report_not_key:
  assumes "h \<in> set report_heads" and "s \<noteq> []"
  shows "look_up (h @ not_taken @ s) = []"
proof -
  have "map_of watched_entries (h @ not_taken @ s) = None"
  proof (rule ccontr)
    assume "map_of watched_entries (h @ not_taken @ s) \<noteq> None"
    then obtain e where "(h @ not_taken @ s, e) \<in> set watched_entries" by (auto dest: map_of_SomeD)
    then have "h @ not_taken @ s = h @ not_taken"
      using report_keys assms(1) by (fastforce simp: list_all_iff)
    then show False using assms(2) by simp
  qed
  then show ?thesis using look_up_watched [OF heads_watched [OF assms(1)]] by simp
qed

section \<open>Blanks and marks of a report\<close>

definition quiet :: "char \<Rightarrow> bool" where \<comment> \<open>neither a blank nor a mark starts with it\<close>
  "quiet c = (let n = of_char c :: nat in 128 \<le> n \<and> n \<notin> {0xC2, 0xE1, 0xE2, 0xE3, 0xEF})"

lemma blank_loud: "w \<in> set js_ws \<Longrightarrow> w \<noteq> [] \<and> \<not> quiet (hd w)"
  by (simp add: js_ws_def) (elim disjE; simp add: quiet_def)

lemma quiet_no_blank: "quiet c \<Longrightarrow> head_ws js_ws (c # s) = None"
  using blank_loud by (force simp: head_ws_def find_None_iff prefix_Cons)

lemma quiet_no_mark: "quiet c \<Longrightarrow> head_ws compact_marks (c # s) = None"
  by (auto simp: head_ws_def find_None_iff compact_marks_def texts_Translation quiet_def)

lemma quiet_kept:
  "list_all quiet a \<Longrightarrow> regex_replace (ws_run_at r) (a @ s) = a @ regex_replace (ws_run_at r) s"
  "list_all quiet a \<Longrightarrow> regex_replace mark_at (a @ s) = a @ regex_replace mark_at s"
  by (induction a) (simp_all add: ws_run_at_def mark_at_def quiet_no_blank quiet_no_mark)

lemma heads_quiet: "h \<in> set report_heads \<Longrightarrow> list_all quiet h \<and> h \<noteq> []"
  by (auto simp: report_heads_def texts_MessageTranslation quiet_def)

lemma not_taken_kept:
  "regex_replace (ws_run_at r) (not_taken @ s) = not_taken @ regex_replace (ws_run_at r) s"
  "regex_replace mark_at (not_taken @ s) = not_taken @ regex_replace mark_at s"
proof -
  obtain a b where nt: "not_taken = a @ b" "a = [CHR 0xEF, CHR 0xBC, CHR 0x8C]" "list_all quiet b"
    by (simp add: not_taken_def texts_MessageTranslation quiet_def)
  have a: "regex_replace (ws_run_at r) (a @ t) = a @ regex_replace (ws_run_at r) t"
    "regex_replace mark_at (a @ t) = a @ regex_replace mark_at t" for t
    by (simp_all add: nt(2) ws_run_at_def mark_at_def head_ws_def js_ws_def compact_marks_def texts_Translation)
  show "regex_replace (ws_run_at r) (not_taken @ s) = not_taken @ regex_replace (ws_run_at r) s"
    "regex_replace mark_at (not_taken @ s) = not_taken @ regex_replace mark_at s"
    using a quiet_kept [OF nt(3)] by (simp_all add: nt(1))
qed

lemma colon_dropped:
  "regex_replace (ws_run_at r) (zh_colon @ s) = zh_colon @ regex_replace (ws_run_at r) s"
  "regex_replace mark_at (zh_colon @ s) = regex_replace mark_at s"
  by (simp_all add: texts_CoreApply ws_run_at_def mark_at_def head_ws_def js_ws_def compact_marks_def texts_Translation)

lemma compact_report:
  assumes "h \<in> set report_heads" and "list_all printable msg"
  shows "compactText (h @ not_taken @ zh_colon @ msg) = h @ not_taken @ compact_ascii msg"
  using heads_quiet [OF assms(1)] compact_printable [OF assms(2)]
  by (simp add: compactText_def quiet_kept not_taken_kept colon_dropped)

section \<open>The rule for reports\<close>

definition report_rule :: rule where
  "report_rule = Rule [Dots, Lit (not_taken @ zh_colon), Dots] False
     [Translated 0, Put '', but core config did not take effect: '', Translated 1]"

definition rules_before :: "rule list" where
  "rules_before = operation_rules @ port_rules @ take 3 sentence_rules"

definition rules_after :: "rule list" where
  "rules_after = drop 4 sentence_rules @ count_rules @ reference_rules"

lemma rules_split: "dynamic_rules = rules_before @ report_rule # rules_after"
  by (simp add: dynamic_rules_def rules_before_def rules_after_def sentence_rules_def report_rule_def not_taken_def
      texts_MessageTranslation texts_CoreApply)

lemma first_match_append:
  "first_match (rs @ qs) t = (case first_match rs t of None \<Rightarrow> first_match qs t | Some ps \<Rightarrow> Some ps)"
  by (induction rs) (auto split: option.splits)

definition ends_beyond :: "pitem list \<Rightarrow> bool" where
  "ends_beyond ps = (case rev ps of Lit w # qs \<Rightarrow> w \<noteq> [] \<and> beyond_ascii (last w) | _ \<Rightarrow> False)"

definition starts_apart :: "string \<Rightarrow> pitem list \<Rightarrow> bool" where
  "starts_apart p ps = (case ps of Lit w # qs \<Rightarrow> \<not> prefix w p \<and> \<not> prefix p w | _ \<Rightarrow> False)"

lemma fits_last: "fits (ps @ [Lit w]) gs s \<Longrightarrow> suffix w s"
proof (induction ps arbitrary: gs s)
  case (Cons p ps)
  then obtain hs u t where "s = u @ t" "fits (ps @ [Lit w]) hs t" by (cases p) auto
  then show ?case using Cons.IH [of hs t] by (auto simp: suffix_def)
qed auto

lemma ends_no_match:
  assumes "ends_beyond ps" and "s \<noteq> []" and "\<not> beyond_ascii (last s)"
  shows "match_items ps s = None"
proof (rule ccontr)
  assume "match_items ps s \<noteq> None"
  then obtain gs where gs: "fits ps gs s" using match_items_iff by blast
  obtain w qs where w: "rev ps = Lit w # qs" "w \<noteq> []" "beyond_ascii (last w)"
    using assms(1) by (auto simp: ends_beyond_def split: list.splits pitem.splits)
  then have "ps = rev qs @ [Lit w]" by (metis rev.simps(2) rev_rev_ident)
  then have "suffix w s" using fits_last gs by simp
  then have "last s = last w" using w(2) by (auto simp: suffix_def)
  then show False using w(3) assms(3) by simp
qed

lemma starts_no_match: "starts_apart p ps \<Longrightarrow> match_items ps (p @ s) = None"
  by (auto simp: starts_apart_def prefix_append split: list.splits pitem.splits)

definition passed_over :: "string \<Rightarrow> rule \<Rightarrow> bool" where
  "passed_over p r \<longleftrightarrow> ends_beyond (ru_items r) \<or> starts_apart p (ru_items r)"

lemma passed_no_match:
  "list_all (passed_over p) rs \<Longrightarrow> s \<noteq> [] \<Longrightarrow> \<not> beyond_ascii (last s) \<Longrightarrow> first_match rs (p @ s) = None"
  by (induction rs) (auto simp: passed_over_def ends_no_match starts_no_match)

lemma rules_pass: "list_all (\<lambda>r. ends_beyond (ru_items r) \<or> list_all (\<lambda>h. starts_apart (h @ not_taken) (ru_items r)) report_heads) rules_before"
  by code_simp

lemma rules_passed: "list_all (\<lambda>h. list_all (passed_over (h @ not_taken)) rules_before) report_heads"
  using rules_pass by (auto simp: list_all_iff passed_over_def)

lemma first_not_taken: "list_all (\<lambda>h. indexOf (h @ not_taken @ zh_colon) (not_taken @ zh_colon) = Some (length h)) report_heads"
  by code_simp

lemma indexOf_le: "indexOf (g @ p @ u) p = Some i \<Longrightarrow> i \<le> length g"
proof (induction g arbitrary: i)
  case Nil
  have "prefix p (p @ u)" by simp
  with Nil show ?case by (cases "p @ u") simp_all
next
  case (Cons c g)
  then show ?case by (auto split: if_splits)
qed

lemma line_end_heads: "w \<in> set line_ends \<Longrightarrow> w \<noteq> [] \<and> \<not> quiet (hd w) \<and> \<not> printable (hd w)"
  by (simp add: line_ends_def) (elim disjE; simp add: quiet_def printable_def inked_def)

lemma dots_ok:
  assumes "\<forall>c \<in> set g. quiet c \<or> printable c"
  shows "\<forall>i < length g. head_ws line_ends (drop i (g @ t)) = None"
proof (intro allI impI)
  fix i assume i: "i < length g"
  then have "drop i (g @ t) = g ! i # drop (Suc i) g @ t" by (simp add: Cons_nth_drop_Suc [symmetric])
  moreover have "quiet (g ! i) \<or> printable (g ! i)" using assms i by simp
  ultimately show "head_ws line_ends (drop i (g @ t)) = None"
    using line_end_heads by (force simp: head_ws_def find_None_iff prefix_Cons)
qed

lemma report_split:
  assumes "h \<in> set report_heads" and "ascii msg" and "g @ (not_taken @ zh_colon) @ m = h @ (not_taken @ zh_colon) @ msg"
  shows "g = h \<and> m = msg"
proof -
  define L where "L = not_taken @ zh_colon"
  have L: "L \<noteq> []" "beyond_ascii (last L)" by (simp_all add: L_def texts_CoreApply beyond_ascii_def)
  have eq: "g @ L @ m = h @ L @ msg" using assms(3) by (simp add: L_def)
  have le: "length g \<le> length h"
  proof (rule ccontr)
    assume longer: "\<not> length g \<le> length h"
    obtain u where "g = h @ u \<or> h = g @ u" using eq by (auto simp: append_eq_append_conv2)
    then have u: "g = h @ u" "u \<noteq> []" using longer by auto
    then have um: "u @ L @ m = L @ msg" using eq by simp
    obtain w where "u @ L = L @ w \<or> L = (u @ L) @ w" using um by (metis append.assoc append_eq_append_conv2)
    moreover have "L \<noteq> (u @ L) @ w"
    proof
      assume "L = (u @ L) @ w"
      then have "length L = length u + length L + length w" by (metis length_append)
      then show False using u(2) by simp
    qed
    ultimately have w: "u @ L = L @ w" by blast
    then have "length w = length u" by (metis add.commute add_left_cancel length_append)
    then have "w \<noteq> []" using u(2) by auto
    have "L @ w @ m = L @ msg" using um w by (metis append.assoc)
    then have msg: "msg = w @ m" by simp
    have "last L = last w" using w \<open>w \<noteq> []\<close> L(1) by (metis last_appendR)
    then show False using \<open>w \<noteq> []\<close> msg L(2) assms(2) by (simp add: ascii_def list_all_iff)
  qed
  have "length h \<le> length g"
  proof -
    have "(g @ L) @ m = (h @ L) @ msg" using eq by simp
    then obtain u where "(g @ L) @ u = h @ L \<or> g @ L = (h @ L) @ u" unfolding append_eq_append_conv2 by blast
    moreover have "u = []" if "g @ L = (h @ L) @ u"
    proof -
      have "length (g @ L) = length ((h @ L) @ u)" using that by (rule arg_cong)
      then show ?thesis using le by simp
    qed
    ultimately obtain u where "h @ L = g @ L @ u" by (metis append_Nil2 append.assoc)
    moreover have "indexOf (h @ L) L = Some (length h)"
      using first_not_taken assms(1) by (simp add: list_all_iff L_def)
    ultimately have "indexOf (g @ L @ u) L = Some (length h)" by simp
    then show ?thesis by (rule indexOf_le)
  qed
  then have "length g = length h" using le by simp
  then show ?thesis using eq by simp
qed

definition message_ok :: "string \<Rightarrow> bool" where \<comment> \<open>a printable English line that does not end in a blank and has more than question marks\<close>
  "message_ok msg \<longleftrightarrow> list_all printable msg \<and> msg \<noteq> [] \<and> inked (last msg) \<and> compact_ascii msg \<noteq> []"

lemma report_groups:
  assumes "h \<in> set report_heads" and "message_ok msg"
  shows "match_items (ru_items report_rule) (h @ not_taken @ zh_colon @ msg) = Some [h, msg]"
proof -
  let ?v = "h @ (not_taken @ zh_colon) @ msg"
  have msg: "list_all printable msg" "msg \<noteq> []" using assms(2) by (simp_all add: message_ok_def)
  have h: "list_all quiet h" "h \<noteq> []" using heads_quiet [OF assms(1)] by simp_all
  have "\<forall>i < length h. head_ws line_ends (drop i ?v) = None" "\<forall>i < length msg. head_ws line_ends (drop i (msg @ [])) = None"
    using h(1) msg(1) by (intro dots_ok; simp add: list_all_iff)+
  then have "fits (ru_items report_rule) [h, msg] ?v"
    using h(2) msg(2) by (simp add: report_rule_def)
  then obtain gs where gs: "match_items (ru_items report_rule) ?v = Some gs" using match_items_iff by blast
  then have "fits (ru_items report_rule) gs ?v" by (rule match_items_sound)
  then obtain g m where g: "?v = g @ (not_taken @ zh_colon) @ m" "gs = [g, m]" by (auto simp: report_rule_def)
  then have "g = h \<and> m = msg" using report_split [OF assms(1) printable_ascii [OF msg(1)] g(1) [symmetric]] by simp
  then show ?thesis using gs g(2) by simp
qed

lemma report_translated:
  assumes "h \<in> set report_heads" and "message_ok msg"
  shows "translateText (h @ not_taken @ zh_colon @ msg) ''en''
    = translateText h ''en'' @ '', but core config did not take effect: '' @ translateText msg ''en''"
proof -
  let ?v = "h @ not_taken @ zh_colon @ msg"
  have msg: "list_all printable msg" "msg \<noteq> []" "inked (last msg)" "compact_ascii msg \<noteq> []"
    using assms(2) by (simp_all add: message_ok_def)
  have h: "list_all quiet h" "h \<noteq> []" using heads_quiet [OF assms(1)] by simp_all
  have trim: "trim ?v = ?v"
  proof (rule trim_ends)
    show "head_ws js_ws ?v = None" using h quiet_no_blank by (cases h) simp_all
  qed (use msg h in simp_all)
  have exact: "exact_text ?v = []"
    using report_not_key [OF assms(1)] msg(2,4) by (simp add: exact_text_def trim compact_report [OF assms(1) msg(1)])
  have "first_match rules_before ((h @ not_taken) @ zh_colon @ msg) = None"
  proof (rule passed_no_match)
    show "list_all (passed_over (h @ not_taken)) rules_before" using rules_passed assms(1) by (simp add: list_all_iff)
    show "\<not> beyond_ascii (last (zh_colon @ msg))"
      using msg(2) printable_ascii [OF msg(1)] by (simp add: ascii_def list_all_iff)
  qed (simp add: msg(2))
  then have "first_match dynamic_rules ?v = Some (map (part_of [h, msg]) (ru_text report_rule))"
    using report_groups [OF assms] by (simp add: rules_split first_match_append) (simp add: report_rule_def)
  then have "translateDynamicText ?v
      = translateText h ''en'' @ '', but core config did not take effect: '' @ translateText msg ''en''"
    by (simp add: translateDynamicText.simps trim report_rule_def part_of_def)
  then show ?thesis using h(2) exact by (subst translateText.simps) simp
qed

section \<open>Reports in English\<close>

lemma compact_quiet: "list_all quiet s \<Longrightarrow> compactText s = s"
  using quiet_kept [of s] by (metis append_Nil2 compactText_def regex_replace.simps(1))

lemma heads_trim: "list_all (\<lambda>h. trim h = h) report_heads"
  by code_simp

lemma exact_head:
  assumes "h \<in> set report_heads"
  shows "exact_text h = ostr (map_of watched_entries h)"
proof -
  have "trim h = h" "compactText h = h"
    using heads_trim heads_quiet [OF assms] compact_quiet assms by (simp_all add: list_all_iff)
  then show ?thesis using look_up_watched [OF heads_watched [OF assms, of "[]", simplified]] by (simp add: exact_text_def)
qed

lemma plain_heads:
  "list_all (\<lambda>h. case map_of watched_entries h of Some e \<Rightarrow> True | None \<Rightarrow> first_match dynamic_rules h = None \<and> has_keyword h) report_heads"
  by code_simp

lemma head_translated:
  assumes "h \<in> set report_heads" and "e \<noteq> []"
    and "case map_of watched_entries h of None \<Rightarrow> replace_words h = e | Some d \<Rightarrow> d = e"
  shows "translateText h ''en'' = e"
proof (cases "map_of watched_entries h")
  case None
  then have "exact_text h = []" "translateDynamicText h = []" "has_keyword h" "h \<noteq> []"
    using exact_head [OF assms(1)] plain_heads heads_trim heads_quiet [OF assms(1)] assms(1)
    by (auto simp: list_all_iff translateDynamicText.simps)
  then show ?thesis using None assms(3) by (subst translateText.simps) simp
next
  case (Some d)
  then show ?thesis using exact_head [OF assms(1)] heads_quiet [OF assms(1)] assms by (subst translateText.simps) simp
qed

text \<open>What a report starts with, how that part reads on its own, and how the report reads without the message of the server.\<close>

definition english_heads :: "(string \<times> string \<times> string) list" where
  "english_heads = [
     (zh_mt_saved, ''Saved'', ''Saved''), (zh_mt_deleted, ''Deleted'', ''Deleted''),
     (zh_mt_node, ''Node saved'', ''Node saved''), (zh_mt_client, ''Client saved'', ''Client saved''),
     (zh_mt_order, ''Subscription order saved'', ''Subscription order saved''),
     (zh_mt_refreshed, ''Subscription refreshed'', ''Subscription refreshed''),
     (zh_mt_sub_deleted, zh_mt_sub @ ''Deleted'', ''Subscription deleted''),
     (zh_mt_rule, ''rulesSaved'', ''Rule saved''), (zh_mt_rule_deleted, ''rulesDeleted'', ''Rule deleted'')]"

lemma english_heads_computed:
  "list_all (\<lambda>(h, e, r). h \<in> set report_heads \<and> e \<noteq> []
     \<and> (case map_of watched_entries h of None \<Rightarrow> replace_words h = e | Some d \<Rightarrow> d = e)
     \<and> map_of watched_entries (h @ not_taken) = Some (r @ '', but core config did not take effect'')) english_heads"
  by code_simp

lemma report_in_english:
  assumes "(h, e, r) \<in> set english_heads"
  shows "translateText (h @ not_taken) ''en'' = r @ '', but core config did not take effect''"
    and "message_ok msg \<Longrightarrow> translateText (h @ not_taken @ zh_colon @ msg) ''en''
      = e @ '', but core config did not take effect: '' @ translateText msg ''en''"
proof -
  have h: "h \<in> set report_heads" "e \<noteq> []"
    "case map_of watched_entries h of None \<Rightarrow> replace_words h = e | Some d \<Rightarrow> d = e"
    "map_of watched_entries (h @ not_taken) = Some (r @ '', but core config did not take effect'')"
    using english_heads_computed assms by (auto simp: list_all_iff)
  show "translateText (h @ not_taken @ zh_colon @ msg) ''en''
      = e @ '', but core config did not take effect: '' @ translateText msg ''en''" if "message_ok msg"
    using report_translated [OF h(1) that] head_translated [OF h(1,2,3)] by simp
  have "look_up (h @ not_taken) = r @ '', but core config did not take effect''"
    using look_up_watched [OF heads_watched [OF h(1)]] h(4) by simp
  then show "translateText (h @ not_taken) ''en'' = r @ '', but core config did not take effect''"
    using heads_quiet [OF h(1)] by (subst translateText.simps) (simp add: exact_text_def)
qed

definition report_head :: "panel_write \<Rightarrow> string" where
  "report_head m = (case m of
       InboundWrite (InboundDeleted _) \<Rightarrow> zh_mt_deleted | InboundWrite (ClientDeleted _ _) \<Rightarrow> zh_mt_deleted
     | FormWrite InboundSaved \<Rightarrow> zh_mt_node | FormWrite ClientSaved \<Rightarrow> zh_mt_client
     | RuleWrite (RuleRemoved _) \<Rightarrow> zh_mt_rule_deleted | RuleWrite _ \<Rightarrow> zh_mt_rule
     | OutboundWrite RemoveWrite \<Rightarrow> zh_mt_deleted | OutboundWrite RemoveSubWrite \<Rightarrow> zh_mt_sub_deleted
     | OutboundWrite ReorderSubWrite \<Rightarrow> zh_mt_order | OutboundWrite RefreshSubWrite \<Rightarrow> zh_mt_refreshed
     | OutboundWrite RefreshAfterEnableWrite \<Rightarrow> zh_mt_refreshed | OutboundWrite RefreshAllWrite \<Rightarrow> zh_mt_refreshed
     | _ \<Rightarrow> zh_mt_saved)"

lemma panel_report:
  assumes "panel_texts m = (na, fin, failed)" and "\<nexists>i n. m = TrafficReset i n"
  shows "na = report_head m @ not_taken"
  using assms
  by (cases m) (auto simp: panel_texts_def inbound_texts_def form_texts_def rule_texts_def write_texts_def report_head_def
      not_taken_def texts_PageWrites texts_OutboundForms texts_MessageTranslation
      split: inbound_write.splits form_write.splits rule_write.splits page_write.splits)

definition reads_well :: "panel_write \<Rightarrow> bool" where
  "reads_well m = (case m of RuleWrite r \<Rightarrow> False | OutboundWrite ob \<Rightarrow> ob \<noteq> RemoveSubWrite | _ \<Rightarrow> True)"

lemma head_of_report:
  "\<exists>e r. (report_head m, e, r) \<in> set english_heads \<and> (e = r \<longleftrightarrow> reads_well m)"
  by (cases m) (auto simp: report_head_def english_heads_def reads_well_def texts_MessageTranslation
      split: inbound_write.splits form_write.splits rule_write.splits page_write.splits)



lemma rule_report_garbled:
  assumes "message_ok msg"
  shows "translateText (report zh_pw_rule_saved_na data (CoreFailed msg)) ''en''
      = ''rulesSaved, but core config did not take effect: '' @ translateText msg ''en''"
proof -
  have "(zh_mt_rule, ''rulesSaved'', ''Rule saved'') \<in> set english_heads" by (simp add: english_heads_def)
  from report_in_english(2) [OF this assms]
  show ?thesis by (simp add: report_def not_taken_def texts_PageWrites texts_MessageTranslation)
qed

text \<open>
  A message that is translated half way is not Chinese any more and not English either: in a page that is translated in place it stays
  when the page goes back to Chinese.
\<close>

lemma half_translation_sticks:
  "shown (translate_node ''zh'' False (translate_node ''en'' False (TextNode zh_mt_sub_deleted None)))
     = TextNode (zh_mt_sub @ ''Deleted'') None"
proof -
  have "(zh_mt_sub_deleted, zh_mt_sub @ ''Deleted'', ''Subscription deleted'') \<in> set english_heads" by (simp add: english_heads_def)
  then have "translateText zh_mt_sub_deleted ''en'' = zh_mt_sub @ ''Deleted''"
    using head_translated [of zh_mt_sub_deleted "zh_mt_sub @ ''Deleted''"] english_heads_computed by (auto simp: list_all_iff)
  moreover have "has_chinese zh_mt_sub_deleted" "has_chinese (zh_mt_sub @ ''Deleted'')"
    by (simp_all add: texts_MessageTranslation chinese_at_def)
  ultimately show ?thesis by (simp add: translate_text_node_def)
qed

section \<open>Core messages in English\<close>

text \<open>A translation that only consults the watched entries, and no pattern that translates a group.\<close>

definition said :: "part list \<Rightarrow> string option" where
  "said ps = (if list_all (\<lambda>p. case p of Said s \<Rightarrow> True | _ \<Rightarrow> False) ps
     then Some (concat (map (\<lambda>p. case p of Said s \<Rightarrow> s | _ \<Rightarrow> []) ps)) else None)"

definition watched_exact :: "string \<Rightarrow> string" where
  "watched_exact v = str_or (str_or (ostr (map_of watched_entries v)) (ostr (map_of watched_entries (trim v))))
     (ostr (map_of watched_entries (compactText v)))"

definition watched_translation :: "string \<Rightarrow> string option" where
  "watched_translation v =
     (if v \<noteq> [] \<and> watched v \<and> watched (trim v) \<and> watched (compactText v)
      then (if watched_exact v \<noteq> [] then Some (watched_exact v)
            else case first_match dynamic_rules (trim v) of
                None \<Rightarrow> if has_keyword v then None else Some v
              | Some ps \<Rightarrow> if said ps = Some [] then None else said ps)
      else None)"

lemma said_translated:
  "said ps = Some s \<Longrightarrow> concat (map (\<lambda>p. case p of Said s \<Rightarrow> s
       | Again low g \<Rightarrow> if low then toLowerCase (translateText g ''en'') else translateText g ''en'') ps) = s"
proof -
  assume "said ps = Some s"
  then have ps: "list_all (\<lambda>p. case p of Said s \<Rightarrow> True | _ \<Rightarrow> False) ps" "s = concat (map (\<lambda>p. case p of Said s \<Rightarrow> s | _ \<Rightarrow> []) ps)"
    by (simp_all add: said_def split: if_splits)
  then show ?thesis by (simp add: list_all_iff) (rule arg_cong [of _ _ concat], rule map_cong, auto split: part.splits)
qed

lemma watched_translated:
  assumes "watched_translation v = Some e"
  shows "translateText v ''en'' = e"
proof -
  have v: "v \<noteq> []" and exact: "exact_text v = watched_exact v"
    using assms by (auto simp: watched_translation_def exact_text_def watched_exact_def look_up_watched split: if_splits)
  show ?thesis
  proof (cases "first_match dynamic_rules (trim v)")
    case None
    then show ?thesis
      using assms v exact
      by (subst translateText.simps) (auto simp: watched_translation_def translateDynamicText.simps split: if_splits)
  next
    case (Some ps)
    then have dyn: "translateDynamicText v = s" if "said ps = Some s" for s
      using said_translated [OF that] by (simp add: translateDynamicText.simps)
    show ?thesis
      using assms v exact Some dyn
      by (subst translateText.simps) (auto simp: watched_translation_def split: if_splits)
  qed
qed

definition english_done :: "core_op \<Rightarrow> string" where
  "english_done op = (case op of CoreApply \<Rightarrow> '' config applied'' | CoreInstall \<Rightarrow> '' install command executed''
     | CoreUninstall \<Rightarrow> '' remove managed service command executed'' | CoreDelete \<Rightarrow> '' delete command executed''
     | CoreRestart \<Rightarrow> '' restarted'' | CoreStop \<Rightarrow> '' stopped'' | _ \<Rightarrow> [])"

definition english_failed :: "core_op \<Rightarrow> string" where
  "english_failed op = (case op of CoreApply \<Rightarrow> '' apply failed'' | CoreInstall \<Rightarrow> '' install failed''
     | CoreUninstall \<Rightarrow> '' remove managed service failed'' | CoreDelete \<Rightarrow> '' delete failed''
     | CoreRestart \<Rightarrow> '' restart failed'' | CoreStop \<Rightarrow> '' stop failed'' | _ \<Rightarrow> '' generated config validation failed'')"

definition core_ops_named :: "core_op list" where
  "core_ops_named = [CoreValidate, CoreApply, CoreInstall, CoreUninstall, CoreDelete, CoreRestart, CoreStop]"

lemma done_computed_xray:
  "list_all (\<lambda>op. watched_translation (page_label Xray @ done_text op) = Some (page_label Xray @ english_done op)) core_ops_named"
  by code_simp

lemma done_computed_singbox:
  "list_all (\<lambda>op. watched_translation (page_label SingBox @ done_text op) = Some (page_label SingBox @ english_done op)) core_ops_named"
  by code_simp

lemma failed_computed_xray:
  "list_all (\<lambda>op. watched_translation (page_label Xray @ failed_text op) = Some (page_label Xray @ english_failed op)) core_ops_named"
  by code_simp

lemma failed_computed_singbox:
  "list_all (\<lambda>op. watched_translation (page_label SingBox @ failed_text op) = Some (page_label SingBox @ english_failed op)) core_ops_named"
  by code_simp

lemma core_messages_in_english:
  assumes "op \<in> set core_ops_named"
  shows "translateText (page_label core @ done_text op) ''en'' = page_label core @ english_done op"
    and "translateText (page_label core @ failed_text op) ''en'' = page_label core @ english_failed op"
  using assms done_computed_xray done_computed_singbox failed_computed_xray failed_computed_singbox
  by (cases core; simp add: list_all_iff watched_translated)+

end
