(* ===== verification/Frame.thy ===== *)
theory Frame
  imports Translation JobTracker Clients
begin

text \<open>
  The frame of the application: the messages and the confirmation dialog (\<^verbatim>\<open>components/ui.tsx\<close>), the
  language (\<^verbatim>\<open>I18nProvider\<close>), the layout with its theme and sidebar (\<^verbatim>\<open>layouts/AppLayout.tsx\<close>),
  the routes (\<^verbatim>\<open>App.tsx\<close>), and copying to the clipboard (\<^verbatim>\<open>lib/clipboard.ts\<close> and its callers). The
  identifier of a message is drawn by the browser; it is an argument.
\<close>

section \<open>Texts\<close>

text \<open>The non-ASCII texts of this part of the user interface, as UTF-8 bytes.\<close>

definition zh_fr_copy_failed :: string where
  "zh_fr_copy_failed = [CHR 0xE5, CHR 0xA4, CHR 0x8D, CHR 0xE5, CHR 0x88, CHR 0xB6, CHR 0xE5, CHR 0xA4, CHR 0xB1, CHR 0xE8,
    CHR 0xB4, CHR 0xA5]"

definition zh_fr_link_failed :: string where
  "zh_fr_link_failed = [CHR 0xE5, CHR 0xA4, CHR 0x8D, CHR 0xE5, CHR 0x88, CHR 0xB6, CHR 0xE8, CHR 0x8A, CHR 0x82, CHR 0xE7,
    CHR 0x82, CHR 0xB9, CHR 0xE9, CHR 0x93, CHR 0xBE, CHR 0xE6, CHR 0x8E, CHR 0xA5, CHR 0xE5, CHR 0xA4,
    CHR 0xB1, CHR 0xE8, CHR 0xB4, CHR 0xA5]"

definition zh_fr_link_copied :: string where
  "zh_fr_link_copied = [CHR 0xE8, CHR 0x8A, CHR 0x82, CHR 0xE7, CHR 0x82, CHR 0xB9, CHR 0xE9, CHR 0x93, CHR 0xBE, CHR 0xE6,
    CHR 0x8E, CHR 0xA5, CHR 0xE5, CHR 0xB7, CHR 0xB2, CHR 0xE5, CHR 0xA4, CHR 0x8D, CHR 0xE5, CHR 0x88,
    CHR 0xB6]"

definition zh_fr_qr_failed :: string where
  "zh_fr_qr_failed = [CHR 0xE7, CHR 0x94, CHR 0x9F, CHR 0xE6, CHR 0x88, CHR 0x90, CHR 0xE4, CHR 0xBA, CHR 0x8C, CHR 0xE7,
    CHR 0xBB, CHR 0xB4, CHR 0xE7, CHR 0xA0, CHR 0x81, CHR 0xE5, CHR 0xA4, CHR 0xB1, CHR 0xE8, CHR 0xB4,
    CHR 0xA5]"

lemmas texts_Frame =
  zh_fr_copy_failed_def zh_fr_link_failed_def zh_fr_link_copied_def zh_fr_qr_failed_def

lemma texts_nonempty_Frame [simp]:
  "zh_fr_copy_failed \<noteq> []" "zh_fr_link_failed \<noteq> []" "zh_fr_link_copied \<noteq> []" "zh_fr_qr_failed \<noteq> []"
  by (simp_all add: texts_Frame)

section \<open>Messages\<close>

record toaster =
  ts_items :: "(nat \<times> toast) list" \<comment> \<open>what is on the screen, with the drawn identifiers\<close>
  ts_timers :: "(int \<times> nat) list" \<comment> \<open>when which identifier is removed\<close>
  ts_followed :: "string list" \<comment> \<open>addresses opened by an action\<close>

definition toaster_start :: toaster where
  "toaster_start = \<lparr>ts_items = [], ts_timers = [], ts_followed = []\<rparr>"

definition showToast :: "int \<Rightarrow> nat \<Rightarrow> toast \<Rightarrow> toaster \<Rightarrow> toaster" where
  "showToast now tid t s = s\<lparr>ts_items := ts_items s @ [(tid, t)], ts_timers := ts_timers s @ [(now + 3200, tid)]\<rparr>"

definition remove_toast :: "nat \<Rightarrow> toaster \<Rightarrow> toaster" where
  "remove_toast tid s = s\<lparr>ts_items := filter (\<lambda>(i, t). i \<noteq> tid) (ts_items s)\<rparr>"

definition follow_action :: "nat \<Rightarrow> toaster \<Rightarrow> toaster" where
  "follow_action tid s = (case map_of (ts_items s) tid of
     None \<Rightarrow> s
   | Some t \<Rightarrow> (case to_action t of None \<Rightarrow> s
       | Some a \<Rightarrow> (remove_toast tid s)\<lparr>ts_followed := ts_followed s @ [ta_target a]\<rparr>))"

definition time_passes :: "int \<Rightarrow> toaster \<Rightarrow> toaster" where \<comment> \<open>the timers that are due run\<close>
  "time_passes now s = (fold remove_toast (map snd (filter (\<lambda>(due, i). due \<le> now) (ts_timers s))) s)
     \<lparr>ts_timers := filter (\<lambda>(due, i). now < due) (ts_timers s)\<rparr>"

datatype toast_event = Shown int nat toast | Followed nat | Closed nat | Passed int

definition toast_step :: "toast_event \<Rightarrow> toaster \<Rightarrow> toaster" where
  "toast_step e s = (case e of Shown now i t \<Rightarrow> showToast now i t s | Followed i \<Rightarrow> follow_action i s
     | Closed i \<Rightarrow> remove_toast i s | Passed now \<Rightarrow> time_passes now s)"

definition toasts_run :: "toast_event list \<Rightarrow> toaster" where
  "toasts_run es = fold toast_step es toaster_start"

section \<open>The confirmation dialog\<close>

text \<open>\<open>cf_asked\<close> counts the promises handed out; \<open>cf_settled\<close> lists those that were answered.\<close>

record confirmer =
  cf_open :: "nat option"
  cf_asked :: nat
  cf_settled :: "(nat \<times> bool) list"

definition confirmer_start :: confirmer where
  "confirmer_start = \<lparr>cf_open = None, cf_asked = 0, cf_settled = []\<rparr>"

definition ask :: "confirmer \<Rightarrow> confirmer" where
  "ask s = s\<lparr>cf_open := Some (cf_asked s), cf_asked := Suc (cf_asked s)\<rparr>"

definition close_dialog :: "bool \<Rightarrow> confirmer \<Rightarrow> confirmer" where
  "close_dialog v s = s\<lparr>cf_settled := (case cf_open s of None \<Rightarrow> cf_settled s | Some k \<Rightarrow> cf_settled s @ [(k, v)]),
     cf_open := None\<rparr>"

inductive confirm_reach :: "confirmer \<Rightarrow> bool" where
  cf_start: "confirm_reach confirmer_start"
| cf_ask: "confirm_reach s \<Longrightarrow> confirm_reach (ask s)"
| cf_close: "confirm_reach s \<Longrightarrow> confirm_reach (close_dialog v s)"

inductive confirm_modal :: "confirmer \<Rightarrow> bool" where \<comment> \<open>nothing is asked while a question is open\<close>
  cm_start: "confirm_modal confirmer_start"
| cm_ask: "confirm_modal s \<Longrightarrow> cf_open s = None \<Longrightarrow> confirm_modal (ask s)"
| cm_close: "confirm_modal s \<Longrightarrow> confirm_modal (close_dialog v s)"

section \<open>Language and theme\<close>

record frame =
  fr_lang :: string
  fr_stored_lang :: "string option"
  fr_document_lang :: string
  fr_theme :: string
  fr_document_theme :: string
  fr_stored_theme :: "string option"
  fr_sidebarOpen :: bool
  fr_sidebarCollapsed :: bool

definition lang_effect :: "frame \<Rightarrow> frame" where
  "lang_effect s = s\<lparr>fr_document_lang := (if fr_lang s = ''en'' then ''en'' else ''zh-CN'')\<rparr>"

text \<open>The page sets the theme of the document from the storage before the application starts (\<^verbatim>\<open>index.html\<close>).\<close>

definition frame_start :: "string option \<Rightarrow> string option \<Rightarrow> frame" where
  "frame_start lang theme = lang_effect
     \<lparr>fr_lang = str_or (ostr lang) ''zh'', fr_stored_lang = lang, fr_document_lang = ''zh-CN'',
      fr_theme = str_or (str_or (ostr theme) ''light'') ''light'', fr_document_theme = str_or (ostr theme) ''light'',
      fr_stored_theme = theme, fr_sidebarOpen = False, fr_sidebarCollapsed = False\<rparr>"

definition setLang :: "string \<Rightarrow> frame \<Rightarrow> frame" where
  "setLang next_lang s = lang_effect (s\<lparr>fr_stored_lang := Some next_lang, fr_lang := next_lang\<rparr>)"

definition toggleLang :: "frame \<Rightarrow> frame" where
  "toggleLang s = setLang (if fr_lang s = ''zh'' then ''en'' else ''zh'') s"

definition toggleTheme :: "frame \<Rightarrow> frame" where
  "toggleTheme s = (let n = (if fr_theme s = ''dark'' then ''light'' else ''dark'')
     in s\<lparr>fr_document_theme := n, fr_stored_theme := Some n, fr_theme := n\<rparr>)"

definition dict_of :: "string \<Rightarrow> (string \<times> string) list option" where
  "dict_of lang = (if lang = ''zh'' then Some dict_zh else if lang = ''en'' then Some dict_en else None)"

definition keyed_text :: "string \<Rightarrow> string \<Rightarrow> string option" where \<comment> \<open>\<open>None\<close> is the \<^verbatim>\<open>TypeError\<close> of an unknown language\<close>
  "keyed_text lang key = (case dict_of lang of None \<Rightarrow> None | Some d \<Rightarrow> Some (str_or (ostr (map_of d key)) key))"

definition status_badge :: "string \<Rightarrow> bool \<Rightarrow> string option \<Rightarrow> string option" where \<comment> \<open>the text of the badge; its children replace it\<close>
  "status_badge lang on children = (if ostr children \<noteq> [] then children
     else keyed_text lang (if on then ''enabled'' else ''disabled''))"

section \<open>The layout\<close>

definition navItems :: "(string \<times> string) list" where \<comment> \<open>the address and the key of the label\<close>
  "navItems = [(''/'', ''overview''), (''/inbounds'', ''inbounds''), (''/outbounds'', ''outbounds''), (''/core'', ''core''),
     (''/routing'', ''routing''), (''/topology'', ''topology''), (''/settings'', ''settings'')]"

datatype page = LoginView | OverviewView | InboundsView | OutboundsView | RoutingView | TopologyView | CoreView core_name | SettingsView

datatype routed = Shows page | Redirects string

definition app_route :: "string \<Rightarrow> routed" where
  "app_route path =
     (if path = ''/login'' then Shows LoginView
      else if path = ''/'' then Shows OverviewView
      else if path = ''/inbounds'' then Shows InboundsView
      else if path = ''/outbounds'' then Shows OutboundsView
      else if path = ''/routing'' then Shows RoutingView
      else if path = ''/topology'' then Shows TopologyView
      else if path = ''/core'' then Redirects ''/core/xray''
      else if path = ''/core/xray'' then Shows (CoreView Xray)
      else if path = ''/core/singbox'' then Shows (CoreView SingBox)
      else if path = ''/xray'' then Redirects ''/core/xray''
      else if path = ''/singbox'' then Redirects ''/core/singbox''
      else if path = ''/settings'' then Shows SettingsView
      else Redirects ''/'')"

primrec follow_routes :: "nat \<Rightarrow> string \<Rightarrow> page option" where \<comment> \<open>at most this many redirections\<close>
  "follow_routes 0 path = None"
| "follow_routes (Suc n) path = (case app_route path of Shows p \<Rightarrow> Some p | Redirects q \<Rightarrow> follow_routes n q)"

datatype layout_event = MenuOpened | MenuClosed | NavClicked string | Collapsed | ThemeToggled | LangToggled

definition layout_step :: "layout_event \<Rightarrow> frame \<Rightarrow> frame" where
  "layout_step e s = (case e of
       MenuOpened \<Rightarrow> s\<lparr>fr_sidebarOpen := True\<rparr>
     | MenuClosed \<Rightarrow> s\<lparr>fr_sidebarOpen := False\<rparr>
     | NavClicked to \<Rightarrow> s\<lparr>fr_sidebarOpen := False\<rparr>
     | Collapsed \<Rightarrow> s\<lparr>fr_sidebarCollapsed := \<not> fr_sidebarCollapsed s\<rparr>
     | ThemeToggled \<Rightarrow> toggleTheme s
     | LangToggled \<Rightarrow> toggleLang s)"

definition logout_answered :: "string \<Rightarrow> failure + unit \<Rightarrow> (string option \<times> (string \<times> tone) option) option" where
  "logout_answered lang answer = (case answer of
       Inr _ \<Rightarrow> Some (Some ''/login'', None)
     | Inl e \<Rightarrow> map_option (\<lambda>m. (None, Some (m, ToneError))) (keyed_text lang ''logoutFailed''))"

definition page_visible :: "bool list \<Rightarrow> bool \<Rightarrow> bool" where \<comment> \<open>the hidden states announced so far, and the first one\<close>
  "page_visible changes hidden = (\<not> last (hidden # changes))"

section \<open>A button that is busy\<close>

datatype button_child = Plain string | Html "string option" | Component "string option" | Spinner
  \<comment> \<open>text, an element of the page and a component, both with a class; the spinner\<close>

definition word_char :: "char \<Rightarrow> bool" where \<comment> \<open>\<^verbatim>\<open>\w\<close>\<close>
  "word_char c = (let n = of_char c :: nat in 48 \<le> n \<and> n \<le> 57 \<or> 65 \<le> n \<and> n \<le> 90 \<or> n = 95 \<or> 97 \<le> n \<and> n \<le> 122)"

primrec word_from :: "string \<Rightarrow> bool \<Rightarrow> string \<Rightarrow> bool" where
  \<comment> \<open>\<^verbatim>\<open>\b\<close>, the word, \<^verbatim>\<open>\b\<close>; the flag says whether a word character precedes\<close>
  "word_from w before [] = False"
| "word_from w before (c # s) = (\<not> before \<and> prefix w (c # s) \<and> (case drop (length w) (c # s) of [] \<Rightarrow> True | d # t \<Rightarrow> \<not> word_char d)
     \<or> word_from w (word_char c) s)"

definition isReplaceableButtonIcon :: "button_child \<Rightarrow> bool" where
  "isReplaceableButtonIcon child = (case child of
       Component (Some cls) \<Rightarrow> word_from ''h-4'' False cls \<and> word_from ''w-4'' False cls
     | Spinner \<Rightarrow> True
     | _ \<Rightarrow> False)"

primrec replace_first :: "('a \<Rightarrow> bool) \<Rightarrow> 'a \<Rightarrow> 'a list \<Rightarrow> 'a list option" where
  "replace_first P y [] = None"
| "replace_first P y (x # xs) = (if P x then Some (y # xs) else map_option (Cons x) (replace_first P y xs))"

definition spinnerButtonLoadingContent :: "button_child list \<Rightarrow> button_child list" where
  "spinnerButtonLoadingContent items = (case replace_first isReplaceableButtonIcon Spinner items of
       None \<Rightarrow> Spinner # items
     | Some new \<Rightarrow> new)"

definition spinner_button :: "bool \<Rightarrow> bool \<Rightarrow> button_child list \<Rightarrow> bool \<times> button_child list" where \<comment> \<open>disabled, and what it shows\<close>
  "spinner_button disabled loading children =
     (disabled \<or> loading, if loading then spinnerButtonLoadingContent children else children)"

section \<open>The clipboard\<close>

text \<open>
  The answer of the browser: whether it has the asynchronous interface and accepts, and what \<^verbatim>\<open>execCommand\<close>
  returns (\<open>None\<close>: it throws). The body of the document is the list of its children.
\<close>

definition copyToClipboard :: "bool \<Rightarrow> bool \<Rightarrow> bool option \<Rightarrow> string \<Rightarrow> string list \<Rightarrow> (string + unit) \<times> string list \<times> string option" where
  "copyToClipboard has_api accepts exec value body =
     (if has_api \<and> accepts then (Inr (), body, Some value)
      else (let with_textarea = body @ [''textarea'']; removed = butlast with_textarea
            in case exec of
                 None \<Rightarrow> (Inl ''exec'', removed, None)
               | Some copied \<Rightarrow> if copied then (Inr (), removed, Some value) else (Inl ''copy_command_failed'', removed, None)))"

definition copyText :: "bool \<Rightarrow> bool \<Rightarrow> bool option \<Rightarrow> string \<Rightarrow> string \<Rightarrow> (string \<Rightarrow> string) \<Rightarrow> string \<times> tone" where
  "copyText has_api accepts exec value title tr =
     (case fst (copyToClipboard has_api accepts exec value []) of
        Inr _ \<Rightarrow> (title, ToneSuccess)
      | Inl _ \<Rightarrow> (tr zh_fr_copy_failed, ToneError))"

definition copyNodeLink :: "(string \<Rightarrow> failure + string) \<Rightarrow> bool \<Rightarrow> bool \<Rightarrow> bool option \<Rightarrow> client \<Rightarrow> (string \<Rightarrow> string) \<Rightarrow> string \<times> tone" where
  "copyNodeLink link has_api accepts exec cl tr = (case link (shareToken cl) of
       Inl e \<Rightarrow> (tr zh_fr_link_failed, ToneError)
     | Inr value \<Rightarrow> copyText has_api accepts exec value (tr zh_fr_link_copied) tr)"

text \<open>\<open>qr\<close> is the drawing library; it fails on a text that is too long.\<close>

definition showClientQRCode :: "(string \<Rightarrow> failure + string) \<Rightarrow> (string \<Rightarrow> string option) \<Rightarrow> client \<Rightarrow> (string \<Rightarrow> string)
    \<Rightarrow> (string \<times> tone) + (string \<times> string \<times> string)" where
  "showClientQRCode link qr cl tr = (case link (shareToken cl) of
       Inl e \<Rightarrow> Inl (tr zh_fr_qr_failed, ToneError)
     | Inr value \<Rightarrow> (case qr value of
         None \<Rightarrow> Inl (tr zh_fr_qr_failed, ToneError)
       | Some url \<Rightarrow> Inr (cl_email cl, value, url)))"

end
