(* ===== verification/FrameProps.thy ===== *)
theory FrameProps
  imports Frame
begin

text \<open>
  What the frame guarantees: a message is on the screen no longer than its time, each question of a page is answered, language
  and theme survive a reload, every address of the application ends on a page, and copying leaves the document as it was.
\<close>

section \<open>Messages go away\<close>

lemma remove_toast_fields [simp]:
  "ts_items (remove_toast i s) = filter (\<lambda>(j, t). j \<noteq> i) (ts_items s)"
  "ts_timers (remove_toast i s) = ts_timers s" "ts_followed (remove_toast i s) = ts_followed s"
  by (simp_all add: remove_toast_def)

lemma remove_all:
  "ts_items (fold remove_toast is s) = filter (\<lambda>(j, t). j \<notin> set is) (ts_items s)"
  "ts_timers (fold remove_toast is s) = ts_timers s"
  by (induction "is" arbitrary: s) (auto simp: case_prod_unfold intro: filter_cong)

lemma time_passes_fields:
  "ts_items (time_passes now s) = filter (\<lambda>(j, t). j \<notin> snd ` set (filter (\<lambda>(due, i). due \<le> now) (ts_timers s))) (ts_items s)"
  "ts_timers (time_passes now s) = filter (\<lambda>(due, i). now < due) (ts_timers s)"
  by (simp_all add: time_passes_def remove_all)

definition timed :: "int \<Rightarrow> toaster \<Rightarrow> bool" where \<comment> \<open>what is shown is removed at the latest at this time\<close>
  "timed latest s \<longleftrightarrow> (\<forall>(i, t) \<in> set (ts_items s). \<exists>due. due \<le> latest \<and> (due, i) \<in> set (ts_timers s))"

lemma timed_step:
  assumes "timed latest s" and "\<And>now i t. e = Shown now i t \<Longrightarrow> now + 3200 \<le> latest"
  shows "timed latest (toast_step e s)"
proof (cases e)
  case (Shown now i t)
  then show ?thesis using assms by (fastforce simp: toast_step_def showToast_def timed_def)
next
  case (Followed i)
  then show ?thesis
    using assms(1) by (auto simp: toast_step_def follow_action_def timed_def split: option.splits)
next
  case (Closed i)
  then show ?thesis using assms(1) by (auto simp: toast_step_def timed_def)
next
  case (Passed now)
  have "\<exists>due. due \<le> latest \<and> now < due \<and> (due, i) \<in> set (ts_timers s)"
    if i: "(i, t) \<in> set (ts_items s)" "i \<notin> snd ` set (filter (\<lambda>(due, i). due \<le> now) (ts_timers s))" for i t
  proof -
    obtain due where due: "due \<le> latest" "(due, i) \<in> set (ts_timers s)" using assms(1) i(1) by (auto simp: timed_def)
    then have "now < due" using i(2) by force
    then show ?thesis using due by blast
  qed
  then show ?thesis
    unfolding timed_def Passed toast_step_def toast_event.case time_passes_fields by fastforce
qed

lemma timed_run:
  "\<forall>e \<in> set es. \<forall>now i t. e = Shown now i t \<longrightarrow> now + 3200 \<le> latest \<Longrightarrow> timed latest s \<Longrightarrow> timed latest (fold toast_step es s)"
proof (induction es arbitrary: s)
  case (Cons e es)
  have "timed latest (toast_step e s)" using Cons.prems by (intro timed_step) auto
  then show ?case using Cons by simp
qed simp

text \<open>
  
  A message stays no longer than 3.2 seconds, whatever else is shown, closed or followed in the meantime: once that time has
  passed since the last message was shown, the screen is empty.
\<close>

theorem toasts_go_away:
  assumes "\<forall>e \<in> set es. \<forall>shown i t. e = Shown shown i t \<longrightarrow> shown + 3200 \<le> now"
  shows "ts_items (toasts_run (es @ [Passed now])) = []"
proof -
  have "timed now (toasts_run es)"
    unfolding toasts_run_def using assms by (intro timed_run) (auto simp: timed_def toaster_start_def)
  then have "\<forall>(i, t) \<in> set (ts_items (toasts_run es)). i \<in> snd ` {x \<in> set (ts_timers (toasts_run es)). case x of (due, i) \<Rightarrow> due \<le> now}"
    by (force simp: timed_def)
  then show ?thesis
    by (simp add: toasts_run_def toast_step_def time_passes_fields filter_empty_conv case_prod_unfold)
qed

theorem toasts_go_away_witness:
  "ts_items (toasts_run ([Shown 0 1 \<lparr>to_title = ''saved'', to_tone = ToneSuccess, to_action = None\<rparr>, Shown 1000 2 \<lparr>to_title = ''failed'', to_tone = ToneError, to_action = None\<rparr>, Closed 1]
     @ [Passed 4200])) = []"
  by (rule toasts_go_away) simp

section \<open>Questions are answered\<close>

lemma confirm_wf: "confirm_reach s \<Longrightarrow> distinct (map fst (cf_settled s)) \<and> (\<forall>k \<in> fst ` set (cf_settled s). k < cf_asked s)
    \<and> (\<forall>k. cf_open s = Some k \<longrightarrow> k < cf_asked s \<and> k \<notin> fst ` set (cf_settled s))"
proof (induction rule: confirm_reach.induct)
  case (cf_ask s)
  then show ?case by (auto simp: ask_def less_Suc_eq)
next
  case (cf_close s v)
  then show ?case by (auto simp: close_dialog_def split: option.splits)
qed (simp add: confirmer_start_def)

lemma modal_reach: "confirm_modal s \<Longrightarrow> confirm_reach s"
  by (induction rule: confirm_modal.induct) (auto intro: confirm_reach.intros)

lemma modal_answered: "confirm_modal s \<Longrightarrow> k < cf_asked s \<Longrightarrow> k \<in> fst ` set (cf_settled s) \<or> cf_open s = Some k"
proof (induction arbitrary: k rule: confirm_modal.induct)
  case (cm_ask s)
  then show ?case by (auto simp: ask_def less_Suc_eq)
next
  case (cm_close s v)
  from cm_close.IH [of k] cm_close.prems show ?case by (auto simp: close_dialog_def split: option.splits)
qed (simp add: confirmer_start_def)

text \<open>
  C39.
  As long as nothing is asked over an open question, every question that was asked is the open one or was answered, and none was
  answered twice; closing the dialog answers the open one with the button pressed.
\<close>

theorem questions_are_answered:
  assumes "confirm_modal s" and "k < cf_asked s"
  shows "distinct (map fst (cf_settled s))
    \<and> (cf_open s = Some k \<longleftrightarrow> k \<notin> fst ` set (cf_settled s))
    \<and> (cf_open s = Some k \<longrightarrow> map_of (cf_settled (close_dialog v s)) k = Some v)"
proof -
  have wf: "distinct (map fst (cf_settled s))" "cf_open s = Some k \<Longrightarrow> k \<notin> fst ` set (cf_settled s)"
    using confirm_wf [OF modal_reach [OF assms(1)]] by blast+
  have "map_of (cf_settled (close_dialog v s)) k = Some v" if k: "cf_open s = Some k"
  proof -
    have "map_of (cf_settled s) k = None" using wf(2) [OF k] by (simp add: map_of_eq_None_iff)
    then show ?thesis by (simp add: close_dialog_def k map_add_Some_iff)
  qed
  then show ?thesis using wf modal_answered [OF assms] by blast
qed

theorem questions_are_answered_witness:
  "cf_open (ask (close_dialog True (ask confirmer_start))) = Some 1
   \<and> map_of (cf_settled (close_dialog False (ask (close_dialog True (ask confirmer_start))))) 1 = Some False"
proof -
  let ?s = "ask (close_dialog True (ask confirmer_start))"
  have "confirm_modal ?s" by (intro cm_ask cm_close cm_start) (simp_all add: confirmer_start_def close_dialog_def)
  moreover have s: "cf_asked ?s = 2" "cf_open ?s = Some 1" by (simp_all add: ask_def close_dialog_def confirmer_start_def)
  ultimately show ?thesis using questions_are_answered [of ?s 1 False] by simp
qed

text \<open>A question that is asked over an open one takes its place, and the first one is never answered.\<close>

inductive later :: "confirmer \<Rightarrow> confirmer \<Rightarrow> bool" where
  later_refl: "later s s"
| later_ask: "later s u \<Longrightarrow> later s (ask u)"
| later_close: "later s u \<Longrightarrow> later s (close_dialog v u)"

lemma replaced_question_is_lost:
  assumes "later (ask (ask confirmer_start)) s"
  shows "0 \<notin> fst ` set (cf_settled s)"
proof -
  have "0 \<notin> fst ` set (cf_settled s) \<and> cf_open s \<noteq> Some 0 \<and> 0 < cf_asked s" using assms
  proof (induction "ask (ask confirmer_start)" s rule: later.induct)
    case later_refl
    then show ?case by (simp add: ask_def confirmer_start_def)
  next
    case (later_ask u)
    then show ?case by (simp add: ask_def)
  next
    case (later_close u v)
    then show ?case by (auto simp: close_dialog_def split: option.splits)
  qed
  then show ?thesis by simp
qed

section \<open>Language and theme\<close>

definition frame_kept :: "frame \<Rightarrow> bool" where
  "frame_kept s \<longleftrightarrow> fr_lang s = str_or (ostr (fr_stored_lang s)) ''zh'' \<and> fr_theme s = str_or (ostr (fr_stored_theme s)) ''light''
     \<and> fr_document_theme s = fr_theme s \<and> fr_document_lang s = (if fr_lang s = ''en'' then ''en'' else ''zh-CN'')"

lemma frame_kept_run: "frame_kept (fold layout_step es (frame_start lang theme))"
proof -
  have start: "frame_kept (frame_start lang theme)" by (simp add: frame_kept_def frame_start_def lang_effect_def)
  have step: "frame_kept s \<Longrightarrow> frame_kept (layout_step e s)" for e s
    by (cases e) (auto simp: frame_kept_def layout_step_def toggleTheme_def toggleLang_def setLang_def lang_effect_def Let_def)
  have "frame_kept s \<Longrightarrow> frame_kept (fold layout_step es s)" for s
    by (induction es arbitrary: s) (simp_all add: step)
  then show ?thesis using start by blast
qed

text \<open>
  
  Whatever is switched in the layout, a reload of the page comes up in the same language and with the same theme, and the
  document is marked with both.
\<close>

theorem reload_keeps_language_and_theme:
  fixes lang theme
  defines "now es \<equiv> fold layout_step es (frame_start lang theme)"
  defines "reloaded es \<equiv> frame_start (fr_stored_lang (now es)) (fr_stored_theme (now es))"
  shows "fr_lang (reloaded es) = fr_lang (now es) \<and> fr_theme (reloaded es) = fr_theme (now es)
    \<and> fr_document_lang (reloaded es) = fr_document_lang (now es) \<and> fr_document_theme (reloaded es) = fr_document_theme (now es)"
  using frame_kept_run [of es lang theme]
  by (simp add: now_def reloaded_def frame_kept_def) (simp add: frame_start_def lang_effect_def)

lemma toggles_undo:
  "fr_theme s \<in> {''light'', ''dark''} \<Longrightarrow> fr_theme (toggleTheme (toggleTheme s)) = fr_theme s"
  "fr_lang s \<in> {''zh'', ''en''} \<Longrightarrow> fr_lang (toggleLang (toggleLang s)) = fr_lang s"
  by (auto simp: toggleTheme_def toggleLang_def setLang_def lang_effect_def Let_def)

section \<open>Keyed texts\<close>

lemma same_keys: "map fst dict_zh = map fst dict_en"
  by (simp add: dict_zh_def dict_en_def)

lemma keyed_text_total: "keyed_text lang key \<noteq> None \<longleftrightarrow> lang \<in> {''zh'', ''en''}"
  by (simp add: keyed_text_def dict_of_def)

text \<open>A language in the storage that the dictionary lacks stops the page at its first keyed text.\<close>

lemma unknown_stored_language_crashes:
  "keyed_text (fr_lang (frame_start (Some ''fr'') theme)) key = None"
  by (simp add: frame_start_def lang_effect_def keyed_text_def dict_of_def)

lemma labels_of_the_menu:
  "list_all (\<lambda>(to, key). key \<in> set (map fst dict_en) \<and> app_route to \<noteq> Redirects ''/'') navItems"
  by (simp add: navItems_def dict_en_def app_route_def)

section \<open>Addresses\<close>

text \<open>
  
  Every address shows a page of the application after at most one redirection, an unknown one the overview; the action that a report offers leads to the page of the core it is about, under both names the server uses for it.
\<close>

theorem addresses_reach_a_page:
  "follow_routes 2 path \<noteq> None
   \<and> follow_routes 2 (coreApplyCorePath core) = Some (CoreView (if toLowerCase (trim core) \<in> {''sing-box'', ''singbox''} then SingBox else Xray))"
proof
  have "\<exists>p. app_route q = Shows p" if "app_route path = Redirects q" for q
  proof -
    have "q \<in> {''/'', ''/core/xray'', ''/core/singbox''}" using that by (auto simp: app_route_def split: if_splits)
    then show ?thesis by (auto simp: app_route_def)
  qed
  then show "follow_routes 2 path \<noteq> None"
    by (cases "app_route path") (auto simp: numeral_2_eq_2)
  show "follow_routes 2 (coreApplyCorePath core)
      = Some (CoreView (if toLowerCase (trim core) \<in> {''sing-box'', ''singbox''} then SingBox else Xray))"
    by (auto simp: coreApplyCorePath_def numeral_2_eq_2 app_route_def Let_def)
qed

section \<open>The clipboard and the busy button\<close>

text \<open>
  Copying leaves the document as it found it, on every branch; the message says success exactly when the value is on the
  clipboard; and a link that could not be fetched is neither copied nor drawn.
\<close>

lemma copying_is_honest:
  "fst (snd (copyToClipboard api accepts exec v body)) = body
   \<and> (snd (copyText api accepts exec v title tr) = ToneSuccess \<longleftrightarrow> snd (snd (copyToClipboard api accepts exec v body)) = Some v)
   \<and> (link (shareToken cl) = Inl e \<longrightarrow> snd (copyNodeLink link api accepts exec cl tr) = ToneError
        \<and> (\<exists>m. showClientQRCode link qr cl tr = Inl (m, ToneError)))"
  by (auto simp: copyToClipboard_def copyText_def copyNodeLink_def showClientQRCode_def Let_def split: option.splits)

text \<open>A busy button shows one spinner, in the place of its icon if it has one, and keeps the rest.\<close>

lemma replace_first_parts:
  "replace_first P y xs = Some ys \<Longrightarrow> \<exists>us x vs. xs = us @ x # vs \<and> ys = us @ y # vs \<and> P x \<and> list_all (\<lambda>u. \<not> P u) us"
proof (induction xs arbitrary: ys)
  case (Cons z xs)
  show ?case
  proof (cases "P z")
    case True
    then show ?thesis using Cons.prems by (intro exI [of _ "[]"]) auto
  next
    case False
    then obtain zs where zs: "replace_first P y xs = Some zs" "ys = z # zs" using Cons.prems by auto
    obtain us x vs where "xs = us @ x # vs" "zs = us @ y # vs" "P x" "list_all (\<lambda>u. \<not> P u) us"
      using Cons.IH [OF zs(1)] by blast
    then show ?thesis using zs(2) False by (intro exI [of _ "z # us"]) auto
  qed
qed simp

lemma replace_first_none: "replace_first P y xs = None \<longleftrightarrow> list_all (\<lambda>x. \<not> P x) xs"
  by (induction xs) auto

lemma busy_button:
  "(\<exists>us x vs. items = us @ x # vs \<and> isReplaceableButtonIcon x \<and> spinnerButtonLoadingContent items = us @ Spinner # vs)
   \<or> list_all (\<lambda>x. \<not> isReplaceableButtonIcon x) items \<and> spinnerButtonLoadingContent items = Spinner # items"
  using replace_first_none [of isReplaceableButtonIcon Spinner items] replace_first_parts [of isReplaceableButtonIcon Spinner items]
  by (cases "replace_first isReplaceableButtonIcon Spinner items") (fastforce simp: spinnerButtonLoadingContent_def)+

lemma class_words:
  "isReplaceableButtonIcon (Component (Some ''h-4 w-4'')) \<and> isReplaceableButtonIcon (Component (Some ''max-h-4 w-4''))
   \<and> \<not> isReplaceableButtonIcon (Component (Some ''h-40 w-4'')) \<and> \<not> isReplaceableButtonIcon (Html (Some ''h-4 w-4''))"
  by (simp add: isReplaceableButtonIcon_def word_char_def)

end
