(* ===== verification/RoutingView.thy ===== *)
theory RoutingView
  imports RoutingProps
begin

text \<open>
  \<^verbatim>\<open>src/web/src/routes/RoutingPage.tsx\<close>, what the page shows and which of its controls can be used: the
  state of the page (the number and the size of the page, the rule that is edited), the cards of the rules with
  the moves they offer, the pager, the summary of the draft and the three pickers of the dialog. The list of the
  rules is the one the query answered last.
\<close>

section \<open>Texts\<close>

text \<open>The non-ASCII texts of this part of the user interface, as UTF-8 bytes.\<close>

definition zh_rule_list :: string where
  "zh_rule_list = [CHR 0xE8, CHR 0xA7, CHR 0x84, CHR 0xE5, CHR 0x88, CHR 0x99, CHR 0xE5, CHR 0x88, CHR 0x97, CHR 0xE8,
    CHR 0xA1, CHR 0xA8]"

definition zh_in_total :: string where
  "zh_in_total = [CHR 0xE5, CHR 0x85, CHR 0xB1]"

definition zh_pieces_of_list :: string where
  "zh_pieces_of_list = [CHR 0xE6, CHR 0x9D, CHR 0xA1]"

definition zh_currently :: string where
  "zh_currently = [CHR 0xE5, CHR 0xBD, CHR 0x93, CHR 0xE5, CHR 0x89, CHR 0x8D]"

definition zh_match_value_word :: string where
  "zh_match_value_word = [CHR 0xE5, CHR 0x8C, CHR 0xB9, CHR 0xE9, CHR 0x85, CHR 0x8D, CHR 0xE5, CHR 0x80, CHR 0xBC]"

definition zh_rv_colon :: string where
  "zh_rv_colon = [CHR 0xEF, CHR 0xBC, CHR 0x9A]"

lemmas texts_RoutingView =
  zh_rule_list_def zh_in_total_def zh_pieces_of_list_def zh_currently_def zh_match_value_word_def
  zh_rv_colon_def

lemma texts_nonempty_RoutingView [simp]:
  "zh_rule_list \<noteq> []" "zh_in_total \<noteq> []" "zh_pieces_of_list \<noteq> []" "zh_currently \<noteq> []"
  "zh_match_value_word \<noteq> []" "zh_rv_colon \<noteq> []"
  by (simp_all add: texts_RoutingView)

section \<open>The state of the page\<close>

record rules_page =
  rp_rules :: "routing_rule list"
  rp_editing :: "routing_rule option"
  rp_page :: int
  rp_pageSize :: int

definition rules_page_start :: rules_page where
  "rules_page_start = \<lparr>rp_rules = [], rp_editing = None, rp_page = 1, rp_pageSize = ROUTING_PAGE_SIZES ! 0\<rparr>"

definition page_state :: "rules_page \<Rightarrow> routing_rule page_window" where
  "page_state st = routingPageWindow (rp_rules st) (rp_page st) (rp_pageSize st)"

definition pager_previous :: "'a page_window \<Rightarrow> int option" where
  "pager_previous w = (if pw_page w \<le> 1 then None else Some (pw_page w - 1))"

definition pager_next :: "'a page_window \<Rightarrow> int option" where
  "pager_next w = (if pw_page w \<ge> pw_totalPages w then None else Some (pw_page w + 1))"

definition pagers_shown :: "rules_page \<Rightarrow> bool \<times> bool" where \<comment> \<open>above the list, and the compact one below it\<close>
  "pagers_shown st = (rp_rules st \<noteq> [], int (length (rp_rules st)) > pw_pageSize (page_state st))"

definition pager_copy :: "'a page_window \<Rightarrow> (string \<Rightarrow> string) \<Rightarrow> string \<times> string" where
  "pager_copy w tr = (tr zh_rule_list,
     tr zh_in_total @ '' '' @ int_str (pw_total w) @ '' '' @ tr zh_pieces_of_list @ zh_wide_comma @ tr zh_currently @ '' ''
       @ int_str (pw_start w) @ ''-'' @ int_str (pw_end w))"

datatype rules_event =
    RulesArrived "routing_rule list"
  | PreviousPage
  | NextPage
  | SizeChosen int
  | NewRule "outbound list"
  | EditRule routing_rule
  | ModalClosed

fun rules_step :: "rules_event \<Rightarrow> rules_page \<Rightarrow> rules_page" where
  "rules_step (RulesArrived rules) st = st\<lparr>rp_rules := rules\<rparr>"
| "rules_step PreviousPage st = (case pager_previous (page_state st) of None \<Rightarrow> st | Some p \<Rightarrow> st\<lparr>rp_page := p\<rparr>)"
| "rules_step NextPage st = (case pager_next (page_state st) of None \<Rightarrow> st | Some p \<Rightarrow> st\<lparr>rp_page := p\<rparr>)"
| "rules_step (SizeChosen n) st = (if n \<in> set ROUTING_PAGE_SIZES then st\<lparr>rp_pageSize := n, rp_page := 1\<rparr> else st)"
| "rules_step (NewRule outbounds) st =
     (case newRoutingRuleDraft outbounds of None \<Rightarrow> st | Some draft \<Rightarrow> st\<lparr>rp_editing := Some draft\<rparr>)"
| "rules_step (EditRule rule) st = st\<lparr>rp_editing := Some rule\<rparr>"
| "rules_step ModalClosed st = st\<lparr>rp_editing := None\<rparr>"

definition rules_run :: "rules_event list \<Rightarrow> rules_page" where
  "rules_run events = fold rules_step events rules_page_start"

section \<open>The cards\<close>

definition shown_cards :: "rules_page \<Rightarrow> (int \<times> routing_rule) list" where
  "shown_cards st =
     (let w = page_state st in map (\<lambda>(k, item). (pw_startIndex w + int k, item)) (enumerate 0 (pw_items w)))"

definition missingClient :: "routing_rule \<Rightarrow> inbound list \<Rightarrow> bool" where
  "missingClient item inbounds \<longleftrightarrow>
     rr_num (rr_client_id item) > 0 \<and> findClientById inbounds (rr_num (rr_client_id item)) = None"

definition tag_label :: "condition_tag \<Rightarrow> string" where
  "tag_label t = (case t of DomainTag v \<Rightarrow> ''domain'' | IpTag v \<Rightarrow> ''ip'' | ProtocolTag v \<Rightarrow> ''protocol''
     | RuleSetTag v \<Rightarrow> ''rule_set'' | CatchAll \<Rightarrow> ''match'')"

record rule_card =
  rc_number :: string
  rc_type :: string
  rc_missing :: "string option"
  rc_title :: string
  rc_conditions :: "(string \<times> string) list"
  rc_technical :: "(string \<times> string) list"
  rc_moves :: "int list"

definition RoutingRuleCard ::
  "routing_rule \<Rightarrow> int \<Rightarrow> int \<Rightarrow> inbound list \<Rightarrow> outbound list \<Rightarrow> (string \<Rightarrow> string) \<Rightarrow> rule_card" where
  "RoutingRuleCard item index n inbounds outbounds tr =
     \<lparr>rc_number = ''#'' @ int_str (index + 1),
      rc_type = tr (ruleTypeLabel item),
      rc_missing = (if missingClient item inbounds then Some (tr zh_client_gone) else None),
      rc_title = ruleTitle item tr inbounds outbounds,
      rc_conditions = map (\<lambda>t. (tr (tag_label t), if t = CatchAll then tr (tag_value t) else tag_value t)) (conditionTags item),
      rc_technical = map (\<lambda>(label, v). (tr label, str_or v ''-'')) (ruleTechnicalMeta item inbounds outbounds tr),
      rc_moves = offered_moves index n\<rparr>"

section \<open>The dialog\<close>

record route_summary =
  rs_inbound :: string
  rs_client :: string
  rs_muted :: bool \<comment> \<open>the step of the client is greyed out\<close>
  rs_hint :: "string option"
  rs_outbound :: string
  rs_condition :: string
  rs_badges :: "string list"

definition RouteSummary ::
  "routing_rule \<Rightarrow> inbound list \<Rightarrow> outbound list \<Rightarrow> (string \<Rightarrow> string) \<Rightarrow> summary_status \<Rightarrow> string \<Rightarrow> bool \<Rightarrow> route_summary" where
  "RouteSummary rule inbounds outbounds tr status core enabled =
     (let hint = clientRouteHint rule inbounds
      in \<lparr>rs_inbound = str_or (readableInboundName rule inbounds tr) (tr zh_all_inbounds),
          rs_client = (if rr_num (rr_client_id rule) > 0 then readableClientName rule inbounds tr else tr zh_no_client_chosen),
          rs_muted = (\<not> rr_num (rr_client_id rule) > 0),
          rs_hint = (if hint \<noteq> [] then Some (tr zh_match_value_word @ zh_rv_colon @ hint) else None),
          rs_outbound = str_or (readableOutboundName rule outbounds) (str_or (rr_outbound_tag rule) (tr zh_no_outbound_chosen)),
          rs_condition = summaryCondition rule tr,
          rs_badges = [tr (sy_ruleType status), tr (sy_label status), tr core, tr (if enabled then zh_is_enabled else zh_is_disabled)]\<rparr>)"

definition visibleDiagnostics :: "routing_rule \<Rightarrow> inbound list \<Rightarrow> outbound list \<Rightarrow> (diag_tone \<times> string) list" where
  "visibleDiagnostics draft inbounds outbounds =
     filter (\<lambda>d. fst d = DiagError \<or> fst d = DiagWarning) (routingDiagnostics draft inbounds outbounds)"

definition RoutingDiagnosticsPanel :: "(diag_tone \<times> string) list \<Rightarrow> (string \<Rightarrow> string) \<Rightarrow> (bool \<times> string) list" where \<comment> \<open>with the check mark, or the warning sign\<close>
  "RoutingDiagnosticsPanel items tr = map (\<lambda>(tone, message). (tone = DiagOk, tr message)) items"

definition InboundPicker :: "inbound_option list \<Rightarrow> int \<Rightarrow> string \<Rightarrow> string \<Rightarrow> nat \<times> (inbound_option \<times> bool) list" where \<comment> \<open>the count, and the rows with the mark\<close>
  "InboundPicker options v fallbackTag query =
     (length (filter (\<lambda>item. io_value item \<noteq> []) options),
      map (\<lambda>opt. (opt, inboundOptionMatches opt v fallbackTag)) (filter_options io_search options query))"

definition selectedClientOption :: "client_option list \<Rightarrow> int \<Rightarrow> client_option option" where
  "selectedClientOption options v = find (\<lambda>opt. co_id opt = v) options"

definition ClientPicker ::
  "client_option list \<Rightarrow> int \<Rightarrow> string \<Rightarrow> string \<Rightarrow> (string \<Rightarrow> string) \<Rightarrow> string \<times> (client_option \<times> bool) list" where
  "ClientPicker options v missingLabel query tr =
     (str_or missingLabel (tr zh_rt_client @ '' '' @ int_str (max (int (length options) - 1) 0)),
      map (\<lambda>opt. (opt, co_id opt = v)) (filter_options co_search options query))"

definition OutboundPicker :: "outbound_option list \<Rightarrow> int \<Rightarrow> string \<Rightarrow> nat \<times> (outbound_option \<times> bool \<times> bool) list" where \<comment> \<open>with the mark, and whether the row can be used\<close>
  "OutboundPicker options v query =
     (length options, map (\<lambda>opt. (opt, oo_id opt = v, \<not> oo_disabled opt)) (filter_options oo_search options query))"


section \<open>The pages\<close>

lemma page_state_simps:
  "pw_page (page_state st) = min (max 1 (rp_page st)) (page_count (rp_rules st) (rp_pageSize st))"
  "pw_totalPages (page_state st) = page_count (rp_rules st) (rp_pageSize st)"
  by (simp_all add: page_state_def window_fields)

lemma page_state_bounds: "1 \<le> pw_page (page_state st)" "pw_page (page_state st) \<le> pw_totalPages (page_state st)"
  using page_count_pos [of "rp_rules st" "rp_pageSize st"] by (simp_all add: page_state_simps)

lemma window_end: "pw_end (routingPageWindow items page s) =
    min (pw_startIndex (routingPageWindow items page s) + page_size s) (int (length items))"
  by (simp only: routingPageWindow_eq Let_def page_window.simps)

lemma window_clamped: "routingPageWindow items (min (max 1 page) (page_count items s)) s = routingPageWindow items page s"
proof -
  have "min (max 1 (min (max 1 page) (page_count items s))) (page_count items s) = min (max 1 page) (page_count items s)"
    using page_count_pos [of items s] by simp
  then show ?thesis unfolding routingPageWindow_eq by (simp only:)
qed

lemma page_start: "rp_rules st \<noteq> [] \<Longrightarrow> pw_startIndex (page_state st) = (pw_page (page_state st) - 1) * page_size (rp_pageSize st)"
  by (simp add: page_state_def window_start)

lemma page_end: "pw_end (page_state st) =
    min (pw_startIndex (page_state st) + page_size (rp_pageSize st)) (int (length (rp_rules st)))"
  by (simp add: page_state_def window_end)

lemma page_items:
  "pw_items (page_state st) =
     take (nat (page_size (rp_pageSize st))) (drop (nat (pw_page (page_state st) - 1) * nat (page_size (rp_pageSize st))) (rp_rules st))"
  by (simp add: page_state_def window_items page_slice_def)


lemma set_shown_cards:
  "(index, item) \<in> set (shown_cards st) \<longleftrightarrow>
     (\<exists>k < length (pw_items (page_state st)). index = pw_startIndex (page_state st) + int k \<and> item = pw_items (page_state st) ! k)"
  by (force simp: shown_cards_def Let_def in_set_enumerate_eq)

lemma shown_cards_Nil [simp]: "shown_cards st = [] \<longleftrightarrow> pw_items (page_state st) = []"
  by (simp add: shown_cards_def Let_def enumerate_eq_zip)

lemma card_position:
  assumes "(index, item) \<in> set (shown_cards st)"
  shows "0 \<le> index" and "index < int (length (rp_rules st))" and "rp_rules st ! nat index = item"
proof -
  let ?w = "page_state st"
  define n where "n = nat (page_size (rp_pageSize st))"
  define start where "start = nat (pw_page ?w - 1) * n"
  obtain k where k: "k < length (pw_items ?w)" "index = pw_startIndex ?w + int k" "item = pw_items ?w ! k"
    using assms by (auto simp: set_shown_cards)
  have items: "pw_items ?w = take n (drop start (rp_rules st))" by (simp add: page_items n_def start_def)
  then have "rp_rules st \<noteq> []" using k(1) by auto
  then have "pw_startIndex ?w = (pw_page ?w - 1) * page_size (rp_pageSize st)" by (rule page_start)
  then have "pw_startIndex ?w = int start"
    using page_state_bounds(1) [of st] page_size_pos [of "rp_pageSize st"] by (simp add: start_def n_def)
  then have index: "index = int (start + k)" using k(2) by simp
  have "start + k < length (rp_rules st)" "item = rp_rules st ! (start + k)"
    using k(1,3) by (auto simp: items)
  then show "0 \<le> index" "index < int (length (rp_rules st))" "rp_rules st ! nat index = item"
    unfolding index nat_int by simp_all
qed

text \<open>
  
  A card shows the rule at the position its number announces, on every page and for every page size, and a
  move that its buttons offer sends an order in which this rule and its neighbour have changed places and no
  rule is lost; the position passed on is that of the whole list, not that of the page.
\<close>

theorem shown_card_moves_its_rule:
  assumes "(index, item) \<in> set (shown_cards st)"
    and "delta \<in> set (rc_moves (RoutingRuleCard item index (int (length (rp_rules st))) inbounds outbounds tr))"
  shows "rp_rules st ! nat index = item
    \<and> (\<exists>ids. movedRoutingRuleIds (rp_rules st) index delta = Some ids \<and> mset ids = mset (map rr_id (rp_rules st))
         \<and> ids ! nat (index + delta) = rr_id item \<and> ids ! nat index = rr_id (rp_rules st ! nat (index + delta)))"
proof -
  note pos = card_position [OF assms(1)]
  have "delta \<in> set (offered_moves index (int (length (rp_rules st))))"
    using assms(2) by (simp add: RoutingRuleCard_def)
  from rules_mover.offered_move_exchanges [OF pos(1,2) this] rules_mover.moved_mset [OF pos(1,2), of delta]
  show ?thesis using pos(3) by auto
qed

definition rules_page_of :: "int \<Rightarrow> rules_page" where \<comment> \<open>twelve rules, page \<open>n\<close>\<close>
  "rules_page_of n = \<lparr>rp_rules = map (\<lambda>k. sample_rule\<lparr>rr_id := k\<rparr>) [1..12], rp_editing = None, rp_page = n, rp_pageSize = 10\<rparr>"

theorem shown_card_moves_its_rule_witness:
  "\<exists>ids. movedRoutingRuleIds (rp_rules (rules_page_of 2)) 10 (-1) = Some ids \<and> ids ! 9 = 11 \<and> ids ! 10 = 10"
proof -
  have rules: "rp_rules (rules_page_of 2) = map (\<lambda>k. sample_rule\<lparr>rr_id := k\<rparr>) [1, 2, 3, 4, 5, 6, 7, 8, 9, 10, 11, 12]"
    by (simp add: rules_page_of_def upto_rec1)
  have "(10, sample_rule\<lparr>rr_id := 11\<rparr>) \<in> set (shown_cards (rules_page_of 2))"
    by (simp add: set_shown_cards page_items page_start page_state_simps page_size_def page_count_def ceil_div_def
        ROUTING_PAGE_SIZES_def rules) (simp add: rules_page_of_def)
  moreover have "length (rp_rules (rules_page_of 2)) = 12" "rp_rules (rules_page_of 2) ! 9 = sample_rule\<lparr>rr_id := 10\<rparr>"
    by (simp_all add: rules)
  ultimately show ?thesis
    using shown_card_moves_its_rule [of 10 "sample_rule\<lparr>rr_id := 11\<rparr>" "rules_page_of 2" "-1" "[]" "[]" id]
    by (auto simp: RoutingRuleCard_def offered_moves_def)
qed

lemma page_shows_rules:
  assumes "rp_rules st \<noteq> []"
  shows "pw_items (page_state st) \<noteq> []"
proof -
  let ?p = "pw_page (page_state st)" and ?n = "page_size (rp_pageSize st)"
  have "?p \<le> page_count (rp_rules st) (rp_pageSize st)" using page_state_bounds(2) [of st] by (simp add: page_state_simps)
  then have "?n * (?p - 1) \<le> ?n * (page_count (rp_rules st) (rp_pageSize st) - 1)"
    using page_size_pos [of "rp_pageSize st"] by (intro mult_left_mono) auto
  then have "?n * (?p - 1) < int (length (rp_rules st))"
    using page_count_bounds(2) [OF assms, of "rp_pageSize st"] by linarith
  then have "nat (?p - 1) * nat ?n < length (rp_rules st)"
    using page_state_bounds(1) [of st] page_size_pos [of "rp_pageSize st"]
    by (simp add: nat_mult_distrib [symmetric] mult.commute zless_nat_eq_int_zless nat_less_iff)
  then show ?thesis using page_size_pos [of "rp_pageSize st"] by (simp add: page_items)
qed

lemma next_page_start:
  assumes "rp_rules st \<noteq> []" and "pw_page (page_state st) < pw_totalPages (page_state st)"
  shows "pw_end (page_state st) = pw_page (page_state st) * page_size (rp_pageSize st)"
proof -
  let ?p = "pw_page (page_state st)" and ?n = "page_size (rp_pageSize st)"
  have "?n * ?p \<le> ?n * (page_count (rp_rules st) (rp_pageSize st) - 1)"
    using assms(2) page_size_pos [of "rp_pageSize st"] by (intro mult_left_mono) (auto simp: page_state_simps(2))
  then have "?n * ?p < int (length (rp_rules st))"
    using page_count_bounds(2) [OF assms(1), of "rp_pageSize st"] by linarith
  then show ?thesis using assms(1) by (simp add: page_end page_start algebra_simps)
qed

text \<open>
  C13.
  Whatever happened to the page and to the list before, as long as there are rules some of them are shown; the next
  button leads to the page that starts where this one ends, which shows rules and whose back button returns to
  this page; where there is no next button, the last rule of the list is the last one shown.
\<close>

theorem pager_walks_the_list:
  assumes "rp_rules (rules_run events) \<noteq> []"
  shows "let st = rules_run events; st' = rules_step NextPage st in
    shown_cards st \<noteq> [] \<and> shown_cards st' \<noteq> []
    \<and> (if pager_next (page_state st) = None then pw_end (page_state st) = int (length (rp_rules st))
       else pw_startIndex (page_state st') = pw_end (page_state st)
            \<and> page_state (rules_step PreviousPage st') = page_state st)"
proof -
  define st where "st = rules_run events"
  define st' where "st' = rules_step NextPage st"
  have rules: "rp_rules st \<noteq> []" using assms by (simp add: st_def)
  let ?p = "pw_page (page_state st)"
  have kept: "rp_rules st' = rp_rules st" "rp_pageSize st' = rp_pageSize st"
    by (simp_all add: st'_def split: option.split)
  have shown: "shown_cards st \<noteq> []" "shown_cards st' \<noteq> []"
    using page_shows_rules rules kept by simp_all
  have last: "pw_end (page_state st) = int (length (rp_rules st))" if "\<not> ?p < pw_totalPages (page_state st)"
  proof -
    have "?p = page_count (rp_rules st) (rp_pageSize st)" using that page_state_bounds(2) [of st] by (simp add: page_state_simps(2))
    then show ?thesis
      using page_count_bounds(1) [of "rp_rules st" "rp_pageSize st"] rules by (simp add: page_end page_start algebra_simps)
  qed
  have more: "pw_startIndex (page_state st') = pw_end (page_state st)"
      "page_state (rules_step PreviousPage st') = page_state st" if less: "?p < pw_totalPages (page_state st)"
  proof -
    have st': "st' = st\<lparr>rp_page := ?p + 1\<rparr>" using less by (simp add: st'_def pager_next_def)
    have page': "pw_page (page_state st') = ?p + 1"
      using less page_state_bounds(1) [of st] by (simp add: st' page_state_simps)
    then show "pw_startIndex (page_state st') = pw_end (page_state st)"
      using rules by (simp add: page_start kept next_page_start [OF rules less])
    have "rules_step PreviousPage st' = st\<lparr>rp_page := ?p\<rparr>"
      using page' page_state_bounds(1) [of st] by (simp add: pager_previous_def st')
    moreover have "page_state (st\<lparr>rp_page := ?p\<rparr>) = page_state st"
      by (simp add: page_state_def window_fields window_clamped)
    ultimately show "page_state (rules_step PreviousPage st') = page_state st" by simp
  qed
  have "shown_cards st \<noteq> [] \<and> shown_cards st' \<noteq> []
    \<and> (if pager_next (page_state st) = None then pw_end (page_state st) = int (length (rp_rules st))
       else pw_startIndex (page_state st') = pw_end (page_state st) \<and> page_state (rules_step PreviousPage st') = page_state st)"
    using shown last more
    by (cases "?p < pw_totalPages (page_state st)") (simp_all add: pager_next_def del: rules_step.simps shown_cards_Nil)
  then show ?thesis unfolding Let_def st'_def st_def .
qed

theorem pager_walks_the_list_witness:
  "shown_cards (rules_run [RulesArrived two_rules, SizeChosen 20, RulesArrived [sample_rule]]) \<noteq> []"
  using pager_walks_the_list [of "[RulesArrived two_rules, SizeChosen 20, RulesArrived [sample_rule]]"]
  by (simp add: rules_run_def rules_page_start_def ROUTING_PAGE_SIZES_def Let_def)

section \<open>The client of a rule\<close>

lemma client_choice_simps [simp]: "co_id (client_choice inb c) = cl_id c" "co_missing (client_choice inb c) = False"
  by (simp_all add: client_choice_def Let_def)



text \<open>
  The converse fails. When the draft moves to another inbound, a client that its old inbound still has is offered as
  a missing one, and choosing this row puts the id of the old inbound and the tag of the new one into the draft.
\<close>

lemma other_inbounds_client_counts_as_missing:
  assumes "0 < b" and "find (\<lambda>i. ib_id i = b) inbounds = Some inb" and "\<forall>c \<in> set (olist (ib_clients inb)). cl_id c \<noteq> rr_num (rr_client_id rule)"
    and "0 < rr_num (rr_client_id rule)" and "rr_num (rr_inbound_id rule) \<noteq> 0"
  shows "let opt = missing_client b tag rule in
    opt \<in> set (clientSelectionOptions inbounds b tag (Some rule)) \<and> co_missing opt
    \<and> rr_inbound_id (pick_client opt draft) = Some (rr_num (rr_inbound_id rule)) \<and> rr_inbound_tag (pick_client opt draft) = Some tag"
  using assms
  by (auto simp: Let_def clientSelectionOptions_def missing_client_def pick_client_def list_ex_iff no_client_option_def rr_num_def)

lemma old_client_reads_missing:
  "let inbounds = [vless_inbound, vless_inbound\<lparr>ib_id := 5, ib_clients := None\<rparr>];
       rule = sample_rule\<lparr>rr_inbound_id := Some 4, rr_client_id := Some 7\<rparr>
   in \<not> missingClient rule inbounds \<and> missing_client 5 ''in-5'' rule \<in> set (clientSelectionOptions inbounds 5 ''in-5'' (Some rule))"
  using other_inbounds_client_counts_as_missing [of 5 "[vless_inbound, vless_inbound\<lparr>ib_id := 5, ib_clients := None\<rparr>]"
      "vless_inbound\<lparr>ib_id := 5, ib_clients := None\<rparr>" "sample_rule\<lparr>rr_inbound_id := Some 4, rr_client_id := Some 7\<rparr>" "''in-5''"]
  by (simp add: Let_def missingClient_def vless_inbound_def rr_num_def)

end
