(* ===== verification/OutboundView.thy ===== *)
theory OutboundView
  imports OutboundProps
begin

text \<open>
  \<^verbatim>\<open>src/web/src/routes/OutboundsPage.tsx\<close>, what the page shows: the cards of the default and the custom
  outbounds and of the subscriptions with the controls that can be used, and the inputs of the outbound dialog.
  The theorem says that these inputs are exactly what its saving depends on.
\<close>

section \<open>Texts\<close>

text \<open>The non-ASCII texts of this part of the user interface, as UTF-8 bytes.\<close>

definition zh_default_word :: string where
  "zh_default_word = [CHR 0xE9, CHR 0xBB, CHR 0x98, CHR 0xE8, CHR 0xAE, CHR 0xA4]"

definition zh_node_of_subscription :: string where
  "zh_node_of_subscription = [CHR 0xE8, CHR 0xAE, CHR 0xA2, CHR 0xE9, CHR 0x98, CHR 0x85, CHR 0xE8, CHR 0x8A, CHR 0x82, CHR 0xE7,
    CHR 0x82, CHR 0xB9, CHR 0xE4, CHR 0xB8, CHR 0x8D, CHR 0xE8, CHR 0x83, CHR 0xBD, CHR 0xE5, CHR 0x8D,
    CHR 0x95, CHR 0xE7, CHR 0x8B, CHR 0xAC, CHR 0xE5, CHR 0x88, CHR 0xA0, CHR 0xE9, CHR 0x99, CHR 0xA4]"

definition zh_delete_word :: string where
  "zh_delete_word = [CHR 0xE5, CHR 0x88, CHR 0xA0, CHR 0xE9, CHR 0x99, CHR 0xA4]"

definition zh_nodes_word :: string where
  "zh_nodes_word = [CHR 0xE8, CHR 0x8A, CHR 0x82, CHR 0xE7, CHR 0x82, CHR 0xB9]"

definition zh_managed_node :: string where
  "zh_managed_node = [CHR 0xE8, CHR 0xAF, CHR 0xA5, CHR 0xE8, CHR 0x8A, CHR 0x82, CHR 0xE7, CHR 0x82, CHR 0xB9, CHR 0xE7,
    CHR 0x94, CHR 0xB1, CHR 0xE5, CHR 0x87, CHR 0xBA, CHR 0xE7, CHR 0xAB, CHR 0x99, CHR 0xE8, CHR 0xAE,
    CHR 0xA2, CHR 0xE9, CHR 0x98, CHR 0x85, CHR 0xE7, CHR 0xAE, CHR 0xA1, CHR 0xE7, CHR 0x90, CHR 0x86,
    CHR 0xEF, CHR 0xBC, CHR 0x8C, CHR 0xE4, CHR 0xBB, CHR 0x85, CHR 0xE5, CHR 0x85, CHR 0x81, CHR 0xE8,
    CHR 0xAE, CHR 0xB8, CHR 0xE4, CHR 0xBF, CHR 0xAE, CHR 0xE6, CHR 0x94, CHR 0xB9, CHR 0xE5, CHR 0x90,
    CHR 0xAF, CHR 0xE5, CHR 0x81, CHR 0x9C, CHR 0xE5, CHR 0x92, CHR 0x8C, CHR 0xE5, CHR 0xA4, CHR 0x87,
    CHR 0xE6, CHR 0xB3, CHR 0xA8, CHR 0xEF, CHR 0xBC, CHR 0x9B, CHR 0xE4, CHR 0xB8, CHR 0x8B, CHR 0xE6,
    CHR 0xAC, CHR 0xA1, CHR 0xE5, CHR 0x88, CHR 0xB7, CHR 0xE6, CHR 0x96, CHR 0xB0, CHR 0xE5, CHR 0x8F,
    CHR 0xAF, CHR 0xE8, CHR 0x83, CHR 0xBD, CHR 0xE8, CHR 0xA6, CHR 0x86, CHR 0xE7, CHR 0x9B, CHR 0x96,
    CHR 0xE5, CHR 0xA4, CHR 0x87, CHR 0xE6, CHR 0xB3, CHR 0xA8, CHR 0xE3, CHR 0x80, CHR 0x82]"

definition zh_source_word :: string where
  "zh_source_word = [CHR 0xE6, CHR 0x9D, CHR 0xA5, CHR 0xE6, CHR 0xBA, CHR 0x90]"

definition zh_ov_comma :: string where
  "zh_ov_comma = [CHR 0xEF, CHR 0xBC, CHR 0x8C]"

lemmas texts_OutboundView =
  zh_default_word_def zh_node_of_subscription_def zh_delete_word_def zh_nodes_word_def zh_managed_node_def
  zh_source_word_def zh_ov_comma_def

lemma texts_nonempty_OutboundView [simp]:
  "zh_default_word \<noteq> []" "zh_node_of_subscription \<noteq> []" "zh_delete_word \<noteq> []" "zh_nodes_word \<noteq> []"
  "zh_managed_node \<noteq> []" "zh_source_word \<noteq> []" "zh_ov_comma \<noteq> []"
  by (simp_all add: texts_OutboundView)

section \<open>The cards\<close>

definition defaultItems :: "outbound list \<Rightarrow> outbound list" where
  "defaultItems items = filter isFixedDefaultOutbound items"

record outbound_card =
  oc_number :: string
  oc_tag :: string
  oc_badges :: "string list"
  oc_enabled :: bool
  oc_meta :: "string list"
  oc_up :: bool
  oc_down :: bool
  oc_pinging :: bool
  oc_toggle :: bool
  oc_toggle_title :: string
  oc_delete :: bool
  oc_delete_title :: string

definition latency_of :: "ping_state \<Rightarrow> outbound \<Rightarrow> ping_result option" where
  "latency_of pings item = map_of (pi_latency pings) (int_str (ob_id item))"

definition default_card :: "ping_state \<Rightarrow> (string \<Rightarrow> string) \<Rightarrow> nat \<Rightarrow> outbound \<Rightarrow> outbound_card" where
  "default_card pings tr index item =
     \<lparr>oc_number = ''#'' @ nat_str (index + 1), oc_tag = ob_tag item, oc_badges = tr zh_default_word # core_badges item tr,
      oc_enabled = is_on (ob_enabled item), oc_meta = outboundMetaParts item tr None @ [formatLatency (latency_of pings item) tr],
      oc_up = False, oc_down = False, oc_pinging = False, oc_toggle = False, oc_toggle_title = [], oc_delete = False,
      oc_delete_title = []\<rparr>"

definition custom_card ::
  "(string \<Rightarrow> string option) \<Rightarrow> outbound list \<Rightarrow> outbound_subscription list \<Rightarrow> ping_state \<Rightarrow> (string \<Rightarrow> string) \<Rightarrow> nat \<Rightarrow> outbound \<Rightarrow> outbound_card" where
  "custom_card url_host items subscriptions pings tr index item =
     (let sub = subscription_of subscriptions item; managed = (ob_source item = Some ''subscription'')
      in \<lparr>oc_number = ''#'' @ nat_str (index + 1), oc_tag = ob_tag item,
          oc_badges = outbound_protocol_badge item # source_badges url_host item sub tr @ core_badges item tr,
          oc_enabled = is_on (ob_enabled item),
          oc_meta = drop 1 (outboundMetaParts item tr None) @ [formatLatency (latency_of pings item) tr],
          oc_up = (\<not> move_up_disabled items item), oc_down = (\<not> move_down_disabled items item),
          oc_pinging = (ob_id item \<in> set (pi_pinging pings)),
          oc_toggle = (outboundEnableDisabledReason item sub tr = []), oc_toggle_title = outboundToggleTitle item sub tr,
          oc_delete = (\<not> managed), oc_delete_title = tr (if managed then zh_node_of_subscription else zh_delete_word)\<rparr>)"

record subscription_card =
  sc_number :: string
  sc_title :: string
  sc_enabled :: bool
  sc_nodes :: string
  sc_prepended :: bool
  sc_meta :: "(string \<times> bool) list" \<comment> \<open>with the red ones marked\<close>
  sc_moves :: "int list"
  sc_refreshing :: bool

definition subscription_card ::
  "(string \<Rightarrow> string option) \<Rightarrow> outbound_subscription list \<Rightarrow> int option \<Rightarrow> (string \<Rightarrow> string) \<Rightarrow> nat \<Rightarrow> outbound_subscription \<Rightarrow> subscription_card" where
  "subscription_card locale_time subscriptions refreshingId tr index sub =
     \<lparr>sc_number = ''#'' @ nat_str (index + 1), sc_title = str_or (os_remark sub) (os_url sub),
      sc_enabled = is_on (os_enabled sub), sc_nodes = tr zh_nodes_word @ zh_ob_colon @ int_str (oint (os_outbound_count sub)),
      sc_prepended = is_on (os_prepend sub),
      sc_meta = map (\<lambda>part. (part, startsWith part (tr zh_last_error))) (subscriptionMetaParts locale_time sub tr),
      sc_moves = offered_moves (int index) (int (length subscriptions)),
      sc_refreshing = (refreshingId = Some (os_id sub))\<rparr>"

section \<open>The dialog\<close>

datatype outbound_input =
    TagInput | RemarkInput | ProtocolInput | AddressInput | PortInput | UsernameInput | PasswordInput | EnabledInput

definition outbound_inputs ::
  "(string \<Rightarrow> string) \<Rightarrow> outbound \<Rightarrow> outbound_subscription option \<Rightarrow> string \<Rightarrow> (outbound_input \<times> bool) list" where
  \<comment> \<open>the inputs shown for a protocol, and whether they can be used\<close>
  "outbound_inputs tr outbound source protocol =
     (let free = (ob_source outbound \<noteq> Some ''subscription'');
          fields = outboundCredentialFields protocol
      in [(TagInput, free), (RemarkInput, True), (ProtocolInput, free)]
         @ (if requiresOutboundAddress protocol
            then [(AddressInput, free), (PortInput, free)]
                 @ (if cf_username fields then [(UsernameInput, free)] else [])
                 @ (if cf_password fields then [(PasswordInput, free)] else [])
            else [])
         @ [(EnabledInput, outboundEnableDisabledReason outbound source tr = [])])"

definition managed_notice ::
  "(string \<Rightarrow> string option) \<Rightarrow> outbound \<Rightarrow> outbound_subscription option \<Rightarrow> (string \<Rightarrow> string) \<Rightarrow> string option" where
  "managed_notice url_host outbound source tr =
     (if ob_source outbound = Some ''subscription''
      then Some (tr zh_managed_node @ '' ''
        @ tr zh_source_word @ zh_ob_colon @ subscriptionSourceLabel url_host outbound source tr
        @ (case source of Some s \<Rightarrow> if os_enabled s = Some False then zh_ov_comma @ tr zh_sub_stopped else []
           | None \<Rightarrow> []))
      else None)"

primrec input_agrees :: "outbound_input \<Rightarrow> outbound_values \<Rightarrow> outbound_values \<Rightarrow> bool" where
  "input_agrees TagInput v v' = (ov_tag v = ov_tag v')"
| "input_agrees RemarkInput v v' = (ov_remark v = ov_remark v')"
| "input_agrees ProtocolInput v v' = (ov_protocol v = ov_protocol v')"
| "input_agrees AddressInput v v' = (ov_address v = ov_address v')"
| "input_agrees PortInput v v' = (ov_port v = ov_port v')"
| "input_agrees UsernameInput v v' = (ov_username v = ov_username v')"
| "input_agrees PasswordInput v v' = (ov_password v = ov_password v')"
| "input_agrees EnabledInput v v' = (ov_enabled v = ov_enabled v')"

lemma protocols_with_credentials:
  "cf_username (outboundCredentialFields p) \<Longrightarrow> requiresOutboundAddress p"
  "cf_password (outboundCredentialFields p) \<Longrightarrow> requiresOutboundAddress p"
  by (auto simp: outboundCredentialFields_def requiresOutboundAddress_def Let_def split: if_splits)

lemma free_inputs:
  assumes "ob_source ob \<noteq> Some ''subscription''"
  shows "(i, True) \<in> set (outbound_inputs tr ob src p) \<longleftrightarrow>
    (case i of AddressInput \<Rightarrow> requiresOutboundAddress p | PortInput \<Rightarrow> requiresOutboundAddress p
     | UsernameInput \<Rightarrow> cf_username (outboundCredentialFields p)
     | PasswordInput \<Rightarrow> cf_password (outboundCredentialFields p) | _ \<Rightarrow> True)"
  using assms protocols_with_credentials [of p]
  by (cases i) (auto simp: outbound_inputs_def Let_def outboundEnableDisabledReason_def)

lemma managed_inputs:
  assumes "ob_source ob = Some ''subscription''"
  shows "(i, True) \<in> set (outbound_inputs tr ob src p) \<longleftrightarrow>
    i = RemarkInput \<or> i = EnabledInput \<and> outboundEnableDisabledReason ob src tr = []"
  using assms by (cases i) (auto simp: outbound_inputs_def Let_def)

lemma values_eq_iff: "(v :: outbound_values) = v' \<longleftrightarrow> ov_tag v = ov_tag v' \<and> ov_remark v = ov_remark v' \<and> ov_protocol v = ov_protocol v'
    \<and> ov_address v = ov_address v' \<and> ov_port v = ov_port v' \<and> ov_username v = ov_username v' \<and> ov_password v = ov_password v'
    \<and> ov_enabled v = ov_enabled v'"
  by (cases v; cases v') simp

lemma sanitized_eq_iff: "sanitizeOutboundValues v = sanitizeOutboundValues v' \<longleftrightarrow>
    ov_tag v = ov_tag v' \<and> ov_remark v = ov_remark v' \<and> ov_protocol v = ov_protocol v' \<and> ov_enabled v = ov_enabled v'
    \<and> (requiresOutboundAddress (ov_protocol v) \<longrightarrow> ov_address v = ov_address v' \<and> ov_port v = ov_port v')
    \<and> (cf_username (outboundCredentialFields (ov_protocol v)) \<longrightarrow> ov_username v = ov_username v')
    \<and> (cf_password (outboundCredentialFields (ov_protocol v)) \<longrightarrow> ov_password v = ov_password v')"
  unfolding values_eq_iff [of "sanitizeOutboundValues v"] sanitize_fields by auto

lemma managed_eq_iff: "(ob :: outbound)\<lparr>ob_remark := r, ob_enabled := e, ob_supported_cores := None\<rparr>
    = ob\<lparr>ob_remark := r', ob_enabled := e', ob_supported_cores := None\<rparr> \<longleftrightarrow> r = r' \<and> e = e'"
  by (cases ob) simp

lemma with_values_eq_iff:
  "(with_values ob v)\<lparr>ob_supported_cores := None\<rparr> = (with_values ob v')\<lparr>ob_supported_cores := None\<rparr> \<longleftrightarrow> v = v'"
  unfolding values_eq_iff [of v] with_values_def by (cases ob) auto

lemma all_inputs: "(\<forall>i. P i) \<longleftrightarrow> P TagInput \<and> P RemarkInput \<and> P ProtocolInput \<and> P AddressInput \<and> P PortInput
    \<and> P UsernameInput \<and> P PasswordInput \<and> P EnabledInput"
  by (metis outbound_input.exhaust)

text \<open>
  C8.
  The inputs that the outbound dialog lets the user change are exactly those its saving depends on: two
  states of the form that agree on them send the same outbound, whatever they hold in inputs that are hidden
  or locked, and two states that send the same outbound agree on each of them. (The remark of a node of a
  subscription is the exception: an emptied one is replaced by the stored remark or the tag.)
\<close>

theorem outbound_inputs_decide_the_save:
  assumes "ob_source outbound = Some ''subscription'' \<Longrightarrow> ov_remark v \<noteq> [] \<and> ov_remark v' \<noteq> []"
  shows "outbound_payload tr outbound source v = outbound_payload tr outbound source v' \<longleftrightarrow>
    (\<forall>i. (i, True) \<in> set (outbound_inputs tr outbound source (ov_protocol v)) \<longrightarrow> input_agrees i v v')"
proof (cases "ob_source outbound = Some ''subscription''")
  case True
  then have "ov_remark v \<noteq> []" "ov_remark v' \<noteq> []" using assms by auto
  then show ?thesis
    unfolding managed_inputs [OF True] managed_payload [OF True] managed_eq_iff by auto
next
  case False
  have payload: "outbound_payload tr outbound source v = outbound_payload tr outbound source v' \<longleftrightarrow>
      sanitizeOutboundValues v = sanitizeOutboundValues v'"
    unfolding manual_payload [OF False] with_values_eq_iff by (rule refl)
  show ?thesis
    unfolding payload free_inputs [OF False] sanitized_eq_iff by (auto simp: all_inputs)
qed

definition managed_outbound :: outbound where
  "managed_outbound = sample_outbound\<lparr>ob_source := Some ''subscription'', ob_subscription_id := Some 1\<rparr>"

theorem outbound_inputs_decide_the_save_witness:
  "outbound_payload (\<lambda>s. s) managed_outbound None (typed_values\<lparr>ov_remark := ''r''\<rparr>)
   = outbound_payload (\<lambda>s. s) managed_outbound None (typed_values\<lparr>ov_remark := ''r'', ov_port := 99\<rparr>)"
  using outbound_inputs_decide_the_save [of managed_outbound "typed_values\<lparr>ov_remark := ''r''\<rparr>"
      "typed_values\<lparr>ov_remark := ''r'', ov_port := 99\<rparr>" "\<lambda>s. s" None]
  by (simp add: managed_inputs managed_outbound_def)

end
