(* ===== verification/OverviewView.thy ===== *)
theory OverviewView
  imports Overview
begin

text \<open>
  \<^verbatim>\<open>src/web/src/routes/OverviewPage.tsx\<close>, what the page shows: the alerts, the four summary cards, the
  controls of the traffic card with the state behind them, the tags below it, the server resources and the state
  of the generated configurations. \<open>query\<close> is what the query library gives of a query: whether its first answer
  is awaited, the last answer, and the error.
\<close>

section \<open>Texts\<close>

text \<open>The non-ASCII texts of this part of the user interface, as UTF-8 bytes.\<close>

definition zh_wide_colon_ov :: string where
  "zh_wide_colon_ov = [CHR 0xEF, CHR 0xBC, CHR 0x9A]"

definition zh_validation_failed :: string where
  "zh_validation_failed = [CHR 0xE7, CHR 0x94, CHR 0x9F, CHR 0xE6, CHR 0x88, CHR 0x90, CHR 0xE6, CHR 0xA0, CHR 0xA1, CHR 0xE9,
    CHR 0xAA, CHR 0x8C, CHR 0xE5, CHR 0xA4, CHR 0xB1, CHR 0xE8, CHR 0xB4, CHR 0xA5]"

definition zh_unknown_error_ov :: string where
  "zh_unknown_error_ov = [CHR 0xE6, CHR 0x9C, CHR 0xAA, CHR 0xE7, CHR 0x9F, CHR 0xA5, CHR 0xE9, CHR 0x94, CHR 0x99, CHR 0xE8,
    CHR 0xAF, CHR 0xAF]"

definition zh_summary_failed :: string where
  "zh_summary_failed = [CHR 0xE6, CHR 0xA6, CHR 0x82, CHR 0xE8, CHR 0xA7, CHR 0x88, CHR 0xE6, CHR 0x91, CHR 0x98, CHR 0xE8,
    CHR 0xA6, CHR 0x81, CHR 0xE5, CHR 0x8A, CHR 0xA0, CHR 0xE8, CHR 0xBD, CHR 0xBD, CHR 0xE5, CHR 0xA4,
    CHR 0xB1, CHR 0xE8, CHR 0xB4, CHR 0xA5]"

definition zh_traffic_failed :: string where
  "zh_traffic_failed = [CHR 0xE6, CHR 0xB5, CHR 0x81, CHR 0xE9, CHR 0x87, CHR 0x8F, CHR 0xE6, CHR 0x91, CHR 0x98, CHR 0xE8,
    CHR 0xA6, CHR 0x81, CHR 0xE5, CHR 0x8A, CHR 0xA0, CHR 0xE8, CHR 0xBD, CHR 0xBD, CHR 0xE5, CHR 0xA4,
    CHR 0xB1, CHR 0xE8, CHR 0xB4, CHR 0xA5]"

definition zh_analytics_failed :: string where
  "zh_analytics_failed = [CHR 0xE6, CHR 0xB5, CHR 0x81, CHR 0xE9, CHR 0x87, CHR 0x8F, CHR 0xE5, CHR 0x88, CHR 0x86, CHR 0xE6,
    CHR 0x9E, CHR 0x90, CHR 0xE5, CHR 0x8A, CHR 0xA0, CHR 0xE8, CHR 0xBD, CHR 0xBD, CHR 0xE5, CHR 0xA4,
    CHR 0xB1, CHR 0xE8, CHR 0xB4, CHR 0xA5]"

definition zh_resources_failed :: string where
  "zh_resources_failed = [CHR 0xE8, CHR 0xB5, CHR 0x84, CHR 0xE6, CHR 0xBA, CHR 0x90, CHR 0xE5, CHR 0x8A, CHR 0xA0, CHR 0xE8,
    CHR 0xBD, CHR 0xBD, CHR 0xE5, CHR 0xA4, CHR 0xB1, CHR 0xE8, CHR 0xB4, CHR 0xA5]"

definition zh_status_load_failed :: string where
  "zh_status_load_failed = [CHR 0xE7, CHR 0x8A, CHR 0xB6, CHR 0xE6, CHR 0x80, CHR 0x81, CHR 0xE5, CHR 0x8A, CHR 0xA0, CHR 0xE8,
    CHR 0xBD, CHR 0xBD, CHR 0xE5, CHR 0xA4, CHR 0xB1, CHR 0xE8, CHR 0xB4, CHR 0xA5]"

definition zh_loading_word :: string where
  "zh_loading_word = [CHR 0xE5, CHR 0x8A, CHR 0xA0, CHR 0xE8, CHR 0xBD, CHR 0xBD, CHR 0xE4, CHR 0xB8, CHR 0xAD]"

definition zh_awaiting_traffic :: string where
  "zh_awaiting_traffic = [CHR 0xE7, CHR 0xAD, CHR 0x89, CHR 0xE5, CHR 0xBE, CHR 0x85, CHR 0xE6, CHR 0xB5, CHR 0x81, CHR 0xE9,
    CHR 0x87, CHR 0x8F, CHR 0xE6, CHR 0x91, CHR 0x98, CHR 0xE8, CHR 0xA6, CHR 0x81]"

definition zh_see_alerts :: string where
  "zh_see_alerts = [CHR 0xE6, CHR 0x9F, CHR 0xA5, CHR 0xE7, CHR 0x9C, CHR 0x8B, CHR 0xE5, CHR 0x91, CHR 0x8A, CHR 0xE8,
    CHR 0xAD, CHR 0xA6]"

definition zh_total_traffic :: string where
  "zh_total_traffic = [CHR 0xE6, CHR 0x80, CHR 0xBB, CHR 0xE6, CHR 0xB5, CHR 0x81, CHR 0xE9, CHR 0x87, CHR 0x8F]"

definition zh_up_slash :: string where
  "zh_up_slash = [CHR 0x20, CHR 0xE2, CHR 0x86, CHR 0x91, CHR 0x20, CHR 0x2F, CHR 0x20]"

definition zh_down_end :: string where
  "zh_down_end = [CHR 0x20, CHR 0xE2, CHR 0x86, CHR 0x93]"

definition zh_total_rate :: string where
  "zh_total_rate = [CHR 0xE6, CHR 0x80, CHR 0xBB, CHR 0xE5, CHR 0xAE, CHR 0x9E, CHR 0xE6, CHR 0x97, CHR 0xB6, CHR 0xE6,
    CHR 0xB5, CHR 0x81, CHR 0xE9, CHR 0x87, CHR 0x8F]"

definition zh_nodes_clients :: string where
  "zh_nodes_clients = [CHR 0xE8, CHR 0x8A, CHR 0x82, CHR 0xE7, CHR 0x82, CHR 0xB9, CHR 0x2F, CHR 0xE5, CHR 0xAE, CHR 0xA2,
    CHR 0xE6, CHR 0x88, CHR 0xB7, CHR 0xE7, CHR 0xAB, CHR 0xAF]"

definition zh_nodes_enabled :: string where
  "zh_nodes_enabled = [CHR 0xE8, CHR 0x8A, CHR 0x82, CHR 0xE7, CHR 0x82, CHR 0xB9, CHR 0xE5, CHR 0xB7, CHR 0xB2, CHR 0xE5,
    CHR 0x90, CHR 0xAF, CHR 0xE7, CHR 0x94, CHR 0xA8]"

definition zh_clients_active :: string where
  "zh_clients_active = [CHR 0xE5, CHR 0xAE, CHR 0xA2, CHR 0xE6, CHR 0x88, CHR 0xB7, CHR 0xE7, CHR 0xAB, CHR 0xAF, CHR 0xE6,
    CHR 0xB4, CHR 0xBB, CHR 0xE8, CHR 0xB7, CHR 0x83]"

definition zh_core_state :: string where
  "zh_core_state = [CHR 0xE6, CHR 0xA0, CHR 0xB8, CHR 0xE5, CHR 0xBF, CHR 0x83, CHR 0xE7, CHR 0x8A, CHR 0xB6, CHR 0xE6,
    CHR 0x80, CHR 0x81]"

definition zh_analytics_loading :: string where
  "zh_analytics_loading = [CHR 0xE6, CHR 0xB5, CHR 0x81, CHR 0xE9, CHR 0x87, CHR 0x8F, CHR 0xE5, CHR 0x88, CHR 0x86, CHR 0xE6,
    CHR 0x9E, CHR 0x90, CHR 0xE5, CHR 0x8A, CHR 0xA0, CHR 0xE8, CHR 0xBD, CHR 0xBD, CHR 0xE4, CHR 0xB8,
    CHR 0xAD]"

definition zh_no_traffic_data :: string where
  "zh_no_traffic_data = [CHR 0xE6, CHR 0x9A, CHR 0x82, CHR 0xE6, CHR 0x97, CHR 0xA0, CHR 0xE6, CHR 0xB5, CHR 0x81, CHR 0xE9,
    CHR 0x87, CHR 0x8F, CHR 0xE6, CHR 0x95, CHR 0xB0, CHR 0xE6, CHR 0x8D, CHR 0xAE]"

definition zh_granularity :: string where
  "zh_granularity = [CHR 0xE9, CHR 0x87, CHR 0x87, CHR 0xE6, CHR 0xA0, CHR 0xB7, CHR 0xE7, CHR 0xB2, CHR 0x92, CHR 0xE5,
    CHR 0xBA, CHR 0xA6]"

definition zh_data_points :: string where
  "zh_data_points = [CHR 0xE6, CHR 0x95, CHR 0xB0, CHR 0xE6, CHR 0x8D, CHR 0xAE, CHR 0xE7, CHR 0x82, CHR 0xB9]"

definition zh_peak_time :: string where
  "zh_peak_time = [CHR 0xE5, CHR 0xB3, CHR 0xB0, CHR 0xE5, CHR 0x80, CHR 0xBC, CHR 0xE6, CHR 0x97, CHR 0xB6, CHR 0xE9,
    CHR 0x97, CHR 0xB4]"

definition zh_dimension :: string where
  "zh_dimension = [CHR 0xE7, CHR 0xBB, CHR 0xB4, CHR 0xE5, CHR 0xBA, CHR 0xA6]"

definition zh_client_ov :: string where
  "zh_client_ov = [CHR 0xE5, CHR 0xAE, CHR 0xA2, CHR 0xE6, CHR 0x88, CHR 0xB7, CHR 0xE7, CHR 0xAB, CHR 0xAF]"

definition zh_inbound_ov :: string where
  "zh_inbound_ov = [CHR 0xE5, CHR 0x85, CHR 0xA5, CHR 0xE7, CHR 0xAB, CHR 0x99]"

definition zh_up_share :: string where
  "zh_up_share = [CHR 0xE4, CHR 0xB8, CHR 0x8A, CHR 0xE4, CHR 0xBC, CHR 0xA0, CHR 0xE5, CHR 0x8D, CHR 0xA0, CHR 0xE6,
    CHR 0xAF, CHR 0x94]"

definition zh_down_share :: string where
  "zh_down_share = [CHR 0xE4, CHR 0xB8, CHR 0x8B, CHR 0xE8, CHR 0xBD, CHR 0xBD, CHR 0xE5, CHR 0x8D, CHR 0xA0, CHR 0xE6,
    CHR 0xAF, CHR 0x94]"

definition zh_top_client :: string where
  "zh_top_client = [CHR 0x54, CHR 0x6F, CHR 0x70, CHR 0x20, CHR 0xE5, CHR 0xAE, CHR 0xA2, CHR 0xE6, CHR 0x88, CHR 0xB7,
    CHR 0xE7, CHR 0xAB, CHR 0xAF]"

definition zh_top_inbound :: string where
  "zh_top_inbound = [CHR 0x54, CHR 0x6F, CHR 0x70, CHR 0x20, CHR 0xE5, CHR 0x85, CHR 0xA5, CHR 0xE7, CHR 0xAB, CHR 0x99]"

definition zh_memory_word :: string where
  "zh_memory_word = [CHR 0xE5, CHR 0x86, CHR 0x85, CHR 0xE5, CHR 0xAD, CHR 0x98]"

definition zh_disk_word :: string where
  "zh_disk_word = [CHR 0xE7, CHR 0xA3, CHR 0x81, CHR 0xE7, CHR 0x9B, CHR 0x98]"

definition zh_uptime_word :: string where
  "zh_uptime_word = [CHR 0xE8, CHR 0xBF, CHR 0x90, CHR 0xE8, CHR 0xA1, CHR 0x8C, CHR 0xE6, CHR 0x97, CHR 0xB6, CHR 0xE9,
    CHR 0x97, CHR 0xB4]"

lemmas texts_OverviewView =
  zh_wide_colon_ov_def zh_validation_failed_def zh_unknown_error_ov_def zh_summary_failed_def zh_traffic_failed_def
  zh_analytics_failed_def zh_resources_failed_def zh_status_load_failed_def zh_loading_word_def zh_awaiting_traffic_def
  zh_see_alerts_def zh_total_traffic_def zh_up_slash_def zh_down_end_def zh_total_rate_def
  zh_nodes_clients_def zh_nodes_enabled_def zh_clients_active_def zh_core_state_def zh_analytics_loading_def
  zh_no_traffic_data_def zh_granularity_def zh_data_points_def zh_peak_time_def zh_dimension_def
  zh_client_ov_def zh_inbound_ov_def zh_up_share_def zh_down_share_def zh_top_client_def
  zh_top_inbound_def zh_memory_word_def zh_disk_word_def zh_uptime_word_def

lemma texts_nonempty_OverviewView [simp]:
  "zh_wide_colon_ov \<noteq> []" "zh_validation_failed \<noteq> []" "zh_unknown_error_ov \<noteq> []" "zh_summary_failed \<noteq> []"
  "zh_traffic_failed \<noteq> []" "zh_analytics_failed \<noteq> []" "zh_resources_failed \<noteq> []" "zh_status_load_failed \<noteq> []"
  "zh_loading_word \<noteq> []" "zh_awaiting_traffic \<noteq> []" "zh_see_alerts \<noteq> []" "zh_total_traffic \<noteq> []"
  "zh_up_slash \<noteq> []" "zh_down_end \<noteq> []" "zh_total_rate \<noteq> []" "zh_nodes_clients \<noteq> []"
  "zh_nodes_enabled \<noteq> []" "zh_clients_active \<noteq> []" "zh_core_state \<noteq> []" "zh_analytics_loading \<noteq> []"
  "zh_no_traffic_data \<noteq> []" "zh_granularity \<noteq> []" "zh_data_points \<noteq> []" "zh_peak_time \<noteq> []"
  "zh_dimension \<noteq> []" "zh_client_ov \<noteq> []" "zh_inbound_ov \<noteq> []" "zh_up_share \<noteq> []"
  "zh_down_share \<noteq> []" "zh_top_client \<noteq> []" "zh_top_inbound \<noteq> []" "zh_memory_word \<noteq> []"
  "zh_disk_word \<noteq> []" "zh_uptime_word \<noteq> []"
  by (simp_all add: texts_OverviewView)

section \<open>Alerts\<close>

record 'a query =
  q_loading :: bool
  q_data :: "'a option"
  q_error :: "failure option"

record dashboard_counts =
  dc_inbounds :: int
  dc_inbounds_enabled :: int
  dc_clients :: int
  dc_clients_active :: int
  dc_clients_expired :: int
  dc_clients_limited :: int
  dc_outbounds :: int
  dc_outbounds_enabled :: int
  dc_routing_rules :: int
  dc_routing_enabled :: int

definition emptyCounts :: dashboard_counts where
  "emptyCounts = \<lparr>dc_inbounds = 0, dc_inbounds_enabled = 0, dc_clients = 0, dc_clients_active = 0, dc_clients_expired = 0,
     dc_clients_limited = 0, dc_outbounds = 0, dc_outbounds_enabled = 0, dc_routing_rules = 0, dc_routing_enabled = 0\<rparr>"

record dashboard =
  db_counts :: dashboard_counts
  db_protocols :: "(string \<times> int) list"
  db_xray :: validation
  db_singbox :: validation

record resources =
  re_cpu_percent :: "rat option"
  re_memory_used :: "rat option"
  re_memory_total :: "rat option"
  re_disk_used :: "rat option"
  re_disk_total :: "rat option"
  re_uptime_seconds :: "rat option"

record overview_queries =
  oq_summary :: "dashboard query"
  oq_traffic :: "traffic_snapshot query"
  oq_analytics :: "analytics query"
  oq_resources :: "resources query"
  oq_xray :: "string query" \<comment> \<open>the status of a core\<close>
  oq_singbox :: "string query"

definition load_alert :: "string \<Rightarrow> 'a query \<Rightarrow> string" where
  "load_alert label q = (case q_error q of None \<Rightarrow> [] | Some e \<Rightarrow> label @ zh_wide_colon_ov @ errorText e)"

definition validation_alert :: "(string \<Rightarrow> string) \<Rightarrow> string \<Rightarrow> validation option \<Rightarrow> string" where
  "validation_alert tr core v =
     (case v of Some d \<Rightarrow> if va_valid d then []
        else core @ '' '' @ tr zh_validation_failed @ zh_wide_colon_ov @ str_or (ostr (va_error d)) (tr zh_unknown_error_ov)
      | None \<Rightarrow> [])"

definition overview_alerts :: "(string \<Rightarrow> string) \<Rightarrow> overview_queries \<Rightarrow> string list" where
  "overview_alerts tr qs = filter (\<lambda>s. s \<noteq> [])
     [load_alert (tr zh_summary_failed) (oq_summary qs),
      load_alert (tr zh_traffic_failed) (oq_traffic qs),
      load_alert (tr zh_analytics_failed) (oq_analytics qs),
      load_alert (tr zh_resources_failed) (oq_resources qs),
      load_alert (''Xray '' @ tr zh_status_load_failed) (oq_xray qs),
      load_alert (''sing-box '' @ tr zh_status_load_failed) (oq_singbox qs),
      validation_alert tr ''Xray'' (map_option db_xray (q_data (oq_summary qs))),
      validation_alert tr ''sing-box'' (map_option db_singbox (q_data (oq_summary qs)))]"

section \<open>The summary cards\<close>

record metric =
  mc_tone :: string
  mc_label :: string
  mc_value :: string
  mc_sub :: string
  mc_title :: "string option"

definition traffic_placeholder :: "(string \<Rightarrow> string) \<Rightarrow> traffic_snapshot query \<Rightarrow> (string \<times> string) option" where
  \<comment> \<open>the value and the second line that stand for figures which are not there\<close>
  "traffic_placeholder tr q =
     (let trafficLoading = (q_loading q \<and> q_data q = None);
          trafficUnavailable = (q_error q \<noteq> None \<and> q_data q = None)
      in if trafficLoading \<or> trafficUnavailable
         then Some (if trafficLoading then (tr zh_loading_word, tr zh_awaiting_traffic)
                    else (tr zh_not_available, tr zh_see_alerts))
         else None)"

definition overview_metrics :: "(string \<Rightarrow> string) \<Rightarrow> overview_queries \<Rightarrow> metric list" where
  "overview_metrics tr qs =
     (let counts = (case q_data (oq_summary qs) of None \<Rightarrow> emptyCounts | Some d \<Rightarrow> db_counts d);
          traffic = or_else (q_data (oq_traffic qs)) emptyTrafficV2;
          amounts = tt_cumulative (sn_total traffic);
          rates = tt_realtime (sn_total traffic);
          coverage = sn_coverage traffic;
          hidden = traffic_placeholder tr (oq_traffic qs);
          trafficLoading = (q_loading (oq_traffic qs) \<and> q_data (oq_traffic qs) = None);
          xray = q_data (oq_xray qs);
          singbox = q_data (oq_singbox qs)
      in [\<lparr>mc_tone = ''teal'', mc_label = tr zh_total_traffic,
           mc_value = (case hidden of Some (v, sub) \<Rightarrow> v | None \<Rightarrow> formatBytes (Some (of_int (tm_total amounts)))),
           mc_sub = (case hidden of Some (v, sub) \<Rightarrow> sub
             | None \<Rightarrow> formatBytes (Some (of_int (tm_up amounts))) @ zh_up_slash @ formatBytes (Some (of_int (tm_down amounts))) @ zh_down_end),
           mc_title = trafficHint (Some (sn_observed_at traffic)) (Some (tr_window_seconds rates)) (Some (tm_source amounts))
             (Some (tm_status amounts)) (Some (tm_message amounts)) tr\<rparr>,
          \<lparr>mc_tone = (case hidden of Some h \<Rightarrow> if trafficLoading then ''slate'' else ''rose'' | None \<Rightarrow> trafficStatusTone (Some (tv_overall coverage))),
           mc_label = tr zh_total_rate,
           mc_value = (case hidden of Some (v, sub) \<Rightarrow> v | None \<Rightarrow> realtimeTotalLabel (Some (tr_rate_total rates)) (Some (tr_status rates)) tr),
           mc_sub = (case hidden of Some (v, sub) \<Rightarrow> sub
             | None \<Rightarrow> trafficRateSummary (Some (tr_rate_up rates)) (Some (tr_rate_down rates))
                 (Some (str_or (tr_status rates) (tv_overall coverage))) (Some (tv_engines coverage)) tr),
           mc_title = trafficHint (Some (str_or (tr_observed_at rates) (sn_observed_at traffic))) (Some (tr_window_seconds rates))
             (Some (tr_source rates)) (Some (tr_status rates)) (Some (tr_message rates)) tr\<rparr>,
          \<lparr>mc_tone = ''blue'', mc_label = tr zh_nodes_clients,
           mc_value = int_str (dc_inbounds counts) @ ''/'' @ int_str (dc_clients counts),
           mc_sub = int_str (dc_inbounds_enabled counts) @ '' '' @ tr zh_nodes_enabled @ zh_dot @ int_str (dc_clients_active counts)
             @ '' '' @ tr zh_clients_active,
           mc_title = None\<rparr>,
          \<lparr>mc_tone = coreStatusTone xray singbox, mc_label = tr zh_core_state, mc_value = coreStatusValue xray singbox tr,
           mc_sub = ''Xray '' @ tr (serviceLabel xray) @ zh_dot @ ''sing-box '' @ tr (serviceLabel singbox),
           mc_title = None\<rparr>])"

section \<open>The traffic card\<close>

record analytics_page =
  ap_range :: analytics_range
  ap_metric :: analytics_metric
  ap_scope :: analytics_scope
  ap_mode :: chart_mode
  ap_details :: bool

definition analytics_start :: analytics_page where
  "analytics_start = \<lparr>ap_range = R24h, ap_metric = Usage, ap_scope = ByInbound, ap_mode = AreaChart, ap_details = False\<rparr>"

definition mode_effect :: "analytics_page \<Rightarrow> analytics_page" where
  "mode_effect st = (if ap_metric st = Rate \<and> ap_mode st = HeatChart then st\<lparr>ap_mode := AreaChart\<rparr> else st)"

datatype analytics_event =
    RangeChosen analytics_range
  | MetricChosen analytics_metric
  | ScopeChosen analytics_scope
  | ModeChosen chart_mode
  | DetailsToggled
  | EffectRun

primrec analytics_step :: "analytics_event \<Rightarrow> analytics_page \<Rightarrow> analytics_page" where
  "analytics_step (RangeChosen r) st = st\<lparr>ap_range := r\<rparr>"
| "analytics_step (MetricChosen m) st = st\<lparr>ap_metric := m\<rparr>"
| "analytics_step (ScopeChosen s) st = st\<lparr>ap_scope := s\<rparr>"
| "analytics_step (ModeChosen m) st = (if m \<in> set (availableModes (ap_metric st)) then st\<lparr>ap_mode := m\<rparr> else st)"
| "analytics_step DetailsToggled st = st\<lparr>ap_details := \<not> ap_details st\<rparr>"
| "analytics_step EffectRun st = mode_effect st"

definition Segmented :: "'a list \<Rightarrow> 'a \<Rightarrow> ('a \<Rightarrow> string) \<Rightarrow> (string \<times> bool) list" where \<comment> \<open>the buttons, the active one marked\<close>
  "Segmented values v label = map (\<lambda>x. (label x, x = v)) values"

definition mode_buttons :: "(string \<Rightarrow> string) \<Rightarrow> analytics_page \<Rightarrow> (string \<times> bool) list" where
  "mode_buttons tr st =
     Segmented (availableModes (ap_metric st)) (effectiveMode (ap_metric st) (ap_mode st)) (\<lambda>m. tr (trafficModeLabel m))"

text \<open>What the chart area shows.\<close>

datatype chart_shell = ChartLoading string | ChartEmpty string | ChartShown chart

definition chart_shell ::
  "clock \<Rightarrow> (string \<Rightarrow> string) \<Rightarrow> analytics query \<Rightarrow> analytics_page \<Rightarrow> chart_shell" where
  "chart_shell clock tr q st =
     (if q_loading q \<and> q_data q = None then ChartLoading (tr zh_analytics_loading)
      else if \<not> has_data (q_data q) then ChartEmpty (tr zh_no_traffic_data)
      else ChartShown (buildTrafficAnalyticsOption clock (q_data q) (effectiveMode (ap_metric st) (ap_mode st)) (ap_metric st) (ap_scope st) tr))"

definition meta_tags :: "clock \<Rightarrow> (string \<Rightarrow> string) \<Rightarrow> analytics option \<Rightarrow> analytics_page \<Rightarrow> (string \<times> string) list" where
  "meta_tags clock tr data st =
     [(tr zh_granularity, formatBucketSeconds (case data of None \<Rightarrow> 0 | Some d \<Rightarrow> ay_bucket_seconds d)),
      (tr zh_data_points, al_points (analytics_labels data (ap_metric st))),
      (tr zh_peak_time, (case Option.bind data ay_summary of
          Some s \<Rightarrow> if ostr (as_peak_at s) \<noteq> [] then formatAxisTime clock (ostr (as_peak_at s)) (map_option ay_range data) else tr zh_unknown
        | None \<Rightarrow> tr zh_unknown)),
      (tr zh_dimension, tr (if ap_scope st = ByClient then zh_client_ov else zh_inbound_ov))]"

definition TrafficInsightTags :: "(string \<Rightarrow> string) \<Rightarrow> analytics option \<Rightarrow> analytics_metric \<Rightarrow> (string \<times> string) list" where
  "TrafficInsightTags tr data metric =
     (case data of None \<Rightarrow> []
      | Some d \<Rightarrow> (case ay_summary d of None \<Rightarrow> []
          | Some s \<Rightarrow> if \<not> as_has_data s then []
              else (case insight_percents metric s of (up, down) \<Rightarrow>
                [(tr zh_up_share, int_str up @ ''%''), (tr zh_down_share, int_str down @ ''%'')]
                @ (case ay_top_clients d of [] \<Rightarrow> [] | c # _ \<Rightarrow> [(tr zh_top_client, rank_label c)])
                @ (case ay_top_inbounds d of [] \<Rightarrow> [] | i # _ \<Rightarrow> [(tr zh_top_inbound, rank_label i)]))))"

section \<open>The server and the configurations\<close>

definition RuntimeStatusPanel :: "(string \<Rightarrow> string) \<Rightarrow> resources option \<Rightarrow> (string \<times> string) list" where
  "RuntimeStatusPanel tr r =
     (let f = (\<lambda>g. Option.bind r g) in
      [(''CPU'', formatPercent (f re_cpu_percent)),
       (tr zh_memory_word, formatBytes (f re_memory_used) @ '' / '' @ formatBytes (f re_memory_total)),
       (tr zh_disk_word, formatBytes (f re_disk_used) @ '' / '' @ formatBytes (f re_disk_total)),
       (tr zh_uptime_word, formatDuration (f re_uptime_seconds))])"

datatype validation_tone = Muted | Red | Green

definition ValidationSummary ::
  "(string \<Rightarrow> string) \<Rightarrow> bool \<Rightarrow> validation option \<Rightarrow> failure option \<Rightarrow> validation_tone \<times> string \<times> string" where
  "ValidationSummary tr loading v err =
     (let valid = map_option va_valid v; failed = (err \<noteq> None \<or> valid = Some False)
      in (if loading then Muted else if failed then Red else if valid = Some True then Green else Muted,
          validationStatusLabel loading valid err tr, validationSummary v tr err))"

section \<open>Nothing fails silently\<close>

definition failing :: "'a query \<Rightarrow> nat" where "failing q = (if q_error q = None then 0 else 1)"

definition rejected :: "validation option \<Rightarrow> nat" where
  "rejected v = (case v of Some d \<Rightarrow> if va_valid d then 0 else 1 | None \<Rightarrow> 0)"

lemma load_alert_Nil [simp]: "load_alert label q = [] \<longleftrightarrow> q_error q = None"
  by (simp add: load_alert_def split: option.split)

lemma validation_alert_Nil [simp]: "validation_alert tr core v = [] \<longleftrightarrow> (\<forall>d \<in> set_option v. va_valid d)"
  by (auto simp: validation_alert_def split: option.split)

definition told :: "string \<Rightarrow> nat" where "told s = (if s = [] then 0 else 1)"

lemma told_alerts: "told (load_alert label q) = failing q" "told (validation_alert tr core v) = rejected v"
  by (auto simp: told_def failing_def rejected_def split: option.split)

lemma length_filter_told: "length (filter (\<lambda>s. s \<noteq> []) xs) = sum_list (map told xs)"
  by (induction xs) (simp_all add: told_def)


definition failed_query :: "'a query" where
  "failed_query = \<lparr>q_loading = False, q_data = None, q_error = Some NetworkFailure\<rparr>"

definition idle_query :: "'a query" where
  "idle_query = \<lparr>q_loading = True, q_data = None, q_error = None\<rparr>"

definition sample_queries :: overview_queries where
  "sample_queries = \<lparr>oq_summary = idle_query, oq_traffic = failed_query, oq_analytics = idle_query, oq_resources = failed_query,
     oq_xray = idle_query, oq_singbox = idle_query\<rparr>"


section \<open>The kind of the chart\<close>

lemma effective_available: "effectiveMode metric mode \<in> set (availableModes metric)"
  by (cases mode) (auto simp: effectiveMode_def availableModes_def trafficChartModes_def)

lemma distinct_modes: "distinct (availableModes metric)"
  by (simp add: availableModes_def trafficChartModes_def)

lemma one_active: "distinct xs \<Longrightarrow> v \<in> set xs \<Longrightarrow> length (filter snd (Segmented xs v label)) = 1"
proof (induction xs)
  case (Cons x xs)
  then have "x = v \<Longrightarrow> filter snd (Segmented xs v label) = []"
    by (auto simp: Segmented_def filter_empty_conv)
  then show ?case using Cons by (auto simp: Segmented_def)
qed simp

text \<open>
  After any choices, exactly one button of the kinds of chart is marked, and it is one that the chosen figure
  offers; what the effect writes back never changes the chart that is shown.
\<close>

lemma one_mode_is_marked:
  "length (filter snd (mode_buttons tr (fold analytics_step events analytics_start))) = 1"
  by (simp add: mode_buttons_def one_active distinct_modes effective_available)

lemma effect_keeps_chart: "chart_shell clock tr q (mode_effect st) = chart_shell clock tr q st"
  by (simp add: chart_shell_def mode_effect_def effectiveMode_def)

end
