(* ===== verification/CoreView.thy ===== *)
theory CoreView
  imports CoreActions
begin

text \<open>
  \<^verbatim>\<open>src/web/src/routes/CorePage.tsx\<close>, what a core page shows: the buttons of its operations with the question
  each asks first, the overview, the listening ports, the diagnosis with its details and the state of the
  configuration. Fields of the answers that are only printed are arguments.
\<close>

section \<open>Texts\<close>

text \<open>The non-ASCII texts of this part of the user interface, as UTF-8 bytes.\<close>

definition zh_cv_core_question :: string where
  "zh_cv_core_question = [CHR 0x20, CHR 0xE6, CHR 0xA0, CHR 0xB8, CHR 0xE5, CHR 0xBF, CHR 0x83, CHR 0xEF, CHR 0xBC, CHR 0x9F]"

definition zh_cv_reinstall :: string where
  "zh_cv_reinstall = [CHR 0xE5, CHR 0x8D, CHR 0x87, CHR 0xE7, CHR 0xBA, CHR 0xA7, CHR 0x2F, CHR 0xE9, CHR 0x87, CHR 0x8D,
    CHR 0xE8, CHR 0xA3, CHR 0x85, CHR 0xE6, CHR 0xA0, CHR 0xB8, CHR 0xE5, CHR 0xBF, CHR 0x83]"

definition zh_cv_install_core :: string where
  "zh_cv_install_core = [CHR 0xE5, CHR 0xAE, CHR 0x89, CHR 0xE8, CHR 0xA3, CHR 0x85, CHR 0xE6, CHR 0xA0, CHR 0xB8, CHR 0xE5,
    CHR 0xBF, CHR 0x83]"

definition zh_cv_validate :: string where
  "zh_cv_validate = [CHR 0xE7, CHR 0x94, CHR 0x9F, CHR 0xE6, CHR 0x88, CHR 0x90, CHR 0xE6, CHR 0xA0, CHR 0xA1, CHR 0xE9,
    CHR 0xAA, CHR 0x8C]"

definition zh_cv_config_question :: string where
  "zh_cv_config_question = [CHR 0x20, CHR 0xE9, CHR 0x85, CHR 0x8D, CHR 0xE7, CHR 0xBD, CHR 0xAE, CHR 0xEF, CHR 0xBC, CHR 0x9F]"

definition zh_cv_apply_note :: string where
  "zh_cv_apply_note = [CHR 0xE8, CHR 0xAF, CHR 0xA5, CHR 0xE6, CHR 0x93, CHR 0x8D, CHR 0xE4, CHR 0xBD, CHR 0x9C, CHR 0xE4,
    CHR 0xBC, CHR 0x9A, CHR 0xE9, CHR 0x87, CHR 0x8D, CHR 0xE6, CHR 0x96, CHR 0xB0, CHR 0xE7, CHR 0x94,
    CHR 0x9F, CHR 0xE6, CHR 0x88, CHR 0x90, CHR 0xE5, CHR 0xB9, CHR 0xB6, CHR 0xE5, CHR 0xBA, CHR 0x94,
    CHR 0xE7, CHR 0x94, CHR 0xA8, CHR 0xE6, CHR 0xA0, CHR 0xB8, CHR 0xE5, CHR 0xBF, CHR 0x83, CHR 0xE9,
    CHR 0x85, CHR 0x8D, CHR 0xE7, CHR 0xBD, CHR 0xAE, CHR 0xE3, CHR 0x80, CHR 0x82]"

definition zh_cv_restart :: string where
  "zh_cv_restart = [CHR 0xE9, CHR 0x87, CHR 0x8D, CHR 0xE5, CHR 0x90, CHR 0xAF, CHR 0xE6, CHR 0xA0, CHR 0xB8, CHR 0xE5,
    CHR 0xBF, CHR 0x83]"

definition zh_cv_restart_q :: string where
  "zh_cv_restart_q = [CHR 0xE9, CHR 0x87, CHR 0x8D, CHR 0xE5, CHR 0x90, CHR 0xAF, CHR 0x20]"

definition zh_cv_restart_note :: string where
  "zh_cv_restart_note = [CHR 0xE8, CHR 0xAF, CHR 0xA5, CHR 0xE6, CHR 0x93, CHR 0x8D, CHR 0xE4, CHR 0xBD, CHR 0x9C, CHR 0xE4,
    CHR 0xBC, CHR 0x9A, CHR 0xE9, CHR 0x80, CHR 0x9A, CHR 0xE8, CHR 0xBF, CHR 0x87, CHR 0x20, CHR 0x73,
    CHR 0x79, CHR 0x73, CHR 0x74, CHR 0x65, CHR 0x6D, CHR 0x64, CHR 0x20, CHR 0xE9, CHR 0x87, CHR 0x8D,
    CHR 0xE5, CHR 0x90, CHR 0xAF, CHR 0xE6, CHR 0xA0, CHR 0xB8, CHR 0xE5, CHR 0xBF, CHR 0x83, CHR 0xE6,
    CHR 0x9C, CHR 0x8D, CHR 0xE5, CHR 0x8A, CHR 0xA1, CHR 0xE3, CHR 0x80, CHR 0x82]"

definition zh_cv_question :: string where
  "zh_cv_question = [CHR 0xEF, CHR 0xBC, CHR 0x9F]"

definition zh_cv_reinstall_note :: string where
  "zh_cv_reinstall_note = [CHR 0xE8, CHR 0xAF, CHR 0xA5, CHR 0xE6, CHR 0x93, CHR 0x8D, CHR 0xE4, CHR 0xBD, CHR 0x9C, CHR 0xE4,
    CHR 0xBC, CHR 0x9A, CHR 0xE9, CHR 0x87, CHR 0x8D, CHR 0xE6, CHR 0x96, CHR 0xB0, CHR 0xE6, CHR 0x89,
    CHR 0xA7, CHR 0xE8, CHR 0xA1, CHR 0x8C, CHR 0xE5, CHR 0xAE, CHR 0x89, CHR 0xE8, CHR 0xA3, CHR 0x85,
    CHR 0xE8, CHR 0x84, CHR 0x9A, CHR 0xE6, CHR 0x9C, CHR 0xAC, CHR 0xEF, CHR 0xBC, CHR 0x8C, CHR 0xE9,
    CHR 0x80, CHR 0x9A, CHR 0xE5, CHR 0xB8, CHR 0xB8, CHR 0xE7, CHR 0x94, CHR 0xA8, CHR 0xE4, CHR 0xBA,
    CHR 0x8E, CHR 0xE5, CHR 0x8D, CHR 0x87, CHR 0xE7, CHR 0xBA, CHR 0xA7, CHR 0xE6, CHR 0x88, CHR 0x96,
    CHR 0xE4, CHR 0xBF, CHR 0xAE, CHR 0xE5, CHR 0xA4, CHR 0x8D, CHR 0xE5, CHR 0xBD, CHR 0x93, CHR 0xE5,
    CHR 0x89, CHR 0x8D, CHR 0xE6, CHR 0xA0, CHR 0xB8, CHR 0xE5, CHR 0xBF, CHR 0x83, CHR 0xE3, CHR 0x80,
    CHR 0x82]"

definition zh_cv_install_note :: string where
  "zh_cv_install_note = [CHR 0xE8, CHR 0xAF, CHR 0xA5, CHR 0xE6, CHR 0x93, CHR 0x8D, CHR 0xE4, CHR 0xBD, CHR 0x9C, CHR 0xE4,
    CHR 0xBC, CHR 0x9A, CHR 0xE6, CHR 0x89, CHR 0xA7, CHR 0xE8, CHR 0xA1, CHR 0x8C, CHR 0xE7, CHR 0xB3,
    CHR 0xBB, CHR 0xE7, CHR 0xBB, CHR 0x9F, CHR 0xE5, CHR 0xAE, CHR 0x89, CHR 0xE8, CHR 0xA3, CHR 0x85,
    CHR 0xE5, CHR 0x91, CHR 0xBD, CHR 0xE4, CHR 0xBB, CHR 0xA4, CHR 0xE3, CHR 0x80, CHR 0x82]"

definition zh_cv_stop :: string where
  "zh_cv_stop = [CHR 0xE5, CHR 0x81, CHR 0x9C, CHR 0xE6, CHR 0xAD, CHR 0xA2, CHR 0xE6, CHR 0xA0, CHR 0xB8, CHR 0xE5,
    CHR 0xBF, CHR 0x83]"

definition zh_cv_stop_q :: string where
  "zh_cv_stop_q = [CHR 0xE5, CHR 0x81, CHR 0x9C, CHR 0xE6, CHR 0xAD, CHR 0xA2, CHR 0x20]"

definition zh_cv_stop_note :: string where
  "zh_cv_stop_note = [CHR 0xE8, CHR 0xAF, CHR 0xA5, CHR 0xE6, CHR 0x93, CHR 0x8D, CHR 0xE4, CHR 0xBD, CHR 0x9C, CHR 0xE4,
    CHR 0xBC, CHR 0x9A, CHR 0xE5, CHR 0x81, CHR 0x9C, CHR 0xE6, CHR 0xAD, CHR 0xA2, CHR 0xE6, CHR 0xA0,
    CHR 0xB8, CHR 0xE5, CHR 0xBF, CHR 0x83, CHR 0xE6, CHR 0x9C, CHR 0x8D, CHR 0xE5, CHR 0x8A, CHR 0xA1,
    CHR 0xEF, CHR 0xBC, CHR 0x8C, CHR 0xE5, CHR 0x85, CHR 0xA5, CHR 0xE7, CHR 0xAB, CHR 0x99, CHR 0xE8,
    CHR 0xBF, CHR 0x9E, CHR 0xE6, CHR 0x8E, CHR 0xA5, CHR 0xE4, CHR 0xBC, CHR 0x9A, CHR 0xE4, CHR 0xB8,
    CHR 0xAD, CHR 0xE6, CHR 0x96, CHR 0xAD, CHR 0xE3, CHR 0x80, CHR 0x82]"

definition zh_cv_unmanage :: string where
  "zh_cv_unmanage = [CHR 0xE5, CHR 0x8F, CHR 0x96, CHR 0xE6, CHR 0xB6, CHR 0x88, CHR 0xE6, CHR 0x89, CHR 0x98, CHR 0xE7,
    CHR 0xAE, CHR 0xA1, CHR 0xE6, CHR 0xA0, CHR 0xB8, CHR 0xE5, CHR 0xBF, CHR 0x83]"

definition zh_cv_unmanage_q :: string where
  "zh_cv_unmanage_q = [CHR 0xE5, CHR 0x8F, CHR 0x96, CHR 0xE6, CHR 0xB6, CHR 0x88, CHR 0xE6, CHR 0x89, CHR 0x98, CHR 0xE7,
    CHR 0xAE, CHR 0xA1, CHR 0x20]"

definition zh_cv_unmanage_note :: string where
  "zh_cv_unmanage_note = [CHR 0xE8, CHR 0xAF, CHR 0xA5, CHR 0xE6, CHR 0x93, CHR 0x8D, CHR 0xE4, CHR 0xBD, CHR 0x9C, CHR 0xE4,
    CHR 0xBC, CHR 0x9A, CHR 0xE5, CHR 0x81, CHR 0x9C, CHR 0xE6, CHR 0xAD, CHR 0xA2, CHR 0xE5, CHR 0xB9,
    CHR 0xB6, CHR 0xE7, CHR 0xA7, CHR 0xBB, CHR 0xE9, CHR 0x99, CHR 0xA4, CHR 0x20, CHR 0x4D, CHR 0x69,
    CHR 0x47, CHR 0x61, CHR 0x74, CHR 0x65, CHR 0x20, CHR 0xE7, CHR 0xAE, CHR 0xA1, CHR 0xE7, CHR 0x90,
    CHR 0x86, CHR 0xE7, CHR 0x9A, CHR 0x84, CHR 0x20, CHR 0x73, CHR 0x79, CHR 0x73, CHR 0x74, CHR 0x65,
    CHR 0x6D, CHR 0x64, CHR 0x20, CHR 0xE6, CHR 0x9C, CHR 0x8D, CHR 0xE5, CHR 0x8A, CHR 0xA1, CHR 0xEF,
    CHR 0xBC, CHR 0x8C, CHR 0xE4, CHR 0xBF, CHR 0x9D, CHR 0xE7, CHR 0x95, CHR 0x99, CHR 0xE6, CHR 0xA0,
    CHR 0xB8, CHR 0xE5, CHR 0xBF, CHR 0x83, CHR 0xE4, CHR 0xBA, CHR 0x8C, CHR 0xE8, CHR 0xBF, CHR 0x9B,
    CHR 0xE5, CHR 0x88, CHR 0xB6, CHR 0xE5, CHR 0x92, CHR 0x8C, CHR 0xE9, CHR 0x85, CHR 0x8D, CHR 0xE7,
    CHR 0xBD, CHR 0xAE, CHR 0xE3, CHR 0x80, CHR 0x82]"

definition zh_cv_delete :: string where
  "zh_cv_delete = [CHR 0xE5, CHR 0x88, CHR 0xA0, CHR 0xE9, CHR 0x99, CHR 0xA4, CHR 0xE6, CHR 0xA0, CHR 0xB8, CHR 0xE5,
    CHR 0xBF, CHR 0x83]"

definition zh_cv_delete_q :: string where
  "zh_cv_delete_q = [CHR 0xE5, CHR 0x88, CHR 0xA0, CHR 0xE9, CHR 0x99, CHR 0xA4, CHR 0x20]"

definition zh_cv_delete_note :: string where
  "zh_cv_delete_note = [CHR 0xE8, CHR 0xAF, CHR 0xA5, CHR 0xE6, CHR 0x93, CHR 0x8D, CHR 0xE4, CHR 0xBD, CHR 0x9C, CHR 0xE4,
    CHR 0xBC, CHR 0x9A, CHR 0xE5, CHR 0x81, CHR 0x9C, CHR 0xE6, CHR 0xAD, CHR 0xA2, CHR 0xE6, CHR 0x9C,
    CHR 0x8D, CHR 0xE5, CHR 0x8A, CHR 0xA1, CHR 0xE5, CHR 0xB9, CHR 0xB6, CHR 0xE5, CHR 0x88, CHR 0xA0,
    CHR 0xE9, CHR 0x99, CHR 0xA4, CHR 0xE6, CHR 0xA0, CHR 0xB8, CHR 0xE5, CHR 0xBF, CHR 0x83, CHR 0xE4,
    CHR 0xBA, CHR 0x8C, CHR 0xE8, CHR 0xBF, CHR 0x9B, CHR 0xE5, CHR 0x88, CHR 0xB6, CHR 0xEF, CHR 0xBC,
    CHR 0x8C, CHR 0xE4, CHR 0xBF, CHR 0x9D, CHR 0xE7, CHR 0x95, CHR 0x99, CHR 0xE6, CHR 0xA0, CHR 0x87,
    CHR 0xE5, CHR 0x87, CHR 0x86, CHR 0xE9, CHR 0x85, CHR 0x8D, CHR 0xE7, CHR 0xBD, CHR 0xAE, CHR 0xE6,
    CHR 0x96, CHR 0x87, CHR 0xE4, CHR 0xBB, CHR 0xB6, CHR 0xE3, CHR 0x80, CHR 0x82]"

definition zh_cv_colon :: string where
  "zh_cv_colon = [CHR 0xEF, CHR 0xBC, CHR 0x9A]"

definition zh_cv_silent :: string where
  "zh_cv_silent = [CHR 0xE6, CHR 0x9C, CHR 0xAA, CHR 0xE7, CHR 0x9B, CHR 0x91, CHR 0xE5, CHR 0x90, CHR 0xAC, CHR 0x20]"

definition zh_cv_ports :: string where
  "zh_cv_ports = [CHR 0x20, CHR 0xE4, CHR 0xB8, CHR 0xAA, CHR 0xE7, CHR 0xAB, CHR 0xAF, CHR 0xE5, CHR 0x8F, CHR 0xA3]"

definition zh_cv_applying :: string where
  "zh_cv_applying = [CHR 0xE5, CHR 0xBA, CHR 0x94, CHR 0xE7, CHR 0x94, CHR 0xA8, CHR 0xE8, CHR 0xBF, CHR 0x9B, CHR 0xE8,
    CHR 0xA1, CHR 0x8C, CHR 0xE4, CHR 0xB8, CHR 0xAD, CHR 0xEF, CHR 0xBC, CHR 0x9A]"

definition zh_cv_pending_reason :: string where
  "zh_cv_pending_reason = [CHR 0xE5, CHR 0xBE, CHR 0x85, CHR 0xE5, CHR 0xBA, CHR 0x94, CHR 0xE7, CHR 0x94, CHR 0xA8, CHR 0xE5,
    CHR 0x8E, CHR 0x9F, CHR 0xE5, CHR 0x9B, CHR 0xA0, CHR 0xEF, CHR 0xBC, CHR 0x9A]"

definition zh_cv_pending_time :: string where
  "zh_cv_pending_time = [CHR 0xE5, CHR 0xBE, CHR 0x85, CHR 0xE5, CHR 0xBA, CHR 0x94, CHR 0xE7, CHR 0x94, CHR 0xA8, CHR 0xE6,
    CHR 0x97, CHR 0xB6, CHR 0xE9, CHR 0x97, CHR 0xB4, CHR 0xEF, CHR 0xBC, CHR 0x9A]"

definition zh_cv_pending_error :: string where
  "zh_cv_pending_error = [CHR 0xE5, CHR 0xBE, CHR 0x85, CHR 0xE5, CHR 0xBA, CHR 0x94, CHR 0xE7, CHR 0x94, CHR 0xA8, CHR 0xE9,
    CHR 0x94, CHR 0x99, CHR 0xE8, CHR 0xAF, CHR 0xAF, CHR 0xEF, CHR 0xBC, CHR 0x9A]"

definition zh_cv_apply_job :: string where
  "zh_cv_apply_job = [CHR 0xE5, CHR 0xBA, CHR 0x94, CHR 0xE7, CHR 0x94, CHR 0xA8, CHR 0xE4, CHR 0xBB, CHR 0xBB, CHR 0xE5,
    CHR 0x8A, CHR 0xA1, CHR 0xEF, CHR 0xBC, CHR 0x9A]"

definition zh_cv_retry :: string where
  "zh_cv_retry = [CHR 0x20, CHR 0xC2, CHR 0xB7, CHR 0x20, CHR 0x72, CHR 0x65, CHR 0x74, CHR 0x72, CHR 0x79, CHR 0x20]"

definition zh_cv_ports_ok :: string where
  "zh_cv_ports_ok = [CHR 0xE7, CHR 0x9B, CHR 0x91, CHR 0xE5, CHR 0x90, CHR 0xAC, CHR 0xE6, CHR 0xAD, CHR 0xA3, CHR 0xE5,
    CHR 0xB8, CHR 0xB8]"

definition zh_cv_no_ports :: string where
  "zh_cv_no_ports = [CHR 0xE6, CHR 0x9A, CHR 0x82, CHR 0xE6, CHR 0x97, CHR 0xA0, CHR 0xE7, CHR 0xAB, CHR 0xAF, CHR 0xE5,
    CHR 0x8F, CHR 0xA3]"

definition zh_cv_listening :: string where
  "zh_cv_listening = [CHR 0xE6, CHR 0xAD, CHR 0xA3, CHR 0xE5, CHR 0x9C, CHR 0xA8, CHR 0xE7, CHR 0x9B, CHR 0x91, CHR 0xE5,
    CHR 0x90, CHR 0xAC]"

definition zh_cv_not_listening :: string where
  "zh_cv_not_listening = [CHR 0xE6, CHR 0x9C, CHR 0xAA, CHR 0xE7, CHR 0x9B, CHR 0x91, CHR 0xE5, CHR 0x90, CHR 0xAC]"

definition zh_cv_no_issue :: string where
  "zh_cv_no_issue = [CHR 0xE6, CHR 0x9C, CHR 0xAA, CHR 0xE5, CHR 0x8F, CHR 0x91, CHR 0xE7, CHR 0x8E, CHR 0xB0, CHR 0xE9,
    CHR 0x9C, CHR 0x80, CHR 0xE8, CHR 0xA6, CHR 0x81, CHR 0xE5, CHR 0xA4, CHR 0x84, CHR 0xE7, CHR 0x90,
    CHR 0x86, CHR 0xE7, CHR 0x9A, CHR 0x84, CHR 0xE9, CHR 0x97, CHR 0xAE, CHR 0xE9, CHR 0xA2, CHR 0x98]"

lemmas texts_CoreView =
  zh_cv_core_question_def zh_cv_reinstall_def zh_cv_install_core_def zh_cv_validate_def zh_cv_config_question_def
  zh_cv_apply_note_def zh_cv_restart_def zh_cv_restart_q_def zh_cv_restart_note_def zh_cv_question_def
  zh_cv_reinstall_note_def zh_cv_install_note_def zh_cv_stop_def zh_cv_stop_q_def zh_cv_stop_note_def
  zh_cv_unmanage_def zh_cv_unmanage_q_def zh_cv_unmanage_note_def zh_cv_delete_def zh_cv_delete_q_def
  zh_cv_delete_note_def zh_cv_colon_def zh_cv_silent_def zh_cv_ports_def zh_cv_applying_def
  zh_cv_pending_reason_def zh_cv_pending_time_def zh_cv_pending_error_def zh_cv_apply_job_def zh_cv_retry_def
  zh_cv_ports_ok_def zh_cv_no_ports_def zh_cv_listening_def zh_cv_not_listening_def zh_cv_no_issue_def

lemma texts_nonempty_CoreView [simp]:
  "zh_cv_core_question \<noteq> []" "zh_cv_reinstall \<noteq> []" "zh_cv_install_core \<noteq> []" "zh_cv_validate \<noteq> []"
  "zh_cv_config_question \<noteq> []" "zh_cv_apply_note \<noteq> []" "zh_cv_restart \<noteq> []" "zh_cv_restart_q \<noteq> []"
  "zh_cv_restart_note \<noteq> []" "zh_cv_question \<noteq> []" "zh_cv_reinstall_note \<noteq> []" "zh_cv_install_note \<noteq> []"
  "zh_cv_stop \<noteq> []" "zh_cv_stop_q \<noteq> []" "zh_cv_stop_note \<noteq> []" "zh_cv_unmanage \<noteq> []"
  "zh_cv_unmanage_q \<noteq> []" "zh_cv_unmanage_note \<noteq> []" "zh_cv_delete \<noteq> []" "zh_cv_delete_q \<noteq> []"
  "zh_cv_delete_note \<noteq> []" "zh_cv_colon \<noteq> []" "zh_cv_silent \<noteq> []" "zh_cv_ports \<noteq> []"
  "zh_cv_applying \<noteq> []" "zh_cv_pending_reason \<noteq> []" "zh_cv_pending_time \<noteq> []" "zh_cv_pending_error \<noteq> []"
  "zh_cv_apply_job \<noteq> []" "zh_cv_retry \<noteq> []" "zh_cv_ports_ok \<noteq> []" "zh_cv_no_ports \<noteq> []"
  "zh_cv_listening \<noteq> []" "zh_cv_not_listening \<noteq> []" "zh_cv_no_issue \<noteq> []"
  by (simp_all add: texts_CoreView)

section \<open>The operations\<close>

record core_control =
  ct_op :: core_op
  ct_label :: string
  ct_usable :: bool
  ct_title :: "string option"
  ct_question :: "(string \<times> string \<times> bool) option" \<comment> \<open>the title, the description, and whether it is marked as dangerous\<close>

definition plain_control :: "core_op \<Rightarrow> string \<Rightarrow> (string \<times> string) option \<Rightarrow> core_control" where
  "plain_control op label question = \<lparr>ct_op = op, ct_label = label, ct_usable = True, ct_title = None,
     ct_question = map_option (\<lambda>(title, description). (title, description, False)) question\<rparr>"

definition installed_control :: "(string \<Rightarrow> string) \<Rightarrow> bool \<Rightarrow> core_op \<Rightarrow> string \<Rightarrow> string \<Rightarrow> string \<Rightarrow> bool \<Rightarrow> core_control" where
  "installed_control tr installed op label title description danger =
     \<lparr>ct_op = op, ct_label = tr label, ct_usable = installed, ct_title = Some (tr (if installed then label else zh_ch_core_missing)),
      ct_question = Some (title, tr description, danger)\<rparr>"

definition core_question :: "core_name \<Rightarrow> string" where
  "core_question core = page_label core @ zh_cv_core_question"

definition installActionLabel :: "core_status option \<Rightarrow> core_diagnostics option \<Rightarrow> string" where
  "installActionLabel status diagnostics =
     (if coreInstalledWithDiagnostics status diagnostics then zh_cv_reinstall else zh_cv_install_core)"

definition core_controls ::
  "(string \<Rightarrow> string) \<Rightarrow> core_name \<Rightarrow> core_status option \<Rightarrow> core_diagnostics option \<Rightarrow> user_sync \<Rightarrow> bool \<Rightarrow> core_control list" where
  "core_controls tr core status diagnostics userSync advanced =
     (let installed = coreInstalledWithDiagnostics status diagnostics;
          label = page_label core;
          install = installActionLabel status diagnostics;
          applyLabel = coreApplyButtonLabel userSync
      in [plain_control CoreValidate (tr zh_cv_validate) None,
          plain_control CoreApply (tr applyLabel)
            (Some (tr (applyLabel @ '' '' @ label @ zh_cv_config_question), tr zh_cv_apply_note)),
          installed_control tr installed CoreRestart zh_cv_restart (tr (zh_cv_restart_q @ core_question core))
            zh_cv_restart_note False]
         @ (if advanced
            then [plain_control CoreInstall (tr install) (Some (tr (install @ '' '' @ label @ zh_cv_question),
                    tr (if installed then zh_cv_reinstall_note
                        else zh_cv_install_note))),
                  installed_control tr installed CoreStop zh_cv_stop (tr (zh_cv_stop_q @ core_question core))
                    zh_cv_stop_note True,
                  installed_control tr installed CoreUninstall zh_cv_unmanage (tr (zh_cv_unmanage_q @ core_question core))
                    zh_cv_unmanage_note True,
                  installed_control tr installed CoreDelete zh_cv_delete (tr (zh_cv_delete_q @ core_question core))
                    zh_cv_delete_note True]
            else []))"

section \<open>The cards\<close>

definition overview_strip ::
  "(string \<Rightarrow> string) \<Rightarrow> core_status option \<Rightarrow> core_diagnostics option \<Rightarrow> config_preview option \<Rightarrow> (status_tone \<times> string) list" where
  "overview_strip tr status diagnostics preview =
     (let missing = length (filter (\<lambda>p. \<not> lr_listening p) (coreListeningDiagnostics status diagnostics))
      in map (\<lambda>(label, v, tone). (tone, tr label @ zh_cv_colon @ tr v)) (overview_pills status diagnostics preview)
         @ (if missing \<noteq> 0 then [(StatusWarning, tr (zh_cv_silent @ nat_str missing @ zh_cv_ports))] else [])
         @ (case status_job status of
              Some j \<Rightarrow> if coreApplyJobInProgress (Some (aj_status j))
                then [(StatusWarning, tr (zh_cv_applying @ applyJobStatusLabel (Some (aj_status j))))] else []
            | None \<Rightarrow> []))"

record core_overview =
  cw_tone :: status_tone
  cw_label :: string
  cw_headline :: string
  cw_detail :: string
  cw_version :: string
  cw_connections :: string
  cw_listening :: string
  cw_memory :: string
  cw_strip :: "(status_tone \<times> string) list"
  cw_path :: string
  cw_action :: string
  cw_action_detail :: string

definition CoreOverview ::
  "(string \<Rightarrow> string) \<Rightarrow> core_name \<Rightarrow> core_status option \<Rightarrow> core_diagnostics option \<Rightarrow> config_preview option \<Rightarrow> string option \<Rightarrow> core_health \<Rightarrow> core_overview" where
  "CoreOverview tr core status diagnostics preview fallbackVersion state =
     (let userSync = coreUserSyncState status diagnostics preview False None;
          version = str_or (ostr (of_opt sc_version status)) (ostr fallbackVersion)
      in \<lparr>cw_tone = he_tone state, cw_label = tr (page_label core), cw_headline = tr (he_headline state), cw_detail = tr (he_detail state),
          cw_version = versionLabel (Some version),
          cw_connections = int_str (oint (of_opt sc_active_connections status)),
          cw_listening = listening_ratio status diagnostics,
          cw_memory = formatBytes (of_opt sc_memory_rss_bytes status),
          cw_strip = overview_strip tr status diagnostics preview,
          cw_path = overview_path status diagnostics preview,
          cw_action = tr (us_action userSync), cw_action_detail = tr (us_detail userSync)\<rparr>)"

definition overview_details ::
  "(string \<Rightarrow> string) \<Rightarrow> core_status option \<Rightarrow> config_preview option \<Rightarrow> string option \<Rightarrow> string option \<Rightarrow> string option \<Rightarrow> string list" where
  \<comment> \<open>\<^verbatim>\<open>pending_updated_at\<close>, \<^verbatim>\<open>generated_hash\<close> and \<^verbatim>\<open>applied_config_hash\<close> of the status are arguments\<close>
  "overview_details tr status preview updated_at generated_hash applied_hash =
     (let line = (\<lambda>label v. if v \<noteq> [] then [tr (label @ v)] else []);
          raw = (\<lambda>label v. if v \<noteq> [] then [label @ v] else []);
          err = ostr (of_opt sc_pending_apply_error status);
          detail = ostr (of_opt sc_pending_apply_detail status);
          dotted = (\<lambda>v. if v \<noteq> [] then zh_ch_dot @ tr v else [])
      in line zh_cv_pending_reason (ostr (of_opt sc_pending_reason status))
         @ line zh_cv_pending_time (ostr updated_at)
         @ (if err \<noteq> [] then [tr (zh_cv_pending_error @ err) @ dotted detail] else [])
         @ raw ''generated_hash: '' (ostr generated_hash) @ raw ''applied_hash: '' (ostr applied_hash)
         @ raw ''disk_hash: '' (hash_of (of_opt pv_disk preview))
         @ (case status_job status of None \<Rightarrow> []
            | Some j \<Rightarrow> [tr (zh_cv_apply_job @ applyJobStatusLabel (Some (aj_status j)))
                @ (if oint (aj_retry_count j) \<noteq> 0
                   then zh_cv_retry @ int_str (oint (aj_retry_count j)) @ ''/'' @ int_str (oint (aj_max_retries j)) else [])
                @ dotted (ostr (aj_message j)) @ dotted (ostr (aj_error j)) @ dotted (ostr (aj_detail j))]))"

record port_card =
  pt_amber :: bool
  pt_summary :: string
  pt_pill :: "status_tone \<times> string"
  pt_rows :: "(string list \<times> bool) list" \<comment> \<open>the cells, and whether the port listens\<close>

definition CorePortDiagnostics :: "(string \<Rightarrow> string) \<Rightarrow> core_status option \<Rightarrow> core_diagnostics option \<Rightarrow> port_card" where
  "CorePortDiagnostics tr status diagnostics =
     (let ports = coreListeningDiagnostics status diagnostics;
          missing = list_ex (\<lambda>p. \<not> lr_listening p) ports
      in \<lparr>pt_amber = missing, pt_summary = tr (corePortSummary ports),
          pt_pill = (if missing then StatusWarning else if ports \<noteq> [] then StatusOk else StatusNeutral,
                     tr (if missing then zh_ch_port_silent else if ports \<noteq> [] then zh_cv_ports_ok else zh_cv_no_ports)),
          pt_rows = map (\<lambda>p. ([int_str (lr_inboundId p), lr_protocol p, int_str (lr_port p), toUpperCase (lr_transport p),
              str_or (ostr (lr_network p)) ''-'', str_or (ostr (lr_security p)) ''-'', str_or (ostr (lr_detail p)) ''-'',
              tr (if lr_listening p then zh_cv_listening else zh_cv_not_listening)], lr_listening p)) ports\<rparr>)"

record diagnosis_panel =
  dp_tone :: status_tone
  dp_text :: string
  dp_advice :: "string option"
  dp_checks :: "(string \<times> string \<times> bool option) list"
  dp_open :: bool \<comment> \<open>whether the details start open\<close>

definition CoreDiagnosticsPanel :: "(string \<Rightarrow> string) \<Rightarrow> core_diagnostics option \<Rightarrow> bool \<Rightarrow> string option \<Rightarrow> diagnosis_panel" where
  "CoreDiagnosticsPanel tr diagnostics loading err =
     (let summary = coreDiagnosticsSummary diagnostics loading err;
          hasIssues = (ds_tone summary \<noteq> StatusOk)
      in \<lparr>dp_tone = ds_tone summary,
          dp_text = tr (if hasIssues then issueSummary diagnostics summary else zh_cv_no_issue),
          dp_advice = (if hasIssues then Some (tr (recommendedAction diagnostics summary)) else None),
          dp_checks = map (\<lambda>c. (tr (ck_label c), tr (ck_value c), ck_ok c)) (diagnosticChecksForPanel diagnostics loading err),
          dp_open = (hasIssues \<and> \<not> loading)\<rparr>)"

datatype detail_section =
    DetailText string
  | MissingPorts "string list"
  | ConfigError string
  | WarningList "string list"
  | ActionRows "formatted_action list"
  | SuggestionList "string list"
  | RecentLogs string

definition CoreDiagnosticsDetails ::
  "(string \<Rightarrow> string) \<Rightarrow> core_diagnostics option \<Rightarrow> diag_summary \<Rightarrow> string list \<Rightarrow> detail_section list" where
  \<comment> \<open>\<^verbatim>\<open>recent_logs\<close> is an argument\<close>
  "CoreDiagnosticsDetails tr diagnostics summary recent_logs =
     (let missing = olist (of_opt dg_missing_listeners diagnostics);
          actions = coreDiagnosticActions diagnostics;
          suggestions = olist (of_opt dg_suggestions diagnostics)
      in (if ds_detail summary \<noteq> [] then [DetailText (tr (diagnosticWarningLabel (ds_detail summary)))] else [])
         @ (if missing \<noteq> [] then [MissingPorts (map (\<lambda>l. int_str (li_port l) @ ''/'' @
               toLowerCase (str_or (ostr (li_transport l)) (str_or (ostr (li_network l)) ''tcp''))) missing)] else [])
         @ (if ostr (of_opt dg_config_error diagnostics) \<noteq> [] then [ConfigError (ostr (of_opt dg_config_error diagnostics))] else [])
         @ (if olist (of_opt dg_warnings diagnostics) \<noteq> []
            then [WarningList (map (\<lambda>w. tr (diagnosticWarningLabel w)) (olist (of_opt dg_warnings diagnostics)))] else [])
         @ (if actions \<noteq> [] then [ActionRows (map formatDiagnosticAction actions)]
            else if suggestions \<noteq> [] then [SuggestionList (map tr suggestions)] else [])
         @ (if recent_logs \<noteq> [] then [RecentLogs (join [CHR 0x0A] (drop (length recent_logs - 8) recent_logs))] else []))"

record config_card =
  cc_path :: string
  cc_pill :: "status_tone \<times> string"
  cc_detail :: "string option"
  cc_pending :: bool

definition CoreConfigSync :: "(string \<Rightarrow> string) \<Rightarrow> config_preview option \<Rightarrow> bool \<Rightarrow> string option \<Rightarrow> config_card" where
  "CoreConfigSync tr preview loading err =
     (let state = configSyncState preview loading err;
          path_of = (\<lambda>a. case a of None \<Rightarrow> [] | Some x \<Rightarrow> ca_config_path x)
      in \<lparr>cc_path = str_or (case preview of None \<Rightarrow> [] | Some p \<Rightarrow> pv_config_path p)
            (str_or (path_of (of_opt pv_disk preview)) (str_or (path_of (of_opt pv_generated preview)) ''-'')),
          cc_pill = (if sy_ok state = Some False then StatusWarning else if sy_ok state = Some True then StatusOk else StatusNeutral,
                     tr (sy_label state)),
          cc_detail = (if sy_detail state \<noteq> [] then Some (tr (sy_detail state)) else None),
          cc_pending = is_on (of_opt pv_pending_apply preview)\<rparr>)"

section \<open>Questions come first\<close>

text \<open>
  C19.
  A button of a core page sends nothing but its own operation. Only the check of the configuration is sent without a
  question; every operation that changes the core is sent after the user said yes to the question of
  its button, stopping, releasing and deleting are marked as dangerous, and a button that cannot be used
  sends nothing even then.
\<close>

theorem core_operations_ask_first:
  assumes "c \<in> set (core_controls tr core status diagnostics userSync advanced)"
    and "action_button (ct_op c) (coreInstalledWithDiagnostics status diagnostics) confirmed = Some op"
  shows "op = ct_op c \<and> ct_usable c
    \<and> (confirmed \<or> op = CoreValidate)
    \<and> (ct_question c = None \<longleftrightarrow> op = CoreValidate)
    \<and> (op \<in> {CoreStop, CoreUninstall, CoreDelete} \<longrightarrow> (\<exists>title note. ct_question c = Some (title, note, True)))"
  using assms
  by (auto simp: core_controls_def Let_def plain_control_def installed_control_def action_button_def split: if_splits)

definition installed_core :: core_status where
  "installed_core = \<lparr>sc_status = ''running'', sc_managed = Some True, sc_installed = Some True, sc_version = None,
     sc_memory_rss_bytes = None, sc_uptime = None, sc_active_connections = None, sc_config_path = None,
     sc_listening_ports = None, sc_pending_apply = None, sc_pending_apply_error = None, sc_pending_apply_detail = None,
     sc_pending_reason = None, sc_apply_job = None\<rparr>"

definition stop_control :: core_control where
  "stop_control = installed_control (\<lambda>s. s) True CoreStop zh_cv_stop (zh_cv_stop_q @ core_question Xray) zh_cv_stop_note True"

lemma installed_core_installed: "coreInstalledWithDiagnostics (Some installed_core) None"
  by (simp add: coreInstalledWithDiagnostics_def isCoreInstalled_def hasCoreInstallSignal_def installed_core_def)

theorem core_operations_ask_first_witness:
  "ct_op stop_control = CoreStop \<and> ct_usable stop_control"
proof -
  have "stop_control \<in> set (core_controls (\<lambda>s. s) Xray (Some installed_core) None (coreUserSyncState None None None False None) True)"
    by (simp add: core_controls_def Let_def installed_core_installed stop_control_def)
  moreover have "action_button (ct_op stop_control) (coreInstalledWithDiagnostics (Some installed_core) None) True = Some CoreStop"
    by (simp add: installed_core_installed stop_control_def installed_control_def action_button_def)
  ultimately show ?thesis using core_operations_ask_first by metis
qed

section \<open>Two verdicts on one page\<close>

text \<open>
  The overview asks for the verdict on the configuration without the state of the preview query, the button
  of the page with it: when the preview could not be loaded and the diagnosis found the files in sync, the overview
  says that the configuration is in force while the page cannot tell.
\<close>

lemma overview_ignores_failed_preview:
  assumes "sc_apply_job status = None" and "dg_disk_generated_in_sync d = Some True"
    and "\<not> config_broken (Some status) (Some d) None" and "\<not> apply_pending (Some status) None"
  shows "us_key (coreUserSyncState (Some status) (Some d) None False (Some err)) = SyncUnknown
    \<and> us_key (coreUserSyncState (Some status) (Some d) None False None) = InSync
    \<and> (zh_ch_config, zh_ch_in_force, StatusOk) \<in> set (overview_pills (Some status) (Some d) None)"
  using assms by (simp add: coreUserSyncState_def status_job_def overview_pills_def Let_def is_on_def)

lemma port_card_tone:
  "fst (pt_pill (CorePortDiagnostics tr status diagnostics)) = StatusOk \<longleftrightarrow>
     pt_rows (CorePortDiagnostics tr status diagnostics) \<noteq> [] \<and> (\<forall>(cells, listening) \<in> set (pt_rows (CorePortDiagnostics tr status diagnostics)). listening)"
  by (auto simp: CorePortDiagnostics_def Let_def list_ex_iff)

lemma panel_tone:
  "dp_tone (CoreDiagnosticsPanel tr diagnostics loading err) = StatusOk \<longleftrightarrow> dp_advice (CoreDiagnosticsPanel tr diagnostics loading err) = None"
  by (simp add: CoreDiagnosticsPanel_def Let_def)

end
