(* ===== verification/InboundCards.thy ===== *)
theory InboundCards
  imports InboundList
begin

text \<open>
  \<^verbatim>\<open>src/web/src/routes/InboundsPage.tsx\<close>, what a card of the list shows: the title and the badges of a
  node, its traffic, the panel of its clients with the button that opens it, and the row of a client with its
  usage.
\<close>

section \<open>Texts\<close>

text \<open>The non-ASCII texts of this part of the user interface, as UTF-8 bytes.\<close>

definition zh_abnormal :: string where
  "zh_abnormal = [CHR 0xE5, CHR 0xBC, CHR 0x82, CHR 0xE5, CHR 0xB8, CHR 0xB8]"

definition zh_in_service :: string where
  "zh_in_service = [CHR 0xE8, CHR 0xBF, CHR 0x90, CHR 0xE8, CHR 0xA1, CHR 0x8C, CHR 0xE4, CHR 0xB8, CHR 0xAD]"

definition zh_out_of_service :: string where
  "zh_out_of_service = [CHR 0xE5, CHR 0xB7, CHR 0xB2, CHR 0xE5, CHR 0x81, CHR 0x9C, CHR 0xE7, CHR 0x94, CHR 0xA8]"

definition zh_port_ic :: string where
  "zh_port_ic = [CHR 0xE7, CHR 0xAB, CHR 0xAF, CHR 0xE5, CHR 0x8F, CHR 0xA3]"

definition zh_no_security :: string where
  "zh_no_security = [CHR 0xE6, CHR 0x97, CHR 0xA0, CHR 0xE5, CHR 0xAE, CHR 0x89, CHR 0xE5, CHR 0x85, CHR 0xA8, CHR 0xE5,
    CHR 0xB1, CHR 0x82]"

definition zh_node_total :: string where
  "zh_node_total = [CHR 0xE5, CHR 0x85, CHR 0xA5, CHR 0xE7, CHR 0xAB, CHR 0x99, CHR 0xE7, CHR 0xB4, CHR 0xAF, CHR 0xE8,
    CHR 0xAE, CHR 0xA1, CHR 0xE6, CHR 0xB5, CHR 0x81, CHR 0xE9, CHR 0x87, CHR 0x8F]"

definition zh_up_slash_ic :: string where
  "zh_up_slash_ic = [CHR 0x20, CHR 0xE2, CHR 0x86, CHR 0x91, CHR 0x20, CHR 0x2F, CHR 0x20]"

definition zh_down_end_ic :: string where
  "zh_down_end_ic = [CHR 0x20, CHR 0xE2, CHR 0x86, CHR 0x93]"

definition zh_node_rate :: string where
  "zh_node_rate = [CHR 0xE5, CHR 0x85, CHR 0xA5, CHR 0xE7, CHR 0xAB, CHR 0x99, CHR 0xE5, CHR 0xAE, CHR 0x9E, CHR 0xE6,
    CHR 0x97, CHR 0xB6, CHR 0xE6, CHR 0xB5, CHR 0x81, CHR 0xE9, CHR 0x87, CHR 0x8F]"

definition zh_search_hit :: string where
  "zh_search_hit = [CHR 0xE6, CHR 0x90, CHR 0x9C, CHR 0xE7, CHR 0xB4, CHR 0xA2, CHR 0xE5, CHR 0x91, CHR 0xBD, CHR 0xE4,
    CHR 0xB8, CHR 0xAD]"

definition zh_fold_up :: string where
  "zh_fold_up = [CHR 0xE6, CHR 0x94, CHR 0xB6, CHR 0xE8, CHR 0xB5, CHR 0xB7]"

definition zh_fold_out :: string where
  "zh_fold_out = [CHR 0xE5, CHR 0xB1, CHR 0x95, CHR 0xE5, CHR 0xBC, CHR 0x80]"

definition zh_opened_by_search :: string where
  "zh_opened_by_search = [CHR 0xE6, CHR 0x90, CHR 0x9C, CHR 0xE7, CHR 0xB4, CHR 0xA2, CHR 0xE5, CHR 0x91, CHR 0xBD, CHR 0xE4,
    CHR 0xB8, CHR 0xAD, CHR 0xE7, CHR 0x9A, CHR 0x84, CHR 0xE5, CHR 0xAE, CHR 0xA2, CHR 0xE6, CHR 0x88,
    CHR 0xB7, CHR 0xE7, CHR 0xAB, CHR 0xAF, CHR 0xE5, CHR 0xB7, CHR 0xB2, CHR 0xE8, CHR 0x87, CHR 0xAA,
    CHR 0xE5, CHR 0x8A, CHR 0xA8, CHR 0xE5, CHR 0xB1, CHR 0x95, CHR 0xE5, CHR 0xBC, CHR 0x80]"

definition zh_client_rate :: string where
  "zh_client_rate = [CHR 0xE5, CHR 0xAE, CHR 0xA2, CHR 0xE6, CHR 0x88, CHR 0xB7, CHR 0xE7, CHR 0xAB, CHR 0xAF, CHR 0xE5,
    CHR 0xAE, CHR 0x9E, CHR 0xE6, CHR 0x97, CHR 0xB6, CHR 0xE6, CHR 0xB5, CHR 0x81, CHR 0xE9, CHR 0x87,
    CHR 0x8F]"

lemmas texts_InboundCards =
  zh_abnormal_def zh_in_service_def zh_out_of_service_def zh_port_ic_def zh_no_security_def
  zh_node_total_def zh_up_slash_ic_def zh_down_end_ic_def zh_node_rate_def zh_search_hit_def
  zh_fold_up_def zh_fold_out_def zh_opened_by_search_def zh_client_rate_def

lemma texts_nonempty_InboundCards [simp]:
  "zh_abnormal \<noteq> []" "zh_in_service \<noteq> []" "zh_out_of_service \<noteq> []" "zh_port_ic \<noteq> []"
  "zh_no_security \<noteq> []" "zh_node_total \<noteq> []" "zh_up_slash_ic \<noteq> []" "zh_down_end_ic \<noteq> []"
  "zh_node_rate \<noteq> []" "zh_search_hit \<noteq> []" "zh_fold_up \<noteq> []" "zh_fold_out \<noteq> []"
  "zh_opened_by_search \<noteq> []" "zh_client_rate \<noteq> []"
  by (simp_all add: texts_InboundCards)

section \<open>The card of a node\<close>

definition protocol_badges :: "(string \<times> string) list" where
  "protocol_badges = [(''vless'', ''protocol-vless''), (''vmess'', ''protocol-vmess''), (''trojan'', ''protocol-trojan''),
     (''shadowsocks'', ''protocol-shadowsocks''), (''hysteria2'', ''protocol-hysteria2''), (''socks'', ''protocol-socks''),
     (''http'', ''protocol-http''), (''tuic'', ''protocol-tuic''), (''shadowtls'', ''protocol-shadowtls'')]"

definition ProtocolBadge :: "string \<Rightarrow> string \<times> string" where \<comment> \<open>the class and the text\<close>
  "ProtocolBadge protocol =
     (case map_of protocol_badges (toLowerCase protocol) of Some c \<Rightarrow> c | None \<Rightarrow> ''protocol-default'', str_or protocol ''unknown'')"

datatype status_mark = Abnormal string | On string | Off string

definition InboundStatusBadge :: "(string \<Rightarrow> string) \<Rightarrow> inbound \<Rightarrow> traffic_inbound option \<Rightarrow> status_mark" where
  "InboundStatusBadge tr inb traffic =
     (if inboundNeedsAttention inb traffic then Abnormal (tr zh_abnormal)
      else if is_on (ib_enabled inb) then On (tr zh_in_service) else Off (tr zh_out_of_service))"

definition InboundMeta :: "(string \<Rightarrow> string) \<Rightarrow> inbound \<Rightarrow> string list" where
  "InboundMeta tr inb =
     (let security = str_or (ib_security inb) ''none'' in
      [tr zh_port_ic @ '' '' @ int_str (ib_port inb), str_or (ib_network inb) ''tcp'',
       if security = ''none'' then tr zh_no_security else security])"

record metric_tile =
  mt_label :: string
  mt_value :: string
  mt_sub :: string
  mt_title :: "string option"

definition InboundTrafficMetrics :: "(string \<Rightarrow> string) \<Rightarrow> traffic_inbound option \<Rightarrow> metric_tile list" where
  "InboundTrafficMetrics tr traffic =
     (let c = inboundCumulative traffic; r = inboundRealtime traffic;
          hint = (\<lambda>source status message.
            trafficHint (Some (tr_observed_at r)) (Some (tr_window_seconds r)) (Some source) (Some status) (Some message) tr)
      in [\<lparr>mt_label = tr zh_node_total, mt_value = formatBytes (Some (of_int (tm_total c))),
           mt_sub = formatBytes (Some (of_int (tm_up c))) @ zh_up_slash_ic @ formatBytes (Some (of_int (tm_down c))) @ zh_down_end_ic,
           mt_title = hint (tm_source c) (tm_status c) (tm_message c)\<rparr>,
          \<lparr>mt_label = tr zh_node_rate, mt_value = rateLabel (tr_rate_up r) (tr_rate_down r) tr (Some (tr_status r)),
           mt_sub = trafficStatusInline (Some (tr_status r)) tr,
           mt_title = hint (tr_source r) (tr_status r) (tr_message r)\<rparr>])"

section \<open>The clients of a node\<close>

record client_panel =
  cp_count :: nat
  cp_open :: bool
  cp_usable :: bool \<comment> \<open>whether the button that opens and closes it can be used\<close>
  cp_button :: string
  cp_hint :: "string option"

definition client_panel :: "(string \<Rightarrow> string) \<Rightarrow> list_page \<Rightarrow> inbound list \<Rightarrow> inbound \<Rightarrow> client_panel" where
  "client_panel tr page inbounds inb =
     (let clientsExpanded = (ib_id inb \<in> displayedExpandedClients page inbounds);
          clientsAutoExpanded = (ib_id inb \<in> searchClientMatches page inbounds)
      in \<lparr>cp_count = length (olist (ib_clients inb)), cp_open = clientsExpanded, cp_usable = (\<not> clientsAutoExpanded),
          cp_button = tr (if clientsAutoExpanded then zh_search_hit else if clientsExpanded then zh_fold_up else zh_fold_out),
          cp_hint = (if clientsAutoExpanded then Some (tr zh_opened_by_search) else None)\<rparr>)"

datatype usage_row = Bar rat usage_tone string | Line string | NoUsage

record client_row =
  cr_name :: string
  cr_enabled :: bool
  cr_label :: string
  cr_percent :: "string option"
  cr_usage :: usage_row
  cr_share :: bool

definition ClientRow :: "(string \<Rightarrow> string) \<Rightarrow> client \<Rightarrow> traffic_client option \<Rightarrow> bool \<Rightarrow> client_row" where
  "ClientRow tr c traffic shareSupported =
     (let cumulative = clientCumulative traffic;
          used = tm_total cumulative;
          limit = oint (cl_traffic_limit c);
          usage = clientUsageSummary (cl_traffic_limit c) cumulative tr;
          live = clientRealtime traffic;
          hint = trafficHint (Some (tr_observed_at live)) (Some (tr_window_seconds live)) (Some (tr_source live))
            (Some (tr_status live)) (Some (tr_message live)) tr;
          title = tr zh_client_rate @ '': '' @ rateLabel (tr_rate_up live) (tr_rate_down live) tr (Some (tr_status live))
            @ (case hint of Some h \<Rightarrow> CHR 0x0A # h | None \<Rightarrow> [])
      in \<lparr>cr_name = cl_email c, cr_enabled = is_on (cl_enabled c), cr_label = us_label usage,
          cr_percent = (if us_percentLabel usage \<noteq> [] then Some (us_percentLabel usage) else None),
          cr_usage = (if limit > 0 then Bar (bar_width (us_percent usage)) (us_tone usage) title
                      else if used > 0 then Line title else NoUsage),
          cr_share = shareSupported\<rparr>)"

section \<open>What the user can open\<close>

text \<open>
  
  The button of a node's clients does what its label says: a panel that can be closed is closed by it, one that is
  closed is opened, the only panels it can close besides are those of other nodes that were opened by hand, and a panel
  that a search opened stays open and offers no button, whatever is toggled.
\<close>

theorem panel_button_does_what_it_says:
  assumes "inb \<in> set inbounds"
  shows "let panel = client_panel tr page inbounds inb; page' = toggleClientPanel (ib_id inb) page in
    (cp_usable panel \<longrightarrow> cp_open (client_panel tr page' inbounds inb) = (\<not> cp_open panel))
    \<and> (\<not> cp_usable panel \<longrightarrow> cp_open panel \<and> cp_open (client_panel tr page' inbounds inb))
    \<and> (\<forall>other \<in> set inbounds. ib_id other \<noteq> ib_id inb \<longrightarrow>
         cp_open (client_panel tr page' inbounds other) = (\<not> cp_usable (client_panel tr page inbounds other)))"
  by (auto simp: client_panel_def Let_def toggleClientPanel_def displayedExpandedClients_def searchClientMatches_def)

theorem panel_button_does_what_it_says_witness:
  "cp_open (client_panel (\<lambda>s. s) (toggleClientPanel (ib_id listed_inbound) initial_page) [listed_inbound] listed_inbound)"
  using panel_button_does_what_it_says [of listed_inbound "[listed_inbound]" "\<lambda>s. s" initial_page]
  by (simp add: Let_def client_panel_def initial_page_def displayedExpandedClients_def searchClientMatches_def trim_Nil)

lemma row_shows_bar_for_limit:
  "cr_usage (ClientRow tr c traffic shared) = NoUsage \<longleftrightarrow>
     oint (cl_traffic_limit c) \<le> 0 \<and> tm_total (clientCumulative traffic) \<le> 0"
  by (simp add: ClientRow_def Let_def)

lemma attention_is_marked:
  "(\<exists>t. InboundStatusBadge tr inb traffic = Abnormal t) \<longleftrightarrow> inboundNeedsAttention inb traffic"
  by (simp add: InboundStatusBadge_def)

end
