(* ===== verification/Spec2Isabelle.thy ===== *)
theory Spec2Isabelle
  imports Login JobTracker Endpoints TopologyProps TopologyLayout InboundViewProps InboundList RoutingProps
    OutboundProps SettingsProps SettingsActions CoreProps PageWrites MessageTranslation FrameProps
    RoutingView OutboundView OverviewView CoreView InboundCards
begin

text \<open>
  \<^bold>\<open>The MiGate web panel.\<close>

  MiGate manages two proxy cores, Xray and sing-box, on one host. The server is written in Go; the panel, which this
  development is about, is the React application under \<^verbatim>\<open>src/web/src\<close>. Its pages read lists and
  snapshots from the server through a cache of queries, edit inbounds with their clients, outbounds with their
  subscriptions, routing rules and the settings in dialogs, and send each change in one request. A change of the configuration
  is applied to the cores by a background job of the server, which the panel follows by polling.

  \<^bold>\<open>Conventions.\<close> A function of the source is a HOL function of the same name; where two files use one
  name, or HOL has it, the name gets a suffix. Interfaces are records, with a two-letter prefix on the fields; an optional
  field is an \<open>option\<close>, and so is a flag the code compares with \<^verbatim>\<open>false\<close> or
  \<^verbatim>\<open>true\<close>. Strings are UTF-8 bytes; each Chinese text of the interface is a constant \<open>zh_...\<close>. A
  value that the language does not type (a payload, an index signature) is a \<open>jsval\<close>. Numbers of the source are
  integers or rationals: the panel computes with counts, ports, identifiers and byte sizes far below \<open>2\<^sup>5\<^sup>3\<close>, where the
  doubles of JavaScript are exact; rounding that the code asks for is modelled. State is passed explicitly, as a record per
  component; effects of React are functions that run after the handler. An exception is a branch: \<open>Inl\<close> of a
  \<open>failure\<close> for a request, \<open>None\<close> for a \<^verbatim>\<open>TypeError\<close>.

  \<^bold>\<open>Parameters.\<close> What is not under \<^verbatim>\<open>src\<close> is an argument: the collation \<open>lc\<close> of \<^verbatim>\<open>localeCompare\<close>, the calendar and clock formats of
  \<^verbatim>\<open>Date\<close>, the \<^verbatim>\<open>URL\<close> class (\<open>url_parts\<close>, with the hypothesis \<open>url_splits\<close> that it splits an
  ordinary web address), the draws of \<^verbatim>\<open>crypto.randomUUID\<close>, the current time, and every answer of the server. Witnesses
  instantiate them with concrete functions. The pages take the translation of a text from their context, so it is an argument \<open>tr\<close> of their
  operations as well; \<open>MessageTranslation\<close> joins them with the translation of the panel.

  \<^bold>\<open>Theories, and the sources they model.\<close>

  \<^item> \<open>Prelude\<close>, \<open>Collections\<close>, \<open>JSValue\<close>: string, number, \<^verbatim>\<open>Map\<close>, \<^verbatim>\<open>Set\<close> and
    sorting operations of JavaScript, the shared simplification rules, and the interfaces \<open>keyed_store\<close>,
    \<open>ordered_store\<close>, \<open>total_preorder\<close> and \<open>normaliser\<close>, each interpreted on the definitions of the model.
  \<^item> \<open>ApiTypes\<close> (\<^verbatim>\<open>api/types.ts\<close>), \<open>Urls\<close> and \<open>ApiClient\<close> (\<^verbatim>\<open>api/client.ts\<close>: mount prefix, request,
    answer, error, redirect to the login), \<open>Endpoints\<close> (the tables of \<^verbatim>\<open>api/*.ts\<close>), \<open>Login\<close>
    (\<^verbatim>\<open>routes/LoginPage.tsx\<close>, the guard of \<^verbatim>\<open>App.tsx\<close>). The interface \<open>escape\<close> is interpreted on both percent
    encoders; that the page after a login is the page that was left rests on it.
  \<^item> \<open>Cores\<close> (\<^verbatim>\<open>lib/cores.ts\<close>, \<^verbatim>\<open>lib/routing.ts\<close>), \<open>Format\<close> (\<^verbatim>\<open>lib/format.ts\<close>),
    \<open>QueryInvalidation\<close> (\<^verbatim>\<open>lib/queryInvalidation.ts\<close>).
  \<^item> \<open>CoreApply\<close> and \<open>JobTracker\<close> (\<^verbatim>\<open>lib/coreApply.ts\<close>): what a write response is reported as, as a refinement of the
    abstract \<open>write_outcome\<close>, and the polling of apply jobs as a step relation with its reachable states.
  \<^item> \<open>CoreStatus\<close>, \<open>CoreHealth\<close>, \<open>CoreActions\<close>, \<open>CoreProps\<close> (\<^verbatim>\<open>routes/CorePage.tsx\<close>): labels, diagnosis and
    suggestions; the verdicts on the configuration and on the core; the operations, their answers and the polling of the status.
    \<open>CoreView\<close>: the buttons with the questions they ask, and the cards.
  \<^item> \<open>Topology\<close>, \<open>TopologyFacts\<close>, \<open>TopologyProps\<close> (\<^verbatim>\<open>routes/topologyGraph.ts\<close>) and \<open>TopologyLayout\<close>
    (\<^verbatim>\<open>routes/TopologyPage.tsx\<close>): the graph of what is connected to what, closed forms of its loops, its properties, its layout.
  \<^item> \<open>Traffic\<close> and \<open>Overview\<close> (\<^verbatim>\<open>routes/OverviewPage.tsx\<close>): the stream of traffic patches, the texts and the chart. \<open>OverviewView\<close>: the
    alerts, the summary cards and the choices of the traffic card.
  \<^item> \<open>InboundCaps\<close>, \<open>Credentials\<close>, \<open>Clients\<close>, \<open>InboundForms\<close>, \<open>InboundPayload\<close>, \<open>InboundDialog\<close>,
    \<open>InboundList\<close> (\<^verbatim>\<open>routes/InboundsPage.tsx\<close>, \<^verbatim>\<open>routes/InboundsPageForms.tsx\<close>): which protocol, network and security go
    together, credentials, the client form, the inbound form and its payload, the dialog as a state machine, the list.
    \<open>InboundView\<close>, \<open>InboundViewProps\<close>: which inputs the dialogs show, what their selections offer, the masked
    credentials, and the client dialog over the properties it is given. \<open>InboundCards\<close>: the cards of the list.
  \<^item> \<open>Routing\<close>, \<open>RoutingForm\<close>, \<open>RoutingProps\<close> (\<^verbatim>\<open>routes/RoutingPage.tsx\<close>) and \<open>Outbounds\<close>, \<open>OutboundForms\<close>,
    \<open>OutboundProps\<close> (\<^verbatim>\<open>routes/OutboundsPage.tsx\<close>): lists, forms, diagnostics, paging, order. Moving an entry is the interface
    \<open>id_mover\<close> of \<open>Reorder\<close>, interpreted for rules, outbounds and subscriptions. \<open>RoutingView\<close> and
    \<open>OutboundView\<close>: the state of the pages, their cards and pagers, the pickers and inputs of their dialogs.
  \<^item> \<open>Settings\<close>, \<open>Updates\<close>, \<open>Certificates\<close>, \<open>SettingsProps\<close> (\<^verbatim>\<open>routes/SettingsPage.tsx\<close>): the form and what saving it
    sends, the update console and its watch, the certificate manager. \<open>SettingsActions\<close>: what each button asks, sends, and does with
    the answer.

  \<^item> \<open>Patterns\<close>, \<open>TranslationTable\<close>, \<open>Translation\<close>, \<open>TranslationFacts\<close>, \<open>TranslationData\<close>, \<open>TranslationProps\<close>
    (\<^verbatim>\<open>lib/i18n.tsx\<close>): the dictionary, the rules with their regular expressions, the translation of a text, the computed
    facts about the tables, and its properties; \<open>TranslationDom\<close> translates a rendered page in place and back, and
    \<open>MessageTranslation\<close> follows the messages of the pages into English.
  \<^item> \<open>Frame\<close>, \<open>FrameProps\<close> (\<^verbatim>\<open>components/ui.tsx\<close>, \<^verbatim>\<open>layouts/AppLayout.tsx\<close>, the routes of
    \<^verbatim>\<open>App.tsx\<close>, \<^verbatim>\<open>lib/clipboard.ts\<close>, \<^verbatim>\<open>lib/visibility.ts\<close>): messages and their timers, questions, language and
    theme, the menu and the addresses, copying.
  \<^item> \<open>PageWrites\<close>: the mutations of all pages, from the request over the answer to the message, the jobs followed and the queries
    asked anew. It composes \<open>Endpoints\<close>, \<open>CoreApply\<close>, \<open>JobTracker\<close> and \<open>QueryInvalidation\<close>; the theorem about this
    composition is in this theory.

  \<^bold>\<open>What the lemmas show.\<close> Invariants of the state machines (job tracker, inbound dialog, traffic stream, certificate manager, latency
  tests, update watch) are proved step by step and by induction over the runs. Forms are shown to be stable: what was
  saved opens as what was typed. Verdicts (routing diagnostics, core health, topology lines, write reports) are characterised by conditions on the data
  or on an abstract outcome. Loops are structural recursions, or \<open>function\<close>s with a measure (the search for
  a free client name, stripping of white space, the replacement of a pattern, the translation of a text, whose groups are shorter than the text); no function needs fuel except the printing of decimal fractions, which stops after
  the twenty digits JavaScript writes at most without an exponent.

  \<^bold>\<open>Not modelled.\<close> The Go server and the installation scripts (another language); the markup, styles and icons of the
  pages, components that only arrange what they are given, and toggles that only fold a section; the
  libraries (React, the query cache beyond which keys are asked anew, the form library beyond the
  values it hands over, the chart and graph widgets); tests; generated files.
\<close>

section \<open>A write, from the answer to the lists\<close>

definition followed_jobs :: "panel_write \<Rightarrow> jsval \<Rightarrow> apply_job set" where
  "followed_jobs m response = (case m of TrafficReset _ _ \<Rightarrow> {} | _ \<Rightarrow> running_jobs (seen_response m response))"

lemma topology_calls:
  "q \<in> {''inbounds'', ''outbounds'', ''routing-rules'', ''dashboard-summary'', ''traffic-v2-snapshot'', ''traffic-v2-analytics''} \<Longrightarrow>
     asked_anew (panel_refresh m) [q]"
  by (cases m) (auto simp: panel_refresh_def asked_anew_def refreshOutboundDependencies_def refreshTopologyDependencies_def
      invalidateTrafficV2Snapshot_def invalidateTrafficV2Analytics_def)

lemma toasts_followed: "tk_toasts (trackCoreApplyJobsFromResponse r s) = tk_toasts s"
  by (simp add: trackCoreApplyJobsFromResponse_def scheduleCoreApplyJobPoll_def Let_def split: option.splits)

definition one_report :: "tracker \<Rightarrow> tracker \<Rightarrow> write_outcome \<Rightarrow> bool" where \<comment> \<open>exactly one message, in the tone of the outcome\<close>
  "one_report s s' out \<longleftrightarrow> (\<exists>t. tk_toasts s' = tk_toasts s @ [t] \<and> to_title t \<noteq> []
     \<and> (to_tone t = ToneError \<longleftrightarrow> is_failure out) \<and> (to_tone t = ToneSuccess \<longleftrightarrow> is_silent out))"

definition follows :: "tracker \<Rightarrow> tracker \<Rightarrow> apply_job set \<Rightarrow> bool" where \<comment> \<open>these jobs are tracked, and the timer runs for them\<close>
  "follows s s' js \<longleftrightarrow> fst ` set (tk_jobs s') = fst ` set (tk_jobs s) \<union> aj_id ` js
     \<and> (js \<noteq> {} \<longrightarrow> tk_timer s' = Some (tk_token s'))"

lemma follows_toast [simp]: "follows s (add_toast t s') js = follows s s' js"
  by (simp add: follows_def add_toast_def)

lemma follows_nothing: "js = {} \<Longrightarrow> follows s s js"
  by (simp add: follows_def)

lemma follows_tracked:
  assumes "tk_fetcher s"
  shows "follows s (trackCoreApplyJobsFromResponse (read_core_write r) s) (running_jobs r)"
  using tracking [OF assms, of r] by (auto simp: follows_def)

lemma no_report_no_jobs:
  assumes "read_core_write r = None \<or> (\<exists>data. read_core_write r = Some data \<and> is_silent (classify_write data))"
  shows "running_jobs r = {}"
proof (cases "read_core_write r")
  case None
  then show ?thesis by (simp add: running_jobs_def)
next
  case (Some data)
  then show ?thesis using assms running_not_silent [OF Some] by auto
qed

lemma list_write_reported:
  assumes "\<forall>x. x \<noteq> [] \<longrightarrow> tr x \<noteq> []" and "tk_fetcher s" and "fin \<noteq> []"
  shows "one_report s (list_write_done w tr na fin r s)
           (case read_core_write r of None \<Rightarrow> Clean | Some data \<Rightarrow> classify_write data)
    \<and> follows s (list_write_done w tr na fin r s) (running_jobs r)"
proof (cases "read_core_write r")
  case None
  then show ?thesis
    using assms no_report_no_jobs [of r]
    by (simp add: list_write_cases one_report_def add_toast_def [of _ s] plain_toast_def is_failure_def is_silent_def follows_def)
next
  case (Some data)
  show ?thesis
  proof (cases "is_silent (classify_write data)")
    case True
    then show ?thesis
      using assms Some no_report_no_jobs [of r] silent_means_no_failure [OF True]
      by (simp add: list_write_cases one_report_def add_toast_def plain_toast_def follows_def)
  next
    case False
    then have "tr (report na data (classify_write data)) \<noteq> []" using assms(1) report_silent by blast
    then show ?thesis
      using False Some follows_tracked [OF assms(2), of r]
      by (simp add: list_write_cases one_report_def) (simp add: add_toast_def toasts_followed)
  qed
qed

lemma form_write_reported:
  assumes "\<forall>x. x \<noteq> [] \<longrightarrow> tr x \<noteq> []" and "tk_fetcher s" and "fin \<noteq> []"
  shows "one_report s (form_write_done tr na fin r s)
           (case read_core_write r of None \<Rightarrow> Clean | Some data \<Rightarrow> classify_write data)
    \<and> follows s (form_write_done tr na fin r s) (running_jobs r)"
proof (cases "read_core_write r")
  case None
  then show ?thesis
    using assms no_report_no_jobs [of r]
    by (simp add: form_write_cases one_report_def add_toast_def [of _ s] plain_toast_def is_failure_def is_silent_def follows_def)
next
  case (Some data)
  have "tr (report na data (classify_write data)) \<noteq> []" if "\<not> is_silent (classify_write data)"
    using assms(1) report_silent that by blast
  then show ?thesis
    using assms Some follows_tracked [OF assms(2), of r] silent_means_no_failure [of "classify_write data"]
    by (simp add: form_write_cases one_report_def) (auto simp: add_toast_def toasts_followed plain_toast_def)
qed


definition queued_answer :: jsval where
  "queued_answer = JObj [(''config_changed'', JBool True), (''auto_apply'', JObj [(''xray'',
     JObj [(''id'', JStr ''j1''), (''core'', JStr ''xray''), (''status'', JStr ''queued'')])])]"

lemma queued_answer_job:
  "\<exists>data j. read_core_write queued_answer = Some data \<and> cw_config_changed data = Some True
     \<and> (''xray'', Some j) \<in> set (cw_auto_apply data) \<and> aj_id j = ''j1'' \<and> coreApplyJobActive (Some j)"
  by (simp add: queued_answer_def read_core_write_def is_object_def bool_field_def entries_field_def js_field_def read_job_def
      string_field_def coreApplyJobActive_def lower_char_def)


end
